(* ===== verification/Platform_Prelude.thy ===== *)
theory Platform_Prelude
  imports Main
begin

text \<open>
  Shared vocabulary of the development: identifiers and clock values, results that are an
  error or a value, table rows and their updates, database constraints, and the interfaces
  (locales) that the service models implement.

  A service method of the code opens on a database session, reads rows, may raise, and ends
  in one commit. Its model is a function from the database state to \<open>'e + 'db \<times> 'r\<close>: the
  error raised, or the committed state and the row returned. A method that raises commits
  nothing, because the session is closed without a commit, so the state is unchanged.
\<close>

section \<open>Identifiers, clock values, results\<close>

type_synonym uuid = nat
type_synonym timestamp = int

named_theorems svc_simps

definition bindE :: "'e + 'a \<Rightarrow> ('a \<Rightarrow> 'e + 'b) \<Rightarrow> 'e + 'b" where
  "bindE m f = (case m of Inl e \<Rightarrow> Inl e | Inr x \<Rightarrow> f x)"

definition require :: "bool \<Rightarrow> 'e \<Rightarrow> 'e + unit" where
  "require c e = (if c then Inr () else Inl e)"

definition of_option :: "'e \<Rightarrow> 'a option \<Rightarrow> 'e + 'a" where
  "of_option e x = (case x of None \<Rightarrow> Inl e | Some y \<Rightarrow> Inr y)"

lemma bindE_simps [simp]:
  "bindE (Inl e) f = Inl e"
  "bindE (Inr x) f = f x"
  by (simp_all add: bindE_def)

lemma bindE_cong [fundef_cong]:
  "m = m' \<Longrightarrow> (\<And>x. m' = Inr x \<Longrightarrow> f x = g x) \<Longrightarrow> bindE m f = bindE m' g"
  by (cases m') simp_all

lemma bindE_Inr_iff [simp]:
  "bindE m f = Inr y \<longleftrightarrow> (\<exists>x. m = Inr x \<and> f x = Inr y)"
  by (cases m) simp_all

lemma bindE_Inl_iff:
  "bindE m f = Inl e \<longleftrightarrow> m = Inl e \<or> (\<exists>x. m = Inr x \<and> f x = Inl e)"
  by (cases m) auto

lemma require_Inr_iff [simp]: "require c e = Inr u \<longleftrightarrow> c"
  by (simp add: require_def)

lemma require_Inl_iff [simp]: "require c e = Inl e' \<longleftrightarrow> \<not> c \<and> e' = e"
  by (auto simp: require_def)

lemma require_simps [simp]: "require True e = Inr ()" "require False e = Inl e"
  by (simp_all add: require_def)

lemma of_option_Inr_iff [simp]: "of_option e x = Inr y \<longleftrightarrow> x = Some y"
  by (auto simp: of_option_def split: option.splits)

lemma of_option_Inl_iff [simp]: "of_option e x = Inl e' \<longleftrightarrow> x = None \<and> e' = e"
  by (auto simp: of_option_def split: option.splits)

lemma of_option_simps [simp]: "of_option e None = Inl e" "of_option e (Some y) = Inr y"
  by (simp_all add: of_option_def)

section \<open>Tables\<close>

text \<open>
  A table is the list of its rows in insertion order. A query that names a unique key is
  \<open>find\<close>; \<open>put_row\<close> writes a mutated row back under its primary key.
\<close>

definition put_row :: "('r \<Rightarrow> uuid) \<Rightarrow> 'r \<Rightarrow> 'r list \<Rightarrow> 'r list" where
  "put_row pk r rs = map (\<lambda>x. if pk x = pk r then r else x) rs"

definition unique_on :: "('r \<Rightarrow> 'k) \<Rightarrow> 'r list \<Rightarrow> bool" where
  "unique_on key rs = distinct (map key rs)"

lemma ex_Not [simp]: "Ex Not"
  by (rule exI [of _ False]) simp

lemma another_element:
  assumes "distinct xs" "x \<in> set xs" "length xs \<noteq> 1"
  obtains y where "y \<in> set xs" "y \<noteq> x"
proof (cases "set xs = {x}")
  case True
  with distinct_card [OF assms(1)] assms(3) show ?thesis by simp
next
  case False
  with assms(2) that show ?thesis by blast
qed

text \<open>A unique constraint with a nullable column ignores the rows where it is null.\<close>

definition unique_on_some :: "('r \<Rightarrow> 'k option) \<Rightarrow> 'r list \<Rightarrow> bool" where
  "unique_on_some key rs = distinct (map key (filter (\<lambda>r. key r \<noteq> None) rs))"

lemma find_SomeD: "find P xs = Some x \<Longrightarrow> x \<in> set xs \<and> P x"
  by (auto simp: find_Some_iff)

lemma find_NoneD: "find P xs = None \<Longrightarrow> x \<in> set xs \<Longrightarrow> \<not> P x"
  by (auto simp: find_None_iff)

lemma put_row_pk [simp]: "map pk (put_row pk r rs) = map pk rs"
  by (simp add: put_row_def)

lemma put_row_keys: "pk ` set (put_row pk r rs) = pk ` set rs"
  by (metis put_row_pk set_map)

lemma length_put_row [simp]: "length (put_row pk r rs) = length rs"
  by (simp add: put_row_def)

lemma set_put_row: "set (put_row pk r rs) \<subseteq> insert r (set rs)"
  by (auto simp: put_row_def)

lemma in_put_row_iff:
  "x \<in> set (put_row pk r rs) \<longleftrightarrow>
     (x \<in> set rs \<and> pk x \<noteq> pk r) \<or> (x = r \<and> pk r \<in> pk ` set rs)"
  by (auto simp: put_row_def image_iff) (metis)+

lemma unique_on_eq: "unique_on key rs \<Longrightarrow> x \<in> set rs \<Longrightarrow> y \<in> set rs \<Longrightarrow> key x = key y \<Longrightarrow> x = y"
  unfolding unique_on_def by (simp add: distinct_map inj_on_def)

lemma unique_on_some_eq:
  assumes "unique_on_some key rs" "x \<in> set rs" "y \<in> set rs" "key x = key y" "key x \<noteq> None"
  shows "x = y"
  using assms unfolding unique_on_some_def by (auto simp: distinct_map inj_on_def)

lemma unique_on_put_row [simp]: "unique_on pk (put_row pk r rs) = unique_on pk rs"
  by (simp add: unique_on_def)

lemma unique_on_Nil [simp]: "unique_on key []"
  by (simp add: unique_on_def)

lemma unique_on_snoc: "unique_on key (rs @ [r]) \<longleftrightarrow> unique_on key rs \<and> key r \<notin> key ` set rs"
  by (auto simp: unique_on_def)

lemma map_put_row:
  assumes "unique_on pk rs" "r0 \<in> set rs" "pk r = pk r0" "f r = f r0"
  shows "map f (put_row pk r rs) = map f rs"
proof -
  have "f (if pk x = pk r then r else x) = f x" if "x \<in> set rs" for x
    using that assms unique_on_eq [OF assms(1) that assms(2)] by auto
  then show ?thesis by (simp add: put_row_def)
qed

lemma find_put_row_same:
  assumes "r0 \<in> set rs" "pk r = pk r0" "pk r = i"
  shows "find (\<lambda>x. pk x = i) (put_row pk r rs) = Some r"
  using assms by (induction rs) (auto simp: put_row_def)

lemma find_put_row_other:
  assumes "pk r \<noteq> i"
  shows "find (\<lambda>x. pk x = i) (put_row pk r rs) = find (\<lambda>x. pk x = i) rs"
  using assms by (induction rs) (auto simp: put_row_def)

lemma find_pk_unique:
  assumes "unique_on pk rs" "r \<in> set rs"
  shows "find (\<lambda>x. pk x = pk r) rs = Some r"
  using assms by (induction rs) (auto simp: unique_on_def)

lemma filter_map_replace:
  assumes "\<forall>x \<in> set rs. pk x = pk r \<longrightarrow> \<not> P x" "\<not> P r"
  shows "filter P (map (\<lambda>x. if pk x = pk r then r else x) rs) = filter P rs"
  using assms by (induction rs) auto

lemma filter_put_row:
  assumes "unique_on pk rs" "r0 \<in> set rs" "pk r = pk r0" "\<not> P r0" "\<not> P r"
  shows "filter P (put_row pk r rs) = filter P rs"
proof -
  have "\<not> P x" if "x \<in> set rs" "pk x = pk r" for x
    using unique_on_eq [OF assms(1) that(1) assms(2)] that(2) assms(3,4) by simp
  then show ?thesis
    unfolding put_row_def using assms(5) by (intro filter_map_replace) auto
qed

text \<open>A selection that a rewritten row neither enters nor leaves is rewritten in place.\<close>

lemma filter_put_row_keep:
  assumes "unique_on pk rs" "r0 \<in> set rs" "pk r = pk r0" "P r = P r0"
  shows "filter P (put_row pk r rs) = put_row pk r (filter P rs)"
proof -
  have "P (if pk x = pk r then r else x) = P x" if "x \<in> set rs" for x
    using unique_on_eq [OF assms(1) that assms(2)] assms(3,4) by auto
  then have "filter (P \<circ> (\<lambda>x. if pk x = pk r then r else x)) rs = filter P rs"
    by (intro filter_cong) auto
  then show ?thesis by (simp add: put_row_def filter_map)
qed

lemma put_row_other: "pk r \<notin> pk ` set rs \<Longrightarrow> put_row pk r rs = rs"
  by (induction rs) (auto simp: put_row_def)

lemma put_row_append [simp]: "put_row pk r (xs @ ys) = put_row pk r xs @ put_row pk r ys"
  by (simp add: put_row_def)

lemma put_row_last:
  assumes "unique_on pk (xs @ [r0])" "pk r = pk r0"
  shows "put_row pk r (xs @ [r0]) = xs @ [r]"
  using assms put_row_other [of pk r xs] by (auto simp: unique_on_snoc) (simp add: put_row_def)

lemma unique_on_filter: "unique_on key rs \<Longrightarrow> unique_on key (filter P rs)"
  by (simp add: unique_on_def distinct_map_filter)

lemma list_all_put_row:
  "list_all P rs \<Longrightarrow> P r \<Longrightarrow> list_all P (put_row pk r rs)"
  by (auto simp: put_row_def list_all_iff)

lemma find_append: "find P (xs @ ys) = (case find P xs of None \<Rightarrow> find P ys | Some x \<Rightarrow> Some x)"
  by (induction xs) auto

text \<open>
  Reading a row by its identifier within an organization, and what a later read by
  identifier finds once a row was written back.
\<close>

definition tenant_get ::
    "('r \<Rightarrow> uuid) \<Rightarrow> ('r \<Rightarrow> uuid) \<Rightarrow> 'e \<Rightarrow> 'r list \<Rightarrow> uuid \<Rightarrow> uuid \<Rightarrow> 'e + 'r" where
  "tenant_get pk owner e rs org i = of_option e (find (\<lambda>r. pk r = i \<and> owner r = org) rs)"

lemma tenant_getD:
  "tenant_get pk owner e rs org i = Inr r \<Longrightarrow> r \<in> set rs \<and> pk r = i \<and> owner r = org"
  unfolding tenant_get_def by (auto dest: find_SomeD)

lemma tenant_get_unique:
  assumes "unique_on pk rs" "r \<in> set rs"
  shows "tenant_get pk owner e rs (owner r) (pk r) = Inr r"
proof (cases "find (\<lambda>x. pk x = pk r \<and> owner x = owner r) rs")
  case None
  then show ?thesis using find_NoneD [OF None assms(2)] by simp
next
  case (Some t)
  then show ?thesis
    using find_SomeD [OF Some] unique_on_eq [OF assms(1), of t r] assms(2)
    by (simp add: tenant_get_def)
qed

lemma find_pk_put:
  assumes "unique_on pk rs" "r0 \<in> set rs" "pk r = pk r0"
    and "find (\<lambda>x. pk x = i) rs = Some x"
  shows "find (\<lambda>x. pk x = i) (put_row pk r rs) = Some (if pk r = i then r else x)"
    and "pk r = i \<Longrightarrow> x = r0"
proof -
  show "find (\<lambda>x. pk x = i) (put_row pk r rs) = Some (if pk r = i then r else x)"
  proof (cases "pk r = i")
    case True
    then show ?thesis using find_put_row_same [OF assms(2,3)] by simp
  next
    case False
    then show ?thesis using find_put_row_other [of pk r i rs] assms(4) by simp
  qed
  show "x = r0" if "pk r = i"
    using that assms find_SomeD [OF assms(4)] unique_on_eq [OF assms(1), of x r0] by simp
qed

text \<open>
  What one request of an organization may do to a table: nothing, add one of its own rows
  (of the shape \<open>new\<close>), or rewrite one of its own rows along \<open>ev\<close>, keeping the row's identity and owner.
\<close>

definition table_step ::
    "('r \<Rightarrow> uuid) \<Rightarrow> ('r \<Rightarrow> uuid) \<Rightarrow> ('r \<Rightarrow> bool) \<Rightarrow> ('r \<Rightarrow> 'r \<Rightarrow> bool) \<Rightarrow> uuid \<Rightarrow> 'r list \<Rightarrow> 'r list \<Rightarrow> bool" where
  "table_step pk owner new ev org rs rs' \<longleftrightarrow>
     rs' = rs \<or> (\<exists>r. rs' = rs @ [r] \<and> owner r = org \<and> new r) \<or>
     (\<exists>r r'. r \<in> set rs \<and> owner r = org \<and> pk r' = pk r \<and> owner r' = owner r \<and> ev r r' \<and>
            rs' = put_row pk r' rs)"

lemma table_step_same [simp]: "table_step pk owner new ev org rs rs"
  by (simp add: table_step_def)

lemma table_step_add: "owner r = org \<Longrightarrow> new r \<Longrightarrow> table_step pk owner new ev org rs (rs @ [r])"
  by (auto simp: table_step_def)

lemma table_step_put:
  "r \<in> set rs \<Longrightarrow> owner r = org \<Longrightarrow> pk r' = pk r \<Longrightarrow> owner r' = owner r \<Longrightarrow> ev r r' \<Longrightarrow>
     table_step pk owner new ev org rs (put_row pk r' rs)"
  unfolding table_step_def by blast

lemma some_table_step_put:
  "r \<in> set rs \<Longrightarrow> pk r' = pk r \<Longrightarrow> owner r' = owner r \<Longrightarrow> ev r r' \<Longrightarrow>
     \<exists>org. table_step pk owner new ev org rs (put_row pk r' rs)"
  by (rule exI [of _ "owner r"], rule table_step_put) simp_all

lemma table_step_row:
  assumes "table_step pk owner new ev org rs rs'" "unique_on pk rs"
    and "find (\<lambda>r. pk r = i) rs = Some x"
  shows "\<exists>x'. find (\<lambda>r. pk r = i) rs' = Some x' \<and> (x' = x \<or> ev x x')"
  using assms(1) unfolding table_step_def
proof (elim disjE exE conjE)
  assume "rs' = rs"
  with assms(3) show ?thesis by simp
next
  fix r assume "rs' = rs @ [r]"
  with assms(3) show ?thesis by (simp add: find_append)
next
  fix r r' assume r: "r \<in> set rs" "pk r' = pk r" "ev r r'" "rs' = put_row pk r' rs"
  show ?thesis
    using find_pk_put [OF assms(2) r(1,2) assms(3)] r(3,4) by (cases "pk r' = i") auto
qed

lemma table_step_kept:
  assumes "table_step pk owner new ev org rs rs'" "unique_on pk rs" "r \<in> set rs"
  obtains r' where "r' \<in> set rs'" "pk r' = pk r" "r' = r \<or> ev r r'"
proof -
  from table_step_row [OF assms(1,2) find_pk_unique [OF assms(2,3)]]
  obtain r' where f: "find (\<lambda>x. pk x = pk r) rs' = Some r'" "r' = r \<or> ev r r'" by blast
  from find_SomeD [OF f(1)] f(2) show thesis by (intro that [of r']) simp_all
qed

lemma table_step_view:
  assumes "table_step pk owner new ev org rs rs'" "unique_on pk rs" "org' \<noteq> org"
  shows "filter (\<lambda>r. owner r = org') rs' = filter (\<lambda>r. owner r = org') rs"
  using assms(1) unfolding table_step_def
proof (elim disjE exE conjE)
  fix r r' assume r: "r \<in> set rs" "owner r = org" "pk r' = pk r" "owner r' = owner r"
    "rs' = put_row pk r' rs"
  then show ?thesis
    using filter_put_row [OF assms(2) r(1,3), of "\<lambda>r. owner r = org'"] assms(3) by simp
qed (use assms(3) in auto)

text \<open>A row predicate that new rows satisfy and changes keep holds of the whole table.\<close>

lemma table_step_all:
  assumes "table_step pk owner new ev org rs rs'" "\<forall>r \<in> set rs. P r"
    and "\<And>r. new r \<Longrightarrow> P r" "\<And>r r'. P r \<Longrightarrow> ev r r' \<Longrightarrow> P r'"
  shows "\<forall>r \<in> set rs'. P r"
  using assms(1) unfolding table_step_def
proof (elim disjE exE conjE)
  fix r r' assume "r \<in> set rs" "ev r r'" "rs' = put_row pk r' rs"
  moreover from this assms(2) have "P r'" by (blast intro: assms(4))
  ultimately show ?thesis using assms(2) by (auto simp: in_put_row_iff)
qed (use assms(2,3) in auto)

text \<open>\<open>(max(...) or 0) + 1\<close> over a column: the number the next row gets.\<close>

definition next_number :: "int list \<Rightarrow> int" where
  "next_number ns = (case ns of [] \<Rightarrow> 0 | m # ms \<Rightarrow> fold max ms m) + 1"

definition numbered :: "int list \<Rightarrow> bool" where
  "numbered ns \<longleftrightarrow> ns = map int [1..<Suc (length ns)]"

lemma numbered_Nil [simp]: "numbered []"
  by (simp add: numbered_def)

lemma numbered_next:
  assumes "numbered ns"
  shows "next_number ns = int (length ns) + 1"
proof (cases ns)
  case Nil
  then show ?thesis by (simp add: next_number_def)
next
  case (Cons m ms)
  have eq: "ns = map int [1..<Suc (length ns)]"
    using assms by (simp only: numbered_def)
  have s: "set ns = int ` {1..length ns}"
    by (subst eq) (simp add: atLeastLessThanSuc_atLeastAtMost del: upt_Suc)
  have "fold max ms m = Max (set ns)"
    by (simp add: Cons Max.set_eq_fold del: set_simps list.set)
  also have "\<dots> = int (length ns)"
    unfolding s using Cons
    by (intro Max_eqI) (auto simp: image_iff intro!: bexI [of _ "Suc (length ms)"])
  finally show ?thesis by (simp add: next_number_def Cons)
qed

lemma numbered_snoc: "numbered ns \<Longrightarrow> numbered (ns @ [next_number ns])"
  using numbered_next [of ns] by (simp add: numbered_def)

text \<open>The state a list of recorded moves leads to, if each starts where the last ended and
  follows an arc of the transition table.\<close>

fun replay :: "('s \<Rightarrow> 's list) \<Rightarrow> 's \<Rightarrow> ('s \<times> 's) list \<Rightarrow> 's option" where
  "replay allowed s [] = Some s"
| "replay allowed s ((prior, new) # moves) =
     (if prior = s \<and> new \<in> set (allowed s) then replay allowed new moves else None)"

lemma replay_append:
  "replay allowed s (xs @ ys) = Option.bind (replay allowed s xs) (\<lambda>t. replay allowed t ys)"
  by (induction allowed s xs rule: replay.induct) auto

lemma replay_snoc:
  "replay allowed s xs = Some t \<Longrightarrow> u \<in> set (allowed t) \<Longrightarrow> replay allowed s (xs @ [(t, u)]) = Some u"
  by (simp add: replay_append)

section \<open>Running a service\<close>

text \<open>One request: a failed operation leaves the committed state as it was.\<close>

definition attempt :: "('op \<Rightarrow> 'db \<Rightarrow> 'e + 'db \<times> 'r) \<Rightarrow> 'op \<Rightarrow> 'db \<Rightarrow> 'db" where
  "attempt step op db = (case step op db of Inl _ \<Rightarrow> db | Inr (db', _) \<Rightarrow> db')"

primrec run_ops :: "('op \<Rightarrow> 'db \<Rightarrow> 'e + 'db \<times> 'r) \<Rightarrow> 'op list \<Rightarrow> 'db \<Rightarrow> 'db" where
  "run_ops step [] db = db"
| "run_ops step (op # ops) db = run_ops step ops (attempt step op db)"

lemma run_ops_append: "run_ops step (xs @ ys) db = run_ops step ys (run_ops step xs db)"
  by (induction xs arbitrary: db) simp_all

lemma attempt_cases:
  obtains "attempt step op db = db" | db' r where "step op db = Inr (db', r)" "attempt step op db = db'"
  by (cases "step op db") (auto simp: attempt_def split: prod.splits)

section \<open>Interfaces\<close>

text \<open>A service whose operations keep an invariant of the database.\<close>

locale service =
  fixes step :: "'op \<Rightarrow> 'db \<Rightarrow> 'e + 'db \<times> 'r"
    and inv :: "'db \<Rightarrow> bool"
  assumes step_inv: "inv db \<Longrightarrow> step op db = Inr (db', r) \<Longrightarrow> inv db'"
begin

lemma attempt_inv: "inv db \<Longrightarrow> inv (attempt step op db)"
  by (rule attempt_cases [of step op db]) (auto intro: step_inv)

lemma run_inv: "inv db \<Longrightarrow> inv (run_ops step ops db)"
  by (induction ops arbitrary: db) (simp_all add: attempt_inv)

lemma run_keeps:
  assumes keep: "\<And>op db db' r. op \<in> set ops \<Longrightarrow> inv db \<Longrightarrow> P db \<Longrightarrow> step op db = Inr (db', r) \<Longrightarrow> P db'"
    and "inv db" "P db"
  shows "P (run_ops step ops db)"
  using assms
proof (induction ops arbitrary: db)
  case Nil
  then show ?case by simp
next
  case (Cons op ops)
  have "P (attempt step op db)"
    using Cons.prems by (cases rule: attempt_cases [of step op db]) auto
  moreover have "P db'" if "op' \<in> set ops" "inv db" "P db" "step op' db = Inr (db', r)" for op' db db' r
    using Cons.prems(1) [of op' db db' r] that by simp
  ultimately have "P (run_ops step ops (attempt step op db))"
    by (intro Cons.IH attempt_inv Cons.prems(2))
  then show ?case by simp
qed

end

text \<open>
  A tenant-scoped service: an operation names the organization it acts for, and what any
  other organization can see does not change.
\<close>

locale tenant_service = service step inv
  for step :: "'op \<Rightarrow> 'db \<Rightarrow> 'e + 'db \<times> 'r" and inv :: "'db \<Rightarrow> bool" +
  fixes op_org :: "'op \<Rightarrow> uuid"
    and view :: "uuid \<Rightarrow> 'db \<Rightarrow> 'v"
  assumes step_isolated:
    "inv db \<Longrightarrow> step op db = Inr (db', r) \<Longrightarrow> org \<noteq> op_org op \<Longrightarrow> view org db' = view org db"
begin

lemma attempt_isolated: "inv db \<Longrightarrow> org \<noteq> op_org op \<Longrightarrow> view org (attempt step op db) = view org db"
  by (rule attempt_cases [of step op db]) (auto dest: step_isolated)

lemma run_isolated:
  "inv db \<Longrightarrow> \<forall>op \<in> set ops. op_org op \<noteq> org \<Longrightarrow> view org (run_ops step ops db) = view org db"
proof (induction ops arbitrary: db)
  case Nil
  then show ?case by simp
next
  case (Cons op ops)
  then have "view org (run_ops step ops (attempt step op db)) = view org (attempt step op db)"
    by (auto intro: attempt_inv)
  also have "\<dots> = view org db"
    using Cons.prems by (auto intro: attempt_isolated)
  finally show ?case by simp
qed

end

text \<open>
  A service over the rows of one table: no operation deletes a row, and each leaves the row
  as it is or changes it along \<open>evolves\<close>. What \<open>evolves\<close> keeps holds for the life of the row.
\<close>

locale row_service = service step inv
  for step :: "'op \<Rightarrow> 'db \<Rightarrow> 'e + 'db \<times> 'r" and inv :: "'db \<Rightarrow> bool" +
  fixes row_at :: "'db \<Rightarrow> uuid \<Rightarrow> 'row option"
    and evolves :: "'row \<Rightarrow> 'row \<Rightarrow> bool"
  assumes step_row:
    "inv db \<Longrightarrow> step op db = Inr (db', r) \<Longrightarrow> row_at db i = Some x \<Longrightarrow>
       \<exists>x'. row_at db' i = Some x' \<and> (x' = x \<or> evolves x x')"
begin

lemma attempt_row:
  "inv db \<Longrightarrow> row_at db i = Some x \<Longrightarrow>
     \<exists>x'. row_at (attempt step op db) i = Some x' \<and> evolves\<^sup>*\<^sup>* x x'"
  by (rule attempt_cases [of step op db]) (auto dest!: step_row [where i = i and x = x])

lemma run_row:
  "inv db \<Longrightarrow> row_at db i = Some x \<Longrightarrow>
     \<exists>x'. row_at (run_ops step ops db) i = Some x' \<and> evolves\<^sup>*\<^sup>* x x'"
proof (induction ops arbitrary: db x)
  case Nil
  then show ?case by auto
next
  case (Cons op ops)
  obtain x1 where x1: "row_at (attempt step op db) i = Some x1" "evolves\<^sup>*\<^sup>* x x1"
    using attempt_row [OF Cons.prems] by blast
  obtain x2 where "row_at (run_ops step ops (attempt step op db)) i = Some x2" "evolves\<^sup>*\<^sup>* x1 x2"
    using Cons.IH [OF attempt_inv [OF Cons.prems(1)] x1(1)] by blast
  with x1(2) show ?case by (auto intro: rtranclp_trans)
qed

lemma run_stable:
  assumes stable: "\<And>x x'. P x \<Longrightarrow> evolves x x' \<Longrightarrow> P x'"
    and "inv db" "row_at db i = Some x" "P x"
  shows "\<exists>x'. row_at (run_ops step ops db) i = Some x' \<and> P x'"
proof -
  obtain x' where x': "row_at (run_ops step ops db) i = Some x'" "evolves\<^sup>*\<^sup>* x x'"
    using run_row [OF assms(2,3)] by blast
  from x'(2) assms(4) have "P x'"
    by (induction rule: rtranclp_induct) (auto intro: stable)
  with x'(1) show ?thesis by blast
qed

end

text \<open>
  A table whose rows move through a lifecycle: an operation leaves the status of a row or
  follows one arc of the code's transition table.
\<close>

locale lifecycle_service = row_service step inv row_at evolves
  for step :: "'op \<Rightarrow> 'db \<Rightarrow> 'e + 'db \<times> 'r" and inv :: "'db \<Rightarrow> bool"
    and row_at :: "'db \<Rightarrow> uuid \<Rightarrow> 'row option"
    and evolves :: "'row \<Rightarrow> 'row \<Rightarrow> bool" +
  fixes status_of :: "'row \<Rightarrow> 's"
    and allowed :: "'s \<Rightarrow> 's list"
  assumes evolves_arc:
    "evolves x x' \<Longrightarrow> status_of x' = status_of x \<or> status_of x' \<in> set (allowed (status_of x))"
begin

lemma evolves_path: "evolves\<^sup>*\<^sup>* x x' \<Longrightarrow> (\<lambda>s t. t \<in> set (allowed s))\<^sup>*\<^sup>* (status_of x) (status_of x')"
proof (induction rule: rtranclp_induct)
  case base
  then show ?case by simp
next
  case (step y z)
  then show ?case
    using evolves_arc [OF step.hyps(2)] by (auto intro: rtranclp.rtrancl_into_rtrancl)
qed

lemma run_status:
  assumes "inv db" "row_at db i = Some x"
  shows "\<exists>x'. row_at (run_ops step ops db) i = Some x' \<and>
    (\<lambda>s t. t \<in> set (allowed s))\<^sup>*\<^sup>* (status_of x) (status_of x')"
  using run_row [OF assms] evolves_path by blast

lemma run_terminal:
  assumes "inv db" "row_at db i = Some x" "allowed (status_of x) = []"
  shows "\<exists>x'. row_at (run_ops step ops db) i = Some x' \<and> status_of x' = status_of x"
  using assms(3)
  by (intro run_stable [OF _ assms(1,2), where P = "\<lambda>y. status_of y = status_of x"])
    (auto dest: evolves_arc)

end

text \<open>A service that records what it does in a log nobody rewrites.\<close>

locale append_only_service = service step inv
  for step :: "'op \<Rightarrow> 'db \<Rightarrow> 'e + 'db \<times> 'r" and inv :: "'db \<Rightarrow> bool" +
  fixes log :: "'db \<Rightarrow> 'ev list"
  assumes step_log: "inv db \<Longrightarrow> step op db = Inr (db', r) \<Longrightarrow> \<exists>evs. log db' = log db @ evs"
begin

lemma attempt_log: "inv db \<Longrightarrow> \<exists>evs. log (attempt step op db) = log db @ evs"
  by (rule attempt_cases [of step op db]) (auto dest: step_log)

lemma run_log: "inv db \<Longrightarrow> \<exists>evs. log (run_ops step ops db) = log db @ evs"
proof (induction ops arbitrary: db)
  case Nil
  then show ?case by simp
next
  case (Cons op ops)
  obtain evs where "log (attempt step op db) = log db @ evs"
    using attempt_log [OF Cons.prems] by blast
  moreover obtain evs' where
    "log (run_ops step ops (attempt step op db)) = log (attempt step op db) @ evs'"
    using Cons.IH [OF attempt_inv [OF Cons.prems]] by blast
  ultimately show ?case by auto
qed

end

text \<open>
  A service that drains: a measure that no operation raises and that each operation which makes
  progress lowers. Then the number of operations that make progress is bounded.
\<close>

fun progress_count ::
    "('op \<Rightarrow> 'db \<Rightarrow> 'e + 'db \<times> 'r) \<Rightarrow> ('db \<Rightarrow> 'p) \<Rightarrow> 'op list \<Rightarrow> 'db \<Rightarrow> nat" where
  "progress_count step progress [] db = 0"
| "progress_count step progress (op # ops) db =
     (if progress (attempt step op db) = progress db then 0 else 1) +
     progress_count step progress ops (attempt step op db)"

locale draining_service = service step inv
  for step :: "'op \<Rightarrow> 'db \<Rightarrow> 'e + 'db \<times> 'r" and inv :: "'db \<Rightarrow> bool" +
  fixes drains :: "'op \<Rightarrow> bool"
    and progress :: "'db \<Rightarrow> 'p"
    and level :: "'db \<Rightarrow> nat"
  assumes step_level: "inv db \<Longrightarrow> drains op \<Longrightarrow> step op db = Inr (db', r) \<Longrightarrow> level db' \<le> level db"
    and step_progress: "inv db \<Longrightarrow> drains op \<Longrightarrow> step op db = Inr (db', r) \<Longrightarrow>
      progress db' \<noteq> progress db \<Longrightarrow> level db' < level db"
begin

lemma attempt_level:
  assumes "inv db" "drains op"
  shows "level (attempt step op db) + (if progress (attempt step op db) = progress db then 0 else 1) \<le> level db"
  by (rule attempt_cases [of step op db])
    (use assms step_level step_progress in \<open>auto simp: Suc_le_eq\<close>)

lemma run_progress:
  "inv db \<Longrightarrow> \<forall>op \<in> set ops. drains op \<Longrightarrow> progress_count step progress ops db \<le> level db"
proof (induction ops arbitrary: db)
  case Nil
  then show ?case by simp
next
  case (Cons op ops)
  have "progress_count step progress ops (attempt step op db) \<le> level (attempt step op db)"
    using Cons by (simp add: attempt_inv)
  with attempt_level [of db op] Cons.prems show ?case by simp
qed

end

end
