(* ===== verification/Py_Text.thy ===== *)
theory Py_Text
  imports Platform_Prelude
begin

text \<open>
  The string operations and JSON values the schemas of the code use. A Python string is a
  list of characters; the operations are those of ASCII text (\<open>str.strip\<close>, \<open>str.lower\<close>,
  \<open>str.upper\<close>, \<open>str.casefold\<close>, \<open>str.isalnum\<close>), which is what identifiers, codes and
  key names of the platform hold. The code pattern of the schemas,
  \<open>^[a-z0-9]+(?:SEP[a-z0-9]+)*$\<close>, is a two-state scanner.
\<close>

section \<open>ASCII text\<close>

definition is_space :: "char \<Rightarrow> bool" where
  "is_space c = (let n = of_char c :: nat in n = 32 \<or> (9 \<le> n \<and> n \<le> 13) \<or> (28 \<le> n \<and> n \<le> 31))"

definition is_lower_alnum :: "char \<Rightarrow> bool" where
  "is_lower_alnum c = (let n = of_char c :: nat in (97 \<le> n \<and> n \<le> 122) \<or> (48 \<le> n \<and> n \<le> 57))"

definition is_alpha :: "char \<Rightarrow> bool" where
  "is_alpha c = (let n = of_char c :: nat in (97 \<le> n \<and> n \<le> 122) \<or> (65 \<le> n \<and> n \<le> 90))"

definition is_alnum :: "char \<Rightarrow> bool" where
  "is_alnum c = (is_alpha c \<or> (let n = of_char c :: nat in 48 \<le> n \<and> n \<le> 57))"

definition lower_char :: "char \<Rightarrow> char" where
  "lower_char c = (let n = of_char c :: nat in if 65 \<le> n \<and> n \<le> 90 then char_of (n + 32) else c)"

definition upper_char :: "char \<Rightarrow> char" where
  "upper_char c = (let n = of_char c :: nat in if 97 \<le> n \<and> n \<le> 122 then char_of (n - 32) else c)"

definition strip :: "string \<Rightarrow> string" where
  "strip s = rev (dropWhile is_space (rev (dropWhile is_space s)))"

definition lower :: "string \<Rightarrow> string" where
  "lower s = map lower_char s"

definition upper :: "string \<Rightarrow> string" where
  "upper s = map upper_char s"

lemma of_char_lower: "of_char (lower_char c) =
    (let n = of_char c :: nat in if 65 \<le> n \<and> n \<le> 90 then n + 32 else n)"
  by (simp add: lower_char_def Let_def)

lemma lower_char_idem [simp]: "lower_char (lower_char c) = lower_char c"
proof -
  have "\<not> (65 \<le> (of_char (lower_char c) :: nat) \<and> (of_char (lower_char c) :: nat) \<le> 90)"
    by (auto simp: of_char_lower Let_def)
  then show ?thesis by (subst lower_char_def) (auto simp: Let_def)
qed

lemma lower_idem [simp]: "lower (lower s) = lower s"
  by (simp add: lower_def)

lemma dropWhile_idem: "dropWhile P (dropWhile P xs) = dropWhile P xs"
  by (induction xs) auto

lemma hd_dropWhile_not: "dropWhile P xs = y # ys \<Longrightarrow> \<not> P y"
  by (induction xs) (auto split: if_splits)

lemma strip_bare:
  assumes "strip s = c # cs"
  shows "\<not> is_space c" "\<not> is_space (last (c # cs))"
proof -
  let ?t = "dropWhile is_space s"
  have r: "rev (c # cs) = dropWhile is_space (rev ?t)"
    using assms by (metis rev_rev_ident strip_def)
  then obtain ys where ys: "rev ?t = ys @ rev (c # cs)"
    by (metis takeWhile_dropWhile_id)
  then have "?t = (c # cs) @ rev ys"
    by (metis rev_append rev_rev_ident)
  then show "\<not> is_space c"
    using hd_dropWhile_not [of is_space s c "cs @ rev ys"] by simp
  have "dropWhile is_space (rev ?t) = last (c # cs) # rev (butlast (c # cs))"
    using r by (metis append_butlast_last_id list.distinct(1) rev.simps(2) rev_append rev_rev_ident
        append_Cons append_Nil)
  then show "\<not> is_space (last (c # cs))"
    by (rule hd_dropWhile_not)
qed

text \<open>String fields of the request schemas: \<open>min_length = 1\<close> and a maximal length.\<close>

definition sized :: "nat \<Rightarrow> string \<Rightarrow> bool" where
  "sized n s \<longleftrightarrow> s \<noteq> [] \<and> length s \<le> n"

definition sized_if :: "nat \<Rightarrow> string option \<Rightarrow> bool" where
  "sized_if n s = (case s of None \<Rightarrow> True | Some t \<Rightarrow> sized n t)"

section \<open>Decimal text\<close>

text \<open>\<open>str(n)\<close> of a natural number, and reading digits back.\<close>

definition digit :: "nat \<Rightarrow> char" where
  "digit n = char_of (48 + n)"

fun decimal :: "nat \<Rightarrow> string" where
  "decimal n = (if n < 10 then [digit n] else decimal (n div 10) @ [digit (n mod 10)])"

declare decimal.simps [simp del]

definition read_decimal :: "string \<Rightarrow> nat" where
  "read_decimal s = foldl (\<lambda>n c. 10 * n + (of_char c - 48)) 0 s"

lemma of_char_digit: "n < 10 \<Longrightarrow> of_char (digit n) = (48 + n :: nat)"
  by (simp add: digit_def)

lemma read_decimal_decimal: "read_decimal (decimal n) = n"
proof (induction n rule: decimal.induct)
  case (1 n)
  show ?case
  proof (cases "n < 10")
    case True
    then show ?thesis by (simp add: decimal.simps [of n] read_decimal_def of_char_digit)
  next
    case False
    then have "read_decimal (decimal n) = 10 * read_decimal (decimal (n div 10)) + n mod 10"
      by (subst decimal.simps) (simp add: read_decimal_def of_char_digit)
    with 1 [OF False] show ?thesis by simp
  qed
qed

section \<open>Identifiers as text\<close>

definition hex_digit :: "nat \<Rightarrow> char" where
  "hex_digit d = ''0123456789abcdef'' ! d"

definition hex_text :: "nat \<Rightarrow> nat \<Rightarrow> string" where
  "hex_text w n = map (\<lambda>k. hex_digit (n div 16 ^ k mod 16)) (rev [0..<w])"

text \<open>\<open>str(UUID)\<close>: 32 hexadecimal digits in groups of 8, 4, 4, 4 and 12.\<close>

definition uuid_text :: "uuid \<Rightarrow> string" where
  "uuid_text u =
     hex_text 8 (u div 16 ^ 24) @ ''-'' @ hex_text 4 (u div 16 ^ 20) @ ''-'' @
     hex_text 4 (u div 16 ^ 16) @ ''-'' @ hex_text 4 (u div 16 ^ 12) @ ''-'' @ hex_text 12 u"

section \<open>Code patterns\<close>

fun code_scan :: "char \<Rightarrow> bool \<Rightarrow> string \<Rightarrow> bool" where
  "code_scan sep filled [] = filled"
| "code_scan sep filled (c # cs) =
     (if is_lower_alnum c then code_scan sep True cs
      else if c = sep then filled \<and> code_scan sep False cs
      else False)"

definition code_ok :: "char \<Rightarrow> string \<Rightarrow> bool" where
  "code_ok sep s = code_scan sep False s"

text \<open>The language of the pattern: non-empty alphanumeric words joined by the separator.\<close>

fun join :: "char \<Rightarrow> string list \<Rightarrow> string" where
  "join sep [] = []"
| "join sep [w] = w"
| "join sep (w # ws) = w @ sep # join sep ws"

definition is_word :: "string \<Rightarrow> bool" where
  "is_word w \<longleftrightarrow> w \<noteq> [] \<and> list_all is_lower_alnum w"

lemma code_scan_word:
  "list_all is_lower_alnum w \<Longrightarrow> code_scan sep b (w @ s) = code_scan sep (b \<or> w \<noteq> []) s"
  by (induction w arbitrary: b) auto

lemma code_scan_join:
  "\<not> is_lower_alnum sep \<Longrightarrow> ws \<noteq> [] \<Longrightarrow> list_all is_word ws \<Longrightarrow>
     code_scan sep False (join sep ws)"
proof (induction ws rule: join.induct)
  case (2 sep w)
  then show ?case
    using code_scan_word [of w sep False "[]"] by (simp add: is_word_def)
next
  case (3 sep w v ws)
  then show ?case
    using code_scan_word [of w sep False "sep # join sep (v # ws)"]
    by (auto simp: is_word_def)
qed simp

lemma code_scan_split:
  "code_scan sep b s \<Longrightarrow>
     \<exists>w ws. list_all is_lower_alnum w \<and> (b \<or> w \<noteq> []) \<and> list_all is_word ws \<and> s = join sep (w # ws)"
proof (induction sep b s rule: code_scan.induct)
  case (1 sep filled)
  then show ?case by (intro exI [of _ "[]"]) simp
next
  case (2 sep filled c cs)
  show ?case
  proof (cases "is_lower_alnum c")
    case True
    then obtain w ws where "list_all is_lower_alnum w" "list_all is_word ws" "cs = join sep (w # ws)"
      using 2 by auto
    with True show ?thesis
      by - (rule exI [of _ "c # w"], rule exI [of _ ws], cases ws; simp)
  next
    case False
    then obtain w ws where "filled" "c = sep" "list_all is_lower_alnum w" "w \<noteq> []"
      "list_all is_word ws" "cs = join sep (w # ws)"
      using 2 by (auto split: if_splits)
    then show ?thesis
      by - (rule exI [of _ "[]"], rule exI [of _ "w # ws"], simp add: is_word_def [of w])
  qed
qed

lemma code_ok_iff_words:
  assumes "\<not> is_lower_alnum sep"
  shows "code_ok sep s \<longleftrightarrow> (\<exists>ws. ws \<noteq> [] \<and> list_all is_word ws \<and> s = join sep ws)"
proof
  assume "code_ok sep s"
  then obtain w ws where "list_all is_lower_alnum w" "w \<noteq> []" "list_all is_word ws"
    "s = join sep (w # ws)"
    using code_scan_split [of sep False s] by (auto simp: code_ok_def)
  then show "\<exists>ws. ws \<noteq> [] \<and> list_all is_word ws \<and> s = join sep ws"
    by (intro exI [of _ "w # ws"]) (simp add: is_word_def)
next
  assume "\<exists>ws. ws \<noteq> [] \<and> list_all is_word ws \<and> s = join sep ws"
  then show "code_ok sep s"
    using code_scan_join [OF assms] by (auto simp: code_ok_def)
qed

section \<open>JSON\<close>

datatype json =
    JNull
  | JBool bool
  | JNumber int
  | JString string
  | JArray "json list"
  | JObject "(string \<times> json) list"

text \<open>The key names that occur in objects at any depth of a value.\<close>

fun json_keys :: "json \<Rightarrow> string set" where
  "json_keys (JArray xs) = (\<Union>x \<in> set xs. json_keys x)"
| "json_keys (JObject kvs) = (\<Union>kv \<in> set kvs. insert (fst kv) (json_keys (snd kv)))"
| "json_keys _ = {}"

end
