(* ===== verification/Source_Systems.thy ===== *)
theory Source_Systems
  imports Py_Text
begin

text \<open>
  Source systems (\<open>app/models/source_system.py\<close>, \<open>app/schemas/source_systems.py\<close>,
  \<open>app/services/source_system_service.py\<close>): the registered systems a tenant connects, their
  lifecycle from draft to decommissioned, connection outcomes and health. The schema part is
  the validation that runs before a request reaches the service; the time zone database and
  the URL parser are parameters of it.
\<close>

section \<open>Enumerations\<close>

datatype source_system_type =
    SYS_ERP | SYS_ACCOUNTING | SYS_CRM | SYS_CMMS | SYS_EAM | SYS_HRMS | SYS_PAYROLL
  | SYS_INVENTORY | SYS_PROCUREMENT | SYS_POINT_OF_SALE | SYS_BANKING | SYS_PAYMENT_PROCESSOR
  | SYS_SPREADSHEET | SYS_FLAT_FILE | SYS_DATABASE | SYS_API | SYS_SCADA | SYS_IOT
  | SYS_GPS_TELEMATICS | SYS_FLEET_MANAGEMENT | SYS_TICKETING | SYS_SCHEDULING
  | SYS_DOCUMENT_REPOSITORY | SYS_EMAIL | SYS_CUSTOM

datatype integration_method =
    INT_API | INT_DATABASE | INT_FILE_UPLOAD | INT_FILE_DROP | INT_SFTP | INT_WEBHOOK
  | INT_MESSAGE_QUEUE | INT_EMAIL_INGESTION | INT_MANUAL | INT_DEVICE_STREAM | INT_CUSTOM

datatype source_environment = PRODUCTION | STAGING | DEVELOPMENT | TEST | SANDBOX

datatype source_status =
    SRC_DRAFT | SRC_CONFIGURED | SRC_VALIDATING | SRC_ACTIVE | SRC_PAUSED | SRC_FAILED
  | SRC_DECOMMISSIONED

datatype source_health =
    HEALTH_UNKNOWN | HEALTHY | DEGRADED | UNHEALTHY | UNAVAILABLE

datatype data_classification = PUBLIC | INTERNAL | CONFIDENTIAL | RESTRICTED

definition downstream_creation_statuses :: "source_status list" where
  "downstream_creation_statuses = [SRC_ACTIVE]"

section \<open>Rows and constraints\<close>

record source_system =
  ss_id :: uuid
  ss_org :: uuid
  ss_name :: string
  ss_code :: string
  ss_description :: "string option"
  ss_type :: source_system_type
  ss_provider :: "string option"
  ss_method :: integration_method
  ss_environment :: source_environment
  ss_status :: source_status
  ss_health :: source_health
  ss_base_url :: "string option"
  ss_database_host :: "string option"
  ss_database_name :: "string option"
  ss_external_id :: "string option"
  ss_owner_name :: "string option"
  ss_owner_email :: "string option"
  ss_classification :: data_classification
  ss_timezone :: "string option"
  ss_currency :: "string option"
  ss_credential :: "string option"
  ss_last_attempt :: "timestamp option"
  ss_last_success :: "timestamp option"
  ss_last_failure :: "timestamp option"
  ss_last_health_check :: "timestamp option"
  ss_failure_count :: int
  ss_configuration :: "json option"
  ss_capabilities :: "string list option"
  ss_is_active :: bool
  ss_created_by :: uuid
  ss_updated_by :: uuid
  ss_deactivated_at :: "timestamp option"

record source_db =
  organizations :: "uuid list"
  source_systems :: "source_system list"

definition source_constraints :: "'a source_db_scheme \<Rightarrow> bool" where
  "source_constraints db \<longleftrightarrow>
     unique_on ss_id (source_systems db) \<and>
     unique_on (\<lambda>s. (ss_org s, ss_code s)) (source_systems db) \<and>
     list_all (\<lambda>s. 0 \<le> ss_failure_count s) (source_systems db) \<and>
     list_all (\<lambda>s. ss_org s \<in> set (organizations db)) (source_systems db)"

datatype source_error =
    SourceSystemNotFound
  | SourceOrganizationNotFound
  | DuplicateSourceSystemCode
  | SourceTransitionForbidden source_status source_status
  | DecommissionedFieldsOnly
  | DecommissionedSource

section \<open>Requests\<close>

record source_payload =
  sc_name :: string
  sc_code :: string
  sc_description :: "string option"
  sc_type :: source_system_type
  sc_provider :: "string option"
  sc_method :: integration_method
  sc_environment :: source_environment
  sc_base_url :: "string option"
  sc_database_host :: "string option"
  sc_database_name :: "string option"
  sc_external_id :: "string option"
  sc_owner_name :: "string option"
  sc_owner_email :: "string option"
  sc_classification :: data_classification
  sc_timezone :: "string option"
  sc_currency :: "string option"
  sc_credential :: "string option"
  sc_configuration :: "json option"
  sc_capabilities :: "string list option"

text \<open>
  An update carries the fields the request set: a requested status, and for each other field
  that is set its new value, in the order of the schema.
\<close>

datatype source_change =
    SetName string
  | SetCode string
  | SetDescription "string option"
  | SetType source_system_type
  | SetProvider "string option"
  | SetMethod integration_method
  | SetEnvironment source_environment
  | SetBaseUrl "string option"
  | SetDatabaseHost "string option"
  | SetDatabaseName "string option"
  | SetExternalId "string option"
  | SetOwnerName "string option"
  | SetOwnerEmail "string option"
  | SetClassification data_classification
  | SetTimezone "string option"
  | SetCurrency "string option"
  | SetCredential "string option"
  | SetConfiguration "json option"
  | SetCapabilities "string list option"

record source_update =
  su_status :: "source_status option"
  su_changes :: "source_change list"

fun apply_source_change :: "source_change \<Rightarrow> source_system \<Rightarrow> source_system" where
  "apply_source_change (SetName v) s = s\<lparr>ss_name := v\<rparr>"
| "apply_source_change (SetCode v) s = s\<lparr>ss_code := v\<rparr>"
| "apply_source_change (SetDescription v) s = s\<lparr>ss_description := v\<rparr>"
| "apply_source_change (SetType v) s = s\<lparr>ss_type := v\<rparr>"
| "apply_source_change (SetProvider v) s = s\<lparr>ss_provider := v\<rparr>"
| "apply_source_change (SetMethod v) s = s\<lparr>ss_method := v\<rparr>"
| "apply_source_change (SetEnvironment v) s = s\<lparr>ss_environment := v\<rparr>"
| "apply_source_change (SetBaseUrl v) s = s\<lparr>ss_base_url := v\<rparr>"
| "apply_source_change (SetDatabaseHost v) s = s\<lparr>ss_database_host := v\<rparr>"
| "apply_source_change (SetDatabaseName v) s = s\<lparr>ss_database_name := v\<rparr>"
| "apply_source_change (SetExternalId v) s = s\<lparr>ss_external_id := v\<rparr>"
| "apply_source_change (SetOwnerName v) s = s\<lparr>ss_owner_name := v\<rparr>"
| "apply_source_change (SetOwnerEmail v) s = s\<lparr>ss_owner_email := v\<rparr>"
| "apply_source_change (SetClassification v) s = s\<lparr>ss_classification := v\<rparr>"
| "apply_source_change (SetTimezone v) s = s\<lparr>ss_timezone := v\<rparr>"
| "apply_source_change (SetCurrency v) s = s\<lparr>ss_currency := v\<rparr>"
| "apply_source_change (SetCredential v) s = s\<lparr>ss_credential := v\<rparr>"
| "apply_source_change (SetConfiguration v) s = s\<lparr>ss_configuration := v\<rparr>"
| "apply_source_change (SetCapabilities v) s = s\<lparr>ss_capabilities := v\<rparr>"

fun decommissioned_editable :: "source_change \<Rightarrow> bool" where
  "decommissioned_editable (SetDescription _) = True"
| "decommissioned_editable (SetOwnerName _) = True"
| "decommissioned_editable (SetOwnerEmail _) = True"
| "decommissioned_editable _ = False"

section \<open>The service\<close>

fun source_transitions :: "source_status \<Rightarrow> source_status list" where
  "source_transitions SRC_DRAFT = [SRC_CONFIGURED, SRC_DECOMMISSIONED]"
| "source_transitions SRC_CONFIGURED = [SRC_VALIDATING, SRC_DECOMMISSIONED]"
| "source_transitions SRC_VALIDATING = [SRC_ACTIVE, SRC_FAILED]"
| "source_transitions SRC_ACTIVE = [SRC_PAUSED, SRC_FAILED, SRC_DECOMMISSIONED]"
| "source_transitions SRC_PAUSED = [SRC_ACTIVE, SRC_DECOMMISSIONED]"
| "source_transitions SRC_FAILED = [SRC_VALIDATING, SRC_PAUSED, SRC_DECOMMISSIONED]"
| "source_transitions SRC_DECOMMISSIONED = []"

definition source_transition :: "source_system \<Rightarrow> source_status \<Rightarrow> source_error + source_system" where
  "source_transition s target =
     bindE (require (target \<in> set (source_transitions (ss_status s)))
              (SourceTransitionForbidden (ss_status s) target))
       (\<lambda>_. Inr (s\<lparr>ss_status := target\<rparr>))"

definition ensure_not_decommissioned :: "source_system \<Rightarrow> source_error + unit" where
  "ensure_not_decommissioned s = require (ss_status s \<noteq> SRC_DECOMMISSIONED) DecommissionedSource"

definition commit_source ::
    "'a source_db_scheme \<Rightarrow> source_system \<Rightarrow> source_error + 'a source_db_scheme \<times> source_system" where
  "commit_source db s =
     bindE (require (source_constraints db) DuplicateSourceSystemCode) (\<lambda>_. Inr (db, s))"

definition source_get ::
    "'a source_db_scheme \<Rightarrow> uuid \<Rightarrow> uuid \<Rightarrow> source_error + source_system" where
  "source_get db org i =
     of_option SourceSystemNotFound
       (find (\<lambda>s. ss_id s = i \<and> ss_org s = org) (source_systems db))"

definition source_create ::
    "'a source_db_scheme \<Rightarrow> uuid \<Rightarrow> uuid \<Rightarrow> source_payload \<Rightarrow> uuid \<Rightarrow>
     source_error + 'a source_db_scheme \<times> source_system" where
  "source_create db org new_id p actor =
     bindE (require (org \<in> set (organizations db)) SourceOrganizationNotFound) (\<lambda>_.
     bindE (require (find (\<lambda>s. ss_org s = org \<and> ss_code s = sc_code p) (source_systems db) = None)
              DuplicateSourceSystemCode) (\<lambda>_.
     let s = \<lparr>ss_id = new_id, ss_org = org, ss_name = sc_name p, ss_code = sc_code p,
              ss_description = sc_description p, ss_type = sc_type p, ss_provider = sc_provider p,
              ss_method = sc_method p, ss_environment = sc_environment p, ss_status = SRC_DRAFT,
              ss_health = HEALTH_UNKNOWN, ss_base_url = sc_base_url p,
              ss_database_host = sc_database_host p, ss_database_name = sc_database_name p,
              ss_external_id = sc_external_id p, ss_owner_name = sc_owner_name p,
              ss_owner_email = sc_owner_email p, ss_classification = sc_classification p,
              ss_timezone = sc_timezone p, ss_currency = sc_currency p,
              ss_credential = sc_credential p, ss_last_attempt = None, ss_last_success = None,
              ss_last_failure = None, ss_last_health_check = None, ss_failure_count = 0,
              ss_configuration = sc_configuration p, ss_capabilities = sc_capabilities p,
              ss_is_active = True, ss_created_by = actor, ss_updated_by = actor,
              ss_deactivated_at = None\<rparr>
     in commit_source (db\<lparr>source_systems := source_systems db @ [s]\<rparr>) s))"

text \<open>
  Every other operation reads the row for update, changes it in memory and commits. The
  change itself is a function of the row that may raise.
\<close>

definition source_modify ::
    "'a source_db_scheme \<Rightarrow> uuid \<Rightarrow> uuid \<Rightarrow> (source_system \<Rightarrow> source_error + source_system) \<Rightarrow>
     source_error + 'a source_db_scheme \<times> source_system" where
  "source_modify db org i change =
     bindE (source_get db org i) (\<lambda>s.
     bindE (change s) (\<lambda>s'.
     commit_source (db\<lparr>source_systems := put_row ss_id s' (source_systems db)\<rparr>) s'))"

definition update_row :: "source_update \<Rightarrow> uuid \<Rightarrow> source_system \<Rightarrow> source_error + source_system" where
  "update_row p actor s =
     bindE (require (ss_status s = SRC_DECOMMISSIONED \<longrightarrow>
                     su_status p = None \<and> list_all decommissioned_editable (su_changes p))
              DecommissionedFieldsOnly) (\<lambda>_.
     bindE (case su_status p of None \<Rightarrow> Inr s | Some target \<Rightarrow> source_transition s target) (\<lambda>s1.
     Inr ((fold apply_source_change (su_changes p) s1)\<lparr>ss_updated_by := actor\<rparr>)))"

definition change_status_row ::
    "source_status \<Rightarrow> uuid \<Rightarrow> source_system \<Rightarrow> source_error + source_system" where
  "change_status_row target actor s =
     bindE (source_transition s target) (\<lambda>s'. Inr (s'\<lparr>ss_updated_by := actor\<rparr>))"

definition decommission_row ::
    "timestamp \<Rightarrow> uuid \<Rightarrow> source_system \<Rightarrow> source_error + source_system" where
  "decommission_row now actor s =
     bindE (source_transition s SRC_DECOMMISSIONED) (\<lambda>s'.
     Inr (s'\<lparr>ss_is_active := False, ss_deactivated_at := Some now, ss_updated_by := actor\<rparr>))"

definition connection_success_row ::
    "timestamp \<Rightarrow> uuid \<Rightarrow> source_system \<Rightarrow> source_error + source_system" where
  "connection_success_row now actor s =
     bindE (ensure_not_decommissioned s) (\<lambda>_.
     let s1 = s\<lparr>ss_last_attempt := Some now, ss_last_success := Some now,
                ss_last_health_check := Some now, ss_failure_count := 0, ss_health := HEALTHY\<rparr>
     in bindE (if ss_status s1 \<in> {SRC_VALIDATING, SRC_PAUSED}
               then source_transition s1 SRC_ACTIVE else Inr s1)
          (\<lambda>s2. Inr (s2\<lparr>ss_updated_by := actor\<rparr>)))"

definition connection_failure_row ::
    "timestamp \<Rightarrow> uuid \<Rightarrow> source_system \<Rightarrow> source_error + source_system" where
  "connection_failure_row now actor s =
     bindE (ensure_not_decommissioned s) (\<lambda>_.
     let n = ss_failure_count s + 1
     in Inr (s\<lparr>ss_last_attempt := Some now, ss_last_failure := Some now,
               ss_last_health_check := Some now, ss_failure_count := n,
               ss_health := (if 3 \<le> n then UNHEALTHY else DEGRADED), ss_updated_by := actor\<rparr>))"

definition update_health_row ::
    "source_health \<Rightarrow> timestamp \<Rightarrow> uuid \<Rightarrow> source_system \<Rightarrow> source_error + source_system" where
  "update_health_row h now actor s =
     bindE (ensure_not_decommissioned s) (\<lambda>_.
     Inr (s\<lparr>ss_health := h, ss_last_health_check := Some now, ss_updated_by := actor\<rparr>))"

datatype source_op =
    CreateSource uuid uuid source_payload uuid
  | UpdateSource uuid uuid source_update uuid
  | PauseSource uuid uuid uuid
  | ReactivateSource uuid uuid uuid
  | DecommissionSource uuid uuid timestamp uuid
  | ConnectionSuccess uuid uuid timestamp uuid
  | ConnectionFailure uuid uuid timestamp uuid
  | UpdateHealth uuid uuid source_health timestamp uuid

fun source_op_org :: "source_op \<Rightarrow> uuid" where
  "source_op_org (CreateSource org _ _ _) = org"
| "source_op_org (UpdateSource org _ _ _) = org"
| "source_op_org (PauseSource org _ _) = org"
| "source_op_org (ReactivateSource org _ _) = org"
| "source_op_org (DecommissionSource org _ _ _) = org"
| "source_op_org (ConnectionSuccess org _ _ _) = org"
| "source_op_org (ConnectionFailure org _ _ _) = org"
| "source_op_org (UpdateHealth org _ _ _ _) = org"

fun source_step ::
    "source_op \<Rightarrow> 'a source_db_scheme \<Rightarrow> source_error + 'a source_db_scheme \<times> source_system" where
  "source_step (CreateSource org i p actor) db = source_create db org i p actor"
| "source_step (UpdateSource org i p actor) db = source_modify db org i (update_row p actor)"
| "source_step (PauseSource org i actor) db = source_modify db org i (change_status_row SRC_PAUSED actor)"
| "source_step (ReactivateSource org i actor) db =
     source_modify db org i (change_status_row SRC_ACTIVE actor)"
| "source_step (DecommissionSource org i now actor) db =
     source_modify db org i (decommission_row now actor)"
| "source_step (ConnectionSuccess org i now actor) db =
     source_modify db org i (connection_success_row now actor)"
| "source_step (ConnectionFailure org i now actor) db =
     source_modify db org i (connection_failure_row now actor)"
| "source_step (UpdateHealth org i h now actor) db =
     source_modify db org i (update_health_row h now actor)"

section \<open>How a row changes\<close>

text \<open>The relation between a row and what one operation makes of it.\<close>

inductive source_evolves :: "source_system \<Rightarrow> source_system \<Rightarrow> bool" where
  updated: "update_row p actor s = Inr s' \<Longrightarrow> source_evolves s s'"
| status_changed: "change_status_row target actor s = Inr s' \<Longrightarrow> source_evolves s s'"
| decommissioned: "decommission_row now actor s = Inr s' \<Longrightarrow> source_evolves s s'"
| connected: "connection_success_row now actor s = Inr s' \<Longrightarrow> source_evolves s s'"
| disconnected: "connection_failure_row now actor s = Inr s' \<Longrightarrow> source_evolves s s'"
| health_set: "update_health_row h now actor s = Inr s' \<Longrightarrow> source_evolves s s'"

lemmas source_row_defs =
  update_row_def change_status_row_def decommission_row_def connection_success_row_def
  connection_failure_row_def update_health_row_def source_transition_def
  ensure_not_decommissioned_def Let_def

definition source_at :: "'a source_db_scheme \<Rightarrow> uuid \<Rightarrow> source_system option" where
  "source_at db i = find (\<lambda>s. ss_id s = i) (source_systems db)"

definition source_view :: "uuid \<Rightarrow> 'a source_db_scheme \<Rightarrow> source_system list" where
  "source_view org db = filter (\<lambda>s. ss_org s = org) (source_systems db)"

lemma apply_source_change_keeps [simp]:
  "ss_id (apply_source_change c s) = ss_id s"
  "ss_org (apply_source_change c s) = ss_org s"
  "ss_status (apply_source_change c s) = ss_status s"
  "ss_failure_count (apply_source_change c s) = ss_failure_count s"
  "ss_is_active (apply_source_change c s) = ss_is_active s"
  "ss_deactivated_at (apply_source_change c s) = ss_deactivated_at s"
  by (cases c; simp)+

lemma fold_source_change_keeps [simp]:
  "ss_id (fold apply_source_change cs s) = ss_id s"
  "ss_org (fold apply_source_change cs s) = ss_org s"
  "ss_status (fold apply_source_change cs s) = ss_status s"
  "ss_failure_count (fold apply_source_change cs s) = ss_failure_count s"
  "ss_is_active (fold apply_source_change cs s) = ss_is_active s"
  "ss_deactivated_at (fold apply_source_change cs s) = ss_deactivated_at s"
  by (induction cs arbitrary: s) simp_all

lemma source_evolves_key:
  assumes "source_evolves s s'"
  shows "ss_id s' = ss_id s" "ss_org s' = ss_org s"
  using assms by (cases; auto simp: source_row_defs split: option.splits if_splits)+

lemma source_evolves_status:
  assumes "source_evolves s s'"
  shows "ss_status s' = ss_status s \<or> ss_status s' \<in> set (source_transitions (ss_status s))"
  using assms by (cases; auto simp: source_row_defs split: option.splits if_splits)

lemma source_step_cases:
  assumes "source_step op db = Inr (db', s')"
  obtains
    (inserted) "db' = db\<lparr>source_systems := source_systems db @ [s']\<rparr>" "source_constraints db'"
      "ss_org s' = source_op_org op" "ss_status s' = SRC_DRAFT"
  | (changed) s where "s \<in> set (source_systems db)" "ss_org s = source_op_org op"
      "source_evolves s s'" "db' = db\<lparr>source_systems := put_row ss_id s' (source_systems db)\<rparr>"
      "source_constraints db'"
proof -
  have modified: thesis
    if "source_modify db org i change = Inr (db', s')" "org = source_op_org op"
      "\<And>s. change s = Inr s' \<Longrightarrow> source_evolves s s'" for org i change
    using that changed
    by (auto simp: source_modify_def source_get_def commit_source_def dest!: find_SomeD)
  show thesis
  proof (cases op)
    case (CreateSource org i p actor)
    then show ?thesis
      using assms inserted by (auto simp: source_create_def commit_source_def Let_def)
  qed (use assms modified in \<open>auto intro: source_evolves.intros\<close>)+
qed

lemma source_at_SomeD: "source_at db i = Some s \<Longrightarrow> s \<in> set (source_systems db) \<and> ss_id s = i"
  unfolding source_at_def by (rule find_SomeD)

lemma source_ids_unique: "source_constraints db \<Longrightarrow> unique_on ss_id (source_systems db)"
  by (simp add: source_constraints_def)

interpretation sources: tenant_service source_step source_constraints source_op_org source_view
proof
  fix db db' :: "'a source_db_scheme" and op s'
  assume "source_constraints db" "source_step op db = Inr (db', s')"
  then show "source_constraints db'"
    by (auto elim: source_step_cases)
next
  fix db db' :: "'a source_db_scheme" and op s' org
  assume inv: "source_constraints db" and step: "source_step op db = Inr (db', s')"
    and other: "org \<noteq> source_op_org op"
  from step show "source_view org db' = source_view org db"
  proof (cases rule: source_step_cases)
    case inserted
    with other show ?thesis by (simp add: source_view_def)
  next
    case (changed s)
    with other source_evolves_key [OF changed(3)] show ?thesis
      by (simp add: source_view_def filter_put_row [OF source_ids_unique [OF inv] changed(1)])
  qed
qed

lemma source_step_row:
  assumes inv: "source_constraints db" and step: "source_step op db = Inr (db', r)"
    and row: "source_at db i = Some s"
  shows "\<exists>s'. source_at db' i = Some s' \<and> (s' = s \<or> source_evolves s s')"
  using step
proof (cases rule: source_step_cases)
  case inserted
  with row show ?thesis by (simp add: source_at_def find_append)
next
  case (changed s0)
  show ?thesis
  proof (cases "ss_id s0 = i")
    case True
    with row changed(1) have "s0 = s"
      using unique_on_eq [OF source_ids_unique [OF inv]] source_at_SomeD by metis
    then show ?thesis
      using changed True source_evolves_key [OF changed(3)]
      by (auto simp: source_at_def intro: find_put_row_same)
  next
    case False
    then show ?thesis
      using changed row source_evolves_key [OF changed(3)]
      by (simp add: source_at_def find_put_row_other)
  qed
qed

interpretation source_rows: lifecycle_service source_step source_constraints source_at
    source_evolves ss_status source_transitions
  by unfold_locales (auto dest: source_step_row source_evolves_status)

section \<open>Decommissioned systems\<close>

text \<open>
  Everything about a row except its description, its owner's name and e-mail, and who edited
  it last.
\<close>

definition frozen_core :: "source_system \<Rightarrow> source_system" where
  "frozen_core s =
     s\<lparr>ss_description := None, ss_owner_name := None, ss_owner_email := None, ss_updated_by := 0\<rparr>"

lemma frozen_core_change:
  "decommissioned_editable c \<Longrightarrow> frozen_core (apply_source_change c s) = frozen_core s"
  by (cases c) (simp_all add: frozen_core_def)

lemma frozen_core_changes:
  "list_all decommissioned_editable cs \<Longrightarrow>
     frozen_core (fold apply_source_change cs s) = frozen_core s"
  by (induction cs arbitrary: s) (simp_all add: frozen_core_change)

lemma frozen_core_updated_by [simp]: "frozen_core (s\<lparr>ss_updated_by := a\<rparr>) = frozen_core s"
  by (simp add: frozen_core_def)

lemma frozen_core_status: "frozen_core s = frozen_core t \<Longrightarrow> ss_status s = ss_status t"
  by (cases s; cases t) (simp add: frozen_core_def)

lemma decommissioned_evolves:
  assumes "source_evolves s s'" "ss_status s = SRC_DECOMMISSIONED"
  shows "frozen_core s' = frozen_core s"
  using assms
  by cases (auto simp: source_row_defs frozen_core_changes split: option.splits)

section \<open>Connection outcomes\<close>

lemma constraints_put_source:
  assumes "source_constraints db" "s \<in> set (source_systems db)"
    and "ss_id s' = ss_id s" "ss_org s' = ss_org s" "ss_code s' = ss_code s"
    and "0 \<le> ss_failure_count s'"
  shows "source_constraints (db\<lparr>source_systems := put_row ss_id s' (source_systems db)\<rparr>)"
proof -
  have "map (\<lambda>s. (ss_org s, ss_code s)) (put_row ss_id s' (source_systems db)) =
        map (\<lambda>s. (ss_org s, ss_code s)) (source_systems db)"
    using assms by (intro map_put_row) (auto simp: source_constraints_def)
  moreover have "ss_org s' \<in> set (organizations db)"
    using assms by (auto simp: source_constraints_def list_all_iff)
  ultimately show ?thesis
    using assms by (auto simp: source_constraints_def unique_on_def intro: list_all_put_row)
qed

lemma source_get_at:
  "source_constraints db \<Longrightarrow> source_at db i = Some s \<Longrightarrow> source_get db (ss_org s) i = Inr s"
proof -
  assume inv: "source_constraints db" and at: "source_at db i = Some s"
  have "find (\<lambda>x. ss_id x = i \<and> ss_org x = ss_org s) (source_systems db) = Some s"
  proof (cases "find (\<lambda>x. ss_id x = i \<and> ss_org x = ss_org s) (source_systems db)")
    case None
    then show ?thesis using find_NoneD [OF None] source_at_SomeD [OF at] by blast
  next
    case (Some t)
    then show ?thesis
      using find_SomeD [OF Some] source_at_SomeD [OF at]
        unique_on_eq [OF source_ids_unique [OF inv], of t s] by simp
  qed
  then show ?thesis by (simp add: source_get_def)
qed

lemma source_modify_at:
  assumes "source_constraints db" "source_at db i = Some s" "change s = Inr s'"
    and "ss_id s' = ss_id s" "ss_org s' = ss_org s" "ss_code s' = ss_code s"
    and "0 \<le> ss_failure_count s'"
  shows "source_modify db (ss_org s) i change =
    Inr (db\<lparr>source_systems := put_row ss_id s' (source_systems db)\<rparr>, s')"
proof -
  have "source_constraints (db\<lparr>source_systems := put_row ss_id s' (source_systems db)\<rparr>)"
    using assms source_at_SomeD [OF assms(2)] by (intro constraints_put_source) auto
  with assms show ?thesis
    by (simp add: source_modify_def source_get_at commit_source_def)
qed

lemma source_at_put:
  assumes "source_at db i = Some s" "ss_id s' = ss_id s"
  shows "source_at (db\<lparr>source_systems := put_row ss_id s' (source_systems db)\<rparr>) i = Some s'"
  using assms source_at_SomeD [OF assms(1)]
  by (auto simp: source_at_def intro: find_put_row_same)

lemma source_failure_count: "source_constraints db \<Longrightarrow> source_at db i = Some s \<Longrightarrow> 0 \<le> ss_failure_count s"
  using source_at_SomeD by (fastforce simp: source_constraints_def list_all_iff)

text \<open>One connection outcome on a system in service: it succeeds, and what it leaves.\<close>

lemma connection_failure_step:
  assumes "source_constraints db" "source_at db i = Some s" "ss_status s \<noteq> SRC_DECOMMISSIONED"
  shows "\<exists>s'. source_at (attempt source_step (ConnectionFailure (ss_org s) i t actor) db) i = Some s' \<and>
    ss_org s' = ss_org s \<and> ss_status s' = ss_status s \<and>
    ss_failure_count s' = ss_failure_count s + 1 \<and>
    ss_health s' = (if 3 \<le> ss_failure_count s' then UNHEALTHY else DEGRADED)"
proof -
  obtain s' where s': "connection_failure_row t actor s = Inr s'"
    using assms(3) by (auto simp: connection_failure_row_def ensure_not_decommissioned_def Let_def)
  then have f: "ss_id s' = ss_id s" "ss_org s' = ss_org s" "ss_code s' = ss_code s"
    "ss_status s' = ss_status s" "ss_failure_count s' = ss_failure_count s + 1"
    "ss_health s' = (if 3 \<le> ss_failure_count s' then UNHEALTHY else DEGRADED)"
    by (auto simp: connection_failure_row_def Let_def)
  moreover have "source_modify db (ss_org s) i (connection_failure_row t actor) =
      Inr (db\<lparr>source_systems := put_row ss_id s' (source_systems db)\<rparr>, s')"
    using assms s' f source_failure_count [OF assms(1,2)] by (intro source_modify_at) auto
  ultimately show ?thesis
    using source_at_put [OF assms(2) f(1)] by (auto simp: attempt_def)
qed

lemma connection_success_step:
  assumes "source_constraints db" "source_at db i = Some s" "ss_status s \<noteq> SRC_DECOMMISSIONED"
  shows "\<exists>s'. source_at (attempt source_step (ConnectionSuccess (ss_org s) i t actor) db) i = Some s' \<and>
    ss_org s' = ss_org s \<and>
    ss_status s' = (if ss_status s \<in> {SRC_VALIDATING, SRC_PAUSED} then SRC_ACTIVE else ss_status s) \<and>
    ss_failure_count s' = 0 \<and> ss_health s' = HEALTHY"
proof -
  obtain s' where s': "connection_success_row t actor s = Inr s'"
    using assms(3) by (cases "ss_status s") (auto simp: source_row_defs)
  then have f: "ss_id s' = ss_id s" "ss_org s' = ss_org s" "ss_code s' = ss_code s"
    "ss_status s' = (if ss_status s \<in> {SRC_VALIDATING, SRC_PAUSED} then SRC_ACTIVE else ss_status s)"
    "ss_failure_count s' = 0" "ss_health s' = HEALTHY"
    by (auto simp: source_row_defs split: if_splits)
  moreover have "source_modify db (ss_org s) i (connection_success_row t actor) =
      Inr (db\<lparr>source_systems := put_row ss_id s' (source_systems db)\<rparr>, s')"
    using assms s' f by (intro source_modify_at) auto
  ultimately show ?thesis
    using source_at_put [OF assms(2) f(1)] by (auto simp: attempt_def)
qed

lemma connection_failures_run:
  assumes "source_constraints db" "source_at db i = Some s" "ss_status s \<noteq> SRC_DECOMMISSIONED"
    and "ss_org s = org"
  shows "\<exists>s'. source_at (run_ops source_step (map (\<lambda>t. ConnectionFailure org i t actor) ts) db) i = Some s' \<and>
    ss_status s' = ss_status s \<and>
    ss_failure_count s' = ss_failure_count s + int (length ts) \<and>
    ss_health s' = (if ts = [] then ss_health s
                    else if 3 \<le> ss_failure_count s' then UNHEALTHY else DEGRADED)"
  using assms
proof (induction ts arbitrary: db s)
  case Nil
  then show ?case by simp
next
  case (Cons t ts)
  define db1 where "db1 = attempt source_step (ConnectionFailure org i t actor) db"
  obtain s1 where s1: "source_at db1 i = Some s1" "ss_org s1 = org" "ss_status s1 = ss_status s"
    "ss_failure_count s1 = ss_failure_count s + 1"
    "ss_health s1 = (if 3 \<le> ss_failure_count s1 then UNHEALTHY else DEGRADED)"
    using connection_failure_step [OF Cons.prems(1-3)] Cons.prems(4) unfolding db1_def by metis
  have "source_constraints db1"
    unfolding db1_def using Cons.prems(1) by (rule sources.attempt_inv)
  from Cons.IH [OF this s1(1) _ s1(2)] s1(3) Cons.prems(3) obtain s2 where
    "source_at (run_ops source_step (map (\<lambda>t. ConnectionFailure org i t actor) ts) db1) i = Some s2"
    "ss_status s2 = ss_status s1" "ss_failure_count s2 = ss_failure_count s1 + int (length ts)"
    "ss_health s2 = (if ts = [] then ss_health s1
                     else if 3 \<le> ss_failure_count s2 then UNHEALTHY else DEGRADED)"
    by auto
  with s1 show ?case
    by (intro exI [of _ s2]) (simp add: db1_def)
qed

end
