(* ===== verification/Source_Properties.thy ===== *)
theory Source_Properties
  imports Source_Systems
begin

text \<open>
  Request validation of the source-system schemas, and the properties of the component.
  The time zone database and the URL parser are parameters (\<open>tz_known\<close>, \<open>url_ok\<close>).
\<close>

section \<open>Secret-bearing keys\<close>

definition forbidden_secret_keys :: "string list" where
  "forbidden_secret_keys =
     [''password'', ''passwd'', ''secret'', ''token'', ''api_key'', ''apikey'', ''private_key'',
      ''client_secret'', ''access_token'', ''refresh_token'', ''authorization'',
      ''connection_string'', ''database_url'', ''authentication_header'', ''service_account'',
      ''service_account_credentials'', ''signed_url'']"

fun reject_secret_keys :: "json \<Rightarrow> string + unit"
  and reject_in_items :: "(string \<times> json) list \<Rightarrow> string + unit"
  and reject_in_elements :: "json list \<Rightarrow> string + unit" where
  "reject_secret_keys (JObject kvs) = reject_in_items kvs"
| "reject_secret_keys (JArray xs) = reject_in_elements xs"
| "reject_secret_keys _ = Inr ()"
| "reject_in_items [] = Inr ()"
| "reject_in_items ((key, nested) # kvs) =
     (if lower key \<in> set forbidden_secret_keys then Inl key
      else bindE (reject_secret_keys nested) (\<lambda>_. reject_in_items kvs))"
| "reject_in_elements [] = Inr ()"
| "reject_in_elements (x # xs) = bindE (reject_secret_keys x) (\<lambda>_. reject_in_elements xs)"

lemma reject_secret_keys_iff:
  "reject_secret_keys v = Inr () \<longleftrightarrow> (\<forall>k \<in> json_keys v. lower k \<notin> set forbidden_secret_keys)"
  "reject_in_items kvs = Inr () \<longleftrightarrow>
     (\<forall>k \<in> json_keys (JObject kvs). lower k \<notin> set forbidden_secret_keys)"
  "reject_in_elements xs = Inr () \<longleftrightarrow>
     (\<forall>k \<in> json_keys (JArray xs). lower k \<notin> set forbidden_secret_keys)"
  by (induction v and kvs and xs rule: reject_secret_keys_reject_in_items_reject_in_elements.induct)
    auto

lemma reject_secret_keys_Inl:
  "reject_secret_keys v = Inl k \<Longrightarrow> k \<in> json_keys v \<and> lower k \<in> set forbidden_secret_keys"
  "reject_in_items kvs = Inl k \<Longrightarrow>
     k \<in> json_keys (JObject kvs) \<and> lower k \<in> set forbidden_secret_keys"
  "reject_in_elements xs = Inl k \<Longrightarrow>
     k \<in> json_keys (JArray xs) \<and> lower k \<in> set forbidden_secret_keys"
  by (induction v and kvs and xs rule: reject_secret_keys_reject_in_items_reject_in_elements.induct)
    (auto simp: bindE_Inl_iff split: if_splits)

section \<open>Field validators\<close>

datatype field_error =
    TooShort | TooLong | BadPattern | Blank | BadProvider | BadTimezone | BadCurrency | BadUrl
  | SecretKey string | BadCapabilities | BadCredential

definition length_between :: "nat \<Rightarrow> nat \<Rightarrow> string \<Rightarrow> field_error + unit" where
  "length_between lo hi s =
     bindE (require (lo \<le> length s) TooShort) (\<lambda>_. require (length s \<le> hi) TooLong)"

definition optional_field :: "('a \<Rightarrow> field_error + 'a) \<Rightarrow> 'a option \<Rightarrow> field_error + 'a option" where
  "optional_field check v =
     (case v of None \<Rightarrow> Inr None | Some x \<Rightarrow> bindE (check x) (\<lambda>y. Inr (Some y)))"

definition trim_name :: "string \<Rightarrow> field_error + string" where
  "trim_name v = bindE (length_between 1 200 v) (\<lambda>_.
     let n = strip v in bindE (require (n \<noteq> []) Blank) (\<lambda>_. Inr n))"

definition check_code :: "string \<Rightarrow> field_error + string" where
  "check_code v = bindE (length_between 2 100 v) (\<lambda>_.
     bindE (require (code_ok (CHR ''-'') v) BadPattern) (\<lambda>_. Inr v))"

definition normalize_provider :: "string \<Rightarrow> field_error + string" where
  "normalize_provider v = bindE (length_between 0 100 v) (\<lambda>_.
     let n = lower (strip v)
     in bindE (require (n \<noteq> [] \<and>
                list_all (\<lambda>c. is_alnum c \<or> c \<in> {CHR ''_'', CHR ''-'', CHR ''.''}) n) BadProvider)
          (\<lambda>_. Inr n))"

definition valid_timezone :: "(string \<Rightarrow> bool) \<Rightarrow> string \<Rightarrow> field_error + string" where
  "valid_timezone tz_known v = bindE (length_between 0 100 v) (\<lambda>_.
     let n = strip v in bindE (require (tz_known n) BadTimezone) (\<lambda>_. Inr n))"

definition uppercase_currency :: "string \<Rightarrow> field_error + string" where
  "uppercase_currency v = bindE (length_between 3 3 v) (\<lambda>_.
     let n = upper v in bindE (require (list_all is_alpha n) BadCurrency) (\<lambda>_. Inr n))"

definition valid_http_url :: "(string \<Rightarrow> bool) \<Rightarrow> string \<Rightarrow> field_error + string" where
  "valid_http_url url_ok v = bindE (length_between 0 500 v) (\<lambda>_.
     bindE (require (url_ok v) BadUrl) (\<lambda>_. Inr v))"

definition metadata_has_no_secrets :: "json \<Rightarrow> field_error + json" where
  "metadata_has_no_secrets v =
     (case reject_secret_keys v of Inl k \<Rightarrow> Inl (SecretKey k) | Inr _ \<Rightarrow> Inr v)"

definition valid_capabilities :: "string list \<Rightarrow> field_error + string list" where
  "valid_capabilities v =
     (let n = map strip v
      in bindE (require ([] \<notin> set n \<and> distinct n) BadCapabilities) (\<lambda>_. Inr n))"

definition valid_credential_reference :: "string \<Rightarrow> field_error + string" where
  "valid_credential_reference v = bindE (length_between 1 500 v) (\<lambda>_.
     let n = strip v in bindE (require (\<not> list_ex is_space n) BadCredential) (\<lambda>_. Inr n))"

definition bounded_text :: "nat \<Rightarrow> string \<Rightarrow> field_error + string" where
  "bounded_text hi v = bindE (length_between 0 hi v) (\<lambda>_. Inr v)"

definition validate_source_create ::
    "(string \<Rightarrow> bool) \<Rightarrow> (string \<Rightarrow> bool) \<Rightarrow> source_payload \<Rightarrow> field_error + source_payload" where
  "validate_source_create tz_known url_ok p =
     bindE (trim_name (sc_name p)) (\<lambda>name.
     bindE (check_code (sc_code p)) (\<lambda>code.
     bindE (optional_field normalize_provider (sc_provider p)) (\<lambda>provider.
     bindE (optional_field (valid_http_url url_ok) (sc_base_url p)) (\<lambda>base_url.
     bindE (optional_field (bounded_text 255) (sc_database_host p)) (\<lambda>db_host.
     bindE (optional_field (bounded_text 255) (sc_database_name p)) (\<lambda>db_name.
     bindE (optional_field (bounded_text 255) (sc_external_id p)) (\<lambda>external.
     bindE (optional_field (bounded_text 200) (sc_owner_name p)) (\<lambda>owner.
     bindE (optional_field (valid_timezone tz_known) (sc_timezone p)) (\<lambda>timezone.
     bindE (optional_field uppercase_currency (sc_currency p)) (\<lambda>currency.
     bindE (optional_field valid_credential_reference (sc_credential p)) (\<lambda>credential.
     bindE (optional_field metadata_has_no_secrets (sc_configuration p)) (\<lambda>config.
     bindE (optional_field valid_capabilities (sc_capabilities p)) (\<lambda>caps.
     Inr (p\<lparr>sc_name := name, sc_code := code, sc_provider := provider, sc_base_url := base_url,
             sc_database_host := db_host, sc_database_name := db_name, sc_external_id := external,
             sc_owner_name := owner, sc_timezone := timezone, sc_currency := currency,
             sc_credential := credential, sc_configuration := config, sc_capabilities := caps\<rparr>)
     )))))))))))))"

section \<open>Properties\<close>

definition demo_source :: source_system where
  "demo_source = \<lparr>ss_id = 7, ss_org = 1, ss_name = ''ERP'', ss_code = ''erp'', ss_description = None,
     ss_type = SYS_ERP, ss_provider = None, ss_method = INT_API, ss_environment = PRODUCTION,
     ss_status = SRC_ACTIVE, ss_health = HEALTH_UNKNOWN, ss_base_url = None,
     ss_database_host = None, ss_database_name = None, ss_external_id = None,
     ss_owner_name = None, ss_owner_email = None, ss_classification = INTERNAL,
     ss_timezone = None, ss_currency = None, ss_credential = None, ss_last_attempt = None,
     ss_last_success = None, ss_last_failure = None, ss_last_health_check = None,
     ss_failure_count = 0, ss_configuration = None, ss_capabilities = None, ss_is_active = True,
     ss_created_by = 9, ss_updated_by = 9, ss_deactivated_at = None\<rparr>"

definition demo_source_db :: "source_status \<Rightarrow> source_db" where
  "demo_source_db st =
     \<lparr>organizations = [1, 2], source_systems = [demo_source\<lparr>ss_status := st\<rparr>]\<rparr>"

lemma demo_source_db_facts:
  "source_constraints (demo_source_db st)"
  "source_at (demo_source_db st) 7 = Some (demo_source\<lparr>ss_status := st\<rparr>)"
  by (simp_all add: source_constraints_def unique_on_def source_at_def demo_source_db_def
      demo_source_def)

lemma decommissioned_run:
  assumes "source_constraints db" "source_at db i = Some s" "ss_status s = SRC_DECOMMISSIONED"
  shows "\<exists>s'. source_at (run_ops source_step ops db) i = Some s' \<and> frozen_core s' = frozen_core s"
proof (rule source_rows.run_stable [OF _ assms(1,2)])
  fix x x' assume "frozen_core x = frozen_core s" "source_evolves x x'"
  then show "frozen_core x' = frozen_core s"
    using assms(3) decommissioned_evolves [of x x'] frozen_core_status [of x s] by simp
qed simp

text \<open>C7: Once a source system is decommissioned, no sequence of requests by anyone, successful
  or not, changes anything about it but its description and its owner contact.\<close>

theorem source_decommissioned_frozen:
  assumes "source_constraints db" "source_at db i = Some s" "ss_status s = SRC_DECOMMISSIONED"
  shows "\<exists>s'. source_at (run_ops source_step ops db) i = Some s' \<and> frozen_core s' = frozen_core s"
  using assms by (rule decommissioned_run)

theorem source_decommissioned_frozen_witness:
  "\<exists>s'. source_at (run_ops source_step
      [UpdateSource 1 7 \<lparr>su_status = None, su_changes = [SetOwnerName (Some ''Ann'')]\<rparr> 9,
       ReactivateSource 1 7 9] (demo_source_db SRC_DECOMMISSIONED)) 7 = Some s' \<and>
    frozen_core s' = frozen_core (demo_source\<lparr>ss_status := SRC_DECOMMISSIONED\<rparr>)"
  by (rule source_decommissioned_frozen) (simp_all add: demo_source_db_facts)

text \<open>A tenant's requests never change what another tenant's source systems look like:
  whatever sequence of requests other organizations make, the rows of this one are the same.\<close>

theorem source_tenant_isolation:
  assumes "source_constraints db" "\<forall>op \<in> set ops. source_op_org op \<noteq> org"
  shows "source_view org (run_ops source_step ops db) = source_view org db"
  using assms by (rule sources.run_isolated)

theorem source_tenant_isolation_witness:
  "source_view 1 (run_ops source_step [PauseSource 2 7 9] (demo_source_db SRC_ACTIVE)) =
   source_view 1 (demo_source_db SRC_ACTIVE)"
  by (rule source_tenant_isolation) (simp_all add: demo_source_db_facts)

text \<open>C27: Health escalation. A connection success on a system in service resets its failure
  count and makes it healthy; after \<open>n\<close> further failures in a row the count is \<open>n\<close>, and the
  health is degraded below three failures and unhealthy from the third on. The failures do
  not move the lifecycle status.\<close>

theorem source_failure_escalation:
  assumes "source_constraints db" "source_at db i = Some s" "ss_status s \<noteq> SRC_DECOMMISSIONED"
    and "ss_org s = org"
  shows "\<exists>s'. source_at (run_ops source_step
      (ConnectionSuccess org i t0 actor # map (\<lambda>t. ConnectionFailure org i t actor) ts) db) i = Some s' \<and>
    ss_failure_count s' = int (length ts) \<and>
    ss_health s' = (if ts = [] then HEALTHY else if length ts < 3 then DEGRADED else UNHEALTHY) \<and>
    ss_status s' = (if ss_status s \<in> {SRC_VALIDATING, SRC_PAUSED} then SRC_ACTIVE else ss_status s)"
proof -
  define db1 where "db1 = attempt source_step (ConnectionSuccess org i t0 actor) db"
  obtain s1 where s1: "source_at db1 i = Some s1" "ss_org s1 = org" "ss_failure_count s1 = 0"
    "ss_health s1 = HEALTHY"
    "ss_status s1 = (if ss_status s \<in> {SRC_VALIDATING, SRC_PAUSED} then SRC_ACTIVE else ss_status s)"
    using connection_success_step [OF assms(1-3)] assms(4) unfolding db1_def by metis
  have inv: "source_constraints db1"
    unfolding db1_def using assms(1) by (rule sources.attempt_inv)
  have "ss_status s1 \<noteq> SRC_DECOMMISSIONED"
    using s1(5) assms(3) by auto
  from connection_failures_run [OF inv s1(1) this s1(2), of actor ts] obtain s' where
    "source_at (run_ops source_step (map (\<lambda>t. ConnectionFailure org i t actor) ts) db1) i = Some s'"
    "ss_status s' = ss_status s1" "ss_failure_count s' = ss_failure_count s1 + int (length ts)"
    "ss_health s' = (if ts = [] then ss_health s1
                     else if 3 \<le> ss_failure_count s' then UNHEALTHY else DEGRADED)"
    by blast
  with s1(3-5) show ?thesis
    by (intro exI [of _ s']) (simp add: db1_def not_less)
qed

theorem source_failure_escalation_witness:
  "\<exists>s'. source_at (run_ops source_step
      (ConnectionSuccess 1 7 50 9 # map (\<lambda>t. ConnectionFailure 1 7 t 9) [60, 70, 80])
      (demo_source_db SRC_PAUSED)) 7 = Some s' \<and>
    ss_failure_count s' = 3 \<and> ss_health s' = UNHEALTHY \<and> ss_status s' = SRC_ACTIVE"
  using source_failure_escalation [where db = "demo_source_db SRC_PAUSED" and i = 7
      and s = "demo_source\<lparr>ss_status := SRC_PAUSED\<rparr>" and org = 1 and ?t0.0 = 50 and actor = 9
      and ts = "[60, 70, 80]"]
  by (simp add: demo_source_db_facts demo_source_def)

text \<open>A system decommissioned through the update request instead of the decommission request
  keeps its active flag and gets no deactivation time, and stays that way for good: no later
  sequence of requests can clear the flag.\<close>

theorem source_update_decommission_stays_active:
  assumes "source_constraints db" "source_at db i = Some s"
    and "SRC_DECOMMISSIONED \<in> set (source_transitions (ss_status s))" "ss_is_active s"
    and "ss_deactivated_at s = None"
  shows "\<exists>s'. source_at (run_ops source_step
      (UpdateSource (ss_org s) i \<lparr>su_status = Some SRC_DECOMMISSIONED, su_changes = []\<rparr> actor # ops) db) i
        = Some s' \<and>
    ss_status s' = SRC_DECOMMISSIONED \<and> ss_is_active s' \<and> ss_deactivated_at s' = None"
proof -
  let ?op = "UpdateSource (ss_org s) i \<lparr>su_status = Some SRC_DECOMMISSIONED, su_changes = []\<rparr> actor"
  define s1 where "s1 = s\<lparr>ss_status := SRC_DECOMMISSIONED, ss_updated_by := actor\<rparr>"
  have "ss_status s \<noteq> SRC_DECOMMISSIONED"
    using assms(3) by auto
  then have "update_row \<lparr>su_status = Some SRC_DECOMMISSIONED, su_changes = []\<rparr> actor s = Inr s1"
    using assms(3) by (simp add: update_row_def source_transition_def s1_def)
  then have "source_modify db (ss_org s) i
      (update_row \<lparr>su_status = Some SRC_DECOMMISSIONED, su_changes = []\<rparr> actor) =
      Inr (db\<lparr>source_systems := put_row ss_id s1 (source_systems db)\<rparr>, s1)"
    using source_failure_count [OF assms(1,2)]
    by (intro source_modify_at [OF assms(1,2)]) (simp_all add: s1_def)
  then have at1: "source_at (attempt source_step ?op db) i = Some s1"
    using source_at_put [OF assms(2), of s1] by (simp add: attempt_def s1_def)
  obtain s' where s': "source_at (run_ops source_step (?op # ops) db) i = Some s'"
    "frozen_core s' = frozen_core s1"
    using decommissioned_run [OF sources.attempt_inv [OF assms(1)] at1] 
    by (auto simp: s1_def)
  from s'(2) have "ss_status s' = ss_status s1" "ss_is_active s' = ss_is_active s1"
    "ss_deactivated_at s' = ss_deactivated_at s1"
    by (cases s', cases s1, simp add: frozen_core_def)+
  with s'(1) assms(4,5) show ?thesis
    by (auto simp: s1_def)
qed

theorem source_update_decommission_stays_active_witness:
  "\<exists>s'. source_at (run_ops source_step
      (UpdateSource 1 7 \<lparr>su_status = Some SRC_DECOMMISSIONED, su_changes = []\<rparr> 9 #
       [DecommissionSource 1 7 100 9]) (demo_source_db SRC_ACTIVE)) 7 = Some s' \<and>
    ss_status s' = SRC_DECOMMISSIONED \<and> ss_is_active s' \<and> ss_deactivated_at s' = None"
  using source_update_decommission_stays_active [where db = "demo_source_db SRC_ACTIVE" and i = 7
      and s = "demo_source\<lparr>ss_status := SRC_ACTIVE\<rparr>" and actor = 9
      and ops = "[DecommissionSource 1 7 100 9]"]
  by (simp add: demo_source_db_facts demo_source_def)

text \<open>Configuration metadata is accepted exactly when no object at any depth has a key that
  is, up to letter case, one of the secret-bearing names; a rejection names such a key.\<close>

theorem metadata_secret_scan:
  "(reject_secret_keys v = Inr () \<longleftrightarrow> (\<forall>k \<in> json_keys v. lower k \<notin> set forbidden_secret_keys)) \<and>
   (\<forall>k. reject_secret_keys v = Inl k \<longrightarrow> k \<in> json_keys v \<and> lower k \<in> set forbidden_secret_keys)"
  using reject_secret_keys_iff(1) reject_secret_keys_Inl(1) by blast

theorem metadata_secret_scan_witness:
  "reject_secret_keys (JObject [(''a'', JArray [JObject [(''Api_Key'', JNull)]])]) = Inl ''Api_Key'' \<and>
   ''Api_Key'' \<in> json_keys (JObject [(''a'', JArray [JObject [(''Api_Key'', JNull)]])])"
proof -
  have r: "reject_secret_keys (JObject [(''a'', JArray [JObject [(''Api_Key'', JNull)]])]) = Inl ''Api_Key''"
    by code_simp
  with metadata_secret_scan [of "JObject [(''a'', JArray [JObject [(''Api_Key'', JNull)]])]"]
  show ?thesis by blast
qed

end
