(* ===== verification/Ingestion.thy ===== *)
theory Ingestion
  imports Source_Systems
begin

text \<open>
  Ingestion (\<open>app/models/ingestion.py\<close>, \<open>app/services/ingestion_service.py\<close>): batches of
  received data, the datasets of a tenant and their numbered versions. The database extends
  that of the source systems, because creation checks the state of the source.

  The session of the code runs with \<open>autoflush=False\<close>: a query sees the rows as they were
  last flushed, and the models below read the state at the point where the code flushes.
\<close>

section \<open>Enumerations\<close>

datatype ingestion_method =
    ING_API | ING_DATABASE_EXTRACT | ING_FILE_UPLOAD | ING_FILE_DROP | ING_SFTP | ING_WEBHOOK
  | ING_MESSAGE_QUEUE | ING_EMAIL_INGESTION | ING_MANUAL | ING_DEVICE_STREAM | ING_SIMULATED
  | ING_CUSTOM

datatype trigger_type =
    TRG_MANUAL | TRG_SCHEDULED | TRG_EVENT | TRG_WEBHOOK | TRG_RETRY | TRG_BACKFILL
  | TRG_SIMULATION | TRG_SYSTEM

datatype batch_status =
    B_RECEIVED | B_QUEUED | B_VALIDATING | B_PROCESSING | B_PARTIALLY_COMPLETED | B_COMPLETED
  | B_FAILED | B_CANCELLED | B_QUARANTINED

datatype dataset_type =
    DT_TRANSACTIONAL | DT_MASTER_DATA | DT_REFERENCE_DATA | DT_EVENT_STREAM | DT_SNAPSHOT
  | DT_TIME_SERIES | DT_DOCUMENT | DT_GEOSPATIAL | DT_UNSTRUCTURED | DT_SEMI_STRUCTURED
  | DT_CUSTOM

datatype dataset_status = D_DRAFT | D_ACTIVE | D_PAUSED | D_DEPRECATED | D_DECOMMISSIONED

datatype version_status =
    V_RECEIVED | V_VALIDATING | V_ACCEPTED | V_PARTIALLY_ACCEPTED | V_REJECTED | V_QUARANTINED
  | V_PROCESSED | V_FAILED

datatype schema_status =
    SCH_UNKNOWN | SCH_DISCOVERED | SCH_STABLE | SCH_CHANGED | SCH_INCOMPATIBLE | SCH_APPROVED

section \<open>Rows and constraints\<close>

record ingestion_batch =
  b_id :: uuid
  b_org :: uuid
  b_source :: uuid
  b_number :: string
  b_method :: ingestion_method
  b_status :: batch_status
  b_trigger :: trigger_type
  b_submitted_by :: uuid
  b_started_at :: "timestamp option"
  b_completed_at :: "timestamp option"
  b_failed_at :: "timestamp option"
  b_period_start :: "timestamp option"
  b_period_end :: "timestamp option"
  b_expected_datasets :: "int option"
  b_actual_datasets :: int
  b_expected_records :: "int option"
  b_actual_records :: int
  b_accepted_records :: int
  b_rejected_records :: int
  b_warnings :: int
  b_errors :: int
  b_checksum :: "string option"
  b_correlation_id :: "string option"
  b_external_id :: "string option"
  b_idempotency_key :: "string option"
  b_storage_reference :: "string option"
  b_manifest :: "json option"
  b_failure_code :: "string option"
  b_failure_summary :: "string option"

record dataset =
  d_id :: uuid
  d_org :: uuid
  d_source :: uuid
  d_name :: string
  d_code :: string
  d_description :: "string option"
  d_domain :: string
  d_type :: dataset_type
  d_sensitivity :: data_classification
  d_status :: dataset_status
  d_schema_status :: schema_status
  d_time_field :: "string option"
  d_business_key :: "string option"
  d_object_name :: "string option"
  d_schema_name :: "string option"
  d_table_name :: "string option"
  d_file_pattern :: "string option"
  d_timezone :: "string option"
  d_currency :: "string option"
  d_retention_days :: "int option"
  d_metadata :: "json option"
  d_created_by :: uuid
  d_updated_by :: uuid
  d_deactivated_at :: "timestamp option"

record dataset_version =
  v_id :: uuid
  v_org :: uuid
  v_dataset :: uuid
  v_batch :: uuid
  v_number :: int
  v_status :: version_status
  v_file_name :: "string option"
  v_file_extension :: "string option"
  v_file_size :: "int option"
  v_file_checksum :: "string option"
  v_media_type :: "string option"
  v_encoding :: "string option"
  v_delimiter :: "string option"
  v_sheet_name :: "string option"
  v_records :: int
  v_accepted :: int
  v_rejected :: int
  v_columns :: "int option"
  v_storage_reference :: "string option"
  v_raw_schema_reference :: "string option"
  v_period_start :: "timestamp option"
  v_period_end :: "timestamp option"
  v_processed_at :: "timestamp option"
  v_fingerprint :: "string option"
  v_metadata :: "json option"

record ingestion_db = source_db +
  batches :: "ingestion_batch list"
  datasets :: "dataset list"
  versions :: "dataset_version list"

definition null_or :: "('a \<Rightarrow> bool) \<Rightarrow> 'a option \<Rightarrow> bool" where
  "null_or P v = (case v of None \<Rightarrow> True | Some x \<Rightarrow> P x)"

definition batch_row_ok :: "ingestion_batch \<Rightarrow> bool" where
  "batch_row_ok b \<longleftrightarrow>
     null_or ((\<le>) 0) (b_expected_datasets b) \<and>
     0 \<le> b_actual_datasets b \<and> 0 \<le> b_actual_records b \<and> 0 \<le> b_accepted_records b \<and>
     0 \<le> b_rejected_records b \<and> 0 \<le> b_warnings b \<and> 0 \<le> b_errors b \<and>
     null_or ((\<le>) 0) (b_expected_records b) \<and>
     b_accepted_records b + b_rejected_records b \<le> b_actual_records b"

definition batch_constraints :: "'a ingestion_db_scheme \<Rightarrow> bool" where
  "batch_constraints db \<longleftrightarrow>
     unique_on b_id (batches db) \<and>
     unique_on (\<lambda>b. (b_org b, b_number b)) (batches db) \<and>
     unique_on_some (\<lambda>b. map_option (Pair (b_org b)) (b_idempotency_key b)) (batches db) \<and>
     list_all batch_row_ok (batches db) \<and>
     list_all (\<lambda>b. (b_org b, b_source b) \<in> (\<lambda>s. (ss_org s, ss_id s)) ` set (source_systems db))
       (batches db)"

definition dataset_constraints :: "'a ingestion_db_scheme \<Rightarrow> bool" where
  "dataset_constraints db \<longleftrightarrow>
     unique_on d_id (datasets db) \<and>
     unique_on (\<lambda>d. (d_org d, d_code d)) (datasets db) \<and>
     list_all (\<lambda>d. null_or ((<) 0) (d_retention_days d)) (datasets db) \<and>
     list_all (\<lambda>d. (d_org d, d_source d) \<in> (\<lambda>s. (ss_org s, ss_id s)) ` set (source_systems db))
       (datasets db)"

definition version_row_ok :: "dataset_version \<Rightarrow> bool" where
  "version_row_ok v \<longleftrightarrow>
     0 < v_number v \<and>
     0 \<le> v_records v \<and> 0 \<le> v_accepted v \<and> 0 \<le> v_rejected v \<and>
     v_accepted v + v_rejected v \<le> v_records v \<and>
     null_or ((\<le>) 0) (v_file_size v) \<and> null_or ((\<le>) 0) (v_columns v)"

definition version_constraints :: "'a ingestion_db_scheme \<Rightarrow> bool" where
  "version_constraints db \<longleftrightarrow>
     unique_on v_id (versions db) \<and>
     unique_on (\<lambda>v. (v_dataset v, v_number v)) (versions db) \<and>
     unique_on (\<lambda>v. (v_batch v, v_dataset v)) (versions db) \<and>
     list_all version_row_ok (versions db) \<and>
     list_all (\<lambda>v. (v_org v, v_dataset v) \<in> (\<lambda>d. (d_org d, d_id d)) ` set (datasets db))
       (versions db) \<and>
     list_all (\<lambda>v. (v_org v, v_batch v) \<in> (\<lambda>b. (b_org b, b_id b)) ` set (batches db))
       (versions db)"

definition ingestion_constraints :: "'a ingestion_db_scheme \<Rightarrow> bool" where
  "ingestion_constraints db \<longleftrightarrow>
     source_constraints db \<and> batch_constraints db \<and> dataset_constraints db \<and> version_constraints db"

datatype ingestion_error =
    IngestionNotFound
  | IngestionTenantMismatch
  | IngestionConflict
  | SourceStatusForbids source_status
  | BatchTransitionForbidden batch_status batch_status
  | BatchImmutable
  | DatasetTransitionForbidden dataset_status dataset_status
  | DatasetDecommissioned
  | VersionTransitionForbidden version_status version_status
  | VersionImmutable
  | IntegrityError

section \<open>Transition tables\<close>

fun batch_transitions :: "batch_status \<Rightarrow> batch_status list" where
  "batch_transitions B_RECEIVED = [B_QUEUED, B_VALIDATING, B_CANCELLED]"
| "batch_transitions B_QUEUED = [B_VALIDATING, B_CANCELLED]"
| "batch_transitions B_VALIDATING = [B_PROCESSING, B_QUARANTINED, B_FAILED]"
| "batch_transitions B_PROCESSING =
     [B_COMPLETED, B_PARTIALLY_COMPLETED, B_FAILED, B_QUARANTINED]"
| "batch_transitions B_PARTIALLY_COMPLETED = [B_COMPLETED, B_FAILED]"
| "batch_transitions B_FAILED = [B_QUEUED]"
| "batch_transitions B_QUARANTINED = [B_QUEUED, B_CANCELLED]"
| "batch_transitions B_COMPLETED = []"
| "batch_transitions B_CANCELLED = []"

fun dataset_transitions :: "dataset_status \<Rightarrow> dataset_status list" where
  "dataset_transitions D_DRAFT = [D_ACTIVE, D_DECOMMISSIONED]"
| "dataset_transitions D_ACTIVE = [D_PAUSED, D_DEPRECATED, D_DECOMMISSIONED]"
| "dataset_transitions D_PAUSED = [D_ACTIVE, D_DEPRECATED, D_DECOMMISSIONED]"
| "dataset_transitions D_DEPRECATED = [D_DECOMMISSIONED]"
| "dataset_transitions D_DECOMMISSIONED = []"

fun version_transitions :: "version_status \<Rightarrow> version_status list" where
  "version_transitions V_RECEIVED = [V_VALIDATING]"
| "version_transitions V_VALIDATING =
     [V_ACCEPTED, V_PARTIALLY_ACCEPTED, V_REJECTED, V_QUARANTINED, V_FAILED]"
| "version_transitions V_ACCEPTED = [V_PROCESSED]"
| "version_transitions V_PARTIALLY_ACCEPTED = [V_PROCESSED, V_FAILED]"
| "version_transitions V_QUARANTINED = [V_VALIDATING]"
| "version_transitions V_FAILED = [V_VALIDATING]"
| "version_transitions V_REJECTED = []"
| "version_transitions V_PROCESSED = []"

section \<open>Sources of new data\<close>

definition source_for_organization ::
    "'a source_db_scheme \<Rightarrow> uuid \<Rightarrow> uuid \<Rightarrow> ingestion_error + source_system" where
  "source_for_organization db org i =
     tenant_get ss_id ss_org IngestionTenantMismatch (source_systems db) org i"

definition source_for_downstream_creation ::
    "'a source_db_scheme \<Rightarrow> uuid \<Rightarrow> uuid \<Rightarrow> ingestion_error + source_system" where
  "source_for_downstream_creation db org i =
     bindE (source_for_organization db org i) (\<lambda>s.
     bindE (require (ss_status s \<in> set downstream_creation_statuses)
              (SourceStatusForbids (ss_status s))) (\<lambda>_. Inr s))"

section \<open>Batches\<close>

record batch_payload =
  bc_source :: uuid
  bc_number :: string
  bc_method :: ingestion_method
  bc_trigger :: trigger_type
  bc_period_start :: "timestamp option"
  bc_period_end :: "timestamp option"
  bc_expected_datasets :: "int option"
  bc_expected_records :: "int option"
  bc_checksum :: "string option"
  bc_correlation_id :: "string option"
  bc_external_id :: "string option"
  bc_idempotency_key :: "string option"
  bc_storage_reference :: "string option"
  bc_manifest :: "json option"

record batch_counts =
  cu_actual_records :: int
  cu_accepted_records :: int
  cu_rejected_records :: int
  cu_warnings :: int
  cu_errors :: int

datatype ingestion_row =
    BatchRow ingestion_batch | DatasetRow dataset | VersionRow dataset_version

definition commit_ingestion ::
    "ingestion_error \<Rightarrow> 'a ingestion_db_scheme \<Rightarrow> ingestion_row \<Rightarrow>
     ingestion_error + 'a ingestion_db_scheme \<times> ingestion_row" where
  "commit_ingestion e db r = bindE (require (ingestion_constraints db) e) (\<lambda>_. Inr (db, r))"

text \<open>The fields that decide whether a replayed request is the same request.\<close>

definition batch_equivalent :: "ingestion_batch \<Rightarrow> batch_payload \<Rightarrow> bool" where
  "batch_equivalent b p \<longleftrightarrow>
     b_source b = bc_source p \<and> b_number b = bc_number p \<and> b_method b = bc_method p \<and>
     b_trigger b = bc_trigger p \<and> b_external_id b = bc_external_id p \<and>
     b_period_start b = bc_period_start p \<and> b_period_end b = bc_period_end p"

definition new_batch :: "uuid \<Rightarrow> uuid \<Rightarrow> batch_payload \<Rightarrow> uuid \<Rightarrow> ingestion_batch" where
  "new_batch org new_id p actor =
     \<lparr>b_id = new_id, b_org = org, b_source = bc_source p, b_number = bc_number p,
      b_method = bc_method p, b_status = B_RECEIVED, b_trigger = bc_trigger p,
      b_submitted_by = actor, b_started_at = None, b_completed_at = None, b_failed_at = None,
      b_period_start = bc_period_start p, b_period_end = bc_period_end p,
      b_expected_datasets = bc_expected_datasets p, b_actual_datasets = 0,
      b_expected_records = bc_expected_records p, b_actual_records = 0, b_accepted_records = 0,
      b_rejected_records = 0, b_warnings = 0, b_errors = 0, b_checksum = bc_checksum p,
      b_correlation_id = bc_correlation_id p, b_external_id = bc_external_id p,
      b_idempotency_key = bc_idempotency_key p, b_storage_reference = bc_storage_reference p,
      b_manifest = bc_manifest p, b_failure_code = None, b_failure_summary = None\<rparr>"

definition batch_create ::
    "'a ingestion_db_scheme \<Rightarrow> uuid \<Rightarrow> uuid \<Rightarrow> batch_payload \<Rightarrow> uuid \<Rightarrow>
     ingestion_error + 'a ingestion_db_scheme \<times> ingestion_row" where
  "batch_create db org new_id p actor =
     bindE (source_for_downstream_creation db org (bc_source p)) (\<lambda>_.
     case (if bc_idempotency_key p \<in> {None, Some []} then None
           else find (\<lambda>b. b_org b = org \<and> b_idempotency_key b = bc_idempotency_key p) (batches db))
     of Some existing \<Rightarrow>
          (if batch_equivalent existing p then Inr (db, BatchRow existing) else Inl IngestionConflict)
      | None \<Rightarrow>
          bindE (require (find (\<lambda>b. b_org b = org \<and> b_number b = bc_number p) (batches db) = None)
                   IngestionConflict) (\<lambda>_.
          let b = new_batch org new_id p actor
          in commit_ingestion IngestionConflict (db\<lparr>batches := batches db @ [b]\<rparr>) (BatchRow b)))"

definition batch_get ::
    "'a ingestion_db_scheme \<Rightarrow> uuid \<Rightarrow> uuid \<Rightarrow> ingestion_error + ingestion_batch" where
  "batch_get db org i = tenant_get b_id b_org IngestionNotFound (batches db) org i"

definition batch_transition ::
    "timestamp \<Rightarrow> batch_status \<Rightarrow> ingestion_batch \<Rightarrow> ingestion_error + ingestion_batch" where
  "batch_transition now target b =
     bindE (require (target \<in> set (batch_transitions (b_status b)))
              (BatchTransitionForbidden (b_status b) target)) (\<lambda>_.
     let b1 = b\<lparr>b_status := target\<rparr>;
         b2 = (if target \<in> {B_VALIDATING, B_PROCESSING} \<and> b_started_at b1 = None
               then b1\<lparr>b_started_at := Some now\<rparr> else b1);
         b3 = (if target \<in> {B_COMPLETED, B_PARTIALLY_COMPLETED}
               then b2\<lparr>b_completed_at := Some now\<rparr> else b2)
     in Inr (if target = B_FAILED then b3\<lparr>b_failed_at := Some now\<rparr>
             else if target = B_QUEUED then b3\<lparr>b_failed_at := None\<rparr> else b3))"

definition batch_ensure_mutable :: "ingestion_batch \<Rightarrow> ingestion_error + unit" where
  "batch_ensure_mutable b = require (b_status b \<notin> {B_COMPLETED, B_CANCELLED}) BatchImmutable"

definition put_batch :: "ingestion_batch \<Rightarrow> 'a ingestion_db_scheme \<Rightarrow> 'a ingestion_db_scheme" where
  "put_batch b db = db\<lparr>batches := put_row b_id b (batches db)\<rparr>"

text \<open>Read for update, change in memory, commit: the shape of every batch operation.\<close>

definition batch_modify ::
    "'a ingestion_db_scheme \<Rightarrow> uuid \<Rightarrow> uuid \<Rightarrow> (ingestion_batch \<Rightarrow> ingestion_error + ingestion_batch) \<Rightarrow>
     ingestion_error + 'a ingestion_db_scheme \<times> ingestion_row" where
  "batch_modify db org i change =
     bindE (batch_get db org i) (\<lambda>b.
     bindE (change b) (\<lambda>b'. commit_ingestion IngestionConflict (put_batch b' db) (BatchRow b')))"

definition set_batch_counts :: "batch_counts \<Rightarrow> ingestion_batch \<Rightarrow> ingestion_error + ingestion_batch" where
  "set_batch_counts p b =
     bindE (batch_ensure_mutable b) (\<lambda>_.
     Inr (b\<lparr>b_actual_records := cu_actual_records p, b_accepted_records := cu_accepted_records p,
            b_rejected_records := cu_rejected_records p, b_warnings := cu_warnings p,
            b_errors := cu_errors p\<rparr>))"

definition record_batch_failure ::
    "timestamp \<Rightarrow> string \<Rightarrow> string \<Rightarrow> ingestion_batch \<Rightarrow> ingestion_error + ingestion_batch" where
  "record_batch_failure now code summary b =
     bindE (batch_transition now B_FAILED b) (\<lambda>b'.
     Inr (b'\<lparr>b_failure_code := Some code, b_failure_summary := Some summary\<rparr>))"

text \<open>The totals over the versions of a batch, written into its counters.\<close>

definition batch_versions :: "'a ingestion_db_scheme \<Rightarrow> uuid \<Rightarrow> uuid \<Rightarrow> dataset_version list" where
  "batch_versions db org i = filter (\<lambda>v. v_org v = org \<and> v_batch v = i) (versions db)"

definition apply_reconciliation :: "'a ingestion_db_scheme \<Rightarrow> uuid \<Rightarrow> ingestion_batch \<Rightarrow> ingestion_batch" where
  "apply_reconciliation db org b =
     (let vs = batch_versions db org (b_id b)
      in b\<lparr>b_actual_datasets := int (length vs), b_actual_records := sum_list (map v_records vs),
           b_accepted_records := sum_list (map v_accepted vs),
           b_rejected_records := sum_list (map v_rejected vs)\<rparr>)"

definition recalculate_batch ::
    "'a ingestion_db_scheme \<Rightarrow> uuid \<Rightarrow> ingestion_batch \<Rightarrow> ingestion_error + ingestion_batch" where
  "recalculate_batch db org b =
     bindE (batch_ensure_mutable b) (\<lambda>_. Inr (apply_reconciliation db org b))"

section \<open>Datasets\<close>

record dataset_payload =
  dc_source :: uuid
  dc_name :: string
  dc_code :: string
  dc_description :: "string option"
  dc_domain :: string
  dc_type :: dataset_type
  dc_sensitivity :: data_classification
  dc_time_field :: "string option"
  dc_business_key :: "string option"
  dc_object_name :: "string option"
  dc_schema_name :: "string option"
  dc_table_name :: "string option"
  dc_file_pattern :: "string option"
  dc_timezone :: "string option"
  dc_currency :: "string option"
  dc_retention_days :: "int option"
  dc_metadata :: "json option"

datatype dataset_change =
    DsName string
  | DsCode string
  | DsDescription "string option"
  | DsDomain string
  | DsType dataset_type
  | DsSensitivity data_classification
  | DsSchemaStatus schema_status
  | DsTimeField "string option"
  | DsBusinessKey "string option"
  | DsObjectName "string option"
  | DsSchemaName "string option"
  | DsTableName "string option"
  | DsFilePattern "string option"
  | DsTimezone "string option"
  | DsCurrency "string option"
  | DsRetentionDays "int option"
  | DsMetadata "json option"

fun apply_dataset_change :: "dataset_change \<Rightarrow> dataset \<Rightarrow> dataset" where
  "apply_dataset_change (DsName v) d = d\<lparr>d_name := v\<rparr>"
| "apply_dataset_change (DsCode v) d = d\<lparr>d_code := v\<rparr>"
| "apply_dataset_change (DsDescription v) d = d\<lparr>d_description := v\<rparr>"
| "apply_dataset_change (DsDomain v) d = d\<lparr>d_domain := v\<rparr>"
| "apply_dataset_change (DsType v) d = d\<lparr>d_type := v\<rparr>"
| "apply_dataset_change (DsSensitivity v) d = d\<lparr>d_sensitivity := v\<rparr>"
| "apply_dataset_change (DsSchemaStatus v) d = d\<lparr>d_schema_status := v\<rparr>"
| "apply_dataset_change (DsTimeField v) d = d\<lparr>d_time_field := v\<rparr>"
| "apply_dataset_change (DsBusinessKey v) d = d\<lparr>d_business_key := v\<rparr>"
| "apply_dataset_change (DsObjectName v) d = d\<lparr>d_object_name := v\<rparr>"
| "apply_dataset_change (DsSchemaName v) d = d\<lparr>d_schema_name := v\<rparr>"
| "apply_dataset_change (DsTableName v) d = d\<lparr>d_table_name := v\<rparr>"
| "apply_dataset_change (DsFilePattern v) d = d\<lparr>d_file_pattern := v\<rparr>"
| "apply_dataset_change (DsTimezone v) d = d\<lparr>d_timezone := v\<rparr>"
| "apply_dataset_change (DsCurrency v) d = d\<lparr>d_currency := v\<rparr>"
| "apply_dataset_change (DsRetentionDays v) d = d\<lparr>d_retention_days := v\<rparr>"
| "apply_dataset_change (DsMetadata v) d = d\<lparr>d_metadata := v\<rparr>"

definition new_dataset :: "uuid \<Rightarrow> uuid \<Rightarrow> dataset_payload \<Rightarrow> uuid \<Rightarrow> dataset" where
  "new_dataset org new_id p actor =
     \<lparr>d_id = new_id, d_org = org, d_source = dc_source p, d_name = dc_name p, d_code = dc_code p,
      d_description = dc_description p, d_domain = dc_domain p, d_type = dc_type p,
      d_sensitivity = dc_sensitivity p, d_status = D_DRAFT, d_schema_status = SCH_UNKNOWN,
      d_time_field = dc_time_field p, d_business_key = dc_business_key p,
      d_object_name = dc_object_name p, d_schema_name = dc_schema_name p,
      d_table_name = dc_table_name p, d_file_pattern = dc_file_pattern p,
      d_timezone = dc_timezone p, d_currency = dc_currency p,
      d_retention_days = dc_retention_days p, d_metadata = dc_metadata p, d_created_by = actor,
      d_updated_by = actor, d_deactivated_at = None\<rparr>"

definition dataset_create ::
    "'a ingestion_db_scheme \<Rightarrow> uuid \<Rightarrow> uuid \<Rightarrow> dataset_payload \<Rightarrow> uuid \<Rightarrow>
     ingestion_error + 'a ingestion_db_scheme \<times> ingestion_row" where
  "dataset_create db org new_id p actor =
     bindE (source_for_downstream_creation db org (dc_source p)) (\<lambda>_.
     bindE (require (find (\<lambda>d. d_org d = org \<and> d_code d = dc_code p) (datasets db) = None)
              IngestionConflict) (\<lambda>_.
     let d = new_dataset org new_id p actor
     in commit_ingestion IngestionConflict (db\<lparr>datasets := datasets db @ [d]\<rparr>) (DatasetRow d)))"

definition dataset_get :: "'a ingestion_db_scheme \<Rightarrow> uuid \<Rightarrow> uuid \<Rightarrow> ingestion_error + dataset" where
  "dataset_get db org i = tenant_get d_id d_org IngestionNotFound (datasets db) org i"

definition put_dataset :: "dataset \<Rightarrow> 'a ingestion_db_scheme \<Rightarrow> 'a ingestion_db_scheme" where
  "put_dataset d db = db\<lparr>datasets := put_row d_id d (datasets db)\<rparr>"

definition dataset_modify ::
    "'a ingestion_db_scheme \<Rightarrow> uuid \<Rightarrow> uuid \<Rightarrow> (dataset \<Rightarrow> ingestion_error + dataset) \<Rightarrow>
     ingestion_error + 'a ingestion_db_scheme \<times> ingestion_row" where
  "dataset_modify db org i change =
     bindE (dataset_get db org i) (\<lambda>d.
     bindE (change d) (\<lambda>d'. commit_ingestion IngestionConflict (put_dataset d' db) (DatasetRow d')))"

definition update_dataset_row ::
    "dataset_change list \<Rightarrow> uuid \<Rightarrow> dataset \<Rightarrow> ingestion_error + dataset" where
  "update_dataset_row cs actor d =
     bindE (require (d_status d \<noteq> D_DECOMMISSIONED) DatasetDecommissioned) (\<lambda>_.
     Inr ((fold apply_dataset_change cs d)\<lparr>d_updated_by := actor\<rparr>))"

definition transition_dataset_row ::
    "timestamp \<Rightarrow> dataset_status \<Rightarrow> uuid \<Rightarrow> dataset \<Rightarrow> ingestion_error + dataset" where
  "transition_dataset_row now target actor d =
     bindE (require (target \<in> set (dataset_transitions (d_status d)))
              (DatasetTransitionForbidden (d_status d) target)) (\<lambda>_.
     let d1 = d\<lparr>d_status := target, d_updated_by := actor\<rparr>
     in Inr (if target = D_DECOMMISSIONED then d1\<lparr>d_deactivated_at := Some now\<rparr> else d1))"

section \<open>Dataset versions\<close>

record version_payload =
  vc_batch :: uuid
  vc_file_name :: "string option"
  vc_file_extension :: "string option"
  vc_file_size :: "int option"
  vc_file_checksum :: "string option"
  vc_media_type :: "string option"
  vc_encoding :: "string option"
  vc_delimiter :: "string option"
  vc_sheet_name :: "string option"
  vc_columns :: "int option"
  vc_storage_reference :: "string option"
  vc_raw_schema_reference :: "string option"
  vc_period_start :: "timestamp option"
  vc_period_end :: "timestamp option"
  vc_fingerprint :: "string option"
  vc_metadata :: "json option"

record version_counts =
  vu_records :: int
  vu_accepted :: int
  vu_rejected :: int
  vu_columns :: "int option"

datatype version_metadata_change =
    VmMediaType "string option"
  | VmEncoding "string option"
  | VmDelimiter "string option"
  | VmSheetName "string option"
  | VmRawSchemaReference "string option"
  | VmFingerprint "string option"
  | VmMetadata "json option"

fun apply_version_change :: "version_metadata_change \<Rightarrow> dataset_version \<Rightarrow> dataset_version" where
  "apply_version_change (VmMediaType x) v = v\<lparr>v_media_type := x\<rparr>"
| "apply_version_change (VmEncoding x) v = v\<lparr>v_encoding := x\<rparr>"
| "apply_version_change (VmDelimiter x) v = v\<lparr>v_delimiter := x\<rparr>"
| "apply_version_change (VmSheetName x) v = v\<lparr>v_sheet_name := x\<rparr>"
| "apply_version_change (VmRawSchemaReference x) v = v\<lparr>v_raw_schema_reference := x\<rparr>"
| "apply_version_change (VmFingerprint x) v = v\<lparr>v_fingerprint := x\<rparr>"
| "apply_version_change (VmMetadata x) v = v\<lparr>v_metadata := x\<rparr>"

definition new_version :: "uuid \<Rightarrow> uuid \<Rightarrow> uuid \<Rightarrow> int \<Rightarrow> version_payload \<Rightarrow> dataset_version" where
  "new_version org new_id dataset_id n p =
     \<lparr>v_id = new_id, v_org = org, v_dataset = dataset_id, v_batch = vc_batch p, v_number = n,
      v_status = V_RECEIVED, v_file_name = vc_file_name p, v_file_extension = vc_file_extension p,
      v_file_size = vc_file_size p, v_file_checksum = vc_file_checksum p,
      v_media_type = vc_media_type p, v_encoding = vc_encoding p, v_delimiter = vc_delimiter p,
      v_sheet_name = vc_sheet_name p, v_records = 0, v_accepted = 0, v_rejected = 0,
      v_columns = vc_columns p, v_storage_reference = vc_storage_reference p,
      v_raw_schema_reference = vc_raw_schema_reference p, v_period_start = vc_period_start p,
      v_period_end = vc_period_end p, v_processed_at = None, v_fingerprint = vc_fingerprint p,
      v_metadata = vc_metadata p\<rparr>"

definition next_version_number :: "'a ingestion_db_scheme \<Rightarrow> uuid \<Rightarrow> int" where
  "next_version_number db dataset_id =
     next_number (map v_number (filter (\<lambda>v. v_dataset v = dataset_id) (versions db)))"

definition version_create ::
    "'a ingestion_db_scheme \<Rightarrow> uuid \<Rightarrow> uuid \<Rightarrow> uuid \<Rightarrow> version_payload \<Rightarrow>
     ingestion_error + 'a ingestion_db_scheme \<times> ingestion_row" where
  "version_create db org dataset_id new_id p =
     bindE (dataset_get db org dataset_id) (\<lambda>d.
     bindE (batch_get db org (vc_batch p)) (\<lambda>b.
     bindE (batch_ensure_mutable b) (\<lambda>_.
     bindE (require (d_source d = b_source b) IngestionTenantMismatch) (\<lambda>_.
     bindE (source_for_downstream_creation db org (d_source d)) (\<lambda>_.
     bindE (require (find (\<lambda>v. v_org v = org \<and> v_dataset v = dataset_id \<and> v_batch v = b_id b)
                       (versions db) = None) IngestionConflict) (\<lambda>_.
     let v = new_version org new_id dataset_id (next_version_number db dataset_id) p;
         db1 = db\<lparr>versions := versions db @ [v]\<rparr>
     in commit_ingestion IngestionConflict (put_batch (apply_reconciliation db1 org b) db1)
          (VersionRow v)))))))"

definition version_get ::
    "'a ingestion_db_scheme \<Rightarrow> uuid \<Rightarrow> uuid \<Rightarrow> uuid \<Rightarrow> ingestion_error + dataset_version" where
  "version_get db org dataset_id i =
     of_option IngestionNotFound
       (find (\<lambda>v. v_id v = i \<and> v_dataset v = dataset_id \<and> v_org v = org) (versions db))"

definition version_ensure_mutable :: "dataset_version \<Rightarrow> ingestion_error + unit" where
  "version_ensure_mutable v = require (v_status v \<notin> {V_PROCESSED, V_REJECTED}) VersionImmutable"

definition put_version :: "dataset_version \<Rightarrow> 'a ingestion_db_scheme \<Rightarrow> 'a ingestion_db_scheme" where
  "put_version v db = db\<lparr>versions := put_row v_id v (versions db)\<rparr>"

definition set_version_counts :: "version_counts \<Rightarrow> dataset_version \<Rightarrow> dataset_version" where
  "set_version_counts p v =
     v\<lparr>v_records := vu_records p, v_accepted := vu_accepted p, v_rejected := vu_rejected p,
       v_columns := vu_columns p\<rparr>"

definition version_update_counts ::
    "'a ingestion_db_scheme \<Rightarrow> uuid \<Rightarrow> uuid \<Rightarrow> uuid \<Rightarrow> version_counts \<Rightarrow>
     ingestion_error + 'a ingestion_db_scheme \<times> ingestion_row" where
  "version_update_counts db org dataset_id i p =
     bindE (version_get db org dataset_id i) (\<lambda>v.
     bindE (version_ensure_mutable v) (\<lambda>_.
     bindE (batch_get db org (v_batch v)) (\<lambda>b.
     bindE (batch_ensure_mutable b) (\<lambda>_.
     let v' = set_version_counts p v; db1 = put_version v' db
     in commit_ingestion IntegrityError (put_batch (apply_reconciliation db1 org b) db1)
          (VersionRow v')))))"

definition version_modify ::
    "'a ingestion_db_scheme \<Rightarrow> uuid \<Rightarrow> uuid \<Rightarrow> uuid \<Rightarrow>
     (dataset_version \<Rightarrow> ingestion_error + dataset_version) \<Rightarrow>
     ingestion_error + 'a ingestion_db_scheme \<times> ingestion_row" where
  "version_modify db org dataset_id i change =
     bindE (version_get db org dataset_id i) (\<lambda>v.
     bindE (change v) (\<lambda>v'. commit_ingestion IntegrityError (put_version v' db) (VersionRow v')))"

definition update_version_metadata ::
    "version_metadata_change list \<Rightarrow> dataset_version \<Rightarrow> ingestion_error + dataset_version" where
  "update_version_metadata cs v =
     bindE (version_ensure_mutable v) (\<lambda>_. Inr (fold apply_version_change cs v))"

definition transition_version_row ::
    "timestamp \<Rightarrow> version_status \<Rightarrow> dataset_version \<Rightarrow> ingestion_error + dataset_version" where
  "transition_version_row now target v =
     bindE (require (target \<in> set (version_transitions (v_status v)))
              (VersionTransitionForbidden (v_status v) target)) (\<lambda>_.
     let v1 = v\<lparr>v_status := target\<rparr>
     in Inr (if target = V_PROCESSED then v1\<lparr>v_processed_at := Some now\<rparr> else v1))"

section \<open>Requests\<close>

datatype ingestion_op =
    CreateBatch uuid uuid batch_payload uuid
  | TransitionBatch uuid uuid batch_status timestamp
  | RetryBatch uuid uuid timestamp
  | QuarantineBatch uuid uuid timestamp
  | ReleaseBatch uuid uuid timestamp
  | CancelBatch uuid uuid timestamp
  | UpdateBatchCounts uuid uuid batch_counts
  | RecordBatchFailure uuid uuid string string timestamp
  | RecalculateBatch uuid uuid
  | CreateDataset uuid uuid dataset_payload uuid
  | UpdateDataset uuid uuid "dataset_change list" uuid
  | TransitionDataset uuid uuid dataset_status uuid timestamp
  | CreateVersion uuid uuid uuid version_payload
  | UpdateVersionCounts uuid uuid uuid version_counts
  | UpdateVersionMetadata uuid uuid uuid "version_metadata_change list"
  | TransitionVersion uuid uuid uuid version_status timestamp

fun ingestion_op_org :: "ingestion_op \<Rightarrow> uuid" where
  "ingestion_op_org (CreateBatch org _ _ _) = org"
| "ingestion_op_org (TransitionBatch org _ _ _) = org"
| "ingestion_op_org (RetryBatch org _ _) = org"
| "ingestion_op_org (QuarantineBatch org _ _) = org"
| "ingestion_op_org (ReleaseBatch org _ _) = org"
| "ingestion_op_org (CancelBatch org _ _) = org"
| "ingestion_op_org (UpdateBatchCounts org _ _) = org"
| "ingestion_op_org (RecordBatchFailure org _ _ _ _) = org"
| "ingestion_op_org (RecalculateBatch org _) = org"
| "ingestion_op_org (CreateDataset org _ _ _) = org"
| "ingestion_op_org (UpdateDataset org _ _ _) = org"
| "ingestion_op_org (TransitionDataset org _ _ _ _) = org"
| "ingestion_op_org (CreateVersion org _ _ _) = org"
| "ingestion_op_org (UpdateVersionCounts org _ _ _) = org"
| "ingestion_op_org (UpdateVersionMetadata org _ _ _) = org"
| "ingestion_op_org (TransitionVersion org _ _ _ _) = org"

definition batch_service_transition ::
    "'a ingestion_db_scheme \<Rightarrow> uuid \<Rightarrow> uuid \<Rightarrow> batch_status \<Rightarrow> timestamp \<Rightarrow>
     ingestion_error + 'a ingestion_db_scheme \<times> ingestion_row" where
  "batch_service_transition db org i target now = batch_modify db org i (batch_transition now target)"

fun ingestion_step ::
    "ingestion_op \<Rightarrow> 'a ingestion_db_scheme \<Rightarrow>
     ingestion_error + 'a ingestion_db_scheme \<times> ingestion_row" where
  "ingestion_step (CreateBatch org i p actor) db = batch_create db org i p actor"
| "ingestion_step (TransitionBatch org i target now) db = batch_service_transition db org i target now"
| "ingestion_step (RetryBatch org i now) db = batch_service_transition db org i B_QUEUED now"
| "ingestion_step (QuarantineBatch org i now) db = batch_service_transition db org i B_QUARANTINED now"
| "ingestion_step (ReleaseBatch org i now) db = batch_service_transition db org i B_QUEUED now"
| "ingestion_step (CancelBatch org i now) db = batch_service_transition db org i B_CANCELLED now"
| "ingestion_step (UpdateBatchCounts org i p) db = batch_modify db org i (set_batch_counts p)"
| "ingestion_step (RecordBatchFailure org i code summary now) db =
     batch_modify db org i (record_batch_failure now code summary)"
| "ingestion_step (RecalculateBatch org i) db = batch_modify db org i (recalculate_batch db org)"
| "ingestion_step (CreateDataset org i p actor) db = dataset_create db org i p actor"
| "ingestion_step (UpdateDataset org i cs actor) db =
     dataset_modify db org i (update_dataset_row cs actor)"
| "ingestion_step (TransitionDataset org i target actor now) db =
     dataset_modify db org i (transition_dataset_row now target actor)"
| "ingestion_step (CreateVersion org d i p) db = version_create db org d i p"
| "ingestion_step (UpdateVersionCounts org d i p) db = version_update_counts db org d i p"
| "ingestion_step (UpdateVersionMetadata org d i cs) db =
     version_modify db org d i (update_version_metadata cs)"
| "ingestion_step (TransitionVersion org d i target now) db =
     version_modify db org d i (transition_version_row now target)"

end
