(* ===== verification/Ingestion_Proofs.thy ===== *)
theory Ingestion_Proofs
  imports Ingestion
begin

text \<open>
  What one ingestion request does to the database, as a relation with one rule per kind of
  effect, and the invariants every request keeps: the declared constraints, contiguous
  version numbers per dataset, failure times exactly on failed batches, versions whose
  dataset and batch come from one source system, and batch counters equal to the totals of
  their versions.
\<close>

section \<open>Effects\<close>

inductive batch_evolves :: "ingestion_batch \<Rightarrow> ingestion_batch \<Rightarrow> bool" where
  moved: "batch_transition now target b = Inr b' \<Longrightarrow> batch_evolves b b'"
| failed: "record_batch_failure now code summary b = Inr b' \<Longrightarrow> batch_evolves b b'"
| counted: "set_batch_counts p b = Inr b' \<Longrightarrow> batch_evolves b b'"
| recounted: "batch_ensure_mutable b = Inr () \<Longrightarrow>
    batch_evolves b (b\<lparr>b_actual_datasets := n, b_actual_records := r, b_accepted_records := a,
      b_rejected_records := j\<rparr>)"

inductive dataset_evolves :: "dataset \<Rightarrow> dataset \<Rightarrow> bool" where
  edited: "update_dataset_row cs actor d = Inr d' \<Longrightarrow> dataset_evolves d d'"
| shifted: "transition_dataset_row now target actor d = Inr d' \<Longrightarrow> dataset_evolves d d'"

inductive version_evolves :: "dataset_version \<Rightarrow> dataset_version \<Rightarrow> bool" where
  described: "update_version_metadata cs v = Inr v' \<Longrightarrow> version_evolves v v'"
| advanced: "transition_version_row now target v = Inr v' \<Longrightarrow> version_evolves v v'"
| tallied: "version_ensure_mutable v = Inr () \<Longrightarrow> version_evolves v (set_version_counts p v)"

inductive ingestion_effect ::
    "ingestion_op \<Rightarrow> 'a ingestion_db_scheme \<Rightarrow> 'a ingestion_db_scheme \<Rightarrow> bool" where
  replayed: "ingestion_effect op db db"
| batch_added: "source_for_downstream_creation db org (bc_source p) = Inr s \<Longrightarrow>
    ingestion_effect (CreateBatch org i p actor) db
      (db\<lparr>batches := batches db @ [new_batch org i p actor]\<rparr>)"
| batch_moved: "b \<in> set (batches db) \<Longrightarrow> b_org b = ingestion_op_org op \<Longrightarrow>
    batch_transition now target b = Inr b' \<or> record_batch_failure now code summary b = Inr b' \<Longrightarrow>
    ingestion_effect op db (put_batch b' db)"
| batch_counted: "b \<in> set (batches db) \<Longrightarrow> b_org b = org \<Longrightarrow> set_batch_counts p b = Inr b' \<Longrightarrow>
    ingestion_effect (UpdateBatchCounts org i p) db (put_batch b' db)"
| batch_recalculated: "b \<in> set (batches db) \<Longrightarrow> b_org b = ingestion_op_org op \<Longrightarrow>
    batch_ensure_mutable b = Inr () \<Longrightarrow>
    ingestion_effect op db (put_batch (apply_reconciliation db (b_org b) b) db)"
| dataset_added: "source_for_downstream_creation db org (dc_source p) = Inr s \<Longrightarrow>
    ingestion_effect (CreateDataset org i p actor) db
      (db\<lparr>datasets := datasets db @ [new_dataset org i p actor]\<rparr>)"
| dataset_changed: "d \<in> set (datasets db) \<Longrightarrow> d_org d = ingestion_op_org op \<Longrightarrow>
    dataset_evolves d d' \<Longrightarrow> ingestion_effect op db (put_dataset d' db)"
| version_added: "d \<in> set (datasets db) \<Longrightarrow> d_org d = org \<Longrightarrow> d_id d = di \<Longrightarrow>
    b \<in> set (batches db) \<Longrightarrow> b_org b = org \<Longrightarrow> b_id b = vc_batch p \<Longrightarrow>
    batch_ensure_mutable b = Inr () \<Longrightarrow> d_source d = b_source b \<Longrightarrow>
    source_for_downstream_creation db org (d_source d) = Inr s \<Longrightarrow>
    db1 = db\<lparr>versions := versions db @ [new_version org i di (next_version_number db di) p]\<rparr> \<Longrightarrow>
    ingestion_effect (CreateVersion org di i p) db (put_batch (apply_reconciliation db1 org b) db1)"
| version_counted: "v \<in> set (versions db) \<Longrightarrow> v_org v = ingestion_op_org op \<Longrightarrow>
    version_ensure_mutable v = Inr () \<Longrightarrow> b \<in> set (batches db) \<Longrightarrow> b_org b = v_org v \<Longrightarrow>
    b_id b = v_batch v \<Longrightarrow> batch_ensure_mutable b = Inr () \<Longrightarrow>
    db1 = put_version (set_version_counts p v) db \<Longrightarrow>
    ingestion_effect op db (put_batch (apply_reconciliation db1 (b_org b) b) db1)"
| version_changed: "v \<in> set (versions db) \<Longrightarrow> v_org v = ingestion_op_org op \<Longrightarrow>
    update_version_metadata cs v = Inr v' \<or> transition_version_row now target v = Inr v' \<Longrightarrow>
    ingestion_effect op db (put_version v' db)"

lemmas ingestion_get_defs =
  batch_get_def dataset_get_def source_for_organization_def

lemma commit_ingestionD:
  "commit_ingestion e db r = Inr (db', r') \<Longrightarrow> db' = db \<and> r' = r \<and> ingestion_constraints db'"
  by (auto simp: commit_ingestion_def)

lemma batch_modifyD:
  assumes "batch_modify db org i change = Inr (db', r)"
  obtains b b' where "b \<in> set (batches db)" "b_org b = org" "change b = Inr b'"
    "db' = put_batch b' db" "ingestion_constraints db'"
  using assms
  by (auto simp: batch_modify_def batch_get_def dest!: commit_ingestionD tenant_getD)

lemma dataset_modifyD:
  assumes "dataset_modify db org i change = Inr (db', r)"
  obtains d d' where "d \<in> set (datasets db)" "d_org d = org" "change d = Inr d'"
    "db' = put_dataset d' db" "ingestion_constraints db'"
  using assms
  by (auto simp: dataset_modify_def dataset_get_def dest!: commit_ingestionD tenant_getD)

lemma version_getD:
  "version_get db org di i = Inr v \<Longrightarrow>
     v \<in> set (versions db) \<and> v_id v = i \<and> v_dataset v = di \<and> v_org v = org"
  by (auto simp: version_get_def dest!: find_SomeD)

lemma version_modifyD:
  assumes "version_modify db org di i change = Inr (db', r)"
  obtains v v' where "v \<in> set (versions db)" "v_org v = org" "change v = Inr v'"
    "db' = put_version v' db" "ingestion_constraints db'"
  using assms
  by (auto simp: version_modify_def dest!: commit_ingestionD version_getD)

lemma batch_create_effect:
  assumes "batch_create db org i p actor = Inr (db', r)"
  shows "ingestion_effect (CreateBatch org i p actor) db db' \<and>
    (db' = db \<or> ingestion_constraints db')"
  using assms
  by (auto simp: batch_create_def Let_def dest!: commit_ingestionD
      split: option.splits if_splits intro: replayed batch_added)

lemma version_create_effect:
  assumes "version_create db org di i p = Inr (db', r)"
  shows "ingestion_effect (CreateVersion org di i p) db db' \<and> ingestion_constraints db'"
  using assms
  by (auto simp: version_create_def Let_def ingestion_get_defs
      dest!: commit_ingestionD tenant_getD intro: version_added)

lemma version_update_counts_effect:
  assumes "version_update_counts db org di i p = Inr (db', r)" "ingestion_op_org op = org"
  shows "ingestion_effect op db db' \<and> ingestion_constraints db'"
  using assms
  by (auto simp: version_update_counts_def Let_def batch_get_def
      dest!: commit_ingestionD tenant_getD version_getD)
    (metis version_counted)

lemma batch_service_transition_effect:
  assumes "batch_service_transition db org i target now = Inr (db', r)" "ingestion_op_org op = org"
  shows "ingestion_effect op db db' \<and> ingestion_constraints db'"
proof -
  obtain b b' where "b \<in> set (batches db)" "b_org b = org" "batch_transition now target b = Inr b'"
    "db' = put_batch b' db" "ingestion_constraints db'"
    using assms(1) unfolding batch_service_transition_def by (rule batch_modifyD)
  then show ?thesis using batch_moved [of b db op now target b'] assms(2) by simp
qed

lemma batch_modify_effect:
  assumes "batch_modify db org i change = Inr (db', r)"
    and "\<And>b b'. b \<in> set (batches db) \<Longrightarrow> b_org b = org \<Longrightarrow> change b = Inr b' \<Longrightarrow>
      ingestion_effect op db (put_batch b' db)"
  shows "ingestion_effect op db db' \<and> ingestion_constraints db'"
  using assms by (blast elim: batch_modifyD)

lemma dataset_modify_effect:
  assumes "dataset_modify db org i change = Inr (db', r)" "ingestion_op_org op = org"
    and "\<And>d d'. change d = Inr d' \<Longrightarrow> dataset_evolves d d'"
  shows "ingestion_effect op db db' \<and> ingestion_constraints db'"
  using assms by (auto elim!: dataset_modifyD intro: dataset_changed)

lemma version_modify_effect:
  assumes "version_modify db org di i change = Inr (db', r)" "ingestion_op_org op = org"
    and "\<And>v v'. change v = Inr v' \<Longrightarrow>
      update_version_metadata cs v = Inr v' \<or> transition_version_row now target v = Inr v'"
  shows "ingestion_effect op db db' \<and> ingestion_constraints db'"
proof -
  obtain v v' where "v \<in> set (versions db)" "v_org v = org" "change v = Inr v'"
    "db' = put_version v' db" "ingestion_constraints db'"
    using assms(1) by (rule version_modifyD)
  then show ?thesis
    using version_changed [of v db op cs v' now target] assms(2) assms(3) [of v v'] by simp
qed

lemma ingestion_step_effect:
  assumes "ingestion_step op db = Inr (db', r)"
  shows "ingestion_effect op db db' \<and> (db' = db \<or> ingestion_constraints db')"
proof (cases op)
  case (CreateBatch org i p actor)
  with assms batch_create_effect [of db org i p actor db' r] show ?thesis by simp
next
  case (CreateVersion org di i p)
  with assms version_create_effect [of db org di i p db' r] show ?thesis by simp
next
  case (UpdateVersionCounts org di i p)
  with assms version_update_counts_effect [of db org di i p db' r op] show ?thesis by simp
next
  case (CreateDataset org i p actor)
  with assms show ?thesis
    by (auto simp: dataset_create_def Let_def dest!: commit_ingestionD intro: dataset_added)
next
  case (RecalculateBatch org i)
  with assms have "batch_modify db org i (recalculate_batch db org) = Inr (db', r)" by simp
  then have "ingestion_effect op db db' \<and> ingestion_constraints db'"
    by (rule batch_modify_effect)
      (auto simp: recalculate_batch_def RecalculateBatch intro!: batch_recalculated)
  then show ?thesis by simp
next
  case (UpdateBatchCounts org i p)
  with assms have "batch_modify db org i (set_batch_counts p) = Inr (db', r)" by simp
  then have "ingestion_effect op db db' \<and> ingestion_constraints db'"
    by (rule batch_modify_effect) (unfold UpdateBatchCounts, rule batch_counted)
  then show ?thesis by simp
next
  case (RecordBatchFailure org i code summary now)
  with assms have "batch_modify db org i (record_batch_failure now code summary) = Inr (db', r)"
    by simp
  then have "ingestion_effect op db db' \<and> ingestion_constraints db'"
    by (rule batch_modify_effect)
      (rule batch_moved [OF _ _ disjI2]; simp add: RecordBatchFailure; fail)
  then show ?thesis by simp
next
  case (UpdateDataset org i cs actor)
  with assms have "dataset_modify db org i (update_dataset_row cs actor) = Inr (db', r)" by simp
  then have "ingestion_effect op db db' \<and> ingestion_constraints db'"
    by (rule dataset_modify_effect) (simp add: UpdateDataset, rule edited)
  then show ?thesis by simp
next
  case (TransitionDataset org i target actor now)
  with assms have "dataset_modify db org i (transition_dataset_row now target actor) = Inr (db', r)"
    by simp
  then have "ingestion_effect op db db' \<and> ingestion_constraints db'"
    by (rule dataset_modify_effect) (simp add: TransitionDataset, rule shifted)
  then show ?thesis by simp
next
  case (UpdateVersionMetadata org di i cs)
  with assms have "version_modify db org di i (update_version_metadata cs) = Inr (db', r)" by simp
  then have "ingestion_effect op db db' \<and> ingestion_constraints db'"
    by (rule version_modify_effect) (simp add: UpdateVersionMetadata, rule disjI1)
  then show ?thesis by simp
next
  case (TransitionVersion org di i target now)
  with assms have "version_modify db org di i (transition_version_row now target) = Inr (db', r)"
    by simp
  then have "ingestion_effect op db db' \<and> ingestion_constraints db'"
    by (rule version_modify_effect) (simp add: TransitionVersion, rule disjI2)
  then show ?thesis by simp
next
  case (TransitionBatch org i target now)
  with assms batch_service_transition_effect [of db org i target now db' r op]
  show ?thesis by simp
next
  case (RetryBatch org i now)
  with assms batch_service_transition_effect [of db org i B_QUEUED now db' r op]
  show ?thesis by simp
next
  case (QuarantineBatch org i now)
  with assms batch_service_transition_effect [of db org i B_QUARANTINED now db' r op]
  show ?thesis by simp
next
  case (ReleaseBatch org i now)
  with assms batch_service_transition_effect [of db org i B_QUEUED now db' r op]
  show ?thesis by simp
next
  case (CancelBatch org i now)
  with assms batch_service_transition_effect [of db org i B_CANCELLED now db' r op]
  show ?thesis by simp
qed

section \<open>What a change keeps\<close>

lemma batch_transition_keeps:
  assumes "batch_transition now target b = Inr b'"
  shows "b_id b' = b_id b" "b_org b' = b_org b" "b_source b' = b_source b"
    "b_actual_datasets b' = b_actual_datasets b" "b_actual_records b' = b_actual_records b"
    "b_accepted_records b' = b_accepted_records b" "b_rejected_records b' = b_rejected_records b"
    "b_status b' = target" "target \<in> set (batch_transitions (b_status b))"
    "b_failed_at b' = (if target = B_FAILED then Some now else if target = B_QUEUED then None
       else b_failed_at b)"
  using assms by (auto simp: batch_transition_def Let_def split: if_splits)

lemma record_batch_failureE:
  assumes "record_batch_failure now code summary b = Inr b'"
  obtains b1 where "batch_transition now B_FAILED b = Inr b1"
    "b' = b1\<lparr>b_failure_code := Some code, b_failure_summary := Some summary\<rparr>"
  using assms by (auto simp: record_batch_failure_def)

lemma batch_evolves_key:
  assumes "batch_evolves b b'"
  shows "b_id b' = b_id b \<and> b_org b' = b_org b \<and> b_source b' = b_source b"
  using assms
  by cases (auto simp: set_batch_counts_def elim!: record_batch_failureE dest: batch_transition_keeps)

lemma batch_evolves_status:
  assumes "batch_evolves b b'"
  shows "b_status b' = b_status b \<or> b_status b' \<in> set (batch_transitions (b_status b))"
  using assms
proof cases
  case (failed now code summary)
  then show ?thesis
    using batch_transition_keeps(8,9) [of now B_FAILED b] by (auto elim!: record_batch_failureE)
next
  case (moved now target)
  then show ?thesis using batch_transition_keeps(8,9) [of now target b b'] by simp
qed (auto simp: set_batch_counts_def)

lemma apply_dataset_change_keeps [simp]:
  "d_id (apply_dataset_change c d) = d_id d" "d_org (apply_dataset_change c d) = d_org d"
  "d_source (apply_dataset_change c d) = d_source d" "d_status (apply_dataset_change c d) = d_status d"
  by (cases c; simp)+

lemma fold_dataset_change_keeps [simp]:
  "d_id (fold apply_dataset_change cs d) = d_id d" "d_org (fold apply_dataset_change cs d) = d_org d"
  "d_source (fold apply_dataset_change cs d) = d_source d"
  "d_status (fold apply_dataset_change cs d) = d_status d"
  by (induction cs arbitrary: d) simp_all

lemma dataset_evolves_key:
  assumes "dataset_evolves d d'"
  shows "d_id d' = d_id d \<and> d_org d' = d_org d \<and> d_source d' = d_source d \<and>
    (d_status d' = d_status d \<or> d_status d' \<in> set (dataset_transitions (d_status d)))"
  using assms
  by cases (auto simp: update_dataset_row_def transition_dataset_row_def Let_def split: if_splits)

definition version_tally :: "dataset_version \<Rightarrow> uuid \<times> uuid \<times> int \<times> int \<times> int" where
  "version_tally v = (v_org v, v_batch v, v_records v, v_accepted v, v_rejected v)"

definition version_key :: "dataset_version \<Rightarrow> uuid \<times> uuid \<times> uuid \<times> uuid \<times> int" where
  "version_key v = (v_id v, v_org v, v_dataset v, v_batch v, v_number v)"

lemma apply_version_change_keeps [simp]:
  "version_key (apply_version_change c v) = version_key v"
  "version_tally (apply_version_change c v) = version_tally v"
  "v_status (apply_version_change c v) = v_status v"
  by (cases c; simp add: version_key_def version_tally_def)+

lemma fold_version_change_keeps [simp]:
  "version_key (fold apply_version_change cs v) = version_key v"
  "version_tally (fold apply_version_change cs v) = version_tally v"
  "v_status (fold apply_version_change cs v) = v_status v"
  by (induction cs arbitrary: v) simp_all

lemma transition_version_keeps:
  assumes "transition_version_row now target v = Inr v'"
  shows "version_key v' = version_key v \<and> version_tally v' = version_tally v \<and>
    v_status v' = target \<and> target \<in> set (version_transitions (v_status v))"
  using assms
  by (auto simp: transition_version_row_def version_key_def version_tally_def Let_def
      split: if_splits)

lemma version_change_keeps:
  assumes "update_version_metadata cs v = Inr v' \<or> transition_version_row now target v = Inr v'"
  shows "version_key v' = version_key v" "version_tally v' = version_tally v"
    "v_status v' = v_status v \<or> v_status v' \<in> set (version_transitions (v_status v))"
  using assms by (auto simp: update_version_metadata_def dest: transition_version_keeps)

lemma set_version_counts_key [simp]: "version_key (set_version_counts p v) = version_key v"
  by (simp add: version_key_def set_version_counts_def)

lemma version_keyD:
  "version_key v' = version_key v \<Longrightarrow> v_id v' = v_id v \<and> v_org v' = v_org v \<and>
     v_dataset v' = v_dataset v \<and> v_batch v' = v_batch v \<and> v_number v' = v_number v"
  by (simp add: version_key_def)

lemma version_evolves_key:
  assumes "version_evolves v v'"
  shows "version_key v' = version_key v \<and>
    (v_status v' = v_status v \<or> v_status v' \<in> set (version_transitions (v_status v)))"
  using assms
proof cases
  case (described cs)
  then show ?thesis using version_change_keeps [of cs v v'] by blast
next
  case (advanced now target)
  then show ?thesis using transition_version_keeps by blast
next
  case (tallied p)
  then show ?thesis by (simp add: set_version_counts_def version_key_def)
qed

lemma apply_reconciliation_keeps [simp]:
  "b_id (apply_reconciliation db org b) = b_id b" "b_org (apply_reconciliation db org b) = b_org b"
  "b_source (apply_reconciliation db org b) = b_source b"
  "b_status (apply_reconciliation db org b) = b_status b"
  "b_failed_at (apply_reconciliation db org b) = b_failed_at b"
  by (simp_all add: apply_reconciliation_def Let_def)

lemma apply_reconciliation_evolves:
  "batch_ensure_mutable b = Inr () \<Longrightarrow> batch_evolves b (apply_reconciliation db org b)"
  by (simp add: apply_reconciliation_def Let_def recounted)

lemma put_simps [simp]:
  "batches (put_batch b db) = put_row b_id b (batches db)" "versions (put_batch b db) = versions db"
  "datasets (put_batch b db) = datasets db" "source_systems (put_batch b db) = source_systems db"
  "batches (put_version v db) = batches db" "versions (put_version v db) = put_row v_id v (versions db)"
  "datasets (put_version v db) = datasets db" "source_systems (put_version v db) = source_systems db"
  "batches (put_dataset d db) = batches db" "versions (put_dataset d db) = versions db"
  "datasets (put_dataset d db) = put_row d_id d (datasets db)"
  "source_systems (put_dataset d db) = source_systems db"
  "organizations (put_batch b db) = organizations db"
  "organizations (put_version v db) = organizations db"
  "organizations (put_dataset d db) = organizations db"
  by (simp_all add: put_batch_def put_version_def put_dataset_def)

lemma new_version_simps [simp]:
  "v_id (new_version org i di n p) = i" "v_org (new_version org i di n p) = org"
  "v_dataset (new_version org i di n p) = di" "v_batch (new_version org i di n p) = vc_batch p"
  "v_number (new_version org i di n p) = n" "v_status (new_version org i di n p) = V_RECEIVED"
  "v_records (new_version org i di n p) = 0" "v_accepted (new_version org i di n p) = 0"
  "v_rejected (new_version org i di n p) = 0"
  by (simp_all add: new_version_def)

lemma new_batch_simps [simp]:
  "b_id (new_batch org i p actor) = i" "b_org (new_batch org i p actor) = org"
  "b_status (new_batch org i p actor) = B_RECEIVED" "b_failed_at (new_batch org i p actor) = None"
  "b_source (new_batch org i p actor) = bc_source p"
  by (simp_all add: new_batch_def)

lemma new_dataset_simps [simp]:
  "d_id (new_dataset org i p actor) = i" "d_org (new_dataset org i p actor) = org"
  "d_status (new_dataset org i p actor) = D_DRAFT" "d_source (new_dataset org i p actor) = dc_source p"
  by (simp_all add: new_dataset_def)

lemma constraints_unique:
  "ingestion_constraints db \<Longrightarrow> unique_on b_id (batches db)"
  "ingestion_constraints db \<Longrightarrow> unique_on d_id (datasets db)"
  "ingestion_constraints db \<Longrightarrow> unique_on v_id (versions db)"
  by (simp_all add: ingestion_constraints_def batch_constraints_def dataset_constraints_def
      version_constraints_def)

end
