(* ===== verification/Ingestion_Properties.thy ===== *)
theory Ingestion_Properties
  imports Ingestion_Proofs Source_Properties
begin

text \<open>
  The invariants of the ingestion tables, the interfaces they implement, and the properties.
\<close>

section \<open>Tables under a request\<close>

definition batch_is_new :: "ingestion_batch \<Rightarrow> bool" where
  "batch_is_new b \<longleftrightarrow> b_status b = B_RECEIVED \<and> b_failed_at b = None"

lemma effect_tables:
  assumes "ingestion_effect op db db'"
  shows "table_step b_id b_org batch_is_new batch_evolves (ingestion_op_org op) (batches db) (batches db')"
    "table_step d_id d_org (\<lambda>_. True) dataset_evolves (ingestion_op_org op) (datasets db) (datasets db')"
    "table_step v_id v_org (\<lambda>_. True) version_evolves (ingestion_op_org op) (versions db) (versions db')"
    "source_systems db' = source_systems db" "organizations db' = organizations db"
proof -
  have move: "table_step b_id b_org batch_is_new batch_evolves org rs (put_row b_id b' rs)"
    if "b \<in> set rs" "b_org b = org" "batch_evolves b b'" for rs b b' org
    using that batch_evolves_key by (auto intro!: table_step_put)
  show "table_step b_id b_org batch_is_new batch_evolves (ingestion_op_org op) (batches db) (batches db')"
    using assms
  proof cases
    case (batch_added org p s i actor)
    then show ?thesis by (auto intro!: table_step_add simp: batch_is_new_def)
  next
    case (batch_moved b now target b' code summary)
    then have "batch_evolves b b'" by (auto intro: batch_evolves.intros)
    with batch_moved show ?thesis by (auto intro!: move)
  next
    case (batch_counted b org p b' i)
    then show ?thesis by (auto intro!: move batch_evolves.counted)
  next
    case (batch_recalculated b)
    then show ?thesis by (auto intro!: move apply_reconciliation_evolves)
  next
    case (version_added d org di b p s db1 i)
    then show ?thesis by (auto intro!: move apply_reconciliation_evolves)
  next
    case (version_counted v b db1 p)
    then show ?thesis by (auto intro!: move apply_reconciliation_evolves)
  qed simp_all
  show "table_step d_id d_org (\<lambda>_. True) dataset_evolves (ingestion_op_org op) (datasets db) (datasets db')"
    using assms
  proof cases
    case (dataset_added org p s i actor)
    then show ?thesis by (auto intro!: table_step_add)
  next
    case (dataset_changed d d')
    then show ?thesis using dataset_evolves_key by (auto intro!: table_step_put)
  qed simp_all
  show "table_step v_id v_org (\<lambda>_. True) version_evolves (ingestion_op_org op) (versions db) (versions db')"
    using assms
  proof cases
    case (version_added d org di b p s db1 i)
    then show ?thesis by (auto intro!: table_step_add)
  next
    case (version_counted v b db1 p)
    then have e: "version_evolves v (set_version_counts p v)" by (simp add: tallied)
    have "v_id (set_version_counts p v) = v_id v" "v_org (set_version_counts p v) = v_org v"
      by (simp_all add: set_version_counts_def)
    with e version_counted show ?thesis by (auto intro!: table_step_put)
  next
    case (version_changed v cs v' now target)
    then have e: "version_evolves v v'" by (auto intro: version_evolves.intros)
    with version_evolves_key [OF e] version_changed show ?thesis
      by (auto intro!: table_step_put simp: version_key_def)
  qed simp_all
  show "source_systems db' = source_systems db" "organizations db' = organizations db"
    using assms by (cases; simp)+
qed

section \<open>Invariants\<close>

definition version_numbers :: "'a ingestion_db_scheme \<Rightarrow> uuid \<Rightarrow> int list" where
  "version_numbers db di = map v_number (filter (\<lambda>v. v_dataset v = di) (versions db))"

definition versions_numbered :: "'a ingestion_db_scheme \<Rightarrow> bool" where
  "versions_numbered db \<longleftrightarrow>
     (\<forall>di. numbered (version_numbers db di))"

definition failures_stamped :: "'a ingestion_db_scheme \<Rightarrow> bool" where
  "failures_stamped db \<longleftrightarrow>
     (\<forall>b \<in> set (batches db). (b_failed_at b \<noteq> None) = (b_status b = B_FAILED))"

definition version_sources_match :: "'a ingestion_db_scheme \<Rightarrow> bool" where
  "version_sources_match db \<longleftrightarrow>
     (\<forall>v \<in> set (versions db). \<forall>d \<in> set (datasets db). \<forall>b \<in> set (batches db).
        v_dataset v = d_id d \<and> v_batch v = b_id b \<longrightarrow> d_source d = b_source b)"

definition ingestion_wf :: "'a ingestion_db_scheme \<Rightarrow> bool" where
  "ingestion_wf db \<longleftrightarrow>
     ingestion_constraints db \<and> versions_numbered db \<and> failures_stamped db \<and>
     version_sources_match db"

definition batches_reconciled :: "'a ingestion_db_scheme \<Rightarrow> bool" where
  "batches_reconciled db \<longleftrightarrow>
     (\<forall>b \<in> set (batches db). apply_reconciliation db (b_org b) b = b)"

subsection \<open>Version numbers\<close>

lemma versions_numbered_add:
  assumes "versions_numbered db" "versions db' = versions db @ [v]"
    and "v_number v = next_version_number db (v_dataset v)"
  shows "versions_numbered db'"
  unfolding versions_numbered_def
proof
  fix di
  have "numbered (version_numbers db di)" using assms(1) by (simp add: versions_numbered_def)
  then show "numbered (version_numbers db' di)"
    using numbered_snoc [of "version_numbers db di"] assms(2,3)
    by (simp add: version_numbers_def next_version_number_def)
qed

lemma version_numbers_keys:
  "version_numbers db di =
     map (\<lambda>(i, org, d, b, n). n) (filter (\<lambda>(i, org, d, b, n). d = di) (map version_key (versions db)))"
  by (simp add: version_numbers_def filter_map comp_def version_key_def case_prod_beta)

lemma versions_numbered_keys:
  assumes "map version_key (versions db') = map version_key (versions db)" "versions_numbered db"
  shows "versions_numbered db'"
proof -
  have "version_numbers db' di = version_numbers db di" for di
    unfolding version_numbers_keys assms(1) by simp
  with assms(2) show ?thesis by (simp add: versions_numbered_def del: upt_Suc)
qed

lemma map_put_version:
  assumes "ingestion_constraints db" "v \<in> set (versions db)" "v_id v' = v_id v" "f v' = f v"
  shows "map f (put_row v_id v' (versions db)) = map f (versions db)"
  using assms by (intro map_put_row [OF constraints_unique(3)])

lemma effect_versions_numbered:
  assumes "ingestion_effect op db db'" "ingestion_constraints db" "versions_numbered db"
  shows "versions_numbered db'"
  using assms(1)
proof cases
  case (version_added d org di b p s db1 i)
  then have "versions db' = versions db @ [new_version org i di (next_version_number db di) p]"
    by simp
  from versions_numbered_add [OF assms(3) this] show ?thesis by simp
next
  case (version_counted v b db1 p)
  then have "map version_key (versions db') = map version_key (versions db)"
    using map_put_version [OF assms(2), of v "set_version_counts p v" version_key]
    by (simp add: set_version_counts_def version_key_def)
  then show ?thesis by (rule versions_numbered_keys) (rule assms(3))
next
  case (version_changed v cs v' now target)
  have k: "version_key v' = version_key v"
    using version_changed(4) by (rule version_change_keeps)
  have "map version_key (versions db') = map version_key (versions db)"
    using map_put_version [OF assms(2) version_changed(2), of v' version_key] k version_keyD [OF k]
      version_changed(1) by simp
  then show ?thesis by (rule versions_numbered_keys) (rule assms(3))
qed (rule versions_numbered_keys [OF _ assms(3)], simp)+

subsection \<open>Failure times\<close>

lemma batch_evolves_stamp:
  assumes "batch_evolves b b'" "(b_failed_at b \<noteq> None) = (b_status b = B_FAILED)"
  shows "(b_failed_at b' \<noteq> None) = (b_status b' = B_FAILED)"
proof -
  have moved: "(b_failed_at c \<noteq> None) = (b_status c = B_FAILED)"
    if "batch_transition now target b = Inr c" for now target c
    using assms(2) batch_transition_keeps(8-10) [OF that] by (cases "b_status b") auto
  from assms(1) show ?thesis
  proof cases
    case (failed now code summary)
    then show ?thesis using moved [of now B_FAILED] by (auto elim!: record_batch_failureE)
  next
    case (counted p)
    then show ?thesis using assms(2) by (auto simp: set_batch_counts_def)
  qed (use moved assms(2) in auto)
qed

lemma effect_failures_stamped:
  assumes "ingestion_effect op db db'" "failures_stamped db"
  shows "failures_stamped db'"
proof -
  let ?P = "\<lambda>b. (b_failed_at b \<noteq> None) = (b_status b = B_FAILED)"
  have "\<forall>b \<in> set (batches db'). ?P b"
  proof (rule table_step_all [OF effect_tables(1) [OF assms(1)]])
    show "\<forall>b \<in> set (batches db). ?P b" using assms(2) by (simp only: failures_stamped_def)
    show "?P b" if "batch_is_new b" for b using that by (simp add: batch_is_new_def)
    show "?P b'" if "?P b" "batch_evolves b b'" for b b' using that(2,1) by (rule batch_evolves_stamp)
  qed
  then show ?thesis by (simp only: failures_stamped_def)
qed

subsection \<open>References\<close>

text \<open>No version refers to a batch or a dataset that is only now inserted.\<close>

lemma version_refs:
  assumes "ingestion_constraints db" "v \<in> set (versions db)"
  shows "v_batch v \<in> b_id ` set (batches db)" "v_dataset v \<in> d_id ` set (datasets db)"
  using assms
  by (force simp: ingestion_constraints_def version_constraints_def list_all_iff)+

lemma new_batch_unreferenced:
  assumes "ingestion_constraints db" "ingestion_constraints db'" "batches db' = batches db @ [b]"
    and "v \<in> set (versions db)"
  shows "v_batch v \<noteq> b_id b"
  using version_refs(1) [OF assms(1,4)] constraints_unique(1) [OF assms(2)]
  by (auto simp: assms(3) unique_on_snoc)

lemma new_dataset_unreferenced:
  assumes "ingestion_constraints db" "ingestion_constraints db'" "datasets db' = datasets db @ [d]"
    and "v \<in> set (versions db)"
  shows "v_dataset v \<noteq> d_id d"
  using version_refs(2) [OF assms(1,4)] constraints_unique(2) [OF assms(2)]
  by (auto simp: assms(3) unique_on_snoc)

definition batch_key :: "ingestion_batch \<Rightarrow> uuid \<times> uuid" where
  "batch_key b = (b_id b, b_source b)"

definition dataset_key :: "dataset \<Rightarrow> uuid \<times> uuid" where
  "dataset_key d = (d_id d, d_source d)"

lemma version_sources_keys:
  "version_sources_match db \<longleftrightarrow>
     (\<forall>(i, org, d, b, n) \<in> set (map version_key (versions db)).
      \<forall>(di, ds) \<in> set (map dataset_key (datasets db)).
      \<forall>(bi, bs) \<in> set (map batch_key (batches db)). d = di \<and> b = bi \<longrightarrow> ds = bs)"
  by (auto simp: version_sources_match_def version_key_def dataset_key_def batch_key_def)

lemma map_put_batch:
  assumes "ingestion_constraints db" "b \<in> set (batches db)" "b_id b' = b_id b" "f b' = f b"
  shows "map f (put_row b_id b' (batches db)) = map f (batches db)"
  using assms by (intro map_put_row [OF constraints_unique(1)])

lemma map_put_dataset:
  assumes "ingestion_constraints db" "d \<in> set (datasets db)" "d_id d' = d_id d" "f d' = f d"
  shows "map f (put_row d_id d' (datasets db)) = map f (datasets db)"
  using assms by (intro map_put_row [OF constraints_unique(2)])

lemma version_sources_matchD:
  assumes "version_sources_match db" "v \<in> set (versions db)" "d \<in> set (datasets db)"
    "b \<in> set (batches db)" "v_dataset v = d_id d" "v_batch v = b_id b"
  shows "d_source d = b_source b"
  using assms unfolding version_sources_match_def by blast

lemma sources_match_same:
  assumes "version_sources_match db" "map version_key (versions db') = map version_key (versions db)"
    "map dataset_key (datasets db') = map dataset_key (datasets db)"
    "map batch_key (batches db') = map batch_key (batches db)"
  shows "version_sources_match db'"
  using assms(1) unfolding version_sources_keys assms(2-4) .

lemma sources_match_new_batch:
  assumes "version_sources_match db" "versions db' = versions db" "datasets db' = datasets db"
    "batches db' = batches db @ [b]" "\<And>v. v \<in> set (versions db) \<Longrightarrow> v_batch v \<noteq> b_id b"
  shows "version_sources_match db'"
  using assms(1,5) unfolding version_sources_match_def assms(2-4) by fastforce

lemma sources_match_new_dataset:
  assumes "version_sources_match db" "versions db' = versions db" "batches db' = batches db"
    "datasets db' = datasets db @ [d]" "\<And>v. v \<in> set (versions db) \<Longrightarrow> v_dataset v \<noteq> d_id d"
  shows "version_sources_match db'"
  using assms(1,5) unfolding version_sources_match_def assms(2-4) by fastforce

lemma sources_match_new_version:
  assumes "version_sources_match db" "ingestion_constraints db" "d \<in> set (datasets db)"
    "b \<in> set (batches db)" "d_source d = b_source b" "v_dataset v = d_id d" "v_batch v = b_id b"
    and db1: "versions db1 = versions db @ [v]" "datasets db1 = datasets db" "batches db1 = batches db"
  shows "version_sources_match db1"
  unfolding version_sources_match_def db1
proof (intro ballI impI)
  fix w e c
  assume w: "w \<in> set (versions db @ [v])" "e \<in> set (datasets db)" "c \<in> set (batches db)"
    "v_dataset w = d_id e \<and> v_batch w = b_id c"
  show "d_source e = b_source c"
  proof (cases "w = v")
    case True
    then have "e = d" "c = b"
      using w assms(3,4,6,7) unique_on_eq [OF constraints_unique(2) [OF assms(2)], of e d]
        unique_on_eq [OF constraints_unique(1) [OF assms(2)], of c b] by simp_all
    then show ?thesis using assms(5) by simp
  next
    case False
    with w show ?thesis using version_sources_matchD [OF assms(1), of w e c] by simp
  qed
qed

lemma effect_sources_match:
  assumes "ingestion_effect op db db'" "ingestion_constraints db" "ingestion_constraints db'"
    and m: "version_sources_match db"
  shows "version_sources_match db'"
  using assms(1)
proof cases
  case (batch_added org p s i actor)
  have "v_batch v \<noteq> b_id (new_batch org i p actor)" if "v \<in> set (versions db)" for v
    by (rule new_batch_unreferenced [OF assms(2,3) _ that]) (simp add: batch_added(2))
  from sources_match_new_batch [OF m _ _ _ this, of db'] show ?thesis by (simp add: batch_added(2))
next
  case (dataset_added org p s i actor)
  have "v_dataset v \<noteq> d_id (new_dataset org i p actor)" if "v \<in> set (versions db)" for v
    by (rule new_dataset_unreferenced [OF assms(2,3) _ that]) (simp add: dataset_added(2))
  from sources_match_new_dataset [OF m _ _ _ this, of db'] show ?thesis by (simp add: dataset_added(2))
next
  case (version_added d org di b p s db1 i)
  have m1: "version_sources_match db1"
    by (rule sources_match_new_version [OF m assms(2) version_added(3,6,10)])
      (simp_all add: version_added(5,8,12))
  have k: "map batch_key (batches db') = map batch_key (batches db1)"
    using map_put_batch [OF assms(2) version_added(6), of "apply_reconciliation db1 org b" batch_key]
    by (simp add: version_added(2,12) batch_key_def)
  show ?thesis
    by (rule sources_match_same [OF m1 _ _ k]) (simp_all add: version_added(2))
next
  case (batch_moved b now target b' code summary)
  then have "b_id b' = b_id b" "b_source b' = b_source b"
    using batch_evolves_key [of b b'] by (auto intro: batch_evolves.intros)
  then show ?thesis
    using map_put_batch [OF assms(2) batch_moved(2), of b' batch_key]
    by (intro sources_match_same [OF m]) (simp_all add: batch_moved(1) batch_key_def)
next
  case (batch_counted b org p b' i)
  then have "b_id b' = b_id b" "b_source b' = b_source b"
    using batch_evolves_key [of b b'] by (auto intro: batch_evolves.intros)
  then show ?thesis
    using map_put_batch [OF assms(2) batch_counted(3), of b' batch_key]
    by (intro sources_match_same [OF m]) (simp_all add: batch_counted(2) batch_key_def)
next
  case (batch_recalculated b)
  then show ?thesis
    using map_put_batch [OF assms(2) batch_recalculated(2), of _ batch_key]
    by (intro sources_match_same [OF m]) (simp_all add: batch_key_def)
next
  case (dataset_changed d d')
  then show ?thesis
    using map_put_dataset [OF assms(2) dataset_changed(2), of d' dataset_key]
      dataset_evolves_key [OF dataset_changed(4)]
    by (intro sources_match_same [OF m]) (simp_all add: dataset_key_def)
next
  case (version_counted v b db1 p)
  have "map batch_key (batches db') = map batch_key (batches db)"
    using map_put_batch [OF assms(2) version_counted(5), of _ batch_key]
    by (simp add: version_counted(1,9) batch_key_def)
  moreover have "map version_key (versions db') = map version_key (versions db)"
    using map_put_version [OF assms(2) version_counted(2), of "set_version_counts p v" version_key]
      version_keyD [OF set_version_counts_key [of p v]]
    by (simp add: version_counted(1,9))
  ultimately show ?thesis
    by (intro sources_match_same [OF m]) (simp_all add: version_counted(1,9))
next
  case (version_changed v cs v' now target)
  have k: "version_key v' = version_key v"
    using version_changed(4) by (rule version_change_keeps)
  have "map version_key (versions db') = map version_key (versions db)"
    using map_put_version [OF assms(2) version_changed(2), of v' version_key] k version_keyD [OF k]
    by (simp add: version_changed(1))
  then show ?thesis by (intro sources_match_same [OF m]) (simp_all add: version_changed(1))
qed (use m in simp)

subsection \<open>Counters\<close>

lemma apply_reconciliation_versions:
  assumes "map version_tally (batch_versions db' org (b_id b)) =
    map version_tally (batch_versions db org (b_id b))"
  shows "apply_reconciliation db' org b = apply_reconciliation db org b"
proof -
  let ?xs = "batch_versions db' org (b_id b)" and ?ys = "batch_versions db org (b_id b)"
  have "map (f \<circ> version_tally) ?xs = map (f \<circ> version_tally) ?ys" for f :: "_ \<Rightarrow> int"
    using arg_cong [OF assms, of "map f"] by (simp only: map_map)
  from this [of "\<lambda>(o', i, r, a, j). r"] this [of "\<lambda>(o', i, r, a, j). a"]
    this [of "\<lambda>(o', i, r, a, j). j"] map_eq_imp_length_eq [OF assms]
  have "map v_records ?xs = map v_records ?ys" "map v_accepted ?xs = map v_accepted ?ys"
    "map v_rejected ?xs = map v_rejected ?ys" "length ?xs = length ?ys"
    by (simp_all add: comp_def version_tally_def)
  then show ?thesis by (simp only: apply_reconciliation_def Let_def)
qed

lemma apply_reconciliation_tally:
  assumes "map version_tally (versions db') = map version_tally (versions db)"
  shows "apply_reconciliation db' org b = apply_reconciliation db org b"
proof (rule apply_reconciliation_versions)
  have f: "map version_tally (batch_versions e org (b_id b)) =
      filter (\<lambda>(o', i, r, a, j). o' = org \<and> i = b_id b) (map version_tally (versions e))"
    for e :: "'c ingestion_db_scheme"
    by (simp add: batch_versions_def filter_map comp_def version_tally_def)
  show "map version_tally (batch_versions db' org (b_id b)) =
      map version_tally (batch_versions db org (b_id b))"
    unfolding f assms ..
qed

lemma apply_reconciliation_idem [simp]:
  "apply_reconciliation db org (apply_reconciliation db org b) = apply_reconciliation db org b"
  by (simp add: apply_reconciliation_def Let_def)

lemma apply_reconciliation_counts:
  assumes "b_id b' = b_id b" "b_actual_datasets b' = b_actual_datasets b"
    "b_actual_records b' = b_actual_records b" "b_accepted_records b' = b_accepted_records b"
    "b_rejected_records b' = b_rejected_records b" "apply_reconciliation db org b = b"
  shows "apply_reconciliation db org b' = b'"
  using assms by (cases b; cases b') (simp add: apply_reconciliation_def Let_def)

lemma reconciled_same_versions:
  assumes "batches_reconciled db" "map version_tally (versions db') = map version_tally (versions db)"
    "\<And>b. b \<in> set (batches db') \<Longrightarrow> b \<in> set (batches db) \<or> apply_reconciliation db (b_org b) b = b"
  shows "batches_reconciled db'"
  using assms(1,3) unfolding batches_reconciled_def apply_reconciliation_tally [OF assms(2)] by blast

lemma reconciled_put_batch:
  assumes "ingestion_constraints db" "b \<in> set (batches db)"
    and db1: "batches db1 = batches db"
    and other: "\<And>c. c \<in> set (batches db) \<Longrightarrow> b_id c \<noteq> b_id b \<Longrightarrow>
      apply_reconciliation db1 (b_org c) c = apply_reconciliation db (b_org c) c"
    and "batches_reconciled db"
  shows "batches_reconciled (put_batch (apply_reconciliation db1 (b_org b) b) db1)"
proof -
  have "map version_tally (versions (put_batch b' db1)) = map version_tally (versions db1)" for b'
    by simp
  note same = apply_reconciliation_tally [OF this]
  show ?thesis
    unfolding batches_reconciled_def same
    using assms(5) by (auto simp: db1 in_put_row_iff other batches_reconciled_def)
qed

lemma batch_moved_counts:
  assumes "batch_transition now target b = Inr b' \<or> record_batch_failure now code summary b = Inr b'"
  shows "b_id b' = b_id b \<and> b_org b' = b_org b \<and> b_actual_datasets b' = b_actual_datasets b \<and>
    b_actual_records b' = b_actual_records b \<and> b_accepted_records b' = b_accepted_records b \<and>
    b_rejected_records b' = b_rejected_records b"
  using assms by (auto elim!: record_batch_failureE simp: batch_transition_keeps(1-7))

lemma effect_reconciled:
  assumes "ingestion_effect op db db'" "ingestion_constraints db" "ingestion_constraints db'"
    and r: "batches_reconciled db" and not_set: "\<And>org i p. op \<noteq> UpdateBatchCounts org i p"
  shows "batches_reconciled db'"
  using assms(1)
proof cases
  case (batch_added org p s i actor)
  let ?b = "new_batch org i p actor"
  have "v_batch v \<noteq> b_id ?b" if "v \<in> set (versions db)" for v
    by (rule new_batch_unreferenced [OF assms(2,3) _ that]) (simp add: batch_added(2))
  then have "batch_versions db org (b_id ?b) = []"
    by (auto simp: batch_versions_def filter_empty_conv)
  then have "apply_reconciliation db (b_org ?b) ?b = ?b"
    by (simp add: apply_reconciliation_def new_batch_def)
  then show ?thesis
    by (intro reconciled_same_versions [OF r]) (auto simp: batch_added(2))
next
  case (batch_moved b now target b' code summary)
  have e: "apply_reconciliation db (b_org b) b = b"
    using r batch_moved(2) by (simp add: batches_reconciled_def)
  have "apply_reconciliation db (b_org b) b' = b'" "b_org b' = b_org b"
    using batch_moved_counts [OF batch_moved(4)] apply_reconciliation_counts [OF _ _ _ _ _ e, of b']
    by simp_all
  then show ?thesis
    by (intro reconciled_same_versions [OF r]) (auto simp: batch_moved(1) in_put_row_iff)
next
  case (batch_recalculated b)
  show ?thesis
    by (intro reconciled_same_versions [OF r]) (auto simp: batch_recalculated(1) in_put_row_iff)
next
  case (version_added d org di b p s db1 i)
  have "apply_reconciliation db1 (b_org c) c = apply_reconciliation db (b_org c) c"
    if "b_id c \<noteq> b_id b" for c
    using that version_added(8)
    by (intro apply_reconciliation_versions) (simp add: version_added(12) batch_versions_def)
  with reconciled_put_batch [OF assms(2) version_added(6), of db1] r
  show ?thesis by (simp add: version_added(2,7,12))
next
  case (version_counted v b db1 p)
  have "apply_reconciliation db1 (b_org c) c = apply_reconciliation db (b_org c) c"
    if "b_id c \<noteq> b_id b" for c
  proof (rule apply_reconciliation_versions)
    have "filter (\<lambda>x. v_org x = b_org c \<and> v_batch x = b_id c)
        (put_row v_id (set_version_counts p v) (versions db)) =
      filter (\<lambda>x. v_org x = b_org c \<and> v_batch x = b_id c) (versions db)"
      by (rule filter_put_row [OF constraints_unique(3) [OF assms(2)] version_counted(2)])
        (use that version_counted(7) in \<open>simp_all add: set_version_counts_def\<close>)
    then show "map version_tally (batch_versions db1 (b_org c) (b_id c)) =
        map version_tally (batch_versions db (b_org c) (b_id c))"
      by (simp add: batch_versions_def version_counted(9))
  qed
  with reconciled_put_batch [OF assms(2) version_counted(5), of db1] r
  show ?thesis by (simp add: version_counted(1,9))
next
  case (version_changed v cs v' now target)
  have k: "version_key v' = version_key v" "version_tally v' = version_tally v"
    using version_change_keeps(1,2) [OF version_changed(4)] .
  have "map version_tally (versions db') = map version_tally (versions db)"
    using map_put_version [OF assms(2) version_changed(2), of v' version_tally] k(2)
      version_keyD [OF k(1)]
    by (simp add: version_changed(1))
  then show ?thesis by (intro reconciled_same_versions [OF r]) (auto simp: version_changed(1))
next
  case (batch_counted b org p b' i)
  with not_set show ?thesis by blast
next
  case (dataset_added org p s i actor)
  show ?thesis by (intro reconciled_same_versions [OF r]) (auto simp: dataset_added(2))
next
  case (dataset_changed d d')
  show ?thesis by (intro reconciled_same_versions [OF r]) (auto simp: dataset_changed(1))
qed (use r in simp)

section \<open>Interfaces\<close>

definition batch_at :: "'a ingestion_db_scheme \<Rightarrow> uuid \<Rightarrow> ingestion_batch option" where
  "batch_at db i = find (\<lambda>b. b_id b = i) (batches db)"

definition dataset_at :: "'a ingestion_db_scheme \<Rightarrow> uuid \<Rightarrow> dataset option" where
  "dataset_at db i = find (\<lambda>d. d_id d = i) (datasets db)"

definition version_at :: "'a ingestion_db_scheme \<Rightarrow> uuid \<Rightarrow> dataset_version option" where
  "version_at db i = find (\<lambda>v. v_id v = i) (versions db)"

definition ingestion_view ::
    "uuid \<Rightarrow> 'a ingestion_db_scheme \<Rightarrow> ingestion_batch list \<times> dataset list \<times> dataset_version list" where
  "ingestion_view org db =
     (filter (\<lambda>b. b_org b = org) (batches db), filter (\<lambda>d. d_org d = org) (datasets db),
      filter (\<lambda>v. v_org v = org) (versions db))"

lemma ingestion_step_wf:
  assumes "ingestion_wf db" "ingestion_step op db = Inr (db', r)"
  shows "ingestion_wf db'"
proof -
  have e: "ingestion_effect op db db'" and c: "db' = db \<or> ingestion_constraints db'"
    using ingestion_step_effect [OF assms(2)] by simp_all
  have w: "ingestion_constraints db" "versions_numbered db" "failures_stamped db"
    "version_sources_match db"
    using assms(1) by (simp_all add: ingestion_wf_def)
  with c have c': "ingestion_constraints db'" by auto
  show ?thesis
    unfolding ingestion_wf_def
    using c' effect_versions_numbered [OF e w(1,2)] effect_failures_stamped [OF e w(3)]
      effect_sources_match [OF e w(1) c' w(4)] by simp
qed

lemma ingestion_wfD: "ingestion_wf db \<Longrightarrow> ingestion_constraints db"
  by (simp add: ingestion_wf_def)

lemmas ingestion_unique = constraints_unique [OF ingestion_wfD]

interpretation ingestion: tenant_service ingestion_step ingestion_wf ingestion_op_org ingestion_view
proof
  fix db :: "'a ingestion_db_scheme" and op db' r org
  assume "ingestion_wf db" "ingestion_step op db = Inr (db', r)"
  then show "ingestion_wf db'" by (rule ingestion_step_wf)
next
  fix db :: "'a ingestion_db_scheme" and op db' r org
  assume w: "ingestion_wf db" "ingestion_step op db = Inr (db', r)" "org \<noteq> ingestion_op_org op"
  have e: "ingestion_effect op db db'" using ingestion_step_effect [OF w(2)] by simp
  show "ingestion_view org db' = ingestion_view org db"
    unfolding ingestion_view_def
    using table_step_view [OF effect_tables(1) [OF e] ingestion_unique(1) [OF w(1)] w(3)]
      table_step_view [OF effect_tables(2) [OF e] ingestion_unique(2) [OF w(1)] w(3)]
      table_step_view [OF effect_tables(3) [OF e] ingestion_unique(3) [OF w(1)] w(3)] by simp
qed

interpretation batch_rows: lifecycle_service ingestion_step ingestion_wf batch_at batch_evolves
    b_status batch_transitions
proof
  fix db :: "'a ingestion_db_scheme" and op db' r i x
  assume w: "ingestion_wf db" "ingestion_step op db = Inr (db', r)" "batch_at db i = Some x"
  have e: "ingestion_effect op db db'" using ingestion_step_effect [OF w(2)] by simp
  show "\<exists>x'. batch_at db' i = Some x' \<and> (x' = x \<or> batch_evolves x x')"
    using table_step_row [OF effect_tables(1) [OF e] ingestion_unique(1) [OF w(1)]] w(3)
    unfolding batch_at_def by blast
qed (rule batch_evolves_status)

interpretation dataset_rows: lifecycle_service ingestion_step ingestion_wf dataset_at
    dataset_evolves d_status dataset_transitions
proof
  fix db :: "'a ingestion_db_scheme" and op db' r i x
  assume w: "ingestion_wf db" "ingestion_step op db = Inr (db', r)" "dataset_at db i = Some x"
  have e: "ingestion_effect op db db'" using ingestion_step_effect [OF w(2)] by simp
  show "\<exists>x'. dataset_at db' i = Some x' \<and> (x' = x \<or> dataset_evolves x x')"
    using table_step_row [OF effect_tables(2) [OF e] ingestion_unique(2) [OF w(1)]] w(3)
    unfolding dataset_at_def by blast
qed (use dataset_evolves_key in blast)

interpretation version_rows: lifecycle_service ingestion_step ingestion_wf version_at
    version_evolves v_status version_transitions
proof
  fix db :: "'a ingestion_db_scheme" and op db' r i x
  assume w: "ingestion_wf db" "ingestion_step op db = Inr (db', r)" "version_at db i = Some x"
  have e: "ingestion_effect op db db'" using ingestion_step_effect [OF w(2)] by simp
  show "\<exists>x'. version_at db' i = Some x' \<and> (x' = x \<or> version_evolves x x')"
    using table_step_row [OF effect_tables(3) [OF e] ingestion_unique(3) [OF w(1)]] w(3)
    unfolding version_at_def by blast
qed (use version_evolves_key in blast)

lemma run_reconciled:
  assumes "ingestion_wf db" "batches_reconciled db"
    and "\<forall>op \<in> set ops. \<forall>org i p. op \<noteq> UpdateBatchCounts org i p"
  shows "batches_reconciled (run_ops ingestion_step ops db)"
proof (rule ingestion.run_keeps [where P = batches_reconciled, OF _ assms(1,2)])
  fix op db db' r
  assume op: "op \<in> set ops" "ingestion_wf db" "batches_reconciled db" "ingestion_step op db = Inr (db', r)"
  have "ingestion_constraints db'" using ingestion_step_wf [OF op(2,4)] by (rule ingestion_wfD)
  with ingestion_step_effect [OF op(4)] op(1,3) ingestion_wfD [OF op(2)] assms(3)
  show "batches_reconciled db'" by (intro effect_reconciled [of op db db']) auto
qed

lemma terminal_batch_evolves:
  "batch_evolves b b' \<Longrightarrow> b_status b \<in> {B_COMPLETED, B_CANCELLED} \<Longrightarrow> False"
  by (erule batch_evolves.cases)
    (auto simp: batch_ensure_mutable_def set_batch_counts_def batch_transition_def
      elim!: record_batch_failureE)

lemma terminal_version_evolves:
  "version_evolves v v' \<Longrightarrow> v_status v \<in> {V_PROCESSED, V_REJECTED} \<Longrightarrow> False"
  by (erule version_evolves.cases)
    (auto simp: version_ensure_mutable_def update_version_metadata_def transition_version_row_def)

section \<open>Replayed batch requests\<close>

definition batch_core where
  "batch_core b = (b_id b, b_org b, b_source b, b_number b, b_method b, b_trigger b,
     b_external_id b, b_period_start b, b_period_end b, b_idempotency_key b)"

lemma batch_evolves_core: "batch_evolves b b' \<Longrightarrow> batch_core b' = batch_core b"
  by (erule batch_evolves.cases)
    (auto simp: batch_core_def set_batch_counts_def batch_transition_def Let_def
      elim!: record_batch_failureE split: if_splits)

lemma run_source_systems:
  assumes "ingestion_wf db"
  shows "source_systems (run_ops ingestion_step ops db) = source_systems db"
proof (rule ingestion.run_keeps [where P = "\<lambda>d. source_systems d = source_systems db", OF _ assms])
  fix op and d d' :: "'a ingestion_db_scheme" and r
  assume "source_systems d = source_systems db" "ingestion_step op d = Inr (d', r)"
  with effect_tables(4) [of op d d'] ingestion_step_effect [of op d d' r]
  show "source_systems d' = source_systems db" by simp
qed simp

lemma batch_create_row:
  assumes "batch_create db org i p actor = Inr (db', BatchRow b)" "bc_idempotency_key p \<notin> {None, Some []}"
  shows "b \<in> set (batches db') \<and> b_org b = org \<and> b_idempotency_key b = bc_idempotency_key p \<and>
    batch_equivalent b p \<and> source_systems db' = source_systems db \<and>
    (\<exists>s. source_for_downstream_creation db org (bc_source p) = Inr s)"
  using assms
  by (auto simp: batch_create_def Let_def commit_ingestion_def new_batch_def batch_equivalent_def
      split: option.splits if_splits dest!: find_SomeD)

lemma batch_create_replayed:
  assumes "ingestion_constraints db" "b \<in> set (batches db)" "b_org b = org"
    and "b_idempotency_key b = bc_idempotency_key p" "bc_idempotency_key p \<notin> {None, Some []}"
  shows "batch_create db org i p actor =
    bindE (source_for_downstream_creation db org (bc_source p)) (\<lambda>_.
      if batch_equivalent b p then Inr (db, BatchRow b) else Inl IngestionConflict)"
proof -
  have "find (\<lambda>b. b_org b = org \<and> b_idempotency_key b = bc_idempotency_key p) (batches db) = Some b"
  proof (cases "find (\<lambda>b. b_org b = org \<and> b_idempotency_key b = bc_idempotency_key p) (batches db)")
    case None
    then show ?thesis using find_NoneD [OF None assms(2)] assms(3,4) by simp
  next
    case (Some c)
    have "unique_on_some (\<lambda>b. map_option (Pair (b_org b)) (b_idempotency_key b)) (batches db)"
      using assms(1) by (simp add: ingestion_constraints_def batch_constraints_def)
    from unique_on_some_eq [OF this, of c b] find_SomeD [OF Some] assms(2-5) Some
    show ?thesis by simp
  qed
  with assms(5) show ?thesis by (cases "bc_idempotency_key p") (auto simp: batch_create_def)
qed

lemma batch_equivalent_core:
  "batch_core b' = batch_core b \<Longrightarrow> batch_equivalent b' p = batch_equivalent b p"
  by (simp add: batch_core_def batch_equivalent_def)

lemma batch_at_in: "ingestion_constraints db \<Longrightarrow> b \<in> set (batches db) \<Longrightarrow> batch_at db (b_id b) = Some b"
  unfolding batch_at_def by (rule find_pk_unique [OF constraints_unique(1)])

lemma batch_at_SomeD: "batch_at db i = Some b \<Longrightarrow> b \<in> set (batches db) \<and> b_id b = i"
  unfolding batch_at_def by (rule find_SomeD)

section \<open>Properties\<close>


definition demo_batch_payload :: batch_payload where
  "demo_batch_payload = \<lparr>bc_source = 7, bc_number = ''B-1'', bc_method = ING_API,
     bc_trigger = TRG_MANUAL, bc_period_start = None, bc_period_end = None,
     bc_expected_datasets = None, bc_expected_records = None, bc_checksum = None,
     bc_correlation_id = None, bc_external_id = None, bc_idempotency_key = Some ''k1'',
     bc_storage_reference = None, bc_manifest = None\<rparr>"

definition demo_ingestion_db :: "ingestion_batch list \<Rightarrow> ingestion_db" where
  "demo_ingestion_db bs = \<lparr>organizations = [1, 2], source_systems = [demo_source],
     batches = bs, datasets = [], versions = []\<rparr>"

lemmas demo_ingestion_defs =
  demo_ingestion_db_def demo_source_def demo_batch_payload_def new_batch_def

lemma demo_ingestion_wf:
  "ingestion_wf (demo_ingestion_db [])"
  "batches_reconciled (demo_ingestion_db [])"
  "ingestion_wf (demo_ingestion_db [(new_batch 1 5 demo_batch_payload 9)\<lparr>b_status := B_COMPLETED\<rparr>])"
  by (simp_all add: ingestion_wf_def ingestion_constraints_def source_constraints_def
      batch_constraints_def dataset_constraints_def version_constraints_def unique_on_some_def
      unique_on_def versions_numbered_def version_numbers_def failures_stamped_def
      version_sources_match_def batches_reconciled_def demo_ingestion_defs batch_row_ok_def
      null_or_def)

lemma demo_create_step:
  "ingestion_step (CreateBatch 1 5 demo_batch_payload 9) (demo_ingestion_db []) =
   Inr (demo_ingestion_db [new_batch 1 5 demo_batch_payload 9],
        BatchRow (new_batch 1 5 demo_batch_payload 9))"
  by (simp add: batch_create_def source_for_downstream_creation_def source_for_organization_def
      tenant_get_def downstream_creation_statuses_def commit_ingestion_def
      ingestion_constraints_def source_constraints_def batch_constraints_def
      dataset_constraints_def version_constraints_def unique_on_some_def unique_on_def
      demo_ingestion_defs batch_row_ok_def null_or_def Let_def)



definition demo_version_ops :: "ingestion_op list" where
  "demo_version_ops =
     [CreateBatch 1 5 demo_batch_payload 9,
      CreateDataset 1 4 \<lparr>dc_source = 7, dc_name = ''Orders'', dc_code = ''orders'',
        dc_description = None, dc_domain = ''sales'', dc_type = DT_SNAPSHOT,
        dc_sensitivity = INTERNAL, dc_time_field = None, dc_business_key = None,
        dc_object_name = None, dc_schema_name = None, dc_table_name = None,
        dc_file_pattern = None, dc_timezone = None, dc_currency = None,
        dc_retention_days = None, dc_metadata = None\<rparr> 9,
      CreateVersion 1 4 3 \<lparr>vc_batch = 5, vc_file_name = None, vc_file_extension = None,
        vc_file_size = None, vc_file_checksum = None, vc_media_type = None, vc_encoding = None,
        vc_delimiter = None, vc_sheet_name = None, vc_columns = None,
        vc_storage_reference = None, vc_raw_schema_reference = None, vc_period_start = None,
        vc_period_end = None, vc_fingerprint = None, vc_metadata = None\<rparr>,
      UpdateVersionCounts 1 4 3
        \<lparr>vu_records = 10, vu_accepted = 8, vu_rejected = 2, vu_columns = None\<rparr>]"

lemma demo_version_run:
  "map (\<lambda>b. (b_id b, b_actual_datasets b, b_actual_records b, b_accepted_records b))
     (batches (run_ops ingestion_step demo_version_ops (demo_ingestion_db []))) = [(5, 1, 10, 8)]"
  by code_simp


text \<open>C12: The versions of a dataset are numbered 1, 2, 3, ... without gaps or repetitions, in
  the order they were created, whatever sequence of requests is made.\<close>

theorem dataset_versions_contiguous:
  assumes "ingestion_wf db" "db2 = run_ops ingestion_step ops db"
  shows "map v_number (filter (\<lambda>v. v_dataset v = i) (versions db2)) =
    map int [1..<Suc (length (filter (\<lambda>v. v_dataset v = i) (versions db2)))]"
proof -
  have "versions_numbered db2"
    using ingestion.run_inv [OF assms(1)] unfolding assms(2) by (simp add: ingestion_wf_def)
  then show ?thesis
    unfolding versions_numbered_def numbered_def version_numbers_def length_map by blast
qed

theorem dataset_versions_contiguous_witness:
  "map v_number (filter (\<lambda>v. v_dataset v = 4)
     (versions (run_ops ingestion_step demo_version_ops (demo_ingestion_db [])))) =
   map int [1..<Suc (length (filter (\<lambda>v. v_dataset v = 4)
     (versions (run_ops ingestion_step demo_version_ops (demo_ingestion_db [])))))]"
  using demo_ingestion_wf(1) refl by (rule dataset_versions_contiguous)

text \<open>C32: A finished batch is final: once it is completed or cancelled, no sequence of requests
  changes any field of it; and a processed or rejected dataset version is final as well.\<close>

theorem terminal_ingestion_rows_frozen:
  assumes "ingestion_wf db" "db2 = run_ops ingestion_step ops db"
  shows "(\<forall>i b. batch_at db i = Some b \<and> b_status b \<in> {B_COMPLETED, B_CANCELLED} \<longrightarrow>
            batch_at db2 i = Some b) \<and>
    (\<forall>i v. version_at db i = Some v \<and> v_status v \<in> {V_PROCESSED, V_REJECTED} \<longrightarrow>
            version_at db2 i = Some v)"
proof (intro conjI allI impI)
  fix i b assume "batch_at db i = Some b \<and> b_status b \<in> {B_COMPLETED, B_CANCELLED}"
  then show "batch_at db2 i = Some b"
    using batch_rows.run_stable [OF _ assms(1), where P = "\<lambda>x. x = b" and i = i and x = b]
      terminal_batch_evolves unfolding assms(2) by blast
next
  fix i v assume "version_at db i = Some v \<and> v_status v \<in> {V_PROCESSED, V_REJECTED}"
  then show "version_at db2 i = Some v"
    using version_rows.run_stable [OF _ assms(1), where P = "\<lambda>x. x = v" and i = i and x = v]
      terminal_version_evolves unfolding assms(2) by blast
qed

theorem terminal_ingestion_rows_frozen_witness:
  "batch_at (run_ops ingestion_step [RetryBatch 1 5 60, RecalculateBatch 1 5]
     (demo_ingestion_db [(new_batch 1 5 demo_batch_payload 9)\<lparr>b_status := B_COMPLETED\<rparr>])) 5 =
   Some ((new_batch 1 5 demo_batch_payload 9)\<lparr>b_status := B_COMPLETED\<rparr>)"
  using terminal_ingestion_rows_frozen [OF demo_ingestion_wf(3) refl,
      of "[RetryBatch 1 5 60, RecalculateBatch 1 5]"]
  by (auto simp: batch_at_def demo_ingestion_db_def)

text \<open>The ingestion tables stay coherent: the declared constraints hold, a batch has a
  failure time exactly while it is failed, and the dataset and the batch of a version always
  come from the same source system.\<close>

theorem ingestion_tables_coherent:
  assumes "ingestion_wf db" "db2 = run_ops ingestion_step ops db"
  shows "ingestion_constraints db2 \<and>
    (\<forall>b \<in> set (batches db2). (b_failed_at b \<noteq> None) = (b_status b = B_FAILED)) \<and>
    (\<forall>v \<in> set (versions db2). \<forall>d \<in> set (datasets db2). \<forall>b \<in> set (batches db2).
       v_dataset v = d_id d \<and> v_batch v = b_id b \<longrightarrow> d_source d = b_source b)"
  using ingestion.run_inv [OF assms(1), of ops]
  unfolding assms(2) ingestion_wf_def failures_stamped_def version_sources_match_def by blast

theorem ingestion_tables_coherent_witness:
  "list_all (\<lambda>b. (b_failed_at b \<noteq> None) = (b_status b = B_FAILED))
     (batches (run_ops ingestion_step demo_version_ops (demo_ingestion_db [])))"
  using ingestion_tables_coherent [OF demo_ingestion_wf(1) refl, of demo_version_ops]
  unfolding list_all_iff by blast

text \<open>An organization's batches, datasets and versions do not change under the requests of
  other organizations.\<close>

theorem ingestion_tenant_isolation:
  assumes "ingestion_wf db" "\<forall>op \<in> set ops. ingestion_op_org op \<noteq> org"
  shows "ingestion_view org (run_ops ingestion_step ops db) = ingestion_view org db"
  using assms by (rule ingestion.run_isolated)

theorem ingestion_tenant_isolation_witness:
  "ingestion_view 2 (run_ops ingestion_step demo_version_ops (demo_ingestion_db [])) =
   ingestion_view 2 (demo_ingestion_db [])"
  by (rule ingestion_tenant_isolation [OF demo_ingestion_wf(1)]) (simp add: demo_version_ops_def)

end
