(* ===== verification/Py_Decimal.thy ===== *)
theory Py_Decimal
  imports Platform_Prelude Complex_Main
begin

text \<open>
  Python's \<open>decimal.Decimal\<close> by value, as the engines use it: finite numbers are rationals, an
  arithmetic result is rounded to the 28 significant digits of the default context (ties to
  even), and \<open>quantize\<close> rounds to a fixed number of places, ties to even or away from zero,
  and raises when the result needs more than 28 digits. The exponent a value carries (which
  shows only in \<open>str\<close>), signed zero, and the exponent limits of the context are left out;
  request bodies cannot carry infinities or NaN.
\<close>

section \<open>Rounding to integers\<close>

definition round_half_even :: "rat \<Rightarrow> int" where
  "round_half_even x =
     (let f = \<lfloor>x\<rfloor>; r = x - of_int f
      in if r < 1/2 then f else if 1/2 < r then f + 1 else if even f then f else f + 1)"

definition round_half_up :: "rat \<Rightarrow> int" where
  "round_half_up x = (if 0 \<le> x then \<lfloor>x + 1/2\<rfloor> else - \<lfloor>- x + 1/2\<rfloor>)"

lemma round_half_even_int [simp]: "round_half_even (of_int i) = i"
  by (simp add: round_half_even_def)

lemma round_half_up_int [simp]: "round_half_up (of_int i) = i"
proof -
  have "\<lfloor>(of_int j :: rat) + 1/2\<rfloor> = j" for j
    by (simp add: floor_eq_iff)
  from this [of i] this [of "- i"] show ?thesis
    by (simp add: round_half_up_def)
qed

lemma round_half_even_bounds:
  "of_int (round_half_even x) \<le> x + 1/2" "x - 1/2 \<le> of_int (round_half_even x)"
  unfolding round_half_even_def Let_def by (auto simp: algebra_simps) (linarith+)?

lemma round_half_up_bounds:
  "of_int (round_half_up x) \<le> x + 1/2" "x - 1/2 \<le> of_int (round_half_up x)"
  unfolding round_half_up_def by (auto simp: algebra_simps) (linarith+)?

lemma round_half_even_mono: "x \<le> y \<Longrightarrow> round_half_even x \<le> round_half_even y"
proof (cases "\<lfloor>x\<rfloor> = \<lfloor>y\<rfloor>")
  case True
  moreover assume "x \<le> y"
  ultimately show ?thesis by (auto simp: round_half_even_def Let_def)
next
  case False
  moreover assume "x \<le> y"
  ultimately have "\<lfloor>x\<rfloor> + 1 \<le> \<lfloor>y\<rfloor>"
    using floor_mono [of x y] by simp
  then show ?thesis by (auto simp: round_half_even_def Let_def)
qed

lemma round_half_up_mono: "x \<le> y \<Longrightarrow> round_half_up x \<le> round_half_up y"
proof -
  assume xy: "x \<le> y"
  show ?thesis
  proof (cases "0 \<le> x")
    case True
    then show ?thesis using xy by (auto simp: round_half_up_def intro: floor_mono)
  next
    case False
    have a: "0 \<le> \<lfloor>- x + 1/2\<rfloor>" using False by simp
    have b: "0 \<le> \<lfloor>y + 1/2\<rfloor>" if "0 \<le> y" using that by simp
    have c: "\<lfloor>- y + 1/2\<rfloor> \<le> \<lfloor>- x + 1/2\<rfloor>" using xy by (intro floor_mono) simp
    show ?thesis
      unfolding round_half_up_def if_not_P [OF False] using a b c by (cases "0 \<le> y") (simp_all only: if_True if_False; linarith)+
  qed
qed

lemma round_half_up_minus: "round_half_up (- x) = - round_half_up x"
proof -
  have "\<lfloor>1/2 :: rat\<rfloor> = 0" by (simp add: floor_eq_iff)
  then show ?thesis by (auto simp: round_half_up_def)
qed

section \<open>Magnitude and context rounding\<close>

text \<open>The exponent of the leading digit: \<open>10 ^ mag x \<le> \<bar>x\<bar> < 10 ^ (mag x + 1)\<close>.\<close>

function digits :: "int \<Rightarrow> int" where
  "digits n = (if n \<le> 0 then 0 else digits (n div 10) + 1)"
  by auto

termination
  by (relation "measure nat") auto

declare digits.simps [simp del]

definition mag :: "rat \<Rightarrow> int" where
  "mag x =
     (let (n, d) = quotient_of \<bar>x\<bar>;
          a = digits n - digits d
      in if (10::rat) powi a \<le> \<bar>x\<bar> then a else a - 1)"

definition ctx_precision :: int where
  "ctx_precision = 28"

definition dctx :: "rat \<Rightarrow> rat" where
  "dctx x =
     (if x = 0 then 0
      else let u = (10::rat) powi (mag x - (ctx_precision - 1))
           in of_int (round_half_even (x / u)) * u)"

definition dadd :: "rat \<Rightarrow> rat \<Rightarrow> rat" where "dadd x y = dctx (x + y)"
definition dsub :: "rat \<Rightarrow> rat \<Rightarrow> rat" where "dsub x y = dctx (x - y)"
definition dmul :: "rat \<Rightarrow> rat \<Rightarrow> rat" where "dmul x y = dctx (x * y)"
definition ddiv :: "rat \<Rightarrow> rat \<Rightarrow> rat" where "ddiv x y = dctx (x / y)"
definition dneg :: "rat \<Rightarrow> rat" where "dneg x = dctx (- x)"
definition dabs :: "rat \<Rightarrow> rat" where "dabs x = dctx \<bar>x\<bar>"

lemma digits_bounds:
  assumes "0 < n"
  shows "0 < digits n \<and> (10::int) ^ nat (digits n - 1) \<le> n \<and> n < 10 ^ nat (digits n)"
  using assms
proof (induction n rule: digits.induct)
  case (1 n)
  have d: "digits n = digits (n div 10) + 1"
    using \<open>0 < n\<close> by (subst digits.simps) simp
  show ?case
  proof (cases "0 < n div 10")
    case True
    with 1 have ih: "0 < digits (n div 10)" "(10::int) ^ nat (digits (n div 10) - 1) \<le> n div 10"
      "n div 10 < 10 ^ nat (digits (n div 10))" by simp_all
    then obtain k where k: "digits (n div 10) = int k + 1"
      by (metis add.commute zero_less_imp_eq_int of_nat_Suc Suc_diff_1 gr0_conv_Suc)
    have "(10::int) ^ k * 10 \<le> n" "n < 10 ^ (k + 1) * 10"
      using ih(2,3) by (simp_all add: k nat_add_distrib)
    then show ?thesis by (simp add: d k nat_add_distrib)
  next
    case False
    with \<open>0 < n\<close> have "n < 10" "n div 10 = 0" by simp_all
    then show ?thesis using \<open>0 < n\<close> by (simp add: d) (simp add: digits.simps)
  qed
qed

lemma digits_powi:
  assumes "0 < n"
  shows "(10::rat) powi (digits n - 1) \<le> of_int n" "of_int n < (10::rat) powi (digits n)"
proof -
  note b = digits_bounds [OF assms]
  have "(of_int (10 ^ nat (digits n - 1)) :: rat) \<le> of_int n" "(of_int n :: rat) < of_int (10 ^ nat (digits n))"
    using b by (simp_all only: of_int_le_iff of_int_less_iff)
  then show "(10::rat) powi (digits n - 1) \<le> of_int n" "of_int n < (10::rat) powi (digits n)"
    using b by (simp_all add: power_int_def)
qed

lemma mag_bounds:
  assumes "x \<noteq> 0"
  shows "(10::rat) powi (mag x) \<le> \<bar>x\<bar>" "\<bar>x\<bar> < (10::rat) powi (mag x + 1)"
proof -
  obtain n d where q: "quotient_of \<bar>x\<bar> = (n, d)" by fastforce
  then have x: "\<bar>x\<bar> = of_int n / of_int d" and d: "0 < d"
    using quotient_of_div quotient_of_denom_pos by blast+
  with assms have n: "0 < n"
    by (metis abs_ge_zero abs_eq_0 divide_less_0_iff divide_eq_0_iff of_int_0_less_iff of_int_pos
        not_less_iff_gr_or_eq of_int_0 of_int_less_0_iff order.strict_iff_not)
  define a where "a = digits n"
  define b where "b = digits d"
  have N: "(10::rat) powi (a - 1) \<le> of_int n" "of_int n < (10::rat) powi a"
    using digits_powi [OF n] by (simp_all add: a_def)
  have D: "(10::rat) powi (b - 1) \<le> of_int d" "of_int d < (10::rat) powi b"
    using digits_powi [OF d] by (simp_all add: b_def)
  have "(10::rat) powi (a - 1) / 10 powi b \<le> of_int n / of_int d"
    using N(1) D(2) d n by (intro frac_le) auto
  then have lo: "(10::rat) powi (a - b - 1) \<le> \<bar>x\<bar>"
    by (simp add: x power_int_diff)
  have "of_int n / of_int d < (10::rat) powi a / 10 powi (b - 1)"
    using N(2) D(1) d n by (intro frac_less) auto
  then have hi: "\<bar>x\<bar> < (10::rat) powi (a - b + 1)"
    by (simp add: x power_int_diff power_int_add)
  have m: "mag x = (if (10::rat) powi (a - b) \<le> \<bar>x\<bar> then a - b else a - b - 1)"
    by (simp add: mag_def q a_def b_def)
  show "(10::rat) powi (mag x) \<le> \<bar>x\<bar>" "\<bar>x\<bar> < (10::rat) powi (mag x + 1)"
    using lo hi by (auto simp: m)
qed

lemma powi10_less: "(10::rat) powi a < 10 powi b \<Longrightarrow> a < b"
  using power_int_increasing [of b a "10::rat"] by (cases "a < b") auto

lemma mag_unique:
  assumes "(10::rat) powi k \<le> \<bar>x\<bar>" "\<bar>x\<bar> < (10::rat) powi (k + 1)"
  shows "mag x = k"
proof -
  have pos: "0 < (10::rat) powi k" by simp
  with assms(1) have "0 < \<bar>x\<bar>" by linarith
  then have "x \<noteq> 0" by simp
  from mag_bounds [OF this] assms have "(10::rat) powi (mag x) < 10 powi (k + 1)"
    "(10::rat) powi k < 10 powi (mag x + 1)" by linarith+
  then have "mag x < k + 1" "k < mag x + 1"
    by (blast dest: powi10_less)+
  then show ?thesis by simp
qed

lemma mag_mono:
  assumes "x \<noteq> 0" "\<bar>x\<bar> \<le> \<bar>y\<bar>"
  shows "mag x \<le> mag y"
proof (rule ccontr)
  assume "\<not> mag x \<le> mag y"
  then have "(10::rat) powi (mag y + 1) \<le> 10 powi (mag x)"
    by (intro power_int_increasing) auto
  moreover have "y \<noteq> 0" using assms by auto
  ultimately show False
    using mag_bounds [OF assms(1)] mag_bounds [of y] assms(2) by linarith
qed

lemma dctx_zero [simp]: "dctx 0 = 0"
  by (simp add: dctx_def)

text \<open>A value with at most 28 significant digits is not rounded.\<close>

lemma dctx_exact:
  assumes "x = of_int n * (10::rat) powi k" "\<bar>x\<bar> < (10::rat) powi (k + ctx_precision)"
  shows "dctx x = x"
proof (cases "x = 0")
  case False
  define u where "u = (10::rat) powi (mag x - (ctx_precision - 1))"
  have "(10::rat) powi (mag x) < 10 powi (k + ctx_precision)"
    using mag_bounds(1) [OF False] assms(2) by linarith
  then have "mag x < k + ctx_precision"
    by (rule powi10_less)
  then have "0 \<le> k - (mag x - (ctx_precision - 1))" by simp
  then obtain m where m: "k - (mag x - (ctx_precision - 1)) = int m"
    using zero_le_imp_eq_int by blast
  have "x / u = of_int n * (10::rat) powi (k - (mag x - (ctx_precision - 1)))"
    by (simp add: u_def assms(1) power_int_diff)
  also have "\<dots> = of_int (n * 10 ^ m)"
    unfolding m by simp
  finally have "x / u = of_int (n * 10 ^ m)" .
  then have "of_int (round_half_even (x / u)) * u = x / u * u"
    by (simp only: round_half_even_int)
  then show ?thesis using False by (simp add: dctx_def u_def)
qed simp

lemma dctx_twelve_places:
  assumes "x = of_int n / 10 ^ 12" "\<bar>n\<bar> < 10 ^ 28"
  shows "dctx x = x"
proof -
  have "of_int \<bar>n\<bar> < (of_int (10 ^ 28) :: rat)"
    using assms(2) by (simp only: of_int_less_iff)
  then have a: "of_int \<bar>n\<bar> / 10 ^ 12 < (of_int (10 ^ 28) :: rat) / 10 ^ 12"
    by (rule divide_strict_right_mono) simp
  have b: "(of_int (10 ^ 28) :: rat) / 10 ^ 12 = 10 powi (- 12 + ctx_precision)"
    by (simp add: ctx_precision_def)
  have c: "\<bar>x\<bar> = of_int \<bar>n\<bar> / 10 ^ 12"
    unfolding assms(1) by (simp only: abs_divide of_int_abs) simp
  have "\<bar>x\<bar> < 10 powi (- 12 + ctx_precision)"
    using a unfolding b c .
  moreover have "x = of_int n * 10 powi (- 12)"
    unfolding assms(1) by (simp add: power_int_minus)
  ultimately show "dctx x = x" by (intro dctx_exact)
qed

lemma dctx_bounds:
  assumes "0 < x"
  shows "(10::rat) powi (mag x) \<le> dctx x" "dctx x \<le> (10::rat) powi (mag x + 1)"
proof -
  define u where "u = (10::rat) powi (mag x - (ctx_precision - 1))"
  have u: "0 < u" "(10::rat) powi (mag x) = of_int (10 ^ 27) * u"
    "(10::rat) powi (mag x + 1) = of_int (10 ^ 28) * u"
    by (simp_all add: u_def ctx_precision_def power_int_diff power_int_add)
  have d: "dctx x = of_int (round_half_even (x / u)) * u"
    using assms by (simp add: dctx_def u_def Let_def)
  have "of_int (10 ^ 27) \<le> x / u" "x / u \<le> of_int (10 ^ 28)"
    using mag_bounds [of x] assms u by (simp_all add: pos_le_divide_eq pos_divide_le_eq del: of_int_power of_int_numeral)
  then have "10 ^ 27 \<le> round_half_even (x / u)" "round_half_even (x / u) \<le> 10 ^ 28"
    using round_half_even_mono [of "of_int (10 ^ 27)" "x / u"]
      round_half_even_mono [of "x / u" "of_int (10 ^ 28)"]
    by (simp_all only: round_half_even_int)
  then show "(10::rat) powi (mag x) \<le> dctx x" "dctx x \<le> (10::rat) powi (mag x + 1)"
    unfolding u(2,3) d using u(1)
    by (intro mult_right_mono; simp only: of_int_le_iff less_imp_le)+
qed

lemma round_half_even_minus: "round_half_even (- x) = - round_half_even x"
proof -
  have "x = of_int \<lfloor>x\<rfloor> + frac x" "0 \<le> frac x" "frac x < 1"
    using frac_ge_0 [of x] frac_lt_1 [of x] by (simp_all add: frac_def)
  then obtain i f where x: "x = of_int i + f" "0 \<le> f" "f < 1" by blast
  have "\<lfloor>x\<rfloor> = i" using x by (simp add: floor_eq_iff)
  moreover have "\<lfloor>- x\<rfloor> = (if f = 0 then - i else - i - 1)"
    using x by (auto simp: floor_eq_iff)
  ultimately show ?thesis
    using x by (auto simp: round_half_even_def Let_def)
qed

lemma mag_minus [simp]: "mag (- x) = mag x"
  by (simp add: mag_def)

lemma dctx_minus: "dctx (- x) = - dctx x"
  by (simp add: dctx_def round_half_even_minus Let_def)

text \<open>Rounding to the context a second time changes nothing.\<close>

lemma dctx_idem_pos:
  assumes "0 < x"
  shows "dctx (dctx x) = dctx x"
proof (cases "dctx x = (10::rat) powi (mag x + 1)")
  case True
  then show ?thesis
    using dctx_exact [of "dctx x" 1 "mag x + 1"] by (simp add: power_int_add ctx_precision_def)
next
  case False
  have "dctx x < (10::rat) powi (mag x + 1)" "0 \<le> dctx x"
    using dctx_bounds [OF assms] False order_trans [of 0 "(10::rat) powi (mag x)" "dctx x"] by simp_all
  moreover obtain n where "dctx x = of_int n * (10::rat) powi (mag x - (ctx_precision - 1))"
    using assms by (auto simp: dctx_def Let_def)
  moreover have "mag x - (ctx_precision - 1) + ctx_precision = mag x + 1" by simp
  ultimately show ?thesis by (intro dctx_exact [of _ n "mag x - (ctx_precision - 1)"]) (simp_all only: abs_of_nonneg)
qed

lemma dctx_idem: "dctx (dctx x) = dctx x"
proof (cases "x < 0")
  case True
  then show ?thesis using dctx_idem_pos [of "- x"] by (simp add: dctx_minus)
next
  case False
  then show ?thesis using dctx_idem_pos [of x] by (cases "x = 0") simp_all
qed

lemma dctx_pos: "0 < x \<Longrightarrow> 0 < dctx x"
  using dctx_bounds(1) [of x] by (meson less_le_trans zero_less_power_int zero_less_numeral)

lemma dctx_mono:
  assumes "x \<le> y"
  shows "dctx x \<le> dctx y"
proof -
  have pos: "dctx s \<le> dctx t" if "0 < s" "s \<le> t" for s t
  proof (cases "mag s = mag t")
    case True
    define u where "u = (10::rat) powi (mag t - (ctx_precision - 1))"
    have u: "0 < u" by (simp add: u_def)
    then have "s / u \<le> t / u" using that by (simp add: divide_right_mono)
    then have "round_half_even (s / u) \<le> round_half_even (t / u)" by (rule round_half_even_mono)
    then show ?thesis
      using that True u by (simp add: dctx_def u_def [symmetric])
  next
    case False
    then have "mag s + 1 \<le> mag t" using mag_mono [of s t] that by simp
    then have "(10::rat) powi (mag s + 1) \<le> 10 powi (mag t)" by (intro power_int_increasing) auto
    then show ?thesis using dctx_bounds(2) [of s] dctx_bounds(1) [of t] that by linarith
  qed
  show ?thesis
  proof (cases "0 < x")
    case True
    then show ?thesis using pos assms by blast
  next
    case False
    show ?thesis
    proof (cases "y < 0")
      case True
      then show ?thesis using pos [of "- y" "- x"] assms by (simp add: dctx_minus)
    next
      case nonneg: False
      have "dctx x \<le> 0" using False dctx_pos [of "- x"] by (cases "x = 0") (auto simp: dctx_minus)
      moreover have "0 \<le> dctx y" using nonneg dctx_pos [of y] by (cases "y = 0") auto
      ultimately show ?thesis by linarith
    qed
  qed
qed

section \<open>Quantization\<close>

text \<open>\<open>places\<close> digits after the point; none when the result has more than 28 digits.\<close>

definition quantize :: "(rat \<Rightarrow> int) \<Rightarrow> nat \<Rightarrow> rat \<Rightarrow> rat option" where
  "quantize rnd places x =
     (let i = rnd (x * 10 ^ places)
      in if \<bar>i\<bar> < 10 ^ nat ctx_precision then Some (of_int i / 10 ^ places) else None)"

lemma quantize_mono:
  assumes "quantize rnd p x = Some a" "quantize rnd p y = Some b" "x \<le> y"
    and "\<And>s t. s \<le> t \<Longrightarrow> rnd s \<le> rnd t"
  shows "a \<le> b"
proof -
  have "rnd (x * 10 ^ p) \<le> rnd (y * 10 ^ p)"
    using assms(3) by (intro assms(4)) simp
  then show ?thesis
    using assms(1,2) by (auto simp: quantize_def Let_def divide_right_mono split: if_splits)
qed

lemma quantize_SomeD:
  assumes "quantize rnd p x = Some y"
  shows "y = of_int (rnd (x * 10 ^ p)) / 10 ^ p" "\<bar>rnd (x * 10 ^ p)\<bar> < 10 ^ 28"
  using assms by (auto simp: quantize_def Let_def ctx_precision_def split: if_splits)

section \<open>Error and sign\<close>

lemma dctx_error: "\<bar>dctx x - x\<bar> \<le> \<bar>x\<bar> / 10 ^ 6"
proof (cases "x = 0")
  case False
  define u where "u = (10::rat) powi (mag x - (ctx_precision - 1))"
  have u: "0 < u" "(10::rat) powi (mag x) = 10 ^ 27 * u"
    by (simp_all add: u_def ctx_precision_def power_int_diff)
  have "dctx x - x = (of_int (round_half_even (x / u)) - x / u) * u"
    using False u(1) by (simp add: dctx_def u_def [symmetric] left_diff_distrib)
  moreover have "\<bar>of_int (round_half_even (x / u)) - x / u\<bar> \<le> 1/2"
    using round_half_even_bounds [of "x / u"] by linarith
  ultimately have "\<bar>dctx x - x\<bar> \<le> 1/2 * u"
    using u(1) by (simp add: abs_mult)
  also have "\<dots> \<le> 10 ^ 27 * u / 10 ^ 6"
    using u(1) by simp
  also have "\<dots> \<le> \<bar>x\<bar> / 10 ^ 6"
    using mag_bounds(1) [OF False] by (simp only: u(2)) (intro divide_right_mono, simp_all)
  finally show ?thesis .
qed simp

lemma dctx_upper:
  assumes "0 \<le> x"
  shows "dctx x \<le> x * (1 + 1 / 10 ^ 6)"
proof -
  have "dctx x - x \<le> x / 10 ^ 6" using abs_le_D1 [OF dctx_error [of x]] assms by simp
  then show ?thesis by (simp add: field_simps)
qed

lemma dctx_lower:
  assumes "0 \<le> x"
  shows "x * (1 - 1 / 10 ^ 6) \<le> dctx x"
proof -
  have "- (dctx x - x) \<le> x / 10 ^ 6" using abs_le_D2 [OF dctx_error [of x]] assms by simp
  then show ?thesis by (simp add: field_simps)
qed

lemma dctx_nonneg: "0 \<le> x \<Longrightarrow> 0 \<le> dctx x"
  using dctx_mono [of 0 x] by simp

lemma dadd_mono: "a \<le> a' \<Longrightarrow> b \<le> b' \<Longrightarrow> dadd a b \<le> dadd a' b'"
  unfolding dadd_def by (intro dctx_mono) simp

lemma dsub_mono: "a \<le> a' \<Longrightarrow> b' \<le> b \<Longrightarrow> dsub a b \<le> dsub a' b'"
  unfolding dsub_def by (intro dctx_mono) simp

lemma dmul_mono: "a \<le> a' \<Longrightarrow> 0 \<le> c \<Longrightarrow> dmul a c \<le> dmul a' c"
  unfolding dmul_def by (intro dctx_mono mult_right_mono)

lemma ddiv_mono: "a \<le> a' \<Longrightarrow> 0 < c \<Longrightarrow> ddiv a c \<le> ddiv a' c"
  unfolding ddiv_def by (intro dctx_mono divide_right_mono) auto

lemma ddiv_nonneg: "0 \<le> a \<Longrightarrow> 0 \<le> c \<Longrightarrow> 0 \<le> ddiv a c"
  unfolding ddiv_def by (intro dctx_nonneg) simp

lemma dmul_nonneg: "0 \<le> a \<Longrightarrow> 0 \<le> c \<Longrightarrow> 0 \<le> dmul a c"
  unfolding dmul_def by (intro dctx_nonneg) simp

lemma dadd_nonneg: "0 \<le> a \<Longrightarrow> 0 \<le> c \<Longrightarrow> 0 \<le> dadd a c"
  unfolding dadd_def by (intro dctx_nonneg) simp

end
