(* ===== verification/Recovery_Engine.thy ===== *)
theory Recovery_Engine
  imports Py_Decimal Py_Text
begin

text \<open>
  The engine of the recovery ledger (\<open>app/engines/recovery_ledger_engine.py\<close>): the realized
  value of a measurement by category, and the net of posted amounts.
\<close>

datatype value_category = REVENUE_RECOVERY | COST_REDUCTION | CASH_ACCELERATION | MARGIN_PROTECTION

datatype entry_type =
    VERIFIED_RECOVERY | ADJUSTMENT_POSITIVE | ADJUSTMENT_NEGATIVE | REVERSAL | REINSTATEMENT

datatype realized_error =
    BadCurrencyCode | AccelerationInputsRequired | AccelerationOutOfBounds | RealizedInvalidOperation

record measurement_input =
  mi_category :: value_category
  mi_baseline :: rat
  mi_actual :: rat
  mi_currency :: string
  mi_days :: "rat option"
  mi_rate :: "rat option"

definition calculate_realized_value :: "measurement_input \<Rightarrow> realized_error + rat" where
  "calculate_realized_value v =
     bindE (require (mi_currency v = upper (mi_currency v) \<and> length (mi_currency v) = 3)
              BadCurrencyCode) (\<lambda>_.
     bindE
       (if mi_category v = REVENUE_RECOVERY \<or> mi_category v = MARGIN_PROTECTION
        then Inr (dsub (mi_actual v) (mi_baseline v))
        else if mi_category v = COST_REDUCTION then Inr (dsub (mi_baseline v) (mi_actual v))
        else case (mi_days v, mi_rate v) of
               (Some days, Some rate) \<Rightarrow>
                 bindE (require (0 \<le> days \<and> 0 \<le> rate \<and> rate \<le> 1) AccelerationOutOfBounds) (\<lambda>_.
                   Inr (ddiv (dmul (dmul (mi_actual v) rate) days) 365))
             | _ \<Rightarrow> Inl AccelerationInputsRequired)
       (\<lambda>result. of_option RealizedInvalidOperation (quantize round_half_even 12 result)))"

definition net_verified_value :: "rat list \<Rightarrow> rat option" where
  "net_verified_value amounts = quantize round_half_even 12 (fold (\<lambda>x acc. dadd acc x) amounts 0)"

end
