(* ===== verification/Economics_Engine.thy ===== *)
theory Economics_Engine
  imports Py_Decimal
begin

text \<open>
  The economics of recovery opportunities (\<open>app/engines/economics_engine.py\<close>): the chain of
  exposure, recoverable and probability-adjusted values, the weighted priority score, the
  status graph, and the value a portfolio includes. Money is quantized to twelve places, ties
  away from zero; every intermediate result is rounded to the decimal context.
\<close>

section \<open>Errors and the status graph\<close>

datatype opportunity_status =
    O_DRAFT | O_UNDER_REVIEW | O_QUALIFIED | O_APPROVED | O_DEFERRED | O_MONITOR | O_REJECTED
  | O_SUPERSEDED | O_CANCELLED

datatype priority_category =
    C_CRITICAL | C_HIGH | C_MEDIUM | C_LOW | C_MONITOR | C_NOT_ECONOMIC | C_BLOCKED
  | C_INSUFFICIENT_EVIDENCE

datatype economics_error =
    NegativeMoney
  | RateOutOfRange string
  | MissingWeights "string list"
  | NegativeWeight
  | ZeroWeights
  | UnknownFactor string
  | InvalidOpportunityTransition opportunity_status opportunity_status
  | InvalidOperation

fun opportunity_transitions :: "opportunity_status \<Rightarrow> opportunity_status list" where
  "opportunity_transitions O_DRAFT =
     [O_UNDER_REVIEW, O_DEFERRED, O_MONITOR, O_REJECTED, O_CANCELLED]"
| "opportunity_transitions O_UNDER_REVIEW =
     [O_QUALIFIED, O_DEFERRED, O_MONITOR, O_REJECTED, O_CANCELLED]"
| "opportunity_transitions O_QUALIFIED =
     [O_APPROVED, O_DEFERRED, O_MONITOR, O_REJECTED, O_SUPERSEDED]"
| "opportunity_transitions O_APPROVED = [O_DEFERRED, O_SUPERSEDED, O_CANCELLED]"
| "opportunity_transitions O_DEFERRED = [O_UNDER_REVIEW, O_REJECTED]"
| "opportunity_transitions O_MONITOR = [O_UNDER_REVIEW, O_REJECTED]"
| "opportunity_transitions O_REJECTED = []"
| "opportunity_transitions O_SUPERSEDED = []"
| "opportunity_transitions O_CANCELLED = []"

definition require_opportunity_transition ::
    "opportunity_status \<Rightarrow> opportunity_status \<Rightarrow> economics_error + unit" where
  "require_opportunity_transition current requested =
     require (requested \<in> set (opportunity_transitions current))
       (InvalidOpportunityTransition current requested)"

section \<open>Economics of a scenario\<close>

record economic_input =
  ei_gross :: rat
  ei_addressability :: rat
  ei_recoverability :: rat
  ei_success :: rat
  ei_cost :: rat
  ei_period_days :: "int option"

datatype zero_cost_policy = ROI_NOT_APPLICABLE | STANDARD_POLICY

record economic_result =
  er_gross :: rat
  er_addressable :: rat
  er_recoverable :: rat
  er_adjusted :: rat
  er_cost :: rat
  er_net :: rat
  er_roi :: "rat option"
  er_payback :: "rat option"
  er_policy :: zero_cost_policy

definition money_places :: nat where
  "money_places = 12"

definition money :: "rat \<Rightarrow> economics_error + rat" where
  "money x = of_option InvalidOperation (quantize round_half_up money_places x)"

definition rate :: "string \<Rightarrow> rat \<Rightarrow> economics_error + rat" where
  "rate name x = bindE (require (0 \<le> x \<and> x \<le> 1) (RateOutOfRange name)) (\<lambda>_. Inr x)"

definition optionally :: "bool \<Rightarrow> ('e + 'a) \<Rightarrow> 'e + 'a option" where
  "optionally c m = (if c then bindE m (\<lambda>x. Inr (Some x)) else Inr None)"

definition positive_period :: "int option \<Rightarrow> bool" where
  "positive_period d = (case d of None \<Rightarrow> False | Some n \<Rightarrow> 0 < n)"

definition calculate_economics :: "economic_input \<Rightarrow> economics_error + economic_result" where
  "calculate_economics v =
     bindE (require (0 \<le> ei_gross v \<and> 0 \<le> ei_cost v) NegativeMoney) (\<lambda>_.
     bindE (rate ''addressability_rate'' (ei_addressability v)) (\<lambda>addressability.
     bindE (rate ''recoverability_rate'' (ei_recoverability v)) (\<lambda>recoverability.
     bindE (rate ''success_probability'' (ei_success v)) (\<lambda>success.
     bindE (money (dmul (ei_gross v) addressability)) (\<lambda>addressable.
     bindE (money (dmul addressable recoverability)) (\<lambda>recoverable.
     bindE (money (dmul recoverable success)) (\<lambda>adjusted.
     bindE (money (dsub adjusted (ei_cost v))) (\<lambda>net.
     bindE (optionally (ei_cost v \<noteq> 0) (money (ddiv net (ei_cost v)))) (\<lambda>roi.
     bindE (optionally (positive_period (ei_period_days v) \<and> 0 < adjusted)
              (money (ddiv (ei_cost v) (ddiv adjusted (of_int (the (ei_period_days v)))))))
       (\<lambda>payback.
     bindE (money (ei_gross v)) (\<lambda>gross.
     bindE (money (ei_cost v)) (\<lambda>cost.
     Inr \<lparr>er_gross = gross, er_addressable = addressable, er_recoverable = recoverable,
          er_adjusted = adjusted, er_cost = cost, er_net = net, er_roi = roi,
          er_payback = payback,
          er_policy = (if ei_cost v = 0 then ROI_NOT_APPLICABLE else STANDARD_POLICY)\<rparr>))))))))))))"

section \<open>Priority of an opportunity\<close>

type_synonym weights = "(string \<times> rat) list"

definition default_weights :: weights where
  "default_weights =
     [(''economic_value'', 25/100), (''net_benefit'', 15/100), (''roi'', 10/100),
      (''payback'', 10/100), (''urgency'', 15/100), (''confidence'', 10/100),
      (''feasibility'', 5/100), (''strategic_alignment'', 5/100), (''risk'', 5/100)]"

text \<open>\<open>{**DEFAULT_WEIGHTS, name: value, ...}\<close> keeps the order of the first mapping.\<close>

definition override_weights :: "weights \<Rightarrow> weights \<Rightarrow> weights" where
  "override_weights ws changes =
     map (\<lambda>(k, v). (k, case map_of changes k of None \<Rightarrow> v | Some v' \<Rightarrow> v')) ws"

definition weighting_profile :: "string \<Rightarrow> weights option" where
  "weighting_profile code = map_of
     [(''default_enterprise'', default_weights),
      (''cash_recovery'', override_weights default_weights
         [(''economic_value'', 30/100), (''net_benefit'', 20/100), (''urgency'', 10/100),
          (''strategic_alignment'', 0)]),
      (''safety_critical'', override_weights default_weights
         [(''economic_value'', 15/100), (''net_benefit'', 10/100), (''urgency'', 25/100),
          (''risk'', 15/100)])] code"

definition dsum :: "rat list \<Rightarrow> rat" where
  "dsum xs = fold (\<lambda>x acc. dadd acc x) xs 0"

definition normalize_weights :: "weights \<Rightarrow> economics_error + weights" where
  "normalize_weights ws =
     bindE (let missing = filter (\<lambda>k. k \<notin> fst ` set ws) (map fst default_weights)
            in require (missing = []) (MissingWeights missing)) (\<lambda>_.
     bindE (require (list_all (\<lambda>(k, v). 0 \<le> v) ws) NegativeWeight) (\<lambda>_.
     let total = dsum (map snd ws)
     in bindE (require (total \<noteq> 0) ZeroWeights) (\<lambda>_.
        Inr (map (\<lambda>(k, v). (k, ddiv v total)) ws))))"

definition bounded :: "rat \<Rightarrow> rat" where
  "bounded x = min 1 (max 0 x)"

record opportunity_input =
  oi_adjusted :: rat
  oi_net :: rat
  oi_roi :: "rat option"
  oi_payback :: "rat option"
  oi_urgency :: rat
  oi_confidence :: rat
  oi_feasibility :: rat
  oi_alignment :: rat
  oi_risk :: rat
  oi_dependency_ready :: bool
  oi_resource_ready :: bool

datatype opportunity_limitation = OL_LOW_CONFIDENCE | OL_DEPENDENCIES_BLOCKED | OL_RESOURCES_BLOCKED

record opportunity_priority =
  op_score :: rat
  op_category :: priority_category
  op_factors :: weights
  op_contributions :: weights
  op_weights :: weights
  op_limitations :: "opportunity_limitation list"

definition factors_of :: "opportunity_input \<Rightarrow> economics_error + weights" where
  "factors_of v =
     bindE (rate ''urgency_score'' (oi_urgency v)) (\<lambda>urgency.
     bindE (rate ''confidence_score'' (oi_confidence v)) (\<lambda>confidence.
     bindE (rate ''feasibility_score'' (oi_feasibility v)) (\<lambda>feasibility.
     bindE (rate ''strategic_alignment_score'' (oi_alignment v)) (\<lambda>alignment.
     bindE (rate ''risk_score'' (oi_risk v)) (\<lambda>risk.
     Inr [(''economic_value'', bounded (ddiv (oi_adjusted v) 100000)),
          (''net_benefit'', bounded (ddiv (max 0 (oi_net v)) 100000)),
          (''roi'', bounded (ddiv (case oi_roi v of None \<Rightarrow> 0 | Some x \<Rightarrow> x) 5)),
          (''payback'', case oi_payback v of None \<Rightarrow> 1/2
                        | Some d \<Rightarrow> bounded (dsub 1 (ddiv d 365))),
          (''urgency'', urgency), (''confidence'', confidence), (''feasibility'', feasibility),
          (''strategic_alignment'', alignment), (''risk'', dsub 1 risk)])))))"

fun contributions_of :: "weights \<Rightarrow> weights \<Rightarrow> economics_error + weights" where
  "contributions_of factors [] = Inr []"
| "contributions_of factors ((k, w) # ws) =
     bindE (of_option (UnknownFactor k) (map_of factors k)) (\<lambda>f.
     bindE (contributions_of factors ws) (\<lambda>rest. Inr ((k, dmul f w) # rest)))"

definition categorize :: "opportunity_input \<Rightarrow> rat \<Rightarrow> priority_category" where
  "categorize v score =
     (if \<not> oi_dependency_ready v \<or> \<not> oi_resource_ready v then C_BLOCKED
      else if oi_confidence v < 1/5 then C_INSUFFICIENT_EVIDENCE
      else if oi_net v < 0 then C_NOT_ECONOMIC
      else if 80 \<le> score then C_CRITICAL
      else if 65 \<le> score then C_HIGH
      else if 45 \<le> score then C_MEDIUM
      else if 25 \<le> score then C_LOW
      else C_MONITOR)"

definition calculate_opportunity_priority ::
    "opportunity_input \<Rightarrow> weights \<Rightarrow> economics_error + opportunity_priority" where
  "calculate_opportunity_priority v ws =
     bindE (normalize_weights (if ws = [] then default_weights else ws)) (\<lambda>nws.
     bindE (factors_of v) (\<lambda>factors.
     bindE (contributions_of factors nws) (\<lambda>contributions.
     bindE (of_option InvalidOperation
              (quantize round_half_up 2 (dmul (dsum (map snd contributions)) 100))) (\<lambda>score.
     Inr \<lparr>op_score = score, op_category = categorize v score, op_factors = factors,
          op_contributions = contributions, op_weights = nws,
          op_limitations =
            (if oi_confidence v < 2/5 then [OL_LOW_CONFIDENCE] else []) @
            (if oi_dependency_ready v then [] else [OL_DEPENDENCIES_BLOCKED]) @
            (if oi_resource_ready v then [] else [OL_RESOURCES_BLOCKED])\<rparr>))))"

section \<open>Portfolio\<close>

definition portfolio_included_value :: "rat \<Rightarrow> rat \<Rightarrow> string \<Rightarrow> economics_error + rat" where
  "portfolio_included_value adjusted allocation inclusion =
     (if inclusion \<noteq> ''included'' then Inr 0
      else bindE (rate ''allocation_percentage'' allocation) (\<lambda>_. money (dmul adjusted allocation)))"

end
