(* ===== verification/Action_Engine.thy ===== *)
theory Action_Engine
  imports Py_Decimal
begin

text \<open>
  The pure rules of operational actions (\<open>app/engines/action_engine.py\<close>): the status graph,
  the weighted priority score, the approval policy, readiness, eligibility of realized value
  and the classification of prediction feedback.
\<close>

section \<open>Status graph\<close>

datatype action_status =
    A_PROPOSED | A_PENDING_APPROVAL | A_APPROVED | A_REJECTED | A_ASSIGNED | A_SCHEDULED
  | A_IN_PROGRESS | A_BLOCKED | A_COMPLETED | A_VERIFICATION_PENDING | A_VERIFIED
  | A_VERIFICATION_REJECTED | A_CANCELLED

fun action_transitions :: "action_status \<Rightarrow> action_status list" where
  "action_transitions A_PROPOSED = [A_PENDING_APPROVAL, A_APPROVED, A_CANCELLED]"
| "action_transitions A_PENDING_APPROVAL = [A_APPROVED, A_REJECTED, A_CANCELLED]"
| "action_transitions A_APPROVED = [A_ASSIGNED, A_CANCELLED]"
| "action_transitions A_ASSIGNED = [A_SCHEDULED, A_IN_PROGRESS, A_CANCELLED]"
| "action_transitions A_SCHEDULED = [A_IN_PROGRESS, A_CANCELLED]"
| "action_transitions A_IN_PROGRESS = [A_BLOCKED, A_COMPLETED, A_CANCELLED]"
| "action_transitions A_BLOCKED = [A_IN_PROGRESS, A_CANCELLED]"
| "action_transitions A_COMPLETED = [A_VERIFICATION_PENDING, A_CANCELLED]"
| "action_transitions A_VERIFICATION_PENDING = [A_VERIFIED, A_VERIFICATION_REJECTED]"
| "action_transitions A_VERIFICATION_REJECTED = [A_IN_PROGRESS, A_COMPLETED, A_CANCELLED]"
| "action_transitions A_REJECTED = []"
| "action_transitions A_VERIFIED = []"
| "action_transitions A_CANCELLED = []"

datatype action_engine_error = ActionTransitionForbidden action_status action_status

definition require_action_transition :: "action_status \<Rightarrow> action_status \<Rightarrow> action_engine_error + unit" where
  "require_action_transition current requested =
     require (requested \<in> set (action_transitions current)) (ActionTransitionForbidden current requested)"

section \<open>Priority\<close>

record action_priority_input =
  ap_failure_probability :: "rat option"
  ap_severity :: int
  ap_horizon_days :: "int option"
  ap_confidence :: "rat option"
  ap_exposure :: "rat option"
  ap_resource_ready :: bool
  ap_dependencies_ready :: bool

datatype priority_class = P_CRITICAL | P_HIGH | P_MEDIUM | P_LOW

datatype priority_limitation =
    MISSING_FAILURE_PROBABILITY | MISSING_HORIZON | MISSING_CONFIDENCE | MISSING_FINANCIAL_EXPOSURE

record action_priority =
  apr_score :: rat
  apr_class :: priority_class
  apr_components :: "rat list"
  apr_limitations :: "priority_limitation list"

text \<open>\<open>x or Decimal("0")\<close>: absent and zero both give zero.\<close>

definition or_zero :: "rat option \<Rightarrow> rat" where
  "or_zero v = (case v of None \<Rightarrow> 0 | Some x \<Rightarrow> x)"

definition urgency :: "int option \<Rightarrow> rat" where
  "urgency h = (case h of None \<Rightarrow> 1/5 | Some d \<Rightarrow> if d \<le> 7 then 1 else if d \<le> 30 then 3/5 else 1/5)"

definition action_score :: "rat \<Rightarrow> int \<Rightarrow> rat \<Rightarrow> rat \<Rightarrow> rat \<Rightarrow> rat \<Rightarrow> rat" where
  "action_score probability severity urg confidence exposure readiness =
     dadd (dadd (dadd (dadd (dadd (dmul probability 35)
       (dmul (ddiv (of_int severity) 5) 25)) (dmul urg 15)) (dmul confidence 10))
       (dmul exposure 10)) (dmul readiness 5)"

definition classify_priority :: "rat \<Rightarrow> priority_class" where
  "classify_priority score =
     (if 80 \<le> score then P_CRITICAL else if 60 \<le> score then P_HIGH
      else if 35 \<le> score then P_MEDIUM else P_LOW)"

definition priority_limitations :: "action_priority_input \<Rightarrow> priority_limitation list" where
  "priority_limitations v =
     (if ap_failure_probability v = None then [MISSING_FAILURE_PROBABILITY] else []) @
     (if ap_horizon_days v = None then [MISSING_HORIZON] else []) @
     (if ap_confidence v = None then [MISSING_CONFIDENCE] else []) @
     (if ap_exposure v = None then [MISSING_FINANCIAL_EXPOSURE] else [])"

text \<open>None is \<open>decimal.InvalidOperation\<close> of the quantization.\<close>

definition calculate_priority :: "action_priority_input \<Rightarrow> action_priority option" where
  "calculate_priority v =
     (let probability = or_zero (ap_failure_probability v);
          confidence = or_zero (ap_confidence v);
          urg = urgency (ap_horizon_days v);
          exposure = min 1 (ddiv (or_zero (ap_exposure v)) 100000);
          readiness = (if ap_resource_ready v \<and> ap_dependencies_ready v then 1 else 2/5)
      in case quantize round_half_even 2
                (action_score probability (ap_severity v) urg confidence exposure readiness) of
           None \<Rightarrow> None
         | Some score \<Rightarrow>
             Some \<lparr>apr_score = score, apr_class = classify_priority score,
                   apr_components = [probability, of_int (ap_severity v), urg, confidence,
                                     exposure, readiness],
                   apr_limitations = priority_limitations v\<rparr>)"

section \<open>Approval\<close>

datatype approval_reason =
    HIGH_INTERVENTION_COST | HIGH_EXPECTED_EXPOSURE | LOW_CONFIDENCE | SENSITIVE_OPERATIONAL_IMPACT

record approval_result =
  ar_required :: bool
  ar_level :: string
  ar_role :: string
  ar_reasons :: "approval_reason list"

definition calculate_approval :: "rat \<Rightarrow> rat \<Rightarrow> rat \<Rightarrow> bool \<Rightarrow> approval_result" where
  "calculate_approval intervention_cost avoided_cost confidence sensitive =
     (let reasons =
        (if 10000 \<le> intervention_cost then [HIGH_INTERVENTION_COST] else []) @
        (if 50000 \<le> avoided_cost then [HIGH_EXPECTED_EXPOSURE] else []) @
        (if confidence < 3/5 then [LOW_CONFIDENCE] else []) @
        (if sensitive then [SENSITIVE_OPERATIONAL_IMPACT] else []);
        required = (reasons \<noteq> [])
      in \<lparr>ar_required = required,
          ar_level = (if required then ''organization_admin'' else ''none''),
          ar_role = (if required then ''organization_admin'' else ''operator''),
          ar_reasons = reasons\<rparr>)"

section \<open>Readiness, eligibility, feedback\<close>

fun dependencies_ready :: "(bool \<times> bool) list \<Rightarrow> bool" where
  "dependencies_ready [] = True"
| "dependencies_ready ((mandatory, resolved) # items) =
     ((resolved \<or> \<not> mandatory) \<and> dependencies_ready items)"

fun resources_ready :: "(bool \<times> bool) list \<Rightarrow> bool" where
  "resources_ready [] = True"
| "resources_ready ((mandatory, available) # items) =
     ((available \<or> \<not> mandatory) \<and> resources_ready items)"

definition realized_value_eligible :: "action_status \<Rightarrow> nat \<Rightarrow> bool" where
  "realized_value_eligible status verified_evidence = (status = A_VERIFIED \<and> 0 < verified_evidence)"

datatype feedback_class =
    INSUFFICIENT_WINDOW | PREVENTED_EVENT | TRUE_POSITIVE | FALSE_POSITIVE | FALSE_NEGATIVE
  | TRUE_NEGATIVE

definition classify_feedback :: "bool \<Rightarrow> bool \<Rightarrow> bool \<Rightarrow> bool \<Rightarrow> feedback_class" where
  "classify_feedback predicted_positive failure_occurred intervention_performed window_complete =
     (if \<not> window_complete then INSUFFICIENT_WINDOW
      else if predicted_positive \<and> intervention_performed \<and> \<not> failure_occurred then PREVENTED_EVENT
      else if predicted_positive then if failure_occurred then TRUE_POSITIVE else FALSE_POSITIVE
      else if failure_occurred then FALSE_NEGATIVE else TRUE_NEGATIVE)"

section \<open>Lemmas\<close>

lemma dependencies_ready_iff: "dependencies_ready items \<longleftrightarrow> (\<forall>(m, r) \<in> set items. m \<longrightarrow> r)"
  by (induction items rule: dependencies_ready.induct) auto

lemma resources_ready_iff: "resources_ready items \<longleftrightarrow> (\<forall>(m, r) \<in> set items. m \<longrightarrow> r)"
  by (induction items rule: resources_ready.induct) auto

lemma action_score_mono:
  assumes "p \<le> p'" "s \<le> s'" "u \<le> u'" "c \<le> c'" "e \<le> e'" "r \<le> r'"
  shows "action_score p s u c e r \<le> action_score p' s' u' c' e' r'"
  unfolding action_score_def using assms
  by (intro dadd_mono dmul_mono ddiv_mono) simp_all

lemma action_score_extremes:
  "action_score 0 1 (1/5) 0 0 (2/5) = 10"
  "action_score 1 5 1 1 1 1 = 100"
  by code_simp+

lemma urgency_bounds: "1/5 \<le> urgency h" "urgency h \<le> 1"
  by (auto simp: urgency_def split: option.splits)

lemma urgency_antimono: "d \<le> d' \<Longrightarrow> urgency (Some d') \<le> urgency (Some d)"
  by (auto simp: urgency_def)

section \<open>Order of the classes\<close>

fun priority_rank :: "priority_class \<Rightarrow> nat" where
  "priority_rank P_LOW = 0"
| "priority_rank P_MEDIUM = 1"
| "priority_rank P_HIGH = 2"
| "priority_rank P_CRITICAL = 3"

lemma priority_rank_inj: "priority_rank a = priority_rank b \<Longrightarrow> a = b"
  by (cases a; cases b) simp_all

instantiation priority_class :: linorder
begin

definition less_eq_priority_class :: "priority_class \<Rightarrow> priority_class \<Rightarrow> bool" where
  "less_eq_priority_class a b = (priority_rank a \<le> priority_rank b)"

definition less_priority_class :: "priority_class \<Rightarrow> priority_class \<Rightarrow> bool" where
  "less_priority_class a b = (priority_rank a < priority_rank b)"

instance
  by standard (auto simp: less_eq_priority_class_def less_priority_class_def priority_rank_inj)

end

lemma classify_priority_mono: "x \<le> y \<Longrightarrow> classify_priority x \<le> classify_priority y"
  by (auto simp: classify_priority_def less_eq_priority_class_def)

section \<open>Score of an input\<close>

definition input_score :: "action_priority_input \<Rightarrow> rat" where
  "input_score v =
     action_score (or_zero (ap_failure_probability v)) (ap_severity v) (urgency (ap_horizon_days v))
       (or_zero (ap_confidence v)) (min 1 (ddiv (or_zero (ap_exposure v)) 100000))
       (if ap_resource_ready v \<and> ap_dependencies_ready v then 1 else 2/5)"

definition no_more_pressing :: "action_priority_input \<Rightarrow> action_priority_input \<Rightarrow> bool" where
  "no_more_pressing v v' \<longleftrightarrow>
     or_zero (ap_failure_probability v) \<le> or_zero (ap_failure_probability v') \<and>
     ap_severity v \<le> ap_severity v' \<and>
     urgency (ap_horizon_days v) \<le> urgency (ap_horizon_days v') \<and>
     or_zero (ap_confidence v) \<le> or_zero (ap_confidence v') \<and>
     or_zero (ap_exposure v) \<le> or_zero (ap_exposure v') \<and>
     (ap_resource_ready v \<and> ap_dependencies_ready v \<longrightarrow>
        ap_resource_ready v' \<and> ap_dependencies_ready v')"

lemma input_score_mono:
  assumes "no_more_pressing v v'"
  shows "input_score v \<le> input_score v'"
proof -
  have "ddiv (or_zero (ap_exposure v)) 100000 \<le> ddiv (or_zero (ap_exposure v')) 100000"
    using assms by (intro ddiv_mono) (simp_all add: no_more_pressing_def)
  then show ?thesis
    using assms unfolding input_score_def
    by (intro action_score_mono) (auto simp: no_more_pressing_def)
qed

definition priority_input_ok :: "action_priority_input \<Rightarrow> bool" where
  "priority_input_ok v \<longleftrightarrow>
     0 \<le> or_zero (ap_failure_probability v) \<and> or_zero (ap_failure_probability v) \<le> 1 \<and>
     1 \<le> ap_severity v \<and> ap_severity v \<le> 5 \<and>
     0 \<le> or_zero (ap_confidence v) \<and> or_zero (ap_confidence v) \<le> 1 \<and>
     0 \<le> or_zero (ap_exposure v)"

lemma input_score_bounds:
  assumes "priority_input_ok v"
  shows "10 \<le> input_score v" "input_score v \<le> 100"
proof -
  have "action_score 0 1 (1/5) 0 0 (2/5) \<le> input_score v"
    unfolding input_score_def using assms urgency_bounds(1) [of "ap_horizon_days v"]
    by (intro action_score_mono) (auto simp: priority_input_ok_def intro: ddiv_nonneg)
  then show "10 \<le> input_score v" by (simp add: action_score_extremes)
  have "input_score v \<le> action_score 1 5 1 1 1 1"
    unfolding input_score_def using assms urgency_bounds(2) [of "ap_horizon_days v"]
    by (intro action_score_mono) (auto simp: priority_input_ok_def)
  then show "input_score v \<le> 100" by (simp add: action_score_extremes)
qed

lemma quantize_half_even_bounds:
  assumes "of_int a \<le> x" "x \<le> of_int b" "\<bar>a\<bar> * 10 ^ p < 10 ^ 28" "\<bar>b\<bar> * 10 ^ p < 10 ^ 28"
  shows "\<exists>y. quantize round_half_even p x = Some y \<and> of_int a \<le> y \<and> y \<le> of_int b"
proof -
  let ?i = "round_half_even (x * 10 ^ p)"
  have "of_int (a * 10 ^ p) \<le> x * 10 ^ p" "x * 10 ^ p \<le> of_int (b * 10 ^ p)"
    using assms(1,2) by simp_all
  then have i: "a * 10 ^ p \<le> ?i" "?i \<le> b * 10 ^ p"
    using round_half_even_mono round_half_even_int by metis+
  then have "of_int (a * 10 ^ p) \<le> (of_int ?i :: rat)" "(of_int ?i :: rat) \<le> of_int (b * 10 ^ p)"
    by (simp_all only: of_int_le_iff)
  then have "of_int a \<le> (of_int ?i :: rat) / 10 ^ p" "(of_int ?i :: rat) / 10 ^ p \<le> of_int b"
    by (simp_all add: pos_le_divide_eq pos_divide_le_eq)
  moreover have "\<bar>?i\<bar> < 10 ^ 28"
  proof -
    have "- \<bar>a\<bar> * 10 ^ p \<le> a * 10 ^ p" "b * 10 ^ p \<le> \<bar>b\<bar> * 10 ^ p"
      by (intro mult_right_mono; simp)+
    then show ?thesis using i assms(3,4) by (simp only: abs_less_iff mult_minus_left) linarith
  qed
  ultimately show ?thesis by (simp add: quantize_def Let_def ctx_precision_def)
qed

lemma calculate_priority_score:
  assumes "priority_input_ok v"
  shows "\<exists>r. calculate_priority v = Some r \<and> quantize round_half_even 2 (input_score v) = Some (apr_score r) \<and>
    10 \<le> apr_score r \<and> apr_score r \<le> 100 \<and> apr_class r = classify_priority (apr_score r) \<and>
    apr_limitations r = priority_limitations v"
proof -
  obtain y where "quantize round_half_even 2 (input_score v) = Some y" "10 \<le> y" "y \<le> 100"
    using quantize_half_even_bounds [of 10 "input_score v" 100 2] input_score_bounds [OF assms]
    by auto
  then show ?thesis
    by (simp add: calculate_priority_def Let_def input_score_def)
qed

end
