(* ===== verification/Actions.thy ===== *)
theory Actions
  imports Action_Engine Py_Text
begin

text \<open>
  Operational actions (\<open>app/models/actions.py\<close>, \<open>app/services/action_service.py\<close>): an action is
  proposed, approved, carried out and verified; plan steps, dependencies, resources, evidence,
  outcomes and model feedback hang off it, and every change of status leaves an event.

  The rows the service only looks up (reliability and forecast executions, findings,
  orchestration requests, active memberships) appear as the pairs of columns it reads. Rows
  that nothing refers to are listed without their surrogate key. What lies outside the
  repository is a parameter: the SHA-256 digest behind the idempotency fingerprint, and the
  rounding of a numeric column to its scale by the database.
\<close>

section \<open>Rows\<close>

datatype approval_status = AS_REQUIRED | AS_NOT_REQUIRED | AS_PENDING | AS_APPROVED | AS_REJECTED

record operational_action =
  oa_id :: uuid
  oa_org :: uuid
  oa_source_type :: string
  oa_source_reference :: string
  oa_reliability :: "uuid option"
  oa_finding :: "uuid option"
  oa_forecast :: "uuid option"
  oa_orchestration :: "uuid option"
  oa_recommendation_type :: string
  oa_rule_version :: string
  oa_title :: string
  oa_description :: string
  oa_rationale :: string
  oa_asset :: "string option"
  oa_component :: "string option"
  oa_failure_mode :: "string option"
  oa_priority :: priority_class
  oa_priority_score :: rat
  oa_priority_components :: "rat list"
  oa_status :: action_status
  oa_approval_required :: bool
  oa_approval_level :: string
  oa_approval_role :: string
  oa_approval_status :: approval_status
  oa_assigned_user :: "uuid option"
  oa_assigned_role :: "string option"
  oa_assigned_team :: "string option"
  oa_verification_required :: bool
  oa_verification_owner :: "uuid option"
  oa_due_at :: "timestamp option"
  oa_scheduled_start :: "timestamp option"
  oa_scheduled_finish :: "timestamp option"
  oa_completed_at :: "timestamp option"
  oa_verified_at :: "timestamp option"
  oa_avoided_cost :: "rat option"
  oa_intervention_cost :: "rat option"
  oa_currency :: "string option"
  oa_confidence :: "rat option"
  oa_limitations :: "string list"
  oa_evidence_references :: "json list"
  oa_fingerprint :: string
  oa_created_by :: uuid

record action_plan_step =
  ps_org :: uuid
  ps_action :: uuid
  ps_sequence :: int
  ps_title :: string
  ps_description :: string
  ps_skill :: "string option"
  ps_labor_category :: "string option"
  ps_labor_hours :: "rat option"
  ps_tools :: "string list"
  ps_permits :: "string list"
  ps_work_order :: "string option"
  ps_external_system :: "string option"
  ps_status :: string

datatype dependency_status = DEP_UNRESOLVED | DEP_RESOLVED

record action_dependency =
  de_org :: uuid
  de_action :: uuid
  de_prerequisite :: uuid
  de_type :: string
  de_mandatory :: bool
  de_status :: dependency_status
  de_blocking_reason :: "string option"
  de_resolved_at :: "timestamp option"

datatype inventory_status = INV_CONFIRMED | INV_UNKNOWN

record action_resource =
  re_org :: uuid
  re_action :: uuid
  re_type :: string
  re_identifier :: string
  re_description :: string
  re_required :: rat
  re_available :: "rat option"
  re_mandatory :: bool
  re_inventory :: inventory_status
  re_source_system :: "string option"
  re_required_by :: "timestamp option"
  re_shortage :: bool
  re_limitation :: "string option"

datatype action_event_type = EV_CREATED | EV_TRANSITION | EV_ASSIGNMENT

record action_event =
  ev_org :: uuid
  ev_action :: uuid
  ev_type :: action_event_type
  ev_prior :: "action_status option"
  ev_new :: "action_status option"
  ev_actor :: uuid
  ev_role :: string
  ev_reason :: string
  ev_note :: "string option"
  ev_key :: string

record action_evidence =
  ae_org :: uuid
  ae_action :: uuid
  ae_stage :: string
  ae_type :: string
  ae_source_type :: string
  ae_source_identifier :: string
  ae_document :: "string option"
  ae_value :: "rat option"
  ae_unit :: "string option"
  ae_observed_at :: "timestamp option"
  ae_actor :: uuid
  ae_notes :: "string option"
  ae_metadata :: json
  ae_integrity :: "string option"

datatype outcome_type = EXPECTED_OUTCOME | REALIZED_OUTCOME

record action_outcome =
  ou_org :: uuid
  ou_action :: uuid
  ou_type :: outcome_type
  ou_avoided_cost :: "rat option"
  ou_intervention_cost :: "rat option"
  ou_downtime_avoided :: "rat option"
  ou_production_preserved :: "rat option"
  ou_risk_reduction :: "rat option"
  ou_currency :: "string option"
  ou_confidence :: "rat option"
  ou_method :: string
  ou_verification_method :: "string option"
  ou_verified_by :: "uuid option"
  ou_verified_at :: "timestamp option"
  ou_assumptions :: "string list"
  ou_limitations :: "string list"

record action_feedback =
  fb_org :: uuid
  fb_action :: uuid
  fb_reliability :: uuid
  fb_class :: feedback_class
  fb_intervention_performed :: bool
  fb_failure_occurred :: bool
  fb_failure_at :: "timestamp option"
  fb_risk_reduced :: "bool option"
  fb_probability :: "rat option"
  fb_horizon_days :: "int option"
  fb_time_to_event :: "rat option"
  fb_accepted :: bool
  fb_executed :: bool
  fb_calibration :: json
  fb_review_status :: string
  fb_notes :: "string option"

record action_db =
  reliability_rows :: "(uuid \<times> uuid) list"
  finding_rows :: "(uuid \<times> uuid) list"
  forecast_rows :: "(uuid \<times> uuid) list"
  orchestration_rows :: "(uuid \<times> uuid) list"
  active_members :: "(uuid \<times> uuid) list"
  actions :: "operational_action list"
  plan_steps :: "action_plan_step list"
  dependencies :: "action_dependency list"
  resources :: "action_resource list"
  action_events :: "action_event list"
  action_evidence_rows :: "action_evidence list"
  action_outcomes :: "action_outcome list"
  action_feedback_rows :: "action_feedback list"

section \<open>Constraints\<close>

definition references :: "(uuid \<times> uuid) list \<Rightarrow> uuid \<Rightarrow> uuid option \<Rightarrow> bool" where
  "references rows org i = (case i of None \<Rightarrow> True | Some x \<Rightarrow> (x, org) \<in> set rows)"

definition action_keys :: "'a action_db_scheme \<Rightarrow> (uuid \<times> uuid) set" where
  "action_keys db = (\<lambda>a. (oa_org a, oa_id a)) ` set (actions db)"

definition actions_ok :: "'a action_db_scheme \<Rightarrow> bool" where
  "actions_ok db \<longleftrightarrow>
     unique_on oa_id (actions db) \<and>
     unique_on (\<lambda>a. (oa_org a, oa_fingerprint a)) (actions db) \<and>
     list_all (\<lambda>a. references (reliability_rows db) (oa_org a) (oa_reliability a) \<and>
                   references (forecast_rows db) (oa_org a) (oa_forecast a) \<and>
                   references (orchestration_rows db) (oa_org a) (oa_orchestration a) \<and>
                   (case oa_finding a of None \<Rightarrow> True | Some f \<Rightarrow> f \<in> fst ` set (finding_rows db)))
       (actions db)"

definition plan_steps_ok :: "'a action_db_scheme \<Rightarrow> bool" where
  "plan_steps_ok db \<longleftrightarrow>
     unique_on (\<lambda>s. (ps_action s, ps_sequence s)) (plan_steps db) \<and>
     list_all (\<lambda>s. (ps_org s, ps_action s) \<in> action_keys db) (plan_steps db)"

definition dependencies_ok :: "'a action_db_scheme \<Rightarrow> bool" where
  "dependencies_ok db \<longleftrightarrow>
     unique_on (\<lambda>d. (de_action d, de_prerequisite d)) (dependencies db) \<and>
     list_all (\<lambda>d. de_action d \<noteq> de_prerequisite d \<and> (de_org d, de_action d) \<in> action_keys db \<and>
                   (de_org d, de_prerequisite d) \<in> action_keys db) (dependencies db)"

definition resources_ok :: "'a action_db_scheme \<Rightarrow> bool" where
  "resources_ok db \<longleftrightarrow> list_all (\<lambda>r. (re_org r, re_action r) \<in> action_keys db) (resources db)"

definition events_ok :: "'a action_db_scheme \<Rightarrow> bool" where
  "events_ok db \<longleftrightarrow>
     unique_on (\<lambda>e. (ev_action e, ev_key e)) (action_events db) \<and>
     list_all (\<lambda>e. (ev_org e, ev_action e) \<in> action_keys db) (action_events db)"

definition evidence_ok :: "'a action_db_scheme \<Rightarrow> bool" where
  "evidence_ok db \<longleftrightarrow>
     list_all (\<lambda>e. (ae_org e, ae_action e) \<in> action_keys db) (action_evidence_rows db)"

definition outcomes_ok :: "'a action_db_scheme \<Rightarrow> bool" where
  "outcomes_ok db \<longleftrightarrow>
     unique_on (\<lambda>r. (ou_action r, ou_type r)) (action_outcomes db) \<and>
     list_all (\<lambda>r. (ou_org r, ou_action r) \<in> action_keys db) (action_outcomes db)"

definition feedback_ok :: "'a action_db_scheme \<Rightarrow> bool" where
  "feedback_ok db \<longleftrightarrow>
     unique_on (\<lambda>r. (fb_action r, fb_reliability r)) (action_feedback_rows db) \<and>
     list_all (\<lambda>r. (fb_org r, fb_action r) \<in> action_keys db \<and>
                   (fb_reliability r, fb_org r) \<in> set (reliability_rows db)) (action_feedback_rows db)"

definition action_constraints :: "'a action_db_scheme \<Rightarrow> bool" where
  "action_constraints db \<longleftrightarrow>
     actions_ok db \<and> plan_steps_ok db \<and> dependencies_ok db \<and> resources_ok db \<and> events_ok db \<and>
     evidence_ok db \<and> outcomes_ok db \<and> feedback_ok db"

datatype action_error =
    ActionSourceNotFound
  | ActionNotFound
  | ActionEngineError action_engine_error
  | ApprovalForbidden
  | DependencyBlocked
  | ResourceBlocked
  | VerificationEvidenceRequired
  | AssigneeNotFound
  | SelfDependency
  | DependencyCycle
  | RealizedValueNotEligible
  | FeedbackNotEligible
  | ActionDecimalError
  | ActionIntegrityError

datatype action_row =
    ActionRow operational_action | PlanStepRow action_plan_step | DependencyRow action_dependency
  | ResourceRow action_resource | EvidenceRow action_evidence | OutcomeRow action_outcome
  | FeedbackRow action_feedback

definition commit_action ::
    "'a action_db_scheme \<Rightarrow> action_row \<Rightarrow> action_error + 'a action_db_scheme \<times> action_row" where
  "commit_action db r = bindE (require (action_constraints db) ActionIntegrityError) (\<lambda>_. Inr (db, r))"

section \<open>Creation\<close>

record action_payload =
  ac_source_type :: string
  ac_source_reference :: string
  ac_reliability :: "uuid option"
  ac_finding :: "uuid option"
  ac_forecast :: "uuid option"
  ac_orchestration :: "uuid option"
  ac_recommendation_type :: string
  ac_rule_version :: string
  ac_title :: string
  ac_description :: string
  ac_rationale :: string
  ac_asset :: "string option"
  ac_component :: "string option"
  ac_failure_mode :: "string option"
  ac_failure_probability :: "rat option"
  ac_horizon_days :: "int option"
  ac_severity :: int
  ac_confidence :: "rat option"
  ac_avoided_cost :: "rat option"
  ac_intervention_cost :: "rat option"
  ac_currency :: "string option"
  ac_due_at :: "timestamp option"
  ac_sensitive :: bool
  ac_verification_required :: bool
  ac_evidence_references :: "json list"
  ac_limitations :: "string list"

text \<open>
  What the model takes from outside: the digest of the identifying fields, and the value a
  numeric column of the given scale stores.
\<close>

record action_env =
  env_fingerprint :: "uuid \<Rightarrow> string \<Rightarrow> string \<Rightarrow> string \<Rightarrow> string \<Rightarrow> string"
  env_numeric :: "nat \<Rightarrow> rat \<Rightarrow> rat"

fun limitation_name :: "priority_limitation \<Rightarrow> string" where
  "limitation_name MISSING_FAILURE_PROBABILITY = ''MISSING_FAILURE_PROBABILITY''"
| "limitation_name MISSING_HORIZON = ''MISSING_HORIZON''"
| "limitation_name MISSING_CONFIDENCE = ''MISSING_CONFIDENCE''"
| "limitation_name MISSING_FINANCIAL_EXPOSURE = ''MISSING_FINANCIAL_EXPOSURE''"

definition validate_source ::
    "'a action_db_scheme \<Rightarrow> uuid \<Rightarrow> action_payload \<Rightarrow> action_error + unit" where
  "validate_source db org p =
     require (references (reliability_rows db) org (ac_reliability p) \<and>
              references (finding_rows db) org (ac_finding p) \<and>
              references (forecast_rows db) org (ac_forecast p) \<and>
              references (orchestration_rows db) org (ac_orchestration p)) ActionSourceNotFound"

definition payload_fingerprint :: "action_env \<Rightarrow> uuid \<Rightarrow> action_payload \<Rightarrow> string" where
  "payload_fingerprint env org p =
     env_fingerprint env org (ac_source_type p) (ac_source_reference p)
       (ac_recommendation_type p) (ac_rule_version p)"

definition payload_priority :: "action_payload \<Rightarrow> action_priority_input" where
  "payload_priority p =
     \<lparr>ap_failure_probability = ac_failure_probability p, ap_severity = ac_severity p,
      ap_horizon_days = ac_horizon_days p, ap_confidence = ac_confidence p,
      ap_exposure = ac_avoided_cost p, ap_resource_ready = False, ap_dependencies_ready = False\<rparr>"

definition new_action ::
    "action_env \<Rightarrow> uuid \<Rightarrow> uuid \<Rightarrow> action_payload \<Rightarrow> action_priority \<Rightarrow> approval_result \<Rightarrow> uuid \<Rightarrow>
     operational_action" where
  "new_action env org new_id p pr ap actor =
     \<lparr>oa_id = new_id, oa_org = org, oa_source_type = ac_source_type p,
      oa_source_reference = ac_source_reference p, oa_reliability = ac_reliability p,
      oa_finding = ac_finding p, oa_forecast = ac_forecast p,
      oa_orchestration = ac_orchestration p, oa_recommendation_type = ac_recommendation_type p,
      oa_rule_version = ac_rule_version p, oa_title = ac_title p,
      oa_description = ac_description p, oa_rationale = ac_rationale p, oa_asset = ac_asset p,
      oa_component = ac_component p, oa_failure_mode = ac_failure_mode p,
      oa_priority = apr_class pr, oa_priority_score = env_numeric env 2 (apr_score pr),
      oa_priority_components = apr_components pr, oa_status = A_PROPOSED,
      oa_approval_required = ar_required ap, oa_approval_level = ar_level ap,
      oa_approval_role = ar_role ap,
      oa_approval_status = (if ar_required ap then AS_REQUIRED else AS_NOT_REQUIRED),
      oa_assigned_user = None, oa_assigned_role = None, oa_assigned_team = None,
      oa_verification_required = ac_verification_required p, oa_verification_owner = None,
      oa_due_at = ac_due_at p, oa_scheduled_start = None, oa_scheduled_finish = None,
      oa_completed_at = None, oa_verified_at = None,
      oa_avoided_cost = map_option (env_numeric env 12) (ac_avoided_cost p),
      oa_intervention_cost = map_option (env_numeric env 12) (ac_intervention_cost p),
      oa_currency = ac_currency p, oa_confidence = map_option (env_numeric env 5) (ac_confidence p),
      oa_limitations = ac_limitations p @ map limitation_name (apr_limitations pr),
      oa_evidence_references = ac_evidence_references p,
      oa_fingerprint = payload_fingerprint env org p, oa_created_by = actor\<rparr>"

definition action_event_for ::
    "operational_action \<Rightarrow> action_event_type \<Rightarrow> uuid \<Rightarrow> string \<Rightarrow> string \<Rightarrow> string \<Rightarrow>
     action_status option \<Rightarrow> action_status option \<Rightarrow> string option \<Rightarrow> action_event" where
  "action_event_for a t actor role reason key prior new note =
     \<lparr>ev_org = oa_org a, ev_action = oa_id a, ev_type = t, ev_prior = prior, ev_new = new,
      ev_actor = actor, ev_role = role, ev_reason = reason, ev_note = note, ev_key = key\<rparr>"

definition action_create ::
    "action_env \<Rightarrow> 'a action_db_scheme \<Rightarrow> uuid \<Rightarrow> uuid \<Rightarrow> action_payload \<Rightarrow> uuid \<Rightarrow>
     action_error + 'a action_db_scheme \<times> action_row" where
  "action_create env db org new_id p actor =
     bindE (validate_source db org p) (\<lambda>_.
     let fingerprint = payload_fingerprint env org p
     in case find (\<lambda>a. oa_org a = org \<and> oa_fingerprint a = fingerprint) (actions db) of
          Some existing \<Rightarrow> Inr (db, ActionRow existing)
        | None \<Rightarrow>
            bindE (of_option ActionDecimalError (calculate_priority (payload_priority p))) (\<lambda>pr.
            let ap = calculate_approval (or_zero (ac_intervention_cost p)) (or_zero (ac_avoided_cost p))
                       (or_zero (ac_confidence p)) (ac_sensitive p);
                a = new_action env org new_id p pr ap actor;
                e = action_event_for a EV_CREATED actor ''system'' ''ACTION_CREATED'' fingerprint
                      None None None
            in commit_action (db\<lparr>actions := actions db @ [a], action_events := action_events db @ [e]\<rparr>)
                 (ActionRow a)))"

definition action_get :: "'a action_db_scheme \<Rightarrow> uuid \<Rightarrow> uuid \<Rightarrow> action_error + operational_action" where
  "action_get db org i = tenant_get oa_id oa_org ActionNotFound (actions db) org i"

section \<open>Transitions\<close>

record action_transition_payload =
  at_status :: action_status
  at_reason :: string
  at_note :: "string option"
  at_key :: string

definition admin_roles :: "string list" where
  "admin_roles = [''organization_admin'', ''platform_admin'']"

definition dependency_pairs :: "'a action_db_scheme \<Rightarrow> uuid \<Rightarrow> (bool \<times> bool) list" where
  "dependency_pairs db i =
     map (\<lambda>d. (de_mandatory d, de_status d = DEP_RESOLVED))
       (filter (\<lambda>d. de_action d = i) (dependencies db))"

definition resource_pairs :: "'a action_db_scheme \<Rightarrow> uuid \<Rightarrow> (bool \<times> bool) list" where
  "resource_pairs db i =
     map (\<lambda>r. (re_mandatory r, \<not> re_shortage r \<and> re_inventory r = INV_CONFIRMED))
       (filter (\<lambda>r. re_action r = i) (resources db))"

definition verification_evidence :: "'a action_db_scheme \<Rightarrow> uuid \<Rightarrow> nat" where
  "verification_evidence db i =
     length (filter (\<lambda>e. ae_action e = i \<and> ae_stage e = ''verification'') (action_evidence_rows db))"

definition approval_after :: "action_status \<Rightarrow> approval_status \<Rightarrow> approval_status" where
  "approval_after new s =
     (if new = A_PENDING_APPROVAL then AS_PENDING
      else if new = A_APPROVED then AS_APPROVED
      else if new = A_REJECTED then AS_REJECTED else s)"

definition moved_action :: "timestamp \<Rightarrow> action_status \<Rightarrow> operational_action \<Rightarrow> operational_action" where
  "moved_action now new a =
     (let a1 = a\<lparr>oa_approval_status := approval_after new (oa_approval_status a), oa_status := new\<rparr>
      in if new = A_COMPLETED then a1\<lparr>oa_completed_at := Some now\<rparr>
         else if new = A_VERIFIED then a1\<lparr>oa_verified_at := Some now\<rparr> else a1)"

definition put_action :: "operational_action \<Rightarrow> 'a action_db_scheme \<Rightarrow> 'a action_db_scheme" where
  "put_action a db = db\<lparr>actions := put_row oa_id a (actions db)\<rparr>"

definition action_transition ::
    "'a action_db_scheme \<Rightarrow> uuid \<Rightarrow> uuid \<Rightarrow> action_transition_payload \<Rightarrow> uuid \<Rightarrow> string \<Rightarrow> timestamp \<Rightarrow>
     action_error + 'a action_db_scheme \<times> action_row" where
  "action_transition db org i p actor role now =
     bindE (action_get db org i) (\<lambda>a.
     if find (\<lambda>e. ev_action e = oa_id a \<and> ev_key e = at_key p) (action_events db) \<noteq> None
     then Inr (db, ActionRow a)
     else
       bindE (case require_action_transition (oa_status a) (at_status p) of
                Inl e \<Rightarrow> Inl (ActionEngineError e) | Inr u \<Rightarrow> Inr u) (\<lambda>_.
       bindE (require (\<not> (at_status p = A_APPROVED \<and> oa_approval_required a \<and>
                        role \<notin> set admin_roles)) ApprovalForbidden) (\<lambda>_.
       bindE (if at_status p = A_COMPLETED
              then bindE (require (dependencies_ready (dependency_pairs db (oa_id a))) DependencyBlocked)
                     (\<lambda>_. require (resources_ready (resource_pairs db (oa_id a))) ResourceBlocked)
              else Inr ()) (\<lambda>_.
       bindE (require (at_status p = A_VERIFIED \<longrightarrow> 0 < verification_evidence db (oa_id a))
                VerificationEvidenceRequired) (\<lambda>_.
       let a' = moved_action now (at_status p) a;
           e = action_event_for a EV_TRANSITION actor role (at_reason p) (at_key p)
                 (Some (oa_status a)) (Some (at_status p)) (at_note p);
           db1 = put_action a' db
       in commit_action (db1\<lparr>action_events := action_events db1 @ [e]\<rparr>) (ActionRow a'))))))"

section \<open>Assignment\<close>

record assignment_payload =
  as_user :: "uuid option"
  as_role :: "string option"
  as_team :: "string option"
  as_due_at :: "timestamp option"
  as_key :: string

definition action_assign ::
    "'a action_db_scheme \<Rightarrow> uuid \<Rightarrow> uuid \<Rightarrow> assignment_payload \<Rightarrow> uuid \<Rightarrow> string \<Rightarrow>
     action_error + 'a action_db_scheme \<times> action_row" where
  "action_assign db org i p actor role =
     bindE (action_get db org i) (\<lambda>a.
     bindE (require (case as_user p of None \<Rightarrow> True | Some u \<Rightarrow> (org, u) \<in> set (active_members db))
              AssigneeNotFound) (\<lambda>_.
     let a' = a\<lparr>oa_assigned_user := as_user p, oa_assigned_role := as_role p,
                oa_assigned_team := as_team p,
                oa_due_at := (case as_due_at p of None \<Rightarrow> oa_due_at a | Some d \<Rightarrow> Some d)\<rparr>;
         e = action_event_for a EV_ASSIGNMENT actor role ''ACTION_ASSIGNED'' (as_key p) None None None;
         db1 = put_action a' db
     in commit_action (db1\<lparr>action_events := action_events db1 @ [e]\<rparr>) (ActionRow a')))"

section \<open>Plan, dependencies, resources, evidence\<close>

record plan_step_payload =
  pp_sequence :: int
  pp_title :: string
  pp_description :: string
  pp_skill :: "string option"
  pp_labor_category :: "string option"
  pp_labor_hours :: "rat option"
  pp_tools :: "string list"
  pp_permits :: "string list"
  pp_work_order :: "string option"
  pp_external_system :: "string option"

definition action_add_plan_step ::
    "action_env \<Rightarrow> 'a action_db_scheme \<Rightarrow> uuid \<Rightarrow> uuid \<Rightarrow> plan_step_payload \<Rightarrow>
     action_error + 'a action_db_scheme \<times> action_row" where
  "action_add_plan_step env db org i p =
     bindE (action_get db org i) (\<lambda>_.
     let s = \<lparr>ps_org = org, ps_action = i, ps_sequence = pp_sequence p, ps_title = pp_title p,
              ps_description = pp_description p, ps_skill = pp_skill p,
              ps_labor_category = pp_labor_category p,
              ps_labor_hours = map_option (env_numeric env 4) (pp_labor_hours p),
              ps_tools = pp_tools p, ps_permits = pp_permits p, ps_work_order = pp_work_order p,
              ps_external_system = pp_external_system p, ps_status = ''planned''\<rparr>
     in commit_action (db\<lparr>plan_steps := plan_steps db @ [s]\<rparr>) (PlanStepRow s))"

record dependency_payload =
  dp_prerequisite :: uuid
  dp_type :: string
  dp_mandatory :: bool
  dp_blocking_reason :: "string option"

definition action_add_dependency ::
    "'a action_db_scheme \<Rightarrow> uuid \<Rightarrow> uuid \<Rightarrow> dependency_payload \<Rightarrow>
     action_error + 'a action_db_scheme \<times> action_row" where
  "action_add_dependency db org i p =
     bindE (action_get db org i) (\<lambda>_.
     bindE (action_get db org (dp_prerequisite p)) (\<lambda>_.
     bindE (require (i \<noteq> dp_prerequisite p) SelfDependency) (\<lambda>_.
     bindE (require (find (\<lambda>d. de_action d = dp_prerequisite p \<and> de_prerequisite d = i)
                       (dependencies db) = None) DependencyCycle) (\<lambda>_.
     let d = \<lparr>de_org = org, de_action = i, de_prerequisite = dp_prerequisite p, de_type = dp_type p,
              de_mandatory = dp_mandatory p, de_status = DEP_UNRESOLVED,
              de_blocking_reason = dp_blocking_reason p, de_resolved_at = None\<rparr>
     in commit_action (db\<lparr>dependencies := dependencies db @ [d]\<rparr>) (DependencyRow d)))))"

record resource_payload =
  rp_type :: string
  rp_identifier :: string
  rp_description :: string
  rp_required :: rat
  rp_available :: "rat option"
  rp_mandatory :: bool
  rp_source_system :: "string option"
  rp_required_by :: "timestamp option"
  rp_limitation :: "string option"

definition action_add_resource ::
    "action_env \<Rightarrow> 'a action_db_scheme \<Rightarrow> uuid \<Rightarrow> uuid \<Rightarrow> resource_payload \<Rightarrow>
     action_error + 'a action_db_scheme \<times> action_row" where
  "action_add_resource env db org i p =
     bindE (action_get db org i) (\<lambda>_.
     let r = \<lparr>re_org = org, re_action = i, re_type = rp_type p, re_identifier = rp_identifier p,
              re_description = rp_description p, re_required = env_numeric env 6 (rp_required p),
              re_available = map_option (env_numeric env 6) (rp_available p),
              re_mandatory = rp_mandatory p,
              re_inventory = (if rp_available p \<noteq> None then INV_CONFIRMED else INV_UNKNOWN),
              re_source_system = rp_source_system p, re_required_by = rp_required_by p,
              re_shortage = (case rp_available p of None \<Rightarrow> False | Some q \<Rightarrow> q < rp_required p),
              re_limitation = rp_limitation p\<rparr>
     in commit_action (db\<lparr>resources := resources db @ [r]\<rparr>) (ResourceRow r))"

record evidence_payload =
  ep_stage :: string
  ep_type :: string
  ep_source_type :: string
  ep_source_identifier :: string
  ep_document :: "string option"
  ep_value :: "rat option"
  ep_unit :: "string option"
  ep_observed_at :: "timestamp option"
  ep_notes :: "string option"
  ep_metadata :: json
  ep_integrity :: "string option"

definition action_add_evidence ::
    "action_env \<Rightarrow> 'a action_db_scheme \<Rightarrow> uuid \<Rightarrow> uuid \<Rightarrow> evidence_payload \<Rightarrow> uuid \<Rightarrow>
     action_error + 'a action_db_scheme \<times> action_row" where
  "action_add_evidence env db org i p actor =
     bindE (action_get db org i) (\<lambda>_.
     let e = \<lparr>ae_org = org, ae_action = i, ae_stage = ep_stage p, ae_type = ep_type p,
              ae_source_type = ep_source_type p, ae_source_identifier = ep_source_identifier p,
              ae_document = ep_document p, ae_value = map_option (env_numeric env 12) (ep_value p),
              ae_unit = ep_unit p, ae_observed_at = ep_observed_at p, ae_actor = actor,
              ae_notes = ep_notes p, ae_metadata = ep_metadata p, ae_integrity = ep_integrity p\<rparr>
     in commit_action (db\<lparr>action_evidence_rows := action_evidence_rows db @ [e]\<rparr>) (EvidenceRow e))"

section \<open>Outcomes and feedback\<close>

record outcome_payload =
  op_type :: outcome_type
  op_avoided_cost :: "rat option"
  op_intervention_cost :: "rat option"
  op_downtime_avoided :: "rat option"
  op_production_preserved :: "rat option"
  op_risk_reduction :: "rat option"
  op_currency :: "string option"
  op_confidence :: "rat option"
  op_method :: string
  op_verification_method :: "string option"
  op_assumptions :: "string list"
  op_limits :: "string list"

definition action_record_outcome ::
    "action_env \<Rightarrow> 'a action_db_scheme \<Rightarrow> uuid \<Rightarrow> uuid \<Rightarrow> outcome_payload \<Rightarrow> uuid \<Rightarrow> timestamp \<Rightarrow>
     action_error + 'a action_db_scheme \<times> action_row" where
  "action_record_outcome env db org i p actor now =
     bindE (action_get db org i) (\<lambda>a.
     bindE (require (op_type p = REALIZED_OUTCOME \<longrightarrow>
                     realized_value_eligible (oa_status a) (verification_evidence db (oa_id a)))
              RealizedValueNotEligible) (\<lambda>_.
     let realized = (op_type p = REALIZED_OUTCOME);
         r = \<lparr>ou_org = org, ou_action = i, ou_type = op_type p,
              ou_avoided_cost = map_option (env_numeric env 12) (op_avoided_cost p),
              ou_intervention_cost = map_option (env_numeric env 12) (op_intervention_cost p),
              ou_downtime_avoided = map_option (env_numeric env 12) (op_downtime_avoided p),
              ou_production_preserved = map_option (env_numeric env 12) (op_production_preserved p),
              ou_risk_reduction = map_option (env_numeric env 5) (op_risk_reduction p),
              ou_currency = op_currency p,
              ou_confidence = map_option (env_numeric env 5) (op_confidence p),
              ou_method = op_method p, ou_verification_method = op_verification_method p,
              ou_verified_by = (if realized then Some actor else None),
              ou_verified_at = (if realized then Some now else None),
              ou_assumptions = op_assumptions p, ou_limitations = op_limits p\<rparr>
     in commit_action (db\<lparr>action_outcomes := action_outcomes db @ [r]\<rparr>) (OutcomeRow r)))"

record feedback_payload =
  fp_failure_occurred :: bool
  fp_failure_at :: "timestamp option"
  fp_intervention_performed :: bool
  fp_risk_reduced :: "bool option"
  fp_predicted_positive :: bool
  fp_window_complete :: bool
  fp_probability :: "rat option"
  fp_horizon_days :: "int option"
  fp_time_to_event :: "rat option"
  fp_accepted :: bool
  fp_executed :: bool
  fp_calibration :: json
  fp_review_status :: string
  fp_notes :: "string option"

definition action_record_feedback ::
    "action_env \<Rightarrow> 'a action_db_scheme \<Rightarrow> uuid \<Rightarrow> uuid \<Rightarrow> feedback_payload \<Rightarrow>
     action_error + 'a action_db_scheme \<times> action_row" where
  "action_record_feedback env db org i p =
     bindE (action_get db org i) (\<lambda>a.
     bindE (require (oa_status a = A_VERIFIED) FeedbackNotEligible) (\<lambda>_.
     bindE (of_option FeedbackNotEligible (oa_reliability a)) (\<lambda>execution.
     let f = \<lparr>fb_org = org, fb_action = i, fb_reliability = execution,
              fb_class = classify_feedback (fp_predicted_positive p) (fp_failure_occurred p)
                           (fp_intervention_performed p) (fp_window_complete p),
              fb_intervention_performed = fp_intervention_performed p,
              fb_failure_occurred = fp_failure_occurred p, fb_failure_at = fp_failure_at p,
              fb_risk_reduced = fp_risk_reduced p,
              fb_probability = map_option (env_numeric env 6) (fp_probability p),
              fb_horizon_days = fp_horizon_days p,
              fb_time_to_event = map_option (env_numeric env 4) (fp_time_to_event p),
              fb_accepted = fp_accepted p, fb_executed = fp_executed p,
              fb_calibration = fp_calibration p, fb_review_status = fp_review_status p,
              fb_notes = fp_notes p\<rparr>
     in commit_action (db\<lparr>action_feedback_rows := action_feedback_rows db @ [f]\<rparr>) (FeedbackRow f))))"

section \<open>Requests\<close>

datatype action_op =
    CreateAction uuid uuid action_payload uuid
  | TransitionAction uuid uuid action_transition_payload uuid string timestamp
  | AssignAction uuid uuid assignment_payload uuid string
  | AddPlanStep uuid uuid plan_step_payload
  | AddDependency uuid uuid dependency_payload
  | AddResource uuid uuid resource_payload
  | AddEvidence uuid uuid evidence_payload uuid
  | RecordOutcome uuid uuid outcome_payload uuid timestamp
  | RecordFeedback uuid uuid feedback_payload

fun action_op_org :: "action_op \<Rightarrow> uuid" where
  "action_op_org (CreateAction org _ _ _) = org"
| "action_op_org (TransitionAction org _ _ _ _ _) = org"
| "action_op_org (AssignAction org _ _ _ _) = org"
| "action_op_org (AddPlanStep org _ _) = org"
| "action_op_org (AddDependency org _ _) = org"
| "action_op_org (AddResource org _ _) = org"
| "action_op_org (AddEvidence org _ _ _) = org"
| "action_op_org (RecordOutcome org _ _ _ _) = org"
| "action_op_org (RecordFeedback org _ _) = org"

fun action_step ::
    "action_env \<Rightarrow> action_op \<Rightarrow> 'a action_db_scheme \<Rightarrow>
     action_error + 'a action_db_scheme \<times> action_row" where
  "action_step env (CreateAction org i p actor) db = action_create env db org i p actor"
| "action_step env (TransitionAction org i p actor role now) db =
     action_transition db org i p actor role now"
| "action_step env (AssignAction org i p actor role) db = action_assign db org i p actor role"
| "action_step env (AddPlanStep org i p) db = action_add_plan_step env db org i p"
| "action_step env (AddDependency org i p) db = action_add_dependency db org i p"
| "action_step env (AddResource org i p) db = action_add_resource env db org i p"
| "action_step env (AddEvidence org i p actor) db = action_add_evidence env db org i p actor"
| "action_step env (RecordOutcome org i p actor now) db = action_record_outcome env db org i p actor now"
| "action_step env (RecordFeedback org i p) db = action_record_feedback env db org i p"

end
