(* ===== verification/Economics.thy ===== *)
theory Economics
  imports Economics_Engine Actions
begin

text \<open>
  The economics service (\<open>app/models/economics.py\<close>, \<open>app/services/economics_service.py\<close>):
  recovery opportunities with their scenarios, versioned assumptions, calculations,
  prioritizations, overlap allocations and decisions; an approval freezes a baseline. The
  database extends that of the actions, which opportunities link to.

  As for actions, rows nothing refers to have no surrogate key, and \<open>env_numeric\<close> is the
  rounding of numeric columns. The snapshot of a baseline holds values where the code stores
  their decimal strings; the free-form payload of audit events is left out. Audit keys are
  built from distinct prefixes that contain no separator, so a constructor per prefix tells
  apart exactly what the strings do. The limitations of an opportunity are a JSON column that
  an update may set to JSON null, the value None.
\<close>

section \<open>Rows\<close>

record recovery_opportunity =
  ro_id :: uuid
  ro_org :: uuid
  ro_code :: string
  ro_key :: string
  ro_source_key :: string
  ro_title :: string
  ro_description :: string
  ro_domain :: "string option"
  ro_site :: "string option"
  ro_pack :: "string option"
  ro_capability :: "string option"
  ro_owner :: "uuid option"
  ro_status :: opportunity_status
  ro_priority :: "priority_category option"
  ro_scenario :: "uuid option"
  ro_baseline_version :: "int option"
  ro_currency :: string
  ro_limitations :: "string list option"
  ro_created_by :: uuid

record opportunity_finding =
  lf_org :: uuid
  lf_opportunity :: uuid
  lf_finding :: uuid
  lf_allocation :: rat
  lf_relationship :: string
  lf_created_by :: uuid

record opportunity_action =
  la_org :: uuid
  la_opportunity :: uuid
  la_action :: uuid
  la_relationship :: string
  la_created_by :: uuid

record economic_scenario =
  es_id :: uuid
  es_org :: uuid
  es_opportunity :: uuid
  es_code :: string
  es_version :: int
  es_name :: string
  es_currency :: string
  es_lower :: rat
  es_gross :: rat
  es_upper :: rat
  es_addressability :: rat
  es_recoverability :: rat
  es_success :: rat
  es_cost :: rat
  es_period_days :: "int option"
  es_probability :: rat
  es_measurement_period :: "string option"
  es_exclusive_group :: "string option"
  es_assumptions :: "string list"
  es_active :: bool
  es_created_by :: uuid

record economic_assumption =
  ea_id :: uuid
  ea_org :: uuid
  ea_opportunity :: uuid
  ea_scenario :: "uuid option"
  ea_code :: string
  ea_version :: int
  ea_value :: rat
  ea_unit :: string
  ea_currency :: "string option"
  ea_source :: string
  ea_source_reference :: "string option"
  ea_evidence_reference :: "string option"
  ea_confidence :: rat
  ea_effective_at :: "timestamp option"
  ea_expires_at :: "timestamp option"
  ea_model_version :: string
  ea_superseded :: bool
  ea_entered_by :: uuid
  ea_approved_by :: "uuid option"

record economic_calculation =
  ec_id :: uuid
  ec_org :: uuid
  ec_opportunity :: uuid
  ec_scenario :: uuid
  ec_key :: string
  ec_currency :: string
  ec_gross :: rat
  ec_addressable :: rat
  ec_recoverable :: rat
  ec_adjusted :: rat
  ec_cost :: rat
  ec_net :: rat
  ec_roi :: "rat option"
  ec_payback :: "rat option"
  ec_policy :: zero_cost_policy
  ec_scenario_version :: int
  ec_reason :: string
  ec_limitations :: "string list"
  ec_calculated_by :: uuid
  ec_calculated_at :: timestamp

record prioritization =
  pz_id :: uuid
  pz_org :: uuid
  pz_opportunity :: uuid
  pz_calculation :: uuid
  pz_key :: string
  pz_profile :: string
  pz_weights :: weights
  pz_factors :: weights
  pz_contributions :: weights
  pz_score :: rat
  pz_category :: priority_category
  pz_reason :: string
  pz_limitations :: "opportunity_limitation list"
  pz_sources :: "json list"
  pz_calculated_by :: uuid
  pz_calculated_at :: timestamp

record overlap_group =
  og_id :: uuid
  og_org :: uuid
  og_key :: string
  og_type :: string
  og_status :: string
  og_reason :: "string option"
  og_created_by :: uuid

record overlap_member =
  om_org :: uuid
  om_group :: uuid
  om_opportunity :: uuid
  om_parent :: "uuid option"
  om_allocation :: rat
  om_inclusion :: string

record opportunity_decision =
  od_org :: uuid
  od_opportunity :: uuid
  od_key :: string
  od_prior :: "opportunity_status option"
  od_decision :: opportunity_status
  od_reason :: string
  od_actor :: uuid
  od_role :: string
  od_scenario :: "uuid option"
  od_baseline_version :: "int option"
  od_conditions :: "string list"
  od_review_at :: "timestamp option"
  od_decided_at :: timestamp

datatype economic_event =
    EE_OPPORTUNITY_CREATED | EE_OPPORTUNITY_UPDATED | EE_FINDING_LINKED | EE_ACTION_LINKED
  | EE_SCENARIO_CREATED | EE_ASSUMPTION_CREATED | EE_CALCULATION_RUN | EE_PRIORITIZATION_RUN
  | EE_OVERLAP_REGISTERED | EE_DECISION_RECORDED

datatype economic_audit_key =
    AK_Created string | AK_Update uuid | AK_Finding uuid uuid | AK_Action uuid uuid
  | AK_Scenario string int | AK_Assumption string int | AK_Calculation string | AK_Priority string
  | AK_Overlap uuid uuid | AK_Decision string

record economic_audit =
  eu_org :: uuid
  eu_opportunity :: uuid
  eu_event :: economic_event
  eu_actor :: uuid
  eu_key :: economic_audit_key
  eu_reason :: string

record economic_snapshot =
  sn_gross :: rat
  sn_addressable :: rat
  sn_recoverable :: rat
  sn_adjusted :: rat
  sn_cost :: rat
  sn_net :: rat
  sn_roi :: "rat option"
  sn_score :: rat
  sn_category :: priority_category

record assumption_version =
  av_id :: uuid
  av_code :: string
  av_version :: int
  av_value :: rat
  av_unit :: string

record economic_baseline =
  bl_id :: uuid
  bl_org :: uuid
  bl_opportunity :: uuid
  bl_scenario :: uuid
  bl_calculation :: uuid
  bl_prioritization :: uuid
  bl_version :: int
  bl_key :: string
  bl_currency :: string
  bl_snapshot :: economic_snapshot
  bl_assumptions :: "assumption_version list"
  bl_approved_by :: uuid
  bl_approved_at :: timestamp

record economics_db = action_db +
  opportunities :: "recovery_opportunity list"
  finding_links :: "opportunity_finding list"
  action_links :: "opportunity_action list"
  scenarios :: "economic_scenario list"
  assumptions :: "economic_assumption list"
  calculations :: "economic_calculation list"
  prioritizations :: "prioritization list"
  overlap_groups :: "overlap_group list"
  overlap_members :: "overlap_member list"
  decisions :: "opportunity_decision list"
  economic_audits :: "economic_audit list"
  baselines :: "economic_baseline list"

section \<open>Constraints\<close>

definition opportunities_ok :: "'a economics_db_scheme \<Rightarrow> bool" where
  "opportunities_ok db \<longleftrightarrow>
     unique_on ro_id (opportunities db) \<and> unique_on ro_code (opportunities db) \<and>
     unique_on (\<lambda>o'. (ro_org o', ro_key o')) (opportunities db) \<and>
     unique_on (\<lambda>o'. (ro_org o', ro_source_key o')) (opportunities db)"

definition finding_links_ok :: "'a economics_db_scheme \<Rightarrow> bool" where
  "finding_links_ok db \<longleftrightarrow>
     unique_on (\<lambda>l. (lf_opportunity l, lf_finding l)) (finding_links db) \<and>
     list_all (\<lambda>l. lf_opportunity l \<in> ro_id ` set (opportunities db) \<and>
                   lf_finding l \<in> fst ` set (finding_rows db)) (finding_links db)"

definition action_links_ok :: "'a economics_db_scheme \<Rightarrow> bool" where
  "action_links_ok db \<longleftrightarrow>
     unique_on (\<lambda>l. (la_opportunity l, la_action l)) (action_links db) \<and>
     list_all (\<lambda>l. la_opportunity l \<in> ro_id ` set (opportunities db) \<and>
                   la_action l \<in> oa_id ` set (actions db)) (action_links db)"

definition rate_ok :: "rat \<Rightarrow> bool" where
  "rate_ok q \<longleftrightarrow> 0 \<le> q \<and> q \<le> 1"

definition scenarios_ok :: "'a economics_db_scheme \<Rightarrow> bool" where
  "scenarios_ok db \<longleftrightarrow>
     unique_on es_id (scenarios db) \<and>
     unique_on (\<lambda>s. (es_opportunity s, es_code s, es_version s)) (scenarios db) \<and>
     list_all (\<lambda>s. es_lower s \<le> es_gross s \<and> es_gross s \<le> es_upper s \<and>
                   rate_ok (es_addressability s) \<and> rate_ok (es_recoverability s) \<and>
                   rate_ok (es_success s) \<and> rate_ok (es_probability s) \<and>
                   es_opportunity s \<in> ro_id ` set (opportunities db)) (scenarios db)"

definition assumptions_ok :: "'a economics_db_scheme \<Rightarrow> bool" where
  "assumptions_ok db \<longleftrightarrow>
     unique_on ea_id (assumptions db) \<and>
     unique_on (\<lambda>a. (ea_opportunity a, ea_code a, ea_version a)) (assumptions db) \<and>
     list_all (\<lambda>a. ea_opportunity a \<in> ro_id ` set (opportunities db) \<and>
                   (case ea_scenario a of None \<Rightarrow> True | Some s \<Rightarrow> s \<in> es_id ` set (scenarios db)))
       (assumptions db)"

definition calculations_ok :: "'a economics_db_scheme \<Rightarrow> bool" where
  "calculations_ok db \<longleftrightarrow>
     unique_on ec_id (calculations db) \<and>
     unique_on (\<lambda>c. (ec_opportunity c, ec_key c)) (calculations db) \<and>
     list_all (\<lambda>c. ec_opportunity c \<in> ro_id ` set (opportunities db) \<and>
                   ec_scenario c \<in> es_id ` set (scenarios db)) (calculations db)"

definition prioritizations_ok :: "'a economics_db_scheme \<Rightarrow> bool" where
  "prioritizations_ok db \<longleftrightarrow>
     unique_on pz_id (prioritizations db) \<and>
     unique_on (\<lambda>p. (pz_opportunity p, pz_key p)) (prioritizations db) \<and>
     list_all (\<lambda>p. pz_opportunity p \<in> ro_id ` set (opportunities db) \<and>
                   pz_calculation p \<in> ec_id ` set (calculations db)) (prioritizations db)"

definition overlap_groups_ok :: "'a economics_db_scheme \<Rightarrow> bool" where
  "overlap_groups_ok db \<longleftrightarrow>
     unique_on og_id (overlap_groups db) \<and> unique_on (\<lambda>g. (og_org g, og_key g)) (overlap_groups db)"

definition overlap_members_ok :: "'a economics_db_scheme \<Rightarrow> bool" where
  "overlap_members_ok db \<longleftrightarrow>
     unique_on (\<lambda>m. (om_group m, om_opportunity m)) (overlap_members db) \<and>
     list_all (\<lambda>m. rate_ok (om_allocation m) \<and> om_group m \<in> og_id ` set (overlap_groups db) \<and>
                   om_opportunity m \<in> ro_id ` set (opportunities db) \<and>
                   (case om_parent m of None \<Rightarrow> True | Some o' \<Rightarrow> o' \<in> ro_id ` set (opportunities db)))
       (overlap_members db)"

definition decisions_ok :: "'a economics_db_scheme \<Rightarrow> bool" where
  "decisions_ok db \<longleftrightarrow>
     unique_on (\<lambda>d. (od_opportunity d, od_key d)) (decisions db) \<and>
     list_all (\<lambda>d. od_opportunity d \<in> ro_id ` set (opportunities db) \<and>
                   (case od_scenario d of None \<Rightarrow> True | Some s \<Rightarrow> s \<in> es_id ` set (scenarios db)))
       (decisions db)"

definition economic_audits_ok :: "'a economics_db_scheme \<Rightarrow> bool" where
  "economic_audits_ok db \<longleftrightarrow>
     unique_on (\<lambda>u. (eu_opportunity u, eu_key u)) (economic_audits db) \<and>
     list_all (\<lambda>u. eu_opportunity u \<in> ro_id ` set (opportunities db)) (economic_audits db)"

definition baselines_ok :: "'a economics_db_scheme \<Rightarrow> bool" where
  "baselines_ok db \<longleftrightarrow>
     unique_on bl_id (baselines db) \<and>
     unique_on (\<lambda>b. (bl_opportunity b, bl_version b)) (baselines db) \<and>
     unique_on (\<lambda>b. (bl_opportunity b, bl_key b)) (baselines db) \<and>
     list_all (\<lambda>b. bl_opportunity b \<in> ro_id ` set (opportunities db) \<and>
                   bl_scenario b \<in> es_id ` set (scenarios db) \<and>
                   bl_calculation b \<in> ec_id ` set (calculations db) \<and>
                   bl_prioritization b \<in> pz_id ` set (prioritizations db)) (baselines db)"

definition economics_constraints :: "'a economics_db_scheme \<Rightarrow> bool" where
  "economics_constraints db \<longleftrightarrow>
     opportunities_ok db \<and> finding_links_ok db \<and> action_links_ok db \<and> scenarios_ok db \<and>
     assumptions_ok db \<and> calculations_ok db \<and> prioritizations_ok db \<and> overlap_groups_ok db \<and>
     overlap_members_ok db \<and> decisions_ok db \<and> economic_audits_ok db \<and> baselines_ok db"

datatype economics_service_error =
    OpportunityNotFound
  | ApprovedOpportunityImmutable
  | FindingNotFound
  | LinkedActionNotFound
  | ApprovedBaselineImmutable
  | CurrencyMismatch
  | ScenarioNotFound
  | AssumptionNotFound
  | AssumptionCodeMismatch
  | EngineError economics_error
  | CalculationNotFound
  | ProfileNotFound
  | OverlapNotFound
  | DecisionTransitionInvalid economics_error
  | EconomicInputsRequired
  | PriorityNotFound
  | DecisionApprovalForbidden
  | LimitationsNotIterable
  | EconomicsIntegrityError

datatype economics_row =
    OpportunityRow recovery_opportunity | FindingLinkRow opportunity_finding
  | ActionLinkRow opportunity_action | ScenarioRow economic_scenario
  | AssumptionRow economic_assumption | CalculationRow economic_calculation
  | PrioritizationRow prioritization | OverlapGroupRow overlap_group
  | OverlapMemberRow overlap_member
  | DecisionRow recovery_opportunity opportunity_decision "economic_baseline option"

definition commit_economics ::
    "'a economics_db_scheme \<Rightarrow> economics_row \<Rightarrow>
     economics_service_error + 'a economics_db_scheme \<times> economics_row" where
  "commit_economics db r =
     bindE (require (economics_constraints db) EconomicsIntegrityError) (\<lambda>_. Inr (db, r))"

end
