(* ===== verification/Recovery_Ledger.thy ===== *)
theory Recovery_Ledger
  imports Recovery_Engine Economics
begin

text \<open>
  The recovery ledger (\<open>app/models/recovery_ledger.py\<close>,
  \<open>app/services/recovery_ledger_service.py\<close>): cases opened on approved baselines, executions
  of linked actions, measurements with evidence, finance verification, and the ledger of
  verified value with its adjustments and reversals.

  The entry digest is a parameter of the model (the code hashes the fields of the entry); the
  audit keys are built from distinct prefixes, so a constructor per prefix tells apart exactly
  what the strings do. A measurement input that the code passes through
  \<open>Decimal(str(value))\<close> arrives as the outcome of that conversion.
\<close>

section \<open>Rows\<close>

datatype execution_status = X_PLANNED | X_IN_PROGRESS | X_AWAITING_MEASUREMENT | X_MEASURED

datatype measurement_status = M_DRAFT | M_SUBMITTED | M_VERIFIED | M_NEEDS_INFORMATION | M_REJECTED

datatype finance_decision = F_APPROVED | F_NEEDS_INFORMATION | F_REJECTED

record recovery_case =
  rc_id :: uuid
  rc_org :: uuid
  rc_opportunity :: uuid
  rc_baseline :: uuid
  rc_code :: string
  rc_key :: string
  rc_title :: string
  rc_description :: string
  rc_status :: string
  rc_currency :: string
  rc_expected :: rat
  rc_created_by :: uuid

record recovery_execution =
  rx_id :: uuid
  rx_org :: uuid
  rx_case :: uuid
  rx_action :: uuid
  rx_key :: string
  rx_status :: execution_status
  rx_started_at :: "timestamp option"
  rx_completed_at :: "timestamp option"
  rx_notes :: "string option"
  rx_created_by :: uuid

datatype decimal_text = Unparsable | NonFinite | Finite rat

record value_measurement =
  rm_id :: uuid
  rm_org :: uuid
  rm_execution :: uuid
  rm_key :: string
  rm_category :: value_category
  rm_status :: measurement_status
  rm_baseline :: rat
  rm_actual :: rat
  rm_realized :: rat
  rm_currency :: string
  rm_start :: timestamp
  rm_end :: timestamp
  rm_methodology :: string
  rm_days :: "decimal_text option"
  rm_rate :: "decimal_text option"
  rm_limitations :: "string list"
  rm_submitted_by :: "uuid option"
  rm_submitted_at :: "timestamp option"
  rm_created_by :: uuid

record recovery_evidence =
  rv_org :: uuid
  rv_measurement :: uuid
  rv_type :: string
  rv_source_type :: string
  rv_source_identifier :: string
  rv_integrity :: "string option"
  rv_observed_at :: "timestamp option"
  rv_created_by :: uuid

record finance_verification =
  fv_id :: uuid
  fv_org :: uuid
  fv_measurement :: uuid
  fv_key :: string
  fv_decision :: finance_decision
  fv_amount :: rat
  fv_currency :: string
  fv_rationale :: string
  fv_reviewer :: uuid

record ledger_entry =
  le_id :: uuid
  le_org :: uuid
  le_case :: uuid
  le_measurement :: "uuid option"
  le_verification :: "uuid option"
  le_reversal_of :: "uuid option"
  le_adjustment_of :: "uuid option"
  le_sequence :: int
  le_type :: entry_type
  le_amount :: rat
  le_currency :: string
  le_key :: string
  le_reason :: string
  le_hash :: string
  le_posted_by :: uuid

datatype recovery_event =
    RE_CASE_CREATED | RE_CASE_UPDATED | RE_EXECUTION_CREATED | RE_EXECUTION_STARTED
  | RE_EXECUTION_COMPLETEED | RE_MEASUREMENT_CREATED | RE_MEASUREMENT_SUBMITTED
  | RE_FINANCE_REVIEWED | RE_VALUE_VERIFIED | RE_LEDGER_ADJUSTED | RE_LEDGER_REVERSED

datatype recovery_audit_key =
    RK_Case string | RK_CaseUpdate uuid | RK_Execution string | RK_Start uuid timestamp
  | RK_Complete uuid timestamp | RK_Measurement string | RK_Submit uuid | RK_Review string
  | RK_Verify string | RK_Adjust string | RK_Reverse string

record recovery_audit =
  ru_org :: uuid
  ru_case :: uuid
  ru_event :: recovery_event
  ru_actor :: uuid
  ru_key :: recovery_audit_key
  ru_reason :: string

record recovery_db = economics_db +
  cases :: "recovery_case list"
  executions :: "recovery_execution list"
  measurements :: "value_measurement list"
  evidence_links :: "recovery_evidence list"
  verifications :: "finance_verification list"
  ledger :: "ledger_entry list"
  recovery_audits :: "recovery_audit list"

section \<open>Constraints\<close>

definition cases_ok :: "'a recovery_db_scheme \<Rightarrow> bool" where
  "cases_ok db \<longleftrightarrow>
     unique_on rc_id (cases db) \<and> unique_on rc_code (cases db) \<and>
     unique_on (\<lambda>c. (rc_org c, rc_key c)) (cases db) \<and>
     list_all (\<lambda>c. rc_opportunity c \<in> ro_id ` set (opportunities db) \<and>
                   rc_baseline c \<in> bl_id ` set (baselines db)) (cases db)"

definition executions_ok :: "'a recovery_db_scheme \<Rightarrow> bool" where
  "executions_ok db \<longleftrightarrow>
     unique_on rx_id (executions db) \<and> unique_on (\<lambda>x. (rx_org x, rx_key x)) (executions db) \<and>
     list_all (\<lambda>x. rx_case x \<in> rc_id ` set (cases db) \<and> rx_action x \<in> oa_id ` set (actions db))
       (executions db)"

definition measurements_ok :: "'a recovery_db_scheme \<Rightarrow> bool" where
  "measurements_ok db \<longleftrightarrow>
     unique_on rm_id (measurements db) \<and> unique_on (\<lambda>m. (rm_org m, rm_key m)) (measurements db) \<and>
     list_all (\<lambda>m. rm_execution m \<in> rx_id ` set (executions db)) (measurements db)"

definition evidence_links_ok :: "'a recovery_db_scheme \<Rightarrow> bool" where
  "evidence_links_ok db \<longleftrightarrow>
     list_all (\<lambda>v. rv_measurement v \<in> rm_id ` set (measurements db)) (evidence_links db)"

definition verifications_ok :: "'a recovery_db_scheme \<Rightarrow> bool" where
  "verifications_ok db \<longleftrightarrow>
     unique_on fv_id (verifications db) \<and> unique_on (\<lambda>v. (fv_org v, fv_key v)) (verifications db) \<and>
     list_all (\<lambda>v. fv_measurement v \<in> rm_id ` set (measurements db)) (verifications db)"

definition optional_reference :: "uuid set \<Rightarrow> uuid option \<Rightarrow> bool" where
  "optional_reference ids i = (case i of None \<Rightarrow> True | Some j \<Rightarrow> j \<in> ids)"

definition ledger_ok :: "'a recovery_db_scheme \<Rightarrow> bool" where
  "ledger_ok db \<longleftrightarrow>
     unique_on le_id (ledger db) \<and> unique_on (\<lambda>e. (le_org e, le_key e)) (ledger db) \<and>
     unique_on (\<lambda>e. (le_case e, le_sequence e)) (ledger db) \<and> unique_on le_hash (ledger db) \<and>
     list_all (\<lambda>e. le_amount e \<noteq> 0 \<and> le_case e \<in> rc_id ` set (cases db) \<and>
                   optional_reference (rm_id ` set (measurements db)) (le_measurement e) \<and>
                   optional_reference (fv_id ` set (verifications db)) (le_verification e) \<and>
                   optional_reference (le_id ` set (ledger db)) (le_reversal_of e) \<and>
                   optional_reference (le_id ` set (ledger db)) (le_adjustment_of e)) (ledger db)"

definition recovery_audits_ok :: "'a recovery_db_scheme \<Rightarrow> bool" where
  "recovery_audits_ok db \<longleftrightarrow>
     unique_on (\<lambda>u. (ru_org u, ru_key u)) (recovery_audits db) \<and>
     list_all (\<lambda>u. ru_case u \<in> rc_id ` set (cases db)) (recovery_audits db)"

definition recovery_constraints :: "'a recovery_db_scheme \<Rightarrow> bool" where
  "recovery_constraints db \<longleftrightarrow>
     cases_ok db \<and> executions_ok db \<and> measurements_ok db \<and> evidence_links_ok db \<and>
     verifications_ok db \<and> ledger_ok db \<and> recovery_audits_ok db"

datatype recovery_error =
    BaselineNotFound
  | BaselineNotApproved
  | CaseNotFound
  | ActionNotLinked
  | ActionNotApproved
  | ExecutionNotFound
  | ExecutionTransitionInvalid
  | ExecutionNotComplete
  | MeasurementCurrencyMismatch
  | MeasurementInputInvalid
  | RealizedError realized_error
  | MeasurementNotFound
  | MeasurementNotSubmittable
  | SegregationOfDuties
  | MeasurementNotSubmitted
  | VerificationCurrencyMismatch
  | LedgerEntryNotFound
  | DirectionRequired
  | ReversalExceedsRemaining
  | RecoveryIntegrityError
  | RequestInvalid

datatype recovery_row =
    CaseRow recovery_case | ExecutionRow recovery_execution | MeasurementRow value_measurement
  | LedgerRow ledger_entry

definition commit_recovery ::
    "'a recovery_db_scheme \<Rightarrow> recovery_row \<Rightarrow> recovery_error + 'a recovery_db_scheme \<times> recovery_row" where
  "commit_recovery db r =
     bindE (require (recovery_constraints db) RecoveryIntegrityError) (\<lambda>_. Inr (db, r))"

record ledger_env = action_env +
  env_entry_hash :: "uuid \<Rightarrow> uuid \<Rightarrow> int \<Rightarrow> entry_type \<Rightarrow> rat \<Rightarrow> string \<Rightarrow> string \<Rightarrow> string"

section \<open>Cases\<close>

definition recovery_audit_for ::
    "recovery_case \<Rightarrow> recovery_event \<Rightarrow> uuid \<Rightarrow> recovery_audit_key \<Rightarrow> string \<Rightarrow> recovery_audit" where
  "recovery_audit_for c t actor key reason =
     \<lparr>ru_org = rc_org c, ru_case = rc_id c, ru_event = t, ru_actor = actor, ru_key = key,
      ru_reason = reason\<rparr>"

definition audited :: "recovery_audit \<Rightarrow> 'a recovery_db_scheme \<Rightarrow> 'a recovery_db_scheme" where
  "audited u db = db\<lparr>recovery_audits := recovery_audits db @ [u]\<rparr>"

record case_payload =
  cc_opportunity :: uuid
  cc_baseline :: uuid
  cc_key :: string
  cc_title :: string
  cc_description :: string

definition approved_baseline ::
    "'a recovery_db_scheme \<Rightarrow> uuid \<Rightarrow> case_payload \<Rightarrow> recovery_error + recovery_opportunity \<times> economic_baseline" where
  "approved_baseline db org p =
     (case (find (\<lambda>o'. ro_id o' = cc_opportunity p \<and> ro_org o' = org) (opportunities db),
            find (\<lambda>b. bl_id b = cc_baseline p \<and> bl_org b = org) (baselines db)) of
        (Some o', Some b) \<Rightarrow>
          bindE (require (bl_opportunity b = cc_opportunity p) BaselineNotFound) (\<lambda>_.
          bindE (require (ro_status o' = O_APPROVED) BaselineNotApproved) (\<lambda>_. Inr (o', b)))
      | _ \<Rightarrow> Inl BaselineNotFound)"

definition case_create ::
    "'e ledger_env_scheme \<Rightarrow> 'a recovery_db_scheme \<Rightarrow> uuid \<Rightarrow> uuid \<Rightarrow> string \<Rightarrow> case_payload \<Rightarrow> uuid \<Rightarrow>
     recovery_error + 'a recovery_db_scheme \<times> recovery_row" where
  "case_create env db org new_id code p actor =
     (case find (\<lambda>c. rc_org c = org \<and> rc_key c = cc_key p) (cases db) of
        Some prior \<Rightarrow> Inr (db, CaseRow prior)
      | None \<Rightarrow>
          bindE (approved_baseline db org p) (\<lambda>(o', b).
          let c = \<lparr>rc_id = new_id, rc_org = org, rc_opportunity = ro_id o', rc_baseline = bl_id b,
                   rc_code = code, rc_key = cc_key p, rc_title = cc_title p,
                   rc_description = cc_description p, rc_status = ''approved'',
                   rc_currency = bl_currency b,
                   rc_expected = env_numeric env 12 (sn_net (bl_snapshot b)), rc_created_by = actor\<rparr>
          in commit_recovery
               (audited (recovery_audit_for c RE_CASE_CREATED actor (RK_Case (cc_key p)) ''Recovery case created'')
                  (db\<lparr>cases := cases db @ [c]\<rparr>)) (CaseRow c)))"

definition case_get :: "'a recovery_db_scheme \<Rightarrow> uuid \<Rightarrow> uuid \<Rightarrow> recovery_error + recovery_case" where
  "case_get db org i = tenant_get rc_id rc_org CaseNotFound (cases db) org i"

datatype case_change =
    CaseTitle "string option" | CaseDescription "string option" | CaseStatus "string option"

fun apply_case_change :: "case_change \<Rightarrow> recovery_case \<Rightarrow> recovery_error + recovery_case" where
  "apply_case_change (CaseTitle t) c =
     bindE (of_option RecoveryIntegrityError t) (\<lambda>t. Inr (c\<lparr>rc_title := t\<rparr>))"
| "apply_case_change (CaseDescription t) c =
     bindE (of_option RecoveryIntegrityError t) (\<lambda>t. Inr (c\<lparr>rc_description := t\<rparr>))"
| "apply_case_change (CaseStatus t) c =
     bindE (of_option RecoveryIntegrityError t) (\<lambda>t. Inr (c\<lparr>rc_status := t\<rparr>))"

fun apply_case_changes :: "case_change list \<Rightarrow> recovery_case \<Rightarrow> recovery_error + recovery_case" where
  "apply_case_changes [] c = Inr c"
| "apply_case_changes (x # xs) c = bindE (apply_case_change x c) (apply_case_changes xs)"

definition case_update ::
    "'a recovery_db_scheme \<Rightarrow> uuid \<Rightarrow> uuid \<Rightarrow> case_change list \<Rightarrow> uuid \<Rightarrow> uuid \<Rightarrow>
     recovery_error + 'a recovery_db_scheme \<times> recovery_row" where
  "case_update db org i changes actor fresh =
     bindE (case_get db org i) (\<lambda>c.
     bindE (apply_case_changes changes c) (\<lambda>c'.
     commit_recovery
       (audited (recovery_audit_for c RE_CASE_UPDATED actor (RK_CaseUpdate fresh) ''Recovery case updated'')
          (db\<lparr>cases := put_row rc_id c' (cases db)\<rparr>)) (CaseRow c')))"

section \<open>Executions\<close>

definition executable_statuses :: "action_status list" where
  "executable_statuses =
     [A_APPROVED, A_ASSIGNED, A_SCHEDULED, A_IN_PROGRESS, A_BLOCKED, A_COMPLETED,
      A_VERIFICATION_PENDING, A_VERIFIED]"

definition execution_create ::
    "'a recovery_db_scheme \<Rightarrow> uuid \<Rightarrow> uuid \<Rightarrow> uuid \<Rightarrow> uuid \<Rightarrow> string \<Rightarrow> string option \<Rightarrow> uuid \<Rightarrow>
     recovery_error + 'a recovery_db_scheme \<times> recovery_row" where
  "execution_create db org i new_id action key notes actor =
     bindE (case_get db org i) (\<lambda>c.
     case find (\<lambda>x. rx_org x = org \<and> rx_key x = key) (executions db) of
       Some prior \<Rightarrow> Inr (db, ExecutionRow prior)
     | None \<Rightarrow>
         (case (find (\<lambda>a. oa_id a = action \<and> oa_org a = org) (actions db),
                find (\<lambda>l. la_org l = org \<and> la_opportunity l = rc_opportunity c \<and> la_action l = action)
                  (action_links db)) of
            (Some a, Some _) \<Rightarrow>
              bindE (require (oa_status a \<in> set executable_statuses) ActionNotApproved) (\<lambda>_.
              let x = \<lparr>rx_id = new_id, rx_org = org, rx_case = rc_id c, rx_action = oa_id a,
                       rx_key = key, rx_status = X_PLANNED, rx_started_at = None,
                       rx_completed_at = None, rx_notes = notes, rx_created_by = actor\<rparr>
              in commit_recovery
                   (audited (recovery_audit_for c RE_EXECUTION_CREATED actor (RK_Execution key)
                               ''Recovery execution created'')
                      (db\<lparr>executions := executions db @ [x]\<rparr>)) (ExecutionRow x))
          | _ \<Rightarrow> Inl ActionNotLinked))"

definition execution_get ::
    "'a recovery_db_scheme \<Rightarrow> uuid \<Rightarrow> uuid \<Rightarrow> recovery_error + recovery_execution \<times> recovery_case" where
  "execution_get db org i =
     bindE (tenant_get rx_id rx_org ExecutionNotFound (executions db) org i) (\<lambda>x.
     bindE (case_get db org (rx_case x)) (\<lambda>c. Inr (x, c)))"

definition execution_moved ::
    "string \<Rightarrow> timestamp \<Rightarrow> recovery_execution \<Rightarrow>
     recovery_error + recovery_execution \<times> recovery_event \<times> recovery_audit_key \<times> string" where
  "execution_moved transition now x =
     (if transition = ''start'' \<and> rx_status x = X_PLANNED then
        Inr (x\<lparr>rx_status := X_IN_PROGRESS, rx_started_at := Some now\<rparr>, RE_EXECUTION_STARTED,
             RK_Start (rx_id x) now, ''Execution started'')
      else if transition = ''complete'' \<and> rx_status x = X_IN_PROGRESS then
        Inr (x\<lparr>rx_status := X_AWAITING_MEASUREMENT, rx_completed_at := Some now\<rparr>,
             RE_EXECUTION_COMPLETEED, RK_Complete (rx_id x) now, ''Execution completeed'')
      else Inl ExecutionTransitionInvalid)"

definition execution_transition ::
    "'a recovery_db_scheme \<Rightarrow> uuid \<Rightarrow> uuid \<Rightarrow> string \<Rightarrow> uuid \<Rightarrow> timestamp \<Rightarrow>
     recovery_error + 'a recovery_db_scheme \<times> recovery_row" where
  "execution_transition db org i transition actor now =
     bindE (execution_get db org i) (\<lambda>(x, c).
     bindE (execution_moved transition now x) (\<lambda>(x', t, k, reason).
     commit_recovery (audited (recovery_audit_for c t actor k reason)
       (db\<lparr>executions := put_row rx_id x' (executions db)\<rparr>)) (ExecutionRow x')))"

section \<open>Measurements\<close>

record evidence_item =
  ei_type :: string
  ei_source_type :: string
  ei_source_identifier :: string
  ei_integrity :: "string option"
  ei_observed_at :: "timestamp option"

record measurement_payload =
  mp_key :: string
  mp_category :: value_category
  mp_baseline :: rat
  mp_actual :: rat
  mp_currency :: string
  mp_start :: timestamp
  mp_end :: timestamp
  mp_methodology :: string
  mp_days :: "decimal_text option"
  mp_rate :: "decimal_text option"
  mp_limitations :: "string list"
  mp_evidence :: "evidence_item list"

text \<open>A special value passes the conversion; the bounds check or the rounding then fails, and
  only for the category that uses it.\<close>

definition finite_input :: "value_category \<Rightarrow> decimal_text option \<Rightarrow> recovery_error + rat option" where
  "finite_input category t =
     (case t of
        None \<Rightarrow> Inr None
      | Some (Finite q) \<Rightarrow> Inr (Some q)
      | Some NonFinite \<Rightarrow>
          if category = CASH_ACCELERATION then Inl MeasurementInputInvalid else Inr None
      | Some Unparsable \<Rightarrow> Inl MeasurementInputInvalid)"

definition measured_value :: "measurement_payload \<Rightarrow> recovery_error + rat" where
  "measured_value p =
     bindE (finite_input (mp_category p) (mp_days p)) (\<lambda>days.
     bindE (finite_input (mp_category p) (mp_rate p)) (\<lambda>rate.
     case calculate_realized_value
            \<lparr>mi_category = mp_category p, mi_baseline = mp_baseline p, mi_actual = mp_actual p,
             mi_currency = mp_currency p, mi_days = days, mi_rate = rate\<rparr> of
       Inl e \<Rightarrow> Inl (RealizedError e) | Inr v \<Rightarrow> Inr v))"

definition new_measurement ::
    "'e ledger_env_scheme \<Rightarrow> uuid \<Rightarrow> uuid \<Rightarrow> uuid \<Rightarrow> measurement_payload \<Rightarrow> rat \<Rightarrow> uuid \<Rightarrow> value_measurement" where
  "new_measurement env org execution new_id p realized actor =
     \<lparr>rm_id = new_id, rm_org = org, rm_execution = execution, rm_key = mp_key p,
      rm_category = mp_category p, rm_status = M_DRAFT,
      rm_baseline = env_numeric env 12 (mp_baseline p), rm_actual = env_numeric env 12 (mp_actual p),
      rm_realized = env_numeric env 12 realized, rm_currency = mp_currency p,
      rm_start = mp_start p, rm_end = mp_end p, rm_methodology = mp_methodology p,
      rm_days = mp_days p, rm_rate = mp_rate p, rm_limitations = mp_limitations p,
      rm_submitted_by = None, rm_submitted_at = None, rm_created_by = actor\<rparr>"

definition evidence_link_for :: "uuid \<Rightarrow> uuid \<Rightarrow> uuid \<Rightarrow> evidence_item \<Rightarrow> recovery_evidence" where
  "evidence_link_for org measurement actor e =
     \<lparr>rv_org = org, rv_measurement = measurement, rv_type = ei_type e,
      rv_source_type = ei_source_type e, rv_source_identifier = ei_source_identifier e,
      rv_integrity = ei_integrity e, rv_observed_at = ei_observed_at e, rv_created_by = actor\<rparr>"

definition measurement_create ::
    "'e ledger_env_scheme \<Rightarrow> 'a recovery_db_scheme \<Rightarrow> uuid \<Rightarrow> uuid \<Rightarrow> uuid \<Rightarrow> measurement_payload \<Rightarrow> uuid \<Rightarrow>
     recovery_error + 'a recovery_db_scheme \<times> recovery_row" where
  "measurement_create env db org i new_id p actor =
     bindE (execution_get db org i) (\<lambda>(x, c).
     case find (\<lambda>m. rm_org m = org \<and> rm_key m = mp_key p) (measurements db) of
       Some prior \<Rightarrow> Inr (db, MeasurementRow prior)
     | None \<Rightarrow>
         bindE (require (rx_status x = X_AWAITING_MEASUREMENT \<or> rx_status x = X_MEASURED)
                  ExecutionNotComplete) (\<lambda>_.
         bindE (require (mp_currency p = rc_currency c) MeasurementCurrencyMismatch) (\<lambda>_.
         bindE (measured_value p) (\<lambda>realized.
         let m = new_measurement env org (rx_id x) new_id p realized actor
         in commit_recovery
              (audited (recovery_audit_for c RE_MEASUREMENT_CREATED actor (RK_Measurement (mp_key p))
                          ''Realized value measured'')
                 (db\<lparr>measurements := measurements db @ [m],
                     evidence_links := evidence_links db @
                       map (evidence_link_for org (rm_id m) actor) (mp_evidence p),
                     executions := put_row rx_id (x\<lparr>rx_status := X_MEASURED\<rparr>) (executions db)\<rparr>))
              (MeasurementRow m)))))"

definition measurement_get ::
    "'a recovery_db_scheme \<Rightarrow> uuid \<Rightarrow> uuid \<Rightarrow> recovery_error + value_measurement \<times> recovery_case" where
  "measurement_get db org i =
     bindE (tenant_get rm_id rm_org MeasurementNotFound (measurements db) org i) (\<lambda>m.
     bindE (execution_get db org (rm_execution m)) (\<lambda>(_, c). Inr (m, c)))"

definition put_measurement :: "value_measurement \<Rightarrow> 'a recovery_db_scheme \<Rightarrow> 'a recovery_db_scheme" where
  "put_measurement m db = db\<lparr>measurements := put_row rm_id m (measurements db)\<rparr>"

definition measurement_submit ::
    "'a recovery_db_scheme \<Rightarrow> uuid \<Rightarrow> uuid \<Rightarrow> uuid \<Rightarrow> timestamp \<Rightarrow>
     recovery_error + 'a recovery_db_scheme \<times> recovery_row" where
  "measurement_submit db org i actor now =
     bindE (measurement_get db org i) (\<lambda>(m, c).
     let evidence_count = length (filter (\<lambda>v. rv_org v = org \<and> rv_measurement v = rm_id m) (evidence_links db))
     in bindE (require (rm_status m = M_DRAFT \<and> evidence_count \<noteq> 0) MeasurementNotSubmittable) (\<lambda>_.
        let m' = m\<lparr>rm_status := M_SUBMITTED, rm_submitted_by := Some actor, rm_submitted_at := Some now\<rparr>
        in commit_recovery
             (audited (recovery_audit_for c RE_MEASUREMENT_SUBMITTED actor (RK_Submit i)
                         ''Measurement submitted for finance review'') (put_measurement m' db))
             (MeasurementRow m')))"

definition require_separate_reviewer :: "value_measurement \<Rightarrow> uuid \<Rightarrow> recovery_error + unit" where
  "require_separate_reviewer m actor = require (rm_submitted_by m \<noteq> Some actor) SegregationOfDuties"

section \<open>Finance\<close>

datatype review_decision = NeedsInformation | Rejected

definition review_status :: "review_decision \<Rightarrow> measurement_status" where
  "review_status d = (case d of NeedsInformation \<Rightarrow> M_NEEDS_INFORMATION | Rejected \<Rightarrow> M_REJECTED)"

definition review_outcome :: "review_decision \<Rightarrow> finance_decision" where
  "review_outcome d = (case d of NeedsInformation \<Rightarrow> F_NEEDS_INFORMATION | Rejected \<Rightarrow> F_REJECTED)"

definition finance_review ::
    "'a recovery_db_scheme \<Rightarrow> uuid \<Rightarrow> uuid \<Rightarrow> uuid \<Rightarrow> string \<Rightarrow> review_decision \<Rightarrow> string \<Rightarrow> uuid \<Rightarrow>
     recovery_error + 'a recovery_db_scheme \<times> recovery_row" where
  "finance_review db org i new_id key decision rationale actor =
     bindE (measurement_get db org i) (\<lambda>(m, c).
     bindE (require_separate_reviewer m actor) (\<lambda>_.
     bindE (require (rm_status m = M_SUBMITTED) MeasurementNotSubmitted) (\<lambda>_.
     let v = \<lparr>fv_id = new_id, fv_org = org, fv_measurement = rm_id m, fv_key = key,
              fv_decision = review_outcome decision, fv_amount = 0, fv_currency = rm_currency m,
              fv_rationale = rationale, fv_reviewer = actor\<rparr>;
         m' = m\<lparr>rm_status := review_status decision\<rparr>
     in commit_recovery
          (audited (recovery_audit_for c RE_FINANCE_REVIEWED actor (RK_Review key) rationale)
             (put_measurement m' (db\<lparr>verifications := verifications db @ [v]\<rparr>))) (MeasurementRow m'))))"

record posting =
  po_type :: entry_type
  po_amount :: rat
  po_key :: string
  po_reason :: string
  po_measurement :: "uuid option"
  po_verification :: "uuid option"
  po_reversal_of :: "uuid option"
  po_adjustment_of :: "uuid option"

definition new_entry ::
    "'e ledger_env_scheme \<Rightarrow> recovery_case \<Rightarrow> int \<Rightarrow> uuid \<Rightarrow> posting \<Rightarrow> uuid \<Rightarrow> ledger_entry" where
  "new_entry env c sequence new_id p actor =
     \<lparr>le_id = new_id, le_org = rc_org c, le_case = rc_id c, le_measurement = po_measurement p,
      le_verification = po_verification p, le_reversal_of = po_reversal_of p,
      le_adjustment_of = po_adjustment_of p, le_sequence = sequence, le_type = po_type p,
      le_amount = env_numeric env 12 (po_amount p), le_currency = rc_currency c,
      le_key = po_key p, le_reason = po_reason p,
      le_hash = env_entry_hash env (rc_org c) (rc_id c) sequence (po_type p) (po_amount p)
                  (rc_currency c) (po_key p),
      le_posted_by = actor\<rparr>"

text \<open>The entry already posted under the key, or a new one with the next number of the case.\<close>

definition post_entry ::
    "'e ledger_env_scheme \<Rightarrow> 'a recovery_db_scheme \<Rightarrow> recovery_case \<Rightarrow> uuid \<Rightarrow> posting \<Rightarrow> uuid \<Rightarrow>
     'a recovery_db_scheme \<times> ledger_entry" where
  "post_entry env db c new_id p actor =
     (case find (\<lambda>e. le_org e = rc_org c \<and> le_key e = po_key p) (ledger db) of
        Some prior \<Rightarrow> (db, prior)
      | None \<Rightarrow>
          let sequence = next_number (map le_sequence (filter (\<lambda>e. le_case e = rc_id c) (ledger db)));
              e = new_entry env c sequence new_id p actor
          in (db\<lparr>ledger := ledger db @ [e]\<rparr>, e))"

definition verified_before :: "'a recovery_db_scheme \<Rightarrow> uuid \<Rightarrow> string \<Rightarrow> ledger_entry option" where
  "verified_before db org key =
     (case find (\<lambda>v. fv_org v = org \<and> fv_key v = key) (verifications db) of
        None \<Rightarrow> None
      | Some v \<Rightarrow> find (\<lambda>e. le_verification e = Some (fv_id v) \<and> le_org e = org) (ledger db))"

record verify_payload =
  vp_key :: string
  vp_amount :: rat
  vp_currency :: string
  vp_rationale :: string

definition measurement_verify ::
    "'e ledger_env_scheme \<Rightarrow> 'a recovery_db_scheme \<Rightarrow> uuid \<Rightarrow> uuid \<Rightarrow> uuid \<Rightarrow> uuid \<Rightarrow> verify_payload \<Rightarrow> uuid \<Rightarrow>
     recovery_error + 'a recovery_db_scheme \<times> recovery_row" where
  "measurement_verify env db org i verification_id entry_id p actor =
     bindE (measurement_get db org i) (\<lambda>(m, c).
     bindE (require_separate_reviewer m actor) (\<lambda>_.
     case verified_before db org (vp_key p) of
       Some e \<Rightarrow> Inr (db, LedgerRow e)
     | None \<Rightarrow>
         bindE (require (rm_status m = M_SUBMITTED) MeasurementNotSubmitted) (\<lambda>_.
         bindE (require (vp_currency p = rm_currency m) VerificationCurrencyMismatch) (\<lambda>_.
         let v = \<lparr>fv_id = verification_id, fv_org = org, fv_measurement = rm_id m, fv_key = vp_key p,
                  fv_decision = F_APPROVED, fv_amount = env_numeric env 12 (vp_amount p),
                  fv_currency = vp_currency p, fv_rationale = vp_rationale p, fv_reviewer = actor\<rparr>;
             db1 = db\<lparr>verifications := verifications db @ [v]\<rparr>;
             posted = post_entry env db1 c entry_id
               \<lparr>po_type = VERIFIED_RECOVERY, po_amount = vp_amount p, po_key = vp_key p,
                po_reason = vp_rationale p, po_measurement = Some (rm_id m),
                po_verification = Some verification_id, po_reversal_of = None,
                po_adjustment_of = None\<rparr> actor
         in commit_recovery
              (audited (recovery_audit_for c RE_VALUE_VERIFIED actor (RK_Verify (vp_key p)) (vp_rationale p))
                 (put_measurement (m\<lparr>rm_status := M_VERIFIED\<rparr>) (fst posted)))
              (LedgerRow (snd posted))))))"

section \<open>Adjustments and reversals\<close>

record mutation_payload =
  mu_key :: string
  mu_amount :: rat
  mu_reason :: string
  mu_positive :: "bool option"

definition entry_get :: "'a recovery_db_scheme \<Rightarrow> uuid \<Rightarrow> uuid \<Rightarrow> recovery_error + ledger_entry" where
  "entry_get db org i = tenant_get le_id le_org LedgerEntryNotFound (ledger db) org i"

definition ledger_adjust ::
    "'e ledger_env_scheme \<Rightarrow> 'a recovery_db_scheme \<Rightarrow> uuid \<Rightarrow> uuid \<Rightarrow> uuid \<Rightarrow> mutation_payload \<Rightarrow> uuid \<Rightarrow>
     recovery_error + 'a recovery_db_scheme \<times> recovery_row" where
  "ledger_adjust env db org i new_id p actor =
     bindE (entry_get db org i) (\<lambda>original.
     bindE (case_get db org (le_case original)) (\<lambda>c.
     bindE (of_option DirectionRequired (mu_positive p)) (\<lambda>positive.
     let posted = post_entry env db c new_id
           \<lparr>po_type = (if positive then ADJUSTMENT_POSITIVE else ADJUSTMENT_NEGATIVE),
            po_amount = (if positive then mu_amount p else dneg (mu_amount p)), po_key = mu_key p,
            po_reason = mu_reason p, po_measurement = le_measurement original,
            po_verification = None, po_reversal_of = None, po_adjustment_of = Some (le_id original)\<rparr> actor
     in commit_recovery
          (audited (recovery_audit_for c RE_LEDGER_ADJUSTED actor (RK_Adjust (mu_key p)) (mu_reason p))
             (fst posted)) (LedgerRow (snd posted)))))"

definition reversals_of :: "'a recovery_db_scheme \<Rightarrow> uuid \<Rightarrow> uuid \<Rightarrow> rat list" where
  "reversals_of db org i =
     map le_amount (filter (\<lambda>e. le_org e = org \<and> le_reversal_of e = Some i) (ledger db))"

definition remaining_value :: "'a recovery_db_scheme \<Rightarrow> uuid \<Rightarrow> ledger_entry \<Rightarrow> rat" where
  "remaining_value db org original =
     dsub (dabs (le_amount original)) (dabs (sum_list (reversals_of db org (le_id original))))"

definition ledger_reverse ::
    "'e ledger_env_scheme \<Rightarrow> 'a recovery_db_scheme \<Rightarrow> uuid \<Rightarrow> uuid \<Rightarrow> uuid \<Rightarrow> mutation_payload \<Rightarrow> uuid \<Rightarrow>
     recovery_error + 'a recovery_db_scheme \<times> recovery_row" where
  "ledger_reverse env db org i new_id p actor =
     bindE (entry_get db org i) (\<lambda>original.
     bindE (require (mu_amount p \<le> remaining_value db org original) ReversalExceedsRemaining) (\<lambda>_.
     bindE (case_get db org (le_case original)) (\<lambda>c.
     let posted = post_entry env db c new_id
           \<lparr>po_type = REVERSAL, po_amount = dneg (mu_amount p), po_key = mu_key p,
            po_reason = mu_reason p, po_measurement = le_measurement original,
            po_verification = None, po_reversal_of = Some (le_id original), po_adjustment_of = None\<rparr> actor
     in commit_recovery
          (audited (recovery_audit_for c RE_LEDGER_REVERSED actor (RK_Reverse (mu_key p)) (mu_reason p))
             (fst posted)) (LedgerRow (snd posted)))))"

section \<open>Summary\<close>

record value_summary =
  vs_currency :: string
  vs_expected :: rat
  vs_realized :: rat
  vs_verified :: rat
  vs_net :: rat

definition executions_of :: "'a recovery_db_scheme \<Rightarrow> uuid \<Rightarrow> uuid list" where
  "executions_of db i = map rx_id (filter (\<lambda>x. rx_case x = i) (executions db))"

definition measurements_of :: "'a recovery_db_scheme \<Rightarrow> uuid \<Rightarrow> value_measurement list" where
  "measurements_of db i = filter (\<lambda>m. rm_execution m \<in> set (executions_of db i)) (measurements db)"

definition case_summary :: "'a recovery_db_scheme \<Rightarrow> uuid \<Rightarrow> uuid \<Rightarrow> recovery_error + value_summary" where
  "case_summary db org i =
     bindE (case_get db org i) (\<lambda>c.
     Inr \<lparr>vs_currency = rc_currency c, vs_expected = rc_expected c,
          vs_realized = sum_list (map rm_realized (filter (\<lambda>m. rm_org m = org) (measurements_of db i))),
          vs_verified = sum_list (map fv_amount (filter (\<lambda>v. fv_org v = org \<and> fv_decision v = F_APPROVED \<and>
            fv_measurement v \<in> rm_id ` set (measurements_of db i)) (verifications db))),
          vs_net = sum_list (map le_amount (filter (\<lambda>e. le_org e = org \<and> le_case e = i \<and>
            le_currency e = rc_currency c) (ledger db)))\<rparr>)"

section \<open>Requests\<close>

datatype recovery_op =
    CreateCase uuid uuid string case_payload uuid
  | UpdateCase uuid uuid "case_change list" uuid uuid
  | CreateExecution uuid uuid uuid uuid string "string option" uuid
  | MoveExecution uuid uuid string uuid timestamp
  | CreateMeasurement uuid uuid uuid measurement_payload uuid
  | SubmitMeasurement uuid uuid uuid timestamp
  | ReviewMeasurement uuid uuid uuid string review_decision string uuid
  | VerifyMeasurement uuid uuid uuid uuid verify_payload uuid
  | AdjustEntry uuid uuid uuid mutation_payload uuid
  | ReverseEntry uuid uuid uuid mutation_payload uuid

fun recovery_op_org :: "recovery_op \<Rightarrow> uuid" where
  "recovery_op_org (CreateCase org _ _ _ _) = org"
| "recovery_op_org (UpdateCase org _ _ _ _) = org"
| "recovery_op_org (CreateExecution org _ _ _ _ _ _) = org"
| "recovery_op_org (MoveExecution org _ _ _ _) = org"
| "recovery_op_org (CreateMeasurement org _ _ _ _) = org"
| "recovery_op_org (SubmitMeasurement org _ _ _) = org"
| "recovery_op_org (ReviewMeasurement org _ _ _ _ _ _) = org"
| "recovery_op_org (VerifyMeasurement org _ _ _ _ _) = org"
| "recovery_op_org (AdjustEntry org _ _ _ _) = org"
| "recovery_op_org (ReverseEntry org _ _ _ _) = org"

text \<open>What the request schemas demand (\<open>app/schemas/recovery_ledger.py\<close>) before a service runs.\<close>

definition currency_format :: "string \<Rightarrow> bool" where
  "currency_format s \<longleftrightarrow> length s = 3 \<and> list_all (\<lambda>c. is_alpha c \<and> upper_char c = c) s"

definition case_request_ok :: "case_payload \<Rightarrow> bool" where
  "case_request_ok p \<longleftrightarrow> sized 255 (cc_key p) \<and> sized 250 (cc_title p) \<and> sized 4000 (cc_description p)"

fun case_change_ok :: "case_change \<Rightarrow> bool" where
  "case_change_ok (CaseTitle t) = sized_if 250 t"
| "case_change_ok (CaseDescription t) = sized_if 4000 t"
| "case_change_ok (CaseStatus t) =
     (case t of None \<Rightarrow> True | Some s \<Rightarrow> s \<in> {''approved'', ''active'', ''completed'', ''closed''})"

definition evidence_item_ok :: "evidence_item \<Rightarrow> bool" where
  "evidence_item_ok e \<longleftrightarrow> sized 50 (ei_type e) \<and> sized 50 (ei_source_type e) \<and>
     sized 500 (ei_source_identifier e) \<and>
     (case ei_integrity e of None \<Rightarrow> True | Some s \<Rightarrow> length s \<le> 128)"

definition measurement_request_ok :: "measurement_payload \<Rightarrow> bool" where
  "measurement_request_ok p \<longleftrightarrow>
     sized 255 (mp_key p) \<and> currency_format (mp_currency p) \<and> sized 100 (mp_methodology p) \<and>
     mp_evidence p \<noteq> [] \<and> list_all evidence_item_ok (mp_evidence p) \<and> mp_start p < mp_end p"

definition verify_request_ok :: "verify_payload \<Rightarrow> bool" where
  "verify_request_ok p \<longleftrightarrow>
     sized 255 (vp_key p) \<and> 0 < vp_amount p \<and> currency_format (vp_currency p) \<and>
     sized 4000 (vp_rationale p)"

definition mutation_request_ok :: "mutation_payload \<Rightarrow> bool" where
  "mutation_request_ok p \<longleftrightarrow> sized 255 (mu_key p) \<and> 0 < mu_amount p \<and> sized 4000 (mu_reason p)"

fun recovery_request_ok :: "recovery_op \<Rightarrow> bool" where
  "recovery_request_ok (CreateCase _ _ _ p _) = case_request_ok p"
| "recovery_request_ok (UpdateCase _ _ cs _ _) = list_all case_change_ok cs"
| "recovery_request_ok (CreateExecution _ _ _ _ key notes _) =
     (sized 255 key \<and> (case notes of None \<Rightarrow> True | Some n \<Rightarrow> length n \<le> 4000))"
| "recovery_request_ok (CreateMeasurement _ _ _ p _) = measurement_request_ok p"
| "recovery_request_ok (ReviewMeasurement _ _ _ key _ rationale _) =
     (sized 255 key \<and> sized 4000 rationale)"
| "recovery_request_ok (VerifyMeasurement _ _ _ _ p _) = verify_request_ok p"
| "recovery_request_ok (AdjustEntry _ _ _ p _) = mutation_request_ok p"
| "recovery_request_ok (ReverseEntry _ _ _ p _) = mutation_request_ok p"
| "recovery_request_ok (MoveExecution _ _ _ _ _) = True"
| "recovery_request_ok (SubmitMeasurement _ _ _ _) = True"

fun recovery_dispatch ::
    "'e ledger_env_scheme \<Rightarrow> recovery_op \<Rightarrow> 'a recovery_db_scheme \<Rightarrow>
     recovery_error + 'a recovery_db_scheme \<times> recovery_row" where
  "recovery_dispatch env (CreateCase org j code p actor) db = case_create env db org j code p actor"
| "recovery_dispatch env (UpdateCase org i cs actor fresh) db = case_update db org i cs actor fresh"
| "recovery_dispatch env (CreateExecution org i j a key notes actor) db =
     execution_create db org i j a key notes actor"
| "recovery_dispatch env (MoveExecution org i t actor now) db = execution_transition db org i t actor now"
| "recovery_dispatch env (CreateMeasurement org i j p actor) db = measurement_create env db org i j p actor"
| "recovery_dispatch env (SubmitMeasurement org i actor now) db = measurement_submit db org i actor now"
| "recovery_dispatch env (ReviewMeasurement org i j key d rationale actor) db =
     finance_review db org i j key d rationale actor"
| "recovery_dispatch env (VerifyMeasurement org i j k p actor) db = measurement_verify env db org i j k p actor"
| "recovery_dispatch env (AdjustEntry org i j p actor) db = ledger_adjust env db org i j p actor"
| "recovery_dispatch env (ReverseEntry org i j p actor) db = ledger_reverse env db org i j p actor"

definition recovery_step ::
    "'e ledger_env_scheme \<Rightarrow> recovery_op \<Rightarrow> 'a recovery_db_scheme \<Rightarrow>
     recovery_error + 'a recovery_db_scheme \<times> recovery_row" where
  "recovery_step env op db =
     bindE (require (recovery_request_ok op) RequestInvalid) (\<lambda>_. recovery_dispatch env op db)"

end
