(* ===== verification/Recovery_Proofs.thy ===== *)
theory Recovery_Proofs
  imports Recovery_Ledger
begin

text \<open>
  What one request does to the tables of the recovery ledger, as a relation with a rule per
  kind of effect, and that every operation has such an effect.
\<close>

section \<open>Changes of rows\<close>

inductive measurement_evolves :: "value_measurement \<Rightarrow> value_measurement \<Rightarrow> bool" where
  submitted: "rm_status m = M_DRAFT \<Longrightarrow>
    measurement_evolves m (m\<lparr>rm_status := M_SUBMITTED, rm_submitted_by := Some u, rm_submitted_at := Some t\<rparr>)"
| reviewed: "rm_status m = M_SUBMITTED \<Longrightarrow> measurement_evolves m (m\<lparr>rm_status := review_status d\<rparr>)"
| verified: "rm_status m = M_SUBMITTED \<Longrightarrow> measurement_evolves m (m\<lparr>rm_status := M_VERIFIED\<rparr>)"

fun measurement_transitions :: "measurement_status \<Rightarrow> measurement_status list" where
  "measurement_transitions M_DRAFT = [M_SUBMITTED]"
| "measurement_transitions M_SUBMITTED = [M_VERIFIED, M_NEEDS_INFORMATION, M_REJECTED]"
| "measurement_transitions M_VERIFIED = []"
| "measurement_transitions M_NEEDS_INFORMATION = []"
| "measurement_transitions M_REJECTED = []"

inductive execution_evolves :: "recovery_execution \<Rightarrow> recovery_execution \<Rightarrow> bool" where
  started: "rx_status x = X_PLANNED \<Longrightarrow>
    execution_evolves x (x\<lparr>rx_status := X_IN_PROGRESS, rx_started_at := Some t\<rparr>)"
| completed: "rx_status x = X_IN_PROGRESS \<Longrightarrow>
    execution_evolves x (x\<lparr>rx_status := X_AWAITING_MEASUREMENT, rx_completed_at := Some t\<rparr>)"
| measured: "rx_status x = X_AWAITING_MEASUREMENT \<or> rx_status x = X_MEASURED \<Longrightarrow>
    execution_evolves x (x\<lparr>rx_status := X_MEASURED\<rparr>)"

inductive case_evolves :: "recovery_case \<Rightarrow> recovery_case \<Rightarrow> bool" where
  described: "apply_case_changes cs c = Inr c' \<Longrightarrow> case_evolves c c'"

lemma apply_case_change_keeps:
  "apply_case_change x c = Inr c' \<Longrightarrow>
     rc_id c' = rc_id c \<and> rc_org c' = rc_org c \<and> rc_currency c' = rc_currency c \<and>
     rc_opportunity c' = rc_opportunity c \<and> rc_baseline c' = rc_baseline c \<and>
     rc_expected c' = rc_expected c"
  by (cases x) auto

lemma apply_case_changes_keeps:
  "apply_case_changes cs c = Inr c' \<Longrightarrow>
     rc_id c' = rc_id c \<and> rc_org c' = rc_org c \<and> rc_currency c' = rc_currency c \<and>
     rc_opportunity c' = rc_opportunity c \<and> rc_baseline c' = rc_baseline c \<and>
     rc_expected c' = rc_expected c"
proof (induction cs arbitrary: c)
  case Nil
  then show ?case by simp
next
  case (Cons x xs)
  then obtain c1 where c1: "apply_case_change x c = Inr c1" "apply_case_changes xs c1 = Inr c'" by auto
  from apply_case_change_keeps [OF c1(1)] Cons.IH [OF c1(2)] show ?case by simp
qed

lemma case_evolves_keeps:
  assumes "case_evolves c c'"
  shows "rc_id c' = rc_id c \<and> rc_org c' = rc_org c \<and> rc_currency c' = rc_currency c \<and>
    rc_opportunity c' = rc_opportunity c \<and> rc_baseline c' = rc_baseline c \<and>
    rc_expected c' = rc_expected c"
  using assms by cases (rule apply_case_changes_keeps)

lemma measurement_evolves_keeps:
  assumes "measurement_evolves m m'"
  shows "rm_id m' = rm_id m \<and> rm_org m' = rm_org m \<and> rm_execution m' = rm_execution m \<and>
    rm_currency m' = rm_currency m \<and> rm_realized m' = rm_realized m \<and>
    rm_status m' \<in> set (measurement_transitions (rm_status m)) \<and>
    (rm_status m \<noteq> M_DRAFT \<longrightarrow> rm_submitted_by m' = rm_submitted_by m)"
  using assms by cases (auto simp: review_status_def split: review_decision.splits)

lemma execution_evolves_keeps:
  assumes "execution_evolves x x'"
  shows "rx_id x' = rx_id x \<and> rx_org x' = rx_org x \<and> rx_case x' = rx_case x \<and> rx_action x' = rx_action x"
  using assms by cases auto

section \<open>Effects\<close>

definition opens_case :: "'e ledger_env_scheme \<Rightarrow> 'a recovery_db_scheme \<Rightarrow> recovery_case \<Rightarrow> bool" where
  "opens_case env db c \<longleftrightarrow> (\<exists>b \<in> set (baselines db). bl_id b = rc_baseline c \<and>
     bl_opportunity b = rc_opportunity c \<and> bl_org b = rc_org c \<and> bl_currency b = rc_currency c \<and>
     rc_expected c = env_numeric env 12 (sn_net (bl_snapshot b)))"

text \<open>What a posting adds to the ledger: nothing when the key was used before, else one entry.\<close>

definition posting_effect ::
    "'e ledger_env_scheme \<Rightarrow> 'a recovery_db_scheme \<Rightarrow> recovery_case \<Rightarrow> posting \<Rightarrow> uuid \<Rightarrow> ledger_entry list \<Rightarrow> bool" where
  "posting_effect env db c p actor es \<longleftrightarrow>
     (if \<exists>e \<in> set (ledger db). le_org e = rc_org c \<and> le_key e = po_key p then es = []
      else \<exists>i. es = [new_entry env c
             (next_number (map le_sequence (filter (\<lambda>e. le_case e = rc_id c) (ledger db)))) i p actor])"

inductive recovery_effect ::
    "'e ledger_env_scheme \<Rightarrow> uuid \<Rightarrow> 'a recovery_db_scheme \<Rightarrow> 'a recovery_db_scheme \<Rightarrow> bool" where
  kept: "recovery_effect env org db db"
| case_added: "rc_org c = org \<Longrightarrow> opens_case env db c \<Longrightarrow> ru_org u = org \<Longrightarrow>
    recovery_effect env org db
      (db\<lparr>cases := cases db @ [c], recovery_audits := recovery_audits db @ [u]\<rparr>)"
| case_changed: "c \<in> set (cases db) \<Longrightarrow> rc_org c = org \<Longrightarrow> apply_case_changes cs c = Inr c' \<Longrightarrow>
    ru_org u = org \<Longrightarrow>
    recovery_effect env org db
      (db\<lparr>cases := put_row rc_id c' (cases db), recovery_audits := recovery_audits db @ [u]\<rparr>)"
| execution_added: "c \<in> set (cases db) \<Longrightarrow> rc_org c = org \<Longrightarrow> rx_org x = org \<Longrightarrow> rx_case x = rc_id c \<Longrightarrow>
    ru_org u = org \<Longrightarrow>
    recovery_effect env org db
      (db\<lparr>executions := executions db @ [x], recovery_audits := recovery_audits db @ [u]\<rparr>)"
| execution_changed: "x \<in> set (executions db) \<Longrightarrow> rx_org x = org \<Longrightarrow> execution_evolves x x' \<Longrightarrow>
    ru_org u = org \<Longrightarrow>
    recovery_effect env org db
      (db\<lparr>executions := put_row rx_id x' (executions db), recovery_audits := recovery_audits db @ [u]\<rparr>)"
| measurement_added: "x \<in> set (executions db) \<Longrightarrow> rx_org x = org \<Longrightarrow>
    execution_evolves x (x\<lparr>rx_status := X_MEASURED\<rparr>) \<Longrightarrow>
    rm_org m = org \<Longrightarrow> rm_execution m = rx_id x \<Longrightarrow> rm_status m = M_DRAFT \<Longrightarrow>
    \<forall>v \<in> set vs. rv_org v = org \<and> rv_measurement v = rm_id m \<Longrightarrow> ru_org u = org \<Longrightarrow>
    recovery_effect env org db
      (db\<lparr>executions := put_row rx_id (x\<lparr>rx_status := X_MEASURED\<rparr>) (executions db),
          measurements := measurements db @ [m], evidence_links := evidence_links db @ vs,
          recovery_audits := recovery_audits db @ [u]\<rparr>)"
| measurement_submitted: "m \<in> set (measurements db) \<Longrightarrow> rm_org m = org \<Longrightarrow> rm_status m = M_DRAFT \<Longrightarrow>
    \<exists>v \<in> set (evidence_links db). rv_measurement v = rm_id m \<Longrightarrow> ru_org u = org \<Longrightarrow>
    recovery_effect env org db
      (db\<lparr>measurements := put_row rm_id (m\<lparr>rm_status := M_SUBMITTED, rm_submitted_by := Some actor,
            rm_submitted_at := Some now\<rparr>) (measurements db),
          recovery_audits := recovery_audits db @ [u]\<rparr>)"
| measurement_reviewed: "m \<in> set (measurements db) \<Longrightarrow> rm_org m = org \<Longrightarrow> rm_status m = M_SUBMITTED \<Longrightarrow>
    fv_org v = org \<Longrightarrow> fv_measurement v = rm_id m \<Longrightarrow> fv_decision v = review_outcome d \<Longrightarrow>
    ru_org u = org \<Longrightarrow>
    recovery_effect env org db
      (db\<lparr>measurements := put_row rm_id (m\<lparr>rm_status := review_status d\<rparr>) (measurements db),
          verifications := verifications db @ [v], recovery_audits := recovery_audits db @ [u]\<rparr>)"
| measurement_verified: "m \<in> set (measurements db) \<Longrightarrow> rm_org m = org \<Longrightarrow> rm_status m = M_SUBMITTED \<Longrightarrow>
    rm_submitted_by m \<noteq> Some actor \<Longrightarrow> x \<in> set (executions db) \<Longrightarrow> rx_id x = rm_execution m \<Longrightarrow>
    c \<in> set (cases db) \<Longrightarrow> rc_id c = rx_case x \<Longrightarrow> rc_org c = org \<Longrightarrow>
    fv_org v = org \<Longrightarrow> fv_measurement v = rm_id m \<Longrightarrow> fv_decision v = F_APPROVED \<Longrightarrow>
    fv_reviewer v = actor \<Longrightarrow> 0 < po_amount p \<Longrightarrow> fv_amount v = env_numeric env 12 (po_amount p) \<Longrightarrow>
    posting_effect env db c p actor es \<Longrightarrow> po_type p = VERIFIED_RECOVERY \<Longrightarrow>
    po_measurement p = Some (rm_id m) \<Longrightarrow> po_verification p = Some (fv_id v) \<Longrightarrow>
    po_reversal_of p = None \<Longrightarrow> po_adjustment_of p = None \<Longrightarrow> ru_org u = org \<Longrightarrow>
    recovery_effect env org db
      (db\<lparr>measurements := put_row rm_id (m\<lparr>rm_status := M_VERIFIED\<rparr>) (measurements db),
          verifications := verifications db @ [v], ledger := ledger db @ es,
          recovery_audits := recovery_audits db @ [u]\<rparr>)"
| entry_posted: "original \<in> set (ledger db) \<Longrightarrow> le_org original = org \<Longrightarrow> c \<in> set (cases db) \<Longrightarrow>
    rc_id c = le_case original \<Longrightarrow> rc_org c = org \<Longrightarrow> 0 < a \<Longrightarrow>
    posting_effect env db c p actor es \<Longrightarrow> po_verification p = None \<Longrightarrow>
    po_measurement p = le_measurement original \<Longrightarrow>
    po_type p = ADJUSTMENT_POSITIVE \<and> po_amount p = a \<and> po_adjustment_of p = Some (le_id original) \<and>
      po_reversal_of p = None \<or>
    po_type p = ADJUSTMENT_NEGATIVE \<and> po_amount p = dneg a \<and> po_adjustment_of p = Some (le_id original) \<and>
      po_reversal_of p = None \<or>
    po_type p = REVERSAL \<and> po_amount p = dneg a \<and> po_adjustment_of p = None \<and>
      po_reversal_of p = Some (le_id original) \<and> a \<le> remaining_value db org original \<Longrightarrow>
    ru_org u = org \<Longrightarrow>
    recovery_effect env org db
      (db\<lparr>ledger := ledger db @ es, recovery_audits := recovery_audits db @ [u]\<rparr>)"

lemma commit_recoveryD:
  "commit_recovery db r = Inr (db', r') \<Longrightarrow> db' = db \<and> r' = r \<and> recovery_constraints db'"
  by (auto simp: commit_recovery_def)

lemma case_getD:
  "case_get db org i = Inr c \<Longrightarrow> c \<in> set (cases db) \<and> rc_id c = i \<and> rc_org c = org"
  unfolding case_get_def by (rule tenant_getD)

lemma execution_getD:
  "execution_get db org i = Inr (x, c) \<Longrightarrow> x \<in> set (executions db) \<and> rx_id x = i \<and> rx_org x = org \<and>
     c \<in> set (cases db) \<and> rc_id c = rx_case x \<and> rc_org c = org"
  by (auto simp: execution_get_def dest!: tenant_getD case_getD)

lemma measurement_getD:
  "measurement_get db org i = Inr (m, c) \<Longrightarrow> m \<in> set (measurements db) \<and> rm_id m = i \<and> rm_org m = org \<and>
     (\<exists>x \<in> set (executions db). rx_id x = rm_execution m \<and> rx_org x = org \<and> rc_id c = rx_case x) \<and>
     c \<in> set (cases db) \<and> rc_org c = org"
  by (auto simp: measurement_get_def dest!: tenant_getD execution_getD)

lemma entry_getD:
  "entry_get db org i = Inr e \<Longrightarrow> e \<in> set (ledger db) \<and> le_id e = i \<and> le_org e = org"
  unfolding entry_get_def by (rule tenant_getD)

lemma recovery_audit_for_simps [simp]:
  "ru_org (recovery_audit_for c t actor key reason) = rc_org c"
  "ru_case (recovery_audit_for c t actor key reason) = rc_id c"
  "ru_key (recovery_audit_for c t actor key reason) = key"
  by (simp_all add: recovery_audit_for_def)

lemma post_entry_effect:
  obtains es where "fst (post_entry env db c i p actor) = db\<lparr>ledger := ledger db @ es\<rparr>"
    "posting_effect env db c p actor es"
proof (cases "find (\<lambda>e. le_org e = rc_org c \<and> le_key e = po_key p) (ledger db)")
  case None
  then have "\<not> (\<exists>e \<in> set (ledger db). le_org e = rc_org c \<and> le_key e = po_key p)"
    by (auto simp: find_None_iff)
  then show ?thesis
    using None by (intro that) (auto simp: post_entry_def posting_effect_def Let_def)
next
  case (Some e)
  then have "\<exists>e \<in> set (ledger db). le_org e = rc_org c \<and> le_key e = po_key p"
    using find_SomeD [OF Some] by blast
  then show ?thesis
    using Some by (intro that [of "[]"]) (auto simp: post_entry_def posting_effect_def)
qed

section \<open>Every operation has an effect\<close>

lemma approved_baselineD:
  assumes "approved_baseline db org p = Inr (o', b)"
  shows "b \<in> set (baselines db) \<and> bl_org b = org \<and> o' \<in> set (opportunities db) \<and> ro_org o' = org \<and>
    bl_opportunity b = ro_id o' \<and> ro_status o' = O_APPROVED"
  using assms
  by (auto simp: approved_baseline_def dest!: find_SomeD split: option.splits)

lemma case_create_effect:
  assumes "case_create env db org j code p actor = Inr (db', r)"
  shows "recovery_effect env org db db' \<and> (db' = db \<or> recovery_constraints db')"
proof (cases "find (\<lambda>c. rc_org c = org \<and> rc_key c = cc_key p) (cases db)")
  case None
  then obtain o' b where b: "approved_baseline db org p = Inr (o', b)"
    using assms by (auto simp: case_create_def)
  then show ?thesis
    using assms None approved_baselineD [OF b]
    by (auto simp: case_create_def Let_def audited_def opens_case_def dest!: commit_recoveryD
        intro!: case_added)
qed (use assms in \<open>auto simp: case_create_def intro: kept\<close>)

lemma case_update_effect:
  assumes "case_update db org i cs actor fresh = Inr (db', r)"
  shows "recovery_effect env org db db' \<and> (db' = db \<or> recovery_constraints db')"
  using assms
  by (auto simp: case_update_def audited_def dest!: commit_recoveryD case_getD intro!: case_changed)

lemma execution_create_effect:
  assumes "execution_create db org i j a key notes actor = Inr (db', r)"
  shows "recovery_effect env org db db' \<and> (db' = db \<or> recovery_constraints db')"
  using assms
  by (auto simp: execution_create_def Let_def audited_def dest!: commit_recoveryD case_getD
      split: option.splits intro!: execution_added intro: kept)

lemma execution_movedD:
  "execution_moved t now x = Inr (x', ty, k, re) \<Longrightarrow> execution_evolves x x'"
  by (auto simp: execution_moved_def split: if_splits intro: started completed)

lemma execution_transition_effect:
  assumes "execution_transition db org i t actor now = Inr (db', r)"
  shows "recovery_effect env org db db' \<and> (db' = db \<or> recovery_constraints db')"
  using assms
  by (auto simp: execution_transition_def audited_def
      dest!: commit_recoveryD execution_getD execution_movedD intro!: execution_changed)

lemma measurement_create_effect:
  assumes "measurement_create env db org i j p actor = Inr (db', r)"
  shows "recovery_effect env org db db' \<and> (db' = db \<or> recovery_constraints db')"
proof -
  obtain x c where x: "execution_get db org i = Inr (x, c)"
    using assms by (auto simp: measurement_create_def)
  show ?thesis
  proof (cases "find (\<lambda>m. rm_org m = org \<and> rm_key m = mp_key p) (measurements db)")
    case (Some m)
    then show ?thesis using assms x by (auto simp: measurement_create_def intro: kept)
  next
    case None
    obtain realized where q: "measured_value p = Inr realized"
      "rx_status x = X_AWAITING_MEASUREMENT \<or> rx_status x = X_MEASURED"
      using assms x None by (auto simp: measurement_create_def)
    let ?m = "new_measurement env org (rx_id x) j p realized actor"
    let ?u = "recovery_audit_for c RE_MEASUREMENT_CREATED actor (RK_Measurement (mp_key p))
      ''Realized value measured''"
    let ?db = "db\<lparr>executions := put_row rx_id (x\<lparr>rx_status := X_MEASURED\<rparr>) (executions db),
      measurements := measurements db @ [?m],
      evidence_links := evidence_links db @ map (evidence_link_for org (rm_id ?m) actor) (mp_evidence p),
      recovery_audits := recovery_audits db @ [?u]\<rparr>"
    have "db' = ?db \<and> recovery_constraints db'"
      using assms x None q by (auto simp: measurement_create_def Let_def audited_def dest!: commit_recoveryD)
    moreover have "recovery_effect env org db ?db"
      using execution_getD [OF x] q(2)
      by (intro measurement_added measured)
        (auto simp: new_measurement_def evidence_link_for_def)
    ultimately show ?thesis by metis
  qed
qed

lemma measurement_submit_effect:
  assumes "measurement_submit db org i actor now = Inr (db', r)"
  shows "recovery_effect env org db db' \<and> (db' = db \<or> recovery_constraints db')"
proof -
  obtain m c where m: "measurement_get db org i = Inr (m, c)"
    using assms by (auto simp: measurement_submit_def)
  have ok: "rm_status m = M_DRAFT"
    "filter (\<lambda>v. rv_org v = org \<and> rv_measurement v = rm_id m) (evidence_links db) \<noteq> []"
    using assms m by (auto simp: measurement_submit_def Let_def)
  then have "\<exists>v \<in> set (evidence_links db). rv_measurement v = rm_id m"
    by (auto simp: filter_empty_conv)
  with assms m ok(1) measurement_getD [OF m] show ?thesis
    by (auto simp: measurement_submit_def Let_def audited_def put_measurement_def
        dest!: commit_recoveryD intro!: measurement_submitted)
qed

lemma finance_review_effect:
  assumes "finance_review db org i j key d rationale actor = Inr (db', r)"
  shows "recovery_effect env org db db' \<and> (db' = db \<or> recovery_constraints db')"
proof -
  obtain m c where m: "measurement_get db org i = Inr (m, c)" "rm_status m = M_SUBMITTED"
    using assms by (auto simp: finance_review_def)
  define v where "v = \<lparr>fv_id = j, fv_org = org, fv_measurement = rm_id m, fv_key = key,
    fv_decision = review_outcome d, fv_amount = 0, fv_currency = rm_currency m,
    fv_rationale = rationale, fv_reviewer = actor\<rparr>"
  define u where "u = recovery_audit_for c RE_FINANCE_REVIEWED actor (RK_Review key) rationale"
  let ?db = "db\<lparr>measurements := put_row rm_id (m\<lparr>rm_status := review_status d\<rparr>) (measurements db),
      verifications := verifications db @ [v], recovery_audits := recovery_audits db @ [u]\<rparr>"
  have "db' = ?db \<and> recovery_constraints db'"
    using assms m by (auto simp: finance_review_def Let_def audited_def put_measurement_def
        v_def u_def dest!: commit_recoveryD)
  moreover have "recovery_effect env org db ?db"
    using measurement_getD [OF m(1)] m(2)
    by (intro measurement_reviewed) (simp_all add: v_def u_def)
  ultimately show ?thesis by metis
qed

lemma posting_effect_ledger_only:
  "posting_effect env (db\<lparr>verifications := vs\<rparr>) c p actor es = posting_effect env db c p actor es"
  unfolding posting_effect_def by (simp cong: if_cong)

lemma measurement_verify_effect:
  assumes "measurement_verify env db org i j k p actor = Inr (db', r)" "0 < vp_amount p"
  shows "recovery_effect env org db db' \<and> (db' = db \<or> recovery_constraints db')"
proof -
  obtain m c where m: "measurement_get db org i = Inr (m, c)" "rm_submitted_by m \<noteq> Some actor"
    using assms by (auto simp: measurement_verify_def require_separate_reviewer_def)
  obtain x where x: "x \<in> set (executions db)" "rx_id x = rm_execution m" "rc_id c = rx_case x"
    using measurement_getD [OF m(1)] by blast
  show ?thesis
  proof (cases "verified_before db org (vp_key p)")
    case (Some e)
    then show ?thesis
      using assms m by (auto simp: measurement_verify_def intro: kept)
  next
    case None
    define v where "v = \<lparr>fv_id = j, fv_org = org, fv_measurement = rm_id m, fv_key = vp_key p,
      fv_decision = F_APPROVED, fv_amount = env_numeric env 12 (vp_amount p),
      fv_currency = vp_currency p, fv_rationale = vp_rationale p, fv_reviewer = actor\<rparr>"
    define po where "po = \<lparr>po_type = VERIFIED_RECOVERY, po_amount = vp_amount p, po_key = vp_key p,
      po_reason = vp_rationale p, po_measurement = Some (rm_id m), po_verification = Some j,
      po_reversal_of = None, po_adjustment_of = None\<rparr>"
    define u where "u = recovery_audit_for c RE_VALUE_VERIFIED actor (RK_Verify (vp_key p)) (vp_rationale p)"
    obtain es where es: "fst (post_entry env (db\<lparr>verifications := verifications db @ [v]\<rparr>) c k po actor) =
        db\<lparr>verifications := verifications db @ [v], ledger := ledger db @ es\<rparr>"
      "posting_effect env db c po actor es"
      using post_entry_effect [of env "db\<lparr>verifications := verifications db @ [v]\<rparr>" c k po actor]
      by (auto simp: posting_effect_ledger_only)
    let ?db = "db\<lparr>measurements := put_row rm_id (m\<lparr>rm_status := M_VERIFIED\<rparr>) (measurements db),
      verifications := verifications db @ [v], ledger := ledger db @ es,
      recovery_audits := recovery_audits db @ [u]\<rparr>"
    have s: "rm_status m = M_SUBMITTED"
      using assms m None by (auto simp: measurement_verify_def)
    have "db' = ?db \<and> recovery_constraints db'"
      using assms m None es(1)
      by (auto simp: measurement_verify_def Let_def audited_def put_measurement_def v_def po_def u_def
          dest!: commit_recoveryD)
    moreover have "recovery_effect env org db ?db"
      using measurement_getD [OF m(1)] m(2) s x es(2) assms(2)
      by (intro measurement_verified [where c = c and x = x and p = po])
        (simp_all add: v_def po_def u_def)
    ultimately show ?thesis by metis
  qed
qed

lemma ledger_adjust_effect:
  assumes "ledger_adjust env db org i j p actor = Inr (db', r)" "0 < mu_amount p"
  shows "recovery_effect env org db db' \<and> (db' = db \<or> recovery_constraints db')"
proof -
  obtain original c positive where g: "entry_get db org i = Inr original"
    "case_get db org (le_case original) = Inr c" "mu_positive p = Some positive"
    using assms by (auto simp: ledger_adjust_def)
  define po where "po = \<lparr>po_type = (if positive then ADJUSTMENT_POSITIVE else ADJUSTMENT_NEGATIVE),
    po_amount = (if positive then mu_amount p else dneg (mu_amount p)), po_key = mu_key p,
    po_reason = mu_reason p, po_measurement = le_measurement original,
    po_verification = None, po_reversal_of = None, po_adjustment_of = Some (le_id original)\<rparr>"
  define u where "u = recovery_audit_for c RE_LEDGER_ADJUSTED actor (RK_Adjust (mu_key p)) (mu_reason p)"
  obtain es where es: "fst (post_entry env db c j po actor) = db\<lparr>ledger := ledger db @ es\<rparr>"
    "posting_effect env db c po actor es" by (rule post_entry_effect)
  let ?db = "db\<lparr>ledger := ledger db @ es, recovery_audits := recovery_audits db @ [u]\<rparr>"
  have "db' = ?db \<and> recovery_constraints db'"
    using assms g es(1)
    by (auto simp: ledger_adjust_def Let_def audited_def po_def u_def dest!: commit_recoveryD)
  moreover have "recovery_effect env org db ?db"
    using entry_getD [OF g(1)] case_getD [OF g(2)] assms(2) es(2)
    by (intro entry_posted [where c = c and p = po and original = original]) (auto simp: po_def u_def)
  ultimately show ?thesis by metis
qed

lemma ledger_reverse_effect:
  assumes "ledger_reverse env db org i j p actor = Inr (db', r)" "0 < mu_amount p"
  shows "recovery_effect env org db db' \<and> (db' = db \<or> recovery_constraints db')"
proof -
  obtain original c where g: "entry_get db org i = Inr original"
    "case_get db org (le_case original) = Inr c" "mu_amount p \<le> remaining_value db org original"
    using assms by (auto simp: ledger_reverse_def)
  define po where "po = \<lparr>po_type = REVERSAL, po_amount = dneg (mu_amount p), po_key = mu_key p,
    po_reason = mu_reason p, po_measurement = le_measurement original,
    po_verification = None, po_reversal_of = Some (le_id original), po_adjustment_of = None\<rparr>"
  define u where "u = recovery_audit_for c RE_LEDGER_REVERSED actor (RK_Reverse (mu_key p)) (mu_reason p)"
  obtain es where es: "fst (post_entry env db c j po actor) = db\<lparr>ledger := ledger db @ es\<rparr>"
    "posting_effect env db c po actor es" by (rule post_entry_effect)
  let ?db = "db\<lparr>ledger := ledger db @ es, recovery_audits := recovery_audits db @ [u]\<rparr>"
  have "db' = ?db \<and> recovery_constraints db'"
    using assms g es(1)
    by (auto simp: ledger_reverse_def Let_def audited_def po_def u_def dest!: commit_recoveryD)
  moreover have "recovery_effect env org db ?db"
    using entry_getD [OF g(1)] case_getD [OF g(2)] assms(2) g(3) es(2)
    by (intro entry_posted [where c = c and p = po and original = original]) (auto simp: po_def u_def)
  ultimately show ?thesis by metis
qed

lemma recovery_step_effect:
  assumes "recovery_step env op db = Inr (db', r)"
  shows "recovery_effect env (recovery_op_org op) db db' \<and> (db' = db \<or> recovery_constraints db')"
proof (cases op)
  case (VerifyMeasurement org i j k p actor)
  then show ?thesis
    using assms measurement_verify_effect [of env db org i j k p actor db' r]
    by (simp add: recovery_step_def verify_request_ok_def)
next
  case (AdjustEntry org i j p actor)
  then show ?thesis
    using assms ledger_adjust_effect [of env db org i j p actor db' r]
    by (simp add: recovery_step_def mutation_request_ok_def)
next
  case (ReverseEntry org i j p actor)
  then show ?thesis
    using assms ledger_reverse_effect [of env db org i j p actor db' r]
    by (simp add: recovery_step_def mutation_request_ok_def)
qed (use assms in \<open>auto simp: recovery_step_def dest: case_create_effect case_update_effect
  execution_create_effect execution_transition_effect measurement_create_effect
  measurement_submit_effect finance_review_effect\<close>)

end
