(* ===== verification/Recovery_Invariants.thy ===== *)
theory Recovery_Invariants
  imports Recovery_Proofs
begin

text \<open>
  The invariants of the recovery ledger: entries numbered per case, every verified recovery
  backed by an approved verification that someone other than the submitter made, evidence
  behind every submitted measurement, reversals bounded by what they reverse.
\<close>

section \<open>Definitions\<close>

definition case_entries :: "'a recovery_db_scheme \<Rightarrow> uuid \<Rightarrow> ledger_entry list" where
  "case_entries db i = filter (\<lambda>e. le_case e = i) (ledger db)"

definition ledger_numbered :: "'a recovery_db_scheme \<Rightarrow> bool" where
  "ledger_numbered db \<longleftrightarrow> (\<forall>i. numbered (map le_sequence (case_entries db i)))"

definition ledger_owned :: "'a recovery_db_scheme \<Rightarrow> bool" where
  "ledger_owned db \<longleftrightarrow> (\<forall>e \<in> set (ledger db). \<exists>c \<in> set (cases db).
     rc_id c = le_case e \<and> rc_org c = le_org e \<and> rc_currency c = le_currency e)"

definition evidenced :: "'a recovery_db_scheme \<Rightarrow> value_measurement \<Rightarrow> bool" where
  "evidenced db m \<longleftrightarrow> (\<exists>v \<in> set (evidence_links db). rv_measurement v = rm_id m)"

definition recovery_backed :: "'a recovery_db_scheme \<Rightarrow> ledger_entry \<Rightarrow> bool" where
  "recovery_backed db e \<longleftrightarrow>
     (\<exists>v \<in> set (verifications db). \<exists>m \<in> set (measurements db). \<exists>x \<in> set (executions db).
        le_verification e = Some (fv_id v) \<and> fv_decision v = F_APPROVED \<and>
        fv_amount v = le_amount e \<and> fv_reviewer v = le_posted_by e \<and> fv_measurement v = rm_id m \<and>
        le_measurement e = Some (rm_id m) \<and> rm_status m = M_VERIFIED \<and>
        rm_submitted_by m \<noteq> None \<and> rm_submitted_by m \<noteq> Some (le_posted_by e) \<and> evidenced db m \<and>
        rx_id x = rm_execution m \<and> rx_case x = le_case e)"

definition recoveries_backed :: "'a recovery_db_scheme \<Rightarrow> bool" where
  "recoveries_backed db \<longleftrightarrow>
     (\<forall>e \<in> set (ledger db). le_type e = VERIFIED_RECOVERY \<longrightarrow> recovery_backed db e)"

definition submissions_evidenced :: "'a recovery_db_scheme \<Rightarrow> bool" where
  "submissions_evidenced db \<longleftrightarrow>
     (\<forall>m \<in> set (measurements db). rm_status m \<noteq> M_DRAFT \<longrightarrow> rm_submitted_by m \<noteq> None \<and> evidenced db m)"

definition cases_opened :: "'e ledger_env_scheme \<Rightarrow> 'a recovery_db_scheme \<Rightarrow> bool" where
  "cases_opened env db \<longleftrightarrow> (\<forall>c \<in> set (cases db). opens_case env db c)"

definition recovery_wf :: "'e ledger_env_scheme \<Rightarrow> 'a recovery_db_scheme \<Rightarrow> bool" where
  "recovery_wf env db \<longleftrightarrow>
     recovery_constraints db \<and> ledger_numbered db \<and> ledger_owned db \<and> recoveries_backed db \<and>
     submissions_evidenced db \<and> cases_opened env db"

section \<open>The tables after an effect\<close>

lemma recovery_ids_unique:
  assumes "recovery_constraints db"
  shows "unique_on rc_id (cases db)" "unique_on rx_id (executions db)"
    "unique_on rm_id (measurements db)" "unique_on le_id (ledger db)"
  using assms
  by (simp_all add: recovery_constraints_def cases_ok_def executions_ok_def measurements_ok_def ledger_ok_def)

lemma effect_cases:
  assumes "recovery_effect env org db db'"
  shows "table_step rc_id rc_org (opens_case env db) case_evolves org (cases db) (cases db')"
  using assms
proof cases
  case (case_added c u)
  then show ?thesis by (auto intro: table_step_add)
next
  case (case_changed c cs c' u)
  then show ?thesis
    using apply_case_changes_keeps [OF case_changed(4)] by (auto intro!: table_step_put case_evolves.intros)
qed simp_all

lemma effect_executions:
  assumes "recovery_effect env org db db'"
  shows "table_step rx_id rx_org (\<lambda>_. True) execution_evolves org (executions db) (executions db')"
  using assms
proof cases
  case (execution_added c x u)
  then show ?thesis by (auto intro: table_step_add)
next
  case (execution_changed x x' u)
  then show ?thesis using execution_evolves_keeps [OF execution_changed(4)] by (auto intro!: table_step_put)
next
  case (measurement_added x m vs u)
  then show ?thesis by (auto intro!: table_step_put)
qed simp_all

definition measurement_is_new :: "value_measurement \<Rightarrow> bool" where
  "measurement_is_new m \<longleftrightarrow> rm_status m = M_DRAFT"

lemma effect_measurements:
  assumes "recovery_effect env org db db'"
  shows "table_step rm_id rm_org measurement_is_new measurement_evolves org (measurements db) (measurements db')"
  using assms
proof cases
  case (measurement_added x m vs u)
  then show ?thesis by (auto intro: table_step_add simp: measurement_is_new_def)
next
  case (measurement_submitted m actor now u)
  then show ?thesis by (auto intro!: table_step_put submitted)
next
  case (measurement_reviewed m v d u)
  then show ?thesis by (auto intro!: table_step_put reviewed)
next
  case (measurement_verified m actor x c v p es u)
  then show ?thesis by (auto intro!: table_step_put verified)
qed simp_all

lemma recovery_effect_appends:
  assumes "recovery_effect env org db db'"
  shows "\<exists>xs. ledger db' = ledger db @ xs" "\<exists>xs. verifications db' = verifications db @ xs"
    "\<exists>xs. evidence_links db' = evidence_links db @ xs"
    "\<exists>xs. recovery_audits db' = recovery_audits db @ xs"
    "baselines db' = baselines db"
  using assms by (cases, simp_all)+

text \<open>The entry an effect posts, if any.\<close>

lemma recovery_effect_ledger:
  assumes "recovery_effect env org db db'"
  shows "ledger db' = ledger db \<or>
    (\<exists>c p actor i. c \<in> set (cases db) \<and> rc_org c = org \<and>
       ledger db' = ledger db @ [new_entry env c
         (next_number (map le_sequence (case_entries db (rc_id c)))) i p actor])"
proof -
  have p: "es = [] \<or> (\<exists>i. es = [new_entry env c
      (next_number (map le_sequence (case_entries db (rc_id c)))) i p actor])"
    if "posting_effect env db c p actor es" for c p actor es
    using that by (auto simp: posting_effect_def case_entries_def split: if_splits)
  show ?thesis
    using assms
  proof cases
    case (measurement_verified m actor x c v p es u)
    from p [OF measurement_verified(17)] show ?thesis
    proof (elim disjE exE)
      fix i assume "es = [new_entry env c (next_number (map le_sequence (case_entries db (rc_id c)))) i p actor]"
      then have "ledger db' = ledger db @ [new_entry env c
          (next_number (map le_sequence (case_entries db (rc_id c)))) i p actor]"
        by (simp add: measurement_verified(1))
      with measurement_verified(8,10) show ?thesis by blast
    qed (simp add: measurement_verified(1))
  next
    case (entry_posted original c a p' actor es u)
    from p [OF entry_posted(8)] show ?thesis
    proof (elim disjE exE)
      fix i assume "es = [new_entry env c (next_number (map le_sequence (case_entries db (rc_id c)))) i p' actor]"
      then have "ledger db' = ledger db @ [new_entry env c
          (next_number (map le_sequence (case_entries db (rc_id c)))) i p' actor]"
        by (simp add: entry_posted(1))
      with entry_posted(4,6) show ?thesis by blast
    qed (simp add: entry_posted(1))
  qed simp_all
qed

lemma new_entry_simps [simp]:
  "le_id (new_entry env c n i p actor) = i" "le_org (new_entry env c n i p actor) = rc_org c"
  "le_case (new_entry env c n i p actor) = rc_id c" "le_sequence (new_entry env c n i p actor) = n"
  "le_type (new_entry env c n i p actor) = po_type p"
  "le_amount (new_entry env c n i p actor) = env_numeric env 12 (po_amount p)"
  "le_currency (new_entry env c n i p actor) = rc_currency c"
  "le_key (new_entry env c n i p actor) = po_key p"
  "le_measurement (new_entry env c n i p actor) = po_measurement p"
  "le_verification (new_entry env c n i p actor) = po_verification p"
  "le_reversal_of (new_entry env c n i p actor) = po_reversal_of p"
  "le_adjustment_of (new_entry env c n i p actor) = po_adjustment_of p"
  "le_posted_by (new_entry env c n i p actor) = actor"
  by (simp_all add: new_entry_def)

section \<open>Preservation\<close>

lemma effect_numbered:
  assumes "recovery_effect env org db db'" "ledger_numbered db"
  shows "ledger_numbered db'"
  using recovery_effect_ledger [OF assms(1)]
proof (elim disjE exE conjE)
  assume "ledger db' = ledger db"
  with assms(2) show ?thesis by (simp add: ledger_numbered_def case_entries_def)
next
  fix c p actor i
  assume l: "ledger db' = ledger db @ [new_entry env c
    (next_number (map le_sequence (case_entries db (rc_id c)))) i p actor]"
  have "numbered (map le_sequence (case_entries db' j))" for j
    using assms(2) numbered_snoc [of "map le_sequence (case_entries db j)"]
    by (cases "rc_id c = j") (simp_all add: ledger_numbered_def case_entries_def l)
  then show ?thesis by (simp add: ledger_numbered_def)
qed

text \<open>What a case keeps for its life.\<close>

lemma effect_case_kept:
  assumes "recovery_effect env org db db'" "recovery_constraints db" "c \<in> set (cases db)"
  shows "\<exists>c' \<in> set (cases db'). rc_id c' = rc_id c \<and> rc_org c' = rc_org c \<and> rc_currency c' = rc_currency c"
proof -
  obtain c' where "c' \<in> set (cases db')" "rc_id c' = rc_id c" "c' = c \<or> case_evolves c c'"
    using table_step_kept [OF effect_cases [OF assms(1)] recovery_ids_unique(1) [OF assms(2)] assms(3)] .
  then show ?thesis using case_evolves_keeps by blast
qed

lemma effect_ledger_owned:
  assumes "recovery_effect env org db db'" "recovery_constraints db" "ledger_owned db"
  shows "ledger_owned db'"
proof -
  have "\<exists>c \<in> set (cases db). rc_id c = le_case e \<and> rc_org c = le_org e \<and> rc_currency c = le_currency e"
    if e: "e \<in> set (ledger db')" for e
    using recovery_effect_ledger [OF assms(1)]
  proof (elim disjE exE conjE)
    assume "ledger db' = ledger db"
    then show ?thesis using assms(3) e by (simp add: ledger_owned_def)
  next
    fix c p actor i
    assume "c \<in> set (cases db)" and l: "ledger db' = ledger db @ [new_entry env c
      (next_number (map le_sequence (case_entries db (rc_id c)))) i p actor]"
    then have "\<exists>c' \<in> set (cases db). rc_id c' = rc_id c \<and> rc_org c' = rc_org c \<and> rc_currency c' = rc_currency c"
      by blast
    then show ?thesis using assms(3) e by (auto simp: ledger_owned_def l simp del: bex_simps)
  qed
  then show ?thesis
    using effect_case_kept [OF assms(1,2)] unfolding ledger_owned_def by metis
qed

lemma effect_evidenced:
  assumes "recovery_effect env org db db'" "submissions_evidenced db"
  shows "submissions_evidenced db'"
proof -
  obtain vs where "evidence_links db' = evidence_links db @ vs"
    using recovery_effect_appends(3) [OF assms(1)] by blast
  then have grow: "evidenced db m \<Longrightarrow> rm_id m' = rm_id m \<Longrightarrow> evidenced db' m'" for m m'
    by (auto simp: evidenced_def)
  have "rm_status m = M_DRAFT \<or> rm_submitted_by m \<noteq> None \<and> evidenced db' m"
    if "m \<in> set (measurements db')" for m
    using assms(1)
  proof cases
    case (measurement_added x n vs u)
    then show ?thesis using that assms(2) grow [of m m] by (auto simp: submissions_evidenced_def)
  next
    case (measurement_submitted n actor now u)
    then have "evidenced db n" by (simp add: evidenced_def)
    then show ?thesis
      using that assms(2) grow [of m m] grow [of n m] measurement_submitted(1)
      by (auto simp: submissions_evidenced_def in_put_row_iff)
  next
    case (measurement_reviewed n v d u)
    then show ?thesis
      using that assms(2) grow [of m m] grow [of n m] by (auto simp: submissions_evidenced_def in_put_row_iff)
  next
    case (measurement_verified n actor x c v p es u)
    then show ?thesis
      using that assms(2) grow [of m m] grow [of n m] by (auto simp: submissions_evidenced_def in_put_row_iff)
  qed (use that assms(2) grow [of m m] in \<open>auto simp: submissions_evidenced_def\<close>)
  then show ?thesis unfolding submissions_evidenced_def by blast
qed

text \<open>The rows behind a verified recovery never change again.\<close>

lemma backed_grows:
  assumes "recovery_effect env org db db'" "recovery_constraints db" "recovery_backed db e"
  shows "recovery_backed db' e"
proof -
  obtain v m x where b: "v \<in> set (verifications db)" "m \<in> set (measurements db)" "x \<in> set (executions db)"
    "le_verification e = Some (fv_id v)" "fv_decision v = F_APPROVED" "fv_amount v = le_amount e"
    "fv_reviewer v = le_posted_by e" "fv_measurement v = rm_id m" "le_measurement e = Some (rm_id m)"
    "rm_status m = M_VERIFIED" "rm_submitted_by m \<noteq> None" "rm_submitted_by m \<noteq> Some (le_posted_by e)"
    "evidenced db m" "rx_id x = rm_execution m" "rx_case x = le_case e"
    using assms(3) unfolding recovery_backed_def by blast
  note u = recovery_ids_unique [OF assms(2)]
  obtain m' where m': "m' \<in> set (measurements db')" "m' = m \<or> measurement_evolves m m'"
    using table_step_kept [OF effect_measurements [OF assms(1)] u(3) b(2)] .
  have "m' = m"
    using m'(2) b(10) by (auto elim: measurement_evolves.cases)
  obtain x' where x': "x' \<in> set (executions db')" "rx_id x' = rx_id x" "x' = x \<or> execution_evolves x x'"
    using table_step_kept [OF effect_executions [OF assms(1)] u(2) b(3)] .
  have "rx_case x' = rx_case x" using x'(3) execution_evolves_keeps by blast
  moreover have "v \<in> set (verifications db')" "evidenced db' m"
    using recovery_effect_appends(2,3) [OF assms(1)] b(1,13) by (auto simp: evidenced_def)
  ultimately show ?thesis
    unfolding recovery_backed_def using b m'(1) \<open>m' = m\<close> x'(1,2)
    by (intro bexI [of _ v] bexI [of _ m] bexI [of _ x']) simp_all
qed

lemma effect_backed:
  assumes "recovery_effect env org db db'" "recovery_constraints db" "recoveries_backed db"
    and "submissions_evidenced db"
  shows "recoveries_backed db'"
proof -
  have old: "recovery_backed db' e" if "e \<in> set (ledger db)" "le_type e = VERIFIED_RECOVERY" for e
    using that assms(3) backed_grows [OF assms(1,2)] by (simp add: recoveries_backed_def)
  show ?thesis
    using assms(1)
  proof cases
    case (measurement_verified m actor x c v p es u)
    have new: "recovery_backed db' e" if es: "e \<in> set es" for e
    proof -
      obtain i n where e: "e = new_entry env c n i p actor"
        using measurement_verified(17) es by (auto simp: posting_effect_def split: if_splits)
      let ?m = "m\<lparr>rm_status := M_VERIFIED\<rparr>"
      have "rm_submitted_by m \<noteq> None" "evidenced db m"
        using assms(4) measurement_verified(2,4) by (auto simp: submissions_evidenced_def)
      moreover have "?m \<in> set (measurements db')" "v \<in> set (verifications db')" "x \<in> set (executions db')"
        using measurement_verified(1,2,6) by (auto simp: in_put_row_iff)
      ultimately show ?thesis
        using measurement_verified
        unfolding recovery_backed_def e
        by (intro bexI [of _ v] bexI [of _ ?m] bexI [of _ x]) (simp_all add: evidenced_def)
    qed
    then show ?thesis using old measurement_verified(1) by (auto simp: recoveries_backed_def)
  next
    case (entry_posted original c a p actor es u)
    have "po_type p \<noteq> VERIFIED_RECOVERY" using entry_posted(11) by auto
    then have "le_type e \<noteq> VERIFIED_RECOVERY" if "e \<in> set es" for e
      using entry_posted(8) that by (auto simp: posting_effect_def split: if_splits)
    then show ?thesis using old entry_posted(1) by (auto simp: recoveries_backed_def)
  qed (use old in \<open>simp_all add: recoveries_backed_def\<close>)
qed

lemma opens_case_cong:
  "opens_case env db c \<Longrightarrow> set (baselines db) \<subseteq> set (baselines db') \<Longrightarrow> rc_baseline c' = rc_baseline c \<Longrightarrow>
     rc_opportunity c' = rc_opportunity c \<Longrightarrow> rc_org c' = rc_org c \<Longrightarrow> rc_currency c' = rc_currency c \<Longrightarrow>
     rc_expected c' = rc_expected c \<Longrightarrow> opens_case env db' c'"
  unfolding opens_case_def by fastforce

lemma effect_opened:
  assumes "recovery_effect env org db db'" "cases_opened env db"
  shows "cases_opened env db'"
proof -
  have "\<forall>c \<in> set (cases db'). opens_case env db c"
  proof (rule table_step_all [OF effect_cases [OF assms(1)]])
    show "\<forall>c \<in> set (cases db). opens_case env db c" using assms(2) by (simp add: cases_opened_def)
    show "opens_case env db c'" if "opens_case env db c" "case_evolves c c'" for c c'
      using that(2)
    proof cases
      case (described cs)
      then show ?thesis using opens_case_cong [OF that(1)] apply_case_changes_keeps by blast
    qed
  qed
  then show ?thesis
    using opens_case_cong recovery_effect_appends(5) [OF assms(1)]
    unfolding cases_opened_def by (metis subset_refl)
qed

lemma recovery_step_wf:
  assumes "recovery_wf env db" "recovery_step env op db = Inr (db', r)"
  shows "recovery_wf env db'"
proof -
  have e: "recovery_effect env (recovery_op_org op) db db'" and c: "db' = db \<or> recovery_constraints db'"
    using recovery_step_effect [OF assms(2)] by simp_all
  have w: "recovery_constraints db" "ledger_numbered db" "ledger_owned db" "recoveries_backed db"
    "submissions_evidenced db" "cases_opened env db"
    using assms(1) by (simp_all add: recovery_wf_def)
  with c have c': "recovery_constraints db'" by auto
  show ?thesis
    unfolding recovery_wf_def
    using c' effect_numbered [OF e w(2)] effect_ledger_owned [OF e w(1,3)] effect_backed [OF e w(1,4,5)]
      effect_evidenced [OF e w(5)] effect_opened [OF e w(6)]
    by blast
qed

end
