(* ===== verification/Recovery_Reversals.thy ===== *)
theory Recovery_Reversals
  imports Recovery_Invariants
begin

text \<open>
  Amounts in the ledger: what the numeric column does to a posted amount, the sign of each
  entry type, and that reversals never exceed what they reverse.
\<close>

text \<open>
  A numeric column of a given scale keeps a value that has at most that many places, rounds any
  other to a value that has, and never swaps the order of two values.
\<close>

definition numeric_column :: "(nat \<Rightarrow> rat \<Rightarrow> rat) \<Rightarrow> bool" where
  "numeric_column f \<longleftrightarrow>
     (\<forall>p x y. x \<le> y \<longrightarrow> f p x \<le> f p y) \<and>
     (\<forall>p x. \<exists>n. f p x = of_int n / 10 ^ p) \<and> (\<forall>p n. f p (of_int n / 10 ^ p) = of_int n / 10 ^ p)"

definition on_grid :: "rat \<Rightarrow> bool" where
  "on_grid x \<longleftrightarrow> (\<exists>n. x = of_int n / 10 ^ 12)"

lemma on_grid_0 [simp]: "on_grid 0"
  by (auto simp: on_grid_def intro: exI [of _ 0])

lemma on_grid_add: "on_grid x \<Longrightarrow> on_grid y \<Longrightarrow> on_grid (x + y)"
  unfolding on_grid_def by (metis add_divide_distrib of_int_add)

lemma on_grid_minus: "on_grid x \<Longrightarrow> on_grid (- x)"
  unfolding on_grid_def by (metis minus_divide_left of_int_minus)

lemma on_grid_diff: "on_grid x \<Longrightarrow> on_grid y \<Longrightarrow> on_grid (x - y)"
  using on_grid_add [OF _ on_grid_minus] by fastforce

lemma on_grid_abs: "on_grid x \<Longrightarrow> on_grid \<bar>x\<bar>"
  using on_grid_minus by (auto simp: abs_if)

lemma on_grid_sum: "\<forall>x \<in> set xs. on_grid x \<Longrightarrow> on_grid (sum_list xs)"
  by (induction xs) (auto intro: on_grid_add)

lemma dctx_grid:
  assumes "on_grid x" "\<bar>x\<bar> < 10 ^ 16"
  shows "dctx x = x"
proof -
  obtain n where n: "x = of_int n / 10 ^ 12" using assms(1) by (auto simp: on_grid_def)
  have "\<bar>x\<bar> * 10 ^ 12 < 10 ^ 16 * 10 ^ 12" using assms(2) by simp
  moreover have "\<bar>x\<bar> * 10 ^ 12 = of_int \<bar>n\<bar>" unfolding n by (simp add: abs_divide)
  ultimately have "of_int \<bar>n\<bar> < (of_int (10 ^ 28) :: rat)" by simp
  then have "\<bar>n\<bar> < 10 ^ 28" by (simp only: of_int_less_iff)
  with n show ?thesis by (rule dctx_twelve_places)
qed

lemma numeric_column_grid: "numeric_column f \<Longrightarrow> on_grid (f 12 x)"
  unfolding numeric_column_def on_grid_def by blast

lemma numeric_column_fixes: "numeric_column f \<Longrightarrow> on_grid x \<Longrightarrow> f 12 x = x"
  unfolding numeric_column_def on_grid_def by blast

lemma numeric_column_mono: "numeric_column f \<Longrightarrow> x \<le> y \<Longrightarrow> f 12 x \<le> f 12 y"
  by (simp add: numeric_column_def)

section \<open>Signs\<close>

definition entry_sign_ok :: "ledger_entry \<Rightarrow> bool" where
  "entry_sign_ok e \<longleftrightarrow>
     on_grid (le_amount e) \<and>
     (le_type e = VERIFIED_RECOVERY \<or> le_type e = ADJUSTMENT_POSITIVE \<longrightarrow> 0 < le_amount e) \<and>
     (le_type e = ADJUSTMENT_NEGATIVE \<or> le_type e = REVERSAL \<longrightarrow> le_amount e < 0) \<and>
     (le_reversal_of e \<noteq> None \<longleftrightarrow> le_type e = REVERSAL)"

text \<open>What reversals of an entry took, and the bound the service keeps.\<close>

definition reversed_total :: "'a recovery_db_scheme \<Rightarrow> ledger_entry \<Rightarrow> rat" where
  "reversed_total db e = sum_list (reversals_of db (le_org e) (le_id e))"

definition reversals_bounded :: "'a recovery_db_scheme \<Rightarrow> bool" where
  "reversals_bounded db \<longleftrightarrow> (\<forall>e \<in> set (ledger db). - \<bar>le_amount e\<bar> \<le> reversed_total db e)"

definition amounts_below :: "rat \<Rightarrow> 'a recovery_db_scheme \<Rightarrow> bool" where
  "amounts_below b db \<longleftrightarrow> list_all (\<lambda>e. \<bar>le_amount e\<bar> < b) (ledger db)"

definition ledger_amounts_wf :: "'a recovery_db_scheme \<Rightarrow> bool" where
  "ledger_amounts_wf db \<longleftrightarrow>
     (\<forall>e \<in> set (ledger db). entry_sign_ok e) \<and> (amounts_below (10 ^ 16) db \<longrightarrow> reversals_bounded db)"

text \<open>An entry that was posted over the operations of the service, in a state with its constraints.\<close>

inductive posts ::
    "'e ledger_env_scheme \<Rightarrow> 'a recovery_db_scheme \<Rightarrow> ledger_entry \<Rightarrow> bool" where
  recovered: "0 < a \<Longrightarrow> le_type e = VERIFIED_RECOVERY \<Longrightarrow> le_amount e = env_numeric env 12 a \<Longrightarrow>
    le_reversal_of e = None \<Longrightarrow> posts env db e"
| adjusted_up: "0 < a \<Longrightarrow> le_type e = ADJUSTMENT_POSITIVE \<Longrightarrow> le_amount e = env_numeric env 12 a \<Longrightarrow>
    le_reversal_of e = None \<Longrightarrow> posts env db e"
| adjusted_down: "0 < a \<Longrightarrow> le_type e = ADJUSTMENT_NEGATIVE \<Longrightarrow> le_amount e = env_numeric env 12 (dneg a) \<Longrightarrow>
    le_reversal_of e = None \<Longrightarrow> posts env db e"
| reversed: "0 < a \<Longrightarrow> le_type e = REVERSAL \<Longrightarrow> le_amount e = env_numeric env 12 (dneg a) \<Longrightarrow>
    original \<in> set (ledger db) \<Longrightarrow> le_reversal_of e = Some (le_id original) \<Longrightarrow>
    le_org e = le_org original \<Longrightarrow> a \<le> remaining_value db (le_org original) original \<Longrightarrow> posts env db e"

lemma recovery_effect_posts:
  assumes "recovery_effect env org db db'"
  shows "ledger db' = ledger db \<or> (\<exists>e. ledger db' = ledger db @ [e] \<and> posts env db e)"
  using assms
proof cases
  case (measurement_verified m actor x c v p es u)
  show ?thesis
  proof (cases "es = []")
    case False
    then obtain i n where e: "es = [new_entry env c n i p actor]"
      using measurement_verified(17) by (auto simp: posting_effect_def split: if_splits)
    have "posts env db (new_entry env c n i p actor)"
      using measurement_verified by (intro recovered [of "po_amount p"]) simp_all
    with e show ?thesis by (auto simp: measurement_verified(1))
  qed (simp add: measurement_verified(1))
next
  case (entry_posted original c a p actor es u)
  show ?thesis
  proof (cases "es = []")
    case False
    then obtain i n where e: "es = [new_entry env c n i p actor]"
      using entry_posted(8) by (auto simp: posting_effect_def split: if_splits)
    have "posts env db (new_entry env c n i p actor)"
      using entry_posted(11)
    proof (elim disjE conjE)
      assume "po_type p = ADJUSTMENT_POSITIVE" "po_amount p = a" "po_reversal_of p = None"
      then show ?thesis using entry_posted(7) by (intro adjusted_up [of a]) simp_all
    next
      assume "po_type p = ADJUSTMENT_NEGATIVE" "po_amount p = dneg a" "po_reversal_of p = None"
      then show ?thesis using entry_posted(7) by (intro adjusted_down [of a]) simp_all
    next
      assume "po_type p = REVERSAL" "po_amount p = dneg a" "po_reversal_of p = Some (le_id original)"
        "a \<le> remaining_value db org original"
      then show ?thesis
        using entry_posted(2,3,6,7) by (intro reversed [of a _ env original]) simp_all
    qed
    with e show ?thesis by (auto simp: entry_posted(1))
  qed (simp add: entry_posted(1))
qed simp_all

text \<open>The constraint that no amount is zero decides what rounding to the column could not.\<close>

lemma posts_sign:
  assumes "posts env db e" "numeric_column (env_numeric env)" "le_amount e \<noteq> 0"
  shows "entry_sign_ok e"
proof -
  note g = numeric_column_grid [OF assms(2)] and m = numeric_column_mono [OF assms(2)]
  have z: "env_numeric env 12 0 = 0" using numeric_column_fixes [OF assms(2)] by simp
  have up: "0 \<le> env_numeric env 12 a" if "0 < a" for a
    using m [of 0 a] that by (simp add: z)
  have down: "env_numeric env 12 (dneg a) \<le> 0" if "0 < a" for a
    using m [of "dneg a" 0] that dctx_pos [of a] by (simp add: z dneg_def dctx_minus)
  show ?thesis
    using assms(1)
  proof cases
    case (recovered a)
    then show ?thesis using up [of a] g assms(3) by (simp add: entry_sign_ok_def)
  next
    case (adjusted_up a)
    then show ?thesis using up [of a] g assms(3) by (simp add: entry_sign_ok_def)
  next
    case (adjusted_down a)
    then show ?thesis using down [of a] g assms(3) by (simp add: entry_sign_ok_def)
  next
    case (reversed a original)
    then show ?thesis using down [of a] g assms(3) by (simp add: entry_sign_ok_def)
  qed
qed

lemma reversals_nonpos:
  assumes "\<forall>e \<in> set (ledger db). entry_sign_ok e"
  shows "\<forall>x \<in> set (reversals_of db org i). on_grid x \<and> x \<le> 0"
proof
  fix x assume "x \<in> set (reversals_of db org i)"
  then obtain e where "e \<in> set (ledger db)" "le_reversal_of e = Some i" "x = le_amount e"
    by (auto simp: reversals_of_def)
  then show "on_grid x \<and> x \<le> 0" using assms by (auto simp: entry_sign_ok_def)
qed

lemma sum_list_nonpos: "\<forall>x \<in> set xs. x \<le> 0 \<Longrightarrow> sum_list xs \<le> (0::rat)"
  by (induction xs) auto

lemma reversed_total_snoc:
  "ledger db' = ledger db @ [n] \<Longrightarrow> reversed_total db' e =
     reversed_total db e + (if le_org n = le_org e \<and> le_reversal_of n = Some (le_id e) then le_amount n else 0)"
  by (simp add: reversed_total_def reversals_of_def)

text \<open>One more reversal stays within what remains: the subtraction of the service is exact.\<close>

lemma reversal_within:
  assumes "numeric_column (env_numeric env)" "on_grid A" "\<bar>A\<bar> < 10 ^ 16" "on_grid S" "S \<le> 0" "- \<bar>A\<bar> \<le> S"
    and "a \<le> dsub (dabs A) (dabs S)"
  shows "- \<bar>A\<bar> \<le> S + env_numeric env 12 (dneg a)"
proof -
  have s: "\<bar>S\<bar> = - S" "\<bar>S\<bar> \<le> \<bar>A\<bar>" using assms(5,6) by simp_all
  have d: "\<bar>\<bar>A\<bar> + S\<bar> < 10 ^ 16" using assms(3,5,6) by linarith
  have "dabs A = \<bar>A\<bar>" "dabs S = - S"
    using dctx_grid [OF on_grid_abs [OF assms(2)]] dctx_grid [OF on_grid_abs [OF assms(4)]] assms(3) s
    by (simp_all add: dabs_def)
  then have r: "dsub (dabs A) (dabs S) = \<bar>A\<bar> + S"
    using dctx_grid [OF on_grid_add [OF on_grid_abs [OF assms(2)] assms(4)] d] by (simp add: dsub_def)
  have g: "on_grid (- (\<bar>A\<bar> + S))"
    by (intro on_grid_minus on_grid_add on_grid_abs assms(2,4))
  have "- (\<bar>A\<bar> + S) = dctx (- (\<bar>A\<bar> + S))"
    using dctx_grid [OF g] d by simp
  also have "\<dots> \<le> dneg a" using assms(7) by (simp only: r dneg_def) (intro dctx_mono, simp)
  finally have "env_numeric env 12 (- (\<bar>A\<bar> + S)) \<le> env_numeric env 12 (dneg a)"
    by (rule numeric_column_mono [OF assms(1)])
  then show ?thesis using numeric_column_fixes [OF assms(1) g] by linarith
qed

lemma new_entry_unreferenced:
  assumes "recovery_constraints db'" "ledger db' = ledger db @ [n]" "recovery_constraints db"
  shows "reversed_total db n = 0"
proof -
  have "le_id n \<notin> le_id ` set (ledger db)"
    using recovery_ids_unique(4) [OF assms(1)] by (simp add: assms(2) unique_on_snoc)
  moreover have "i \<in> le_id ` set (ledger db)" if "e \<in> set (ledger db)" "le_reversal_of e = Some i" for e i
    using assms(3) that
    by (auto simp: recovery_constraints_def ledger_ok_def list_all_iff optional_reference_def)
  ultimately have "filter (\<lambda>e. le_org e = le_org n \<and> le_reversal_of e = Some (le_id n)) (ledger db) = []"
    unfolding filter_empty_conv by blast
  then show ?thesis by (simp add: reversed_total_def reversals_of_def)
qed

lemma effect_bounded:
  assumes "recovery_effect env org db db'" "recovery_constraints db" "recovery_constraints db'"
    and "numeric_column (env_numeric env)" "ledger_amounts_wf db"
  shows "ledger_amounts_wf db'"
  using recovery_effect_posts [OF assms(1)]
proof (elim disjE exE conjE)
  assume "ledger db' = ledger db"
  then show ?thesis
    using assms(5) by (simp add: ledger_amounts_wf_def amounts_below_def reversals_bounded_def
        reversed_total_def reversals_of_def)
next
  fix n assume l: "ledger db' = ledger db @ [n]" and n: "posts env db n"
  have "le_amount n \<noteq> 0"
    using assms(3) by (simp add: recovery_constraints_def ledger_ok_def l)
  then have sn: "entry_sign_ok n" by (rule posts_sign [OF n assms(4)])
  have signs: "\<forall>e \<in> set (ledger db). entry_sign_ok e" using assms(5) by (simp add: ledger_amounts_wf_def)
  have "reversals_bounded db'" if small: "amounts_below (10 ^ 16) db'"
  proof -
    have b: "reversals_bounded db"
      using assms(5) small by (simp add: ledger_amounts_wf_def amounts_below_def l)
    have "- \<bar>le_amount e\<bar> \<le> reversed_total db' e" if e: "e \<in> set (ledger db)" for e
    proof (cases "le_org n = le_org e \<and> le_reversal_of n = Some (le_id e)")
      case True
      from n obtain a where a: "le_amount n = env_numeric env 12 (dneg a)"
        "a \<le> remaining_value db (le_org e) e"
      proof cases
        case (reversed a original)
        then have "original = e"
          using True unique_on_eq [OF recovery_ids_unique(4) [OF assms(2)], of original e] e by simp
        with reversed show ?thesis by (intro that) simp_all
      qed (use True in simp_all)
      have r: "\<forall>x \<in> set (reversals_of db (le_org e) (le_id e)). on_grid x \<and> x \<le> 0"
        by (rule reversals_nonpos [OF signs])
      have "- \<bar>le_amount e\<bar> \<le> reversed_total db e + env_numeric env 12 (dneg a)"
      proof (rule reversal_within [OF assms(4)])
        show "on_grid (le_amount e)" using signs e by (simp add: entry_sign_ok_def)
        show "\<bar>le_amount e\<bar> < 10 ^ 16" using small e by (simp add: amounts_below_def l list_all_iff)
        show "on_grid (reversed_total db e)" "reversed_total db e \<le> 0"
          unfolding reversed_total_def using r by (auto intro: on_grid_sum sum_list_nonpos)
        show "- \<bar>le_amount e\<bar> \<le> reversed_total db e" using b e by (simp add: reversals_bounded_def)
        show "a \<le> dsub (dabs (le_amount e)) (dabs (reversed_total db e))"
          using a(2) by (simp add: remaining_value_def reversed_total_def)
      qed
      then show ?thesis using True by (simp add: reversed_total_snoc [OF l] a(1))
    next
      case False
      then show ?thesis using b e by (auto simp: reversed_total_snoc [OF l] reversals_bounded_def)
    qed
    moreover have "- \<bar>le_amount n\<bar> \<le> reversed_total db' n"
    proof -
      have "le_reversal_of n \<noteq> Some (le_id n)"
        using n
      proof cases
        case (reversed a original)
        then show ?thesis
          using recovery_ids_unique(4) [OF assms(3)] by (metis l unique_on_snoc imageI option.inject)
      qed simp_all
      then show ?thesis
        using new_entry_unreferenced [OF assms(3) l assms(2)] by (simp add: reversed_total_snoc [OF l])
    qed
    ultimately show ?thesis by (simp add: reversals_bounded_def l)
  qed
  with signs sn show ?thesis by (simp add: ledger_amounts_wf_def l)
qed

end
