(* ===== verification/Economics_Service.thy ===== *)
theory Economics_Service
  imports Economics
begin

text \<open>
  The operations of the economics service (\<open>app/services/economics_service.py\<close>), in the order
  of the class. Fresh identifiers, the random opportunity code and the clock are arguments.
\<close>

section \<open>Events and lookups\<close>

definition decision_for ::
    "recovery_opportunity \<Rightarrow> opportunity_status \<Rightarrow> string \<Rightarrow> uuid \<Rightarrow> string \<Rightarrow> string \<Rightarrow>
     opportunity_status option \<Rightarrow> uuid option \<Rightarrow> int option \<Rightarrow> string list \<Rightarrow> timestamp option \<Rightarrow>
     timestamp \<Rightarrow> opportunity_decision" where
  "decision_for o' decision reason actor role key prior scenario version conditions review now =
     \<lparr>od_org = ro_org o', od_opportunity = ro_id o', od_key = key, od_prior = prior,
      od_decision = decision, od_reason = reason, od_actor = actor, od_role = role,
      od_scenario = scenario, od_baseline_version = version, od_conditions = conditions,
      od_review_at = review, od_decided_at = now\<rparr>"

definition audit_for ::
    "recovery_opportunity \<Rightarrow> economic_event \<Rightarrow> uuid \<Rightarrow> economic_audit_key \<Rightarrow> string \<Rightarrow> economic_audit" where
  "audit_for o' t actor key reason =
     \<lparr>eu_org = ro_org o', eu_opportunity = ro_id o', eu_event = t, eu_actor = actor, eu_key = key,
      eu_reason = reason\<rparr>"

definition add_audit :: "economic_audit \<Rightarrow> 'a economics_db_scheme \<Rightarrow> 'a economics_db_scheme" where
  "add_audit u db = db\<lparr>economic_audits := economic_audits db @ [u]\<rparr>"

definition put_opportunity ::
    "recovery_opportunity \<Rightarrow> 'a economics_db_scheme \<Rightarrow> 'a economics_db_scheme" where
  "put_opportunity o' db = db\<lparr>opportunities := put_row ro_id o' (opportunities db)\<rparr>"

definition opportunity_get ::
    "'a economics_db_scheme \<Rightarrow> uuid \<Rightarrow> uuid \<Rightarrow> economics_service_error + recovery_opportunity" where
  "opportunity_get db org i = tenant_get ro_id ro_org OpportunityNotFound (opportunities db) org i"

definition require_mutable :: "recovery_opportunity \<Rightarrow> economics_service_error + unit" where
  "require_mutable o' = require (ro_status o' \<noteq> O_APPROVED) ApprovedBaselineImmutable"

definition scenario_get ::
    "'a economics_db_scheme \<Rightarrow> uuid \<Rightarrow> uuid \<Rightarrow> uuid \<Rightarrow> economics_service_error + economic_scenario" where
  "scenario_get db org opp i =
     bindE (opportunity_get db org opp) (\<lambda>_.
       of_option ScenarioNotFound
         (find (\<lambda>s. es_id s = i \<and> es_opportunity s = opp \<and> es_org s = org) (scenarios db)))"

section \<open>Opportunities\<close>

record opportunity_payload =
  oc_key :: string
  oc_source_key :: string
  oc_title :: string
  oc_description :: string
  oc_currency :: string
  oc_domain :: "string option"
  oc_site :: "string option"
  oc_pack :: "string option"
  oc_capability :: "string option"
  oc_owner :: "uuid option"
  oc_limitations :: "string list"

definition new_opportunity :: "uuid \<Rightarrow> uuid \<Rightarrow> string \<Rightarrow> opportunity_payload \<Rightarrow> uuid \<Rightarrow> recovery_opportunity" where
  "new_opportunity org new_id code p actor =
     \<lparr>ro_id = new_id, ro_org = org, ro_code = code, ro_key = oc_key p,
      ro_source_key = oc_source_key p, ro_title = oc_title p, ro_description = oc_description p,
      ro_domain = oc_domain p, ro_site = oc_site p, ro_pack = oc_pack p,
      ro_capability = oc_capability p, ro_owner = oc_owner p, ro_status = O_DRAFT,
      ro_priority = None, ro_scenario = None, ro_baseline_version = None,
      ro_currency = oc_currency p, ro_limitations = Some (oc_limitations p),
      ro_created_by = actor\<rparr>"

definition opportunity_create ::
    "'a economics_db_scheme \<Rightarrow> uuid \<Rightarrow> uuid \<Rightarrow> string \<Rightarrow> opportunity_payload \<Rightarrow> uuid \<Rightarrow> timestamp \<Rightarrow>
     economics_service_error + 'a economics_db_scheme \<times> economics_row" where
  "opportunity_create db org new_id code p actor now =
     (case find (\<lambda>o'. ro_org o' = org \<and> (ro_key o' = oc_key p \<or> ro_source_key o' = oc_source_key p))
             (opportunities db) of
        Some existing \<Rightarrow> Inr (db, OpportunityRow existing)
      | None \<Rightarrow>
          let o' = new_opportunity org new_id code p actor;
              d = decision_for o' O_DRAFT ''Opportunity created'' actor ''system''
                    (''created:'' @ oc_key p) None None None [] None now;
              u = audit_for o' EE_OPPORTUNITY_CREATED actor (AK_Created (oc_key p))
                    ''Recovery opportunity created''
          in commit_economics
               (add_audit u (db\<lparr>opportunities := opportunities db @ [o'],
                                decisions := decisions db @ [d]\<rparr>)) (OpportunityRow o'))"

text \<open>
  An update sets the fields the request names, each to the value given, possibly null. The
  title and the description are not nullable.
\<close>

datatype opportunity_change =
    SetTitle "string option" | SetDescription "string option" | SetDomain "string option"
  | SetSite "string option" | SetOwner "uuid option" | SetLimitations "string list option"

fun apply_change ::
    "opportunity_change \<Rightarrow> recovery_opportunity \<Rightarrow> economics_service_error + recovery_opportunity" where
  "apply_change (SetTitle t) o' =
     bindE (of_option EconomicsIntegrityError t) (\<lambda>t. Inr (o'\<lparr>ro_title := t\<rparr>))"
| "apply_change (SetDescription t) o' =
     bindE (of_option EconomicsIntegrityError t) (\<lambda>t. Inr (o'\<lparr>ro_description := t\<rparr>))"
| "apply_change (SetDomain d) o' = Inr (o'\<lparr>ro_domain := d\<rparr>)"
| "apply_change (SetSite s) o' = Inr (o'\<lparr>ro_site := s\<rparr>)"
| "apply_change (SetOwner u) o' = Inr (o'\<lparr>ro_owner := u\<rparr>)"
| "apply_change (SetLimitations ls) o' = Inr (o'\<lparr>ro_limitations := ls\<rparr>)"

fun apply_changes ::
    "opportunity_change list \<Rightarrow> recovery_opportunity \<Rightarrow> economics_service_error + recovery_opportunity" where
  "apply_changes [] o' = Inr o'"
| "apply_changes (c # cs) o' = bindE (apply_change c o') (apply_changes cs)"

definition opportunity_update ::
    "'a economics_db_scheme \<Rightarrow> uuid \<Rightarrow> uuid \<Rightarrow> opportunity_change list \<Rightarrow> uuid \<Rightarrow> uuid \<Rightarrow>
     economics_service_error + 'a economics_db_scheme \<times> economics_row" where
  "opportunity_update db org i changes actor fresh =
     bindE (opportunity_get db org i) (\<lambda>o'.
     bindE (require (ro_status o' \<noteq> O_APPROVED) ApprovedOpportunityImmutable) (\<lambda>_.
     bindE (apply_changes changes o') (\<lambda>o2.
     commit_economics
       (add_audit (audit_for o' EE_OPPORTUNITY_UPDATED actor (AK_Update fresh)
                     ''Recovery opportunity metadata updated'') (put_opportunity o2 db))
       (OpportunityRow o2))))"

section \<open>Links\<close>

definition opportunity_add_finding ::
    "action_env \<Rightarrow> 'a economics_db_scheme \<Rightarrow> uuid \<Rightarrow> uuid \<Rightarrow> uuid \<Rightarrow> rat \<Rightarrow> string \<Rightarrow> uuid \<Rightarrow>
     economics_service_error + 'a economics_db_scheme \<times> economics_row" where
  "opportunity_add_finding env db org i finding allocation relationship actor =
     bindE (opportunity_get db org i) (\<lambda>o'.
     bindE (require ((finding, org) \<in> set (finding_rows db)) FindingNotFound) (\<lambda>_.
     case find (\<lambda>l. lf_opportunity l = i \<and> lf_finding l = finding) (finding_links db) of
       Some existing \<Rightarrow> Inr (db, FindingLinkRow existing)
     | None \<Rightarrow>
         let l = \<lparr>lf_org = org, lf_opportunity = i, lf_finding = finding,
                  lf_allocation = env_numeric env 7 allocation, lf_relationship = relationship,
                  lf_created_by = actor\<rparr>
         in commit_economics
              (add_audit (audit_for o' EE_FINDING_LINKED actor (AK_Finding i finding)
                            ''Finding linked to recovery opportunity'')
                 (db\<lparr>finding_links := finding_links db @ [l]\<rparr>)) (FindingLinkRow l)))"

definition opportunity_add_action ::
    "'a economics_db_scheme \<Rightarrow> uuid \<Rightarrow> uuid \<Rightarrow> uuid \<Rightarrow> string \<Rightarrow> uuid \<Rightarrow>
     economics_service_error + 'a economics_db_scheme \<times> economics_row" where
  "opportunity_add_action db org i action relationship actor =
     bindE (opportunity_get db org i) (\<lambda>o'.
     bindE (require (find (\<lambda>a. oa_id a = action \<and> oa_org a = org) (actions db) \<noteq> None)
              LinkedActionNotFound) (\<lambda>_.
     case find (\<lambda>l. la_opportunity l = i \<and> la_action l = action) (action_links db) of
       Some existing \<Rightarrow> Inr (db, ActionLinkRow existing)
     | None \<Rightarrow>
         let l = \<lparr>la_org = org, la_opportunity = i, la_action = action,
                  la_relationship = relationship, la_created_by = actor\<rparr>
         in commit_economics
              (add_audit (audit_for o' EE_ACTION_LINKED actor (AK_Action i action)
                            ''Operational action linked to recovery opportunity'')
                 (db\<lparr>action_links := action_links db @ [l]\<rparr>)) (ActionLinkRow l)))"

section \<open>Scenarios\<close>

record scenario_payload =
  sc_code :: string
  sc_name :: string
  sc_currency :: string
  sc_lower :: rat
  sc_gross :: rat
  sc_upper :: rat
  sc_addressability :: rat
  sc_recoverability :: rat
  sc_success :: rat
  sc_cost :: rat
  sc_period_days :: "int option"
  sc_probability :: rat
  sc_measurement_period :: "string option"
  sc_exclusive_group :: "string option"
  sc_assumptions :: "string list"

definition scenario_versions :: "'a economics_db_scheme \<Rightarrow> uuid \<Rightarrow> string \<Rightarrow> int list" where
  "scenario_versions db opp code =
     map es_version (filter (\<lambda>s. es_opportunity s = opp \<and> es_code s = code) (scenarios db))"

definition new_scenario ::
    "action_env \<Rightarrow> uuid \<Rightarrow> uuid \<Rightarrow> uuid \<Rightarrow> int \<Rightarrow> scenario_payload \<Rightarrow> uuid \<Rightarrow> economic_scenario" where
  "new_scenario env org opp new_id version p actor =
     \<lparr>es_id = new_id, es_org = org, es_opportunity = opp, es_code = sc_code p,
      es_version = version, es_name = sc_name p, es_currency = sc_currency p,
      es_lower = env_numeric env 12 (sc_lower p), es_gross = env_numeric env 12 (sc_gross p),
      es_upper = env_numeric env 12 (sc_upper p),
      es_addressability = env_numeric env 7 (sc_addressability p),
      es_recoverability = env_numeric env 7 (sc_recoverability p),
      es_success = env_numeric env 7 (sc_success p), es_cost = env_numeric env 12 (sc_cost p),
      es_period_days = sc_period_days p, es_probability = env_numeric env 7 (sc_probability p),
      es_measurement_period = sc_measurement_period p,
      es_exclusive_group = sc_exclusive_group p, es_assumptions = sc_assumptions p,
      es_active = True, es_created_by = actor\<rparr>"

definition scenario_create ::
    "action_env \<Rightarrow> 'a economics_db_scheme \<Rightarrow> uuid \<Rightarrow> uuid \<Rightarrow> uuid \<Rightarrow> scenario_payload \<Rightarrow> uuid \<Rightarrow>
     economics_service_error + 'a economics_db_scheme \<times> economics_row" where
  "scenario_create env db org i new_id p actor =
     bindE (opportunity_get db org i) (\<lambda>o'.
     bindE (require_mutable o') (\<lambda>_.
     bindE (require (sc_currency p = ro_currency o') CurrencyMismatch) (\<lambda>_.
     let version = next_number (scenario_versions db i (sc_code p));
         s = new_scenario env org i new_id version p actor
     in commit_economics
          (add_audit (audit_for o' EE_SCENARIO_CREATED actor (AK_Scenario (sc_code p) version)
                        ''Economic scenario version created'')
             (db\<lparr>scenarios := scenarios db @ [s]\<rparr>)) (ScenarioRow s))))"

section \<open>Assumptions\<close>

record assumption_payload =
  as_scenario :: "uuid option"
  as_code :: string
  as_value :: rat
  as_unit :: string
  as_currency :: "string option"
  as_source :: string
  as_source_reference :: "string option"
  as_evidence_reference :: "string option"
  as_confidence :: rat
  as_effective_at :: "timestamp option"
  as_expires_at :: "timestamp option"
  as_model_version :: string

text \<open>The first row of an \<open>ORDER BY ... DESC\<close> query; of equal keys, the first inserted.\<close>

fun latest_by :: "('r \<Rightarrow> int) \<Rightarrow> 'r list \<Rightarrow> 'r option" where
  "latest_by f [] = None"
| "latest_by f (r # rs) =
     (case latest_by f rs of None \<Rightarrow> Some r | Some t \<Rightarrow> if f r < f t then Some t else Some r)"

definition active_assumptions :: "'a economics_db_scheme \<Rightarrow> uuid \<Rightarrow> string \<Rightarrow> economic_assumption list" where
  "active_assumptions db opp code =
     filter (\<lambda>a. ea_opportunity a = opp \<and> ea_code a = code \<and> \<not> ea_superseded a) (assumptions db)"

definition new_assumption ::
    "action_env \<Rightarrow> uuid \<Rightarrow> uuid \<Rightarrow> uuid \<Rightarrow> int \<Rightarrow> assumption_payload \<Rightarrow> uuid \<Rightarrow> economic_assumption" where
  "new_assumption env org opp new_id version p actor =
     \<lparr>ea_id = new_id, ea_org = org, ea_opportunity = opp, ea_scenario = as_scenario p,
      ea_code = as_code p, ea_version = version, ea_value = env_numeric env 12 (as_value p),
      ea_unit = as_unit p, ea_currency = as_currency p, ea_source = as_source p,
      ea_source_reference = as_source_reference p,
      ea_evidence_reference = as_evidence_reference p,
      ea_confidence = env_numeric env 7 (as_confidence p), ea_effective_at = as_effective_at p,
      ea_expires_at = as_expires_at p, ea_model_version = as_model_version p,
      ea_superseded = False, ea_entered_by = actor, ea_approved_by = None\<rparr>"

definition supersede ::
    "economic_assumption option \<Rightarrow> economic_assumption list \<Rightarrow> economic_assumption list" where
  "supersede previous as =
     (case previous of None \<Rightarrow> as | Some a \<Rightarrow> put_row ea_id (a\<lparr>ea_superseded := True\<rparr>) as)"

definition assumption_add ::
    "action_env \<Rightarrow> 'a economics_db_scheme \<Rightarrow> uuid \<Rightarrow> uuid \<Rightarrow> uuid \<Rightarrow> assumption_payload \<Rightarrow> uuid \<Rightarrow>
     economics_service_error + 'a economics_db_scheme \<times> economics_row" where
  "assumption_add env db org i new_id p actor =
     bindE (opportunity_get db org i) (\<lambda>o'.
     bindE (require_mutable o') (\<lambda>_.
     bindE (case as_scenario p of
              None \<Rightarrow> Inr () | Some s \<Rightarrow> bindE (scenario_get db org i s) (\<lambda>_. Inr ())) (\<lambda>_.
     bindE (require (as_currency p = None \<or> as_currency p = Some (ro_currency o')) CurrencyMismatch) (\<lambda>_.
     let previous = latest_by ea_version (active_assumptions db i (as_code p));
         version = (case previous of None \<Rightarrow> 1 | Some a \<Rightarrow> ea_version a + 1);
         a = new_assumption env org i new_id version p actor
     in commit_economics
          (add_audit (audit_for o' EE_ASSUMPTION_CREATED actor (AK_Assumption (as_code p) version)
                        ''Economic assumption version created'')
             (db\<lparr>assumptions := supersede previous (assumptions db) @ [a]\<rparr>)) (AssumptionRow a)))))"

definition assumption_revise ::
    "action_env \<Rightarrow> 'a economics_db_scheme \<Rightarrow> uuid \<Rightarrow> uuid \<Rightarrow> uuid \<Rightarrow> uuid \<Rightarrow> assumption_payload \<Rightarrow> uuid \<Rightarrow>
     economics_service_error + 'a economics_db_scheme \<times> economics_row" where
  "assumption_revise env db org i assumption new_id p actor =
     bindE (of_option AssumptionNotFound
              (find (\<lambda>a. ea_id a = assumption \<and> ea_opportunity a = i \<and> ea_org a = org \<and>
                         \<not> ea_superseded a) (assumptions db))) (\<lambda>previous.
     bindE (require (as_code p = ea_code previous) AssumptionCodeMismatch) (\<lambda>_.
     assumption_add env db org i new_id p actor))"

section \<open>Calculations\<close>

definition scenario_input :: "economic_scenario \<Rightarrow> economic_input" where
  "scenario_input s =
     \<lparr>ei_gross = es_gross s, ei_addressability = es_addressability s,
      ei_recoverability = es_recoverability s, ei_success = es_success s, ei_cost = es_cost s,
      ei_period_days = es_period_days s\<rparr>"

definition new_calculation ::
    "action_env \<Rightarrow> recovery_opportunity \<Rightarrow> economic_scenario \<Rightarrow> economic_result \<Rightarrow> string list \<Rightarrow> uuid \<Rightarrow>
     string \<Rightarrow> string \<Rightarrow> uuid \<Rightarrow> timestamp \<Rightarrow> economic_calculation" where
  "new_calculation env o' s r limitations new_id key reason actor now =
     \<lparr>ec_id = new_id, ec_org = ro_org o', ec_opportunity = ro_id o', ec_scenario = es_id s,
      ec_key = key, ec_currency = es_currency s, ec_gross = env_numeric env 12 (er_gross r),
      ec_addressable = env_numeric env 12 (er_addressable r),
      ec_recoverable = env_numeric env 12 (er_recoverable r),
      ec_adjusted = env_numeric env 12 (er_adjusted r), ec_cost = env_numeric env 12 (er_cost r),
      ec_net = env_numeric env 12 (er_net r),
      ec_roi = map_option (env_numeric env 12) (er_roi r),
      ec_payback = map_option (env_numeric env 6) (er_payback r), ec_policy = er_policy r,
      ec_scenario_version = es_version s, ec_reason = reason, ec_limitations = limitations,
      ec_calculated_by = actor, ec_calculated_at = now\<rparr>"

definition lift_engine :: "economics_error + 'a \<Rightarrow> economics_service_error + 'a" where
  "lift_engine m = (case m of Inl e \<Rightarrow> Inl (EngineError e) | Inr x \<Rightarrow> Inr x)"

definition opportunity_calculate ::
    "action_env \<Rightarrow> 'a economics_db_scheme \<Rightarrow> uuid \<Rightarrow> uuid \<Rightarrow> uuid \<Rightarrow> uuid \<Rightarrow> string \<Rightarrow> string \<Rightarrow> uuid \<Rightarrow>
     timestamp \<Rightarrow> economics_service_error + 'a economics_db_scheme \<times> economics_row" where
  "opportunity_calculate env db org i new_id scenario key reason actor now =
     bindE (opportunity_get db org i) (\<lambda>o'.
     bindE (scenario_get db org i scenario) (\<lambda>s.
     case find (\<lambda>c. ec_opportunity c = i \<and> ec_key c = key) (calculations db) of
       Some existing \<Rightarrow> Inr (db, CalculationRow existing)
     | None \<Rightarrow>
         bindE (lift_engine (calculate_economics (scenario_input s))) (\<lambda>r.
         bindE (of_option LimitationsNotIterable (ro_limitations o')) (\<lambda>limitations.
         let c = new_calculation env o' s r limitations new_id key reason actor now
         in commit_economics
              (add_audit (audit_for o' EE_CALCULATION_RUN actor (AK_Calculation key) reason)
                 (put_opportunity (o'\<lparr>ro_scenario := Some (es_id s)\<rparr>)
                    (db\<lparr>calculations := calculations db @ [c]\<rparr>))) (CalculationRow c)))))"

section \<open>Prioritizations\<close>

record prioritize_payload =
  zp_calculation :: uuid
  zp_key :: string
  zp_profile :: string
  zp_urgency :: rat
  zp_confidence :: rat
  zp_feasibility :: rat
  zp_alignment :: rat
  zp_risk :: rat
  zp_dependency_ready :: bool
  zp_resource_ready :: bool
  zp_reason :: string
  zp_sources :: "json list"

definition priority_input_of :: "economic_calculation \<Rightarrow> prioritize_payload \<Rightarrow> opportunity_input" where
  "priority_input_of c p =
     \<lparr>oi_adjusted = ec_adjusted c, oi_net = ec_net c, oi_roi = ec_roi c, oi_payback = ec_payback c,
      oi_urgency = zp_urgency p, oi_confidence = zp_confidence p,
      oi_feasibility = zp_feasibility p, oi_alignment = zp_alignment p, oi_risk = zp_risk p,
      oi_dependency_ready = zp_dependency_ready p, oi_resource_ready = zp_resource_ready p\<rparr>"

definition new_prioritization ::
    "action_env \<Rightarrow> uuid \<Rightarrow> uuid \<Rightarrow> economic_calculation \<Rightarrow> opportunity_priority \<Rightarrow> uuid \<Rightarrow>
     prioritize_payload \<Rightarrow> uuid \<Rightarrow> timestamp \<Rightarrow> prioritization" where
  "new_prioritization env org opp c r new_id p actor now =
     \<lparr>pz_id = new_id, pz_org = org, pz_opportunity = opp, pz_calculation = ec_id c,
      pz_key = zp_key p, pz_profile = zp_profile p, pz_weights = op_weights r,
      pz_factors = op_factors r, pz_contributions = op_contributions r,
      pz_score = env_numeric env 2 (op_score r), pz_category = op_category r,
      pz_reason = zp_reason p, pz_limitations = op_limitations r, pz_sources = zp_sources p,
      pz_calculated_by = actor, pz_calculated_at = now\<rparr>"

definition opportunity_prioritize ::
    "action_env \<Rightarrow> 'a economics_db_scheme \<Rightarrow> uuid \<Rightarrow> uuid \<Rightarrow> uuid \<Rightarrow> prioritize_payload \<Rightarrow> uuid \<Rightarrow>
     timestamp \<Rightarrow> economics_service_error + 'a economics_db_scheme \<times> economics_row" where
  "opportunity_prioritize env db org i new_id p actor now =
     bindE (opportunity_get db org i) (\<lambda>o'.
     bindE (of_option CalculationNotFound
              (find (\<lambda>c. ec_id c = zp_calculation p \<and> ec_opportunity c = i \<and> ec_org c = org)
                 (calculations db))) (\<lambda>c.
     case find (\<lambda>z. pz_opportunity z = i \<and> pz_key z = zp_key p) (prioritizations db) of
       Some existing \<Rightarrow> Inr (db, PrioritizationRow existing)
     | None \<Rightarrow>
         bindE (of_option ProfileNotFound (weighting_profile (zp_profile p))) (\<lambda>ws.
         bindE (lift_engine (calculate_opportunity_priority (priority_input_of c p) ws)) (\<lambda>r.
         let z = new_prioritization env org i c r new_id p actor now
         in commit_economics
              (add_audit (audit_for o' EE_PRIORITIZATION_RUN actor (AK_Priority (zp_key p)) (zp_reason p))
                 (put_opportunity (o'\<lparr>ro_priority := Some (op_category r)\<rparr>)
                    (db\<lparr>prioritizations := prioritizations db @ [z]\<rparr>))) (PrioritizationRow z)))))"

section \<open>Overlaps\<close>

definition overlap_group_create ::
    "'a economics_db_scheme \<Rightarrow> uuid \<Rightarrow> uuid \<Rightarrow> string \<Rightarrow> string \<Rightarrow> string option \<Rightarrow> uuid \<Rightarrow>
     economics_service_error + 'a economics_db_scheme \<times> economics_row" where
  "overlap_group_create db org new_id key type reason actor =
     (case find (\<lambda>g. og_org g = org \<and> og_key g = key) (overlap_groups db) of
        Some existing \<Rightarrow> Inr (db, OverlapGroupRow existing)
      | None \<Rightarrow>
          let g = \<lparr>og_id = new_id, og_org = org, og_key = key, og_type = type,
                   og_status = ''active'', og_reason = reason, og_created_by = actor\<rparr>
          in commit_economics (db\<lparr>overlap_groups := overlap_groups db @ [g]\<rparr>) (OverlapGroupRow g))"

record overlap_payload =
  vp_opportunity :: uuid
  vp_parent :: "uuid option"
  vp_allocation :: rat
  vp_inclusion :: string

definition overlap_member_add ::
    "action_env \<Rightarrow> 'a economics_db_scheme \<Rightarrow> uuid \<Rightarrow> uuid \<Rightarrow> overlap_payload \<Rightarrow> uuid \<Rightarrow>
     economics_service_error + 'a economics_db_scheme \<times> economics_row" where
  "overlap_member_add env db org grp p actor =
     bindE (require (find (\<lambda>g. og_id g = grp \<and> og_org g = org) (overlap_groups db) \<noteq> None)
              OverlapNotFound) (\<lambda>_.
     bindE (opportunity_get db org (vp_opportunity p)) (\<lambda>o'.
     bindE (case vp_parent p of
              None \<Rightarrow> Inr () | Some q \<Rightarrow> bindE (opportunity_get db org q) (\<lambda>_. Inr ())) (\<lambda>_.
     case find (\<lambda>m. om_group m = grp \<and> om_opportunity m = vp_opportunity p) (overlap_members db) of
       Some existing \<Rightarrow> Inr (db, OverlapMemberRow existing)
     | None \<Rightarrow>
         let m = \<lparr>om_org = org, om_group = grp, om_opportunity = vp_opportunity p,
                  om_parent = vp_parent p, om_allocation = env_numeric env 7 (vp_allocation p),
                  om_inclusion = vp_inclusion p\<rparr>
         in commit_economics
              (add_audit (audit_for o' EE_OVERLAP_REGISTERED actor (AK_Overlap grp (vp_opportunity p))
                            ''Opportunity overlap allocation registered'')
                 (db\<lparr>overlap_members := overlap_members db @ [m]\<rparr>)) (OverlapMemberRow m))))"

section \<open>Decisions\<close>

record decision_payload =
  dc_decision :: opportunity_status
  dc_reason :: string
  dc_key :: string
  dc_scenario :: "uuid option"
  dc_prioritization :: "uuid option"
  dc_conditions :: "string list"
  dc_review_at :: "timestamp option"

definition required_economics ::
    "'a economics_db_scheme \<Rightarrow> uuid \<Rightarrow> recovery_opportunity \<Rightarrow> decision_payload \<Rightarrow>
     economics_service_error + economic_scenario \<times> economic_calculation \<times> prioritization" where
  "required_economics db org o' p =
     (case (dc_scenario p, dc_prioritization p) of
        (Some scenario, Some priority) \<Rightarrow>
          bindE (scenario_get db org (ro_id o') scenario) (\<lambda>s.
          bindE (of_option PriorityNotFound
                   (find (\<lambda>z. pz_id z = priority \<and> pz_opportunity z = ro_id o' \<and> pz_org z = org)
                      (prioritizations db))) (\<lambda>z.
          bindE (of_option CalculationNotFound
                   (find (\<lambda>c. ec_id c = pz_calculation z \<and> ec_scenario c = es_id s \<and> ec_org c = org)
                      (calculations db))) (\<lambda>c.
          Inr (s, c, z))))
      | _ \<Rightarrow> Inl EconomicInputsRequired)"

definition economic_snapshot_of :: "economic_calculation \<Rightarrow> prioritization \<Rightarrow> economic_snapshot" where
  "economic_snapshot_of c z =
     \<lparr>sn_gross = ec_gross c, sn_addressable = ec_addressable c, sn_recoverable = ec_recoverable c,
      sn_adjusted = ec_adjusted c, sn_cost = ec_cost c, sn_net = ec_net c, sn_roi = ec_roi c,
      sn_score = pz_score z, sn_category = pz_category z\<rparr>"

definition assumption_version_of :: "economic_assumption \<Rightarrow> assumption_version" where
  "assumption_version_of a =
     \<lparr>av_id = ea_id a, av_code = ea_code a, av_version = ea_version a, av_value = ea_value a,
      av_unit = ea_unit a\<rparr>"

definition freeze_baseline ::
    "'a economics_db_scheme \<Rightarrow> recovery_opportunity \<Rightarrow> economic_scenario \<Rightarrow> economic_calculation \<Rightarrow>
     prioritization \<Rightarrow> uuid \<Rightarrow> uuid \<Rightarrow> string \<Rightarrow> timestamp \<Rightarrow> economic_baseline" where
  "freeze_baseline db o' s c z new_id actor key now =
     \<lparr>bl_id = new_id, bl_org = ro_org o', bl_opportunity = ro_id o', bl_scenario = es_id s,
      bl_calculation = ec_id c, bl_prioritization = pz_id z,
      bl_version = (case ro_baseline_version o' of None \<Rightarrow> 0 | Some v \<Rightarrow> v) + 1, bl_key = key,
      bl_currency = ec_currency c, bl_snapshot = economic_snapshot_of c z,
      bl_assumptions = map assumption_version_of
        (filter (\<lambda>a. ea_opportunity a = ro_id o' \<and> \<not> ea_superseded a) (assumptions db)),
      bl_approved_by = actor, bl_approved_at = now\<rparr>"

definition decision_economics ::
    "'a economics_db_scheme \<Rightarrow> uuid \<Rightarrow> recovery_opportunity \<Rightarrow> decision_payload \<Rightarrow> string \<Rightarrow>
     economics_service_error + (economic_scenario \<times> economic_calculation \<times> prioritization) option" where
  "decision_economics db org o' p role =
     (if dc_decision p = O_QUALIFIED \<or> dc_decision p = O_APPROVED then
        bindE (required_economics db org o' p) (\<lambda>scz.
        if dc_decision p = O_APPROVED
        then bindE (require (role \<in> set admin_roles) DecisionApprovalForbidden) (\<lambda>_. Inr (Some scz))
        else Inr None)
      else Inr None)"

definition opportunity_decide ::
    "'a economics_db_scheme \<Rightarrow> uuid \<Rightarrow> uuid \<Rightarrow> uuid \<Rightarrow> decision_payload \<Rightarrow> uuid \<Rightarrow> string \<Rightarrow> timestamp \<Rightarrow>
     economics_service_error + 'a economics_db_scheme \<times> economics_row" where
  "opportunity_decide db org i new_id p actor role now =
     bindE (opportunity_get db org i) (\<lambda>o'.
     case find (\<lambda>d. od_opportunity d = i \<and> od_key d = dc_key p) (decisions db) of
       Some existing \<Rightarrow> Inr (db, DecisionRow o' existing None)
     | None \<Rightarrow>
         bindE (case require_opportunity_transition (ro_status o') (dc_decision p) of
                  Inl e \<Rightarrow> Inl (DecisionTransitionInvalid e) | Inr u \<Rightarrow> Inr u) (\<lambda>_.
         bindE (decision_economics db org o' p role) (\<lambda>economics.
         let frozen = map_option (\<lambda>(s, c, z).
               (s, freeze_baseline db o' s c z new_id actor (dc_key p) now)) economics;
             o1 = (case frozen of
                     None \<Rightarrow> o'
                   | Some (s, b) \<Rightarrow> o'\<lparr>ro_baseline_version := Some (bl_version b), ro_scenario := Some (es_id s)\<rparr>);
             o2 = o1\<lparr>ro_status := dc_decision p\<rparr>;
             d = decision_for o' (dc_decision p) (dc_reason p) actor role (dc_key p)
                   (Some (ro_status o')) (dc_scenario p) (map_option (bl_version \<circ> snd) frozen)
                   (dc_conditions p) (dc_review_at p) now;
             bs = (case frozen of None \<Rightarrow> [] | Some (_, b) \<Rightarrow> [b])
         in commit_economics
              (add_audit (audit_for o' EE_DECISION_RECORDED actor (AK_Decision (dc_key p)) (dc_reason p))
                 (put_opportunity o2 (db\<lparr>baselines := baselines db @ bs, decisions := decisions db @ [d]\<rparr>)))
              (DecisionRow o2 d (map_option snd frozen)))))"

section \<open>Requests\<close>

datatype economics_op =
    CreateOpportunity uuid uuid string opportunity_payload uuid timestamp
  | UpdateOpportunity uuid uuid "opportunity_change list" uuid uuid
  | AddFindingLink uuid uuid uuid rat string uuid
  | AddActionLink uuid uuid uuid string uuid
  | CreateScenario uuid uuid uuid scenario_payload uuid
  | AddAssumption uuid uuid uuid assumption_payload uuid
  | ReviseAssumption uuid uuid uuid uuid assumption_payload uuid
  | CalculateOpportunity uuid uuid uuid uuid string string uuid timestamp
  | PrioritizeOpportunity uuid uuid uuid prioritize_payload uuid timestamp
  | CreateOverlapGroup uuid uuid string string "string option" uuid
  | AddOverlapMember uuid uuid overlap_payload uuid
  | DecideOpportunity uuid uuid uuid decision_payload uuid string timestamp

fun economics_op_org :: "economics_op \<Rightarrow> uuid" where
  "economics_op_org (CreateOpportunity org _ _ _ _ _) = org"
| "economics_op_org (UpdateOpportunity org _ _ _ _) = org"
| "economics_op_org (AddFindingLink org _ _ _ _ _) = org"
| "economics_op_org (AddActionLink org _ _ _ _) = org"
| "economics_op_org (CreateScenario org _ _ _ _) = org"
| "economics_op_org (AddAssumption org _ _ _ _) = org"
| "economics_op_org (ReviseAssumption org _ _ _ _ _) = org"
| "economics_op_org (CalculateOpportunity org _ _ _ _ _ _ _) = org"
| "economics_op_org (PrioritizeOpportunity org _ _ _ _ _) = org"
| "economics_op_org (CreateOverlapGroup org _ _ _ _ _) = org"
| "economics_op_org (AddOverlapMember org _ _ _) = org"
| "economics_op_org (DecideOpportunity org _ _ _ _ _ _) = org"

fun economics_step ::
    "action_env \<Rightarrow> economics_op \<Rightarrow> 'a economics_db_scheme \<Rightarrow>
     economics_service_error + 'a economics_db_scheme \<times> economics_row" where
  "economics_step env (CreateOpportunity org j code p actor now) db =
     opportunity_create db org j code p actor now"
| "economics_step env (UpdateOpportunity org i cs actor fresh) db =
     opportunity_update db org i cs actor fresh"
| "economics_step env (AddFindingLink org i f q t actor) db =
     opportunity_add_finding env db org i f q t actor"
| "economics_step env (AddActionLink org i a t actor) db = opportunity_add_action db org i a t actor"
| "economics_step env (CreateScenario org i j p actor) db = scenario_create env db org i j p actor"
| "economics_step env (AddAssumption org i j p actor) db = assumption_add env db org i j p actor"
| "economics_step env (ReviseAssumption org i a j p actor) db =
     assumption_revise env db org i a j p actor"
| "economics_step env (CalculateOpportunity org i j s key reason actor now) db =
     opportunity_calculate env db org i j s key reason actor now"
| "economics_step env (PrioritizeOpportunity org i j p actor now) db =
     opportunity_prioritize env db org i j p actor now"
| "economics_step env (CreateOverlapGroup org j key t reason actor) db =
     overlap_group_create db org j key t reason actor"
| "economics_step env (AddOverlapMember org g p actor) db = overlap_member_add env db org g p actor"
| "economics_step env (DecideOpportunity org i j p actor role now) db =
     opportunity_decide db org i j p actor role now"

end
