(* ===== verification/Economics_Proofs.thy ===== *)
theory Economics_Proofs
  imports Economics_Service
begin

text \<open>
  What one request does to the economics tables, as a relation with a rule per kind of
  effect, and that every operation of the service has such an effect.
\<close>

section \<open>Changes of an opportunity\<close>

inductive opportunity_evolves :: "recovery_opportunity \<Rightarrow> recovery_opportunity \<Rightarrow> bool" where
  described: "ro_status o' \<noteq> O_APPROVED \<Longrightarrow> apply_changes cs o' = Inr o2 \<Longrightarrow> opportunity_evolves o' o2"
| scenario_selected: "opportunity_evolves o' (o'\<lparr>ro_scenario := s\<rparr>)"
| prioritized: "opportunity_evolves o' (o'\<lparr>ro_priority := c\<rparr>)"
| moved: "t \<in> set (opportunity_transitions (ro_status o')) \<Longrightarrow> t \<noteq> O_APPROVED \<Longrightarrow>
    opportunity_evolves o' (o'\<lparr>ro_status := t\<rparr>)"
| approved: "O_APPROVED \<in> set (opportunity_transitions (ro_status o')) \<Longrightarrow>
    opportunity_evolves o' (o'\<lparr>ro_baseline_version := Some v, ro_scenario := s, ro_status := O_APPROVED\<rparr>)"

lemma apply_change_keeps:
  "apply_change c o' = Inr o2 \<Longrightarrow>
     ro_id o2 = ro_id o' \<and> ro_org o2 = ro_org o' \<and> ro_currency o2 = ro_currency o' \<and>
     ro_status o2 = ro_status o' \<and> ro_baseline_version o2 = ro_baseline_version o' \<and>
     ro_key o2 = ro_key o' \<and> ro_source_key o2 = ro_source_key o' \<and> ro_scenario o2 = ro_scenario o'"
  by (cases c) auto

lemma apply_changes_keeps:
  "apply_changes cs o' = Inr o2 \<Longrightarrow>
     ro_id o2 = ro_id o' \<and> ro_org o2 = ro_org o' \<and> ro_currency o2 = ro_currency o' \<and>
     ro_status o2 = ro_status o' \<and> ro_baseline_version o2 = ro_baseline_version o' \<and>
     ro_key o2 = ro_key o' \<and> ro_source_key o2 = ro_source_key o' \<and> ro_scenario o2 = ro_scenario o'"
proof (induction cs arbitrary: o')
  case Nil
  then show ?case by simp
next
  case (Cons c cs)
  then obtain o1 where o1: "apply_change c o' = Inr o1" "apply_changes cs o1 = Inr o2" by auto
  from apply_change_keeps [OF o1(1)] Cons.IH [OF o1(2)] show ?case by simp
qed

lemma opportunity_evolves_keeps:
  assumes "opportunity_evolves o' o2"
  shows "ro_id o2 = ro_id o' \<and> ro_org o2 = ro_org o' \<and> ro_currency o2 = ro_currency o' \<and>
    (ro_status o2 = ro_status o' \<or> ro_status o2 \<in> set (opportunity_transitions (ro_status o')))"
  using assms by cases (auto dest: apply_changes_keeps)

definition opportunity_is_new :: "recovery_opportunity \<Rightarrow> bool" where
  "opportunity_is_new o' \<longleftrightarrow> ro_status o' = O_DRAFT \<and> ro_baseline_version o' = None"

section \<open>Results as stored\<close>

definition stores_result :: "action_env \<Rightarrow> economic_calculation \<Rightarrow> economic_result \<Rightarrow> bool" where
  "stores_result env c r \<longleftrightarrow>
     ec_gross c = env_numeric env 12 (er_gross r) \<and>
     ec_addressable c = env_numeric env 12 (er_addressable r) \<and>
     ec_recoverable c = env_numeric env 12 (er_recoverable r) \<and>
     ec_adjusted c = env_numeric env 12 (er_adjusted r) \<and>
     ec_cost c = env_numeric env 12 (er_cost r) \<and> ec_net c = env_numeric env 12 (er_net r) \<and>
     ec_roi c = map_option (env_numeric env 12) (er_roi r) \<and>
     ec_payback c = map_option (env_numeric env 6) (er_payback r) \<and> ec_policy c = er_policy r"

definition calculation_of ::
    "action_env \<Rightarrow> economic_calculation \<Rightarrow> economic_scenario \<Rightarrow> bool" where
  "calculation_of env c s \<longleftrightarrow>
     ec_scenario c = es_id s \<and> ec_opportunity c = es_opportunity s \<and> ec_org c = es_org s \<and>
     ec_currency c = es_currency s \<and> ec_scenario_version c = es_version s \<and>
     (\<exists>r. calculate_economics (scenario_input s) = Inr r \<and> stores_result env c r)"

definition priority_of :: "action_env \<Rightarrow> prioritization \<Rightarrow> economic_calculation \<Rightarrow> bool" where
  "priority_of env z c \<longleftrightarrow>
     pz_calculation z = ec_id c \<and> pz_opportunity z = ec_opportunity c \<and> pz_org z = ec_org c \<and>
     (\<exists>p ws r. weighting_profile (pz_profile z) = Some ws \<and>
        calculate_opportunity_priority (priority_input_of c p) ws = Inr r \<and>
        pz_weights z = op_weights r \<and> pz_factors z = op_factors r \<and>
        pz_contributions z = op_contributions r \<and> pz_limitations z = op_limitations r \<and>
        pz_score z = env_numeric env 2 (op_score r) \<and> pz_category z = op_category r)"

definition baseline_of ::
    "economic_baseline \<Rightarrow> economic_scenario \<Rightarrow> economic_calculation \<Rightarrow> prioritization \<Rightarrow> bool" where
  "baseline_of b s c z \<longleftrightarrow>
     bl_scenario b = es_id s \<and> bl_opportunity b = es_opportunity s \<and>
     bl_calculation b = ec_id c \<and> ec_scenario c = es_id s \<and> bl_prioritization b = pz_id z \<and>
     pz_calculation z = ec_id c \<and> pz_opportunity z = bl_opportunity b \<and>
     bl_currency b = ec_currency c \<and> bl_snapshot b = economic_snapshot_of c z"

section \<open>Effects\<close>

inductive economics_effect ::
    "action_env \<Rightarrow> uuid \<Rightarrow> 'a economics_db_scheme \<Rightarrow> 'a economics_db_scheme \<Rightarrow> bool" where
  kept: "economics_effect env org db db"
| opportunity_added: "ro_org o' = org \<Longrightarrow> opportunity_is_new o' \<Longrightarrow> od_org d = org \<Longrightarrow>
    od_opportunity d = ro_id o' \<Longrightarrow> od_prior d = None \<Longrightarrow> od_decision d = O_DRAFT \<Longrightarrow>
    eu_org u = org \<Longrightarrow>
    economics_effect env org db
      (db\<lparr>opportunities := opportunities db @ [o'], decisions := decisions db @ [d],
          economic_audits := economic_audits db @ [u]\<rparr>)"
| opportunity_updated: "o' \<in> set (opportunities db) \<Longrightarrow> ro_org o' = org \<Longrightarrow>
    ro_status o' \<noteq> O_APPROVED \<Longrightarrow> apply_changes cs o' = Inr o2 \<Longrightarrow> eu_org u = org \<Longrightarrow>
    economics_effect env org db
      (db\<lparr>opportunities := put_row ro_id o2 (opportunities db),
          economic_audits := economic_audits db @ [u]\<rparr>)"
| finding_linked: "lf_org l = org \<Longrightarrow> eu_org u = org \<Longrightarrow>
    economics_effect env org db
      (db\<lparr>finding_links := finding_links db @ [l], economic_audits := economic_audits db @ [u]\<rparr>)"
| action_linked: "la_org k = org \<Longrightarrow> eu_org u = org \<Longrightarrow>
    economics_effect env org db
      (db\<lparr>action_links := action_links db @ [k], economic_audits := economic_audits db @ [u]\<rparr>)"
| scenario_added: "o' \<in> set (opportunities db) \<Longrightarrow> ro_org o' = org \<Longrightarrow> ro_status o' \<noteq> O_APPROVED \<Longrightarrow>
    es_org s = org \<Longrightarrow> es_opportunity s = ro_id o' \<Longrightarrow> es_currency s = ro_currency o' \<Longrightarrow>
    es_version s = next_number (scenario_versions db (ro_id o') (es_code s)) \<Longrightarrow> eu_org u = org \<Longrightarrow>
    economics_effect env org db
      (db\<lparr>scenarios := scenarios db @ [s], economic_audits := economic_audits db @ [u]\<rparr>)"
| assumption_added: "o' \<in> set (opportunities db) \<Longrightarrow> ro_org o' = org \<Longrightarrow> ro_status o' \<noteq> O_APPROVED \<Longrightarrow>
    ea_org a = org \<Longrightarrow> ea_opportunity a = ro_id o' \<Longrightarrow> \<not> ea_superseded a \<Longrightarrow>
    previous = latest_by ea_version (active_assumptions db (ro_id o') (ea_code a)) \<Longrightarrow>
    ea_version a = (case previous of None \<Rightarrow> 1 | Some b \<Rightarrow> ea_version b + 1) \<Longrightarrow> eu_org u = org \<Longrightarrow>
    economics_effect env org db
      (db\<lparr>assumptions := supersede previous (assumptions db) @ [a],
          economic_audits := economic_audits db @ [u]\<rparr>)"
| calculated: "o' \<in> set (opportunities db) \<Longrightarrow> ro_org o' = org \<Longrightarrow> s \<in> set (scenarios db) \<Longrightarrow>
    es_org s = org \<Longrightarrow> es_opportunity s = ro_id o' \<Longrightarrow> calculation_of env c s \<Longrightarrow> eu_org u = org \<Longrightarrow>
    economics_effect env org db
      (db\<lparr>opportunities := put_row ro_id (o'\<lparr>ro_scenario := Some (es_id s)\<rparr>) (opportunities db),
          calculations := calculations db @ [c], economic_audits := economic_audits db @ [u]\<rparr>)"
| prioritization_added: "o' \<in> set (opportunities db) \<Longrightarrow> ro_org o' = org \<Longrightarrow> c \<in> set (calculations db) \<Longrightarrow>
    ec_org c = org \<Longrightarrow> ec_opportunity c = ro_id o' \<Longrightarrow> priority_of env z c \<Longrightarrow> eu_org u = org \<Longrightarrow>
    economics_effect env org db
      (db\<lparr>opportunities := put_row ro_id (o'\<lparr>ro_priority := Some (pz_category z)\<rparr>) (opportunities db),
          prioritizations := prioritizations db @ [z], economic_audits := economic_audits db @ [u]\<rparr>)"
| group_added: "og_org g = org \<Longrightarrow>
    economics_effect env org db (db\<lparr>overlap_groups := overlap_groups db @ [g]\<rparr>)"
| member_added: "om_org m = org \<Longrightarrow> eu_org u = org \<Longrightarrow>
    economics_effect env org db
      (db\<lparr>overlap_members := overlap_members db @ [m], economic_audits := economic_audits db @ [u]\<rparr>)"
| decided: "o' \<in> set (opportunities db) \<Longrightarrow> ro_org o' = org \<Longrightarrow>
    od_decision d \<in> set (opportunity_transitions (ro_status o')) \<Longrightarrow> od_decision d \<noteq> O_APPROVED \<Longrightarrow>
    od_org d = org \<Longrightarrow> od_opportunity d = ro_id o' \<Longrightarrow> od_prior d = Some (ro_status o') \<Longrightarrow>
    eu_org u = org \<Longrightarrow>
    economics_effect env org db
      (db\<lparr>opportunities := put_row ro_id (o'\<lparr>ro_status := od_decision d\<rparr>) (opportunities db),
          decisions := decisions db @ [d], economic_audits := economic_audits db @ [u]\<rparr>)"
| approval: "o' \<in> set (opportunities db) \<Longrightarrow> ro_org o' = org \<Longrightarrow>
    O_APPROVED \<in> set (opportunity_transitions (ro_status o')) \<Longrightarrow>
    od_decision d = O_APPROVED \<Longrightarrow> od_role d \<in> set admin_roles \<Longrightarrow>
    od_org d = org \<Longrightarrow> od_opportunity d = ro_id o' \<Longrightarrow> od_prior d = Some (ro_status o') \<Longrightarrow>
    od_baseline_version d = Some (bl_version b) \<Longrightarrow> od_key d = bl_key b \<Longrightarrow>
    od_actor d = bl_approved_by b \<Longrightarrow> bl_org b = org \<Longrightarrow> bl_opportunity b = ro_id o' \<Longrightarrow>
    bl_version b = (case ro_baseline_version o' of None \<Rightarrow> 0 | Some v \<Rightarrow> v) + 1 \<Longrightarrow>
    bl_assumptions b = map assumption_version_of
      (filter (\<lambda>a. ea_opportunity a = ro_id o' \<and> \<not> ea_superseded a) (assumptions db)) \<Longrightarrow>
    s \<in> set (scenarios db) \<Longrightarrow> c \<in> set (calculations db) \<Longrightarrow> z \<in> set (prioritizations db) \<Longrightarrow>
    baseline_of b s c z \<Longrightarrow> eu_org u = org \<Longrightarrow>
    economics_effect env org db
      (db\<lparr>opportunities := put_row ro_id (o'\<lparr>ro_baseline_version := Some (bl_version b),
            ro_scenario := Some (es_id s), ro_status := O_APPROVED\<rparr>) (opportunities db),
          decisions := decisions db @ [d], economic_audits := economic_audits db @ [u],
          baselines := baselines db @ [b]\<rparr>)"

lemma commit_economicsD:
  "commit_economics db r = Inr (db', r') \<Longrightarrow> db' = db \<and> r' = r \<and> economics_constraints db'"
  by (auto simp: commit_economics_def)

lemma opportunity_getD:
  "opportunity_get db org i = Inr o' \<Longrightarrow> o' \<in> set (opportunities db) \<and> ro_id o' = i \<and> ro_org o' = org"
  unfolding opportunity_get_def by (rule tenant_getD)

lemma scenario_getD:
  "scenario_get db org i j = Inr s \<Longrightarrow>
     s \<in> set (scenarios db) \<and> es_id s = j \<and> es_opportunity s = i \<and> es_org s = org"
  unfolding scenario_get_def by (auto dest: find_SomeD)

lemma audit_for_simps [simp]:
  "eu_org (audit_for o' t actor key reason) = ro_org o'"
  "eu_opportunity (audit_for o' t actor key reason) = ro_id o'"
  by (simp_all add: audit_for_def)

lemma decision_for_simps [simp]:
  "od_org (decision_for o' t r a ro k p s v cs rv now) = ro_org o'"
  "od_opportunity (decision_for o' t r a ro k p s v cs rv now) = ro_id o'"
  "od_decision (decision_for o' t r a ro k p s v cs rv now) = t"
  "od_prior (decision_for o' t r a ro k p s v cs rv now) = p"
  "od_role (decision_for o' t r a ro k p s v cs rv now) = ro"
  "od_key (decision_for o' t r a ro k p s v cs rv now) = k"
  "od_actor (decision_for o' t r a ro k p s v cs rv now) = a"
  "od_baseline_version (decision_for o' t r a ro k p s v cs rv now) = v"
  by (simp_all add: decision_for_def)

lemmas economics_write_defs = add_audit_def put_opportunity_def

section \<open>Every operation has an effect\<close>

lemma opportunity_create_effect:
  assumes "opportunity_create db org j code p actor now = Inr (db', r)"
  shows "economics_effect env org db db' \<and> (db' = db \<or> economics_constraints db')"
  using assms
  by (auto simp: opportunity_create_def Let_def economics_write_defs opportunity_is_new_def
      new_opportunity_def dest!: commit_economicsD split: option.splits
      intro!: opportunity_added intro: kept)

lemma opportunity_update_effect:
  assumes "opportunity_update db org i cs actor fresh = Inr (db', r)"
  shows "economics_effect env org db db' \<and> (db' = db \<or> economics_constraints db')"
  using assms
  by (auto simp: opportunity_update_def economics_write_defs
      dest!: commit_economicsD opportunity_getD intro!: opportunity_updated)

lemma links_effect:
  "opportunity_add_finding env db org i f q t actor = Inr (db', r) \<Longrightarrow>
     economics_effect env org db db' \<and> (db' = db \<or> economics_constraints db')"
  "opportunity_add_action db org i a t actor = Inr (db', r) \<Longrightarrow>
     economics_effect env org db db' \<and> (db' = db \<or> economics_constraints db')"
  by (auto simp: opportunity_add_finding_def opportunity_add_action_def Let_def
      economics_write_defs dest!: commit_economicsD opportunity_getD split: option.splits
      intro!: finding_linked action_linked intro: kept)

lemma scenario_create_effect:
  assumes "scenario_create env db org i j p actor = Inr (db', r)"
  shows "economics_effect env org db db' \<and> (db' = db \<or> economics_constraints db')"
  using assms
  by (auto simp: scenario_create_def Let_def economics_write_defs require_mutable_def
      new_scenario_def dest!: commit_economicsD opportunity_getD intro!: scenario_added)

lemma assumption_add_effect:
  assumes "assumption_add env db org i j p actor = Inr (db', r)"
  shows "economics_effect env org db db' \<and> (db' = db \<or> economics_constraints db')"
proof -
  obtain o' where o: "opportunity_get db org i = Inr o'" "ro_status o' \<noteq> O_APPROVED"
    using assms by (auto simp: assumption_add_def require_mutable_def)
  define previous where "previous = latest_by ea_version (active_assumptions db i (as_code p))"
  define a where "a = new_assumption env org i j
    (case previous of None \<Rightarrow> 1 | Some b \<Rightarrow> ea_version b + 1) p actor"
  define u where "u = audit_for o' EE_ASSUMPTION_CREATED actor (AK_Assumption (as_code p)
    (case previous of None \<Rightarrow> 1 | Some b \<Rightarrow> ea_version b + 1)) ''Economic assumption version created''"
  have "db' = db\<lparr>assumptions := supersede previous (assumptions db) @ [a],
      economic_audits := economic_audits db @ [u]\<rparr> \<and> economics_constraints db'"
    using assms o by (auto simp: assumption_add_def Let_def add_audit_def
        previous_def a_def u_def dest!: commit_economicsD)
  moreover have "economics_effect env org db (db\<lparr>assumptions := supersede previous (assumptions db) @ [a],
      economic_audits := economic_audits db @ [u]\<rparr>)"
    using opportunity_getD [OF o(1)] o(2)
    by (intro assumption_added [of o']) (simp_all add: a_def u_def new_assumption_def previous_def)
  ultimately show ?thesis by metis
qed

lemma assumption_revise_effect:
  assumes "assumption_revise env db org i x j p actor = Inr (db', r)"
  shows "economics_effect env org db db' \<and> (db' = db \<or> economics_constraints db')"
  using assms by (auto simp: assumption_revise_def dest: assumption_add_effect)

lemma lift_engine_Inr [simp]: "lift_engine m = Inr x \<longleftrightarrow> m = Inr x"
  by (cases m) (simp_all add: lift_engine_def)

lemma calculate_effect:
  assumes "opportunity_calculate env db org i j sc key reason actor now = Inr (db', r)"
  shows "economics_effect env org db db' \<and> (db' = db \<or> economics_constraints db')"
proof -
  obtain o' s where o: "opportunity_get db org i = Inr o'" "scenario_get db org i sc = Inr s"
    using assms by (auto simp: opportunity_calculate_def)
  show ?thesis
  proof (cases "find (\<lambda>c. ec_opportunity c = i \<and> ec_key c = key) (calculations db)")
    case (Some c)
    then show ?thesis using assms o by (auto simp: opportunity_calculate_def intro: kept)
  next
    case None
    obtain res ls where r: "calculate_economics (scenario_input s) = Inr res" "ro_limitations o' = Some ls"
      using assms o None by (auto simp: opportunity_calculate_def)
    let ?c = "new_calculation env o' s res ls j key reason actor now"
    let ?u = "audit_for o' EE_CALCULATION_RUN actor (AK_Calculation key) reason"
    have "calculation_of env ?c s"
      using r opportunity_getD [OF o(1)] scenario_getD [OF o(2)]
      by (simp add: calculation_of_def new_calculation_def stores_result_def)
    then have "economics_effect env org db
      (db\<lparr>opportunities := put_row ro_id (o'\<lparr>ro_scenario := Some (es_id s)\<rparr>) (opportunities db),
          calculations := calculations db @ [?c], economic_audits := economic_audits db @ [?u]\<rparr>)"
      using opportunity_getD [OF o(1)] scenario_getD [OF o(2)] by (intro calculated) simp_all
    moreover have "db' = db\<lparr>opportunities := put_row ro_id (o'\<lparr>ro_scenario := Some (es_id s)\<rparr>) (opportunities db),
          calculations := calculations db @ [?c], economic_audits := economic_audits db @ [?u]\<rparr> \<and>
        economics_constraints db'"
      using assms o None r
      by (auto simp: opportunity_calculate_def Let_def economics_write_defs dest!: commit_economicsD)
    ultimately show ?thesis by metis
  qed
qed

lemma prioritize_effect:
  assumes "opportunity_prioritize env db org i j p actor now = Inr (db', r)"
  shows "economics_effect env org db db' \<and> (db' = db \<or> economics_constraints db')"
proof -
  obtain o' c where o: "opportunity_get db org i = Inr o'"
    "find (\<lambda>c. ec_id c = zp_calculation p \<and> ec_opportunity c = i \<and> ec_org c = org) (calculations db) = Some c"
    using assms by (auto simp: opportunity_prioritize_def)
  note O = opportunity_getD [OF o(1)] and C = find_SomeD [OF o(2)]
  show ?thesis
  proof (cases "find (\<lambda>z. pz_opportunity z = i \<and> pz_key z = zp_key p) (prioritizations db)")
    case (Some z)
    then show ?thesis using assms o by (auto simp: opportunity_prioritize_def intro: kept)
  next
    case None
    obtain ws res where r: "weighting_profile (zp_profile p) = Some ws"
      "calculate_opportunity_priority (priority_input_of c p) ws = Inr res"
      using assms o None by (auto simp: opportunity_prioritize_def)
    let ?z = "new_prioritization env org i c res j p actor now"
    let ?u = "audit_for o' EE_PRIORITIZATION_RUN actor (AK_Priority (zp_key p)) (zp_reason p)"
    have z: "priority_of env ?z c" "pz_category ?z = op_category res"
      using r C by (auto simp: priority_of_def new_prioritization_def)
    then have "economics_effect env org db
      (db\<lparr>opportunities := put_row ro_id (o'\<lparr>ro_priority := Some (op_category res)\<rparr>) (opportunities db),
          prioritizations := prioritizations db @ [?z], economic_audits := economic_audits db @ [?u]\<rparr>)"
      unfolding z(2) [symmetric] using O C by (intro prioritization_added) simp_all
    moreover have "db' = db\<lparr>opportunities := put_row ro_id (o'\<lparr>ro_priority := Some (op_category res)\<rparr>) (opportunities db),
          prioritizations := prioritizations db @ [?z], economic_audits := economic_audits db @ [?u]\<rparr> \<and>
        economics_constraints db'"
      using assms o None r
      by (auto simp: opportunity_prioritize_def Let_def economics_write_defs dest!: commit_economicsD)
    ultimately show ?thesis by metis
  qed
qed

lemma overlaps_effect:
  "overlap_group_create db org j key t reason actor = Inr (db', r) \<Longrightarrow>
     economics_effect env org db db' \<and> (db' = db \<or> economics_constraints db')"
  "overlap_member_add env db org g p actor = Inr (db', r) \<Longrightarrow>
     economics_effect env org db db' \<and> (db' = db \<or> economics_constraints db')"
  by (auto simp: overlap_group_create_def overlap_member_add_def Let_def
      economics_write_defs dest!: commit_economicsD opportunity_getD split: option.splits
      intro!: group_added member_added intro: kept)

lemma required_economicsD:
  assumes "required_economics db org o' p = Inr (s, c, z)"
  shows "s \<in> set (scenarios db) \<and> c \<in> set (calculations db) \<and> z \<in> set (prioritizations db) \<and>
    es_opportunity s = ro_id o' \<and> ec_scenario c = es_id s \<and> pz_calculation z = ec_id c \<and>
    pz_opportunity z = ro_id o'"
  using assms
  by (auto simp: required_economics_def dest!: scenario_getD find_SomeD split: option.splits)

lemma decision_economicsD:
  assumes "decision_economics db org o' p role = Inr e"
  shows "(e = None \<longleftrightarrow> dc_decision p \<noteq> O_APPROVED) \<and>
    (\<forall>scz. e = Some scz \<longrightarrow> role \<in> set admin_roles \<and> required_economics db org o' p = Inr scz)"
  using assms by (auto simp: decision_economics_def split: if_splits)

lemma decide_effect:
  assumes "opportunity_decide db org i j p actor role now = Inr (db', r)"
  shows "economics_effect env org db db' \<and> (db' = db \<or> economics_constraints db')"
proof -
  obtain o' where o: "opportunity_get db org i = Inr o'"
    using assms by (auto simp: opportunity_decide_def)
  note O = opportunity_getD [OF o]
  show ?thesis
  proof (cases "find (\<lambda>d. od_opportunity d = i \<and> od_key d = dc_key p) (decisions db)")
    case (Some d)
    then show ?thesis using assms o by (auto simp: opportunity_decide_def intro: kept)
  next
    case None
    have t: "dc_decision p \<in> set (opportunity_transitions (ro_status o'))"
      using assms o None
      by (auto simp: opportunity_decide_def require_opportunity_transition_def split: sum.splits)
    obtain e where e: "decision_economics db org o' p role = Inr e"
      using assms o None by (auto simp: opportunity_decide_def)
    note E = decision_economicsD [OF e]
    let ?u = "audit_for o' EE_DECISION_RECORDED actor (AK_Decision (dc_key p)) (dc_reason p)"
    let ?d = "\<lambda>v. decision_for o' (dc_decision p) (dc_reason p) actor role (dc_key p)
      (Some (ro_status o')) (dc_scenario p) v (dc_conditions p) (dc_review_at p) now"
    show ?thesis
    proof (cases e)
      case e0: None
      have "db' = db\<lparr>opportunities := put_row ro_id (o'\<lparr>ro_status := od_decision (?d None)\<rparr>) (opportunities db),
          decisions := decisions db @ [?d None], economic_audits := economic_audits db @ [?u]\<rparr> \<and>
        economics_constraints db'"
        using assms o None e e0
        by (auto simp: opportunity_decide_def Let_def economics_write_defs dest!: commit_economicsD
            split: sum.splits)
      moreover have "economics_effect env org db
        (db\<lparr>opportunities := put_row ro_id (o'\<lparr>ro_status := od_decision (?d None)\<rparr>) (opportunities db),
          decisions := decisions db @ [?d None], economic_audits := economic_audits db @ [?u]\<rparr>)"
        using O t E e0 by (intro decided) simp_all
      ultimately show ?thesis by metis
    next
      case (Some scz)
      obtain s c z where scz: "scz = (s, c, z)" by (cases scz)
      have q: "role \<in> set admin_roles" "required_economics db org o' p = Inr (s, c, z)"
        "dc_decision p = O_APPROVED"
        using E Some scz by simp_all
      let ?b = "freeze_baseline db o' s c z j actor (dc_key p) now"
      note R = required_economicsD [OF q(2)]
      have b: "baseline_of ?b s c z"
        using R by (simp add: baseline_of_def freeze_baseline_def)
      have "db' = db\<lparr>opportunities := put_row ro_id (o'\<lparr>ro_baseline_version := Some (bl_version ?b),
            ro_scenario := Some (es_id s), ro_status := O_APPROVED\<rparr>) (opportunities db),
          decisions := decisions db @ [?d (Some (bl_version ?b))],
          economic_audits := economic_audits db @ [?u], baselines := baselines db @ [?b]\<rparr> \<and>
        economics_constraints db'"
        using assms o None e Some scz q(3)
        by (auto simp: opportunity_decide_def Let_def economics_write_defs dest!: commit_economicsD
            split: sum.splits)
      moreover have "economics_effect env org db
        (db\<lparr>opportunities := put_row ro_id (o'\<lparr>ro_baseline_version := Some (bl_version ?b),
            ro_scenario := Some (es_id s), ro_status := O_APPROVED\<rparr>) (opportunities db),
          decisions := decisions db @ [?d (Some (bl_version ?b))],
          economic_audits := economic_audits db @ [?u], baselines := baselines db @ [?b]\<rparr>)"
        using O t q R b by (intro approval) (simp_all add: freeze_baseline_def)
      ultimately show ?thesis by metis
    qed
  qed
qed

lemma economics_step_effect:
  assumes "economics_step env op db = Inr (db', r)"
  shows "economics_effect env (economics_op_org op) db db' \<and> (db' = db \<or> economics_constraints db')"
  using assms
  by (cases op) (auto dest: opportunity_create_effect opportunity_update_effect links_effect
      scenario_create_effect assumption_add_effect assumption_revise_effect calculate_effect
      prioritize_effect overlaps_effect decide_effect)

end
