(* ===== verification/Economics_Invariants.thy ===== *)
theory Economics_Invariants
  imports Economics_Proofs
begin

text \<open>
  The invariants of the economics tables: decision trails that replay to the status, baselines
  in one-to-one correspondence with administrators' approvals, stored results that the engine
  reproduces from their scenario, assumption versions of which only the last is active.
\<close>

section \<open>Definitions\<close>

definition decision_trail ::
    "'a economics_db_scheme \<Rightarrow> uuid \<Rightarrow> (opportunity_status option \<times> opportunity_status option) list" where
  "decision_trail db i = map (\<lambda>d. (od_prior d, Some (od_decision d)))
     (filter (\<lambda>d. od_opportunity d = i) (decisions db))"

text \<open>Before its creation an opportunity has no status; then the table of the code applies.\<close>

definition status_graph :: "opportunity_status option \<Rightarrow> opportunity_status option list" where
  "status_graph s = (case s of None \<Rightarrow> [Some O_DRAFT] | Some t \<Rightarrow> map Some (opportunity_transitions t))"

definition decisions_replay :: "'a economics_db_scheme \<Rightarrow> bool" where
  "decisions_replay db \<longleftrightarrow> (\<forall>o' \<in> set (opportunities db).
     replay status_graph None (decision_trail db (ro_id o')) = Some (Some (ro_status o')))"

definition baselines_of :: "'a economics_db_scheme \<Rightarrow> uuid \<Rightarrow> economic_baseline list" where
  "baselines_of db i = filter (\<lambda>b. bl_opportunity b = i) (baselines db)"

definition baselines_counted :: "'a economics_db_scheme \<Rightarrow> bool" where
  "baselines_counted db \<longleftrightarrow> (\<forall>o' \<in> set (opportunities db).
     numbered (map bl_version (baselines_of db (ro_id o'))) \<and>
     ro_baseline_version o' = (let n = length (baselines_of db (ro_id o'))
                               in if n = 0 then None else Some (int n)))"

definition approved_has_version :: "recovery_opportunity \<Rightarrow> bool" where
  "approved_has_version o' \<longleftrightarrow> (ro_status o' = O_APPROVED \<longrightarrow> ro_baseline_version o' \<noteq> None)"

definition approvals_of :: "'a economics_db_scheme \<Rightarrow> (uuid \<times> string \<times> uuid \<times> int option) list" where
  "approvals_of db = map (\<lambda>d. (od_opportunity d, od_key d, od_actor d, od_baseline_version d))
     (filter (\<lambda>d. od_decision d = O_APPROVED) (decisions db))"

definition baselines_are_approvals :: "'a economics_db_scheme \<Rightarrow> bool" where
  "baselines_are_approvals db \<longleftrightarrow>
     approvals_of db =
       map (\<lambda>b. (bl_opportunity b, bl_key b, bl_approved_by b, Some (bl_version b))) (baselines db) \<and>
     (\<forall>d \<in> set (decisions db). od_decision d = O_APPROVED \<longrightarrow> od_role d \<in> set admin_roles)"

definition baselines_backed :: "'a economics_db_scheme \<Rightarrow> bool" where
  "baselines_backed db \<longleftrightarrow> (\<forall>b \<in> set (baselines db).
     \<exists>s \<in> set (scenarios db). \<exists>c \<in> set (calculations db). \<exists>z \<in> set (prioritizations db).
       baseline_of b s c z)"

definition calculations_reproduced :: "action_env \<Rightarrow> 'a economics_db_scheme \<Rightarrow> bool" where
  "calculations_reproduced env db \<longleftrightarrow>
     (\<forall>c \<in> set (calculations db). \<exists>s \<in> set (scenarios db). calculation_of env c s) \<and>
     (\<forall>z \<in> set (prioritizations db). \<exists>c \<in> set (calculations db). priority_of env z c)"

definition assumptions_of :: "'a economics_db_scheme \<Rightarrow> uuid \<Rightarrow> string \<Rightarrow> economic_assumption list" where
  "assumptions_of db i code = filter (\<lambda>a. ea_opportunity a = i \<and> ea_code a = code) (assumptions db)"

definition versioned :: "economic_assumption list \<Rightarrow> bool" where
  "versioned as \<longleftrightarrow> numbered (map ea_version as) \<and>
     (as \<noteq> [] \<longrightarrow> list_all ea_superseded (butlast as) \<and> \<not> ea_superseded (last as))"

definition assumptions_versioned :: "'a economics_db_scheme \<Rightarrow> bool" where
  "assumptions_versioned db \<longleftrightarrow> (\<forall>i code. versioned (assumptions_of db i code))"

definition scenarios_versioned :: "'a economics_db_scheme \<Rightarrow> bool" where
  "scenarios_versioned db \<longleftrightarrow> (\<forall>i code. numbered (scenario_versions db i code)) \<and>
     (\<forall>s \<in> set (scenarios db). \<exists>o' \<in> set (opportunities db).
        ro_id o' = es_opportunity s \<and> ro_currency o' = es_currency s \<and> ro_org o' = es_org s)"

definition assumptions_owned :: "'a economics_db_scheme \<Rightarrow> bool" where
  "assumptions_owned db \<longleftrightarrow> (\<forall>a \<in> set (assumptions db). \<exists>o' \<in> set (opportunities db).
     ro_id o' = ea_opportunity a \<and> ro_org o' = ea_org a)"

definition economics_wf :: "action_env \<Rightarrow> 'a economics_db_scheme \<Rightarrow> bool" where
  "economics_wf env db \<longleftrightarrow>
     economics_constraints db \<and> decisions_replay db \<and> baselines_counted db \<and>
     (\<forall>o' \<in> set (opportunities db). approved_has_version o') \<and> baselines_are_approvals db \<and>
     baselines_backed db \<and> calculations_reproduced env db \<and> assumptions_versioned db \<and>
     scenarios_versioned db \<and> assumptions_owned db"

section \<open>The tables after an effect\<close>

lemma opportunity_ids_unique: "economics_constraints db \<Longrightarrow> unique_on ro_id (opportunities db)"
  by (simp add: economics_constraints_def opportunities_ok_def)

lemma effect_opportunities:
  assumes "economics_effect env org db db'"
  shows "table_step ro_id ro_org opportunity_is_new opportunity_evolves org
    (opportunities db) (opportunities db')"
  using assms
proof cases
  case (opportunity_added o' d u)
  then show ?thesis by (auto intro: table_step_add)
next
  case (opportunity_updated o' cs o2 u)
  note k = apply_changes_keeps [OF opportunity_updated(5)] described [OF opportunity_updated(4,5)]
  show ?thesis
    using k opportunity_updated(2,3) by (auto simp: opportunity_updated(1) intro: table_step_put)
next
  case (calculated o' s c u)
  then show ?thesis by (auto intro!: table_step_put scenario_selected)
next
  case (prioritization_added o' c z u)
  then show ?thesis by (auto intro!: table_step_put prioritized)
next
  case (decided o' d u)
  then show ?thesis by (auto intro!: table_step_put moved)
next
  case (approval o' d b s c z u)
  then show ?thesis by (auto intro!: table_step_put approved)
qed simp_all

lemma effect_appends:
  assumes "economics_effect env org db db'"
  shows "\<exists>xs. scenarios db' = scenarios db @ xs"
    "\<exists>xs. calculations db' = calculations db @ xs"
    "\<exists>xs. prioritizations db' = prioritizations db @ xs"
    "\<exists>xs. decisions db' = decisions db @ xs"
    "\<exists>xs. baselines db' = baselines db @ xs"
    "\<exists>xs. economic_audits db' = economic_audits db @ xs"
  using assms by (cases, simp_all)+

text \<open>Nothing refers to an opportunity that is only now inserted.\<close>

lemma new_opportunity_unreferenced:
  assumes "economics_constraints db" "economics_constraints db'"
    and "opportunities db' = opportunities db @ [o']"
  shows "d \<in> set (decisions db) \<Longrightarrow> od_opportunity d \<noteq> ro_id o'"
    "b \<in> set (baselines db) \<Longrightarrow> bl_opportunity b \<noteq> ro_id o'"
proof -
  have new: "ro_id o' \<notin> ro_id ` set (opportunities db)"
    using opportunity_ids_unique [OF assms(2)] by (simp add: assms(3) unique_on_snoc)
  show "od_opportunity d \<noteq> ro_id o'" if "d \<in> set (decisions db)"
  proof -
    have "od_opportunity d \<in> ro_id ` set (opportunities db)"
      using assms(1) that by (simp add: economics_constraints_def decisions_ok_def list_all_iff)
    with new show ?thesis by metis
  qed
  show "bl_opportunity b \<noteq> ro_id o'" if "b \<in> set (baselines db)"
  proof -
    have "bl_opportunity b \<in> ro_id ` set (opportunities db)"
      using assms(1) that by (simp add: economics_constraints_def baselines_ok_def list_all_iff)
    with new show ?thesis by metis
  qed
qed

text \<open>Where a row of the new table comes from when one row was rewritten.\<close>

lemma put_opportunity_cases:
  assumes "economics_constraints db" "o' \<in> set (opportunities db)" "ro_id o2 = ro_id o'"
    and "x \<in> set (put_row ro_id o2 (opportunities db))"
  shows "x = o2 \<or> x \<in> set (opportunities db) \<and> ro_id x \<noteq> ro_id o'"
  using assms by (auto simp: in_put_row_iff)

section \<open>Preservation\<close>

subsection \<open>Decisions\<close>

lemma decision_trail_snoc:
  "decisions db' = decisions db @ [d] \<Longrightarrow>
     decision_trail db' i = decision_trail db i @
       (if od_opportunity d = i then [(od_prior d, Some (od_decision d))] else [])"
  by (simp add: decision_trail_def)

lemma decision_trail_same: "decisions db' = decisions db \<Longrightarrow> decision_trail db' i = decision_trail db i"
  by (simp add: decision_trail_def)

lemma put_opportunity_all:
  assumes "economics_constraints db" "o' \<in> set (opportunities db)" "ro_id o2 = ro_id o'"
    and "opportunities db' = put_row ro_id o2 (opportunities db)" "Q o2"
    and "\<And>x. x \<in> set (opportunities db) \<Longrightarrow> ro_id x \<noteq> ro_id o' \<Longrightarrow> Q x"
  shows "\<forall>x \<in> set (opportunities db'). Q x"
  using put_opportunity_cases [OF assms(1-3)] assms(4-6) by metis

lemma replay_moved:
  assumes "economics_constraints db" "decisions_replay db" "o' \<in> set (opportunities db)"
    and "opportunities db' = put_row ro_id o2 (opportunities db)" "ro_id o2 = ro_id o'"
    and "decisions db' = decisions db @ [d]" "od_opportunity d = ro_id o'"
    and "od_prior d = Some (ro_status o')" "ro_status o2 = od_decision d"
    and "od_decision d \<in> set (opportunity_transitions (ro_status o'))"
  shows "decisions_replay db'"
proof -
  have "replay status_graph None (decision_trail db (ro_id o')) = Some (Some (ro_status o'))"
    using assms(2,3) by (simp add: decisions_replay_def)
  then have o': "replay status_graph None (decision_trail db' (ro_id o')) = Some (Some (ro_status o2))"
    using assms(10)
    by (simp add: decision_trail_snoc [OF assms(6)] assms(7-9) replay_append status_graph_def)
  show ?thesis
    unfolding decisions_replay_def
    by (rule put_opportunity_all [OF assms(1,3,5,4)])
      (use assms(2,5,7) o' in \<open>simp_all add: decision_trail_snoc [OF assms(6)] decisions_replay_def\<close>)
qed

lemma replay_same_status:
  assumes "economics_constraints db" "decisions_replay db" "o' \<in> set (opportunities db)"
    and "opportunities db' = put_row ro_id o2 (opportunities db)" "ro_id o2 = ro_id o'"
    and "decisions db' = decisions db" "ro_status o2 = ro_status o'"
  shows "decisions_replay db'"
  unfolding decisions_replay_def
  by (rule put_opportunity_all [OF assms(1,3,5,4)])
    (use assms(2,3,5,7) in \<open>simp_all add: decision_trail_same [OF assms(6)] decisions_replay_def\<close>)

lemma effect_replay:
  assumes "economics_effect env org db db'" "economics_constraints db" "economics_constraints db'"
    and t: "decisions_replay db"
  shows "decisions_replay db'"
  using assms(1)
proof cases
  case (opportunity_added o' d u)
  have d: "decisions db' = decisions db @ [d]" by (simp add: opportunity_added(1))
  have o': "opportunities db' = opportunities db @ [o']" by (simp add: opportunity_added(1))
  have "decision_trail db (ro_id o') = []"
    using new_opportunity_unreferenced(1) [OF assms(2,3) o']
    by (auto simp: decision_trail_def filter_empty_conv)
  moreover have "ro_id x \<noteq> ro_id o'" if "x \<in> set (opportunities db)" for x
    using opportunity_ids_unique [OF assms(3)] that by (metis o' unique_on_snoc imageI)
  ultimately show ?thesis
    using t opportunity_added(3,5-7)
    by (auto simp: decisions_replay_def o' decision_trail_snoc [OF d] status_graph_def
        opportunity_is_new_def)
next
  case (opportunity_updated o' cs o2 u)
  then show ?thesis
    using apply_changes_keeps [OF opportunity_updated(5)]
    by (intro replay_same_status [OF assms(2) t, of o' db' o2]) simp_all
next
  case (calculated o' s c u)
  then show ?thesis
    using replay_same_status [OF assms(2) t calculated(2), of db' "o'\<lparr>ro_scenario := Some (es_id s)\<rparr>"]
    by simp
next
  case (prioritization_added o' c z u)
  then show ?thesis
    using replay_same_status [OF assms(2) t prioritization_added(2), of db' "o'\<lparr>ro_priority := Some (pz_category z)\<rparr>"]
    by simp
next
  case (decided o' d u)
  then show ?thesis
    using replay_moved [OF assms(2) t decided(2), of db' "o'\<lparr>ro_status := od_decision d\<rparr>"]
    by simp
next
  case (approval o' d b s c z u)
  then show ?thesis
    using replay_moved [OF assms(2) t approval(2), of db' "o'\<lparr>ro_baseline_version := Some (bl_version b), ro_scenario := Some (es_id s),
        ro_status := O_APPROVED\<rparr>"]
    by simp
qed (use t in \<open>simp_all add: decisions_replay_def decision_trail_def\<close>)

subsection \<open>Baselines\<close>

lemma baselines_of_snoc:
  "baselines db' = baselines db @ [b] \<Longrightarrow>
     baselines_of db' i = baselines_of db i @ (if bl_opportunity b = i then [b] else [])"
  by (simp add: baselines_of_def)

lemma baselines_of_same: "baselines db' = baselines db \<Longrightarrow> baselines_of db' i = baselines_of db i"
  by (simp add: baselines_of_def)

lemma counted_same:
  assumes "economics_constraints db" "baselines_counted db" "o' \<in> set (opportunities db)"
    and "opportunities db' = put_row ro_id o2 (opportunities db)" "ro_id o2 = ro_id o'"
    and "baselines db' = baselines db" "ro_baseline_version o2 = ro_baseline_version o'"
  shows "baselines_counted db'"
  unfolding baselines_counted_def
  by (rule put_opportunity_all [OF assms(1,3,5,4)])
    (use assms(2,3,5,7) in \<open>simp_all add: baselines_of_same [OF assms(6)] baselines_counted_def\<close>)

lemma effect_counted:
  assumes "economics_effect env org db db'" "economics_constraints db" "economics_constraints db'"
    and t: "baselines_counted db"
  shows "baselines_counted db'"
  using assms(1)
proof cases
  case (opportunity_added o' d u)
  have o': "opportunities db' = opportunities db @ [o']" by (simp add: opportunity_added(1))
  have b: "baselines db' = baselines db" by (simp add: opportunity_added(1))
  have "baselines_of db (ro_id o') = []"
    using new_opportunity_unreferenced(2) [OF assms(2,3) o']
    by (auto simp: baselines_of_def filter_empty_conv)
  then show ?thesis
    using t opportunity_added(3)
    by (auto simp: baselines_counted_def o' baselines_of_same [OF b] opportunity_is_new_def)
next
  case (opportunity_updated o' cs o2 u)
  then show ?thesis
    using apply_changes_keeps [OF opportunity_updated(5)]
    by (intro counted_same [OF assms(2) t, of o' db' o2]) simp_all
next
  case (calculated o' s c u)
  then show ?thesis
    using counted_same [OF assms(2) t calculated(2), of db' "o'\<lparr>ro_scenario := Some (es_id s)\<rparr>"]
    by simp
next
  case (prioritization_added o' c z u)
  then show ?thesis
    using counted_same [OF assms(2) t prioritization_added(2), of db' "o'\<lparr>ro_priority := Some (pz_category z)\<rparr>"]
    by simp
next
  case (decided o' d u)
  then show ?thesis
    using counted_same [OF assms(2) t decided(2), of db' "o'\<lparr>ro_status := od_decision d\<rparr>"]
    by simp
next
  case (approval o' d b s c z u)
  let ?bs = "baselines_of db (ro_id o')"
  let ?o2 = "o'\<lparr>ro_baseline_version := Some (bl_version b), ro_scenario := Some (es_id s),
    ro_status := O_APPROVED\<rparr>"
  have b: "baselines db' = baselines db @ [b]"
    and p: "opportunities db' = put_row ro_id ?o2 (opportunities db)" by (simp_all add: approval(1))
  have n: "numbered (map bl_version ?bs)"
    "ro_baseline_version o' = (if length ?bs = 0 then None else Some (int (length ?bs)))"
    using t approval(2) by (simp_all add: baselines_counted_def Let_def)
  then have v: "bl_version b = int (length ?bs) + 1" by (simp add: approval(15))
  then have n2: "numbered (map bl_version ?bs @ [bl_version b])"
    using numbered_snoc [OF n(1)] numbered_next [OF n(1)] by simp
  show ?thesis
    unfolding baselines_counted_def
    by (rule put_opportunity_all [OF assms(2) approval(2) _ p])
      (use t v n2 in \<open>simp_all add: approval(14) baselines_of_snoc [OF b] baselines_counted_def Let_def\<close>)
qed (use t in \<open>simp_all add: baselines_counted_def baselines_of_def\<close>)

lemma opportunity_evolves_version:
  assumes "opportunity_evolves o' o2" "approved_has_version o'"
  shows "approved_has_version o2"
  using assms by cases (auto simp: approved_has_version_def dest: apply_changes_keeps)

lemma effect_approved_version:
  assumes "economics_effect env org db db'" "\<forall>o' \<in> set (opportunities db). approved_has_version o'"
  shows "\<forall>o' \<in> set (opportunities db'). approved_has_version o'"
  by (rule table_step_all [OF effect_opportunities [OF assms(1)] assms(2)])
    (auto simp: opportunity_is_new_def approved_has_version_def
      dest: opportunity_evolves_version [unfolded approved_has_version_def])

lemma effect_baseline_approvals:
  assumes "economics_effect env org db db'" "baselines_are_approvals db"
  shows "baselines_are_approvals db'"
  using assms(1)
  by cases (use assms(2) in \<open>auto simp: baselines_are_approvals_def approvals_of_def\<close>)

lemma effect_baselines_backed:
  assumes "economics_effect env org db db'" "baselines_backed db"
  shows "baselines_backed db'"
proof -
  have g: "set (scenarios db) \<subseteq> set (scenarios db')" "set (calculations db) \<subseteq> set (calculations db')"
    "set (prioritizations db) \<subseteq> set (prioritizations db')"
    using effect_appends(1-3) [OF assms(1)] by auto
  have "\<exists>s \<in> set (scenarios db). \<exists>c \<in> set (calculations db). \<exists>z \<in> set (prioritizations db).
      baseline_of b s c z" if "b \<in> set (baselines db')" for b
    using assms(1)
  proof cases
    case (approval o' d b' s c z u)
    then show ?thesis using that assms(2) by (auto simp: baselines_backed_def)
  qed (use that assms(2) in \<open>simp_all add: baselines_backed_def\<close>)
  then show ?thesis using g unfolding baselines_backed_def by blast
qed

subsection \<open>Results\<close>

lemma effect_reproduced:
  assumes "economics_effect env org db db'" "calculations_reproduced env db"
  shows "calculations_reproduced env db'"
proof -
  have g: "set (scenarios db) \<subseteq> set (scenarios db')" "set (calculations db) \<subseteq> set (calculations db')"
    using effect_appends(1,2) [OF assms(1)] by auto
  have "\<exists>s \<in> set (scenarios db). calculation_of env c s" if "c \<in> set (calculations db')" for c
    using assms(1)
    by cases (use that assms(2) in \<open>auto simp: calculations_reproduced_def\<close>)
  moreover have "\<exists>c \<in> set (calculations db). priority_of env z c" if "z \<in> set (prioritizations db')" for z
    using assms(1)
    by cases (use that assms(2) in \<open>auto simp: calculations_reproduced_def\<close>)
  ultimately show ?thesis using g unfolding calculations_reproduced_def by blast
qed

subsection \<open>Versions\<close>

lemma latest_by_None [simp]: "latest_by f rs = None \<longleftrightarrow> rs = []"
  by (cases rs) (auto split: option.splits)

lemma versioned_active:
  assumes "versioned as"
  shows "filter (\<lambda>a. \<not> ea_superseded a) as = (if as = [] then [] else [last as])"
proof (cases "as = []")
  case False
  then have as: "as = butlast as @ [last as]" by simp
  have "filter (\<lambda>a. \<not> ea_superseded a) (butlast as) = []"
    using assms False by (auto simp: versioned_def list_all_iff filter_empty_conv)
  then show ?thesis
    using assms False by (subst as, subst filter_append) (simp add: versioned_def)
qed simp

lemma active_assumptions_filter:
  "active_assumptions db i code = filter (\<lambda>a. \<not> ea_superseded a) (assumptions_of db i code)"
  by (simp add: active_assumptions_def assumptions_of_def conj_ac)

lemma numbered_last:
  assumes "numbered (map f xs)" "xs \<noteq> []"
  shows "f (last xs) = int (length xs)"
proof -
  have "f (last xs) = last (map f xs)" using assms(2) by (simp add: last_map)
  also have "\<dots> = last (map int [1..<Suc (length xs)])"
    using assms(1) by (simp only: numbered_def length_map)
  also have "\<dots> = int (length xs)" using assms(2) by (simp add: last_map last_upt del: upt_Suc)
  finally show ?thesis .
qed

lemma numbered_append_one:
  "numbered ns \<Longrightarrow> n = int (length ns) + 1 \<Longrightarrow> numbered (ns @ [n])"
  using numbered_snoc [of ns] numbered_next [of ns] by simp

lemma assumption_ids_unique: "economics_constraints db \<Longrightarrow> unique_on ea_id (assumptions db)"
  by (simp add: economics_constraints_def assumptions_ok_def)

lemma versioned_add:
  assumes "versioned as" "unique_on ea_id as" "\<not> ea_superseded a"
    and "previous = latest_by ea_version (filter (\<lambda>a. \<not> ea_superseded a) as)"
    and "ea_version a = (case previous of None \<Rightarrow> 1 | Some b \<Rightarrow> ea_version b + 1)"
  shows "versioned (supersede previous as @ [a])"
proof (cases "as = []")
  case True
  then show ?thesis
    using assms(3-5) by (simp add: versioned_def supersede_def numbered_def)
next
  case False
  define b where "b = last as"
  have as: "as = butlast as @ [b]" using False by (simp add: b_def)
  have p: "previous = Some b"
    using False by (simp add: assms(4) versioned_active [OF assms(1)] b_def)
  have s: "supersede previous as = butlast as @ [b\<lparr>ea_superseded := True\<rparr>]"
    using put_row_last [of ea_id "butlast as" b "b\<lparr>ea_superseded := True\<rparr>"] assms(2) as
    by (simp add: p supersede_def)
  have n: "numbered (map ea_version as)" "list_all ea_superseded (butlast as)"
    using assms(1) False by (simp_all add: versioned_def)
  have "map ea_version (supersede previous as) = map ea_version as"
    unfolding s by (subst (2) as) simp
  moreover have "ea_version a = int (length as) + 1"
    using numbered_last [OF n(1) False] assms(5) by (simp add: p b_def)
  ultimately have "numbered (map ea_version (supersede previous as @ [a]))"
    using numbered_append_one [OF n(1), of "ea_version a"] by simp
  then show ?thesis using n(2) assms(3) by (simp add: versioned_def s butlast_append)
qed

lemma supersede_filter:
  assumes "unique_on ea_id as" "previous = None \<or> (\<exists>b. previous = Some b \<and> b \<in> set as)"
  shows "filter (\<lambda>a. ea_opportunity a = i \<and> ea_code a = code) (supersede previous as) =
    (case previous of None \<Rightarrow> filter (\<lambda>a. ea_opportunity a = i \<and> ea_code a = code) as
     | Some b \<Rightarrow> if ea_opportunity b = i \<and> ea_code b = code
         then supersede previous (filter (\<lambda>a. ea_opportunity a = i \<and> ea_code a = code) as)
         else filter (\<lambda>a. ea_opportunity a = i \<and> ea_code a = code) as)"
proof (cases previous)
  case None
  then show ?thesis by (simp add: supersede_def)
next
  case (Some b)
  let ?b = "b\<lparr>ea_superseded := True\<rparr>"
  have b: "b \<in> set as" using assms(2) Some by simp
  show ?thesis
  proof (cases "ea_opportunity b = i \<and> ea_code b = code")
    case True
    then show ?thesis
      using filter_put_row_keep [OF assms(1) b, of ?b "\<lambda>a. ea_opportunity a = i \<and> ea_code a = code"]
      by (simp add: Some supersede_def)
  next
    case False
    then show ?thesis
      using filter_put_row [OF assms(1) b, of ?b "\<lambda>a. ea_opportunity a = i \<and> ea_code a = code"]
      by (auto simp: Some supersede_def)
  qed
qed

lemma latest_by_in: "latest_by f rs = Some r \<Longrightarrow> r \<in> set rs"
  by (induction rs arbitrary: r) (auto split: option.splits if_splits)

lemma assumption_effect_versioned:
  assumes "assumptions_versioned db" "economics_constraints db" "\<not> ea_superseded a"
    and p: "previous = latest_by ea_version (active_assumptions db (ea_opportunity a) (ea_code a))"
    and "ea_version a = (case previous of None \<Rightarrow> 1 | Some b \<Rightarrow> ea_version b + 1)"
    and db': "assumptions db' = supersede previous (assumptions db) @ [a]"
  shows "assumptions_versioned db'"
  unfolding assumptions_versioned_def
proof (intro allI)
  fix i code
  note u = assumption_ids_unique [OF assms(2)]
  have pin: "previous = None \<or> (\<exists>b. previous = Some b \<and> b \<in> set (assumptions db) \<and>
      ea_opportunity b = ea_opportunity a \<and> ea_code b = ea_code a)"
  proof (cases previous)
    case (Some b)
    have "b \<in> set (active_assumptions db (ea_opportunity a) (ea_code a))"
      using latest_by_in [OF p [symmetric, unfolded Some]] .
    then show ?thesis by (simp add: Some active_assumptions_def)
  qed simp
  have "filter (\<lambda>a. ea_opportunity a = i \<and> ea_code a = code) (supersede previous (assumptions db)) =
      (if ea_opportunity a = i \<and> ea_code a = code
       then supersede previous (assumptions_of db i code) else assumptions_of db i code)"
  proof (cases previous)
    case None
    then show ?thesis by (simp add: supersede_def assumptions_of_def)
  next
    case (Some b)
    with pin have b: "b \<in> set (assumptions db)" "ea_opportunity b = ea_opportunity a" "ea_code b = ea_code a"
      by simp_all
    from supersede_filter [OF u, of previous i code] b(1) show ?thesis
      by (simp only: Some option.simps b(2,3) assumptions_of_def) simp
  qed
  then have e: "assumptions_of db' i code =
      (if ea_opportunity a = i \<and> ea_code a = code
       then supersede previous (assumptions_of db i code) @ [a] else assumptions_of db i code)"
    by (simp add: assumptions_of_def db')
  have w: "versioned (assumptions_of db i code)"
    using assms(1) by (simp add: assumptions_versioned_def)
  show "versioned (assumptions_of db' i code)"
  proof (cases "ea_opportunity a = i \<and> ea_code a = code")
    case True
    then have "previous = latest_by ea_version (filter (\<lambda>a. \<not> ea_superseded a) (assumptions_of db i code))"
      using p by (simp only: active_assumptions_filter)
    from versioned_add [OF w _ assms(3) this assms(5)]
    have "versioned (supersede previous (assumptions_of db i code) @ [a])"
      using unique_on_filter [OF u] by (simp add: assumptions_of_def)
    with True show ?thesis by (simp add: e)
  next
    case False
    then show ?thesis using w by (simp only: e if_False)
  qed
qed

lemma effect_assumptions:
  assumes "economics_effect env org db db'" "economics_constraints db" "assumptions_versioned db"
  shows "assumptions_versioned db'"
  using assms(1)
proof cases
  case (assumption_added o' a previous u)
  then show ?thesis
    by (intro assumption_effect_versioned [OF assms(3,2), of a previous]) simp_all
qed (use assms(3) in \<open>simp_all add: assumptions_versioned_def assumptions_of_def\<close>)

text \<open>An opportunity keeps its identity, owner and currency.\<close>

lemma effect_opportunity_kept:
  assumes "economics_effect env org db db'" "economics_constraints db" "o' \<in> set (opportunities db)"
  shows "\<exists>o2 \<in> set (opportunities db'). ro_id o2 = ro_id o' \<and> ro_currency o2 = ro_currency o' \<and>
    ro_org o2 = ro_org o'"
  using table_step_row [OF effect_opportunities [OF assms(1)] opportunity_ids_unique [OF assms(2)]
      find_pk_unique [OF opportunity_ids_unique [OF assms(2)] assms(3)]] opportunity_evolves_keeps
    find_SomeD by metis

lemma effect_owned:
  assumes "economics_effect env org db db'" "economics_constraints db" "assumptions_owned db"
  shows "assumptions_owned db'"
proof -
  have "\<exists>o' \<in> set (opportunities db). ro_id o' = ea_opportunity a \<and> ro_org o' = ea_org a"
    if "a \<in> set (assumptions db')" for a
    using assms(1)
  proof cases
    case (assumption_added o' a' previous u)
    have "a = a' \<or> a \<in> set (assumptions db) \<or>
        (\<exists>b. previous = Some b \<and> b \<in> set (assumptions db) \<and> a = b\<lparr>ea_superseded := True\<rparr>)"
    proof (cases previous)
      case None
      then show ?thesis using that by (auto simp: assumption_added(1) supersede_def)
    next
      case (Some b)
      have "b \<in> set (assumptions db)"
        using latest_by_in [OF assumption_added(8) [symmetric, unfolded Some]]
        by (simp add: active_assumptions_def)
      then show ?thesis
        using that by (auto simp: assumption_added(1) supersede_def Some in_put_row_iff)
    qed
    then show ?thesis
      using assms(3) assumption_added(2,3,5,6) by (auto simp: assumptions_owned_def)
  qed (use that assms(3) in \<open>simp_all add: assumptions_owned_def\<close>)
  then show ?thesis
    using effect_opportunity_kept [OF assms(1,2)] unfolding assumptions_owned_def by metis
qed

lemma effect_scenarios:
  assumes "economics_effect env org db db'" "economics_constraints db" "scenarios_versioned db"
  shows "scenarios_versioned db'"
proof -
  have "\<exists>o' \<in> set (opportunities db'). ro_id o' = es_opportunity s \<and> ro_currency o' = es_currency s \<and>
      ro_org o' = es_org s" if "s \<in> set (scenarios db)" for s
    using assms(3) that effect_opportunity_kept [OF assms(1,2)] unfolding scenarios_versioned_def by metis
  moreover have "(\<forall>i code. numbered (scenario_versions db' i code)) \<and>
     (\<forall>s \<in> set (scenarios db') - set (scenarios db). \<exists>o' \<in> set (opportunities db').
        ro_id o' = es_opportunity s \<and> ro_currency o' = es_currency s \<and> ro_org o' = es_org s)"
    using assms(1)
  proof cases
    case (scenario_added o' s u)
    have "numbered (scenario_versions db' i code)" for i code
    proof -
      have "scenario_versions db' i code = scenario_versions db i code @
          (if es_opportunity s = i \<and> es_code s = code then [es_version s] else [])"
        by (simp add: scenario_versions_def scenario_added(1))
      then show ?thesis
        using assms(3) numbered_snoc [of "scenario_versions db i code"] scenario_added(6,8)
        by (auto simp: scenarios_versioned_def)
    qed
    then show ?thesis using scenario_added by auto
  qed (use assms(3) in \<open>auto simp: scenarios_versioned_def scenario_versions_def\<close>)
  ultimately show ?thesis unfolding scenarios_versioned_def by blast
qed

section \<open>The whole step\<close>

lemma economics_step_wf:
  assumes "economics_wf env db" "economics_step env op db = Inr (db', r)"
  shows "economics_wf env db'"
proof -
  have e: "economics_effect env (economics_op_org op) db db'"
    and c: "db' = db \<or> economics_constraints db'"
    using economics_step_effect [OF assms(2)] by simp_all
  have w: "economics_constraints db" "decisions_replay db" "baselines_counted db"
    "\<forall>o' \<in> set (opportunities db). approved_has_version o'" "baselines_are_approvals db"
    "baselines_backed db" "calculations_reproduced env db" "assumptions_versioned db"
    "scenarios_versioned db" "assumptions_owned db"
    using assms(1) by (simp_all add: economics_wf_def)
  with c have c': "economics_constraints db'" by auto
  show ?thesis
    unfolding economics_wf_def
    using c' effect_replay [OF e w(1) c' w(2)] effect_counted [OF e w(1) c' w(3)]
      effect_approved_version [OF e w(4)] effect_baseline_approvals [OF e w(5)] effect_baselines_backed [OF e w(6)]
      effect_reproduced [OF e w(7)] effect_assumptions [OF e w(1,8)] effect_scenarios [OF e w(1,9)]
      effect_owned [OF e w(1,10)]
    by blast
qed

end
