(* ===== verification/Economics_Properties.thy ===== *)
theory Economics_Properties
  imports Economics_Engine
begin

text \<open>
  Money arithmetic, the value chain and its errors, and the bounds and monotonicity of the
  opportunity score.
\<close>

section \<open>Money\<close>

lemma money_Inr_iff: "money x = Inr y \<longleftrightarrow> quantize round_half_up 12 x = Some y"
  by (simp add: money_def money_places_def)

lemma money_mono: "money x = Inr a \<Longrightarrow> money y = Inr b \<Longrightarrow> x \<le> y \<Longrightarrow> a \<le> b"
  unfolding money_Inr_iff by (erule (2) quantize_mono) (rule round_half_up_mono)

lemma money_zero [simp]: "money 0 = Inr 0"
  using round_half_up_int [of 0] by (simp add: money_Inr_iff quantize_def ctx_precision_def)

lemma money_nonneg: "money x = Inr y \<Longrightarrow> 0 \<le> x \<Longrightarrow> 0 \<le> y"
  using money_mono [OF money_zero] by blast

lemma money_nonpos: "money x = Inr y \<Longrightarrow> x \<le> 0 \<Longrightarrow> y \<le> 0"
  using money_mono [OF _ money_zero] by blast

text \<open>A twelve-place amount below \<open>10 ^ 16\<close> is exact: neither money nor the context rounds it.\<close>

lemma twelve_places_exact:
  assumes "x = of_int n / 10 ^ 12" "\<bar>n\<bar> < 10 ^ 28"
  shows "dctx x = x" "money x = Inr x"
proof -
  show "dctx x = x" using assms by (rule dctx_twelve_places)
  have "x * 10 ^ 12 = of_int n" unfolding assms(1) by simp
  then have "round_half_up (x * 10 ^ 12) = n" by (simp only: round_half_up_int)
  then show "money x = Inr x"
    using assms(2) by (simp only: money_Inr_iff quantize_def ctx_precision_def Let_def assms(1) [symmetric]) simp
qed

lemma money_result:
  assumes "money x = Inr y"
  obtains n where "y = of_int n / 10 ^ 12" "\<bar>n\<bar> < 10 ^ 28"
  using quantize_SomeD [of round_half_up 12 x y] assms unfolding money_Inr_iff by blast

lemma money_fixed: "money x = Inr y \<Longrightarrow> dctx y = y \<and> money y = Inr y"
  using twelve_places_exact by (elim money_result) blast

lemma money_dctx_large:
  assumes "money (dctx x) = Inr y"
  shows "\<bar>x\<bar> < 10 ^ 16"
proof (rule ccontr)
  have big: "\<not> money (dctx z) = Inr w" if "10 ^ 16 \<le> z" for z w
  proof
    assume w: "money (dctx z) = Inr w"
    have "(10::rat) ^ 16 = dctx (10 ^ 16)"
      using dctx_exact [of "10 ^ 16" 1 16] by (simp add: ctx_precision_def)
    with that have "10 ^ 16 \<le> dctx z" using dctx_mono [of "10 ^ 16" z] by simp
    then have "of_int (10 ^ 28) \<le> dctx z * 10 ^ 12" by simp
    then have "10 ^ 28 \<le> round_half_up (dctx z * 10 ^ 12)"
      using round_half_up_mono round_half_up_int by metis
    with quantize_SomeD(2) [of round_half_up 12 "dctx z" w] w show False
      by (simp add: money_Inr_iff)
  qed
  assume "\<not> \<bar>x\<bar> < 10 ^ 16"
  then consider "10 ^ 16 \<le> x" | "10 ^ 16 \<le> - x" by linarith
  then show False
  proof cases
    case 1
    with big assms show False by blast
  next
    case 2
    have "money (dctx (- x)) = Inr (- y)"
      using assms round_half_up_minus [of "dctx x * 10 ^ 12"]
      by (auto simp: money_Inr_iff dctx_minus quantize_def Let_def split: if_splits)
    with big 2 show False by blast
  qed
qed

lemma money_difference:
  assumes "money a = Inr a" "money b = Inr b" "money (dsub a b) = Inr y"
  shows "y = a - b"
proof -
  obtain m n where mn: "a = of_int m / 10 ^ 12" "b = of_int n / 10 ^ 12"
    using assms(1,2) by (meson money_result)
  then have d: "a - b = of_int (m - n) / 10 ^ 12"
    by (simp add: diff_divide_distrib)
  have "\<bar>a - b\<bar> < 10 ^ 16"
    using money_dctx_large [of "a - b" y] assms(3) by (simp add: dsub_def)
  then have "of_int \<bar>m - n\<bar> < (of_int (10 ^ 28) :: rat)"
    unfolding d by (simp add: abs_divide)
  then have "\<bar>m - n\<bar> < 10 ^ 28" by (simp only: of_int_less_iff)
  from twelve_places_exact [OF d this] assms(3) show ?thesis
    by (simp add: dsub_def)
qed

section \<open>The value chain\<close>

lemma money_scaled:
  assumes "money a = Inr a" "0 \<le> a" "0 \<le> q" "q \<le> 1" "money (dmul a q) = Inr y"
  shows "0 \<le> y" "y \<le> a"
proof -
  show "0 \<le> y" using money_nonneg [OF assms(5)] dmul_nonneg [OF assms(2,3)] by blast
  have "dmul a q \<le> dctx a"
    unfolding dmul_def using assms(2-4) by (intro dctx_mono) (simp add: mult_left_le)
  then have "dmul a q \<le> a" using money_fixed [OF assms(1)] by simp
  with money_mono [OF assms(5,1)] show "y \<le> a" by blast
qed

lemma rate_Inr_iff [simp]: "rate n x = Inr y \<longleftrightarrow> 0 \<le> x \<and> x \<le> 1 \<and> y = x"
  by (auto simp: rate_def)

lemma optionally_False: "optionally False m = Inr None"
  by (simp add: optionally_def)

lemma optionally_Inr_iff:
  "optionally c m = Inr r \<longleftrightarrow> (if c then \<exists>x. m = Inr x \<and> r = Some x else r = None)"
  by (auto simp: optionally_def)

text \<open>What a successful calculation computed, step by step.\<close>

lemma calculate_economicsD:
  assumes "calculate_economics v = Inr r"
  shows "0 \<le> ei_gross v" "0 \<le> ei_cost v"
    "0 \<le> ei_addressability v" "ei_addressability v \<le> 1"
    "0 \<le> ei_recoverability v" "ei_recoverability v \<le> 1" "0 \<le> ei_success v" "ei_success v \<le> 1"
    "money (dmul (ei_gross v) (ei_addressability v)) = Inr (er_addressable r)"
    "money (dmul (er_addressable r) (ei_recoverability v)) = Inr (er_recoverable r)"
    "money (dmul (er_recoverable r) (ei_success v)) = Inr (er_adjusted r)"
    "money (dsub (er_adjusted r) (ei_cost v)) = Inr (er_net r)"
    "optionally (ei_cost v \<noteq> 0) (money (ddiv (er_net r) (ei_cost v))) = Inr (er_roi r)"
    "money (ei_gross v) = Inr (er_gross r)" "money (ei_cost v) = Inr (er_cost r)"
    "er_policy r = (if ei_cost v = 0 then ROI_NOT_APPLICABLE else STANDARD_POLICY)"
  using assms unfolding calculate_economics_def by (elim bindE_Inr_iff [THEN iffD1, elim_format], auto)+

section \<open>Scores\<close>

text \<open>A mapping has each key once.\<close>

lemma normalize_weightsD:
  assumes "normalize_weights ws = Inr nws"
  shows "set (map fst default_weights) \<subseteq> fst ` set ws" "\<forall>(k, w) \<in> set ws. 0 \<le> w"
    "dsum (map snd ws) \<noteq> 0" "nws = map (\<lambda>(k, v). (k, ddiv v (dsum (map snd ws)))) ws"
  using assms
  by (auto simp: normalize_weights_def Let_def list_all_iff filter_empty_conv)

lemma dsum_snoc: "dsum (xs @ [x]) = dadd (dsum xs) x"
  by (simp add: dsum_def)

lemma dsum_nonneg: "\<forall>x \<in> set xs. 0 \<le> x \<Longrightarrow> 0 \<le> dsum xs"
  by (induction xs rule: rev_induct) (auto simp: dsum_snoc dadd_nonneg dsum_def [of "[]"])

lemma dsum_mono: "list_all2 (\<le>) xs ys \<Longrightarrow> dsum xs \<le> dsum ys"
proof (induction xs arbitrary: ys rule: rev_induct)
  case Nil
  then show ?case by simp
next
  case (snoc x xs)
  then obtain y zs where "ys = zs @ [y]" "list_all2 (\<le>) xs zs" "x \<le> y"
    by (auto simp: list_all2_append1 list_all2_Cons1)
  with snoc.IH show ?case by (simp add: dsum_snoc dadd_mono)
qed

definition grow :: rat where "grow = 1 + 1 / 10 ^ 6"
definition shrink :: rat where "shrink = 1 - 1 / 10 ^ 6"

lemma grow_shrink: "1 \<le> grow" "0 < shrink" "shrink \<le> 1"
  by (simp_all add: grow_def shrink_def)

lemma dsum_upper: "\<forall>x \<in> set xs. 0 \<le> x \<Longrightarrow> dsum xs \<le> sum_list xs * grow ^ length xs"
proof (induction xs rule: rev_induct)
  case Nil
  then show ?case by (simp add: dsum_def)
next
  case (snoc x xs)
  then have nn: "0 \<le> dsum xs" "0 \<le> x" and ih: "dsum xs \<le> sum_list xs * grow ^ length xs"
    by (simp_all add: dsum_nonneg)
  have "dsum (xs @ [x]) \<le> (dsum xs + x) * grow"
    using dctx_upper [of "dsum xs + x"] nn by (simp add: dsum_snoc dadd_def grow_def)
  also have "\<dots> \<le> (sum_list xs * grow ^ length xs + x * grow ^ length xs) * grow"
    using ih nn grow_shrink(1)
    by (intro mult_right_mono add_mono) (auto simp: mult_le_cancel_left1 one_le_power)
  finally show ?case by (simp add: algebra_simps)
qed

lemma dsum_lower: "\<forall>x \<in> set xs. 0 \<le> x \<Longrightarrow> sum_list xs * shrink ^ length xs \<le> dsum xs"
proof (induction xs rule: rev_induct)
  case Nil
  then show ?case by (simp add: dsum_def)
next
  case (snoc x xs)
  then have nn: "0 \<le> dsum xs" "0 \<le> x" and ih: "sum_list xs * shrink ^ length xs \<le> dsum xs"
    by (simp_all add: dsum_nonneg)
  have "(sum_list xs * shrink ^ length xs + x * shrink ^ length xs) * shrink \<le> (dsum xs + x) * shrink"
    using ih nn grow_shrink(2,3)
    by (intro mult_right_mono add_mono) (auto simp: mult_le_cancel_left2 power_le_one)
  also have "\<dots> \<le> dsum (xs @ [x])"
    using dctx_lower [of "dsum xs + x"] nn by (simp add: dsum_snoc dadd_def shrink_def)
  finally show ?case by (simp add: algebra_simps)
qed

lemma dctx_one [simp]: "dctx 1 = 1"
  using dctx_exact [of 1 1 0] by (simp add: ctx_precision_def)

lemma bounded_bounds [simp]: "0 \<le> bounded x" "bounded x \<le> 1"
  by (simp_all add: bounded_def)

lemma factors_of_bounds:
  assumes "factors_of v = Inr fs" "map_of fs k = Some f"
  shows "0 \<le> f" "f \<le> 1"
proof -
  have "0 \<le> dsub 1 (oi_risk v)" "dsub 1 (oi_risk v) \<le> 1" if "0 \<le> oi_risk v" "oi_risk v \<le> 1"
    using dsub_mono [of 1 1 "oi_risk v" 1] dsub_mono [of 1 1 0 "oi_risk v"] that
    by (simp_all add: dsub_def)
  then show "0 \<le> f" "f \<le> 1"
    using assms by (auto simp: factors_of_def split: if_splits option.splits)
qed

lemma factors_of_keys: "factors_of v = Inr fs \<Longrightarrow> map fst fs = map fst default_weights"
  by (auto simp: factors_of_def default_weights_def)

lemma contributions_ofD:
  "contributions_of fs ws = Inr cs \<Longrightarrow>
     cs = map (\<lambda>(k, w). (k, dmul (the (map_of fs k)) w)) ws \<and> (\<forall>(k, w) \<in> set ws. \<exists>f. map_of fs k = Some f)"
proof (induction ws arbitrary: cs)
  case Nil
  then show ?case by simp
next
  case (Cons p ws)
  obtain k w where p: "p = (k, w)" by fastforce
  with Cons.prems obtain f rest where "map_of fs k = Some f" "contributions_of fs ws = Inr rest"
    "cs = (k, dmul f w) # rest" by auto
  with Cons.IH show ?case by (simp add: p)
qed

lemma sum_list_le_scaled:
  assumes "list_all2 (\<lambda>x y. x \<le> y * c) xs ys"
  shows "sum_list xs \<le> sum_list ys * (c::rat)"
  using assms by (induction rule: list_all2_induct) (auto simp: algebra_simps)

lemma contribution_sum:
  assumes nws: "normalize_weights ws = Inr nws" and fs: "factors_of v = Inr fs"
    and cs: "contributions_of fs nws = Inr cs" and dist: "distinct (map fst ws)"
  shows "0 \<le> dsum (map snd cs)" "dsum (map snd cs) * 100 \<le> 100 * grow ^ 11 / shrink ^ 9"
proof -
  define T where "T = dsum (map snd ws)"
  define n where "n = length ws"
  note D = normalize_weightsD [OF nws]
  have w0: "\<forall>w \<in> set (map snd ws). 0 \<le> w" using D(2) by auto
  then have T0: "0 \<le> T" unfolding T_def by (rule dsum_nonneg)
  with D(3) have T: "0 < T" by (simp add: T_def)
  have found: "\<exists>f. map_of fs k = Some f" if "(k, w) \<in> set ws" for k w
    using contributions_ofD [OF cs] D(4) that by force
  have n: "n \<le> 9"
  proof -
    have "fst ` set ws \<subseteq> fst ` set fs"
    proof
      fix k assume "k \<in> fst ` set ws"
      then obtain w where "(k, w) \<in> set ws" by auto
      with found obtain f where "map_of fs k = Some f" by blast
      then show "k \<in> fst ` set fs" by (metis domI dom_map_of_conv_image_fst)
    qed
    then have "card (set (map fst ws)) \<le> card (set (map fst fs))" by (intro card_mono) auto
    also have "\<dots> \<le> 9"
      unfolding factors_of_keys [OF fs] by (rule order.trans [OF card_length]) (simp add: default_weights_def)
    finally show ?thesis using distinct_card [OF dist] by (simp add: n_def)
  qed
  have len: "length (map snd cs) = n" using contributions_ofD [OF cs] D(4) by (simp add: n_def)
  have c: "0 \<le> dmul (the (map_of fs k)) (ddiv w T) \<and>
      dmul (the (map_of fs k)) (ddiv w T) \<le> w * (grow * grow / T)" if "(k, w) \<in> set ws" for k w
  proof -
    have w: "0 \<le> w" using that w0 by auto
    from found [OF that] obtain f where f: "map_of fs k = Some f" by blast
    note b = factors_of_bounds [OF fs f]
    have "ddiv w T \<le> w / T * grow"
      using dctx_upper [of "w / T"] w T by (simp add: ddiv_def grow_def)
    moreover have "dmul f (ddiv w T) \<le> f * ddiv w T * grow"
      using dctx_upper [of "f * ddiv w T"] b(1) ddiv_nonneg [OF w T0] by (simp add: dmul_def grow_def)
    moreover have "f * ddiv w T * grow \<le> ddiv w T * grow"
      using b ddiv_nonneg [OF w T0] grow_shrink(1) by (intro mult_right_mono) (auto simp: mult_left_le_one_le)
    ultimately have "dmul f (ddiv w T) \<le> w / T * grow * grow"
      using grow_shrink(1) mult_right_mono [of "ddiv w T" "w / T * grow" grow] by linarith
    then show ?thesis
      using dmul_nonneg [OF b(1) ddiv_nonneg [OF w T0]] f by (simp add: field_simps)
  qed
  have snd_cs: "map snd cs = map (\<lambda>(k, w). dmul (the (map_of fs k)) (ddiv w T)) ws"
    using contributions_ofD [OF cs] D(4) by (simp add: T_def case_prod_beta comp_def)
  have c0: "\<forall>x \<in> set (map snd cs). 0 \<le> x"
    unfolding snd_cs using c by auto
  then show "0 \<le> dsum (map snd cs)" by (rule dsum_nonneg)
  have "sum_list (map snd cs) \<le> sum_list (map snd ws) * (grow * grow / T)"
    unfolding snd_cs using c
    by (intro sum_list_le_scaled) (auto simp: list_all2_map1 list_all2_map2 intro!: list.rel_refl_strong)
  also have "\<dots> \<le> grow * grow / shrink ^ 9"
  proof -
    have "sum_list (map snd ws) * shrink ^ n \<le> T"
      using dsum_lower [OF w0] by (simp add: T_def n_def)
    moreover have "sum_list (map snd ws) * shrink ^ 9 \<le> sum_list (map snd ws) * shrink ^ n"
      using n grow_shrink sum_list_nonneg [of "map snd ws"] w0
      by (intro mult_left_mono power_decreasing) auto
    ultimately have "sum_list (map snd ws) * shrink ^ 9 \<le> T" by linarith
    then have "sum_list (map snd ws) / T \<le> 1 / shrink ^ 9"
      using T grow_shrink(2) by (simp add: field_simps)
    then have "sum_list (map snd ws) / T * (grow * grow) \<le> 1 / shrink ^ 9 * (grow * grow)"
      using grow_shrink(1) by (intro mult_right_mono) auto
    then show ?thesis by (simp add: field_simps)
  qed
  finally have s: "sum_list (map snd cs) \<le> grow * grow / shrink ^ 9" .
  have "dsum (map snd cs) \<le> sum_list (map snd cs) * grow ^ n"
    using dsum_upper [OF c0] by (simp only: len)
  also have "\<dots> \<le> sum_list (map snd cs) * grow ^ 9"
    using n grow_shrink sum_list_nonneg [of "map snd cs"] c0
    by (intro mult_left_mono power_increasing) auto
  also have "\<dots> \<le> grow * grow / shrink ^ 9 * grow ^ 9"
    using s grow_shrink(1) by (intro mult_right_mono) auto
  also have "grow * grow / shrink ^ 9 * grow ^ 9 = grow ^ 11 / shrink ^ 9"
    by (simp add: power_numeral_reduce)
  finally show "dsum (map snd cs) * 100 \<le> 100 * grow ^ 11 / shrink ^ 9"
    by simp
qed

lemma score_margin: "100 * grow ^ 11 / shrink ^ 9 * grow \<le> 100004 / 1000"
  unfolding grow_def shrink_def by (simp add: power_divide)

lemma score_rounded:
  assumes "0 \<le> s" "s * 100 \<le> 100 * grow ^ 11 / shrink ^ 9"
  shows "\<exists>y. quantize round_half_up 2 (dmul s 100) = Some y \<and> 0 \<le> y \<and> y \<le> 100"
proof -
  let ?i = "round_half_up (dmul s 100 * 10 ^ 2)"
  have "0 \<le> dmul s 100" using assms(1) by (intro dmul_nonneg) auto
  then have "round_half_up 0 \<le> ?i"
    by (intro round_half_up_mono) simp
  then have lo: "0 \<le> ?i"
    using round_half_up_int [of 0] by simp
  have "dmul s 100 \<le> s * 100 * grow"
    using dctx_upper [of "s * 100"] assms(1) by (simp add: dmul_def grow_def)
  also have "\<dots> \<le> 100 * grow ^ 11 / shrink ^ 9 * grow"
    using assms(2) grow_shrink(1) by (intro mult_right_mono) auto
  also note score_margin
  finally have "?i \<le> round_half_up (100004 / 10)"
    by (intro round_half_up_mono) simp
  moreover have "round_half_up (100004 / 10) = 10000"
    by (simp add: round_half_up_def floor_eq_iff)
  ultimately have hi: "?i \<le> 10000" by simp
  then have "(of_int ?i :: rat) \<le> of_int 10000"
    by (simp only: of_int_le_iff)
  then show ?thesis using lo hi
    by (intro exI [of _ "of_int ?i / 10 ^ 2"]) (simp add: quantize_def ctx_precision_def)
qed

text \<open>Weights the calculation accepts: each of the nine factors once, none negative, not all zero.\<close>

definition weights_ok :: "weights \<Rightarrow> bool" where
  "weights_ok ws \<longleftrightarrow>
     distinct (map fst ws) \<and> set (map fst ws) = set (map fst default_weights) \<and>
     list_all (\<lambda>(k, w). 0 \<le> w) ws \<and> list_ex (\<lambda>(k, w). 0 < w) ws"

definition scores_ok :: "opportunity_input \<Rightarrow> bool" where
  "scores_ok v \<longleftrightarrow> list_all (\<lambda>x. 0 \<le> x \<and> x \<le> 1)
     [oi_urgency v, oi_confidence v, oi_feasibility v, oi_alignment v, oi_risk v]"

lemma weighting_profiles_ok:
  "weights_ok default_weights" "weighting_profile c = Some ws \<Longrightarrow> weights_ok ws"
proof -
  show d: "weights_ok default_weights" by (simp add: weights_ok_def default_weights_def)
  show "weights_ok ws" if "weighting_profile c = Some ws"
    using that d by (auto simp: weighting_profile_def weights_ok_def override_weights_def default_weights_def
        split: if_splits)
qed

lemma normalize_weights_ok:
  assumes "weights_ok ws"
  shows "\<exists>nws. normalize_weights ws = Inr nws"
proof -
  have w0: "\<forall>x \<in> set (map snd ws). 0 \<le> x"
    using assms by (auto simp: weights_ok_def list_all_iff)
  obtain k w where kw: "(k, w) \<in> set ws" "0 < w"
    using assms by (auto simp: weights_ok_def list_ex_iff)
  have "0 < sum_list (map snd ws)"
    using member_le_sum_list [of w "map snd ws"] kw w0 by force
  then have "0 < sum_list (map snd ws) * shrink ^ length (map snd ws)"
    using grow_shrink(2) by simp
  then have "0 < dsum (map snd ws)" using dsum_lower [OF w0] by linarith
  moreover have "filter (\<lambda>k. k \<notin> fst ` set ws) (map fst default_weights) = []"
    using assms by (auto simp: weights_ok_def filter_empty_conv)
  ultimately show ?thesis
    using assms by (simp add: normalize_weights_def weights_ok_def)
qed

lemma contributions_total:
  "\<forall>k \<in> set (map fst ws). map_of fs k \<noteq> None \<Longrightarrow> \<exists>cs. contributions_of fs ws = Inr cs"
  by (induction ws) auto

lemma opportunity_score_total:
  assumes "weights_ok ws" "scores_ok v"
  shows "\<exists>r. calculate_opportunity_priority v ws = Inr r \<and> 0 \<le> op_score r \<and> op_score r \<le> 100 \<and>
    op_category r = categorize v (op_score r)"
proof -
  have ws: "ws \<noteq> []" and dist: "distinct (map fst ws)"
    using assms(1) by (auto simp: weights_ok_def)
  obtain nws where nws: "normalize_weights ws = Inr nws"
    using normalize_weights_ok [OF assms(1)] by blast
  obtain fs where fs: "factors_of v = Inr fs"
    using assms(2) by (simp add: factors_of_def scores_ok_def rate_def)
  have "map fst nws = map fst ws"
    using normalize_weightsD(4) [OF nws] by (simp add: case_prod_beta comp_def)
  then have "\<forall>k \<in> set (map fst nws). map_of fs k \<noteq> None"
    using assms(1) factors_of_keys [OF fs] by (simp add: weights_ok_def map_of_eq_None_iff flip: set_map)
  then obtain cs where cs: "contributions_of fs nws = Inr cs"
    using contributions_total by blast
  obtain y where "quantize round_half_up 2 (dmul (dsum (map snd cs)) 100) = Some y" "0 \<le> y" "y \<le> 100"
    using score_rounded [OF contribution_sum [OF nws fs cs dist]] by blast
  then show ?thesis
    using ws nws fs cs by (simp add: calculate_opportunity_priority_def)
qed

section \<open>Comparing inputs\<close>

text \<open>No better on any factor: less value, lower scores, a longer payback, more risk.\<close>

definition roi_value :: "rat option \<Rightarrow> rat" where
  "roi_value r = (case r of None \<Rightarrow> 0 | Some x \<Rightarrow> x)"

definition no_better :: "opportunity_input \<Rightarrow> opportunity_input \<Rightarrow> bool" where
  "no_better v v' \<longleftrightarrow>
     oi_adjusted v \<le> oi_adjusted v' \<and> oi_net v \<le> oi_net v' \<and>
     roi_value (oi_roi v) \<le> roi_value (oi_roi v') \<and>
     rel_option (\<ge>) (oi_payback v) (oi_payback v') \<and>
     oi_urgency v \<le> oi_urgency v' \<and> oi_confidence v \<le> oi_confidence v' \<and>
     oi_feasibility v \<le> oi_feasibility v' \<and> oi_alignment v \<le> oi_alignment v' \<and>
     oi_risk v' \<le> oi_risk v"

lemma bounded_mono: "x \<le> y \<Longrightarrow> bounded x \<le> bounded y"
  by (auto simp: bounded_def)

lemma factors_mono:
  assumes "factors_of v = Inr fs" "factors_of v' = Inr fs'" "no_better v v'"
  shows "list_all2 (\<lambda>(k, f) (k', f'). k = k' \<and> f \<le> f') fs fs'"
proof -
  have "(case oi_payback v of None \<Rightarrow> 1/2 | Some d \<Rightarrow> bounded (dsub 1 (ddiv d 365)))
      \<le> (case oi_payback v' of None \<Rightarrow> 1/2 | Some d \<Rightarrow> bounded (dsub 1 (ddiv d 365)))"
    using assms(3) unfolding no_better_def
    by (cases "oi_payback v"; cases "oi_payback v'")
      (auto intro!: bounded_mono dsub_mono ddiv_mono)
  moreover have "bounded (ddiv (roi_value (oi_roi v)) 5) \<le> bounded (ddiv (roi_value (oi_roi v')) 5)"
    using assms(3) by (intro bounded_mono ddiv_mono) (simp_all add: no_better_def)
  ultimately show ?thesis
    using assms
    by (auto simp: factors_of_def no_better_def roi_value_def intro!: bounded_mono ddiv_mono dsub_mono)
qed

lemma map_of_related:
  assumes "list_all2 (\<lambda>(k, f) (k', f'). k = k' \<and> f \<le> f') fs fs'" "map_of fs k = Some f"
  shows "\<exists>f'. map_of fs' k = Some f' \<and> f \<le> (f'::rat)"
  using assms by (induction rule: list_all2_induct) (auto split: if_splits)

lemma dsum_contributions_mono:
  assumes "contributions_of fs ws = Inr cs" "contributions_of fs' ws = Inr cs'"
    and "list_all2 (\<lambda>(k, f) (k', f'). k = k' \<and> f \<le> f') fs fs'" "\<forall>(k, w) \<in> set ws. 0 \<le> w"
  shows "dsum (map snd cs) \<le> dsum (map snd cs')"
proof -
  note C = contributions_ofD [OF assms(1)] contributions_ofD [OF assms(2)]
  have "dmul (the (map_of fs k)) w \<le> dmul (the (map_of fs' k)) w" if kw: "(k, w) \<in> set ws" for k w
  proof -
    from C(1) kw obtain f where "map_of fs k = Some f" by blast
    with map_of_related [OF assms(3)] assms(4) kw show ?thesis
      by (fastforce intro: dmul_mono)
  qed
  then show ?thesis
    using C by (intro dsum_mono) (auto simp: list_all2_map1 list_all2_map2 intro!: list.rel_refl_strong)
qed

lemma opportunity_score_mono:
  assumes "calculate_opportunity_priority v ws = Inr r" "calculate_opportunity_priority v' ws = Inr r'"
    and "no_better v v'"
  shows "op_score r \<le> op_score r'"
proof -
  define ws' where "ws' = (if ws = [] then default_weights else ws)"
  obtain nws fs cs where s: "normalize_weights ws' = Inr nws" "factors_of v = Inr fs"
    "contributions_of fs nws = Inr cs"
    "quantize round_half_up 2 (dmul (dsum (map snd cs)) 100) = Some (op_score r)"
    using assms(1) unfolding calculate_opportunity_priority_def ws'_def [symmetric] by auto
  obtain fs' cs' where s': "factors_of v' = Inr fs'" "contributions_of fs' nws = Inr cs'"
    "quantize round_half_up 2 (dmul (dsum (map snd cs')) 100) = Some (op_score r')"
    using assms(2) s(1) unfolding calculate_opportunity_priority_def ws'_def [symmetric] by auto
  note D = normalize_weightsD [OF s(1)]
  have "0 \<le> dsum (map snd ws')" using D(2) by (intro dsum_nonneg) auto
  then have "\<forall>(k, w) \<in> set nws. 0 \<le> w"
    using D(2,4) by (auto intro: ddiv_nonneg)
  from dsum_contributions_mono [OF s(3) s'(2) factors_mono [OF s(2) s'(1) assms(3)] this]
  have "dmul (dsum (map snd cs)) 100 \<le> dmul (dsum (map snd cs')) 100"
    by (intro dmul_mono) simp_all
  then show ?thesis by (rule quantize_mono [OF s(4) s'(3)]) (rule round_half_up_mono)
qed

section \<open>Properties\<close>

definition demo_economics :: economic_input where
  "demo_economics = \<lparr>ei_gross = 1000, ei_addressability = 1/2, ei_recoverability = 4/5,
     ei_success = 3/4, ei_cost = 100, ei_period_days = Some 30\<rparr>"

definition demo_opportunity :: opportunity_input where
  "demo_opportunity = \<lparr>oi_adjusted = 50000, oi_net = 40000, oi_roi = Some 4, oi_payback = Some 73,
     oi_urgency = 1/2, oi_confidence = 1/2, oi_feasibility = 1/2, oi_alignment = 1/2,
     oi_risk = 1/2, oi_dependency_ready = True, oi_resource_ready = True\<rparr>"

text \<open>C19: The value chain of a scenario. For a stored exposure and cost, a successful
  calculation never recovers more than it started from: the probability-adjusted value is at
  most the recoverable value, that at most the addressable exposure, and that at most the gross
  exposure, none below zero; the net benefit is exactly the adjusted value less the cost; and
  a return on investment is reported exactly when the cost is not zero, with the sign of the
  net benefit.\<close>

theorem economics_value_chain:
  assumes "calculate_economics v = Inr r" "money (ei_gross v) = Inr (ei_gross v)"
    and "money (ei_cost v) = Inr (ei_cost v)"
  shows "0 \<le> er_adjusted r \<and> er_adjusted r \<le> er_recoverable r \<and>
    er_recoverable r \<le> er_addressable r \<and> er_addressable r \<le> er_gross r \<and>
    er_gross r = ei_gross v \<and> er_net r = er_adjusted r - ei_cost v \<and>
    (er_roi r = None) = (ei_cost v = 0) \<and>
    (\<forall>x. er_roi r = Some x \<longrightarrow> (0 \<le> er_net r \<longrightarrow> 0 \<le> x) \<and> (er_net r \<le> 0 \<longrightarrow> x \<le> 0))"
proof -
  note D = calculate_economicsD [OF assms(1)]
  have a: "0 \<le> er_addressable r" "er_addressable r \<le> ei_gross v"
    using money_scaled [OF assms(2) D(1,3,4,9)] by blast+
  have b: "0 \<le> er_recoverable r" "er_recoverable r \<le> er_addressable r"
    using money_scaled [OF conjunct2 [OF money_fixed [OF D(9)]] a(1) D(5,6,10)] by blast+
  have c: "0 \<le> er_adjusted r" "er_adjusted r \<le> er_recoverable r"
    using money_scaled [OF conjunct2 [OF money_fixed [OF D(10)]] b(1) D(7,8,11)] by blast+
  have g: "er_gross r = ei_gross v" using D(14) assms(2) by simp
  have n: "er_net r = er_adjusted r - ei_cost v"
    using money_difference [OF conjunct2 [OF money_fixed [OF D(11)]] assms(3) D(12)] .
  have roi: "(er_roi r = None) = (ei_cost v = 0)"
    using D(13) by (auto simp: optionally_Inr_iff split: if_splits)
  have sign: "(0 \<le> er_net r \<longrightarrow> 0 \<le> x) \<and> (er_net r \<le> 0 \<longrightarrow> x \<le> 0)" if "er_roi r = Some x" for x
  proof -
    have x: "money (ddiv (er_net r) (ei_cost v)) = Inr x" "0 < ei_cost v"
      using D(2,13) that by (auto simp: optionally_Inr_iff split: if_splits)
    have "ddiv (er_net r) (ei_cost v) \<le> 0" if "er_net r \<le> 0"
      using ddiv_mono [OF that x(2)] by (simp add: ddiv_def)
    then show ?thesis
      using money_nonneg [OF x(1)] money_nonpos [OF x(1)] ddiv_nonneg [of "er_net r" "ei_cost v"] x(2)
      by auto
  qed
  show ?thesis using a(2) b(2) c g n roi sign by simp
qed

lemma demo_economics_result:
  "calculate_economics demo_economics = Inr \<lparr>er_gross = 1000, er_addressable = 500,
     er_recoverable = 400, er_adjusted = 300, er_cost = 100, er_net = 200, er_roi = Some 2,
     er_payback = Some 10, er_policy = STANDARD_POLICY\<rparr>"
  by code_simp

theorem economics_value_chain_witness:
  "er_net \<lparr>er_gross = 1000, er_addressable = 500, er_recoverable = 400, er_adjusted = 300,
     er_cost = 100, er_net = 200, er_roi = Some 2, er_payback = Some 10,
     er_policy = STANDARD_POLICY\<rparr> = 300 - ei_cost demo_economics"
  using economics_value_chain [OF demo_economics_result] twelve_places_exact(2) [of 1000 "10 ^ 15"]
    twelve_places_exact(2) [of 100 "10 ^ 14"]
  by (simp add: demo_economics_def)

text \<open>C24: The score of an opportunity. For any configured weights that give each of the nine
  factors a non-negative weight, not all zero (the three built-in profiles do), and scores
  between 0 and 1, the calculation succeeds, its score lies between 0 and 100 in spite of all
  the rounding on the way, the category is the one of the thresholds, and a blocked dependency
  or resource, and nothing else, gives the blocked category.\<close>

theorem opportunity_score_bounded:
  assumes "weights_ok ws" "scores_ok v"
  shows "\<exists>r. calculate_opportunity_priority v ws = Inr r \<and> 0 \<le> op_score r \<and> op_score r \<le> 100 \<and>
    op_category r = categorize v (op_score r) \<and>
    (op_category r = C_BLOCKED) = (\<not> (oi_dependency_ready v \<and> oi_resource_ready v))"
proof -
  obtain r where r: "calculate_opportunity_priority v ws = Inr r" "0 \<le> op_score r" "op_score r \<le> 100"
    "op_category r = categorize v (op_score r)"
    using opportunity_score_total [OF assms] by blast
  have "(categorize v (op_score r) = C_BLOCKED) = (\<not> (oi_dependency_ready v \<and> oi_resource_ready v))"
    by (simp add: categorize_def)
  with r show ?thesis by metis
qed

lemma demo_opportunity_ok: "scores_ok demo_opportunity" "scores_ok (demo_opportunity\<lparr>oi_risk := 1/4\<rparr>)"
  by (simp_all add: scores_ok_def demo_opportunity_def)

theorem opportunity_score_bounded_witness:
  "\<exists>r. calculate_opportunity_priority demo_opportunity default_weights = Inr r \<and> op_score r \<le> 100 \<and>
     op_category r \<noteq> C_BLOCKED"
proof -
  have "oi_dependency_ready demo_opportunity" "oi_resource_ready demo_opportunity"
    by (simp_all add: demo_opportunity_def)
  with opportunity_score_bounded [OF weighting_profiles_ok(1) demo_opportunity_ok(1)]
  show ?thesis by blast
qed

text \<open>The score is monotone. Under the same weights, an opportunity that is no better on any
  factor (less value, net benefit and return, a longer payback, lower scores, more risk) never
  gets a higher score, all rounding included.\<close>

theorem opportunity_score_monotone:
  assumes "calculate_opportunity_priority v ws = Inr r" "calculate_opportunity_priority v' ws = Inr r'"
    and "no_better v v'"
  shows "op_score r \<le> op_score r'"
  using assms by (rule opportunity_score_mono)

theorem opportunity_score_monotone_witness:
  "\<exists>r r'. calculate_opportunity_priority demo_opportunity default_weights = Inr r \<and>
     calculate_opportunity_priority (demo_opportunity\<lparr>oi_risk := 1/4\<rparr>) default_weights = Inr r' \<and>
     op_score r \<le> op_score r'"
proof -
  obtain r r' where "calculate_opportunity_priority demo_opportunity default_weights = Inr r"
    "calculate_opportunity_priority (demo_opportunity\<lparr>oi_risk := 1/4\<rparr>) default_weights = Inr r'"
    using opportunity_score_total [OF weighting_profiles_ok(1) demo_opportunity_ok(1)]
      opportunity_score_total [OF weighting_profiles_ok(1) demo_opportunity_ok(2)] by blast
  with opportunity_score_monotone [of demo_opportunity default_weights r
      "demo_opportunity\<lparr>oi_risk := 1/4\<rparr>" r']
  show ?thesis by (simp add: no_better_def demo_opportunity_def)
qed

section \<open>Rejected and failing calculations\<close>

lemma rate_Inl_iff [simp]: "rate n x = Inl e \<longleftrightarrow> \<not> (0 \<le> x \<and> x \<le> 1) \<and> e = RateOutOfRange n"
  by (auto simp: rate_def bindE_Inl_iff)

lemma money_Inl: "money x = Inl e \<Longrightarrow> e = InvalidOperation"
  by (simp add: money_def)

definition economic_input_ok :: "economic_input \<Rightarrow> bool" where
  "economic_input_ok v \<longleftrightarrow>
     (0 \<le> ei_gross v \<and> 0 \<le> ei_cost v) \<and> (0 \<le> ei_addressability v \<and> ei_addressability v \<le> 1) \<and>
     (0 \<le> ei_recoverability v \<and> ei_recoverability v \<le> 1) \<and> (0 \<le> ei_success v \<and> ei_success v \<le> 1)"

lemma money_total:
  assumes "\<bar>x\<bar> \<le> of_int B" "\<bar>B\<bar> * 10 ^ 12 < 10 ^ 28"
  shows "\<exists>y. money x = Inr y"
proof -
  let ?i = "round_half_up (x * 10 ^ 12)"
  have "of_int (- B * 10 ^ 12) \<le> x * 10 ^ 12" "x * 10 ^ 12 \<le> of_int (B * 10 ^ 12)"
    using assms(1) by (simp_all add: abs_le_iff)
  then have "- B * 10 ^ 12 \<le> ?i" "?i \<le> B * 10 ^ 12"
    using round_half_up_mono round_half_up_int by metis+
  then have "\<bar>?i\<bar> < 10 ^ 28" using assms(2) by (simp add: abs_if split: if_splits)
  then show ?thesis
    by (intro exI [of _ "of_int ?i / 10 ^ 12"]) (simp add: money_Inr_iff quantize_def ctx_precision_def)
qed

lemma dctx_int [simp]: "\<bar>B\<bar> < 10 ^ 28 \<Longrightarrow> dctx (of_int B) = of_int B"
proof -
  assume "\<bar>B\<bar> < 10 ^ 28"
  then have "(of_int \<bar>B\<bar> :: rat) < of_int (10 ^ 28)" by (simp only: of_int_less_iff)
  then have "\<bar>of_int B :: rat\<bar> < 10 powi (0 + ctx_precision)" by (simp add: ctx_precision_def)
  then show ?thesis by (intro dctx_exact [where n = B and k = 0]) simp_all
qed

lemma dctx_within:
  assumes "\<bar>x\<bar> \<le> of_int B" "\<bar>B\<bar> < 10 ^ 28"
  shows "\<bar>dctx x\<bar> \<le> of_int B"
proof -
  have "dctx x \<le> of_int B" using dctx_mono [of x "of_int B"] assms by (simp add: abs_le_iff)
  moreover have "- of_int B \<le> dctx x"
    using dctx_mono [of "- of_int B" x] assms by (simp add: abs_le_iff dctx_minus)
  ultimately show ?thesis by (simp add: abs_le_iff)
qed

lemma calculate_economics_total:
  assumes "economic_input_ok v" "ei_gross v \<le> 10 ^ 12" "ei_cost v \<le> 10 ^ 12"
    and "ei_cost v = 0 \<or> 1 / 1000 \<le> ei_cost v" "ei_period_days v = None"
    and m: "money (ei_gross v) = Inr (ei_gross v)" "money (ei_cost v) = Inr (ei_cost v)"
  shows "\<exists>r. calculate_economics v = Inr r"
proof -
  have ok: "0 \<le> ei_gross v" "0 \<le> ei_cost v" "0 \<le> ei_addressability v" "ei_addressability v \<le> 1"
    "0 \<le> ei_recoverability v" "ei_recoverability v \<le> 1" "0 \<le> ei_success v" "ei_success v \<le> 1"
    using assms(1) by (simp_all add: economic_input_ok_def)
  have step: "\<exists>y. money (dmul a q) = Inr y \<and> money y = Inr y \<and> 0 \<le> y \<and> y \<le> 10 ^ 12"
    if "money a = Inr a" "0 \<le> a" "a \<le> 10 ^ 12" "0 \<le> q" "q \<le> 1" for a q
  proof -
    have "\<bar>a * q\<bar> \<le> of_int (10 ^ 12)"
      using that(2-5) mult_left_le [of q a] by (simp add: abs_mult)
    then have "\<bar>dmul a q\<bar> \<le> of_int (10 ^ 12)"
      unfolding dmul_def by (rule dctx_within) simp
    then obtain y where y: "money (dmul a q) = Inr y" using money_total by fastforce
    with money_scaled [OF that(1,2,4,5) y] money_fixed [OF y] that(3) show ?thesis by auto
  qed
  obtain a where a: "money (dmul (ei_gross v) (ei_addressability v)) = Inr a" "money a = Inr a" "0 \<le> a" "a \<le> 10 ^ 12"
    using step [OF m(1) ok(1) assms(2) ok(3,4)] by blast
  obtain b where b: "money (dmul a (ei_recoverability v)) = Inr b" "money b = Inr b" "0 \<le> b" "b \<le> 10 ^ 12"
    using step [OF a(2-4) ok(5,6)] by blast
  obtain c where c: "money (dmul b (ei_success v)) = Inr c" "money c = Inr c" "0 \<le> c" "c \<le> 10 ^ 12"
    using step [OF b(2-4) ok(7,8)] by blast
  have "\<bar>c - ei_cost v\<bar> \<le> of_int (10 ^ 12)"
    using c(3,4) ok(2) assms(3) by (simp add: abs_le_iff)
  then have "\<bar>dsub c (ei_cost v)\<bar> \<le> of_int (10 ^ 12)"
    unfolding dsub_def by (rule dctx_within) simp
  then obtain net where net: "money (dsub c (ei_cost v)) = Inr net" using money_total by fastforce
  have n: "\<bar>net\<bar> \<le> 10 ^ 12"
    using money_difference [OF c(2) m(2) net] c(3,4) ok(2) assms(3) by (simp add: abs_le_iff)
  have "\<exists>roi. optionally (ei_cost v \<noteq> 0) (money (ddiv net (ei_cost v))) = Inr roi"
  proof (cases "ei_cost v = 0")
    case False
    then have cost: "1 / 1000 \<le> ei_cost v" using assms(4) by simp
    have "\<bar>net\<bar> \<le> 10 ^ 15 * ei_cost v"
      using n cost by simp
    then have "\<bar>net / ei_cost v\<bar> \<le> of_int (10 ^ 15)"
      using cost by (simp add: abs_divide pos_divide_le_eq)
    then have "\<bar>ddiv net (ei_cost v)\<bar> \<le> of_int (10 ^ 15)"
      unfolding ddiv_def by (rule dctx_within) simp
    then obtain y where "money (ddiv net (ei_cost v)) = Inr y" using money_total by fastforce
    then show ?thesis by (simp add: optionally_def)
  qed (simp add: optionally_def)
  then obtain roi where roi: "optionally (ei_cost v \<noteq> 0) (money (ddiv net (ei_cost v))) = Inr roi" by blast
  have rates: "rate n (ei_addressability v) = Inr (ei_addressability v)"
    "rate n (ei_recoverability v) = Inr (ei_recoverability v)" "rate n (ei_success v) = Inr (ei_success v)" for n
    using ok by simp_all
  show ?thesis
    unfolding calculate_economics_def
    by (simp only: rates a b c net roi m ok simp_thms require_simps bindE_simps assms(5)
        positive_period_def option.case optionally_False) blast
qed

lemma calculate_economics_rejects:
  "(\<exists>e. calculate_economics v = Inl e \<and> e \<noteq> InvalidOperation) \<longleftrightarrow> \<not> economic_input_ok v"
proof
  assume "\<exists>e. calculate_economics v = Inl e \<and> e \<noteq> InvalidOperation"
  then show "\<not> economic_input_ok v"
    unfolding calculate_economics_def economic_input_ok_def
    by (auto simp: bindE_Inl_iff optionally_def dest!: money_Inl split: if_splits)
next
  assume "\<not> economic_input_ok v"
  then consider "(0 \<le> ei_gross v \<and> 0 \<le> ei_cost v) = False"
    | "(0 \<le> ei_gross v \<and> 0 \<le> ei_cost v) = True"
      "(0 \<le> ei_addressability v \<and> ei_addressability v \<le> 1) = False"
    | "(0 \<le> ei_gross v \<and> 0 \<le> ei_cost v) = True"
      "(0 \<le> ei_addressability v \<and> ei_addressability v \<le> 1) = True"
      "(0 \<le> ei_recoverability v \<and> ei_recoverability v \<le> 1) = False"
    | "(0 \<le> ei_gross v \<and> 0 \<le> ei_cost v) = True"
      "(0 \<le> ei_addressability v \<and> ei_addressability v \<le> 1) = True"
      "(0 \<le> ei_recoverability v \<and> ei_recoverability v \<le> 1) = True"
      "(0 \<le> ei_success v \<and> ei_success v \<le> 1) = False"
    unfolding economic_input_ok_def by blast
  then have "calculate_economics v \<in> {Inl NegativeMoney, Inl (RateOutOfRange ''addressability_rate''),
      Inl (RateOutOfRange ''recoverability_rate''), Inl (RateOutOfRange ''success_probability'')}"
    unfolding calculate_economics_def rate_def
    by cases (simp_all only: require_simps bindE_simps insert_iff simp_thms)
  then show "\<exists>e. calculate_economics v = Inl e \<and> e \<noteq> InvalidOperation" by auto
qed

text \<open>What a calculation accepts. It raises an economics error exactly when the exposure or
  the cost is negative or a rate lies outside 0 to 1; and it succeeds on all other stored
  inputs up to a million millions with no cost, or one of at least a thousandth, and no
  benefit period.\<close>

theorem economics_accepts:
  "((\<exists>e. calculate_economics v = Inl e \<and> e \<noteq> InvalidOperation) \<longleftrightarrow> \<not> economic_input_ok v) \<and>
   (economic_input_ok v \<and> ei_gross v \<le> 10 ^ 12 \<and> ei_cost v \<le> 10 ^ 12 \<and>
      (ei_cost v = 0 \<or> 1 / 1000 \<le> ei_cost v) \<and> ei_period_days v = None \<and>
      money (ei_gross v) = Inr (ei_gross v) \<and> money (ei_cost v) = Inr (ei_cost v) \<longrightarrow>
    (\<exists>r. calculate_economics v = Inr r))"
  using calculate_economics_rejects [of v] calculate_economics_total [of v] by blast

theorem economics_accepts_witness:
  "\<exists>r. calculate_economics (demo_economics\<lparr>ei_period_days := None\<rparr>) = Inr r"
  using economics_accepts [of "demo_economics\<lparr>ei_period_days := None\<rparr>"]
    twelve_places_exact(2) [of 1000 "10 ^ 15"] twelve_places_exact(2) [of 100 "10 ^ 14"]
  by (simp add: demo_economics_def economic_input_ok_def)

text \<open>A small cost makes a valid calculation fail. If everything is recoverable and the net
  benefit is at least \<open>10 ^ 16\<close> times the (non-zero) cost, the return on investment does not fit
  the 28 digits of the context at twelve places, and the calculation ends in
  \<open>decimal.InvalidOperation\<close>, which is no economics error and which no caller handles.\<close>

theorem economics_roi_overflow:
  assumes "money (ei_gross v) = Inr (ei_gross v)" "money (ei_cost v) = Inr (ei_cost v)"
    and "ei_addressability v = 1" "ei_recoverability v = 1" "ei_success v = 1"
    and "0 < ei_cost v" "10 ^ 16 * ei_cost v \<le> ei_gross v - ei_cost v"
  shows "economic_input_ok v \<and> calculate_economics v = Inl InvalidOperation"
proof -
  have "0 \<le> 10 ^ 16 * ei_cost v" using assms(6) by simp
  then have g: "0 \<le> ei_gross v" using assms(6,7) by linarith
  then have ok: "economic_input_ok v" using assms by (simp add: economic_input_ok_def)
  have "calculate_economics v \<noteq> Inr r" for r
  proof
    assume r: "calculate_economics v = Inr r"
    note D = calculate_economicsD [OF r]
    have "dmul (ei_gross v) 1 = ei_gross v" using money_fixed [OF assms(1)] by (simp add: dmul_def)
    then have "er_adjusted r = ei_gross v"
      using D(9-11) assms(1,3-5) by simp
    then have n: "er_net r = ei_gross v - ei_cost v"
      using money_difference [OF assms(1,2)] D(12) by simp
    have "10 ^ 16 \<le> er_net r / ei_cost v"
      using assms(6,7) by (simp add: n pos_le_divide_eq)
    moreover obtain x where "money (dctx (er_net r / ei_cost v)) = Inr x"
      using D(13) assms(6) by (auto simp: optionally_Inr_iff ddiv_def)
    ultimately show False using money_dctx_large [of "er_net r / ei_cost v" x] by linarith
  qed
  then obtain e where "calculate_economics v = Inl e" by (cases "calculate_economics v") auto
  with ok calculate_economics_rejects [of v] show ?thesis by auto
qed

theorem economics_roi_overflow_witness:
  "calculate_economics \<lparr>ei_gross = 100000, ei_addressability = 1, ei_recoverability = 1,
     ei_success = 1, ei_cost = 1 / 10 ^ 12, ei_period_days = None\<rparr> = Inl InvalidOperation"
  using economics_roi_overflow [of "\<lparr>ei_gross = 100000, ei_addressability = 1,
      ei_recoverability = 1, ei_success = 1, ei_cost = 1 / 10 ^ 12, ei_period_days = None\<rparr>"]
    twelve_places_exact(2) [of 100000 "10 ^ 17"] twelve_places_exact(2) [of "1 / 10 ^ 12" 1]
  by simp

end
