(* ===== verification/Action_Proofs.thy ===== *)
theory Action_Proofs
  imports Actions
begin

text \<open>
  What one request does to the action tables, as a relation with a rule per kind of effect,
  and the invariants of the tables: the declared constraints, event trails that replay to the
  status, approvals by administrators, evidence behind every verification.
\<close>

section \<open>Effects\<close>

inductive action_evolves :: "operational_action \<Rightarrow> operational_action \<Rightarrow> bool" where
  moved: "target \<in> set (action_transitions (oa_status a)) \<Longrightarrow>
    action_evolves a (moved_action now target a)"
| assigned: "action_evolves a
    (a\<lparr>oa_assigned_user := u, oa_assigned_role := r, oa_assigned_team := t, oa_due_at := d\<rparr>)"

definition move_allowed :: "'a action_db_scheme \<Rightarrow> operational_action \<Rightarrow> action_status \<Rightarrow> string \<Rightarrow> bool" where
  "move_allowed db a target role \<longleftrightarrow>
     target \<in> set (action_transitions (oa_status a)) \<and>
     (target = A_APPROVED \<and> oa_approval_required a \<longrightarrow> role \<in> set admin_roles) \<and>
     (target = A_COMPLETED \<longrightarrow> dependencies_ready (dependency_pairs db (oa_id a)) \<and>
        resources_ready (resource_pairs db (oa_id a))) \<and>
     (target = A_VERIFIED \<longrightarrow> 0 < verification_evidence db (oa_id a))"

inductive action_effect ::
    "action_env \<Rightarrow> uuid \<Rightarrow> 'a action_db_scheme \<Rightarrow> 'a action_db_scheme \<Rightarrow> bool" where
  kept: "action_effect env org db db"
| action_added: "oa_org a = org \<Longrightarrow> oa_status a = A_PROPOSED \<Longrightarrow>
    ev_action e = oa_id a \<Longrightarrow> ev_org e = org \<Longrightarrow> ev_type e = EV_CREATED \<Longrightarrow>
    action_effect env org db
      (db\<lparr>actions := actions db @ [a], action_events := action_events db @ [e]\<rparr>)"
| action_moved: "a \<in> set (actions db) \<Longrightarrow> oa_org a = org \<Longrightarrow> move_allowed db a target role \<Longrightarrow>
    e = action_event_for a EV_TRANSITION actor role reason key (Some (oa_status a)) (Some target) note \<Longrightarrow>
    action_effect env org db
      (db\<lparr>actions := put_row oa_id (moved_action now target a) (actions db),
          action_events := action_events db @ [e]\<rparr>)"
| action_assigned: "a \<in> set (actions db) \<Longrightarrow> oa_org a = org \<Longrightarrow>
    e = action_event_for a EV_ASSIGNMENT actor role reason key None None None \<Longrightarrow>
    action_effect env org db
      (db\<lparr>actions := put_row oa_id (a\<lparr>oa_assigned_user := u, oa_assigned_role := r,
            oa_assigned_team := t, oa_due_at := d\<rparr>) (actions db),
          action_events := action_events db @ [e]\<rparr>)"
| step_added: "ps_org s = org \<Longrightarrow> action_effect env org db (db\<lparr>plan_steps := plan_steps db @ [s]\<rparr>)"
| dependency_added: "de_org d = org \<Longrightarrow> de_status d = DEP_UNRESOLVED \<Longrightarrow>
    action_effect env org db (db\<lparr>dependencies := dependencies db @ [d]\<rparr>)"
| resource_added: "re_org r = org \<Longrightarrow> action_effect env org db (db\<lparr>resources := resources db @ [r]\<rparr>)"
| evidence_added: "ae_org v = org \<Longrightarrow>
    action_effect env org db (db\<lparr>action_evidence_rows := action_evidence_rows db @ [v]\<rparr>)"
| outcome_added: "a \<in> set (actions db) \<Longrightarrow> oa_org a = org \<Longrightarrow> ou_org o' = org \<Longrightarrow>
    ou_action o' = oa_id a \<Longrightarrow>
    (ou_type o' = REALIZED_OUTCOME \<Longrightarrow>
       realized_value_eligible (oa_status a) (verification_evidence db (oa_id a))) \<Longrightarrow>
    action_effect env org db (db\<lparr>action_outcomes := action_outcomes db @ [o']\<rparr>)"
| feedback_added: "a \<in> set (actions db) \<Longrightarrow> oa_org a = org \<Longrightarrow> fb_org f = org \<Longrightarrow>
    fb_action f = oa_id a \<Longrightarrow> oa_status a = A_VERIFIED \<Longrightarrow>
    action_effect env org db (db\<lparr>action_feedback_rows := action_feedback_rows db @ [f]\<rparr>)"

lemma commit_actionD:
  "commit_action db r = Inr (db', r') \<Longrightarrow> db' = db \<and> r' = r \<and> action_constraints db'"
  by (auto simp: commit_action_def)

lemma action_getD: "action_get db org i = Inr a \<Longrightarrow> a \<in> set (actions db) \<and> oa_id a = i \<and> oa_org a = org"
  unfolding action_get_def by (rule tenant_getD)

lemma action_create_effect:
  assumes "action_create env db org i p actor = Inr (db', r)"
  shows "action_effect env org db db' \<and> (db' = db \<or> action_constraints db')"
  using assms
  by (auto simp: action_create_def Let_def new_action_def action_event_for_def
      dest!: commit_actionD split: option.splits intro: kept action_added)

lemma action_transition_effect:
  assumes "action_transition db org i p actor role now = Inr (db', r)"
  shows "action_effect env org db db' \<and> (db' = db \<or> action_constraints db')"
proof -
  obtain a where a: "action_get db org i = Inr a"
    using assms by (auto simp: action_transition_def)
  note A = action_getD [OF a]
  show ?thesis
  proof (cases "find (\<lambda>e. ev_action e = oa_id a \<and> ev_key e = at_key p) (action_events db)")
    case (Some e)
    then show ?thesis using assms a by (auto simp: action_transition_def intro: kept)
  next
    case None
    have ok: "move_allowed db a (at_status p) role"
      using assms a None
      by (auto simp: action_transition_def move_allowed_def require_action_transition_def
          split: sum.splits if_splits)
    have "db' = db\<lparr>actions := put_row oa_id (moved_action now (at_status p) a) (actions db),
        action_events := action_events db @ [action_event_for a EV_TRANSITION actor role (at_reason p)
          (at_key p) (Some (oa_status a)) (Some (at_status p)) (at_note p)]\<rparr> \<and> action_constraints db'"
      using assms a None
      by (auto simp: action_transition_def Let_def put_action_def dest!: commit_actionD
          split: sum.splits if_splits)
    moreover have "action_effect env org db (db\<lparr>actions := put_row oa_id (moved_action now (at_status p) a) (actions db),
        action_events := action_events db @ [action_event_for a EV_TRANSITION actor role (at_reason p)
          (at_key p) (Some (oa_status a)) (Some (at_status p)) (at_note p)]\<rparr>)"
      using action_moved [OF _ _ ok refl] A by blast
    ultimately show ?thesis by blast
  qed
qed

lemma action_assign_effect:
  assumes "action_assign db org i p actor role = Inr (db', r)"
  shows "action_effect env org db db' \<and> action_constraints db'"
  using assms
  by (auto simp: action_assign_def Let_def put_action_def dest!: commit_actionD action_getD
      intro: action_assigned [OF _ _ refl])

lemmas action_append_defs =
  action_add_plan_step_def action_add_dependency_def action_add_resource_def
  action_add_evidence_def action_record_outcome_def action_record_feedback_def

lemma action_step_effect:
  assumes "action_step env op db = Inr (db', r)"
  shows "action_effect env (action_op_org op) db db' \<and> (db' = db \<or> action_constraints db')"
proof (cases op)
  case (CreateAction org i p actor)
  with assms action_create_effect show ?thesis by simp
next
  case (TransitionAction org i p actor role now)
  with assms action_transition_effect [of db org i p actor role now db' r env] show ?thesis by simp
next
  case (AssignAction org i p actor role)
  with assms action_assign_effect [of db org i p actor role db' r env] show ?thesis by simp
next
  case (AddPlanStep org i p)
  with assms show ?thesis
    by (auto simp: action_append_defs Let_def dest!: commit_actionD intro: step_added)
next
  case (AddDependency org i p)
  with assms show ?thesis
    by (auto simp: action_append_defs Let_def dest!: commit_actionD intro: dependency_added)
next
  case (AddResource org i p)
  with assms show ?thesis
    by (auto simp: action_append_defs Let_def dest!: commit_actionD intro: resource_added)
next
  case (AddEvidence org i p actor)
  with assms show ?thesis
    by (auto simp: action_append_defs Let_def dest!: commit_actionD intro: evidence_added)
next
  case (RecordOutcome org i p actor now)
  with assms show ?thesis
    by (auto simp: action_append_defs Let_def dest!: commit_actionD action_getD intro: outcome_added)
next
  case (RecordFeedback org i p)
  with assms show ?thesis
    by (auto simp: action_append_defs Let_def dest!: commit_actionD action_getD intro: feedback_added)
qed

section \<open>What a change keeps\<close>

lemma moved_action_simps [simp]:
  "oa_id (moved_action now target a) = oa_id a" "oa_org (moved_action now target a) = oa_org a"
  "oa_status (moved_action now target a) = target"
  "oa_approval_required (moved_action now target a) = oa_approval_required a"
  "oa_fingerprint (moved_action now target a) = oa_fingerprint a"
  "oa_completed_at (moved_action now target a) =
     (if target = A_COMPLETED then Some now else oa_completed_at a)"
  "oa_verified_at (moved_action now target a) =
     (if target = A_VERIFIED then Some now else oa_verified_at a)"
  by (simp_all add: moved_action_def Let_def)

lemma action_evolves_key:
  assumes "action_evolves a a'"
  shows "oa_id a' = oa_id a \<and> oa_org a' = oa_org a \<and> oa_approval_required a' = oa_approval_required a \<and>
    (oa_status a' = oa_status a \<or> oa_status a' \<in> set (action_transitions (oa_status a)))"
  using assms by cases auto

definition action_is_new :: "operational_action \<Rightarrow> bool" where
  "action_is_new a \<longleftrightarrow> oa_status a = A_PROPOSED"

lemma action_effect_table:
  assumes "action_effect env org db db'"
  shows "table_step oa_id oa_org action_is_new action_evolves org (actions db) (actions db')"
  using assms
proof cases
  case (action_added a e)
  then show ?thesis by (auto intro!: table_step_add simp: action_is_new_def)
next
  case (action_moved a target role e actor reason key nt now)
  then have "action_evolves a (moved_action now target a)"
    by (intro moved) (simp add: move_allowed_def)
  with action_moved show ?thesis by (auto intro!: table_step_put)
next
  case (action_assigned a e actor role reason key u r t d)
  then show ?thesis by (auto intro!: table_step_put assigned)
qed simp_all

lemma action_effect_appends:
  assumes "action_effect env org db db'"
  shows "\<exists>es. action_events db' = action_events db @ es"
    "\<exists>ds. dependencies db' = dependencies db @ ds \<and> list_all (\<lambda>d. de_status d = DEP_UNRESOLVED) ds"
    "\<exists>vs. action_evidence_rows db' = action_evidence_rows db @ vs"
    "\<exists>os. action_outcomes db' = action_outcomes db @ os"
  using assms by (cases, simp_all)+

end
