(* ===== verification/Action_Properties.thy ===== *)
theory Action_Properties
  imports Action_Proofs
begin

text \<open>
  The invariants of the action tables, the interfaces they implement, and the properties of
  the action engine and the action service.
\<close>

section \<open>Invariants\<close>

definition action_trail :: "'a action_db_scheme \<Rightarrow> uuid \<Rightarrow> (action_status \<times> action_status) list" where
  "action_trail db i = map (\<lambda>e. (the (ev_prior e), the (ev_new e)))
     (filter (\<lambda>e. ev_action e = i \<and> ev_type e = EV_TRANSITION) (action_events db))"

definition trails_replay :: "'a action_db_scheme \<Rightarrow> bool" where
  "trails_replay db \<longleftrightarrow>
     (\<forall>a \<in> set (actions db). replay action_transitions A_PROPOSED (action_trail db (oa_id a)) = Some (oa_status a))"

definition approvals_authorized :: "'a action_db_scheme \<Rightarrow> bool" where
  "approvals_authorized db \<longleftrightarrow>
     (\<forall>e \<in> set (action_events db). \<forall>a \<in> set (actions db).
        ev_action e = oa_id a \<and> oa_approval_required a \<and> ev_type e = EV_TRANSITION \<and>
        the (ev_new e) = A_APPROVED \<longrightarrow> ev_role e \<in> set admin_roles)"

definition done_statuses :: "action_status list" where
  "done_statuses = [A_COMPLETED, A_VERIFICATION_PENDING, A_VERIFIED, A_VERIFICATION_REJECTED]"

text \<open>Times of completion and verification, on the row alone.\<close>

definition stamped :: "operational_action \<Rightarrow> bool" where
  "stamped a \<longleftrightarrow> (oa_status a \<in> set done_statuses \<longrightarrow> oa_completed_at a \<noteq> None) \<and>
     (oa_status a = A_VERIFIED \<longrightarrow> oa_verified_at a \<noteq> None)"

definition verified_backed :: "'a action_db_scheme \<Rightarrow> bool" where
  "verified_backed db \<longleftrightarrow>
     (\<forall>a \<in> set (actions db). oa_status a = A_VERIFIED \<longrightarrow> 0 < verification_evidence db (oa_id a))"

definition realized_backed :: "'a action_db_scheme \<Rightarrow> bool" where
  "realized_backed db \<longleftrightarrow>
     (\<forall>r \<in> set (action_outcomes db). \<forall>a \<in> set (actions db).
        ou_action r = oa_id a \<and> ou_type r = REALIZED_OUTCOME \<longrightarrow> oa_status a = A_VERIFIED)"

definition action_wf :: "'a action_db_scheme \<Rightarrow> bool" where
  "action_wf db \<longleftrightarrow>
     action_constraints db \<and> trails_replay db \<and> approvals_authorized db \<and>
     (\<forall>a \<in> set (actions db). stamped a) \<and> verified_backed db \<and> realized_backed db"

lemma action_ids_unique: "action_constraints db \<Longrightarrow> unique_on oa_id (actions db)"
  by (simp add: action_constraints_def actions_ok_def)

text \<open>No event and no outcome belongs to an action that is only now inserted.\<close>

lemma new_action_unreferenced:
  assumes "action_constraints db" "action_constraints db'" "actions db' = actions db @ [a]"
  shows "e \<in> set (action_events db) \<Longrightarrow> ev_action e \<noteq> oa_id a"
    "r \<in> set (action_outcomes db) \<Longrightarrow> ou_action r \<noteq> oa_id a"
proof -
  have new: "oa_id a \<notin> oa_id ` set (actions db)"
    using action_ids_unique [OF assms(2)] by (simp add: assms(3) unique_on_snoc)
  have known: "(o', i) \<in> action_keys db \<Longrightarrow> i \<in> oa_id ` set (actions db)" for o' i
    by (auto simp: action_keys_def)
  show "ev_action e \<noteq> oa_id a" if "e \<in> set (action_events db)"
    using assms(1) that known new
    by (fastforce simp: action_constraints_def events_ok_def list_all_iff)
  show "ou_action r \<noteq> oa_id a" if "r \<in> set (action_outcomes db)"
    using assms(1) that known new
    by (fastforce simp: action_constraints_def outcomes_ok_def list_all_iff)
qed

subsection \<open>Trails\<close>

lemma action_trail_snoc:
  "action_events db' = action_events db @ [e] \<Longrightarrow>
     action_trail db' i = action_trail db i @
       (if ev_action e = i \<and> ev_type e = EV_TRANSITION then [(the (ev_prior e), the (ev_new e))] else [])"
  by (simp add: action_trail_def)

lemma action_trail_same: "action_events db' = action_events db \<Longrightarrow> action_trail db' i = action_trail db i"
  by (simp add: action_trail_def)

lemma event_for_simps [simp]:
  "ev_action (action_event_for a t actor role reason key prior new nt) = oa_id a"
  "ev_org (action_event_for a t actor role reason key prior new nt) = oa_org a"
  "ev_type (action_event_for a t actor role reason key prior new nt) = t"
  "ev_prior (action_event_for a t actor role reason key prior new nt) = prior"
  "ev_new (action_event_for a t actor role reason key prior new nt) = new"
  "ev_role (action_event_for a t actor role reason key prior new nt) = role"
  by (simp_all add: action_event_for_def)

lemma effect_trails:
  assumes "action_effect env org db db'" "action_constraints db" "action_constraints db'"
    and t: "trails_replay db"
  shows "trails_replay db'"
  using assms(1)
proof cases
  case (action_added a e)
  have "action_trail db (oa_id a) = []"
    using new_action_unreferenced(1) [OF assms(2,3), of a] action_added(1)
    by (auto simp: action_trail_def filter_empty_conv)
  moreover have "action_trail db' i = action_trail db i" for i
    using action_trail_snoc [of db' db e i] action_added(1,6) by simp
  ultimately show ?thesis
    using t action_added by (auto simp: trails_replay_def)
next
  case (action_moved a target role e actor reason key nt now)
  have e: "action_events db' = action_events db @ [e]" by (simp add: action_moved(1))
  have "replay action_transitions A_PROPOSED (action_trail db' (oa_id b)) = Some (oa_status b)" if b: "b \<in> set (actions db')" for b
  proof (cases "oa_id b = oa_id a")
    case True
    then have "b = moved_action now target a"
      using b unique_on_eq [OF action_ids_unique [OF assms(2)], of _ a] action_moved(2)
      by (auto simp: action_moved(1) in_put_row_iff)
    moreover have "replay action_transitions A_PROPOSED (action_trail db (oa_id a)) = Some (oa_status a)"
      using t action_moved(2) by (simp add: trails_replay_def)
    ultimately show ?thesis
      using action_moved(4) by (simp add: action_trail_snoc [OF e] action_moved(5) replay_append move_allowed_def)
  next
    case False
    then have "b \<in> set (actions db)" using b by (auto simp: action_moved(1) in_put_row_iff)
    with t False show ?thesis by (simp add: action_trail_snoc [OF e] action_moved(5) trails_replay_def)
  qed
  then show ?thesis by (simp add: trails_replay_def)
next
  case (action_assigned a e actor role reason key u r tm d)
  have e: "action_events db' = action_events db @ [e]" by (simp add: action_assigned(1))
  have "replay action_transitions A_PROPOSED (action_trail db (oa_id a)) = Some (oa_status a)"
    using t action_assigned(2) by (simp add: trails_replay_def)
  then show ?thesis
    using t by (auto simp: trails_replay_def action_trail_snoc [OF e] action_assigned(4))
      (auto simp: action_assigned(1) in_put_row_iff)
qed (use t in \<open>auto simp: trails_replay_def action_trail_def\<close>)

subsection \<open>Approvals\<close>

lemma effect_approvals:
  assumes "action_effect env org db db'" "action_constraints db" "action_constraints db'"
    and t: "approvals_authorized db"
  shows "approvals_authorized db'"
proof -
  have keys: "oa_approval_required b = oa_approval_required a"
    if "a \<in> set (actions db)" "b = a \<or> action_evolves a b" for a b
    using that action_evolves_key by auto
  have old: "\<exists>a \<in> set (actions db). oa_id a = oa_id b \<and> oa_approval_required a = oa_approval_required b"
    if "b \<in> set (actions db')" "\<not> action_is_new b \<or> b \<in> set (actions db)" for b
    using action_effect_table [OF assms(1)] that action_evolves_key
    unfolding table_step_def by (auto simp: in_put_row_iff) (metis)+
  show ?thesis
    using assms(1)
  proof cases
    case (action_added a e)
    then show ?thesis
      using t new_action_unreferenced(1) [OF assms(2,3), of a]
      by (auto simp: approvals_authorized_def)
  next
    case (action_moved a target role e actor reason key nt now)
    have "ev_role x \<in> set admin_roles"
      if x: "x \<in> set (action_events db')" "b \<in> set (actions db')" "ev_action x = oa_id b"
        "oa_approval_required b" "ev_type x = EV_TRANSITION" "the (ev_new x) = A_APPROVED" for x b
    proof -
      obtain c where c: "c \<in> set (actions db)" "oa_id c = oa_id b" "oa_approval_required c"
        using x(2,4) by (auto simp: action_moved(1) in_put_row_iff) (use action_moved(2) in force)+
      show ?thesis
      proof (cases "x = e")
        case True
        then have "c = a"
          using x(3) c action_moved(2,5) unique_on_eq [OF action_ids_unique [OF assms(2)], of c a] by simp
        then show ?thesis
          using True x(6) c(3) action_moved(4,5) by (simp add: move_allowed_def)
      next
        case False
        then have "x \<in> set (action_events db)" using x(1) by (simp add: action_moved(1))
        with t x c show ?thesis unfolding approvals_authorized_def by metis
      qed
    qed
    then show ?thesis by (simp add: approvals_authorized_def)
  next
    case (action_assigned a e actor role reason key u r tm d)
    then show ?thesis
      using t by (fastforce simp: approvals_authorized_def in_put_row_iff)
  qed (use t in \<open>auto simp: approvals_authorized_def\<close>)
qed

subsection \<open>Completion and verification\<close>

lemma action_evolves_stamped:
  assumes "action_evolves a a'" "stamped a"
  shows "stamped a'"
  using assms(1)
proof cases
  case (moved target now)
  then show ?thesis
    using assms(2) by (cases "oa_status a") (auto simp: stamped_def done_statuses_def)
next
  case (assigned u r t d)
  then show ?thesis using assms(2) by (simp add: stamped_def)
qed

lemma effect_stamped:
  assumes "action_effect env org db db'" "\<forall>a \<in> set (actions db). stamped a"
  shows "\<forall>a \<in> set (actions db'). stamped a"
proof (rule table_step_all [OF action_effect_table [OF assms(1)] assms(2)])
  show "stamped a" if "action_is_new a" for a
    using that by (simp add: stamped_def action_is_new_def done_statuses_def)
  show "stamped a'" if "stamped a" "action_evolves a a'" for a a'
    using that(2,1) by (rule action_evolves_stamped)
qed

lemma evidence_grows:
  assumes "action_effect env org db db'"
  shows "verification_evidence db i \<le> verification_evidence db' i"
proof -
  obtain vs where "action_evidence_rows db' = action_evidence_rows db @ vs"
    using action_effect_appends(3) [OF assms] by blast
  then show ?thesis by (simp add: verification_evidence_def)
qed

lemma effect_verified:
  assumes "action_effect env org db db'" "verified_backed db"
  shows "verified_backed db'"
proof -
  have "\<forall>a \<in> set (actions db'). oa_status a = A_VERIFIED \<longrightarrow> 0 < verification_evidence db (oa_id a)"
    using assms(1)
  proof cases
    case (action_moved a target role e actor reason key nt now)
    have "target = A_VERIFIED \<longrightarrow> 0 < verification_evidence db (oa_id a)"
      using action_moved(4) by (simp add: move_allowed_def)
    then show ?thesis
      using assms(2) unfolding action_moved(1) by (auto simp: verified_backed_def in_put_row_iff)
  next
    case (action_assigned a e actor role reason key u r tm d)
    then show ?thesis
      using assms(2) unfolding action_assigned(1) by (auto simp: verified_backed_def in_put_row_iff)
  next
    case (action_added a e)
    then show ?thesis using assms(2) unfolding action_added(1) by (auto simp: verified_backed_def)
  qed (use assms(2) in \<open>simp_all add: verified_backed_def\<close>)
  then show ?thesis
    using evidence_grows [OF assms(1)] unfolding verified_backed_def by (meson less_le_trans)
qed

lemma effect_realized:
  assumes "action_effect env org db db'" "action_constraints db" "action_constraints db'"
    and t: "realized_backed db"
  shows "realized_backed db'"
  using assms(1)
proof cases
  case (action_added a e)
  then show ?thesis
    using t new_action_unreferenced(2) [OF assms(2,3), of a] by (auto simp: realized_backed_def)
next
  case (action_moved a target role e actor reason key nt now)
  have "oa_status a \<noteq> A_VERIFIED" using action_moved(4) by (auto simp: move_allowed_def)
  then show ?thesis
    using t action_moved(2) by (fastforce simp: action_moved(1) realized_backed_def in_put_row_iff)
next
  case (outcome_added a r)
  have "b = a" if "b \<in> set (actions db)" "oa_id b = oa_id a" for b
    using unique_on_eq [OF action_ids_unique [OF assms(2)] that(1) outcome_added(2) that(2)] .
  then show ?thesis
    using t outcome_added by (auto simp: realized_backed_def realized_value_eligible_def)
next
  case (action_assigned a e actor role reason key u r tm d)
  then show ?thesis using t by (fastforce simp: realized_backed_def in_put_row_iff)
qed (use t in \<open>auto simp: realized_backed_def\<close>)

section \<open>Interfaces\<close>

lemma action_step_wf:
  assumes "action_wf db" "action_step env op db = Inr (db', r)"
  shows "action_wf db'"
proof -
  have e: "action_effect env (action_op_org op) db db'" and c: "db' = db \<or> action_constraints db'"
    using action_step_effect [OF assms(2)] by simp_all
  have w: "action_constraints db" "trails_replay db" "approvals_authorized db"
    "\<forall>a \<in> set (actions db). stamped a" "verified_backed db" "realized_backed db"
    using assms(1) by (simp_all add: action_wf_def)
  with c have c': "action_constraints db'" by auto
  show ?thesis
    unfolding action_wf_def
    using c' effect_trails [OF e w(1) c' w(2)] effect_approvals [OF e w(1) c' w(3)]
      effect_stamped [OF e w(4)] effect_verified [OF e w(5)] effect_realized [OF e w(1) c' w(6)]
    by blast
qed

definition action_at :: "'a action_db_scheme \<Rightarrow> uuid \<Rightarrow> operational_action option" where
  "action_at db i = find (\<lambda>a. oa_id a = i) (actions db)"

text \<open>What an organization sees of the action tables.\<close>

definition action_view where
  "action_view org db =
     (filter (\<lambda>a. oa_org a = org) (actions db), filter (\<lambda>s. ps_org s = org) (plan_steps db),
      filter (\<lambda>d. de_org d = org) (dependencies db), filter (\<lambda>r. re_org r = org) (resources db),
      filter (\<lambda>e. ev_org e = org) (action_events db),
      filter (\<lambda>e. ae_org e = org) (action_evidence_rows db),
      filter (\<lambda>r. ou_org r = org) (action_outcomes db),
      filter (\<lambda>f. fb_org f = org) (action_feedback_rows db))"

lemma effect_other_tables:
  assumes "action_effect env org db db'" "org' \<noteq> org"
  shows "snd (action_view org' db') = snd (action_view org' db)"
  using assms by (cases) (auto simp: action_view_def)

interpretation action_service: tenant_service "action_step env" action_wf action_op_org action_view
proof
  fix db :: "'a action_db_scheme" and op db' r org
  assume "action_wf db" "action_step env op db = Inr (db', r)"
  then show "action_wf db'" by (rule action_step_wf)
next
  fix db :: "'a action_db_scheme" and op db' r org
  assume w: "action_wf db" "action_step env op db = Inr (db', r)" "org \<noteq> action_op_org op"
  have e: "action_effect env (action_op_org op) db db'" using action_step_effect [OF w(2)] by simp
  have "fst (action_view org db') = fst (action_view org db)"
    unfolding action_view_def fst_conv
    by (rule table_step_view [OF action_effect_table [OF e] action_ids_unique w(3)])
      (use w(1) in \<open>simp add: action_wf_def\<close>)
  with effect_other_tables [OF e w(3)] show "action_view org db' = action_view org db"
    by (simp add: prod_eq_iff)
qed

interpretation action_rows: lifecycle_service "action_step env" action_wf action_at action_evolves
    oa_status action_transitions
proof
  fix db :: "'a action_db_scheme" and op db' r i x
  assume w: "action_wf db" "action_step env op db = Inr (db', r)" "action_at db i = Some x"
  have e: "action_effect env (action_op_org op) db db'" using action_step_effect [OF w(2)] by simp
  show "\<exists>x'. action_at db' i = Some x' \<and> (x' = x \<or> action_evolves x x')"
    using table_step_row [OF action_effect_table [OF e] action_ids_unique] w(1,3)
    unfolding action_at_def action_wf_def by blast
qed (use action_evolves_key in blast)

interpretation action_history: append_only_service "action_step env" action_wf action_events
proof
  fix db :: "'a action_db_scheme" and op db' r
  assume "action_wf db" "action_step env op db = Inr (db', r)"
  then show "\<exists>evs. action_events db' = action_events db @ evs"
    using action_effect_appends(1) action_step_effect by blast
qed

section \<open>Facts behind the properties\<close>

definition before_approval :: "action_status list" where
  "before_approval = [A_PROPOSED, A_PENDING_APPROVAL, A_REJECTED, A_CANCELLED]"

lemma follow_approved:
  "replay action_transitions s moves = Some t \<Longrightarrow> s \<in> set before_approval \<Longrightarrow> t \<notin> set before_approval \<Longrightarrow>
     A_APPROVED \<in> snd ` set moves"
proof (induction action_transitions s moves rule: replay.induct)
  case (1 s)
  then show ?case by simp
next
  case (2 s prior new moves)
  then have m: "new \<in> set (action_transitions s)" "replay action_transitions new moves = Some t" "prior = s"
    by (simp_all split: if_splits)
  show ?case
  proof (cases "new = A_APPROVED")
    case True
    then show ?thesis by simp
  next
    case False
    then have "new \<in> set before_approval"
      using m(1) 2(3) by (cases s) (auto simp: before_approval_def)
    with 2 m show ?thesis by (auto split: if_splits)
  qed
qed

lemma action_at_SomeD: "action_at db i = Some a \<Longrightarrow> a \<in> set (actions db) \<and> oa_id a = i"
  unfolding action_at_def by (rule find_SomeD)

definition dependency_blocked :: "'a action_db_scheme \<Rightarrow> uuid \<Rightarrow> bool" where
  "dependency_blocked db i \<longleftrightarrow> \<not> dependencies_ready (dependency_pairs db i)"

lemma dependency_blocked_keeps:
  assumes "action_effect env org db db'" "dependency_blocked db i"
  shows "dependency_blocked db' i"
proof -
  obtain ds where "dependencies db' = dependencies db @ ds"
    using action_effect_appends(2) [OF assms(1)] by blast
  then have "set (dependency_pairs db i) \<subseteq> set (dependency_pairs db' i)"
    by (auto simp: dependency_pairs_def)
  with assms(2) show ?thesis by (auto simp: dependency_blocked_def dependencies_ready_iff)
qed

lemma blocked_status_keeps:
  assumes "action_effect env org db db'" "action_constraints db" "dependency_blocked db i"
    and "action_at db i = Some a" "oa_status a \<notin> set done_statuses"
  shows "\<exists>a'. action_at db' i = Some a' \<and> oa_status a' \<notin> set done_statuses"
  using assms(1)
proof cases
  case (action_moved b target role e actor reason key nt now)
  have u: "unique_on oa_id (actions db)" using assms(2) by (rule action_ids_unique)
  have f: "find (\<lambda>r. oa_id r = i) (actions db) = Some a"
    using assms(4) by (simp add: action_at_def)
  have "oa_id (moved_action now target b) = oa_id b" by simp
  note put = find_pk_put [OF u action_moved(2) this f]
  show ?thesis
  proof (cases "oa_id b = i")
    case True
    then have "a = b" using put(2) by simp
    have "target \<noteq> A_COMPLETED"
      using action_moved(4) assms(3) True by (auto simp: move_allowed_def dependency_blocked_def)
    moreover have "target \<in> set (action_transitions (oa_status a))"
      using action_moved(4) \<open>a = b\<close> by (simp add: move_allowed_def)
    ultimately have "target \<notin> set done_statuses"
      using assms(5) by (cases "oa_status a") (auto simp: done_statuses_def)
    then show ?thesis using put(1) True by (simp add: action_moved(1) action_at_def)
  next
    case False
    then show ?thesis using put(1) assms(5) by (simp add: action_moved(1) action_at_def)
  qed
next
  case (action_added b e)
  then show ?thesis using assms(4,5) by (simp add: action_at_def find_append)
next
  case (action_assigned b e actor role reason key d tm r u)
  let ?b = "b\<lparr>oa_assigned_user := u, oa_assigned_role := r, oa_assigned_team := tm, oa_due_at := d\<rparr>"
  have f: "find (\<lambda>r. oa_id r = i) (actions db) = Some a"
    using assms(4) by (simp add: action_at_def)
  have "oa_id ?b = oa_id b" by simp
  note put = find_pk_put [OF action_ids_unique [OF assms(2)] action_assigned(2) this f]
  show ?thesis
    using put assms(5) by (auto simp: action_assigned(1) action_at_def)
qed (use assms(4,5) in \<open>simp_all add: action_at_def\<close>)

lemma blocked_run:
  assumes "action_wf db" "dependency_blocked db i" "action_at db i = Some a"
    and "oa_status a \<notin> set done_statuses"
  shows "\<exists>a'. action_at (run_ops (action_step env) ops db) i = Some a' \<and>
    oa_status a' \<notin> set done_statuses"
proof -
  let ?P = "\<lambda>db. dependency_blocked db i \<and>
    (\<exists>a. action_at db i = Some a \<and> oa_status a \<notin> set done_statuses)"
  have "?P (run_ops (action_step env) ops db)"
  proof (rule action_service.run_keeps [where P = ?P, OF _ assms(1)])
    show "?P db" using assms(2-4) by blast
    show "?P d'" if "action_wf d" "?P d" "action_step env op d = Inr (d', r)" for op d d' r
    proof -
      have e: "action_effect env (action_op_org op) d d'" using action_step_effect [OF that(3)] by simp
      have "action_constraints d" using that(1) by (simp add: action_wf_def)
      with blocked_status_keeps [OF e] dependency_blocked_keeps [OF e] that(2) show ?thesis by blast
    qed
  qed
  then show ?thesis by blast
qed

section \<open>Example data\<close>

definition demo_action_payload :: action_payload where
  "demo_action_payload = \<lparr>ac_source_type = ''manual'', ac_source_reference = ''r1'',
     ac_reliability = None, ac_finding = None, ac_forecast = None, ac_orchestration = None,
     ac_recommendation_type = ''inspect'', ac_rule_version = ''1.0'', ac_title = ''t'',
     ac_description = ''d'', ac_rationale = ''r'', ac_asset = None, ac_component = None,
     ac_failure_mode = None, ac_failure_probability = Some (1/2), ac_horizon_days = Some 7,
     ac_severity = 3, ac_confidence = Some (1/2), ac_avoided_cost = None,
     ac_intervention_cost = None, ac_currency = None, ac_due_at = None, ac_sensitive = False,
     ac_verification_required = True, ac_evidence_references = [], ac_limitations = []\<rparr>"

definition demo_action_env :: action_env where
  "demo_action_env = \<lparr>env_fingerprint = (\<lambda>org a b c d. a @ ''|'' @ b @ ''|'' @ c @ ''|'' @ d),
     env_numeric = (\<lambda>places x. of_int (round_half_up (x * 10 ^ places)) / 10 ^ places)\<rparr>"

definition demo_action :: "uuid \<Rightarrow> operational_action" where
  "demo_action i = new_action demo_action_env 1 i
     (demo_action_payload\<lparr>ac_source_reference := replicate i CHR ''r''\<rparr>)
     \<lparr>apr_score = 50, apr_class = P_MEDIUM, apr_components = [], apr_limitations = []\<rparr>
     (calculate_approval 0 0 (1/2) False) 9"

definition demo_dependency :: action_dependency where
  "demo_dependency = \<lparr>de_org = 1, de_action = 1, de_prerequisite = 2, de_type = ''finish'',
     de_mandatory = True, de_status = DEP_UNRESOLVED, de_blocking_reason = None,
     de_resolved_at = None\<rparr>"

definition demo_action_db :: "action_dependency list \<Rightarrow> action_db" where
  "demo_action_db ds = \<lparr>reliability_rows = [], finding_rows = [], forecast_rows = [],
     orchestration_rows = [], active_members = [], actions = [demo_action 1, demo_action 2],
     plan_steps = [], dependencies = ds, resources = [], action_events = [],
     action_evidence_rows = [], action_outcomes = [], action_feedback_rows = []\<rparr>"

lemma demo_action_simps:
  "oa_id (demo_action i) = i" "oa_org (demo_action i) = 1" "oa_status (demo_action i) = A_PROPOSED"
  "oa_approval_required (demo_action i)"
  "oa_fingerprint (demo_action i) =
     ''manual|'' @ replicate i CHR ''r'' @ ''|inspect|1.0''"
  "oa_reliability (demo_action i) = None" "oa_finding (demo_action i) = None"
  "oa_forecast (demo_action i) = None" "oa_orchestration (demo_action i) = None"
  by (simp_all add: demo_action_def new_action_def demo_action_payload_def demo_action_env_def
      calculate_approval_def Let_def payload_fingerprint_def)

lemma demo_action_wf:
  assumes "ds = [] \<or> ds = [demo_dependency]"
  shows "action_wf (demo_action_db ds)"
proof -
  have "oa_fingerprint (demo_action 1) \<noteq> oa_fingerprint (demo_action 2)"
    by (simp add: demo_action_simps numeral_2_eq_2)
  then have "action_constraints (demo_action_db ds)"
    using assms
    by (auto simp: action_constraints_def actions_ok_def plan_steps_ok_def dependencies_ok_def
        resources_ok_def events_ok_def evidence_ok_def outcomes_ok_def feedback_ok_def
        action_keys_def references_def demo_action_db_def demo_dependency_def unique_on_def
        demo_action_simps)
  then show ?thesis
    by (auto simp: action_wf_def trails_replay_def approvals_authorized_def stamped_def
        verified_backed_def realized_backed_def demo_action_db_def demo_action_simps
        done_statuses_def action_trail_def)
qed

definition demo_moves :: "action_op list" where
  "demo_moves =
     [TransitionAction 1 1 \<lparr>at_status = A_PENDING_APPROVAL, at_reason = ''ask'', at_note = None,
        at_key = ''k1''\<rparr> 9 ''operator'' 10,
      TransitionAction 1 1 \<lparr>at_status = A_APPROVED, at_reason = ''ok'', at_note = None,
        at_key = ''k2''\<rparr> 8 ''organization_admin'' 20]"

definition demo_move :: "action_status \<Rightarrow> string \<Rightarrow> action_op" where
  "demo_move s key = TransitionAction 1 1
     \<lparr>at_status = s, at_reason = ''r'', at_note = None, at_key = key\<rparr> 8 ''organization_admin'' 30"

definition demo_verification :: "action_op list" where
  "demo_verification =
     [demo_move A_APPROVED ''a'', demo_move A_ASSIGNED ''b'', demo_move A_IN_PROGRESS ''c'',
      demo_move A_COMPLETED ''d'', demo_move A_VERIFICATION_PENDING ''e'', demo_move A_VERIFIED ''f'',
      AddEvidence 1 1 \<lparr>ep_stage = ''verification'', ep_type = ''photo'', ep_source_type = ''file'',
        ep_source_identifier = ''x'', ep_document = None, ep_value = None, ep_unit = None,
        ep_observed_at = None, ep_notes = None, ep_metadata = JNull, ep_integrity = None\<rparr> 8,
      demo_move A_VERIFIED ''g'']"

section \<open>Properties\<close>


lemma demo_moves_run:
  "map oa_status (actions (run_ops (action_step demo_action_env) demo_moves (demo_action_db []))) =
   [A_APPROVED, A_PROPOSED]"
  by code_simp


text \<open>Nothing is verified without evidence. After any requests, a verified action has
  verification evidence, a completion time and a verification time, and a realized outcome
  exists only for verified actions.\<close>

theorem action_verified_has_evidence:
  assumes "action_wf db" "db2 = run_ops (action_step env) ops db" "a \<in> set (actions db2)"
  shows "(oa_status a = A_VERIFIED \<longrightarrow> 0 < verification_evidence db2 (oa_id a) \<and>
      oa_completed_at a \<noteq> None \<and> oa_verified_at a \<noteq> None) \<and>
    (\<forall>r \<in> set (action_outcomes db2).
       ou_action r = oa_id a \<and> ou_type r = REALIZED_OUTCOME \<longrightarrow> oa_status a = A_VERIFIED)"
proof -
  have "action_wf db2" unfolding assms(2) using assms(1) by (rule action_service.run_inv)
  then have "stamped a" "verified_backed db2" "realized_backed db2"
    using assms(3) by (simp_all add: action_wf_def)
  then show ?thesis
    using assms(3) by (auto simp: stamped_def done_statuses_def verified_backed_def realized_backed_def)
qed

lemma demo_verified_run:
  "map (\<lambda>a. (oa_id a, oa_status a))
     (actions (run_ops (action_step demo_action_env) demo_verification (demo_action_db []))) =
   [(1, A_VERIFIED), (2, A_PROPOSED)]"
  by code_simp

theorem action_verified_has_evidence_witness:
  "0 < verification_evidence (run_ops (action_step demo_action_env) demo_verification (demo_action_db [])) 1"
proof -
  let ?db = "run_ops (action_step demo_action_env) demo_verification (demo_action_db [])"
  obtain a as where "actions ?db = a # as" "oa_id a = 1" "oa_status a = A_VERIFIED"
    using demo_verified_run by (auto simp: map_eq_Cons_conv)
  then show ?thesis
    using action_verified_has_evidence [OF demo_action_wf [of "[]"] refl, of a demo_action_env demo_verification]
    by simp
qed

text \<open>A mandatory dependency can never be met. Once an action that is not yet completed has
  a mandatory unresolved dependency, no sequence of requests by anyone ever completes or
  verifies it, not even one that completes and verifies the prerequisite: no operation marks
  a dependency resolved.\<close>

theorem action_dependency_never_met:
  assumes "action_wf db" "action_at db i = Some a" "oa_status a \<notin> set done_statuses"
    and "d \<in> set (dependencies db)" "de_action d = i" "de_mandatory d" "de_status d = DEP_UNRESOLVED"
  shows "\<exists>a'. action_at (run_ops (action_step env) ops db) i = Some a' \<and>
    oa_status a' \<notin> set done_statuses"
proof -
  have "(True, False) \<in> set (dependency_pairs db i)"
    using assms(4-7) by (force simp: dependency_pairs_def)
  then have "dependency_blocked db i"
    by (auto simp: dependency_blocked_def dependencies_ready_iff)
  from blocked_run [OF assms(1) this assms(2,3)] show ?thesis .
qed

theorem action_dependency_never_met_witness:
  "\<exists>a'. action_at (run_ops (action_step demo_action_env) demo_moves (demo_action_db [demo_dependency])) 1 =
     Some a' \<and> oa_status a' \<notin> set done_statuses"
  by (rule action_dependency_never_met [where a = "demo_action 1" and d = demo_dependency])
    (simp_all only: demo_action_wf simp_thms,
     simp_all add: demo_action_db_def action_at_def demo_action_simps done_statuses_def
      demo_dependency_def)

text \<open>An organization's actions, and everything attached to them, do not change under the
  requests of other organizations.\<close>

theorem action_tenant_isolation:
  assumes "action_wf db" "\<forall>op \<in> set ops. action_op_org op \<noteq> org"
  shows "action_view org (run_ops (action_step env) ops db) = action_view org db"
  using assms by (rule action_service.run_isolated)

theorem action_tenant_isolation_witness:
  "action_view 2 (run_ops (action_step demo_action_env) demo_moves (demo_action_db [])) =
   action_view 2 (demo_action_db [])"
  by (rule action_tenant_isolation) (simp_all add: demo_action_wf demo_moves_def)

text \<open>The priority score. For inputs within the limits of the API the calculation succeeds
  with a score from 10 to 100 and the class of the thresholds; and an input at least as
  pressing on every scale (probability, severity, urgency of the horizon, confidence,
  exposure, readiness) gets at least the score and at least the class, all rounding included.\<close>

theorem action_priority_sound:
  assumes "priority_input_ok v" "priority_input_ok v'" "no_more_pressing v v'"
  shows "\<exists>r r'. calculate_priority v = Some r \<and> calculate_priority v' = Some r' \<and>
    10 \<le> apr_score r \<and> apr_score r \<le> 100 \<and> apr_class r = classify_priority (apr_score r) \<and>
    apr_score r \<le> apr_score r' \<and> apr_class r \<le> apr_class r'"
proof -
  obtain r r' where r: "calculate_priority v = Some r" "calculate_priority v' = Some r'"
    "quantize round_half_even 2 (input_score v) = Some (apr_score r)"
    "quantize round_half_even 2 (input_score v') = Some (apr_score r')"
    "10 \<le> apr_score r" "apr_score r \<le> 100" "apr_class r = classify_priority (apr_score r)"
    "apr_class r' = classify_priority (apr_score r')"
    using calculate_priority_score [OF assms(1)] calculate_priority_score [OF assms(2)] by metis
  have "apr_score r \<le> apr_score r'"
    using quantize_mono [OF r(3,4) input_score_mono [OF assms(3)]] round_half_even_mono by blast
  with r classify_priority_mono show ?thesis by (intro exI [of _ r] exI [of _ r']) simp
qed

theorem action_priority_sound_witness:
  "\<exists>r r'. calculate_priority (payload_priority demo_action_payload) = Some r \<and>
     calculate_priority (payload_priority (demo_action_payload\<lparr>ac_severity := 5\<rparr>)) = Some r' \<and>
     10 \<le> apr_score r \<and> apr_score r \<le> apr_score r'"
proof -
  have "priority_input_ok (payload_priority demo_action_payload)"
    "priority_input_ok (payload_priority (demo_action_payload\<lparr>ac_severity := 5\<rparr>))"
    "no_more_pressing (payload_priority demo_action_payload)
       (payload_priority (demo_action_payload\<lparr>ac_severity := 5\<rparr>))"
    by (simp_all add: priority_input_ok_def no_more_pressing_def payload_priority_def
        demo_action_payload_def or_zero_def)
  from action_priority_sound [OF this] show ?thesis by blast
qed

end
