(* ===== verification/Opportunity_Properties.thy ===== *)
theory Opportunity_Properties
  imports Economics_Invariants Economics_Properties Action_Properties
begin

text \<open>
  The interfaces the economics service implements, and the properties of opportunities: what
  an approval freezes, that stored results are the engine's, versions, and the decision log.
\<close>

section \<open>Interfaces\<close>

definition opportunity_at :: "'a economics_db_scheme \<Rightarrow> uuid \<Rightarrow> recovery_opportunity option" where
  "opportunity_at db i = find (\<lambda>o'. ro_id o' = i) (opportunities db)"

text \<open>What an organization sees of the economics tables.\<close>

definition economics_view where
  "economics_view org db =
     (filter (\<lambda>o'. ro_org o' = org) (opportunities db),
      filter (\<lambda>a. ea_org a = org) (assumptions db),
      filter (\<lambda>l. lf_org l = org) (finding_links db), filter (\<lambda>l. la_org l = org) (action_links db),
      filter (\<lambda>s. es_org s = org) (scenarios db), filter (\<lambda>c. ec_org c = org) (calculations db),
      filter (\<lambda>z. pz_org z = org) (prioritizations db),
      filter (\<lambda>g. og_org g = org) (overlap_groups db),
      filter (\<lambda>m. om_org m = org) (overlap_members db), filter (\<lambda>d. od_org d = org) (decisions db),
      filter (\<lambda>u. eu_org u = org) (economic_audits db), filter (\<lambda>b. bl_org b = org) (baselines db))"

lemma effect_other_economics:
  assumes "economics_effect env org db db'" "org' \<noteq> org"
  shows "snd (snd (economics_view org' db')) = snd (snd (economics_view org' db))"
  using assms
  by cases (auto simp: economics_view_def calculation_of_def priority_of_def baseline_of_def)

lemma supersede_view:
  assumes "unique_on ea_id as" "\<forall>b. previous = Some b \<longrightarrow> b \<in> set as \<and> \<not> P b"
    and "\<And>b. P (b\<lparr>ea_superseded := True\<rparr>) = P b"
  shows "filter P (supersede previous as) = filter P as"
proof (cases previous)
  case (Some b)
  then show ?thesis
    using filter_put_row [OF assms(1), of b "b\<lparr>ea_superseded := True\<rparr>" P] assms(2) assms(3) [of b]
    by (simp add: supersede_def)
qed (simp add: supersede_def)

lemma effect_assumption_view:
  assumes "economics_effect env org db db'" "org' \<noteq> org" "economics_wf env db"
  shows "filter (\<lambda>a. ea_org a = org') (assumptions db') = filter (\<lambda>a. ea_org a = org') (assumptions db)"
  using assms(1)
proof cases
  case (assumption_added o' a previous u)
  have c: "economics_constraints db" and w: "assumptions_owned db"
    using assms(3) by (simp_all add: economics_wf_def)
  have "b \<in> set (assumptions db) \<and> ea_org b \<noteq> org'" if p: "previous = Some b" for b
  proof -
    have b: "b \<in> set (assumptions db)" "ea_opportunity b = ro_id o'"
      using latest_by_in [OF assumption_added(8) [symmetric, unfolded p]]
      by (simp_all add: active_assumptions_def)
    obtain o2 where "o2 \<in> set (opportunities db)" "ro_id o2 = ea_opportunity b" "ro_org o2 = ea_org b"
      using w b(1) unfolding assumptions_owned_def by blast
    then have "ea_org b = org"
      using unique_on_eq [OF opportunity_ids_unique [OF c], of o2 o'] assumption_added(2,3) b(2) by simp
    with b(1) assms(2) show ?thesis by simp
  qed
  then have "filter (\<lambda>a. ea_org a = org') (supersede previous (assumptions db)) =
      filter (\<lambda>a. ea_org a = org') (assumptions db)"
    by (intro supersede_view assumption_ids_unique [OF c]) simp_all
  then show ?thesis using assumption_added(1,5) assms(2) by simp
qed simp_all

interpretation opportunity_service: tenant_service "economics_step env" "economics_wf env"
  economics_op_org economics_view
proof
  fix db :: "'a economics_db_scheme" and op db' r
  assume "economics_wf env db" "economics_step env op db = Inr (db', r)"
  then show "economics_wf env db'" by (rule economics_step_wf)
next
  fix db :: "'a economics_db_scheme" and op db' r org
  assume w: "economics_wf env db" "economics_step env op db = Inr (db', r)" "org \<noteq> economics_op_org op"
  have e: "economics_effect env (economics_op_org op) db db'"
    using economics_step_effect [OF w(2)] by simp
  have "unique_on ro_id (opportunities db)"
    using w(1) by (simp add: economics_wf_def opportunity_ids_unique)
  from table_step_view [OF effect_opportunities [OF e] this w(3)]
    effect_assumption_view [OF e w(3) w(1)] effect_other_economics [OF e w(3)]
  show "economics_view org db' = economics_view org db"
    by (simp add: economics_view_def)
qed

interpretation opportunity_rows: lifecycle_service "economics_step env" "economics_wf env"
  opportunity_at opportunity_evolves ro_status opportunity_transitions
proof
  fix db :: "'a economics_db_scheme" and op db' r i x
  assume w: "economics_wf env db" "economics_step env op db = Inr (db', r)" "opportunity_at db i = Some x"
  have e: "economics_effect env (economics_op_org op) db db'"
    using economics_step_effect [OF w(2)] by simp
  show "\<exists>x'. opportunity_at db' i = Some x' \<and> (x' = x \<or> opportunity_evolves x x')"
    using table_step_row [OF effect_opportunities [OF e] opportunity_ids_unique] w(1,3)
    unfolding opportunity_at_def economics_wf_def by blast
qed (use opportunity_evolves_keeps in blast)

interpretation baseline_log: append_only_service "economics_step env" "economics_wf env" baselines
proof
  fix db :: "'a economics_db_scheme" and op db' r
  assume "economics_wf env db" "economics_step env op db = Inr (db', r)"
  then show "\<exists>evs. baselines db' = baselines db @ evs"
    using effect_appends(5) economics_step_effect by blast
qed

section \<open>Example data\<close>

definition demo_opportunity_row :: recovery_opportunity where
  "demo_opportunity_row = (new_opportunity 1 1 ''ROP-1'' \<lparr>oc_key = ''k'', oc_source_key = ''src'',
     oc_title = ''t'', oc_description = ''d'', oc_currency = ''USD'', oc_domain = None,
     oc_site = None, oc_pack = None, oc_capability = None, oc_owner = None, oc_limitations = []\<rparr> 9)
     \<lparr>ro_status := O_QUALIFIED\<rparr>"

definition demo_scenario :: economic_scenario where
  "demo_scenario = \<lparr>es_id = 5, es_org = 1, es_opportunity = 1, es_code = ''base'', es_version = 1,
     es_name = ''n'', es_currency = ''USD'', es_lower = 900, es_gross = 1000, es_upper = 1100,
     es_addressability = 1/2, es_recoverability = 4/5, es_success = 3/4, es_cost = 100,
     es_period_days = Some 30, es_probability = 1, es_measurement_period = None,
     es_exclusive_group = None, es_assumptions = [], es_active = True, es_created_by = 9\<rparr>"

definition demo_result :: economic_result where
  "demo_result = \<lparr>er_gross = 1000, er_addressable = 500, er_recoverable = 400, er_adjusted = 300,
     er_cost = 100, er_net = 200, er_roi = Some 2, er_payback = Some 10, er_policy = STANDARD_POLICY\<rparr>"

definition demo_calculation :: economic_calculation where
  "demo_calculation = new_calculation demo_action_env demo_opportunity_row demo_scenario demo_result
     [] 6 ''calc'' ''r'' 9 0"

definition demo_prioritize :: prioritize_payload where
  "demo_prioritize = \<lparr>zp_calculation = 6, zp_key = ''prio'', zp_profile = ''default_enterprise'',
     zp_urgency = 1/2, zp_confidence = 1/2, zp_feasibility = 1/2, zp_alignment = 1/2, zp_risk = 1/2,
     zp_dependency_ready = True, zp_resource_ready = True, zp_reason = ''r'', zp_sources = []\<rparr>"

definition demo_priority :: opportunity_priority where
  "demo_priority =
     projr (calculate_opportunity_priority (priority_input_of demo_calculation demo_prioritize) default_weights)"

definition demo_prioritization :: prioritization where
  "demo_prioritization =
     new_prioritization demo_action_env 1 1 demo_calculation demo_priority 7 demo_prioritize 9 0"

definition demo_decision :: "opportunity_status option \<Rightarrow> opportunity_status \<Rightarrow> string \<Rightarrow> opportunity_decision" where
  "demo_decision prior d key =
     decision_for demo_opportunity_row d ''r'' 9 ''operator'' key prior None None [] None 0"

definition demo_assumption :: economic_assumption where
  "demo_assumption = \<lparr>ea_id = 20, ea_org = 1, ea_opportunity = 1, ea_scenario = None, ea_code = ''price'',
     ea_version = 1, ea_value = 3, ea_unit = ''u'', ea_currency = None, ea_source = ''s'',
     ea_source_reference = None, ea_evidence_reference = None, ea_confidence = 1,
     ea_effective_at = None, ea_expires_at = None, ea_model_version = ''1.0'',
     ea_superseded = False, ea_entered_by = 9, ea_approved_by = None\<rparr>"

definition demo_economics_db :: economics_db where
  "demo_economics_db = action_db.extend (demo_action_db [])
     (economics_db.fields [demo_opportunity_row] [] [] [demo_scenario] [demo_assumption]
        [demo_calculation] [demo_prioritization] [] []
        [demo_decision None O_DRAFT ''a'', demo_decision (Some O_DRAFT) O_UNDER_REVIEW ''b'',
         demo_decision (Some O_UNDER_REVIEW) O_QUALIFIED ''c''] [] [])"

definition demo_decide :: "opportunity_status \<Rightarrow> string \<Rightarrow> economics_op" where
  "demo_decide t role = DecideOpportunity 1 1 8 \<lparr>dc_decision = t, dc_reason = ''r'', dc_key = ''d'',
     dc_scenario = Some 5, dc_prioritization = Some 7, dc_conditions = [], dc_review_at = None\<rparr> 4 role 0"

lemma demo_priority_result:
  "calculate_opportunity_priority (priority_input_of demo_calculation demo_prioritize) default_weights =
     Inr demo_priority"
proof -
  have "weights_ok default_weights"
    by (simp add: weights_ok_def default_weights_def insert_commute)
  moreover have "scores_ok (priority_input_of demo_calculation demo_prioritize)"
    by (simp add: scores_ok_def priority_input_of_def demo_prioritize_def)
  ultimately show ?thesis
    using opportunity_score_total unfolding demo_priority_def by fastforce
qed

lemma demo_opportunity_simps:
  "ro_id demo_opportunity_row = 1" "ro_org demo_opportunity_row = 1"
  "ro_status demo_opportunity_row = O_QUALIFIED" "ro_baseline_version demo_opportunity_row = None"
  "ro_currency demo_opportunity_row = ''USD''"
  by (simp_all add: demo_opportunity_row_def new_opportunity_def)

lemma demo_prioritization_simps:
  "pz_id demo_prioritization = 7" "pz_opportunity demo_prioritization = 1"
  "pz_org demo_prioritization = 1" "pz_calculation demo_prioritization = 6"
  "ec_id demo_calculation = 6" "ec_opportunity demo_calculation = 1" "ec_org demo_calculation = 1"
  "ec_scenario demo_calculation = 5" "ec_currency demo_calculation = ''USD''"
  by (simp_all add: demo_prioritization_def new_prioritization_def demo_calculation_def
      new_calculation_def demo_prioritize_def demo_scenario_def demo_opportunity_simps)

lemma demo_economics_db_simps:
  "opportunities demo_economics_db = [demo_opportunity_row]" "finding_links demo_economics_db = []"
  "action_links demo_economics_db = []" "scenarios demo_economics_db = [demo_scenario]"
  "assumptions demo_economics_db = [demo_assumption]"
  "calculations demo_economics_db = [demo_calculation]"
  "prioritizations demo_economics_db = [demo_prioritization]" "overlap_groups demo_economics_db = []"
  "overlap_members demo_economics_db = []" "economic_audits demo_economics_db = []"
  "baselines demo_economics_db = []"
  "decisions demo_economics_db =
     [demo_decision None O_DRAFT ''a'', demo_decision (Some O_DRAFT) O_UNDER_REVIEW ''b'',
      demo_decision (Some O_UNDER_REVIEW) O_QUALIFIED ''c'']"
  by (simp_all add: demo_economics_db_def action_db.defs economics_db.defs)

lemmas economics_tables_ok =
  economics_constraints_def opportunities_ok_def finding_links_ok_def action_links_ok_def
  scenarios_ok_def assumptions_ok_def calculations_ok_def prioritizations_ok_def
  overlap_groups_ok_def overlap_members_ok_def decisions_ok_def economic_audits_ok_def baselines_ok_def

lemma demo_economics_constraints: "economics_constraints demo_economics_db"
  by (simp add: economics_tables_ok demo_economics_db_simps demo_opportunity_simps
      demo_prioritization_simps unique_on_def rate_ok_def demo_scenario_def demo_assumption_def
      demo_decision_def decision_for_def)

lemma demo_economics_wf: "economics_wf demo_action_env demo_economics_db"
proof -
  have "calculate_economics (scenario_input demo_scenario) = Inr demo_result"
    unfolding demo_result_def by code_simp
  then have "calculation_of demo_action_env demo_calculation demo_scenario"
    by (simp add: calculation_of_def stores_result_def demo_calculation_def new_calculation_def
        demo_opportunity_simps demo_scenario_def)
  moreover have "priority_of demo_action_env demo_prioritization demo_calculation"
    unfolding priority_of_def
    using demo_priority_result
    by (auto simp: demo_prioritization_simps demo_prioritization_def new_prioritization_def
        demo_prioritize_def weighting_profile_def
        intro!: exI [of _ demo_prioritize] exI [of _ default_weights])
  ultimately have "calculations_reproduced demo_action_env demo_economics_db"
    by (simp add: calculations_reproduced_def demo_economics_db_simps)
  moreover have "decisions_replay demo_economics_db"
    by (simp add: decisions_replay_def decision_trail_def demo_economics_db_simps demo_decision_def
        demo_opportunity_simps status_graph_def)
  moreover have "baselines_counted demo_economics_db" "baselines_backed demo_economics_db"
    "baselines_are_approvals demo_economics_db" "approved_has_version demo_opportunity_row"
    by (simp_all add: baselines_counted_def baselines_of_def baselines_backed_def demo_decision_def
        baselines_are_approvals_def approvals_of_def demo_economics_db_simps demo_opportunity_simps
        approved_has_version_def)
  moreover have "assumptions_versioned demo_economics_db" "assumptions_owned demo_economics_db"
    "scenarios_versioned demo_economics_db"
    by (simp_all add: assumptions_versioned_def assumptions_of_def versioned_def numbered_def
        assumptions_owned_def scenarios_versioned_def scenario_versions_def demo_economics_db_simps
        demo_assumption_def demo_scenario_def demo_opportunity_simps)
  ultimately show ?thesis
    using demo_economics_constraints by (simp add: economics_wf_def demo_economics_db_simps)
qed

definition demo_approved_db :: economics_db where
  "demo_approved_db =
     run_ops (economics_step demo_action_env) [demo_decide O_APPROVED ''organization_admin''] demo_economics_db"

definition demo_baseline :: economic_baseline where
  "demo_baseline = freeze_baseline demo_economics_db demo_opportunity_row demo_scenario
     demo_calculation demo_prioritization 8 4 ''d'' 0"

lemmas demo_decide_simps =
  attempt_def demo_decide_def opportunity_decide_def
  opportunity_get_def tenant_get_def scenario_get_def demo_economics_db_simps
  demo_opportunity_simps demo_prioritization_simps demo_decision_def decision_for_def
  require_opportunity_transition_def decision_economics_def required_economics_def
  demo_scenario_def admin_roles_def freeze_baseline_def commit_economics_def add_audit_def
  put_opportunity_def put_row_def economics_tables_ok unique_on_def rate_ok_def
  demo_assumption_def audit_for_def Let_def

lemma demo_approved_baselines: "baselines demo_approved_db = [demo_baseline]"
  by (simp add: demo_approved_db_def demo_decide_simps demo_baseline_def)

lemma demo_approved:
  "opportunities demo_approved_db = [demo_opportunity_row\<lparr>ro_baseline_version := Some 1,
     ro_scenario := Some 5, ro_status := O_APPROVED\<rparr>]"
  by (simp add: demo_approved_db_def demo_decide_simps)

text \<open>What stands behind a baseline: its approval, and the calculation its scenario reproduces.\<close>

lemma baseline_traced:
  assumes "economics_wf env db" "b \<in> set (baselines db)"
  obtains d s c z r where "d \<in> set (decisions db)" "od_opportunity d = bl_opportunity b"
    "od_decision d = O_APPROVED" "od_role d \<in> set admin_roles" "od_actor d = bl_approved_by b"
    "od_baseline_version d = Some (bl_version b)"
    "s \<in> set (scenarios db)" "c \<in> set (calculations db)" "z \<in> set (prioritizations db)"
    "baseline_of b s c z" "calculate_economics (scenario_input s) = Inr r" "stores_result env c r"
proof -
  have "(bl_opportunity b, bl_key b, bl_approved_by b, Some (bl_version b)) \<in> set (approvals_of db)"
    using assms by (auto simp: economics_wf_def baselines_are_approvals_def)
  then obtain d where d: "d \<in> set (decisions db)" "od_opportunity d = bl_opportunity b"
    "od_decision d = O_APPROVED" "od_actor d = bl_approved_by b" "od_baseline_version d = Some (bl_version b)"
    by (auto simp: approvals_of_def)
  have role: "od_role d \<in> set admin_roles"
    using assms(1) d(1,3) by (simp add: economics_wf_def baselines_are_approvals_def)
  obtain s c z where z: "s \<in> set (scenarios db)" "c \<in> set (calculations db)"
    "z \<in> set (prioritizations db)" "baseline_of b s c z"
    using assms unfolding economics_wf_def baselines_backed_def by blast
  obtain s' r where s': "s' \<in> set (scenarios db)" "es_id s' = ec_scenario c"
    "calculate_economics (scenario_input s') = Inr r" "stores_result env c r"
    using assms(1) z(2) unfolding economics_wf_def calculations_reproduced_def calculation_of_def
    by metis
  have "s' = s"
    using unique_on_eq [of es_id "scenarios db" s' s] assms(1) s'(1,2) z(1,4)
    by (simp add: economics_wf_def economics_tables_ok baseline_of_def)
  with d role z s' show thesis using that by blast
qed

section \<open>Properties\<close>

text \<open>C22: An approved opportunity rests on a frozen baseline. After any requests, an opportunity
  in the approved status has a current baseline, the latest of its baselines; an administrator
  made the decision that froze it; its snapshot holds the values of a stored calculation, which
  are, rounded to the columns, those the engine computes from its scenario; and its priority
  is of that same calculation.\<close>

theorem approved_opportunity_frozen:
  assumes "economics_wf env db" "db2 = run_ops (economics_step env) ops db"
    and "o' \<in> set (opportunities db2)" "ro_status o' = O_APPROVED"
  shows "\<exists>b d s c z r.
    b \<in> set (baselines db2) \<and> bl_opportunity b = ro_id o' \<and>
    ro_baseline_version o' = Some (bl_version b) \<and>
    bl_version b = int (length (baselines_of db2 (ro_id o'))) \<and>
    d \<in> set (decisions db2) \<and> od_opportunity d = ro_id o' \<and> od_decision d = O_APPROVED \<and>
    od_role d \<in> set admin_roles \<and> od_actor d = bl_approved_by b \<and>
    s \<in> set (scenarios db2) \<and> c \<in> set (calculations db2) \<and> z \<in> set (prioritizations db2) \<and>
    baseline_of b s c z \<and> calculate_economics (scenario_input s) = Inr r \<and> stores_result env c r"
proof -
  have wf: "economics_wf env db2" unfolding assms(2) using assms(1) by (rule opportunity_service.run_inv)
  let ?bs = "baselines_of db2 (ro_id o')"
  have n: "numbered (map bl_version ?bs)" "?bs \<noteq> []" "ro_baseline_version o' = Some (int (length ?bs))"
    using wf assms(3,4)
    by (auto simp: economics_wf_def baselines_counted_def approved_has_version_def Let_def
        split: if_splits)
  define b where "b = last ?bs"
  have b: "b \<in> set (baselines db2)" "bl_opportunity b = ro_id o'" "bl_version b = int (length ?bs)"
    using last_in_set [OF n(2)] numbered_last [OF n(1,2)] by (auto simp: b_def baselines_of_def)
  from baseline_traced [OF wf b(1)] b n(3) show ?thesis by (metis (no_types))
qed

theorem approved_opportunity_frozen_witness:
  "\<exists>b. b \<in> set (baselines demo_approved_db) \<and> bl_opportunity b = 1 \<and> bl_version b = 1"
  using approved_opportunity_frozen [OF demo_economics_wf demo_approved_db_def,
      of "hd (opportunities demo_approved_db)"]
  by (auto simp: demo_approved demo_opportunity_simps)

text \<open>C30: Baselines are permanent. No request changes or removes a baseline; those of an
  opportunity are numbered from 1 without gaps; and they are, in order, exactly the approving
  decisions of the decision log, all by administrators.\<close>

theorem baselines_permanent:
  assumes "economics_wf env db" "db2 = run_ops (economics_step env) ops db"
  shows "(\<exists>new. baselines db2 = baselines db @ new) \<and>
    approvals_of db2 =
      map (\<lambda>b. (bl_opportunity b, bl_key b, bl_approved_by b, Some (bl_version b))) (baselines db2) \<and>
    (\<forall>d \<in> set (decisions db2). od_decision d = O_APPROVED \<longrightarrow> od_role d \<in> set admin_roles) \<and>
    (\<forall>o' \<in> set (opportunities db2). numbered (map bl_version (baselines_of db2 (ro_id o'))))"
proof -
  have "economics_wf env db2" unfolding assms(2) using assms(1) by (rule opportunity_service.run_inv)
  then have "baselines_are_approvals db2" "baselines_counted db2" by (simp_all add: economics_wf_def)
  moreover have "\<exists>new. baselines db2 = baselines db @ new"
    unfolding assms(2) using assms(1) by (rule baseline_log.run_log)
  ultimately show ?thesis by (simp add: baselines_are_approvals_def baselines_counted_def)
qed

theorem baselines_permanent_witness:
  "numbered (map bl_version (baselines_of demo_approved_db 1))"
  using baselines_permanent [OF demo_economics_wf demo_approved_db_def]
  by (simp add: demo_approved demo_opportunity_simps)

text \<open>C35: Stored economics can be recomputed. After any requests, every stored calculation holds,
  rounded to its columns, what the engine computes from the scenario version it names, in the
  currency of its opportunity; and every stored priority holds what the engine computes from
  its calculation under its profile.\<close>

theorem economics_reproducible:
  assumes "economics_wf env db" "db2 = run_ops (economics_step env) ops db"
  shows "(\<forall>c \<in> set (calculations db2). \<exists>s \<in> set (scenarios db2). calculation_of env c s \<and>
      (\<exists>o' \<in> set (opportunities db2). ro_id o' = ec_opportunity c \<and> ro_org o' = ec_org c \<and>
         ro_currency o' = ec_currency c)) \<and>
    (\<forall>z \<in> set (prioritizations db2). \<exists>c \<in> set (calculations db2). priority_of env z c)"
proof -
  have wf: "economics_wf env db2" unfolding assms(2) using assms(1) by (rule opportunity_service.run_inv)
  then have r: "calculations_reproduced env db2" and v: "scenarios_versioned db2"
    by (simp_all add: economics_wf_def)
  have "\<exists>o' \<in> set (opportunities db2). ro_id o' = ec_opportunity c \<and> ro_org o' = ec_org c \<and>
      ro_currency o' = ec_currency c" if "s \<in> set (scenarios db2)" "calculation_of env c s" for c s
    using v that unfolding scenarios_versioned_def calculation_of_def by metis
  with r show ?thesis unfolding calculations_reproduced_def by blast
qed

theorem economics_reproducible_witness:
  "\<exists>s \<in> set (scenarios demo_economics_db). calculation_of demo_action_env demo_calculation s"
  using economics_reproducible [OF demo_economics_wf, of demo_economics_db "[]"]
  by (simp add: demo_economics_db_simps)

text \<open>Assumption versions. After any requests, the versions of an assumption of an
  opportunity are numbered from 1 without gaps in the order they were entered, and exactly the
  last one is active.\<close>

theorem assumption_versions_sound:
  assumes "economics_wf env db"
    and "as = assumptions_of (run_ops (economics_step env) ops db) i code"
  shows "map ea_version as = map int [1..<Suc (length as)] \<and>
    filter (\<lambda>a. \<not> ea_superseded a) as = (if as = [] then [] else [last as])"
proof -
  have "economics_wf env (run_ops (economics_step env) ops db)"
    using assms(1) by (rule opportunity_service.run_inv)
  then have v: "versioned as" by (simp add: economics_wf_def assumptions_versioned_def assms(2))
  then have "map ea_version as = map int [1..<Suc (length as)]"
    by (simp only: versioned_def numbered_def length_map)
  with versioned_active [OF v] show ?thesis by blast
qed

definition demo_assumption_payload :: assumption_payload where
  "demo_assumption_payload = \<lparr>as_scenario = None, as_code = ''price'', as_value = 4, as_unit = ''u'',
     as_currency = None, as_source = ''s'', as_source_reference = None,
     as_evidence_reference = None, as_confidence = 1, as_effective_at = None,
     as_expires_at = None, as_model_version = ''1.0''\<rparr>"

lemma demo_assumption_run:
  "map ea_id (assumptions_of (run_ops (economics_step demo_action_env)
     [ReviseAssumption 1 1 20 21 demo_assumption_payload 9] demo_economics_db) 1 ''price'') = [20, 21]"
  by (simp add: attempt_def assumption_revise_def assumption_add_def demo_assumption_payload_def
      opportunity_get_def tenant_get_def demo_economics_db_simps demo_opportunity_simps
      demo_prioritization_simps demo_decision_def decision_for_def require_mutable_def
      active_assumptions_def new_assumption_def supersede_def demo_scenario_def
      commit_economics_def add_audit_def put_row_def economics_tables_ok unique_on_def rate_ok_def
      demo_assumption_def audit_for_def Let_def assumptions_of_def)

theorem assumption_versions_sound_witness:
  "map ea_version (assumptions_of (run_ops (economics_step demo_action_env)
     [ReviseAssumption 1 1 20 21 demo_assumption_payload 9] demo_economics_db) 1 ''price'') = [1, 2]"
proof -
  let ?as = "assumptions_of (run_ops (economics_step demo_action_env)
     [ReviseAssumption 1 1 20 21 demo_assumption_payload 9] demo_economics_db) 1 ''price''"
  have "length ?as = 2" using arg_cong [OF demo_assumption_run, of length] by simp
  then show ?thesis
    using assumption_versions_sound [OF demo_economics_wf refl,
        of "[ReviseAssumption 1 1 20 21 demo_assumption_payload 9]" 1 "''price''"]
    by (simp add: upt_rec)
qed

text \<open>The decision log is the history of an opportunity. After any requests, the decisions of
  every opportunity start with its creation, each starts from the status the last one left and
  follows the status graph, and the last leads to the current status.\<close>

theorem decision_log_is_history:
  assumes "economics_wf env db" "db2 = run_ops (economics_step env) ops db" "o' \<in> set (opportunities db2)"
  shows "replay status_graph None (decision_trail db2 (ro_id o')) = Some (Some (ro_status o'))"
proof -
  have "economics_wf env db2" unfolding assms(2) using assms(1) by (rule opportunity_service.run_inv)
  with assms(3) show ?thesis by (simp add: economics_wf_def decisions_replay_def)
qed

theorem decision_log_is_history_witness:
  "replay status_graph None (decision_trail demo_approved_db 1) = Some (Some O_APPROVED)"
  using decision_log_is_history [OF demo_economics_wf demo_approved_db_def,
      of "hd (opportunities demo_approved_db)"]
  by (simp add: demo_approved demo_opportunity_simps)

text \<open>Clearing the limitations blocks the economics. An update may set the limitations of an
  opportunity to null; as long as they are null, no calculation under a new key succeeds.\<close>

theorem null_limitations_block_calculation:
  assumes "opportunity_get db org i = Inr o'" "ro_limitations o' = None"
    and "\<forall>c \<in> set (calculations db). ec_opportunity c = i \<longrightarrow> ec_key c \<noteq> key"
  shows "\<exists>e. economics_step env (CalculateOpportunity org i j s key reason actor now) db = Inl e"
proof -
  have "find (\<lambda>c. ec_opportunity c = i \<and> ec_key c = key) (calculations db) = None"
    using assms(3) by (auto simp: find_None_iff)
  then have "\<not> (\<exists>x. opportunity_calculate env db org i j s key reason actor now = Inr x)"
    using assms(1,2) by (auto simp: opportunity_calculate_def)
  then show ?thesis by (cases "opportunity_calculate env db org i j s key reason actor now") auto
qed

definition demo_null_db :: economics_db where
  "demo_null_db = run_ops (economics_step demo_action_env)
     [UpdateOpportunity 1 1 [SetLimitations None] 9 77] demo_economics_db"

lemma demo_null_opportunity:
  "opportunity_get demo_null_db 1 1 = Inr (demo_opportunity_row\<lparr>ro_limitations := None\<rparr>)"
  "calculations demo_null_db = [demo_calculation]"
  by (simp_all add: demo_null_db_def attempt_def opportunity_update_def
      opportunity_get_def tenant_get_def demo_economics_db_simps demo_opportunity_simps
      demo_prioritization_simps demo_decision_def decision_for_def demo_scenario_def
      put_opportunity_def commit_economics_def add_audit_def put_row_def economics_tables_ok
      unique_on_def rate_ok_def demo_assumption_def audit_for_def)

theorem null_limitations_block_calculation_witness:
  "\<exists>e. economics_step demo_action_env (CalculateOpportunity 1 1 30 5 ''new'' ''r'' 9 0) demo_null_db = Inl e"
  by (rule null_limitations_block_calculation [OF demo_null_opportunity(1)])
    (simp_all add: demo_null_opportunity(2) demo_calculation_def new_calculation_def)

text \<open>An organization's opportunities, and everything recorded about them, do not change under
  the requests of other organizations.\<close>

theorem economics_tenant_isolation:
  assumes "economics_wf env db" "\<forall>op \<in> set ops. economics_op_org op \<noteq> org"
  shows "economics_view org (run_ops (economics_step env) ops db) = economics_view org db"
  using assms by (rule opportunity_service.run_isolated)

theorem economics_tenant_isolation_witness:
  "economics_view 2 demo_approved_db = economics_view 2 demo_economics_db"
  unfolding demo_approved_db_def
  by (rule economics_tenant_isolation) (simp_all add: demo_economics_wf demo_decide_def)

end
