(* ===== verification/Recovery_Properties.thy ===== *)
theory Recovery_Properties
  imports Recovery_Reversals Opportunity_Properties
begin

text \<open>
  The interfaces the recovery ledger implements, and its properties: segregation of duties,
  an append-only numbered ledger, bounded reversals, and what retries and reused keys do.
\<close>

section \<open>Interfaces\<close>

definition measurement_at :: "'a recovery_db_scheme \<Rightarrow> uuid \<Rightarrow> value_measurement option" where
  "measurement_at db i = find (\<lambda>m. rm_id m = i) (measurements db)"

definition recovery_view where
  "recovery_view org db =
     (filter (\<lambda>c. rc_org c = org) (cases db), filter (\<lambda>x. rx_org x = org) (executions db),
      filter (\<lambda>m. rm_org m = org) (measurements db), filter (\<lambda>v. rv_org v = org) (evidence_links db),
      filter (\<lambda>v. fv_org v = org) (verifications db), filter (\<lambda>e. le_org e = org) (ledger db),
      filter (\<lambda>u. ru_org u = org) (recovery_audits db))"

lemma posting_effect_org:
  "posting_effect env db c p actor es \<Longrightarrow> rc_org c = org \<Longrightarrow> org' \<noteq> org \<Longrightarrow>
     filter (\<lambda>e. le_org e = org') es = []"
  by (auto simp: posting_effect_def split: if_splits)

lemma effect_other_recovery:
  assumes "recovery_effect env org db db'" "org' \<noteq> org"
  shows "snd (snd (snd (recovery_view org' db'))) = snd (snd (snd (recovery_view org' db)))"
  using assms(1)
proof cases
  case (measurement_added x m vs u)
  then show ?thesis using assms(2) by (auto simp: recovery_view_def filter_empty_conv)
next
  case (measurement_verified m actor x c v p es u)
  then show ?thesis
    using assms(2) posting_effect_org [OF measurement_verified(17,10) assms(2)]
    by (simp add: recovery_view_def)
next
  case (entry_posted original c a p actor es u)
  then show ?thesis
    using assms(2) posting_effect_org [OF entry_posted(8,6) assms(2)] by (simp add: recovery_view_def)
qed (use assms(2) in \<open>simp_all add: recovery_view_def\<close>)

lemma recovery_effect_view:
  assumes "recovery_effect env org db db'" "recovery_constraints db" "org' \<noteq> org"
  shows "recovery_view org' db' = recovery_view org' db"
  using table_step_view [OF effect_cases [OF assms(1)] recovery_ids_unique(1) [OF assms(2)] assms(3)]
    table_step_view [OF effect_executions [OF assms(1)] recovery_ids_unique(2) [OF assms(2)] assms(3)]
    table_step_view [OF effect_measurements [OF assms(1)] recovery_ids_unique(3) [OF assms(2)] assms(3)]
    effect_other_recovery [OF assms(1,3)]
  by (simp add: recovery_view_def)

interpretation recovery_service: tenant_service "recovery_step env" "recovery_wf env"
  recovery_op_org recovery_view
proof
  fix db :: "'b recovery_db_scheme" and op db' r
  assume "recovery_wf env db" "recovery_step env op db = Inr (db', r)"
  then show "recovery_wf env db'" by (rule recovery_step_wf)
next
  fix db :: "'b recovery_db_scheme" and op db' r org
  assume w: "recovery_wf env db" "recovery_step env op db = Inr (db', r)" "org \<noteq> recovery_op_org op"
  then show "recovery_view org db' = recovery_view org db"
    using recovery_effect_view recovery_step_effect unfolding recovery_wf_def by blast
qed

interpretation measurement_rows: lifecycle_service "recovery_step env" "recovery_wf env"
  measurement_at measurement_evolves rm_status measurement_transitions
proof
  fix db :: "'b recovery_db_scheme" and op db' r i x
  assume w: "recovery_wf env db" "recovery_step env op db = Inr (db', r)" "measurement_at db i = Some x"
  have e: "recovery_effect env (recovery_op_org op) db db'"
    using recovery_step_effect [OF w(2)] by simp
  show "\<exists>x'. measurement_at db' i = Some x' \<and> (x' = x \<or> measurement_evolves x x')"
    using table_step_row [OF effect_measurements [OF e] recovery_ids_unique(3)] w(1,3)
    unfolding measurement_at_def recovery_wf_def by blast
qed (use measurement_evolves_keeps in blast)

interpretation ledger_log: append_only_service "recovery_step env" "recovery_wf env" ledger
proof
  fix db :: "'b recovery_db_scheme" and op db' r
  assume "recovery_wf env db" "recovery_step env op db = Inr (db', r)"
  then show "\<exists>evs. ledger db' = ledger db @ evs"
    using recovery_effect_appends(1) recovery_step_effect by blast
qed

lemma amounts_run:
  assumes "recovery_wf env db" "numeric_column (env_numeric env)" "ledger_amounts_wf db"
  shows "ledger_amounts_wf (run_ops (recovery_step env) ops db)"
proof (rule recovery_service.run_keeps [where P = ledger_amounts_wf, OF _ assms(1,3)])
  fix op db db' r
  assume w: "recovery_wf env db" "ledger_amounts_wf db" "recovery_step env op db = Inr (db', r)"
  have "recovery_constraints db'"
    using recovery_step_wf [OF w(1,3)] by (simp add: recovery_wf_def)
  moreover have "recovery_effect env (recovery_op_org op) db db'" "recovery_constraints db"
    using recovery_step_effect [OF w(3)] w(1) by (simp_all add: recovery_wf_def)
  ultimately show "ledger_amounts_wf db'" using effect_bounded assms(2) w(2) by blast
qed

section \<open>Example data\<close>

definition demo_ledger_env :: ledger_env where
  "demo_ledger_env = action_env.extend demo_action_env
     (ledger_env.fields (\<lambda>org c n t a cur key. key))"

definition demo_case :: recovery_case where
  "demo_case = \<lparr>rc_id = 50, rc_org = 1, rc_opportunity = 1, rc_baseline = 8, rc_code = ''RCS'',
     rc_key = ''k'', rc_title = ''t'', rc_description = ''d'', rc_status = ''approved'',
     rc_currency = ''USD'',
     rc_expected = env_numeric demo_ledger_env 12 (sn_net (bl_snapshot demo_baseline)),
     rc_created_by = 9\<rparr>"

definition demo_execution :: recovery_execution where
  "demo_execution = \<lparr>rx_id = 51, rx_org = 1, rx_case = 50, rx_action = 1, rx_key = ''k'',
     rx_status = X_MEASURED, rx_started_at = None, rx_completed_at = None, rx_notes = None,
     rx_created_by = 9\<rparr>"

definition demo_measurement :: "uuid \<Rightarrow> string \<Rightarrow> value_measurement" where
  "demo_measurement i key = \<lparr>rm_id = i, rm_org = 1, rm_execution = 51, rm_key = key,
     rm_category = REVENUE_RECOVERY, rm_status = M_SUBMITTED, rm_baseline = 0, rm_actual = 100,
     rm_realized = 100, rm_currency = ''USD'', rm_start = 0, rm_end = 1, rm_methodology = ''m'',
     rm_days = None, rm_rate = None, rm_limitations = [], rm_submitted_by = Some 9,
     rm_submitted_at = Some 2, rm_created_by = 9\<rparr>"

definition demo_evidence :: "uuid \<Rightarrow> recovery_evidence" where
  "demo_evidence i = \<lparr>rv_org = 1, rv_measurement = i, rv_type = ''t'', rv_source_type = ''s'',
     rv_source_identifier = ''x'', rv_integrity = None, rv_observed_at = None, rv_created_by = 9\<rparr>"

definition demo_recovery_db :: recovery_db where
  "demo_recovery_db = economics_db.extend demo_approved_db
     (recovery_db.fields [demo_case] [demo_execution] [demo_measurement 52 ''a'', demo_measurement 53 ''b'']
        [demo_evidence 52, demo_evidence 53] [] [] [])"

definition demo_verify :: "uuid \<Rightarrow> uuid \<Rightarrow> string \<Rightarrow> uuid \<Rightarrow> recovery_op" where
  "demo_verify i j key actor = VerifyMeasurement 1 i j (j + 1)
     \<lparr>vp_key = key, vp_amount = 100, vp_currency = ''USD'', vp_rationale = ''ok''\<rparr> actor"

definition demo_mutation :: "string \<Rightarrow> rat \<Rightarrow> bool option \<Rightarrow> mutation_payload" where
  "demo_mutation key a positive = \<lparr>mu_key = key, mu_amount = a, mu_reason = ''r'', mu_positive = positive\<rparr>"

lemma demo_recovery_db_simps:
  "cases demo_recovery_db = [demo_case]" "executions demo_recovery_db = [demo_execution]"
  "measurements demo_recovery_db = [demo_measurement 52 ''a'', demo_measurement 53 ''b'']"
  "evidence_links demo_recovery_db = [demo_evidence 52, demo_evidence 53]"
  "verifications demo_recovery_db = []" "ledger demo_recovery_db = []"
  "recovery_audits demo_recovery_db = []" "baselines demo_recovery_db = [demo_baseline]"
  "map ro_id (opportunities demo_recovery_db) = [1]" "map oa_id (actions demo_recovery_db) = [1, 2]"
  by (simp_all add: demo_recovery_db_def economics_db.defs recovery_db.defs demo_approved_baselines
      demo_approved demo_opportunity_simps)
    (simp add: demo_approved_db_def demo_decide_simps demo_economics_db_def action_db.defs
      economics_db.defs demo_action_db_def demo_action_simps)

lemma demo_recovery_keys:
  "ro_id ` set (opportunities demo_recovery_db) = {1}" "oa_id ` set (actions demo_recovery_db) = {1, 2}"
  using arg_cong [OF demo_recovery_db_simps(9), of set] arg_cong [OF demo_recovery_db_simps(10), of set]
  by simp_all

lemma demo_numeric:
  "env_numeric demo_ledger_env 12 100 = 100" "env_numeric demo_ledger_env 12 (dneg 30) = - 30"
  "env_numeric demo_ledger_env 12 5 = 5" "dsub (dabs 100) (dabs 0) = 100"
  "dsub (dabs (- 30)) (dabs 0) = 30" "env_numeric demo_ledger_env 12 (dneg 10) = - 10"
  by (simp_all add: demo_ledger_env_def action_env.defs ledger_env.defs demo_action_env_def)
    (code_simp)+

lemma demo_numeric_column: "numeric_column (env_numeric demo_ledger_env)"
proof -
  have f: "env_numeric demo_ledger_env p x = of_int (round_half_up (x * 10 ^ p)) / 10 ^ p" for p x
    by (simp add: demo_ledger_env_def action_env.defs ledger_env.defs demo_action_env_def)
  have "env_numeric demo_ledger_env p x \<le> env_numeric demo_ledger_env p y" if "x \<le> y" for p x y
    unfolding f using that by (intro divide_right_mono) (auto intro!: round_half_up_mono mult_right_mono)
  moreover have "env_numeric demo_ledger_env p (of_int n / 10 ^ p) = of_int n / 10 ^ p" for p n
    unfolding f by simp
  ultimately show ?thesis unfolding numeric_column_def using f by blast
qed

lemmas recovery_tables_ok =
  recovery_constraints_def cases_ok_def executions_ok_def measurements_ok_def evidence_links_ok_def
  verifications_ok_def ledger_ok_def recovery_audits_ok_def

lemma demo_baseline_simps:
  "bl_id demo_baseline = 8" "bl_org demo_baseline = 1" "bl_opportunity demo_baseline = 1"
  "bl_currency demo_baseline = ''USD''"
  by (simp_all add: demo_baseline_def freeze_baseline_def demo_opportunity_simps demo_prioritization_simps)

lemma demo_recovery_wf: "recovery_wf demo_ledger_env demo_recovery_db"
proof -
  have "recovery_constraints demo_recovery_db"
    by (simp add: recovery_tables_ok demo_recovery_db_simps demo_recovery_keys demo_case_def
        demo_execution_def demo_measurement_def demo_evidence_def unique_on_def demo_baseline_simps)
  moreover have "ledger_numbered demo_recovery_db" "ledger_owned demo_recovery_db"
    "recoveries_backed demo_recovery_db" "submissions_evidenced demo_recovery_db"
    by (simp_all add: ledger_numbered_def case_entries_def ledger_owned_def recoveries_backed_def
        submissions_evidenced_def evidenced_def demo_recovery_db_simps demo_measurement_def demo_evidence_def)
  moreover have "cases_opened demo_ledger_env demo_recovery_db"
    by (simp add: cases_opened_def opens_case_def demo_recovery_db_simps demo_case_def demo_baseline_simps)
  ultimately show ?thesis by (simp add: recovery_wf_def)
qed

lemma demo_amounts_wf: "ledger_amounts_wf demo_recovery_db"
  by (simp add: ledger_amounts_wf_def reversals_bounded_def demo_recovery_db_simps)

lemmas demo_run_simps =
  attempt_def recovery_step_def demo_verify_def demo_mutation_def measurement_verify_def
  measurement_get_def execution_get_def case_get_def tenant_get_def entry_get_def
  require_separate_reviewer_def verified_before_def post_entry_def new_entry_def next_number_def
  Let_def commit_recovery_def audited_def put_measurement_def put_row_def recovery_tables_ok
  unique_on_def optional_reference_def recovery_audit_for_def ledger_reverse_def ledger_adjust_def
  remaining_value_def reversals_of_def verify_request_ok_def mutation_request_ok_def sized_def
  currency_format_def demo_recovery_db_simps demo_recovery_keys demo_case_def demo_execution_def
  demo_measurement_def demo_evidence_def demo_baseline_simps demo_numeric

definition demo_posted_db :: recovery_db where
  "demo_posted_db = run_ops (recovery_step demo_ledger_env) [demo_verify 52 60 ''v1'' 4] demo_recovery_db"

definition demo_entry :: ledger_entry where
  "demo_entry = \<lparr>le_id = 61, le_org = 1, le_case = 50, le_measurement = Some 52,
     le_verification = Some 60, le_reversal_of = None, le_adjustment_of = None, le_sequence = 1,
     le_type = VERIFIED_RECOVERY, le_amount = 100, le_currency = ''USD'', le_key = ''v1'',
     le_reason = ''ok'', le_hash = ''v1'', le_posted_by = 4\<rparr>"

lemma demo_hash: "env_entry_hash demo_ledger_env org c n t a cur key = key"
  by (simp add: demo_ledger_env_def action_env.defs ledger_env.defs)

lemma demo_posted: "ledger demo_posted_db = [demo_entry]"
  by (simp add: demo_posted_db_def demo_run_simps demo_hash demo_entry_def is_alpha_def upper_char_def
      cong: option.case_cong)

section \<open>Properties\<close>

text \<open>C5: Verified value is backed and its duties are segregated. After any requests, every
  verified recovery in the ledger carries exactly the amount of an approved verification by the
  user who posted it, of a verified measurement with evidence, in the case of the entry, that
  somebody other than that user submitted.\<close>

theorem verified_value_segregated:
  assumes "recovery_wf env db" "db2 = run_ops (recovery_step env) ops db"
    and "e \<in> set (ledger db2)" "le_type e = VERIFIED_RECOVERY"
  shows "\<exists>v m x submitter.
    v \<in> set (verifications db2) \<and> le_verification e = Some (fv_id v) \<and> fv_decision v = F_APPROVED \<and>
    fv_amount v = le_amount e \<and> fv_reviewer v = le_posted_by e \<and>
    m \<in> set (measurements db2) \<and> fv_measurement v = rm_id m \<and> rm_status m = M_VERIFIED \<and>
    rm_submitted_by m = Some submitter \<and> submitter \<noteq> le_posted_by e \<and>
    (\<exists>w \<in> set (evidence_links db2). rv_measurement w = rm_id m) \<and>
    x \<in> set (executions db2) \<and> rx_id x = rm_execution m \<and> rx_case x = le_case e"
proof -
  have "recovery_wf env db2" unfolding assms(2) using assms(1) by (rule recovery_service.run_inv)
  then have "recovery_backed db2 e"
    using assms(3,4) by (simp add: recovery_wf_def recoveries_backed_def)
  then show ?thesis unfolding recovery_backed_def evidenced_def by (metis option.exhaust)
qed

theorem verified_value_segregated_witness:
  "\<exists>m. m \<in> set (measurements demo_posted_db) \<and> rm_status m = M_VERIFIED \<and> rm_submitted_by m \<noteq> Some 4"
  using verified_value_segregated [OF demo_recovery_wf demo_posted_db_def, of demo_entry]
  by (auto simp: demo_posted) (auto simp: demo_entry_def)


definition demo_reversed_db :: recovery_db where
  "demo_reversed_db = run_ops (recovery_step demo_ledger_env)
     [demo_verify 52 60 ''v1'' 4, ReverseEntry 1 61 62 (demo_mutation ''r1'' 30 None) 4] demo_recovery_db"

definition demo_reversal :: ledger_entry where
  "demo_reversal = demo_entry\<lparr>le_id := 62, le_verification := None, le_reversal_of := Some 61,
     le_sequence := 2, le_type := REVERSAL, le_amount := - 30, le_key := ''r1'', le_reason := ''r'',
     le_hash := ''r1''\<rparr>"

lemma demo_reversed: "ledger demo_reversed_db = [demo_entry, demo_reversal]"
  by (simp add: demo_reversed_db_def demo_run_simps demo_hash demo_entry_def demo_reversal_def
      is_alpha_def upper_char_def cong: option.case_cong)


text \<open>C10: The ledger is append-only and numbered. No request changes or removes an entry; the
  entries of a case are numbered from 1 without gaps, in its currency and organization.\<close>

theorem ledger_append_only_numbered:
  assumes "recovery_wf env db" "db2 = run_ops (recovery_step env) ops db"
  shows "(\<exists>new. ledger db2 = ledger db @ new) \<and>
    (\<forall>i. map le_sequence (case_entries db2 i) = map int [1..<Suc (length (case_entries db2 i))]) \<and>
    (\<forall>e \<in> set (ledger db2). \<exists>c \<in> set (cases db2).
       rc_id c = le_case e \<and> rc_org c = le_org e \<and> rc_currency c = le_currency e)"
proof -
  have "recovery_wf env db2" unfolding assms(2) using assms(1) by (rule recovery_service.run_inv)
  then have "ledger_numbered db2" "ledger_owned db2" by (simp_all add: recovery_wf_def)
  moreover have "\<exists>new. ledger db2 = ledger db @ new"
    unfolding assms(2) using assms(1) by (rule ledger_log.run_log)
  ultimately show ?thesis
    by (simp only: ledger_numbered_def ledger_owned_def numbered_def length_map) blast
qed

theorem ledger_append_only_numbered_witness:
  "map le_sequence (case_entries demo_reversed_db 50) = [1, 2]"
  using ledger_append_only_numbered [OF demo_recovery_wf demo_reversed_db_def]
  by (simp add: case_entries_def demo_reversed demo_entry_def demo_reversal_def)

text \<open>C26: The net value of a case is its ledger. The summary of a case, which filters the ledger
  by organization and currency, reports as net value the sum of all entries of the case, and
  as expected value the net benefit of the frozen baseline the case was opened on.\<close>

theorem case_net_is_ledger:
  assumes "recovery_wf env db" "db2 = run_ops (recovery_step env) ops db" "c \<in> set (cases db2)"
  shows "\<exists>s b. case_summary db2 (rc_org c) (rc_id c) = Inr s \<and>
    vs_net s = sum_list (map le_amount (case_entries db2 (rc_id c))) \<and>
    b \<in> set (baselines db2) \<and> bl_id b = rc_baseline c \<and> vs_currency s = bl_currency b \<and>
    vs_expected s = env_numeric env 12 (sn_net (bl_snapshot b))"
proof -
  have wf: "recovery_wf env db2" unfolding assms(2) using assms(1) by (rule recovery_service.run_inv)
  then have u: "unique_on rc_id (cases db2)"
    using recovery_ids_unique(1) unfolding recovery_wf_def by blast
  have o: "ledger_owned db2" and p: "cases_opened env db2"
    using wf by (simp_all add: recovery_wf_def)
  have g: "case_get db2 (rc_org c) (rc_id c) = Inr c"
    unfolding case_get_def by (rule tenant_get_unique [OF u assms(3)])
  have "le_org e = rc_org c \<and> le_currency e = rc_currency c"
    if "e \<in> set (ledger db2)" "le_case e = rc_id c" for e
  proof -
    obtain c' where "c' \<in> set (cases db2)" "rc_id c' = le_case e" "rc_org c' = le_org e"
      "rc_currency c' = le_currency e"
      using o \<open>e \<in> set (ledger db2)\<close> unfolding ledger_owned_def by blast
    with unique_on_eq [OF u, of c' c] assms(3) that(2) show ?thesis by simp
  qed
  then have "filter (\<lambda>e. le_org e = rc_org c \<and> le_case e = rc_id c \<and> le_currency e = rc_currency c) (ledger db2) =
      case_entries db2 (rc_id c)"
    unfolding case_entries_def by (intro filter_cong) auto
  moreover obtain b where "b \<in> set (baselines db2)" "bl_id b = rc_baseline c"
    "bl_currency b = rc_currency c" "rc_expected c = env_numeric env 12 (sn_net (bl_snapshot b))"
    using p assms(3) unfolding cases_opened_def opens_case_def by blast
  ultimately show ?thesis using g by (simp add: case_summary_def) metis
qed

theorem case_net_is_ledger_witness:
  "\<exists>s. case_summary demo_posted_db 1 50 = Inr s \<and> vs_net s = 100"
proof -
  have "cases demo_posted_db = [demo_case]"
    by (simp add: demo_posted_db_def demo_run_simps demo_hash is_alpha_def upper_char_def
        cong: option.case_cong)
  then show ?thesis
    using case_net_is_ledger [OF demo_recovery_wf demo_posted_db_def, of demo_case]
    by (auto simp: case_entries_def demo_posted demo_entry_def) (auto simp: demo_case_def)
qed

text \<open>Asking for information is final. A measurement sent back for more information stays in
  that status whatever requests follow, as do rejected and verified ones: it can never be
  submitted again.\<close>

theorem reviewed_measurement_is_final:
  assumes "recovery_wf env db" "measurement_at db i = Some m"
    and "rm_status m \<in> {M_NEEDS_INFORMATION, M_REJECTED, M_VERIFIED}"
  shows "\<exists>m'. measurement_at (run_ops (recovery_step env) ops db) i = Some m' \<and> rm_status m' = rm_status m"
  using assms(3) by (intro measurement_rows.run_terminal [OF assms(1,2)]) auto

definition demo_returned_db :: recovery_db where
  "demo_returned_db = run_ops (recovery_step demo_ledger_env)
     [ReviewMeasurement 1 52 70 ''q'' NeedsInformation ''why'' 4] demo_recovery_db"

lemma demo_returned: "measurements demo_returned_db =
   [demo_measurement 52 ''a''\<lparr>rm_status := M_NEEDS_INFORMATION\<rparr>, demo_measurement 53 ''b'']"
  by (simp add: demo_returned_db_def finance_review_def review_status_def demo_run_simps)

lemma demo_returned_wf: "recovery_wf demo_ledger_env demo_returned_db"
  unfolding demo_returned_db_def by (rule recovery_service.run_inv [OF demo_recovery_wf])

theorem reviewed_measurement_is_final_witness:
  "\<exists>m'. measurement_at (run_ops (recovery_step demo_ledger_env) [SubmitMeasurement 1 52 9 5] demo_returned_db) 52 =
     Some m' \<and> rm_status m' = M_NEEDS_INFORMATION"
  using reviewed_measurement_is_final [OF demo_returned_wf,
      of 52 "demo_measurement 52 ''a''\<lparr>rm_status := M_NEEDS_INFORMATION\<rparr>" "[SubmitMeasurement 1 52 9 5]"]
  by (simp add: measurement_at_def demo_returned demo_measurement_def del: run_ops.simps)

text \<open>C0: A retried posting fails. Adjustments and reversals look up the entry already posted under
  their idempotency key, but the audit event they add again is unique: once a request
  succeeded, another of the same kind under the same key is refused for ever.\<close>

definition posting_request :: "bool \<Rightarrow> uuid \<Rightarrow> uuid \<Rightarrow> uuid \<Rightarrow> mutation_payload \<Rightarrow> uuid \<Rightarrow> recovery_op" where
  "posting_request reversal org i j p actor =
     (if reversal then ReverseEntry org i j p actor else AdjustEntry org i j p actor)"

definition posting_key :: "bool \<Rightarrow> string \<Rightarrow> recovery_audit_key" where
  "posting_key reversal key = (if reversal then RK_Reverse key else RK_Adjust key)"

lemma posting_audited:
  assumes "recovery_step env (posting_request reversal org i j p actor) db = Inr (db', r)"
  shows "\<exists>u. recovery_audits db' = recovery_audits db @ [u] \<and> ru_org u = org \<and>
    ru_key u = posting_key reversal (mu_key p) \<and> recovery_constraints db'"
  using assms
  by (auto simp: posting_request_def posting_key_def recovery_step_def ledger_adjust_def
      ledger_reverse_def Let_def audited_def post_entry_def dest!: commit_recoveryD case_getD
      split: if_splits option.splits)

theorem retried_posting_fails:
  assumes "recovery_wf env db" "recovery_step env (posting_request reversal org i j p actor) db = Inr (db', r)"
    and "mu_key p' = mu_key p"
  shows "\<exists>err. recovery_step env (posting_request reversal org i' j' p' actor')
    (run_ops (recovery_step env) ops db') = Inl err"
proof -
  let ?db = "run_ops (recovery_step env) ops db'"
  have keep: "(org, posting_key reversal (mu_key p)) \<in> (\<lambda>u. (ru_org u, ru_key u)) ` set (recovery_audits ?db)"
  proof (rule recovery_service.run_keeps [where P = "\<lambda>db. (org, posting_key reversal (mu_key p)) \<in>
        (\<lambda>u. (ru_org u, ru_key u)) ` set (recovery_audits db)", OF _ recovery_step_wf [OF assms(1,2)]])
    show "(org, posting_key reversal (mu_key p)) \<in> (\<lambda>u. (ru_org u, ru_key u)) ` set (recovery_audits db')"
      using posting_audited [OF assms(2)] by force
    fix op d d' r'
    assume "(org, posting_key reversal (mu_key p)) \<in> (\<lambda>u. (ru_org u, ru_key u)) ` set (recovery_audits d)"
      "recovery_step env op d = Inr (d', r')"
    moreover from this(2) obtain us where "recovery_audits d' = recovery_audits d @ us"
      using recovery_effect_appends(4) recovery_step_effect by blast
    ultimately show "(org, posting_key reversal (mu_key p)) \<in> (\<lambda>u. (ru_org u, ru_key u)) ` set (recovery_audits d')"
      by auto
  qed
  show ?thesis
  proof (cases "recovery_step env (posting_request reversal org i' j' p' actor') ?db")
    case (Inr res)
    obtain d' r' where res: "res = (d', r')" by (cases res)
    obtain u where "recovery_audits d' = recovery_audits ?db @ [u]" "ru_org u = org"
      "ru_key u = posting_key reversal (mu_key p)" "recovery_constraints d'"
      using posting_audited [of env reversal org i' j' p' actor' ?db d' r'] Inr res assms(3) by auto
    then have "(org, posting_key reversal (mu_key p)) \<notin> (\<lambda>u. (ru_org u, ru_key u)) ` set (recovery_audits ?db)"
      by (simp add: recovery_constraints_def recovery_audits_ok_def unique_on_snoc)
    with keep show ?thesis by blast
  qed blast
qed

lemma demo_adjust_step:
  "\<exists>db' r. recovery_step demo_ledger_env
     (posting_request False 1 61 62 (demo_mutation ''x1'' 5 (Some True)) 4) demo_posted_db = Inr (db', r)"
  by (simp add: demo_posted_db_def posting_request_def demo_run_simps demo_hash is_alpha_def
      upper_char_def cong: option.case_cong)

theorem retried_posting_fails_witness:
  "\<exists>(db' :: recovery_db) err. recovery_step demo_ledger_env
     (posting_request False 1 61 63 (demo_mutation ''x1'' 5 (Some True)) 4) db' = Inl err"
proof -
  obtain db' r where "recovery_step demo_ledger_env
     (posting_request False 1 61 62 (demo_mutation ''x1'' 5 (Some True)) 4) demo_posted_db = Inr (db', r)"
    using demo_adjust_step by blast
  moreover have "recovery_wf demo_ledger_env demo_posted_db"
    unfolding demo_posted_db_def by (rule recovery_service.run_inv [OF demo_recovery_wf])
  ultimately show ?thesis
    using retried_posting_fails [where p' = "demo_mutation ''x1'' 5 (Some True)" and i' = 61 and j' = 63
        and actor' = 4 and ops = "[]"]
    by (metis run_ops.simps(1))
qed

text \<open>A reused key verifies without posting. If a verification names a key under which the
  ledger already holds some other entry of the organization (an adjustment, say), a successful
  request marks the measurement verified and posts nothing.\<close>

theorem reused_key_posts_nothing:
  assumes "recovery_step env (VerifyMeasurement org i j k p actor) db = Inr (db', r)"
    and "verified_before db org (vp_key p) = None"
    and "e \<in> set (ledger db)" "le_org e = org" "le_key e = vp_key p"
  shows "ledger db' = ledger db \<and>
    (\<exists>m. measurement_at db' i = Some m \<and> rm_status m = M_VERIFIED) \<and>
    (\<exists>v. verifications db' = verifications db @ [v] \<and> fv_measurement v = i \<and> fv_decision v = F_APPROVED)"
proof -
  obtain m c where m: "measurement_get db org i = Inr (m, c)"
    using assms(1) by (auto simp: recovery_step_def measurement_verify_def)
  note M = measurement_getD [OF m]
  obtain prior where prior: "find (\<lambda>e. le_org e = rc_org c \<and> le_key e = vp_key p) (ledger db) = Some prior"
    using assms(3-5) M find_NoneD [of _ "ledger db" e]
    by (cases "find (\<lambda>e. le_org e = rc_org c \<and> le_key e = vp_key p) (ledger db)") auto
  have "measurements db' = put_row rm_id (m\<lparr>rm_status := M_VERIFIED\<rparr>) (measurements db) \<and>
      ledger db' = ledger db \<and>
      (\<exists>v. verifications db' = verifications db @ [v] \<and> fv_measurement v = rm_id m \<and> fv_decision v = F_APPROVED)"
    using assms(1,2) m prior
    by (auto simp: recovery_step_def measurement_verify_def Let_def audited_def put_measurement_def
        post_entry_def dest!: commit_recoveryD)
  then show ?thesis
    using M find_put_row_same [of m "measurements db" rm_id "m\<lparr>rm_status := M_VERIFIED\<rparr>" i]
    by (simp add: measurement_at_def)
qed

definition demo_adjusted_db :: recovery_db where
  "demo_adjusted_db = run_ops (recovery_step demo_ledger_env)
     [demo_verify 52 60 ''v1'' 4, AdjustEntry 1 61 62 (demo_mutation ''x1'' 5 (Some True)) 4] demo_recovery_db"

lemma demo_adjusted:
  "map (\<lambda>e. (le_id e, le_org e, le_key e)) (ledger demo_adjusted_db) = [(61, 1, ''v1''), (62, 1, ''x1'')]"
  "verified_before demo_adjusted_db 1 ''x1'' = None"
  "\<exists>db' r. recovery_step demo_ledger_env (VerifyMeasurement 1 53 70 71
     \<lparr>vp_key = ''x1'', vp_amount = 100, vp_currency = ''USD'', vp_rationale = ''ok''\<rparr> 4) demo_adjusted_db =
     Inr (db', r)"
  by (simp_all add: demo_adjusted_db_def demo_run_simps demo_hash is_alpha_def upper_char_def
      cong: option.case_cong)

theorem reused_key_posts_nothing_witness:
  "\<exists>(db' :: recovery_db) m. ledger db' = ledger demo_adjusted_db \<and> measurement_at db' 53 = Some m \<and> rm_status m = M_VERIFIED"
proof -
  obtain e where "e \<in> set (ledger demo_adjusted_db)" "le_org e = 1" "le_key e = ''x1''"
    using demo_adjusted(1) by (fastforce simp: map_eq_Cons_conv)
  moreover obtain db' r where "recovery_step demo_ledger_env (VerifyMeasurement 1 53 70 71
     \<lparr>vp_key = ''x1'', vp_amount = 100, vp_currency = ''USD'', vp_rationale = ''ok''\<rparr> 4) demo_adjusted_db =
     Inr (db', r)"
    using demo_adjusted(3) by blast
  ultimately show ?thesis
    using reused_key_posts_nothing [of demo_ledger_env 1 53 70 71
        "\<lparr>vp_key = ''x1'', vp_amount = 100, vp_currency = ''USD'', vp_rationale = ''ok''\<rparr>" 4
        demo_adjusted_db db' r e] demo_adjusted(2)
    by auto
qed

text \<open>Reversing always lowers the net value. A successful reversal under a new key posts a
  negative entry in the case of the original, whatever the sign of the original: reversing a
  reversal or a negative adjustment takes further value away instead of restoring it.\<close>

theorem reversal_lowers_net:
  assumes "recovery_step env (ReverseEntry org i j p actor) db = Inr (db', r)"
    and "numeric_column (env_numeric env)"
    and "\<forall>e \<in> set (ledger db). le_org e = org \<longrightarrow> le_key e \<noteq> mu_key p"
  shows "\<exists>original e. entry_get db org i = Inr original \<and> ledger db' = ledger db @ [e] \<and>
    le_reversal_of e = Some i \<and> le_case e = le_case original \<and> le_amount e < 0 \<and>
    sum_list (map le_amount (case_entries db' (le_case original))) <
    sum_list (map le_amount (case_entries db (le_case original)))"
proof -
  have a: "0 < mu_amount p" and l: "ledger_reverse env db org i j p actor = Inr (db', r)"
    using assms(1) by (simp_all add: recovery_step_def mutation_request_ok_def)
  then obtain original c where g: "entry_get db org i = Inr original"
    "case_get db org (le_case original) = Inr c"
    by (auto simp: ledger_reverse_def)
  have n: "find (\<lambda>e. le_org e = rc_org c \<and> le_key e = mu_key p) (ledger db) = None"
    using assms(3) case_getD [OF g(2)] by (auto simp: find_None_iff)
  then obtain e where e: "ledger db' = ledger db @ [e]" "le_reversal_of e = Some i"
    "le_case e = le_case original" "le_amount e = env_numeric env 12 (dneg (mu_amount p))"
    "recovery_constraints db'"
    using l g case_getD [OF g(2)] entry_getD [OF g(1)]
    by (auto simp: ledger_reverse_def Let_def audited_def post_entry_def new_entry_def
        dest!: commit_recoveryD)
  have "env_numeric env 12 (dneg (mu_amount p)) \<le> env_numeric env 12 0"
    using numeric_column_mono [OF assms(2), of "dneg (mu_amount p)" 0] dctx_pos [OF a]
    by (simp add: dneg_def dctx_minus)
  moreover have "le_amount e \<noteq> 0" using e(1,5) by (simp add: recovery_constraints_def ledger_ok_def)
  ultimately have neg: "le_amount e < 0"
    using e(4) numeric_column_fixes [OF assms(2), of 0] by simp
  then have "sum_list (map le_amount (case_entries db' (le_case original))) <
      sum_list (map le_amount (case_entries db (le_case original)))"
    by (simp add: case_entries_def e(1,3))
  with g(1) e(1-3) neg show ?thesis by blast
qed

lemma demo_reverse_again:
  "\<exists>db' r. recovery_step demo_ledger_env (ReverseEntry 1 62 63 (demo_mutation ''r2'' 10 None) 4)
     demo_reversed_db = Inr (db', r)"
  by (simp add: demo_reversed_db_def demo_run_simps demo_hash is_alpha_def upper_char_def
      cong: option.case_cong)

theorem reversal_lowers_net_witness:
  "\<exists>db' :: recovery_db. sum_list (map le_amount (case_entries db' 50)) < 70"
proof -
  obtain db' r where s: "recovery_step demo_ledger_env (ReverseEntry 1 62 63 (demo_mutation ''r2'' 10 None) 4)
     demo_reversed_db = Inr (db', r)"
    using demo_reverse_again by blast
  have k: "\<forall>e \<in> set (ledger demo_reversed_db). le_org e = 1 \<longrightarrow> le_key e \<noteq> mu_key (demo_mutation ''r2'' 10 None)"
    by (simp add: demo_reversed demo_entry_def demo_reversal_def demo_mutation_def)
  have "entry_get demo_reversed_db 1 62 = Inr demo_reversal"
    by (simp add: entry_get_def tenant_get_def demo_reversed demo_entry_def demo_reversal_def)
  then have "sum_list (map le_amount (case_entries db' 50)) <
      sum_list (map le_amount (case_entries demo_reversed_db 50))"
    using reversal_lowers_net [OF s demo_numeric_column k] by (auto simp: demo_reversal_def demo_entry_def)
  moreover have "sum_list (map le_amount (case_entries demo_reversed_db 50)) = 70"
    by (simp add: case_entries_def demo_reversed demo_entry_def demo_reversal_def)
  ultimately show ?thesis by (intro exI [of _ db']) simp
qed

end
