(* ===== verification/Platform.thy ===== *)
theory Platform
  imports Recovery_Properties
begin

text \<open>
  The action service, the economics service and the recovery ledger over their one database:
  requests of all three in any order, the invariants they keep together, and the properties
  that span them.
\<close>

section \<open>Requests\<close>

datatype platform_op = ActionReq action_op | EconomicsReq economics_op | RecoveryReq recovery_op

datatype platform_error =
    ActionFault action_error | EconomicsFault economics_service_error | RecoveryFault recovery_error

datatype platform_row = ActionOut action_row | EconomicsOut economics_row | RecoveryOut recovery_row

fun platform_op_org :: "platform_op \<Rightarrow> uuid" where
  "platform_op_org (ActionReq op) = action_op_org op"
| "platform_op_org (EconomicsReq op) = economics_op_org op"
| "platform_op_org (RecoveryReq op) = recovery_op_org op"

definition wrapped :: "('e \<Rightarrow> 'f) \<Rightarrow> ('r \<Rightarrow> 's) \<Rightarrow> 'e + 'db \<times> 'r \<Rightarrow> 'f + 'db \<times> 's" where
  "wrapped f g m = (case m of Inl e \<Rightarrow> Inl (f e) | Inr (db, r) \<Rightarrow> Inr (db, g r))"

fun platform_step ::
    "'e ledger_env_scheme \<Rightarrow> platform_op \<Rightarrow> 'a recovery_db_scheme \<Rightarrow>
     platform_error + 'a recovery_db_scheme \<times> platform_row" where
  "platform_step env (ActionReq op) db =
     wrapped ActionFault ActionOut (action_step (action_env.truncate env) op db)"
| "platform_step env (EconomicsReq op) db =
     wrapped EconomicsFault EconomicsOut (economics_step (action_env.truncate env) op db)"
| "platform_step env (RecoveryReq op) db =
     wrapped RecoveryFault RecoveryOut (recovery_step env op db)"

lemma wrapped_Inr: "wrapped f g m = Inr (db, s) \<longleftrightarrow> (\<exists>r. m = Inr (db, r) \<and> s = g r)"
  by (auto simp: wrapped_def split: sum.splits)

definition platform_wf :: "'e ledger_env_scheme \<Rightarrow> 'a recovery_db_scheme \<Rightarrow> bool" where
  "platform_wf env db \<longleftrightarrow>
     action_wf db \<and> economics_wf (action_env.truncate env) db \<and> recovery_wf env db"

definition platform_view where
  "platform_view org db = (action_view org db, economics_view org db, recovery_view org db)"

section \<open>Frames\<close>

text \<open>What each service leaves alone.\<close>

lemma action_effect_frame:
  assumes "action_effect env org db (db' :: 'a recovery_db_scheme)"
  shows "opportunities db' = opportunities db" "finding_links db' = finding_links db"
    "action_links db' = action_links db" "scenarios db' = scenarios db"
    "assumptions db' = assumptions db" "calculations db' = calculations db"
    "prioritizations db' = prioritizations db" "overlap_groups db' = overlap_groups db"
    "overlap_members db' = overlap_members db" "decisions db' = decisions db"
    "economic_audits db' = economic_audits db" "baselines db' = baselines db"
    "cases db' = cases db" "executions db' = executions db" "measurements db' = measurements db"
    "evidence_links db' = evidence_links db" "verifications db' = verifications db"
    "ledger db' = ledger db" "recovery_audits db' = recovery_audits db"
    "finding_rows db' = finding_rows db"
  using assms by (cases, simp_all)+

lemma economics_effect_frame:
  assumes "economics_effect env org db (db' :: 'a recovery_db_scheme)"
  shows "action_db.truncate db' = action_db.truncate db" "actions db' = actions db"
    "cases db' = cases db" "executions db' = executions db" "measurements db' = measurements db"
    "evidence_links db' = evidence_links db" "verifications db' = verifications db"
    "ledger db' = ledger db" "recovery_audits db' = recovery_audits db"
  using assms by (cases, simp_all add: action_db.defs)+

lemma recovery_effect_frame:
  assumes "recovery_effect env org db db'"
  shows "action_db.truncate db' = action_db.truncate db"
    "economics_db.truncate db' = economics_db.truncate db"
  using assms by (cases, simp_all add: action_db.defs economics_db.defs)+

lemma action_truncate:
  "actions (action_db.truncate db) = actions db" "plan_steps (action_db.truncate db) = plan_steps db"
  "dependencies (action_db.truncate db) = dependencies db" "resources (action_db.truncate db) = resources db"
  "action_events (action_db.truncate db) = action_events db"
  "action_evidence_rows (action_db.truncate db) = action_evidence_rows db"
  "action_outcomes (action_db.truncate db) = action_outcomes db"
  "action_feedback_rows (action_db.truncate db) = action_feedback_rows db"
  "reliability_rows (action_db.truncate db) = reliability_rows db"
  "finding_rows (action_db.truncate db) = finding_rows db"
  "forecast_rows (action_db.truncate db) = forecast_rows db"
  "orchestration_rows (action_db.truncate db) = orchestration_rows db"
  by (simp_all add: action_db.defs)

lemma action_wf_truncate: "action_wf (action_db.truncate db) = action_wf db"
  unfolding action_wf_def action_constraints_def actions_ok_def plan_steps_ok_def
    dependencies_ok_def resources_ok_def events_ok_def evidence_ok_def outcomes_ok_def
    feedback_ok_def action_keys_def references_def trails_replay_def action_trail_def
    approvals_authorized_def verified_backed_def verification_evidence_def realized_backed_def
    action_truncate by (rule refl)

lemma action_view_truncate: "action_view org (action_db.truncate db) = action_view org db"
  by (simp add: action_view_def action_truncate)

lemma economics_truncate:
  "opportunities (economics_db.truncate db) = opportunities db"
  "finding_links (economics_db.truncate db) = finding_links db"
  "action_links (economics_db.truncate db) = action_links db"
  "scenarios (economics_db.truncate db) = scenarios db"
  "assumptions (economics_db.truncate db) = assumptions db"
  "calculations (economics_db.truncate db) = calculations db"
  "prioritizations (economics_db.truncate db) = prioritizations db"
  "overlap_groups (economics_db.truncate db) = overlap_groups db"
  "overlap_members (economics_db.truncate db) = overlap_members db"
  "decisions (economics_db.truncate db) = decisions db"
  "economic_audits (economics_db.truncate db) = economic_audits db"
  "baselines (economics_db.truncate db) = baselines db"
  "actions (economics_db.truncate db) = actions db"
  "finding_rows (economics_db.truncate db) = finding_rows db"
  by (simp_all add: economics_db.defs)

lemmas economics_wf_defs =
  economics_tables_ok decisions_replay_def decision_trail_def baselines_counted_def
  baselines_of_def baselines_are_approvals_def approvals_of_def baselines_backed_def
  calculations_reproduced_def assumptions_versioned_def assumptions_of_def scenarios_versioned_def
  scenario_versions_def assumptions_owned_def

text \<open>
  The invariant of the economics tables reads the action tables only to find the rows its links
  name, the one of the recovery tables the opportunities, the baselines and the actions; all
  these tables only grow.
\<close>

lemma economics_wf_frame:
  assumes "economics_wf env db"
    and "opportunities db' = opportunities db" "finding_links db' = finding_links db"
    "action_links db' = action_links db" "scenarios db' = scenarios db"
    "assumptions db' = assumptions db" "calculations db' = calculations db"
    "prioritizations db' = prioritizations db" "overlap_groups db' = overlap_groups db"
    "overlap_members db' = overlap_members db" "decisions db' = decisions db"
    "economic_audits db' = economic_audits db" "baselines db' = baselines db"
    "finding_rows db' = finding_rows db" "oa_id ` set (actions db) \<subseteq> oa_id ` set (actions db')"
  shows "economics_wf env db'"
proof -
  have l: "action_links_ok db" using assms(1) by (simp add: economics_wf_def economics_constraints_def)
  have "action_links_ok db'"
    using l assms(15) unfolding action_links_ok_def list_all_iff assms(2,4) by blast
  with assms(1) show ?thesis
    unfolding economics_wf_def economics_constraints_def opportunities_ok_def finding_links_ok_def
      scenarios_ok_def assumptions_ok_def calculations_ok_def prioritizations_ok_def
      overlap_groups_ok_def overlap_members_ok_def decisions_ok_def economic_audits_ok_def
      baselines_ok_def decisions_replay_def decision_trail_def baselines_counted_def
      baselines_of_def baselines_are_approvals_def approvals_of_def baselines_backed_def
      calculations_reproduced_def assumptions_versioned_def assumptions_of_def
      scenarios_versioned_def scenario_versions_def assumptions_owned_def assms(2-14)
    by (elim conjE, intro conjI)
qed

lemma recovery_wf_frame:
  assumes "recovery_wf env db"
    and "cases db' = cases db" "executions db' = executions db" "measurements db' = measurements db"
    "evidence_links db' = evidence_links db" "verifications db' = verifications db"
    "ledger db' = ledger db" "recovery_audits db' = recovery_audits db"
    "ro_id ` set (opportunities db) \<subseteq> ro_id ` set (opportunities db')"
    "set (baselines db) \<subseteq> set (baselines db')"
    "oa_id ` set (actions db) \<subseteq> oa_id ` set (actions db')"
  shows "recovery_wf env db'"
proof -
  have c: "cases_ok db" and x: "executions_ok db" and o: "cases_opened env db"
    using assms(1) by (simp_all add: recovery_wf_def recovery_constraints_def)
  have "cases_ok db'"
    using c assms(9) image_mono [OF assms(10), of bl_id]
    unfolding cases_ok_def list_all_iff assms(2) by blast
  moreover have "executions_ok db'"
    using x assms(11) unfolding executions_ok_def list_all_iff assms(2,3) by blast
  moreover have "cases_opened env db'"
    using o assms(10) unfolding cases_opened_def opens_case_def assms(2) by blast
  ultimately show ?thesis using assms(1)
    unfolding recovery_wf_def recovery_constraints_def measurements_ok_def evidence_links_ok_def
      verifications_ok_def ledger_ok_def recovery_audits_ok_def ledger_numbered_def
      case_entries_def ledger_owned_def recoveries_backed_def recovery_backed_def
      submissions_evidenced_def evidenced_def assms(2-8)
    by (elim conjE, intro conjI)
qed

section \<open>One step\<close>

lemma table_step_ids:
  assumes "table_step pk owner new ev org rs rs'" "unique_on pk rs"
  shows "pk ` set rs \<subseteq> pk ` set rs'"
proof
  fix i assume "i \<in> pk ` set rs"
  then obtain r where "r \<in> set rs" "i = pk r" by blast
  moreover from table_step_kept [OF assms this(1)] obtain r' where "r' \<in> set rs'" "pk r' = pk r" by blast
  ultimately show "i \<in> pk ` set rs'" by (metis image_eqI)
qed

text \<open>What a request leaves of the tables: each service keeps its own invariant and the others'.\<close>

inductive platform_effect ::
    "'e ledger_env_scheme \<Rightarrow> uuid \<Rightarrow> 'a recovery_db_scheme \<Rightarrow> 'a recovery_db_scheme \<Rightarrow> bool"
  for env :: "'e ledger_env_scheme" and org :: uuid and db db' :: "'a recovery_db_scheme" where
  by_actions: "action_effect (action_env.truncate env) org db db' \<Longrightarrow> action_wf db' \<Longrightarrow>
    platform_effect env org db db'"
| by_economics: "economics_effect (action_env.truncate env) org db db' \<Longrightarrow>
    economics_wf (action_env.truncate env) db' \<Longrightarrow> platform_effect env org db db'"
| by_recovery: "recovery_effect env org db db' \<Longrightarrow> recovery_wf env db' \<Longrightarrow>
    platform_effect env org db db'"

lemma platform_step_effect:
  assumes "platform_wf env db" "platform_step env op db = Inr (db', r)"
  shows "platform_effect env (platform_op_org op) db db'"
proof (cases op)
  case (ActionReq a)
  with assms(2) obtain r' where "action_step (action_env.truncate env) a db = Inr (db', r')"
    by (auto simp: wrapped_Inr)
  with assms(1) ActionReq show ?thesis
    using action_step_effect action_step_wf unfolding platform_wf_def
    by (metis by_actions platform_op_org.simps(1))
next
  case (EconomicsReq a)
  with assms(2) obtain r' where "economics_step (action_env.truncate env) a db = Inr (db', r')"
    by (auto simp: wrapped_Inr)
  with assms(1) EconomicsReq show ?thesis
    using economics_step_effect economics_step_wf unfolding platform_wf_def
    by (metis by_economics platform_op_org.simps(2))
next
  case (RecoveryReq a)
  with assms(2) obtain r' where "recovery_step env a db = Inr (db', r')"
    by (auto simp: wrapped_Inr)
  with assms(1) RecoveryReq show ?thesis
    using recovery_step_effect recovery_step_wf unfolding platform_wf_def
    by (metis by_recovery platform_op_org.simps(3))
qed

lemma platform_effect_wf:
  assumes "platform_effect env org db db'" "platform_wf env db"
  shows "platform_wf env db'"
  using assms(1)
proof cases
  case by_actions
  have u: "unique_on oa_id (actions db)"
    using assms(2) by (simp add: platform_wf_def action_wf_def action_ids_unique)
  note f = action_effect_frame [OF by_actions(1)]
  note ids = table_step_ids [OF action_effect_table [OF by_actions(1)] u]
  have "economics_wf (action_env.truncate env) db'"
    by (rule economics_wf_frame [OF _ f(1-12) f(20) ids]) (use assms(2) in \<open>simp add: platform_wf_def\<close>)
  moreover have "recovery_wf env db'"
    by (rule recovery_wf_frame [OF _ f(13-19) _ _ ids])
      (use assms(2) in \<open>simp_all add: platform_wf_def f(1,12)\<close>)
  ultimately show ?thesis using by_actions(2) by (simp add: platform_wf_def)
next
  case by_economics
  have u: "unique_on ro_id (opportunities db)"
    using assms(2) by (simp add: platform_wf_def economics_wf_def opportunity_ids_unique)
  note f = economics_effect_frame [OF by_economics(1)]
  note ids = table_step_ids [OF effect_opportunities [OF by_economics(1)] u]
  have "action_wf db'" using assms(2) action_wf_truncate f(1) unfolding platform_wf_def by metis
  moreover have "set (baselines db) \<subseteq> set (baselines db')"
    using by_economics(1) by cases auto
  then have "recovery_wf env db'"
    by (intro recovery_wf_frame [OF _ f(3-9) ids])
      (use assms(2) in \<open>simp_all add: platform_wf_def f(2)\<close>)
  ultimately show ?thesis using by_economics(2) by (simp add: platform_wf_def)
next
  case by_recovery
  note f = recovery_effect_frame [OF by_recovery(1)]
  have "action_wf db'" using assms(2) action_wf_truncate f(1) unfolding platform_wf_def by metis
  moreover have "economics_wf (action_env.truncate env) db'"
    by (rule economics_wf_frame [where db = db])
      (use assms(2) economics_truncate f(2) in \<open>simp add: platform_wf_def\<close>, (metis economics_truncate f(2) order_refl)+)
  ultimately show ?thesis using by_recovery(2) by (simp add: platform_wf_def)
qed

lemma economics_view_truncate: "economics_view org (economics_db.truncate db) = economics_view org db"
  by (simp add: economics_view_def economics_truncate)

lemma platform_effect_view:
  assumes "platform_effect env org db db'" "platform_wf env db" "org' \<noteq> org"
  shows "platform_view org' db' = platform_view org' db"
  using assms(1)
proof cases
  case by_actions
  have "unique_on oa_id (actions db)"
    using assms(2) by (simp add: platform_wf_def action_wf_def action_ids_unique)
  from table_step_view [OF action_effect_table [OF by_actions(1)] this assms(3)]
    effect_other_tables [OF by_actions(1) assms(3)]
  have "action_view org' db' = action_view org' db" by (simp add: action_view_def)
  then show ?thesis
    by (simp add: platform_view_def economics_view_def recovery_view_def
        action_effect_frame [OF by_actions(1)])
next
  case by_economics
  have w: "economics_wf (action_env.truncate env) db" using assms(2) by (simp add: platform_wf_def)
  then have "unique_on ro_id (opportunities db)" by (simp add: economics_wf_def opportunity_ids_unique)
  from table_step_view [OF effect_opportunities [OF by_economics(1)] this assms(3)]
    effect_assumption_view [OF by_economics(1) assms(3) w] effect_other_economics [OF by_economics(1) assms(3)]
  have "economics_view org' db' = economics_view org' db" by (simp add: economics_view_def)
  moreover have "action_view org' db' = action_view org' db"
    by (metis action_view_truncate economics_effect_frame(1) [OF by_economics(1)])
  ultimately show ?thesis
    by (simp add: platform_view_def recovery_view_def economics_effect_frame [OF by_economics(1)])
next
  case by_recovery
  have "recovery_view org' db' = recovery_view org' db"
    using recovery_effect_view [OF by_recovery(1) _ assms(3)] assms(2)
    by (simp add: platform_wf_def recovery_wf_def)
  moreover note f = recovery_effect_frame [OF by_recovery(1)]
  have "action_view org' db' = action_view org' db" by (metis action_view_truncate f(1))
  moreover have "economics_view org' db' = economics_view org' db" by (metis economics_view_truncate f(2))
  ultimately show ?thesis by (simp add: platform_view_def)
qed

section \<open>Interfaces\<close>

interpretation platform_service: tenant_service "platform_step env" "platform_wf env"
  platform_op_org platform_view
proof
  fix db :: "'b recovery_db_scheme" and op db' r
  assume "platform_wf env db" "platform_step env op db = Inr (db', r)"
  then show "platform_wf env db'" using platform_step_effect platform_effect_wf by blast
next
  fix db :: "'b recovery_db_scheme" and op db' r org
  assume "platform_wf env db" "platform_step env op db = Inr (db', r)" "org \<noteq> platform_op_org op"
  then show "platform_view org db' = platform_view org db"
    using platform_step_effect platform_effect_view by blast
qed

lemma platform_effect_appends:
  assumes "platform_effect env org db db'"
  shows "\<exists>new. action_events db' = action_events db @ new" "\<exists>new. decisions db' = decisions db @ new"
    "\<exists>new. baselines db' = baselines db @ new" "\<exists>new. ledger db' = ledger db @ new"
proof -
  have rec: "action_events db' = action_events db" "decisions db' = decisions db"
    "baselines db' = baselines db" if "recovery_effect env org db db'"
    using recovery_effect_frame [OF that] action_truncate(5) economics_truncate(10,12) by metis+
  have eco: "action_events db' = action_events db" if "economics_effect (action_env.truncate env) org db db'"
    using economics_effect_frame(1) [OF that] action_truncate(5) by metis
  show "\<exists>new. action_events db' = action_events db @ new" using assms
  proof cases
    case by_actions
    from by_actions(1) show ?thesis by cases simp_all
  qed (simp_all add: rec eco)
  show "\<exists>new. decisions db' = decisions db @ new" using assms
  proof cases
    case by_economics
    from by_economics(1) show ?thesis by cases simp_all
  qed (simp_all add: rec action_effect_frame)
  show "\<exists>new. baselines db' = baselines db @ new" using assms
  proof cases
    case by_economics
    from by_economics(1) show ?thesis by cases simp_all
  qed (simp_all add: rec action_effect_frame)
  show "\<exists>new. ledger db' = ledger db @ new" using assms
    by cases (simp_all add: recovery_effect_appends(1) action_effect_frame economics_effect_frame)
qed

interpretation platform_actions_log: append_only_service "platform_step env" "platform_wf env" action_events
  by unfold_locales (meson platform_step_effect platform_effect_appends(1))

interpretation platform_decisions_log: append_only_service "platform_step env" "platform_wf env" decisions
  by unfold_locales (meson platform_step_effect platform_effect_appends(2))

interpretation platform_baselines_log: append_only_service "platform_step env" "platform_wf env" baselines
  by unfold_locales (meson platform_step_effect platform_effect_appends(3))

interpretation platform_ledger_log: append_only_service "platform_step env" "platform_wf env" ledger
  by unfold_locales (meson platform_step_effect platform_effect_appends(4))

lemma platform_cases_stay:
  assumes "platform_wf env db" "i \<in> rc_id ` set (cases db)"
  shows "i \<in> rc_id ` set (cases (run_ops (platform_step env) ops db))"
proof (rule platform_service.run_keeps [where P = "\<lambda>db. i \<in> rc_id ` set (cases db)", OF _ assms])
  fix db :: "'b recovery_db_scheme" and op db' r
  assume w: "platform_wf env db" "i \<in> rc_id ` set (cases db)" "platform_step env op db = Inr (db', r)"
  have "unique_on rc_id (cases db)"
    using w(1) recovery_ids_unique(1) unfolding platform_wf_def recovery_wf_def by blast
  moreover from platform_step_effect [OF w(1,3)] have "cases db' = cases db \<or>
      table_step rc_id rc_org (opens_case env db) case_evolves (platform_op_org op) (cases db) (cases db')"
    by cases (simp_all add: action_effect_frame economics_effect_frame effect_cases)
  ultimately show "i \<in> rc_id ` set (cases db')" using w(2)
    by (elim disjE) (simp, meson subsetD table_step_ids)
qed

section \<open>Example data\<close>

lemma demo_env_truncate: "action_env.truncate demo_ledger_env = demo_action_env"
  by (simp add: demo_ledger_env_def action_env.defs)

lemma demo_recovery_truncate: "economics_db.truncate demo_recovery_db = demo_approved_db"
  by (simp add: demo_recovery_db_def economics_db.defs)

lemma demo_platform_wf: "platform_wf demo_ledger_env demo_recovery_db"
proof -
  have "economics_wf demo_action_env demo_approved_db"
    unfolding demo_approved_db_def by (rule opportunity_service.run_inv [OF demo_economics_wf])
  then have "economics_wf demo_action_env demo_recovery_db"
    by (rule economics_wf_frame)
      (simp_all add: economics_truncate [of demo_recovery_db, unfolded demo_recovery_truncate])
  moreover have "action_db.truncate demo_recovery_db = demo_action_db []"
    by (simp add: demo_recovery_db_def economics_db.defs action_db.defs demo_approved_db_def
        demo_decide_simps demo_economics_db_def demo_action_db_def)
  then have "action_wf demo_recovery_db"
    using action_wf_truncate [of demo_recovery_db] demo_action_wf [of "[]"] by simp
  ultimately show ?thesis by (simp add: platform_wf_def demo_recovery_wf demo_env_truncate)
qed

section \<open>Properties\<close>

text \<open>C1: The value chain of the platform. After any interleaving of action, economics and recovery
  requests, the expected value of a recovery case is, rounded to the column, the net benefit
  that the engine computes from the scenario of the baseline it was opened on, and a decision
  of the baseline's approver, an administrator, froze that baseline.\<close>

theorem platform_value_chain:
  assumes "platform_wf env db" "db2 = run_ops (platform_step env) ops db" "c \<in> set (cases db2)"
  shows "\<exists>b d s k r.
    b \<in> set (baselines db2) \<and> bl_id b = rc_baseline c \<and> bl_opportunity b = rc_opportunity c \<and>
    d \<in> set (decisions db2) \<and> od_decision d = O_APPROVED \<and> od_role d \<in> set admin_roles \<and>
    od_opportunity d = rc_opportunity c \<and> od_actor d = bl_approved_by b \<and>
    od_baseline_version d = Some (bl_version b) \<and>
    s \<in> set (scenarios db2) \<and> bl_scenario b = es_id s \<and> k \<in> set (calculations db2) \<and>
    bl_calculation b = ec_id k \<and> calculate_economics (scenario_input s) = Inr r \<and>
    ec_net k = env_numeric env 12 (er_net r) \<and> rc_expected c = env_numeric env 12 (ec_net k)"
proof -
  have wf: "platform_wf env db2" unfolding assms(2) using assms(1) by (rule platform_service.run_inv)
  then have e: "economics_wf (action_env.truncate env) db2" and o: "cases_opened env db2"
    by (simp_all add: platform_wf_def recovery_wf_def)
  obtain b where b: "b \<in> set (baselines db2)" "bl_id b = rc_baseline c"
    "bl_opportunity b = rc_opportunity c" "rc_expected c = env_numeric env 12 (sn_net (bl_snapshot b))"
    using o assms(3) unfolding cases_opened_def opens_case_def by blast
  obtain d s k z r where d: "d \<in> set (decisions db2)" "od_opportunity d = bl_opportunity b"
    "od_decision d = O_APPROVED" "od_role d \<in> set admin_roles" "od_actor d = bl_approved_by b"
    "od_baseline_version d = Some (bl_version b)"
    and s: "s \<in> set (scenarios db2)" "k \<in> set (calculations db2)" "baseline_of b s k z"
    "calculate_economics (scenario_input s) = Inr r" "stores_result (action_env.truncate env) k r"
    by (rule baseline_traced [OF e b(1)])
  have "env_numeric (action_env.truncate env) = env_numeric env" by (simp add: action_env.defs)
  with s(3,5) have "bl_scenario b = es_id s" "bl_calculation b = ec_id k"
    "ec_net k = env_numeric env 12 (er_net r)" "sn_net (bl_snapshot b) = ec_net k"
    by (simp_all add: baseline_of_def stores_result_def economic_snapshot_of_def)
  with b d s(1,2,4) show ?thesis by (metis (no_types))
qed

definition demo_requests :: "platform_op list" where
  "demo_requests =
     [EconomicsReq (demo_decide O_UNDER_REVIEW ''operator''),
      ActionReq (hd demo_moves), RecoveryReq (demo_verify 52 60 ''v1'' 4)]"

definition demo_platform_db :: recovery_db where
  "demo_platform_db = run_ops (platform_step demo_ledger_env) demo_requests demo_recovery_db"

theorem platform_value_chain_witness:
  "\<exists>c b (r :: economic_result). c \<in> set (cases demo_platform_db) \<and> b \<in> set (baselines demo_platform_db) \<and>
     bl_id b = rc_baseline c \<and> rc_expected c = env_numeric demo_ledger_env 12 (env_numeric demo_ledger_env 12 (er_net r))"
proof -
  have "50 \<in> rc_id ` set (cases demo_platform_db)"
    unfolding demo_platform_db_def
    by (rule platform_cases_stay [OF demo_platform_wf]) (simp add: demo_recovery_db_simps demo_case_def)
  then obtain c where c: "c \<in> set (cases demo_platform_db)" by blast
  from platform_value_chain [OF demo_platform_wf demo_platform_db_def c]
  show ?thesis
  proof (elim exE conjE)
    fix b d s k and r :: economic_result
    assume "b \<in> set (baselines demo_platform_db)" "bl_id b = rc_baseline c"
      "ec_net k = env_numeric demo_ledger_env 12 (er_net r)"
      "rc_expected c = env_numeric demo_ledger_env 12 (ec_net k)"
    with c show ?thesis by (intro exI [of _ c] exI [of _ b] exI [of _ r]) simp
  qed
qed

text \<open>C31: Tenant isolation over the platform. Whatever the other organizations ask of the three
  services, what an organization sees of every table stays as it is.\<close>

theorem platform_tenant_isolation:
  assumes "platform_wf env db" "\<forall>op \<in> set ops. platform_op_org op \<noteq> org"
  shows "platform_view org (run_ops (platform_step env) ops db) = platform_view org db"
  using assms by (rule platform_service.run_isolated)

theorem platform_tenant_isolation_witness:
  "platform_view 2 demo_platform_db = platform_view 2 demo_recovery_db"
  unfolding demo_platform_db_def
  by (rule platform_tenant_isolation)
    (simp_all add: demo_platform_wf demo_requests_def demo_decide_def demo_moves_def demo_verify_def)

text \<open>The histories of the platform are permanent. No request of any service removes or changes
  an action event, a decision, a baseline or a ledger entry; new ones come after the old.\<close>

theorem platform_history_permanent:
  assumes "platform_wf env db" "db2 = run_ops (platform_step env) ops db"
  shows "take (length (action_events db)) (action_events db2) = action_events db \<and>
    take (length (decisions db)) (decisions db2) = decisions db \<and>
    take (length (baselines db)) (baselines db2) = baselines db \<and>
    take (length (ledger db)) (ledger db2) = ledger db"
  using platform_actions_log.run_log [OF assms(1), of ops]
    platform_decisions_log.run_log [OF assms(1), of ops]
    platform_baselines_log.run_log [OF assms(1), of ops]
    platform_ledger_log.run_log [OF assms(1), of ops]
  by (auto simp: assms(2))

theorem platform_history_permanent_witness:
  "take 1 (baselines demo_platform_db) = [demo_baseline]"
  using platform_history_permanent [OF demo_platform_wf demo_platform_db_def]
  by (simp add: demo_recovery_db_simps)

end
