(* ===== verification/Access.thy ===== *)
theory Access
  imports Py_Text
begin

text \<open>
  Organizations, memberships and invitations (\<open>app/services/organization_service.py\<close>,
  \<open>membership_service.py\<close>, \<open>invitation_service.py\<close>, the provisioning of
  \<open>access_context_service.py\<close>), behind the authorization of the routes
  (\<open>app/auth/authorization.py\<close>, \<open>app/auth/permissions.py\<close>). The digest of an invitation token is
  a parameter; a new row's id, the token and the clock are arguments of the operations.
\<close>

section \<open>Enumerations\<close>

datatype membership_role =
    PLATFORM_ADMIN | ORGANIZATION_ADMIN | ANALYST | OPERATOR | RECOVERY_MANAGER | VIEWER

datatype membership_status = MEMBER_INVITED | MEMBER_ACTIVE | MEMBER_SUSPENDED | MEMBER_REVOKED

datatype invitation_status =
    INVITATION_PENDING | INVITATION_ACCEPTED | INVITATION_EXPIRED | INVITATION_REVOKED

datatype organization_status = ORGANIZATION_ACTIVE | ORGANIZATION_INACTIVE

fun role_value :: "membership_role \<Rightarrow> string" where
  "role_value PLATFORM_ADMIN = ''platform_admin''"
| "role_value ORGANIZATION_ADMIN = ''organization_admin''"
| "role_value ANALYST = ''analyst''"
| "role_value OPERATOR = ''operator''"
| "role_value RECOVERY_MANAGER = ''recovery_manager''"
| "role_value VIEWER = ''viewer''"

section \<open>Rows\<close>

record organization =
  on_id :: uuid
  on_name :: string
  on_slug :: string
  on_legal_name :: "string option"
  on_industry :: "string option"
  on_country :: string
  on_currency :: string
  on_timezone :: string
  on_status :: organization_status
  on_description :: "string option"
  on_demo :: "bool option"
  on_sub_industry :: "string option"
  on_employees :: "string option"
  on_revenue :: "string option"
  on_sites :: "int option"

record membership =
  ms_id :: uuid
  ms_org :: uuid
  ms_user :: uuid
  ms_role :: membership_role
  ms_status :: membership_status
  ms_invited_by :: "uuid option"
  ms_joined_at :: "timestamp option"

record invitation =
  iv_id :: uuid
  iv_org :: uuid
  iv_email :: string
  iv_role :: membership_role
  iv_status :: invitation_status
  iv_token_hash :: string
  iv_invited_by :: uuid
  iv_expires_at :: timestamp
  iv_accepted_at :: "timestamp option"
  iv_accepted_by :: "uuid option"
  iv_membership :: "uuid option"

record access_event =
  xe_org :: uuid
  xe_type :: string
  xe_entity_type :: string
  xe_entity :: uuid
  xe_actor :: "uuid option"
  xe_summary :: string

record access_db =
  organizations :: "organization list"
  memberships :: "membership list"
  invitations :: "invitation list"
  access_events :: "access_event list"

section \<open>Constraints\<close>

definition organizations_ok :: "'a access_db_scheme \<Rightarrow> bool" where
  "organizations_ok db \<longleftrightarrow>
     unique_on on_id (organizations db) \<and> unique_on on_slug (organizations db) \<and>
     list_all (\<lambda>o'. on_demo o' \<noteq> None \<and> (case on_sites o' of None \<Rightarrow> True | Some n \<Rightarrow> 0 \<le> n))
       (organizations db)"

definition memberships_ok :: "'a access_db_scheme \<Rightarrow> bool" where
  "memberships_ok db \<longleftrightarrow>
     unique_on ms_id (memberships db) \<and> unique_on (\<lambda>m. (ms_org m, ms_user m)) (memberships db) \<and>
     list_all (\<lambda>m. ms_org m \<in> on_id ` set (organizations db)) (memberships db)"

definition invitations_ok :: "'a access_db_scheme \<Rightarrow> bool" where
  "invitations_ok db \<longleftrightarrow>
     unique_on iv_id (invitations db) \<and> unique_on iv_token_hash (invitations db) \<and>
     unique_on (\<lambda>i. (iv_org i, iv_email i))
       (filter (\<lambda>i. iv_status i = INVITATION_PENDING) (invitations db)) \<and>
     list_all (\<lambda>i. iv_org i \<in> on_id ` set (organizations db) \<and>
        (case iv_membership i of None \<Rightarrow> True
         | Some k \<Rightarrow> (iv_org i, k) \<in> (\<lambda>m. (ms_org m, ms_id m)) ` set (memberships db)) \<and>
        (iv_status i = INVITATION_ACCEPTED \<longrightarrow>
           iv_accepted_at i \<noteq> None \<and> iv_accepted_by i \<noteq> None \<and> iv_membership i \<noteq> None))
       (invitations db)"

definition access_events_ok :: "'a access_db_scheme \<Rightarrow> bool" where
  "access_events_ok db \<longleftrightarrow>
     list_all (\<lambda>e. xe_org e \<in> on_id ` set (organizations db)) (access_events db)"

definition access_constraints :: "'a access_db_scheme \<Rightarrow> bool" where
  "access_constraints db \<longleftrightarrow>
     organizations_ok db \<and> memberships_ok db \<and> invitations_ok db \<and> access_events_ok db"

datatype access_error =
    DuplicateSlug
  | OrganizationNotFound
  | DuplicateMembership
  | MembershipNotFound
  | MembershipOrganizationNotFound
  | LastActiveAdmin
  | OrganizationProvisioning
  | InvitationOrganizationNotFound
  | InvitationConflict
  | InvitationNotFoundOrInvalid
  | InvitationRevoked
  | InvitationExpired
  | InvitationRecipientMismatch
  | AccessDenied
  | PlatformAdminRequired
  | RequestInvalid
  | StoreIntegrityError

datatype access_row =
    OrganizationOut organization
  | MembershipOut membership
  | InvitationOut invitation string
  | RaisedAfterCommit access_error

text \<open>A commit checks the constraints; each service maps a violation to an error of its own.\<close>

definition commit_access ::
    "access_error \<Rightarrow> 'a access_db_scheme \<Rightarrow> access_row \<Rightarrow> access_error + 'a access_db_scheme \<times> access_row" where
  "commit_access e db r = (if access_constraints db then Inr (db, r) else Inl e)"

definition access_event_for ::
    "uuid \<Rightarrow> string \<Rightarrow> string \<Rightarrow> uuid \<Rightarrow> uuid option \<Rightarrow> string \<Rightarrow> access_event" where
  "access_event_for org t et i actor summary =
     \<lparr>xe_org = org, xe_type = t, xe_entity_type = et, xe_entity = i, xe_actor = actor,
      xe_summary = summary\<rparr>"

section \<open>Organizations\<close>

record organization_payload =
  oc_name :: string
  oc_slug :: string
  oc_legal_name :: "string option"
  oc_industry :: "string option"
  oc_sub_industry :: "string option"
  oc_country :: string
  oc_currency :: string
  oc_timezone :: string
  oc_description :: "string option"
  oc_demo :: bool
  oc_employees :: "string option"
  oc_revenue :: "string option"
  oc_sites :: "int option"

definition employee_ranges :: "string list" where
  "employee_ranges = [''1_10'', ''11_50'', ''51_200'', ''201_500'', ''501_1000'', ''1001_5000'', ''5001_PLUS'']"

definition revenue_ranges :: "string list" where
  "revenue_ranges = [''under_1m'', ''1m_10m'', ''10m_50m'', ''50m_250m'', ''250m_1b'', ''over_1b'']"

definition bounded_if :: "nat \<Rightarrow> string option \<Rightarrow> bool" where
  "bounded_if n s = (case s of None \<Rightarrow> True | Some t \<Rightarrow> length t \<le> n)"

definition one_of_if :: "string list \<Rightarrow> string option \<Rightarrow> bool" where
  "one_of_if ts s = (case s of None \<Rightarrow> True | Some t \<Rightarrow> t \<in> set ts)"

definition alpha_code :: "nat \<Rightarrow> string \<Rightarrow> string option" where
  "alpha_code n s = (if length s = n \<and> list_all is_alpha (upper s) then Some (upper s) else None)"

definition slug_ok :: "string \<Rightarrow> bool" where
  "slug_ok s \<longleftrightarrow> 2 \<le> length s \<and> length s \<le> 100 \<and> code_ok CHR ''-'' s"

text \<open>\<open>OrganizationBase\<close>: what the schema accepts, with the codes in upper case.\<close>

definition validate_organization :: "organization_payload \<Rightarrow> organization_payload option" where
  "validate_organization p =
     (case (alpha_code 2 (oc_country p), alpha_code 3 (oc_currency p)) of
        (Some country, Some currency) \<Rightarrow>
          if sized 200 (oc_name p) \<and> slug_ok (oc_slug p) \<and> bounded_if 250 (oc_legal_name p) \<and>
             bounded_if 100 (oc_industry p) \<and> bounded_if 100 (oc_sub_industry p) \<and>
             sized 100 (oc_timezone p) \<and> one_of_if employee_ranges (oc_employees p) \<and>
             one_of_if revenue_ranges (oc_revenue p) \<and>
             (case oc_sites p of None \<Rightarrow> True | Some n \<Rightarrow> 0 \<le> n)
          then Some (p\<lparr>oc_country := country, oc_currency := currency\<rparr>)
          else None
      | _ \<Rightarrow> None)"

definition new_organization :: "uuid \<Rightarrow> organization_payload \<Rightarrow> organization" where
  "new_organization i p =
     \<lparr>on_id = i, on_name = oc_name p, on_slug = oc_slug p, on_legal_name = oc_legal_name p,
      on_industry = oc_industry p, on_country = oc_country p, on_currency = oc_currency p,
      on_timezone = oc_timezone p, on_status = ORGANIZATION_ACTIVE,
      on_description = oc_description p, on_demo = Some (oc_demo p),
      on_sub_industry = oc_sub_industry p, on_employees = oc_employees p,
      on_revenue = oc_revenue p, on_sites = oc_sites p\<rparr>"

definition organization_create ::
    "uuid \<Rightarrow> organization_payload \<Rightarrow> 'a access_db_scheme \<Rightarrow> access_error + 'a access_db_scheme \<times> access_row" where
  "organization_create i p db =
     bindE (require (oc_slug p \<notin> on_slug ` set (organizations db)) DuplicateSlug) (\<lambda>_.
     let o' = new_organization i p in
     commit_access DuplicateSlug (db\<lparr>organizations := organizations db @ [o']\<rparr>) (OrganizationOut o'))"

definition organization_get :: "'a access_db_scheme \<Rightarrow> uuid \<Rightarrow> access_error + organization" where
  "organization_get db org = of_option OrganizationNotFound (find (\<lambda>o'. on_id o' = org) (organizations db))"

text \<open>The fields a request sets, in its order.\<close>

datatype organization_change =
    SetName "string option"
  | SetSlug "string option"
  | SetLegalName "string option"
  | SetIndustry "string option"
  | SetSubIndustry "string option"
  | SetCountry "string option"
  | SetCurrency "string option"
  | SetTimezone "string option"
  | SetDescription "string option"
  | SetDemo "bool option"
  | SetEmployees "string option"
  | SetRevenue "string option"
  | SetSites "int option"

definition checked :: "bool \<Rightarrow> 'a \<Rightarrow> 'a option" where
  "checked b x = (if b then Some x else None)"

fun validate_change :: "organization_change \<Rightarrow> organization_change option" where
  "validate_change (SetName s) = checked (s \<noteq> None \<and> sized_if 200 s) (SetName s)"
| "validate_change (SetSlug s) = checked (case s of None \<Rightarrow> False | Some t \<Rightarrow> slug_ok t) (SetSlug s)"
| "validate_change (SetLegalName s) = checked (bounded_if 250 s) (SetLegalName s)"
| "validate_change (SetIndustry s) = checked (bounded_if 100 s) (SetIndustry s)"
| "validate_change (SetSubIndustry s) = checked (bounded_if 100 s) (SetSubIndustry s)"
| "validate_change (SetCountry s) = map_option (SetCountry \<circ> Some) (Option.bind s (alpha_code 2))"
| "validate_change (SetCurrency s) = map_option (SetCurrency \<circ> Some) (Option.bind s (alpha_code 3))"
| "validate_change (SetTimezone s) = checked (s \<noteq> None \<and> sized_if 100 s) (SetTimezone s)"
| "validate_change (SetDescription s) = Some (SetDescription s)"
| "validate_change (SetDemo b) = Some (SetDemo b)"
| "validate_change (SetEmployees s) = checked (one_of_if employee_ranges s) (SetEmployees s)"
| "validate_change (SetRevenue s) = checked (one_of_if revenue_ranges s) (SetRevenue s)"
| "validate_change (SetSites n) = checked (case n of None \<Rightarrow> True | Some k \<Rightarrow> 0 \<le> k) (SetSites n)"

fun set_field :: "organization_change \<Rightarrow> organization \<Rightarrow> organization" where
  "set_field (SetName s) o' = (case s of None \<Rightarrow> o' | Some t \<Rightarrow> o'\<lparr>on_name := t\<rparr>)"
| "set_field (SetSlug s) o' = (case s of None \<Rightarrow> o' | Some t \<Rightarrow> o'\<lparr>on_slug := t\<rparr>)"
| "set_field (SetLegalName s) o' = o'\<lparr>on_legal_name := s\<rparr>"
| "set_field (SetIndustry s) o' = o'\<lparr>on_industry := s\<rparr>"
| "set_field (SetSubIndustry s) o' = o'\<lparr>on_sub_industry := s\<rparr>"
| "set_field (SetCountry s) o' = (case s of None \<Rightarrow> o' | Some t \<Rightarrow> o'\<lparr>on_country := t\<rparr>)"
| "set_field (SetCurrency s) o' = (case s of None \<Rightarrow> o' | Some t \<Rightarrow> o'\<lparr>on_currency := t\<rparr>)"
| "set_field (SetTimezone s) o' = (case s of None \<Rightarrow> o' | Some t \<Rightarrow> o'\<lparr>on_timezone := t\<rparr>)"
| "set_field (SetDescription s) o' = o'\<lparr>on_description := s\<rparr>"
| "set_field (SetDemo b) o' = o'\<lparr>on_demo := b\<rparr>"
| "set_field (SetEmployees s) o' = o'\<lparr>on_employees := s\<rparr>"
| "set_field (SetRevenue s) o' = o'\<lparr>on_revenue := s\<rparr>"
| "set_field (SetSites n) o' = o'\<lparr>on_sites := n\<rparr>"

definition put_organization :: "organization \<Rightarrow> 'a access_db_scheme \<Rightarrow> 'a access_db_scheme" where
  "put_organization o' db = db\<lparr>organizations := put_row on_id o' (organizations db)\<rparr>"

definition organization_update ::
    "uuid \<Rightarrow> organization_change list \<Rightarrow> 'a access_db_scheme \<Rightarrow> access_error + 'a access_db_scheme \<times> access_row" where
  "organization_update org cs db =
     bindE (organization_get db org) (\<lambda>o'.
     let o2 = fold set_field cs o' in
     commit_access DuplicateSlug (put_organization o2 db) (OrganizationOut o2))"

definition organization_deactivate ::
    "uuid \<Rightarrow> 'a access_db_scheme \<Rightarrow> access_error + 'a access_db_scheme \<times> access_row" where
  "organization_deactivate org db =
     bindE (organization_get db org) (\<lambda>o'.
     let o2 = o'\<lparr>on_status := ORGANIZATION_INACTIVE\<rparr> in
     commit_access DuplicateSlug (put_organization o2 db) (OrganizationOut o2))"

definition create_organization_with_owner ::
    "uuid \<Rightarrow> uuid \<Rightarrow> organization_payload \<Rightarrow> uuid \<Rightarrow> timestamp \<Rightarrow> 'a access_db_scheme \<Rightarrow>
     access_error + 'a access_db_scheme \<times> access_row" where
  "create_organization_with_owner i k p creator now db =
     bindE (require (oc_slug p \<notin> on_slug ` set (organizations db)) OrganizationProvisioning) (\<lambda>_.
     let o' = new_organization i p;
         m = \<lparr>ms_id = k, ms_org = i, ms_user = creator, ms_role = ORGANIZATION_ADMIN,
              ms_status = MEMBER_ACTIVE, ms_invited_by = None, ms_joined_at = Some now\<rparr>;
         e = access_event_for i ''organization_created'' ''organization'' i (Some creator) ''Organization created''
     in commit_access OrganizationProvisioning
          (db\<lparr>organizations := organizations db @ [o'], memberships := memberships db @ [m],
              access_events := access_events db @ [e]\<rparr>) (OrganizationOut o'))"

section \<open>Memberships\<close>

record membership_payload =
  mc_user :: uuid
  mc_role :: membership_role
  mc_status :: membership_status

definition put_membership :: "membership \<Rightarrow> 'a access_db_scheme \<Rightarrow> 'a access_db_scheme" where
  "put_membership m db = db\<lparr>memberships := put_row ms_id m (memberships db)\<rparr>"

definition log_access :: "access_event \<Rightarrow> 'a access_db_scheme \<Rightarrow> 'a access_db_scheme" where
  "log_access e db = db\<lparr>access_events := access_events db @ [e]\<rparr>"

definition organization_known :: "'a access_db_scheme \<Rightarrow> uuid \<Rightarrow> bool" where
  "organization_known db org \<longleftrightarrow> org \<in> on_id ` set (organizations db)"

definition membership_of :: "'a access_db_scheme \<Rightarrow> uuid \<Rightarrow> uuid \<Rightarrow> membership option" where
  "membership_of db org user = find (\<lambda>m. ms_org m = org \<and> ms_user m = user) (memberships db)"

definition membership_get :: "'a access_db_scheme \<Rightarrow> uuid \<Rightarrow> uuid \<Rightarrow> access_error + membership" where
  "membership_get db org i = tenant_get ms_id ms_org MembershipNotFound (memberships db) org i"

definition membership_create ::
    "uuid \<Rightarrow> uuid \<Rightarrow> membership_payload \<Rightarrow> uuid \<Rightarrow> timestamp \<Rightarrow> 'a access_db_scheme \<Rightarrow>
     access_error + 'a access_db_scheme \<times> access_row" where
  "membership_create org k p inviter now db =
     bindE (require (organization_known db org) MembershipOrganizationNotFound) (\<lambda>_.
     bindE (require (membership_of db org (mc_user p) = None) DuplicateMembership) (\<lambda>_.
     let m = \<lparr>ms_id = k, ms_org = org, ms_user = mc_user p, ms_role = mc_role p,
              ms_status = mc_status p, ms_invited_by = Some inviter,
              ms_joined_at = (if mc_status p = MEMBER_ACTIVE then Some now else None)\<rparr>
     in commit_access DuplicateMembership (db\<lparr>memberships := memberships db @ [m]\<rparr>) (MembershipOut m)))"

definition active_admin :: "uuid \<Rightarrow> membership \<Rightarrow> bool" where
  "active_admin org m \<longleftrightarrow>
     ms_org m = org \<and> ms_role m = ORGANIZATION_ADMIN \<and> ms_status m = MEMBER_ACTIVE"

definition active_admins :: "'a access_db_scheme \<Rightarrow> uuid \<Rightarrow> membership list" where
  "active_admins db org = filter (active_admin org) (memberships db)"

definition protect_last_active_admin :: "'a access_db_scheme \<Rightarrow> membership \<Rightarrow> access_error + unit" where
  "protect_last_active_admin db m =
     (if ms_role m \<noteq> ORGANIZATION_ADMIN \<or> ms_status m \<noteq> MEMBER_ACTIVE then Inr ()
      else require (length (active_admins db (ms_org m)) \<noteq> 1) LastActiveAdmin)"

definition locked_membership ::
    "'a access_db_scheme \<Rightarrow> uuid \<Rightarrow> uuid \<Rightarrow> access_error + membership" where
  "locked_membership db org k =
     bindE (require (organization_known db org) MembershipOrganizationNotFound)
       (\<lambda>_. membership_get db org k)"

definition update_role ::
    "uuid \<Rightarrow> uuid \<Rightarrow> membership_role \<Rightarrow> uuid option \<Rightarrow> 'a access_db_scheme \<Rightarrow>
     access_error + 'a access_db_scheme \<times> access_row" where
  "update_role org k role actor db =
     bindE (locked_membership db org k) (\<lambda>m.
     bindE (if ms_role m = ORGANIZATION_ADMIN \<and> role \<noteq> ORGANIZATION_ADMIN
            then protect_last_active_admin db m else Inr ()) (\<lambda>_.
     let m' = m\<lparr>ms_role := role\<rparr>;
         e = access_event_for org ''membership_role_changed'' ''organization_membership'' (ms_id m) actor
               (''Role changed from '' @ role_value (ms_role m) @ '' to '' @ role_value role)
     in commit_access DuplicateMembership (log_access e (put_membership m' db)) (MembershipOut m')))"

definition membership_activate ::
    "uuid \<Rightarrow> uuid \<Rightarrow> timestamp \<Rightarrow> 'a access_db_scheme \<Rightarrow> access_error + 'a access_db_scheme \<times> access_row" where
  "membership_activate org k now db =
     bindE (membership_get db org k) (\<lambda>m.
     let m' = m\<lparr>ms_status := MEMBER_ACTIVE,
                ms_joined_at := (case ms_joined_at m of None \<Rightarrow> Some now | Some t \<Rightarrow> Some t)\<rparr>
     in commit_access DuplicateMembership (put_membership m' db) (MembershipOut m'))"

definition membership_suspend ::
    "uuid \<Rightarrow> uuid \<Rightarrow> uuid option \<Rightarrow> 'a access_db_scheme \<Rightarrow> access_error + 'a access_db_scheme \<times> access_row" where
  "membership_suspend org k actor db =
     bindE (locked_membership db org k) (\<lambda>m.
     bindE (protect_last_active_admin db m) (\<lambda>_.
     let m' = m\<lparr>ms_status := MEMBER_SUSPENDED\<rparr>;
         e = access_event_for org ''membership_suspended'' ''organization_membership'' (ms_id m) actor
               ''Membership suspended''
     in commit_access DuplicateMembership (log_access e (put_membership m' db)) (MembershipOut m')))"

definition membership_revoke ::
    "uuid \<Rightarrow> uuid \<Rightarrow> uuid option \<Rightarrow> 'a access_db_scheme \<Rightarrow> access_error + 'a access_db_scheme \<times> access_row" where
  "membership_revoke org k actor db =
     bindE (locked_membership db org k) (\<lambda>m.
     bindE (protect_last_active_admin db m) (\<lambda>_.
     let m' = m\<lparr>ms_status := MEMBER_REVOKED\<rparr>;
         e = access_event_for org ''membership_revoked'' ''organization_membership'' (ms_id m) actor
               ''Membership revoked''
     in commit_access DuplicateMembership (log_access e (put_membership m' db)) (MembershipOut m')))"

definition require_active_member :: "'a access_db_scheme \<Rightarrow> uuid \<Rightarrow> uuid \<Rightarrow> access_error + membership" where
  "require_active_member db org user =
     of_option AccessDenied
       (find (\<lambda>m. ms_org m = org \<and> ms_user m = user \<and> ms_status m = MEMBER_ACTIVE) (memberships db))"

definition require_roles ::
    "'a access_db_scheme \<Rightarrow> uuid \<Rightarrow> uuid \<Rightarrow> membership_role list \<Rightarrow> access_error + membership" where
  "require_roles db org user allowed =
     bindE (require_active_member db org user) (\<lambda>m.
     bindE (require (ms_role m \<in> set allowed) AccessDenied) (\<lambda>_. Inr m))"

section \<open>Invitations\<close>

definition invitation_expiry :: timestamp where
  "invitation_expiry = 7 * 24 * 60 * 60 * 1000000"

definition normalize_email :: "string \<Rightarrow> string" where
  "normalize_email s = lower (strip s)"

definition put_invitation :: "invitation \<Rightarrow> 'a access_db_scheme \<Rightarrow> 'a access_db_scheme" where
  "put_invitation i db = db\<lparr>invitations := put_row iv_id i (invitations db)\<rparr>"

definition invitation_create ::
    "(string \<Rightarrow> string) \<Rightarrow> uuid \<Rightarrow> uuid \<Rightarrow> string \<Rightarrow> membership_role \<Rightarrow> string \<Rightarrow> uuid \<Rightarrow> timestamp \<Rightarrow>
     'a access_db_scheme \<Rightarrow> access_error + 'a access_db_scheme \<times> access_row" where
  "invitation_create hash org k address role token inviter now db =
     bindE (require (organization_known db org) InvitationOrganizationNotFound) (\<lambda>_.
     let email = normalize_email address in
     bindE (require (find (\<lambda>i. iv_org i = org \<and> iv_email i = email \<and> iv_status i = INVITATION_PENDING)
                       (invitations db) = None) InvitationConflict) (\<lambda>_.
     let i = \<lparr>iv_id = k, iv_org = org, iv_email = email, iv_role = role,
              iv_status = INVITATION_PENDING, iv_token_hash = hash token, iv_invited_by = inviter,
              iv_expires_at = now + invitation_expiry, iv_accepted_at = None,
              iv_accepted_by = None, iv_membership = None\<rparr>;
         e = access_event_for org ''invitation_created'' ''organization_invitation'' k (Some inviter)
               (''Invitation created for role '' @ role_value role)
     in commit_access InvitationConflict
          (log_access e (db\<lparr>invitations := invitations db @ [i]\<rparr>)) (InvitationOut i token)))"

definition invitation_revoke ::
    "uuid \<Rightarrow> uuid \<Rightarrow> uuid \<Rightarrow> 'a access_db_scheme \<Rightarrow> access_error + 'a access_db_scheme \<times> access_row" where
  "invitation_revoke org k actor db =
     bindE (tenant_get iv_id iv_org InvitationNotFoundOrInvalid (invitations db) org k) (\<lambda>i.
     bindE (require (iv_status i = INVITATION_PENDING) InvitationConflict) (\<lambda>_.
     let i' = i\<lparr>iv_status := INVITATION_REVOKED\<rparr>;
         e = access_event_for org ''invitation_revoked'' ''organization_invitation'' (iv_id i) (Some actor)
               ''Invitation revoked''
     in commit_access StoreIntegrityError (log_access e (put_invitation i' db)) (InvitationOut i' [])))"

text \<open>The recipient: the authenticated e-mail address must be verified and be the invited one.\<close>

definition recipient_matches :: "string option \<Rightarrow> bool \<Rightarrow> invitation \<Rightarrow> bool" where
  "recipient_matches email verified i =
     (case email of None \<Rightarrow> False
      | Some a \<Rightarrow> a \<noteq> [] \<and> verified \<and> normalize_email a = iv_email i)"

text \<open>The membership an acceptance leaves: a new one, or the user's own, raised to the invitation.\<close>

definition accepted_membership ::
    "'a access_db_scheme \<Rightarrow> invitation \<Rightarrow> uuid \<Rightarrow> uuid \<Rightarrow> timestamp \<Rightarrow> membership" where
  "accepted_membership db i user k now =
     (case membership_of db (iv_org i) user of
        None \<Rightarrow> \<lparr>ms_id = k, ms_org = iv_org i, ms_user = user, ms_role = iv_role i,
                 ms_status = MEMBER_ACTIVE, ms_invited_by = Some (iv_invited_by i),
                 ms_joined_at = Some now\<rparr>
      | Some m \<Rightarrow> m\<lparr>ms_role := iv_role i, ms_status := MEMBER_ACTIVE,
                    ms_joined_at := (case ms_joined_at m of None \<Rightarrow> Some now | Some t \<Rightarrow> Some t)\<rparr>)"

definition store_membership ::
    "'a access_db_scheme \<Rightarrow> invitation \<Rightarrow> uuid \<Rightarrow> membership \<Rightarrow> 'a access_db_scheme" where
  "store_membership db i user m =
     (case membership_of db (iv_org i) user of
        None \<Rightarrow> db\<lparr>memberships := memberships db @ [m]\<rparr>
      | Some _ \<Rightarrow> put_membership m db)"

definition redeem ::
    "uuid \<Rightarrow> uuid \<Rightarrow> timestamp \<Rightarrow> invitation \<Rightarrow> 'a access_db_scheme \<Rightarrow>
     access_error + 'a access_db_scheme \<times> access_row" where
  "redeem user k now i db =
     (let m = accepted_membership db i user k now;
          i' = i\<lparr>iv_status := INVITATION_ACCEPTED, iv_accepted_at := Some now,
                 iv_accepted_by := Some user, iv_membership := Some (ms_id m)\<rparr>;
          e = access_event_for (iv_org i) ''invitation_accepted'' ''organization_invitation'' (iv_id i)
                (Some user) (''Invitation accepted, membership role '' @ role_value (ms_role m))
      in commit_access StoreIntegrityError
           (log_access e (put_invitation i' (store_membership db i user m))) (MembershipOut m))"

text \<open>
  An invitation found past its date is marked expired, and that is committed although the
  request then fails: the outcome is the row \<open>RaisedAfterCommit InvitationExpired\<close>.
\<close>

definition invitation_accept ::
    "(string \<Rightarrow> string) \<Rightarrow> string \<Rightarrow> uuid \<Rightarrow> string option \<Rightarrow> bool \<Rightarrow> uuid \<Rightarrow> timestamp \<Rightarrow>
     'a access_db_scheme \<Rightarrow> access_error + 'a access_db_scheme \<times> access_row" where
  "invitation_accept hash token user email verified k now db =
     bindE (of_option InvitationNotFoundOrInvalid
              (find (\<lambda>i. iv_token_hash i = hash token) (invitations db))) (\<lambda>i.
     if iv_status i = INVITATION_ACCEPTED then
       (case (if iv_accepted_by i = Some user
              then Option.bind (iv_membership i) (\<lambda>j. find (\<lambda>m. ms_id m = j) (memberships db))
              else None) of
          Some m \<Rightarrow> Inr (db, MembershipOut m)
        | None \<Rightarrow> Inl InvitationConflict)
     else if iv_status i = INVITATION_REVOKED then Inl InvitationRevoked
     else if iv_status i = INVITATION_EXPIRED \<or> iv_expires_at i \<le> now then
       (if iv_status i = INVITATION_PENDING
        then commit_access StoreIntegrityError (put_invitation (i\<lparr>iv_status := INVITATION_EXPIRED\<rparr>) db)
               (RaisedAfterCommit InvitationExpired)
        else Inl InvitationExpired)
     else bindE (require (recipient_matches email verified i) InvitationRecipientMismatch) (\<lambda>_.
       redeem user k now i db))"

section \<open>Requests\<close>

record authenticated_user =
  au_id :: uuid
  au_platform_admin :: bool
  au_email :: "string option"
  au_email_verified :: bool

definition organization_read_roles :: "membership_role list" where
  "organization_read_roles = [ORGANIZATION_ADMIN, ANALYST, OPERATOR, RECOVERY_MANAGER, VIEWER]"

definition organization_admin_roles :: "membership_role list" where
  "organization_admin_roles = [ORGANIZATION_ADMIN]"

text \<open>A platform administrator passes every role check of the routes.\<close>

definition require_organization_roles ::
    "membership_role list \<Rightarrow> 'a access_db_scheme \<Rightarrow> uuid \<Rightarrow> authenticated_user \<Rightarrow> access_error + membership option" where
  "require_organization_roles allowed db org u =
     (if au_platform_admin u then Inr None
      else bindE (require_roles db org (au_id u) allowed) (\<lambda>m. Inr (Some m)))"

definition require_platform_admin :: "authenticated_user \<Rightarrow> access_error + unit" where
  "require_platform_admin u = require (au_platform_admin u) PlatformAdminRequired"

datatype access_op =
    CreateOrganization uuid organization_payload
  | CreateMyOrganization uuid uuid organization_payload timestamp
  | UpdateOrganization uuid "organization_change list"
  | DeactivateOrganization uuid
  | CreateMembership uuid uuid membership_payload timestamp
  | UpdateMembershipRole uuid uuid membership_role
  | ActivateMembership uuid uuid timestamp
  | SuspendMembership uuid uuid
  | RevokeMembership uuid uuid
  | CreateInvitation uuid uuid string membership_role string timestamp
  | RevokeInvitation uuid uuid
  | AcceptInvitation string uuid timestamp

definition as_admin ::
    "'a access_db_scheme \<Rightarrow> uuid \<Rightarrow> authenticated_user \<Rightarrow>
     (access_error + 'a access_db_scheme \<times> access_row) \<Rightarrow> access_error + 'a access_db_scheme \<times> access_row" where
  "as_admin db org u m =
     bindE (require_organization_roles organization_admin_roles db org u) (\<lambda>_. m)"

text \<open>
  One request by a user. The role routes call the service without an actor, so the events of a
  role change, a suspension and a revocation name none.
\<close>

fun access_step ::
    "(string \<Rightarrow> string) \<Rightarrow> authenticated_user \<times> access_op \<Rightarrow> 'a access_db_scheme \<Rightarrow>
     access_error + 'a access_db_scheme \<times> access_row" where
  "access_step hash (u, CreateOrganization i p) db =
     bindE (require_platform_admin u) (\<lambda>_.
     bindE (of_option RequestInvalid (validate_organization p)) (\<lambda>p. organization_create i p db))"
| "access_step hash (u, CreateMyOrganization i k p now) db =
     bindE (of_option RequestInvalid (validate_organization p)) (\<lambda>p.
     create_organization_with_owner i k p (au_id u) now db)"
| "access_step hash (u, UpdateOrganization org cs) db =
     as_admin db org u
       (bindE (require (list_all (\<lambda>c. validate_change c \<noteq> None) cs) RequestInvalid) (\<lambda>_.
        organization_update org (map (the \<circ> validate_change) cs) db))"
| "access_step hash (u, DeactivateOrganization org) db =
     as_admin db org u (organization_deactivate org db)"
| "access_step hash (u, CreateMembership org k p now) db =
     as_admin db org u (membership_create org k p (au_id u) now db)"
| "access_step hash (u, UpdateMembershipRole org k role) db =
     as_admin db org u (update_role org k role None db)"
| "access_step hash (u, ActivateMembership org k now) db =
     as_admin db org u (membership_activate org k now db)"
| "access_step hash (u, SuspendMembership org k) db =
     as_admin db org u (membership_suspend org k None db)"
| "access_step hash (u, RevokeMembership org k) db =
     as_admin db org u (membership_revoke org k None db)"
| "access_step hash (u, CreateInvitation org k email role token now) db =
     as_admin db org u (invitation_create hash org k email role token (au_id u) now db)"
| "access_step hash (u, RevokeInvitation org k) db =
     as_admin db org u (invitation_revoke org k (au_id u) db)"
| "access_step hash (u, AcceptInvitation token k now) db =
     bindE (require (32 \<le> length token) RequestInvalid) (\<lambda>_.
     invitation_accept hash token (au_id u) (au_email u) (au_email_verified u) k now db)"

end
