(* ===== verification/Access_Properties.thy ===== *)
theory Access_Properties
  imports Access
begin

text \<open>
  What a request does to the access tables, the invariants it keeps, and the properties:
  administrators, the life of an invitation, what a role may do.
\<close>

section \<open>Effects\<close>

definition may_administer :: "'a access_db_scheme \<Rightarrow> uuid \<Rightarrow> authenticated_user \<Rightarrow> bool" where
  "may_administer db org u \<longleftrightarrow>
     au_platform_admin u \<or> (\<exists>m \<in> set (memberships db). active_admin org m \<and> ms_user m = au_id u)"

definition has_admin :: "'a access_db_scheme \<Rightarrow> uuid \<Rightarrow> bool" where
  "has_admin db org \<longleftrightarrow> (\<exists>m \<in> set (memberships db). active_admin org m)"

text \<open>A membership as a service may leave it: the same user's, and not the last administrator lost.\<close>

definition membership_changes :: "'a access_db_scheme \<Rightarrow> membership \<Rightarrow> membership \<Rightarrow> bool" where
  "membership_changes db m m' \<longleftrightarrow>
     ms_id m' = ms_id m \<and> ms_org m' = ms_org m \<and> ms_user m' = ms_user m \<and>
     (active_admin (ms_org m) m \<and> \<not> active_admin (ms_org m) m' \<longrightarrow>
        length (active_admins db (ms_org m)) \<noteq> 1)"

text \<open>The effects of a request; the first argument tells acceptances from the others.\<close>

inductive access_effect ::
    "bool \<Rightarrow> authenticated_user \<Rightarrow> 'a access_db_scheme \<Rightarrow> 'a access_db_scheme \<Rightarrow> bool" where
  kept: "access_effect b u db db"
| organization_added: "access_effect False u db (db\<lparr>organizations := organizations db @ [o']\<rparr>)"
| organization_owned: "ms_org m = on_id o' \<Longrightarrow> xe_org e = on_id o' \<Longrightarrow>
    access_effect False u db
      (db\<lparr>organizations := organizations db @ [o'], memberships := memberships db @ [m],
          access_events := access_events db @ [e]\<rparr>)"
| organization_changed: "o' \<in> set (organizations db) \<Longrightarrow> on_id o2 = on_id o' \<Longrightarrow>
    may_administer db (on_id o') u \<Longrightarrow>
    access_effect False u db (db\<lparr>organizations := put_row on_id o2 (organizations db)\<rparr>)"
| membership_added: "may_administer db (ms_org m) u \<Longrightarrow>
    access_effect False u db (db\<lparr>memberships := memberships db @ [m]\<rparr>)"
| membership_changed: "m \<in> set (memberships db) \<Longrightarrow> membership_changes db m m' \<Longrightarrow>
    may_administer db (ms_org m) u \<Longrightarrow> \<forall>e \<in> set es. xe_org e = ms_org m \<Longrightarrow>
    access_effect False u db
      (db\<lparr>memberships := put_row ms_id m' (memberships db), access_events := access_events db @ es\<rparr>)"
| invitation_added: "may_administer db (iv_org i) u \<Longrightarrow> iv_status i = INVITATION_PENDING \<Longrightarrow>
    xe_org e = iv_org i \<Longrightarrow>
    access_effect False u db
      (db\<lparr>invitations := invitations db @ [i], access_events := access_events db @ [e]\<rparr>)"
| invitation_revoked: "i \<in> set (invitations db) \<Longrightarrow> iv_status i = INVITATION_PENDING \<Longrightarrow>
    may_administer db (iv_org i) u \<Longrightarrow> xe_org e = iv_org i \<Longrightarrow>
    access_effect False u db
      (db\<lparr>invitations := put_row iv_id (i\<lparr>iv_status := INVITATION_REVOKED\<rparr>) (invitations db),
          access_events := access_events db @ [e]\<rparr>)"
| invitation_expired: "i \<in> set (invitations db) \<Longrightarrow> iv_status i = INVITATION_PENDING \<Longrightarrow>
    access_effect True u db
      (db\<lparr>invitations := put_row iv_id (i\<lparr>iv_status := INVITATION_EXPIRED\<rparr>) (invitations db)\<rparr>)"
| invitation_redeemed: "i \<in> set (invitations db) \<Longrightarrow> iv_status i = INVITATION_PENDING \<Longrightarrow>
    recipient_matches (au_email u) (au_email_verified u) i \<Longrightarrow>
    m = accepted_membership db i (au_id u) k now \<Longrightarrow> xe_org e = iv_org i \<Longrightarrow>
    access_effect True u db
      ((store_membership db i (au_id u) m)
         \<lparr>invitations := put_row iv_id (i\<lparr>iv_status := INVITATION_ACCEPTED, iv_accepted_at := Some now,
            iv_accepted_by := Some (au_id u), iv_membership := Some (ms_id m)\<rparr>) (invitations db),
          access_events := access_events db @ [e]\<rparr>)"

lemma commit_accessD: "commit_access e db r = Inr (db', r') \<Longrightarrow> db' = db \<and> r' = r \<and> access_constraints db'"
  by (simp add: commit_access_def split: if_splits)

lemma require_active_memberD:
  "require_active_member db org user = Inr m \<Longrightarrow>
     m \<in> set (memberships db) \<and> ms_org m = org \<and> ms_user m = user \<and> ms_status m = MEMBER_ACTIVE"
  by (auto simp: require_active_member_def dest!: find_SomeD)

lemma as_adminD: "as_admin db org u m = Inr x \<Longrightarrow> m = Inr x \<and> may_administer db org u"
  by (auto simp: as_admin_def require_organization_roles_def require_roles_def
      organization_admin_roles_def may_administer_def active_admin_def split: if_splits
      dest!: require_active_memberD)

lemma membership_getD:
  "membership_get db org k = Inr m \<Longrightarrow> m \<in> set (memberships db) \<and> ms_id m = k \<and> ms_org m = org"
  unfolding membership_get_def by (rule tenant_getD)

lemma locked_membershipD:
  "locked_membership db org k = Inr m \<Longrightarrow> m \<in> set (memberships db) \<and> ms_id m = k \<and> ms_org m = org"
  by (auto simp: locked_membership_def dest!: membership_getD)

lemma organization_getD: "organization_get db org = Inr o' \<Longrightarrow> o' \<in> set (organizations db) \<and> on_id o' = org"
  by (auto simp: organization_get_def dest!: find_SomeD)

lemma set_field_id: "on_id (set_field c o') = on_id o'"
  by (cases c) (simp_all split: option.split)

lemma fold_set_field_id: "on_id (fold set_field cs o') = on_id o'"
  by (induction cs arbitrary: o') (simp_all add: set_field_id)

lemma protect_last_active_adminD:
  "protect_last_active_admin db m = Inr x \<Longrightarrow> active_admin (ms_org m) m \<Longrightarrow>
     length (active_admins db (ms_org m)) \<noteq> 1"
  by (simp add: protect_last_active_admin_def active_admin_def split: if_splits)

lemmas access_rows_simps = put_membership_def put_organization_def put_invitation_def log_access_def

lemma organization_steps_effect:
  "organization_create i p db = Inr (db', r) \<Longrightarrow> access_effect False u db db' \<and> access_constraints db'"
  "create_organization_with_owner i k p creator now db = Inr (db', r) \<Longrightarrow>
     access_effect False u db db' \<and> access_constraints db'"
  "organization_update org cs db = Inr (db', r) \<Longrightarrow> may_administer db org u \<Longrightarrow>
     access_effect False u db db' \<and> access_constraints db'"
  "organization_deactivate org db = Inr (db', r) \<Longrightarrow> may_administer db org u \<Longrightarrow>
     access_effect False u db db' \<and> access_constraints db'"
  by (auto simp: organization_create_def create_organization_with_owner_def organization_update_def
      organization_deactivate_def Let_def put_organization_def fold_set_field_id new_organization_def
      access_event_for_def dest!: commit_accessD organization_getD
      intro!: organization_added organization_owned organization_changed)

lemma membership_stored:
  assumes "m \<in> set (memberships db)" "membership_changes db m m'" "may_administer db (ms_org m) u"
  shows "access_effect False u db (put_membership m' db)"
    and "xe_org e = ms_org m \<Longrightarrow> access_effect False u db (log_access e (put_membership m' db))"
proof -
  show "access_effect False u db (log_access e (put_membership m' db))" if "xe_org e = ms_org m"
    using membership_changed [OF assms, of "[e]"] that by (simp add: access_rows_simps)
  have "db\<lparr>memberships := ms, access_events := access_events db\<rparr> = db\<lparr>memberships := ms\<rparr>" for ms by simp
  then show "access_effect False u db (put_membership m' db)"
    using membership_changed [OF assms, of "[]"] by (simp add: put_membership_def)
qed

lemma membership_steps_effect:
  assumes "may_administer db org u"
  shows "membership_create org k p inviter now db = Inr (db', r) \<Longrightarrow>
       access_effect False u db db' \<and> access_constraints db'"
    and "update_role org k role actor db = Inr (db', r) \<Longrightarrow>
       access_effect False u db db' \<and> access_constraints db'"
    and "membership_activate org k now db = Inr (db', r) \<Longrightarrow>
       access_effect False u db db' \<and> access_constraints db'"
    and "membership_suspend org k actor db = Inr (db', r) \<Longrightarrow>
       access_effect False u db db' \<and> access_constraints db'"
    and "membership_revoke org k actor db = Inr (db', r) \<Longrightarrow>
       access_effect False u db db' \<and> access_constraints db'"
proof -
  show "access_effect False u db db' \<and> access_constraints db'"
    if "membership_create org k p inviter now db = Inr (db', r)"
    using that assms
    by (auto simp: membership_create_def Let_def dest!: commit_accessD intro!: membership_added)
  show "access_effect False u db db' \<and> access_constraints db'"
    if "update_role org k role actor db = Inr (db', r)"
    using that assms
    by (auto simp: update_role_def Let_def membership_changes_def active_admin_def access_event_for_def
        split: if_splits dest!: commit_accessD locked_membershipD protect_last_active_adminD
        intro!: membership_stored)
  show "access_effect False u db db' \<and> access_constraints db'"
    if "membership_activate org k now db = Inr (db', r)"
    using that assms
    by (auto simp: membership_activate_def Let_def membership_changes_def active_admin_def
        dest!: commit_accessD membership_getD intro!: membership_stored)
  show "access_effect False u db db' \<and> access_constraints db'"
    if "membership_suspend org k actor db = Inr (db', r)"
    using that assms
    by (auto simp: membership_suspend_def Let_def membership_changes_def access_event_for_def
        dest!: commit_accessD locked_membershipD dest: protect_last_active_adminD
        intro!: membership_stored)
  show "access_effect False u db db' \<and> access_constraints db'"
    if "membership_revoke org k actor db = Inr (db', r)"
    using that assms
    by (auto simp: membership_revoke_def Let_def membership_changes_def access_event_for_def
        dest!: commit_accessD locked_membershipD dest: protect_last_active_adminD
        intro!: membership_stored)
qed

lemma invitation_steps_effect:
  assumes "may_administer db org u"
  shows "invitation_create hash org k email role token inviter now db = Inr (db', r) \<Longrightarrow>
       access_effect False u db db' \<and> access_constraints db'"
    and "invitation_revoke org k actor db = Inr (db', r) \<Longrightarrow>
       access_effect False u db db' \<and> access_constraints db'"
  using assms
  by (auto simp: invitation_create_def invitation_revoke_def Let_def access_event_for_def
      access_rows_simps dest!: commit_accessD tenant_getD intro!: invitation_added invitation_revoked)

lemma store_membership_other [simp]:
  "invitations (store_membership db i user m) = invitations db"
  "access_events (store_membership db i user m) = access_events db"
  "organizations (store_membership db i user m) = organizations db"
  by (simp_all add: store_membership_def put_membership_def split: option.split)

lemma accept_effect:
  assumes "invitation_accept hash token (au_id u) (au_email u) (au_email_verified u) k now db = Inr (db', r)"
  shows "access_effect True u db db' \<and> (db' = db \<or> access_constraints db')"
proof -
  obtain i where i: "i \<in> set (invitations db)"
    and run: "iv_status i = INVITATION_ACCEPTED \<and> db' = db \<or>
      iv_status i = INVITATION_PENDING \<and>
        commit_access StoreIntegrityError (put_invitation (i\<lparr>iv_status := INVITATION_EXPIRED\<rparr>) db)
          (RaisedAfterCommit InvitationExpired) = Inr (db', r) \<or>
      iv_status i = INVITATION_PENDING \<and> recipient_matches (au_email u) (au_email_verified u) i \<and>
        redeem (au_id u) k now i db = Inr (db', r)"
    using assms unfolding invitation_accept_def
    by (cases "find (\<lambda>i. iv_token_hash i = hash token) (invitations db)")
      (auto split: if_splits option.splits dest!: find_SomeD intro: invitation_status.exhaust)
  then show ?thesis
    by (auto simp: redeem_def Let_def access_rows_simps access_event_for_def dest!: commit_accessD
        intro!: kept invitation_expired invitation_redeemed)
qed

fun is_accept :: "access_op \<Rightarrow> bool" where
  "is_accept (AcceptInvitation _ _ _) = True"
| "is_accept _ = False"

lemma access_step_effect:
  assumes "access_step hash (u, op) db = Inr (db', r)"
  shows "access_effect (is_accept op) u db db' \<and> (db' = db \<or> access_constraints db')"
proof (cases op)
  case (AcceptInvitation token k now)
  with assms have "invitation_accept hash token (au_id u) (au_email u) (au_email_verified u) k now db = Inr (db', r)"
    by simp
  from accept_effect [OF this] AcceptInvitation show ?thesis by simp
qed (use assms in \<open>auto dest!: as_adminD dest: organization_steps_effect membership_steps_effect
    invitation_steps_effect\<close>)

section \<open>Tables after an effect\<close>

fun invitation_transitions :: "invitation_status \<Rightarrow> invitation_status list" where
  "invitation_transitions INVITATION_PENDING = [INVITATION_ACCEPTED, INVITATION_EXPIRED, INVITATION_REVOKED]"
| "invitation_transitions s = []"

inductive invitation_evolves :: "invitation \<Rightarrow> invitation \<Rightarrow> bool" where
  closed: "iv_status i = INVITATION_PENDING \<Longrightarrow> s \<in> {INVITATION_EXPIRED, INVITATION_REVOKED} \<Longrightarrow>
    invitation_evolves i (i\<lparr>iv_status := s\<rparr>)"
| accepted: "iv_status i = INVITATION_PENDING \<Longrightarrow>
    invitation_evolves i (i\<lparr>iv_status := INVITATION_ACCEPTED, iv_accepted_at := Some t,
      iv_accepted_by := Some user, iv_membership := Some k\<rparr>)"

inductive_cases invitation_evolvesE: "invitation_evolves i i'"

lemma invitation_evolves_pending: "invitation_evolves i i' \<Longrightarrow> iv_status i = INVITATION_PENDING"
  by (cases rule: invitation_evolves.cases)

lemma invitation_ids_unique: "access_constraints db \<Longrightarrow> unique_on iv_id (invitations db)"
  by (simp add: access_constraints_def invitations_ok_def)

lemma membership_ids_unique: "access_constraints db \<Longrightarrow> unique_on ms_id (memberships db)"
  by (simp add: access_constraints_def memberships_ok_def)

lemma effect_invitations:
  assumes "access_effect b u db db'"
  shows "\<exists>org. table_step iv_id iv_org (\<lambda>i. iv_status i = INVITATION_PENDING) invitation_evolves org
    (invitations db) (invitations db')"
  using assms
  by cases (auto intro: table_step_add
      intro!: some_table_step_put invitation_evolves.intros)

lemma accepted_membership_simps [simp]:
  "ms_org (accepted_membership db i user k now) = iv_org i"
  "ms_user (accepted_membership db i user k now) = user"
  "ms_role (accepted_membership db i user k now) = iv_role i"
  "ms_status (accepted_membership db i user k now) = MEMBER_ACTIVE"
  by (auto simp: accepted_membership_def membership_of_def split: option.split dest!: find_SomeD)

text \<open>The table of memberships: a row of an organization is added, or one changes for its user.\<close>

definition membership_kept :: "membership \<Rightarrow> membership \<Rightarrow> bool" where
  "membership_kept m m' \<longleftrightarrow> ms_id m' = ms_id m \<and> ms_org m' = ms_org m \<and> ms_user m' = ms_user m"

lemma effect_memberships:
  assumes "access_effect b u db db'"
  shows "\<exists>org. table_step ms_id ms_org (\<lambda>m. True) membership_kept org (memberships db) (memberships db')"
  using assms
proof cases
  case (invitation_redeemed i m k now e)
  show ?thesis
  proof (cases "membership_of db (iv_org i) (au_id u)")
    case None
    then show ?thesis
      by (auto simp: invitation_redeemed(2) store_membership_def intro: table_step_add)
  next
    case (Some m0)
    then have "m0 \<in> set (memberships db)" "ms_org m0 = iv_org i" "ms_user m0 = au_id u"
      unfolding membership_of_def by (auto dest: find_SomeD)
    moreover have "ms_id m = ms_id m0" by (simp add: invitation_redeemed(6) accepted_membership_def Some)
    ultimately show ?thesis using Some invitation_redeemed(6)
      by (auto simp: invitation_redeemed(2) store_membership_def put_membership_def membership_kept_def
          intro!: exI [of _ "iv_org i"] table_step_put)
  qed
next
  case (membership_changed m m' es)
  then show ?thesis
    by (simp add: membership_changes_def) (intro some_table_step_put, simp_all add: membership_kept_def)
qed (auto intro: table_step_add)

definition acceptances_bound :: "'a access_db_scheme \<Rightarrow> bool" where
  "acceptances_bound db \<longleftrightarrow> (\<forall>i \<in> set (invitations db). iv_status i = INVITATION_ACCEPTED \<longrightarrow>
     (\<exists>m \<in> set (memberships db). iv_membership i = Some (ms_id m) \<and> ms_org m = iv_org i \<and>
        iv_accepted_by i = Some (ms_user m)))"

definition access_wf :: "'a access_db_scheme \<Rightarrow> bool" where
  "access_wf db \<longleftrightarrow> access_constraints db \<and> acceptances_bound db"

lemma redeemed_membership:
  assumes "m = accepted_membership db i user k now"
  shows "m \<in> set (memberships (store_membership db i user m))"
proof (cases "membership_of db (iv_org i) user")
  case None
  then show ?thesis by (simp add: store_membership_def)
next
  case (Some m0)
  then have "m0 \<in> set (memberships db)" unfolding membership_of_def by (auto dest: find_SomeD)
  moreover have "ms_id m = ms_id m0" by (simp add: assms accepted_membership_def Some)
  ultimately show ?thesis
    by (force simp: store_membership_def put_membership_def Some in_put_row_iff)
qed

lemma effect_acceptances:
  assumes "access_effect b u db db'" "access_constraints db" "acceptances_bound db"
  shows "acceptances_bound db'"
proof -
  obtain org where t: "table_step ms_id ms_org (\<lambda>m. True) membership_kept org (memberships db) (memberships db')"
    using effect_memberships [OF assms(1)] by blast
  have keep: "\<exists>m \<in> set (memberships db'). iv_membership i = Some (ms_id m) \<and> ms_org m = iv_org i \<and>
      iv_accepted_by i = Some (ms_user m)" if i: "i \<in> set (invitations db)" "iv_status i = INVITATION_ACCEPTED" for i
  proof -
    obtain m where m: "m \<in> set (memberships db)" "iv_membership i = Some (ms_id m)"
      "ms_org m = iv_org i" "iv_accepted_by i = Some (ms_user m)"
      using assms(3) i unfolding acceptances_bound_def by blast
    from table_step_kept [OF t membership_ids_unique [OF assms(2)] m(1)]
    obtain m' where "m' \<in> set (memberships db')" "m' = m \<or> membership_kept m m'" by blast
    with m show ?thesis unfolding membership_kept_def by metis
  qed
  show ?thesis unfolding acceptances_bound_def
  proof (intro ballI impI)
    fix i' assume i': "i' \<in> set (invitations db')" "iv_status i' = INVITATION_ACCEPTED"
    show "\<exists>m \<in> set (memberships db'). iv_membership i' = Some (ms_id m) \<and> ms_org m = iv_org i' \<and>
      iv_accepted_by i' = Some (ms_user m)"
    proof (cases "i' \<in> set (invitations db)")
      case True
      with keep i'(2) show ?thesis by blast
    next
      case False
      from assms(1) show ?thesis
      proof cases
        case (invitation_redeemed i m k now e)
        have "i' = i\<lparr>iv_status := INVITATION_ACCEPTED, iv_accepted_at := Some now,
            iv_accepted_by := Some (au_id u), iv_membership := Some (ms_id m)\<rparr>"
          using False i'(1) by (auto simp: invitation_redeemed(2) in_put_row_iff)
        moreover have "m \<in> set (memberships db')"
          using redeemed_membership [OF invitation_redeemed(6)] by (simp add: invitation_redeemed(2))
        ultimately show ?thesis using invitation_redeemed(6) by auto
      qed (use False i' in \<open>auto simp: in_put_row_iff\<close>)
    qed
  qed
qed

lemma access_step_wf:
  assumes "access_wf db" "access_step hash call db = Inr (db', r)"
  shows "access_wf db'"
proof (cases call)
  case (Pair u op)
  with access_step_effect [of hash u op db db' r] assms effect_acceptances show ?thesis
    unfolding access_wf_def by blast
qed

section \<open>Interfaces\<close>

definition invitation_at :: "'a access_db_scheme \<Rightarrow> uuid \<Rightarrow> invitation option" where
  "invitation_at db k = find (\<lambda>i. iv_id i = k) (invitations db)"

lemma call_effect:
  assumes "access_step hash call db = Inr (db', r)"
  shows "access_effect (is_accept (snd call)) (fst call) db db'"
  using assms by (cases call) (auto dest: access_step_effect)

interpretation invitation_rows: lifecycle_service "access_step hash" access_wf
  invitation_at invitation_evolves iv_status invitation_transitions
proof
  fix db :: "'a access_db_scheme" and call db' r
  assume "access_wf db" "access_step hash call db = Inr (db', r)"
  then show "access_wf db'" by (rule access_step_wf)
next
  fix db :: "'a access_db_scheme" and call db' r k i
  assume w: "access_wf db" "access_step hash call db = Inr (db', r)" "invitation_at db k = Some i"
  obtain org where "table_step iv_id iv_org (\<lambda>i. iv_status i = INVITATION_PENDING) invitation_evolves org
    (invitations db) (invitations db')"
    using effect_invitations [OF call_effect [OF w(2)]] by blast
  from table_step_row [OF this invitation_ids_unique] w(1,3)
  show "\<exists>i'. invitation_at db' k = Some i' \<and> (i' = i \<or> invitation_evolves i i')"
    unfolding invitation_at_def access_wf_def by blast
next
  fix i i' assume "invitation_evolves i i'"
  then show "iv_status i' = iv_status i \<or> iv_status i' \<in> set (invitation_transitions (iv_status i))"
    by cases auto
qed

interpretation access_event_log: append_only_service "access_step hash" access_wf access_events
proof
  fix db :: "'a access_db_scheme" and call db' r
  assume "access_wf db" "access_step hash call db = Inr (db', r)"
  from call_effect [OF this(2)] show "\<exists>es. access_events db' = access_events db @ es"
    by cases simp_all
qed

section \<open>Administrators\<close>

lemma has_admin_put:
  assumes "unique_on ms_id (memberships db)" "m \<in> set (memberships db)" "membership_changes db m m'"
    and "has_admin db org"
  shows "\<exists>x \<in> set (put_row ms_id m' (memberships db)). active_admin org x"
proof (cases "active_admin org m \<and> \<not> active_admin org m'")
  case True
  let ?as = "active_admins db org"
  have org: "ms_org m = org" using True by (simp add: active_admin_def)
  have "length ?as \<noteq> 1" using assms(3) True org unfolding membership_changes_def by metis
  moreover have "m \<in> set ?as" using True assms(2) by (simp add: active_admins_def)
  moreover have "distinct ?as"
    using unique_on_filter [OF assms(1)] by (simp add: unique_on_def active_admins_def distinct_map)
  ultimately obtain x where x: "x \<in> set ?as" "x \<noteq> m" using another_element by metis
  then have "ms_id x \<noteq> ms_id m'"
    using unique_on_eq [OF assms(1), of x m] assms(2,3) by (auto simp: active_admins_def membership_changes_def)
  with x show ?thesis by (auto simp: active_admins_def in_put_row_iff)
next
  case False
  obtain x where x: "x \<in> set (memberships db)" "active_admin org x"
    using assms(4) unfolding has_admin_def by blast
  have id: "ms_id m' = ms_id m" using assms(3) by (simp add: membership_changes_def)
  show ?thesis
  proof (cases "x = m")
    case True
    with False x(2) have "active_admin org m'" by simp
    moreover have "m' \<in> set (put_row ms_id m' (memberships db))"
      using assms(2) id by (auto simp: in_put_row_iff)
    ultimately show ?thesis by blast
  next
    case False
    then have "ms_id x \<noteq> ms_id m'" using unique_on_eq [OF assms(1) x(1) assms(2)] id by auto
    with x show ?thesis by (auto simp: in_put_row_iff)
  qed
qed

lemma effect_keeps_admin:
  assumes "access_effect False u db db'" "access_constraints db" "has_admin db org"
  shows "has_admin db' org"
  using assms(1)
proof cases
  case (membership_changed m m' es)
  with has_admin_put [OF membership_ids_unique [OF assms(2)] membership_changed(2,3) assms(3)]
  show ?thesis by (simp add: has_admin_def)
qed (use assms(3) in \<open>auto simp: has_admin_def\<close>)

lemma in_stored:
  "x \<in> set (memberships (store_membership db i user m)) \<Longrightarrow> x = m \<or> x \<in> set (memberships db) \<and>
     (membership_of db (iv_org i) user \<noteq> None \<longrightarrow> ms_id x \<noteq> ms_id m)"
  by (auto simp: store_membership_def put_membership_def in_put_row_iff split: option.splits)

text \<open>An organization without an administrator, and without an invitation for one.\<close>

definition locked_out :: "uuid \<Rightarrow> 'a access_db_scheme \<Rightarrow> bool" where
  "locked_out org db \<longleftrightarrow> organization_known db org \<and> \<not> has_admin db org \<and>
     (\<forall>i \<in> set (invitations db). iv_org i = org \<and> iv_status i = INVITATION_PENDING \<longrightarrow>
        iv_role i \<noteq> ORGANIZATION_ADMIN)"

lemma effect_locked_out:
  assumes "access_effect b u db db'" "locked_out org db" "\<not> au_platform_admin u" "access_constraints db'"
  shows "locked_out org db'"
proof -
  have n: "\<not> may_administer db org u"
    using assms(2,3) by (auto simp: locked_out_def has_admin_def may_administer_def)
  show ?thesis using assms(1)
  proof cases
    case (organization_owned m o' e)
    have "on_id o' \<noteq> org"
      using assms(2,4)
      by (auto simp: organization_owned(2) access_constraints_def organizations_ok_def unique_on_snoc
          locked_out_def organization_known_def)
    then show ?thesis
      using assms(2) organization_owned
      by (auto simp: locked_out_def organization_known_def has_admin_def active_admin_def)
  next
    case (organization_changed o' o2)
    then show ?thesis
      using assms(2) by (auto simp: locked_out_def organization_known_def has_admin_def put_row_keys)
  next
    case (membership_added m)
    then show ?thesis
      using assms(2) n by (auto simp: locked_out_def organization_known_def has_admin_def active_admin_def)
  next
    case (membership_changed m m' es)
    then have "\<not> active_admin org m'" using n by (auto simp: membership_changes_def active_admin_def)
    then show ?thesis
      using assms(2)
      by (auto simp: membership_changed(2) locked_out_def organization_known_def has_admin_def in_put_row_iff)
  next
    case (invitation_redeemed i m k now e)
    have "\<not> active_admin org m"
      using assms(2) invitation_redeemed(3,4,6) by (auto simp: active_admin_def locked_out_def)
    then have "\<not> has_admin db' org"
      using assms(2) in_stored by (fastforce simp: invitation_redeemed(2) has_admin_def locked_out_def)
    then show ?thesis
      using assms(2) by (auto simp: invitation_redeemed(2) locked_out_def organization_known_def in_put_row_iff)
  qed (use assms(2) n in \<open>auto simp: locked_out_def organization_known_def has_admin_def in_put_row_iff\<close>)
qed

section \<open>Example data\<close>

definition demo_user :: "uuid \<Rightarrow> string \<Rightarrow> authenticated_user" where
  "demo_user i email = \<lparr>au_id = i, au_platform_admin = False, au_email = Some email, au_email_verified = True\<rparr>"

definition demo_token :: string where
  "demo_token = replicate 32 CHR ''t''"

definition demo_member :: "uuid \<Rightarrow> membership_role \<Rightarrow> membership" where
  "demo_member i role = \<lparr>ms_id = i, ms_org = 1, ms_user = i, ms_role = role, ms_status = MEMBER_ACTIVE,
     ms_invited_by = None, ms_joined_at = Some 0\<rparr>"

definition demo_invitation :: "invitation" where
  "demo_invitation = \<lparr>iv_id = 30, iv_org = 1, iv_email = ''ada@x.org'', iv_role = VIEWER,
     iv_status = INVITATION_PENDING, iv_token_hash = demo_token, iv_invited_by = 10,
     iv_expires_at = 1000, iv_accepted_at = None, iv_accepted_by = None, iv_membership = None\<rparr>"

definition demo_organization :: "uuid \<Rightarrow> string \<Rightarrow> organization" where
  "demo_organization i slug = \<lparr>on_id = i, on_name = ''n'', on_slug = slug, on_legal_name = None,
     on_industry = None, on_country = ''NG'', on_currency = ''USD'', on_timezone = ''UTC'',
     on_status = ORGANIZATION_ACTIVE, on_description = None, on_demo = Some False,
     on_sub_industry = None, on_employees = None, on_revenue = None, on_sites = None\<rparr>"

definition demo_access_db :: access_db where
  "demo_access_db = \<lparr>organizations = [demo_organization 1 ''a'', demo_organization 2 ''b''],
     memberships = [demo_member 10 ORGANIZATION_ADMIN, demo_member 11 VIEWER],
     invitations = [demo_invitation], access_events = []\<rparr>"

lemma demo_access_wf: "access_wf demo_access_db"
  by (simp add: access_wf_def access_constraints_def organizations_ok_def memberships_ok_def
      invitations_ok_def access_events_ok_def acceptances_bound_def unique_on_def demo_access_db_def
      demo_organization_def demo_member_def demo_invitation_def)

definition demo_accept :: "uuid \<Rightarrow> string \<Rightarrow> authenticated_user \<times> access_op" where
  "demo_accept i email = (demo_user i email, AcceptInvitation demo_token 40 500)"

definition demo_accepted_db :: "uuid \<Rightarrow> access_db" where
  "demo_accepted_db i = run_ops (access_step id) [demo_accept i '' ADA@x.org''] demo_access_db"

lemma demo_recipient: "normalize_email '' ADA@x.org'' = ''ada@x.org''"
  by code_simp

lemmas demo_access_simps =
  demo_accept_def demo_user_def invitation_accept_def demo_access_db_def demo_invitation_def
  demo_token_def recipient_matches_def demo_recipient redeem_def accepted_membership_def
  membership_of_def demo_member_def store_membership_def put_membership_def put_row_def log_access_def
  put_invitation_def commit_access_def access_constraints_def organizations_ok_def memberships_ok_def
  invitations_ok_def access_events_ok_def unique_on_def demo_organization_def access_event_for_def Let_def

lemma demo_acceptance:
  "access_step id (demo_accept 10 '' ADA@x.org'') demo_access_db =
     Inr (demo_accepted_db 10, MembershipOut (demo_member 10 VIEWER))"
  by (simp add: demo_accepted_db_def attempt_def demo_access_simps)

section \<open>Properties\<close>

text \<open>C4: Administrators are protected, except from invitations. When a request leaves an organization
  that had an active administrator without one, the request is the acceptance, by that last
  administrator, of an invitation to another role.\<close>

theorem last_admin_lost_only_by_acceptance:
  assumes "access_wf db" "access_step hash (u, op) db = Inr (db', r)"
    and "has_admin db org" "\<not> has_admin db' org"
  shows "\<exists>i m. is_accept op \<and> i \<in> set (invitations db) \<and> iv_org i = org \<and>
    iv_status i = INVITATION_PENDING \<and> iv_role i \<noteq> ORGANIZATION_ADMIN \<and>
    recipient_matches (au_email u) (au_email_verified u) i \<and>
    active_admins db org = [m] \<and> ms_user m = au_id u"
proof -
  have c: "access_constraints db" using assms(1) by (simp add: access_wf_def)
  have e: "access_effect (is_accept op) u db db'" using access_step_effect [OF assms(2)] by simp
  have acc: "is_accept op"
    using effect_keeps_admin [OF _ c assms(3)] e assms(4) by (cases "is_accept op") auto
  from e show ?thesis
  proof cases
    case (invitation_redeemed i m k now e)
    have lost: "x = m0" if x: "x \<in> set (active_admins db org)"
      and m0: "membership_of db (iv_org i) (au_id u) = Some m0" for x m0
    proof (rule ccontr)
      assume "x \<noteq> m0"
      have in0: "m0 \<in> set (memberships db)" using m0 unfolding membership_of_def by (auto dest: find_SomeD)
      have "ms_id m = ms_id m0" by (simp add: invitation_redeemed(6) accepted_membership_def m0)
      then have "ms_id x \<noteq> ms_id m"
        using unique_on_eq [OF membership_ids_unique [OF c], of x m0] in0 x \<open>x \<noteq> m0\<close>
        by (auto simp: active_admins_def)
      then have "x \<in> set (memberships db')"
        using x by (auto simp: invitation_redeemed(2) store_membership_def put_membership_def m0
            in_put_row_iff active_admins_def)
      with x assms(4) show False by (auto simp: has_admin_def active_admins_def)
    qed
    obtain x where x: "x \<in> set (active_admins db org)"
      using assms(3) by (auto simp: has_admin_def active_admins_def)
    have "membership_of db (iv_org i) (au_id u) \<noteq> None"
    proof
      assume "membership_of db (iv_org i) (au_id u) = None"
      then have "memberships db' = memberships db @ [m]"
        by (simp add: invitation_redeemed(2) store_membership_def)
      with x assms(4) show False by (auto simp: has_admin_def active_admins_def)
    qed
    then obtain m0 where m0: "membership_of db (iv_org i) (au_id u) = Some m0" by blast
    then have m0': "m0 \<in> set (memberships db)" "ms_org m0 = iv_org i" "ms_user m0 = au_id u"
      unfolding membership_of_def by (auto dest: find_SomeD)
    from lost [OF x m0] x have a: "active_admin org m0" by (simp add: active_admins_def)
    have "distinct (active_admins db org)"
      using unique_on_filter [OF membership_ids_unique [OF c]]
      by (simp add: unique_on_def active_admins_def distinct_map)
    then have one: "active_admins db org = [m0]"
      using lost [OF _ m0] x by (cases "active_admins db org") (auto, metis list.set_intros(1) neq_Nil_conv)
    have "m \<in> set (memberships db')"
      using redeemed_membership [OF invitation_redeemed(6)] by (simp add: invitation_redeemed(2))
    with assms(4) have "\<not> active_admin org m" by (auto simp: has_admin_def)
    with a m0' have "iv_role i \<noteq> ORGANIZATION_ADMIN" "iv_org i = org"
      by (auto simp: active_admin_def invitation_redeemed(6))
    with acc invitation_redeemed(3,4,5) one m0'(3) show ?thesis by blast
  qed (use assms(3,4) acc in \<open>auto simp: has_admin_def\<close>)
qed

theorem last_admin_lost_only_by_acceptance_witness:
  "\<exists>m. active_admins demo_access_db 1 = [m] \<and> ms_user m = 10"
proof -
  have "has_admin demo_access_db 1" "\<not> has_admin (demo_accepted_db 10) 1"
    by (simp_all add: demo_accepted_db_def has_admin_def attempt_def demo_access_simps active_admin_def)
  from last_admin_lost_only_by_acceptance [OF demo_access_wf demo_acceptance [unfolded demo_accept_def] this]
  show ?thesis by (auto simp: demo_user_def)
qed

text \<open>A lock-out is permanent. When the only active administrator of an organization accepts an
  invitation to another role, and no invitation for an administrator is pending, no request of
  anybody but a platform administrator will ever give the organization an administrator again.\<close>

lemma accepted_run:
  assumes "access_step hash (u, AcceptInvitation token k now) db = Inr (db', r)" "access_constraints db"
    and "i \<in> set (invitations db)" "iv_token_hash i = hash token" "iv_status i = INVITATION_PENDING"
    and "now < iv_expires_at i"
  shows "redeem (au_id u) k now i db = Inr (db', r)"
    and "recipient_matches (au_email u) (au_email_verified u) i"
proof -
  have "unique_on iv_token_hash (invitations db)"
    using assms(2) by (simp add: access_constraints_def invitations_ok_def)
  then have "find (\<lambda>i. iv_token_hash i = hash token) (invitations db) = Some i"
    using find_pk_unique [of iv_token_hash "invitations db" i] assms(3,4) by simp
  with assms(1,5,6) show "redeem (au_id u) k now i db = Inr (db', r)"
    "recipient_matches (au_email u) (au_email_verified u) i"
    by (simp_all add: invitation_accept_def)
qed

theorem lockout_is_permanent:
  assumes "access_wf db" "access_step hash (u, AcceptInvitation token k now) db = Inr (db', r)"
    and "i \<in> set (invitations db)" "iv_token_hash i = hash token" "iv_status i = INVITATION_PENDING"
    and "now < iv_expires_at i" "iv_role i \<noteq> ORGANIZATION_ADMIN"
    and "active_admins db (iv_org i) = [m]" "ms_user m = au_id u"
    and "\<forall>j \<in> set (invitations db). iv_org j = iv_org i \<and> iv_status j = INVITATION_PENDING \<longrightarrow>
           iv_role j \<noteq> ORGANIZATION_ADMIN"
    and "\<forall>c \<in> set calls. \<not> au_platform_admin (fst c)"
  shows "\<not> has_admin (run_ops (access_step hash) calls db') (iv_org i)"
proof -
  have c: "access_constraints db" using assms(1) by (simp add: access_wf_def)
  note run = accepted_run [OF assms(2) c assms(3-6)]
  define m' where "m' = accepted_membership db i (au_id u) k now"
  let ?i = "i\<lparr>iv_status := INVITATION_ACCEPTED, iv_accepted_at := Some now,
    iv_accepted_by := Some (au_id u), iv_membership := Some (ms_id m')\<rparr>"
  obtain e where db': "db' = log_access e (put_invitation ?i (store_membership db i (au_id u) m'))"
    using run(1) by (auto simp: redeem_def Let_def m'_def dest!: commit_accessD)
  have m: "m \<in> set (memberships db)" "active_admin (iv_org i) m"
    using assms(8) by (auto simp: active_admins_def dest: filter_eq_ConsD)
  have "unique_on (\<lambda>m. (ms_org m, ms_user m)) (memberships db)"
    using c by (simp add: access_constraints_def memberships_ok_def)
  from find_pk_unique [OF this m(1)] m(2) assms(9)
  have of: "membership_of db (iv_org i) (au_id u) = Some m"
    by (simp add: membership_of_def active_admin_def)
  then have id: "ms_id m' = ms_id m" by (simp add: m'_def accepted_membership_def)
  have "\<not> active_admin (iv_org i) x" if x: "x \<in> set (memberships db')" for x
  proof
    assume a: "active_admin (iv_org i) x"
    have "x \<noteq> m'" using a assms(7) by (auto simp: active_admin_def m'_def)
    with x in_stored [of x db i "au_id u" m'] of
    have "x \<in> set (memberships db)" "ms_id x \<noteq> ms_id m" by (auto simp: db' access_rows_simps id)
    then have "x \<in> set (active_admins db (iv_org i))" using a by (simp add: active_admins_def)
    with assms(8) \<open>ms_id x \<noteq> ms_id m\<close> show False by simp
  qed
  moreover have "organization_known db (iv_org i)"
    using assms(3) c by (simp add: access_constraints_def invitations_ok_def list_all_iff organization_known_def)
  ultimately have locked: "locked_out (iv_org i) db'"
    using assms(10) by (auto simp: locked_out_def has_admin_def organization_known_def db' access_rows_simps in_put_row_iff)
  have wf: "access_wf db'" using assms(1,2) by (rule access_step_wf)
  have "locked_out (iv_org i) (run_ops (access_step hash) calls db')"
  proof (rule invitation_rows.run_keeps [where P = "locked_out (iv_org i)", OF _ wf locked])
    fix call and db :: "'a access_db_scheme" and db' r
    assume w: "call \<in> set calls" "access_wf db" "locked_out (iv_org i) db" "access_step hash call db = Inr (db', r)"
    have "access_constraints db'" using access_step_wf [OF w(2,4)] by (simp add: access_wf_def)
    with effect_locked_out [OF call_effect [OF w(4)] w(3)] assms(11) w(1) show "locked_out (iv_org i) db'" by blast
  qed
  then show ?thesis by (simp add: locked_out_def)
qed

theorem lockout_is_permanent_witness:
  "\<not> has_admin (run_ops (access_step id)
     [(demo_user 11 ''bob@x.org'', UpdateMembershipRole 1 11 ORGANIZATION_ADMIN)] (demo_accepted_db 10)) 1"
proof -
  have "\<not> has_admin (run_ops (access_step id)
     [(demo_user 11 ''bob@x.org'', UpdateMembershipRole 1 11 ORGANIZATION_ADMIN)] (demo_accepted_db 10))
     (iv_org demo_invitation)"
    by (rule lockout_is_permanent [OF demo_access_wf demo_acceptance [unfolded demo_accept_def],
          where m = "demo_member 10 ORGANIZATION_ADMIN"])
      (simp_all add: demo_access_db_def demo_invitation_def demo_user_def active_admins_def
        active_admin_def demo_member_def)
  then show ?thesis by (simp add: demo_invitation_def del: run_ops.simps)
qed

text \<open>C34: An invitation is redeemed once, by its recipient. An accepted invitation never changes
  again, whatever requests follow, and the membership it names is the accepting user's in the
  inviting organization.\<close>

theorem invitation_redeemed_once:
  assumes "access_wf db" "invitation_at db k = Some i" "iv_status i = INVITATION_ACCEPTED"
    and "db2 = run_ops (access_step hash) calls db"
  shows "invitation_at db2 k = Some i \<and> (\<exists>m. m \<in> set (memberships db2) \<and>
    iv_membership i = Some (ms_id m) \<and> ms_org m = iv_org i \<and> iv_accepted_by i = Some (ms_user m))"
proof -
  have "\<exists>i'. invitation_at db2 k = Some i' \<and> i' = i"
    unfolding assms(4)
  proof (rule invitation_rows.run_stable [OF _ assms(1,2)])
    fix x x' assume "x = i" "invitation_evolves x x'"
    with invitation_evolves_pending assms(3) show "x' = i" by fastforce
  qed simp
  moreover have "access_wf db2" unfolding assms(4) using assms(1) by (rule invitation_rows.run_inv)
  moreover have "i \<in> set (invitations db2)"
    using calculation(1) unfolding invitation_at_def by (auto dest: find_SomeD)
  ultimately show ?thesis using assms(3) unfolding access_wf_def acceptances_bound_def by blast
qed

definition demo_redeemed :: invitation where
  "demo_redeemed = demo_invitation\<lparr>iv_status := INVITATION_ACCEPTED, iv_accepted_at := Some 500,
     iv_accepted_by := Some 12, iv_membership := Some 40\<rparr>"

lemma demo_redemption: "invitations (demo_accepted_db 12) = [demo_redeemed]"
  by (simp add: demo_accepted_db_def attempt_def demo_access_simps demo_redeemed_def)

theorem invitation_redeemed_once_witness:
  "invitation_at (run_ops (access_step id) [demo_accept 11 '' ADA@x.org'', (demo_user 10 ''a'', RevokeInvitation 1 30)]
     (demo_accepted_db 12)) 30 = Some demo_redeemed"
proof -
  have "access_wf (demo_accepted_db 12)"
    unfolding demo_accepted_db_def by (rule invitation_rows.run_inv [OF demo_access_wf])
  moreover have "invitation_at (demo_accepted_db 12) 30 = Some demo_redeemed"
    by (simp add: invitation_at_def demo_redemption) (simp add: demo_redeemed_def demo_invitation_def)
  ultimately show ?thesis
    by (rule invitation_redeemed_once [OF _ _ _ refl, THEN conjunct1]) (simp add: demo_redeemed_def)
qed

text \<open>C17: Acceptance is bound to the recipient. An accepting request that returns a membership either
  repeats the user's own earlier acceptance and changes nothing, or redeems a pending,
  unexpired invitation whose address is the user's verified one; then the user is an active
  member of the inviting organization with the invited role, and nothing of any other
  organization or member changes.\<close>

theorem acceptance_bound_to_recipient:
  assumes "access_wf db" "access_step hash (u, AcceptInvitation token k now) db = Inr (db', MembershipOut m)"
  shows "\<exists>i. i \<in> set (invitations db) \<and> iv_token_hash i = hash token \<and>
    ms_user m = au_id u \<and> ms_org m = iv_org i \<and> m \<in> set (memberships db') \<and>
    (db' = db \<and> iv_status i = INVITATION_ACCEPTED \<and> iv_accepted_by i = Some (au_id u) \<or>
     iv_status i = INVITATION_PENDING \<and> now < iv_expires_at i \<and> au_email_verified u \<and>
     (\<exists>a. au_email u = Some a \<and> normalize_email a = iv_email i) \<and>
     ms_role m = iv_role i \<and> ms_status m = MEMBER_ACTIVE \<and>
     filter (\<lambda>x. ms_id x \<noteq> ms_id m) (memberships db') = filter (\<lambda>x. ms_id x \<noteq> ms_id m) (memberships db))"
proof -
  have run: "invitation_accept hash token (au_id u) (au_email u) (au_email_verified u) k now db = Inr (db', MembershipOut m)"
    using assms(2) by simp
  then obtain i where i: "find (\<lambda>i. iv_token_hash i = hash token) (invitations db) = Some i"
    by (auto simp: invitation_accept_def)
  then have i': "i \<in> set (invitations db)" "iv_token_hash i = hash token" by (auto dest: find_SomeD)
  show ?thesis
  proof (cases "iv_status i = INVITATION_ACCEPTED")
    case True
    obtain m0 where m0: "m0 \<in> set (memberships db)" "iv_membership i = Some (ms_id m0)"
      "ms_org m0 = iv_org i" "iv_accepted_by i = Some (ms_user m0)"
      using assms(1) True i'(1) unfolding access_wf_def acceptances_bound_def by blast
    have "find (\<lambda>x. ms_id x = ms_id m0) (memberships db) = Some m0"
      using assms(1) m0(1) unfolding access_wf_def by (intro find_pk_unique membership_ids_unique) auto
    with run True m0 i have "m = m0" "db' = db" "ms_user m0 = au_id u"
      by (auto simp: invitation_accept_def split: if_splits option.splits)
    with i' m0 True show ?thesis by auto
  next
    case False
    then have r: "iv_status i = INVITATION_PENDING" "now < iv_expires_at i"
      "recipient_matches (au_email u) (au_email_verified u) i" "redeem (au_id u) k now i db = Inr (db', MembershipOut m)"
      using run i by (auto simp: invitation_accept_def split: if_splits dest!: commit_accessD
          intro: invitation_status.exhaust [of "iv_status i"])
    have m: "m = accepted_membership db i (au_id u) k now"
      and db': "memberships db' = memberships (store_membership db i (au_id u) m)"
      using r(4) by (auto simp: redeem_def Let_def access_rows_simps dest!: commit_accessD)
    have "filter (\<lambda>x. ms_id x \<noteq> ms_id m) (memberships db') = filter (\<lambda>x. ms_id x \<noteq> ms_id m) (memberships db)"
      by (auto simp: db' store_membership_def put_membership_def put_row_def filter_map comp_def
          split: option.split intro: filter_cong map_idI)
    with i' r m redeemed_membership [OF m] show ?thesis
      by (auto simp: recipient_matches_def db' split: option.splits)
  qed
qed

theorem acceptance_bound_to_recipient_witness:
  "\<exists>a. au_email (demo_user 10 '' ADA@x.org'') = Some a \<and> normalize_email a = iv_email demo_invitation"
  using acceptance_bound_to_recipient [OF demo_access_wf demo_acceptance [unfolded demo_accept_def]]
  by (simp add: demo_access_db_def) (simp add: demo_invitation_def)

text \<open>C0: Changes need authority. Apart from acceptances, a request by a user who is neither a platform
  administrator nor an active administrator of an existing organization changes nothing of it:
  not its row, its memberships, its invitations, its audit events.\<close>

definition access_view where
  "access_view org db =
     (find (\<lambda>o'. on_id o' = org) (organizations db), filter (\<lambda>m. ms_org m = org) (memberships db),
      filter (\<lambda>i. iv_org i = org) (invitations db), filter (\<lambda>e. xe_org e = org) (access_events db))"

lemma organization_found: "organization_known db org \<Longrightarrow> find (\<lambda>o'. on_id o' = org) (organizations db) \<noteq> None"
  by (auto simp: organization_known_def find_None_iff)

theorem access_changes_need_authority:
  assumes "access_wf db" "access_step hash (u, op) db = Inr (db', r)" "\<not> is_accept op"
    and "organization_known db org" "\<not> may_administer db org u"
  shows "access_view org db' = access_view org db"
proof -
  have c: "access_constraints db" using assms(1) by (simp add: access_wf_def)
  have e: "access_effect False u db db'" "db' = db \<or> access_constraints db'"
    using access_step_effect [OF assms(2)] assms(3) by auto
  have known: "find (\<lambda>o'. on_id o' = org) (organizations db @ os) =
      find (\<lambda>o'. on_id o' = org) (organizations db)" for os
    using organization_found [OF assms(4)] by (auto simp: find_append split: option.split)
  show ?thesis using e(1)
  proof cases
    case (organization_owned m o' e)
    have "access_constraints db'" using e(2) c by blast
    then have "on_id o' \<noteq> org"
      using assms(4) by (auto simp: organization_owned(1) access_constraints_def organizations_ok_def
          unique_on_snoc organization_known_def)
    then show ?thesis using organization_owned known by (simp add: access_view_def)
  next
    case (organization_changed o' o2)
    then have "on_id o2 \<noteq> org" using assms(5) by auto
    then show ?thesis by (simp add: organization_changed(1) access_view_def find_put_row_other)
  next
    case (membership_added m)
    then show ?thesis using assms(5) by (auto simp: access_view_def)
  next
    case (membership_changed m m' es)
    have "ms_org m \<noteq> org" using assms(5) membership_changed(4) by auto
    moreover have "filter (\<lambda>m. ms_org m = org) (put_row ms_id m' (memberships db)) =
        filter (\<lambda>m. ms_org m = org) (memberships db)"
      using calculation membership_changed(2,3)
      by (intro filter_put_row [OF membership_ids_unique [OF c]]) (auto simp: membership_changes_def)
    ultimately show ?thesis
      using membership_changed(5) by (auto simp: membership_changed(1) access_view_def filter_empty_conv)
  next
    case (invitation_added i e)
    then show ?thesis using assms(5) by (auto simp: access_view_def)
  next
    case (invitation_revoked i e)
    have "iv_org i \<noteq> org" using assms(5) invitation_revoked(4) by auto
    moreover have "filter (\<lambda>i. iv_org i = org) (put_row iv_id (i\<lparr>iv_status := INVITATION_REVOKED\<rparr>) (invitations db)) =
        filter (\<lambda>i. iv_org i = org) (invitations db)"
      using calculation invitation_revoked(2)
      by (intro filter_put_row [OF invitation_ids_unique [OF c]]) auto
    ultimately show ?thesis using invitation_revoked(5) by (simp add: invitation_revoked(1) access_view_def)
  qed (simp_all add: access_view_def known)
qed

theorem access_changes_need_authority_witness:
  "\<exists>db' r. access_step id (demo_user 10 ''a'', SuspendMembership 1 11) demo_access_db = Inr (db', r) \<and>
     access_view 2 db' = access_view 2 demo_access_db"
proof -
  obtain db' r where "access_step id (demo_user 10 ''a'', SuspendMembership 1 11) demo_access_db = Inr (db', r)"
    by (simp add: as_admin_def require_organization_roles_def require_roles_def require_active_member_def
        organization_admin_roles_def membership_suspend_def locked_membership_def organization_known_def
        membership_get_def tenant_get_def protect_last_active_admin_def demo_access_simps)
  moreover from access_changes_need_authority [OF demo_access_wf this, of 2]
  have "access_view 2 db' = access_view 2 demo_access_db"
    by (simp add: organization_known_def may_administer_def demo_access_db_def demo_organization_def
        demo_member_def demo_user_def active_admin_def)
  ultimately show ?thesis by blast
qed

end
