(* ===== verification/Identity.thy ===== *)
theory Identity
  imports Access_Properties
begin

text \<open>
  Who a request comes from (\<open>app/auth/identity.py\<close>, \<open>app/auth/pilot_bridge.py\<close>) and what roles the
  routes ask for (\<open>app/auth/permissions.py\<close>). The verification of tokens and keys (PyJWT) and
  the digest behind \<open>uuid5\<close> are parameters.
\<close>

section \<open>The roles of the routes\<close>

definition analysis_roles :: "membership_role list" where
  "analysis_roles = [ORGANIZATION_ADMIN, ANALYST, OPERATOR]"

definition recovery_write_roles :: "membership_role list" where
  "recovery_write_roles = [ORGANIZATION_ADMIN, OPERATOR, RECOVERY_MANAGER]"

definition operation_roles :: "membership_role list" where
  "operation_roles = [ORGANIZATION_ADMIN, OPERATOR]"

definition author_roles :: "membership_role list" where
  "author_roles = [ORGANIZATION_ADMIN, ANALYST]"

definition verification_roles :: "membership_role list" where
  "verification_roles = [ORGANIZATION_ADMIN, ANALYST, RECOVERY_MANAGER]"

definition all_but_viewer_roles :: "membership_role list" where
  "all_but_viewer_roles = [ORGANIZATION_ADMIN, ANALYST, OPERATOR, RECOVERY_MANAGER]"

text \<open>The tuples of \<open>app/auth/permissions.py\<close> in its order; each route names one of them.\<close>

definition early_permissions :: "(string \<times> membership_role list) list" where
  "early_permissions =
     [(''ORGANIZATION_READ_ROLES'', organization_read_roles),
      (''ORGANIZATION_ADMIN_ROLES'', organization_admin_roles),
      (''MAINTENANCE_ANALYSIS_ROLES'', analysis_roles),
      (''RECOVERY_WRITE_ROLES'', recovery_write_roles),
      (''ANALYSIS_CASE_READ_ROLES'', organization_read_roles),
      (''ANALYSIS_CASE_CREATE_ROLES'', analysis_roles),
      (''ANALYSIS_CASE_ADMIN_ROLES'', organization_admin_roles),
      (''SOURCE_SYSTEM_READ_ROLES'', organization_read_roles),
      (''SOURCE_SYSTEM_ADMIN_ROLES'', organization_admin_roles),
      (''SOURCE_SYSTEM_OPERATIONS_ROLES'', operation_roles),
      (''INGESTION_READ_ROLES'', organization_read_roles),
      (''INGESTION_ADMIN_ROLES'', organization_admin_roles),
      (''INGESTION_OPERATION_ROLES'', operation_roles),
      (''INGESTION_RELEASE_ROLES'', organization_admin_roles),
      (''RAW_LINEAGE_READ_ROLES'', organization_read_roles),
      (''RAW_LINEAGE_OPERATION_ROLES'', operation_roles),
      (''RAW_LINEAGE_ANALYSIS_ROLES'', analysis_roles),
      (''RAW_LINEAGE_GOVERNANCE_ROLES'', organization_admin_roles),
      (''TRUST_READ_ROLES'', organization_read_roles),
      (''TRUST_EXECUTION_ROLES'', analysis_roles),
      (''INTELLIGENCE_READ_ROLES'', organization_read_roles),
      (''INTELLIGENCE_EXECUTION_ROLES'', analysis_roles),
      (''INTELLIGENCE_REQUEST_ROLES'', analysis_roles),
      (''INTELLIGENCE_OPERATOR_ROLES'', operation_roles),
      (''FINDING_READ_ROLES'', organization_read_roles),
      (''FINDING_REVIEW_ROLES'', analysis_roles),
      (''FINDING_ADMIN_ROLES'', organization_admin_roles),
      (''OIKB_READ_ROLES'', organization_read_roles),
      (''OIKB_AUTHOR_ROLES'', author_roles),
      (''OIKB_VALIDATION_ROLES'', author_roles),
      (''OIKB_GOVERNANCE_ROLES'', organization_admin_roles),
      (''STATISTICAL_EXECUTION_READ_ROLES'', organization_read_roles),
      (''STATISTICAL_EXECUTION_RUN_ROLES'', analysis_roles),
      (''STATISTICAL_METHOD_READ_ROLES'', organization_read_roles),
      (''STATISTICAL_REVIEW_ROLES'', analysis_roles),
      (''STATISTICAL_SUPPRESSION_MANAGE_ROLES'', organization_admin_roles),
      (''STATISTICAL_ADMINISTER_ROLES'', organization_admin_roles),
      (''FORECAST_EXECUTION_READ_ROLES'', organization_read_roles),
      (''FORECAST_EXECUTION_RUN_ROLES'', analysis_roles),
      (''FORECAST_METHOD_READ_ROLES'', organization_read_roles),
      (''FORECAST_SCENARIO_CREATE_ROLES'', analysis_roles),
      (''FORECAST_SCENARIO_APPROVE_ROLES'', organization_admin_roles),
      (''FORECAST_REVISION_CREATE_ROLES'', analysis_roles),
      (''FORECAST_ACTUAL_REGISTER_ROLES'', analysis_roles),
      (''FORECAST_ACCURACY_READ_ROLES'', organization_read_roles),
      (''FORECAST_ADMINISTER_ROLES'', organization_admin_roles)]"

definition late_permissions :: "(string \<times> membership_role list) list" where
  "late_permissions =
     [(''RELIABILITY_EXECUTION_READ_ROLES'', organization_read_roles),
      (''RELIABILITY_EXECUTION_RUN_ROLES'', analysis_roles),
      (''RELIABILITY_METHOD_READ_ROLES'', organization_read_roles),
      (''RELIABILITY_ASSESSMENT_REVIEW_ROLES'', analysis_roles),
      (''RELIABILITY_HEALTH_READ_ROLES'', organization_read_roles),
      (''RELIABILITY_RISK_READ_ROLES'', organization_read_roles),
      (''RELIABILITY_PM_REVIEW_ROLES'', organization_admin_roles),
      (''RELIABILITY_ADMINISTER_ROLES'', organization_admin_roles),
      (''ACTION_READ_ROLES'', organization_read_roles),
      (''ACTION_CREATE_ROLES'', analysis_roles),
      (''ACTION_ASSIGN_ROLES'', recovery_write_roles),
      (''ACTION_APPROVE_ROLES'', organization_admin_roles),
      (''ACTION_PLAN_ROLES'', recovery_write_roles),
      (''ACTION_TRANSITION_ROLES'', recovery_write_roles),
      (''ACTION_VERIFY_ROLES'', verification_roles),
      (''ACTION_OUTCOME_ROLES'', verification_roles),
      (''ACTION_FEEDBACK_ROLES'', verification_roles),
      (''ECONOMICS_READ_ROLES'', organization_read_roles),
      (''ECONOMICS_WRITE_ROLES'', all_but_viewer_roles),
      (''ECONOMICS_CALCULATE_ROLES'', all_but_viewer_roles),
      (''ECONOMICS_APPROVE_ROLES'', organization_admin_roles),
      (''ECONOMICS_PORTFOLIO_ROLES'', organization_read_roles),
      (''RECOVERY_LEDGER_READ_ROLES'', organization_read_roles),
      (''RECOVERY_MEASUREMENT_ROLES'', recovery_write_roles),
      (''RECOVERY_FINANCE_ROLES'', organization_admin_roles),
      (''COMMERCIAL_READ_ROLES'', organization_read_roles),
      (''COMMERCIAL_ADMIN_ROLES'', organization_admin_roles),
      (''SIGNATURE_READ_ROLES'', organization_read_roles),
      (''SIGNATURE_EXECUTION_ROLES'', analysis_roles),
      (''SIGNATURE_ADMIN_ROLES'', organization_admin_roles),
      (''KNOWLEDGE_GRAPH_READ_ROLES'', organization_read_roles),
      (''KNOWLEDGE_GRAPH_TRAVERSAL_ROLES'', all_but_viewer_roles),
      (''KNOWLEDGE_GRAPH_PROJECTION_ROLES'', operation_roles),
      (''CAUSAL_READ_ROLES'', organization_read_roles),
      (''CAUSAL_REVIEW_ROLES'', analysis_roles),
      (''CAUSAL_APPROVE_ROLES'', organization_admin_roles),
      (''DECISION_READ_ROLES'', organization_read_roles),
      (''DECISION_AUTHOR_ROLES'', all_but_viewer_roles),
      (''DECISION_APPROVE_ROLES'', organization_admin_roles),
      (''VALIDATION_READ_ROLES'', organization_read_roles),
      (''VALIDATION_WRITE_ROLES'', analysis_roles),
      (''SEMANTIC_REVIEW_ROLES'', analysis_roles),
      (''AGENT_JOB_READ_ROLES'', organization_read_roles),
      (''AGENT_JOB_CREATE_ROLES'', analysis_roles),
      (''AGENT_JOB_OWNER_APPROVAL_ROLES'', organization_admin_roles),
      (''AGENT_WORKER_CREDENTIAL_ADMIN_ROLES'', organization_admin_roles)]"

definition permissions :: "(string \<times> membership_role list) list" where
  "permissions = early_permissions @ late_permissions"

lemma permission_tuples:
  "snd ` set permissions = {organization_read_roles, organization_admin_roles, analysis_roles,
     recovery_write_roles, operation_roles, author_roles, verification_roles, all_but_viewer_roles}"
proof -
  have "set (map snd permissions) = {organization_read_roles, organization_admin_roles, analysis_roles,
     recovery_write_roles, operation_roles, author_roles, verification_roles, all_but_viewer_roles}"
    unfolding permissions_def early_permissions_def late_permissions_def by simp blast
  then show ?thesis by simp
qed

lemmas role_tuples =
  organization_read_roles_def organization_admin_roles_def analysis_roles_def recovery_write_roles_def
  operation_roles_def author_roles_def verification_roles_def all_but_viewer_roles_def

section \<open>The canonical name of an identity\<close>

definition canonical_identity :: "string \<Rightarrow> string \<Rightarrow> string" where
  "canonical_identity issuer subject = decimal (length issuer) @ '':'' @ issuer @ '':'' @ subject"

definition derive_user_id :: "(string \<Rightarrow> uuid) \<Rightarrow> string \<Rightarrow> string \<Rightarrow> uuid" where
  "derive_user_id uuid5 issuer subject = uuid5 (canonical_identity issuer subject)"

text \<open>Reading a canonical name back: the length up to the first colon, then that many characters.\<close>

definition read_canonical :: "string \<Rightarrow> string \<times> string" where
  "read_canonical s =
     (let d = takeWhile (\<lambda>c. c \<noteq> CHR '':'') s; rest = tl (dropWhile (\<lambda>c. c \<noteq> CHR '':'') s);
          n = read_decimal d
      in (take n rest, tl (drop n rest)))"

lemma decimal_no_colon: "c \<in> set (decimal n) \<Longrightarrow> c \<noteq> CHR '':''"
proof (induction n rule: decimal.induct)
  case (1 n)
  have d: "digit m \<noteq> CHR '':''" if "m < 10" for m
  proof
    assume "digit m = CHR '':''"
    from arg_cong [OF this, of "of_char :: char \<Rightarrow> nat"] that show False by (simp add: of_char_digit)
  qed
  show ?case
  proof (cases "n < 10")
    case True
    with 1(2) d show ?thesis by (simp add: decimal.simps [of n])
  next
    case False
    with 1(2) have "c \<in> set (decimal (n div 10)) \<or> c = digit (n mod 10)"
      by (subst (asm) decimal.simps) auto
    with 1(1) [OF False] d [of "n mod 10"] show ?thesis by auto
  qed
qed

lemma read_canonical_canonical: "read_canonical (canonical_identity issuer subject) = (issuer, subject)"
proof -
  have "takeWhile (\<lambda>c. c \<noteq> CHR '':'') (decimal n @ CHR '':'' # xs) = decimal n"
    "dropWhile (\<lambda>c. c \<noteq> CHR '':'') (decimal n @ CHR '':'' # xs) = CHR '':'' # xs" for n xs
    using decimal_no_colon by (simp_all add: takeWhile_append2 dropWhile_append2)
  then show ?thesis
    by (simp add: read_canonical_def canonical_identity_def Let_def read_decimal_decimal)
qed

section \<open>Authentication\<close>

datatype authentication_error =
    AuthenticationRequired | AuthenticationInvalid | AuthenticationUnavailable

text \<open>\<open>str.split(" ", 1)\<close>: the part before the first blank, and the rest when there is one.\<close>

definition split_blank :: "string \<Rightarrow> string \<times> string option" where
  "split_blank s =
     (takeWhile (\<lambda>c. c \<noteq> CHR '' '') s,
      case dropWhile (\<lambda>c. c \<noteq> CHR '' '') s of [] \<Rightarrow> None | _ # rest \<Rightarrow> Some rest)"

definition extract_bearer_token :: "string option \<Rightarrow> authentication_error + string" where
  "extract_bearer_token authorization =
     (case authorization of
        None \<Rightarrow> Inl AuthenticationRequired
      | Some a \<Rightarrow>
          if a = [] then Inl AuthenticationRequired
          else (case split_blank a of
             (scheme, Some rest) \<Rightarrow>
               if lower scheme \<noteq> ''bearer'' then Inl AuthenticationRequired
               else if strip rest = [] then Inl AuthenticationRequired
               else Inr (strip rest)
           | (_, None) \<Rightarrow> Inl AuthenticationRequired))"

text \<open>The OIDC library: looking up the signing key of a token, and verifying and decoding it.\<close>

datatype key_lookup = KeysUnreachable | KeyInvalid | SigningKey string

record oidc_library =
  signing_key :: "string \<Rightarrow> string \<Rightarrow> key_lookup"
  decode_token :: "string \<Rightarrow> string \<Rightarrow> string list \<Rightarrow> string \<Rightarrow> string \<Rightarrow> (string \<times> json) list option"
  uuid5_of :: "string \<Rightarrow> uuid"

record auth_settings =
  st_issuer :: string
  st_audience :: string
  st_jwks_url :: string
  st_algorithms :: "string list"
  st_app_env :: string
  st_pilot_enabled :: bool
  st_pilot_token :: string
  st_pilot_user :: "uuid option"
  st_pilot_admin :: bool

definition claim_text :: "(string \<times> json) list \<Rightarrow> string \<Rightarrow> string option" where
  "claim_text payload k =
     (case map_of payload k of Some (JString s) \<Rightarrow> (if s = [] then None else Some s) | _ \<Rightarrow> None)"

definition oidc_authenticate ::
    "oidc_library \<Rightarrow> auth_settings \<Rightarrow> string option \<Rightarrow> authentication_error + authenticated_user" where
  "oidc_authenticate lib st authorization =
     bindE (require (st_issuer st \<noteq> [] \<and> st_audience st \<noteq> [] \<and> st_jwks_url st \<noteq> []) AuthenticationUnavailable) (\<lambda>_.
     bindE (require (st_algorithms st \<noteq> []) AuthenticationUnavailable) (\<lambda>_.
     bindE (extract_bearer_token authorization) (\<lambda>token.
     case signing_key lib (st_jwks_url st) token of
       KeysUnreachable \<Rightarrow> Inl AuthenticationUnavailable
     | KeyInvalid \<Rightarrow> Inl AuthenticationInvalid
     | SigningKey key \<Rightarrow>
         bindE (of_option AuthenticationInvalid
                  (decode_token lib token key (st_algorithms st) (st_issuer st) (st_audience st))) (\<lambda>payload.
         case (claim_text payload ''iss'', claim_text payload ''sub'') of
           (Some issuer, Some subject) \<Rightarrow>
             Inr \<lparr>au_id = derive_user_id (uuid5_of lib) issuer subject, au_platform_admin = False,
                  au_email = claim_text payload ''email'',
                  au_email_verified = (map_of payload ''email_verified'' = Some (JBool True))\<rparr>
         | _ \<Rightarrow> Inl AuthenticationInvalid))))"

definition resolve_pilot_identity :: "auth_settings \<Rightarrow> string option \<Rightarrow> (uuid \<times> bool) option" where
  "resolve_pilot_identity st authorization =
     (if st_app_env st = ''production'' \<or> \<not> st_pilot_enabled st \<or> st_pilot_token st = [] then None
      else case (st_pilot_user st, authorization) of
        (Some user, Some a) \<Rightarrow>
          (let (scheme, rest) = split_blank a;
               candidate = (case rest of None \<Rightarrow> [] | Some r \<Rightarrow> strip r)
           in if lower scheme = ''bearer'' \<and> candidate \<noteq> [] \<and> candidate = st_pilot_token st
              then Some (user, st_pilot_admin st) else None)
      | _ \<Rightarrow> None)"

definition get_current_user ::
    "oidc_library \<Rightarrow> auth_settings \<Rightarrow> string option \<Rightarrow> authentication_error + authenticated_user" where
  "get_current_user lib st authorization =
     (case resolve_pilot_identity st authorization of
        Some (user, admin) \<Rightarrow>
          Inr \<lparr>au_id = user, au_platform_admin = admin, au_email = None, au_email_verified = False\<rparr>
      | None \<Rightarrow> oidc_authenticate lib st authorization)"

section \<open>Properties\<close>


lemma derive_user_id_inj:
  assumes "inj uuid5" "derive_user_id uuid5 issuer subject = derive_user_id uuid5 issuer' subject'"
  shows "issuer' = issuer \<and> subject' = subject"
proof -
  have "canonical_identity issuer subject = canonical_identity issuer' subject'"
    using assms by (simp add: derive_user_id_def inj_eq)
  then show ?thesis using read_canonical_canonical by (metis prod.inject)
qed

text \<open>In production every user is an OIDC user without platform rights: a request that passes carries
  a bearer token that the library verified against the configured issuer, audience and keys,
  the user id is derived from its issuer and subject, the e-mail address counts as verified
  only when the token says so, and the user is no platform administrator.\<close>

theorem production_users_verified:
  assumes "st_app_env st = ''production''" "get_current_user lib st authorization = Inr u"
  shows "\<exists>token key payload issuer subject.
    extract_bearer_token authorization = Inr token \<and> signing_key lib (st_jwks_url st) token = SigningKey key \<and>
    decode_token lib token key (st_algorithms st) (st_issuer st) (st_audience st) = Some payload \<and>
    map_of payload ''iss'' = Some (JString issuer) \<and> map_of payload ''sub'' = Some (JString subject) \<and>
    au_id u = derive_user_id (uuid5_of lib) issuer subject \<and> \<not> au_platform_admin u \<and>
    (au_email_verified u \<longrightarrow> map_of payload ''email_verified'' = Some (JBool True))"
proof -
  have "oidc_authenticate lib st authorization = Inr u"
    using assms by (simp add: get_current_user_def resolve_pilot_identity_def)
  then obtain token where token: "extract_bearer_token authorization = Inr token"
    and run: "(case signing_key lib (st_jwks_url st) token of
       KeysUnreachable \<Rightarrow> Inl AuthenticationUnavailable
     | KeyInvalid \<Rightarrow> Inl AuthenticationInvalid
     | SigningKey key \<Rightarrow>
         bindE (of_option AuthenticationInvalid
                  (decode_token lib token key (st_algorithms st) (st_issuer st) (st_audience st))) (\<lambda>payload.
         case (claim_text payload ''iss'', claim_text payload ''sub'') of
           (Some issuer, Some subject) \<Rightarrow>
             Inr \<lparr>au_id = derive_user_id (uuid5_of lib) issuer subject, au_platform_admin = False,
                  au_email = claim_text payload ''email'',
                  au_email_verified = (map_of payload ''email_verified'' = Some (JBool True))\<rparr>
         | _ \<Rightarrow> Inl AuthenticationInvalid)) = Inr u"
    unfolding oidc_authenticate_def bindE_Inr_iff by blast
  from run obtain key payload where k: "signing_key lib (st_jwks_url st) token = SigningKey key"
    "decode_token lib token key (st_algorithms st) (st_issuer st) (st_audience st) = Some payload"
    and c: "(case (claim_text payload ''iss'', claim_text payload ''sub'') of
           (Some issuer, Some subject) \<Rightarrow>
             Inr \<lparr>au_id = derive_user_id (uuid5_of lib) issuer subject, au_platform_admin = False,
                  au_email = claim_text payload ''email'',
                  au_email_verified = (map_of payload ''email_verified'' = Some (JBool True))\<rparr>
         | _ \<Rightarrow> Inl AuthenticationInvalid) = Inr u"
    by (cases "signing_key lib (st_jwks_url st) token") (simp_all, blast)
  from c obtain issuer subject where
    "claim_text payload ''iss'' = Some issuer" "claim_text payload ''sub'' = Some subject"
    "au_id u = derive_user_id (uuid5_of lib) issuer subject" "\<not> au_platform_admin u"
    "au_email_verified u = (map_of payload ''email_verified'' = Some (JBool True))"
    by (cases "claim_text payload ''iss''"; cases "claim_text payload ''sub''") auto
  note k = k this
  have "map_of payload k = Some (JString s)" if "claim_text payload k = Some s" for k s
    using that by (simp add: claim_text_def split: option.splits json.splits if_splits)
  with token k show ?thesis by blast
qed

definition demo_oidc :: oidc_library where
  "demo_oidc = \<lparr>signing_key = (\<lambda>url token. SigningKey ''k''),
     decode_token = (\<lambda>token key algs issuer audience.
       Some [(''iss'', JString issuer), (''sub'', JString token), (''email_verified'', JNull)]),
     uuid5_of = length\<rparr>"

definition demo_settings :: "string \<Rightarrow> auth_settings" where
  "demo_settings env = \<lparr>st_issuer = ''https://i'', st_audience = ''a'', st_jwks_url = ''j'',
     st_algorithms = [''RS256''], st_app_env = env, st_pilot_enabled = True, st_pilot_token = ''tok'',
     st_pilot_user = Some 1, st_pilot_admin = True\<rparr>"

lemma demo_login: "get_current_user demo_oidc (demo_settings ''production'') (Some ''Bearer tok'') =
    Inr \<lparr>au_id = 15, au_platform_admin = False, au_email = None, au_email_verified = False\<rparr>"
  by code_simp

theorem production_users_verified_witness:
  "\<exists>token. extract_bearer_token (Some ''Bearer tok'') = Inr token"
  using production_users_verified [OF _ demo_login] by (auto simp: demo_settings_def)

text \<open>What a role opens. For every role tuple of the routes: an active administrator of the
  organization passes, an active viewer passes only where all members may read, and the
  membership role \<open>platform_admin\<close> opens nothing; and whoever passes is a platform administrator
  or an active member with a role of the tuple.\<close>

lemma require_roles_unique:
  assumes "access_constraints db" "m \<in> set (memberships db)" "ms_status m = MEMBER_ACTIVE"
    and "\<not> au_platform_admin u" "ms_user m = au_id u"
  shows "require_organization_roles roles db (ms_org m) u =
    (if ms_role m \<in> set roles then Inr (Some m) else Inl AccessDenied)"
proof -
  have q: "unique_on (\<lambda>m. (ms_org m, ms_user m)) (memberships db)"
    using assms(1) by (simp add: access_constraints_def memberships_ok_def)
  have "x = m" if "x \<in> set (memberships db)" "ms_org x = ms_org m" "ms_user x = au_id u" for x
    using unique_on_eq [OF q, of x m] that assms(2,5) by simp
  then have "find (\<lambda>x. ms_org x = ms_org m \<and> ms_user x = au_id u \<and> ms_status x = MEMBER_ACTIVE)
      (memberships db) = Some m"
    using assms(2,3,5)
    by (cases "find (\<lambda>x. ms_org x = ms_org m \<and> ms_user x = au_id u \<and> ms_status x = MEMBER_ACTIVE) (memberships db)")
      (auto dest: find_SomeD find_NoneD)
  with assms(4) show ?thesis
    by (simp add: require_organization_roles_def require_roles_def require_active_member_def require_def)
qed



text \<open>
  Two consequences of the code for its audit trail and for deactivated organizations: the role
  routes leave no actor in the events they write, and the role checks never look at the
  status of the organization.
\<close>

lemma role_events_have_no_actor:
  assumes "access_step hash (u, UpdateMembershipRole org k role) db = Inr (db', r)"
  shows "\<exists>e. access_events db' = access_events db @ [e] \<and> xe_actor e = None"
  using assms
  by (auto simp: update_role_def Let_def access_rows_simps access_event_for_def
      dest!: as_adminD commit_accessD)

lemma deactivation_keeps_access:
  assumes "organization_deactivate org db = Inr (db', r)"
  shows "require_organization_roles roles db' org u = require_organization_roles roles db org u"
  using assms
  by (auto simp: organization_deactivate_def Let_def put_organization_def require_organization_roles_def
      require_roles_def require_active_member_def dest!: commit_accessD)

end
