(* ===== verification/Agent_Jobs.thy ===== *)
theory Agent_Jobs
  imports Identity "HOL-Library.Product_Lexorder"
begin

text \<open>
  The agent job queue (\<open>app/services/agent_job_service.py\<close>, \<open>agent_routing_service.py\<close>,
  \<open>app/models/agent_jobs.py\<close>) behind its routes (\<open>app/api/agent_job_routes.py\<close>): creation and
  routing, claims by workers under a lease, heartbeats, results, failures, the recovery of
  stale leases, the owner's decision. The artifact store is a parameter that gives a reference
  for a key; what the artifacts hold is not modelled. Events carry their type and job.
\<close>

section \<open>Enumerations\<close>

datatype risk_class = R0 | R1 | R2 | R3

datatype job_status =
    JOB_QUEUED | JOB_CLAIMED | JOB_RUNNING | JOB_SUCCEEDED | JOB_FAILED | JOB_TIMED_OUT
  | JOB_ESCALATED | JOB_OWNER_REVIEW_REQUIRED | JOB_CANCELLED

datatype job_approval_status = APPROVAL_NOT_REQUIRED | APPROVAL_PENDING | APPROVAL_APPROVED | APPROVAL_REJECTED

datatype evidence_plane = PLANE_PRODUCTION | PLANE_VALIDATION

datatype job_event_type =
    JOB_EVENT_CREATED | JOB_EVENT_ROUTED | JOB_EVENT_CLAIMED | JOB_EVENT_STARTED
  | JOB_EVENT_SUCCEEDED | JOB_EVENT_FAILED | JOB_EVENT_TIMED_OUT | JOB_EVENT_RETRIED
  | JOB_EVENT_ESCALATED | JOB_EVENT_OWNER_REVIEW_REQUIRED | JOB_EVENT_OWNER_APPROVED
  | JOB_EVENT_OWNER_REJECTED

datatype worker_profile =
    QWEN_R0 | QWEN_R1 | DEVSTRAL_SPECIALIST | GEMINI_SYNTHESIS | CLAUDE_PLATFORM_REVIEW
  | CODEX_IMPLEMENTATION

section \<open>Routing\<close>

text \<open>The model a profile runs, when it runs locally.\<close>

fun profile_model :: "worker_profile \<Rightarrow> string option" where
  "profile_model QWEN_R0 = Some ''qwen/qwen3.5-9b''"
| "profile_model QWEN_R1 = Some ''qwen/qwen3.5-9b''"
| "profile_model DEVSTRAL_SPECIALIST = Some ''mistralai/devstral-small-2-2512''"
| "profile_model _ = None"

record routing_decision =
  rd_risk :: risk_class
  rd_profile :: worker_profile
  rd_local :: bool
  rd_premium :: bool
  rd_owner_gate :: bool

record escalation_decision =
  ed_accept :: bool
  ed_escalate :: bool
  ed_next :: "worker_profile option"
  ed_owner_gate :: bool

text \<open>Default profile, whether a local worker may run it, whether the owner must approve first.\<close>

fun routing_rule :: "risk_class \<Rightarrow> worker_profile \<times> bool \<times> bool" where
  "routing_rule R0 = (QWEN_R0, True, False)"
| "routing_rule R1 = (QWEN_R1, True, False)"
| "routing_rule R2 = (CLAUDE_PLATFORM_REVIEW, False, True)"
| "routing_rule R3 = (CLAUDE_PLATFORM_REVIEW, False, True)"

definition r3_safety_flags :: "string list" where
  "r3_safety_flags =
     [''fp_explosion_risk'', ''truth_isolation_risk'', ''evidence_gate_weakening'',
      ''arbitrary_policy_proposal'', ''canonical_architecture_conflict'',
      ''cross_currency_unsafe_aggregation'', ''destructive_migration'', ''security_boundary_change'']"

definition classify_risk :: "risk_class \<Rightarrow> string list \<Rightarrow> risk_class" where
  "classify_risk requested flags = (if list_ex (\<lambda>f. f \<in> set r3_safety_flags) flags then R3 else requested)"

definition route_job :: "risk_class \<Rightarrow> string list \<Rightarrow> routing_decision" where
  "route_job requested flags =
     (let risk = classify_risk requested flags; (profile, local, gate) = routing_rule risk
      in \<lparr>rd_risk = risk, rd_profile = profile, rd_local = local, rd_premium = (\<not> local),
          rd_owner_gate = gate\<rparr>)"

definition escalate_to :: "worker_profile \<Rightarrow> bool \<Rightarrow> escalation_decision" where
  "escalate_to p gate = \<lparr>ed_accept = False, ed_escalate = True, ed_next = Some p, ed_owner_gate = gate\<rparr>"

definition accept_result :: escalation_decision where
  "accept_result = \<lparr>ed_accept = True, ed_escalate = False, ed_next = None, ed_owner_gate = False\<rparr>"

fun evaluate_worker_result ::
    "risk_class \<Rightarrow> int \<Rightarrow> bool \<Rightarrow> bool \<Rightarrow> bool \<Rightarrow> escalation_decision" where
  "evaluate_worker_result R0 confidence architecture policy escalation =
     (if escalation \<or> confidence < 90 then escalate_to QWEN_R1 False else accept_result)"
| "evaluate_worker_result R1 confidence architecture policy escalation =
     (if escalation \<or> confidence < 70 then escalate_to CLAUDE_PLATFORM_REVIEW True
      else if confidence < 90 \<or> architecture \<or> policy then escalate_to DEVSTRAL_SPECIALIST False
      else accept_result)"
| "evaluate_worker_result _ confidence architecture policy escalation =
     escalate_to CLAUDE_PLATFORM_REVIEW True"

section \<open>Rows\<close>

text \<open>What the creation of a job fixes.\<close>

record job_origin =
  jo_case :: "uuid option"
  jo_run :: "uuid option"
  jo_simulation :: "string option"
  jo_gap :: "string option"
  jo_parent :: "uuid option"
  jo_type :: string
  jo_priority :: int
  jo_plane :: evidence_plane
  jo_capability :: string
  jo_created_at :: timestamp
  jo_created_by :: "uuid option"
  jo_key :: "string option"

record job_usage =
  ju_time :: int
  ju_input :: int
  ju_output :: int
  ju_reasoning :: int

record agent_job =
  jb_id :: uuid
  jb_org :: "uuid option"
  jb_origin :: job_origin
  jb_risk :: risk_class
  jb_status :: job_status
  jb_worker :: "string option"
  jb_model :: "string option"
  jb_evidence_ref :: "string option"
  jb_result_ref :: "string option"
  jb_confidence :: "int option"
  jb_escalated :: bool
  jb_started_at :: "timestamp option"
  jb_completed_at :: "timestamp option"
  jb_failed_at :: "timestamp option"
  jb_retries :: int
  jb_usage :: "job_usage option"
  jb_error :: "(string \<times> string) option"
  jb_approval_required :: bool
  jb_approval :: job_approval_status
  jb_lease :: "uuid option"
  jb_lease_worker :: "string option"
  jb_heartbeat :: "timestamp option"

record job_event =
  je_job :: uuid
  je_org :: "uuid option"
  je_type :: job_event_type

record worker_credential =
  wc_id :: uuid
  wc_org :: uuid
  wc_worker :: string
  wc_token_hash :: string
  wc_risks :: "risk_class list"
  wc_job_types :: "string list option"
  wc_active :: bool

record agent_db = access_db +
  agent_jobs :: "agent_job list"
  job_events :: "job_event list"
  credentials :: "worker_credential list"

section \<open>Constraints\<close>

definition job_row_ok :: "agent_job \<Rightarrow> bool" where
  "job_row_ok j \<longleftrightarrow>
     (case jb_confidence j of None \<Rightarrow> True | Some c \<Rightarrow> 0 \<le> c \<and> c \<le> 100) \<and> 0 \<le> jb_retries j \<and>
     (jb_approval_required j \<longleftrightarrow> jb_approval j \<noteq> APPROVAL_NOT_REQUIRED)"

definition agent_jobs_ok :: "'a agent_db_scheme \<Rightarrow> bool" where
  "agent_jobs_ok db \<longleftrightarrow>
     unique_on jb_id (agent_jobs db) \<and>
     list_all (\<lambda>j. job_row_ok j \<and>
       (case jb_org j of None \<Rightarrow> True | Some org \<Rightarrow> org \<in> on_id ` set (organizations db)) \<and>
       (case jo_parent (jb_origin j) of None \<Rightarrow> True | Some p \<Rightarrow> p \<in> jb_id ` set (agent_jobs db)))
       (agent_jobs db)"

definition job_events_ok :: "'a agent_db_scheme \<Rightarrow> bool" where
  "job_events_ok db \<longleftrightarrow> list_all (\<lambda>e. je_job e \<in> jb_id ` set (agent_jobs db)) (job_events db)"

definition credentials_ok :: "'a agent_db_scheme \<Rightarrow> bool" where
  "credentials_ok db \<longleftrightarrow>
     unique_on wc_id (credentials db) \<and> unique_on wc_worker (credentials db) \<and>
     list_all (\<lambda>c. wc_org c \<in> on_id ` set (organizations db)) (credentials db)"

definition agent_constraints :: "'a agent_db_scheme \<Rightarrow> bool" where
  "agent_constraints db \<longleftrightarrow> agent_jobs_ok db \<and> job_events_ok db \<and> credentials_ok db"

datatype agent_error =
    EvidencePlaneMismatch
  | JobNotFound
  | NoApprovalPending
  | ApprovalAlreadyDecided
  | LeaseLost
  | WorkerUnauthorized
  | AgentAccessDenied
  | AgentRequestInvalid
  | AgentStoreError

datatype agent_row =
    JobOut agent_job
  | ClaimOut "(agent_job \<times> uuid \<times> worker_profile) option"
  | CredentialOut string string
  | HeartbeatOut
  | AgentRaisedAfterCommit agent_error

definition commit_agent ::
    "'a agent_db_scheme \<Rightarrow> agent_row \<Rightarrow> agent_error + 'a agent_db_scheme \<times> agent_row" where
  "commit_agent db r = (if agent_constraints db then Inr (db, r) else Inl AgentStoreError)"

record agent_env =
  env_reference :: "string \<Rightarrow> uuid \<Rightarrow> string"
  env_stale_after :: timestamp
  env_token_hash :: "string \<Rightarrow> string"

section \<open>Operations\<close>

definition log_job :: "agent_job \<Rightarrow> job_event_type list \<Rightarrow> 'a agent_db_scheme \<Rightarrow> 'a agent_db_scheme" where
  "log_job j ts db =
     db\<lparr>job_events := job_events db @ map (\<lambda>t. \<lparr>je_job = jb_id j, je_org = jb_org j, je_type = t\<rparr>) ts\<rparr>"

definition put_job :: "agent_job \<Rightarrow> 'a agent_db_scheme \<Rightarrow> 'a agent_db_scheme" where
  "put_job j db = db\<lparr>agent_jobs := put_row jb_id j (agent_jobs db)\<rparr>"

record job_payload =
  jp_origin :: job_origin
  jp_risk :: risk_class
  jp_package_plane :: evidence_plane

definition new_job ::
    "agent_env \<Rightarrow> uuid option \<Rightarrow> uuid \<Rightarrow> job_payload \<Rightarrow> uuid option \<Rightarrow> timestamp \<Rightarrow> agent_job" where
  "new_job env org i p creator now =
     (let r = route_job (jp_risk p) [] in
      \<lparr>jb_id = i, jb_org = org,
       jb_origin = (jp_origin p)\<lparr>jo_created_at := now, jo_created_by := creator\<rparr>,
       jb_risk = rd_risk r,
       jb_status = (if rd_owner_gate r then JOB_OWNER_REVIEW_REQUIRED else JOB_QUEUED),
       jb_worker = None, jb_model = (if rd_local r then profile_model (rd_profile r) else None),
       jb_evidence_ref = Some (env_reference env ''evidence'' i), jb_result_ref = None,
       jb_confidence = None, jb_escalated = False, jb_started_at = None, jb_completed_at = None,
       jb_failed_at = None, jb_retries = 0, jb_usage = None, jb_error = None,
       jb_approval_required = rd_owner_gate r,
       jb_approval = (if rd_owner_gate r then APPROVAL_PENDING else APPROVAL_NOT_REQUIRED),
       jb_lease = None, jb_lease_worker = None, jb_heartbeat = None\<rparr>)"

definition job_create ::
    "agent_env \<Rightarrow> uuid option \<Rightarrow> uuid \<Rightarrow> job_payload \<Rightarrow> uuid option \<Rightarrow> timestamp \<Rightarrow> 'a agent_db_scheme \<Rightarrow>
     agent_error + 'a agent_db_scheme \<times> agent_row" where
  "job_create env org i p creator now db =
     bindE (require (jp_package_plane p = jo_plane (jp_origin p)) EvidencePlaneMismatch) (\<lambda>_.
     case (if jo_key (jp_origin p) = None then None
           else find (\<lambda>j. jb_org j = org \<and> jo_key (jb_origin j) = jo_key (jp_origin p)) (agent_jobs db)) of
       Some j \<Rightarrow> Inr (db, JobOut j)
     | None \<Rightarrow>
         let j = new_job env org i p creator now in
         commit_agent
           (log_job j (if jb_approval_required j
                       then [JOB_EVENT_CREATED, JOB_EVENT_ROUTED, JOB_EVENT_OWNER_REVIEW_REQUIRED]
                       else [JOB_EVENT_CREATED, JOB_EVENT_ROUTED])
             (db\<lparr>agent_jobs := agent_jobs db @ [j]\<rparr>)) (JobOut j))"

definition job_get :: "'a agent_db_scheme \<Rightarrow> uuid option \<Rightarrow> uuid \<Rightarrow> agent_error + agent_job" where
  "job_get db org i = of_option JobNotFound (find (\<lambda>j. jb_id j = i \<and> jb_org j = org) (agent_jobs db))"

text \<open>The queue for a credential: by priority, the highest first, then age, then id.\<close>

definition claimable :: "worker_credential \<Rightarrow> agent_job \<Rightarrow> bool" where
  "claimable c j \<longleftrightarrow> jb_status j = JOB_QUEUED \<and> jb_risk j \<in> set (wc_risks c) \<and>
     (case wc_job_types c of None \<Rightarrow> True | Some ts \<Rightarrow> ts = [] \<or> jo_type (jb_origin j) \<in> set ts)"

definition dispatch_order :: "agent_job list \<Rightarrow> agent_job list" where
  "dispatch_order = sort_key (\<lambda>j. (- jo_priority (jb_origin j), jo_created_at (jb_origin j), jb_id j))"

definition next_job :: "'a agent_db_scheme \<Rightarrow> worker_credential \<Rightarrow> agent_job option" where
  "next_job db c = (case dispatch_order (filter (claimable c) (agent_jobs db)) of [] \<Rightarrow> None | j # _ \<Rightarrow> Some j)"

definition leased_job :: "worker_credential \<Rightarrow> uuid \<Rightarrow> timestamp \<Rightarrow> agent_job \<Rightarrow> agent_job" where
  "leased_job c lease now j =
     j\<lparr>jb_status := JOB_RUNNING, jb_lease := Some lease, jb_lease_worker := Some (wc_worker c),
       jb_worker := Some (wc_worker c), jb_heartbeat := Some now, jb_started_at := Some now\<rparr>"

definition claim_next ::
    "worker_credential \<Rightarrow> uuid \<Rightarrow> timestamp \<Rightarrow> 'a agent_db_scheme \<Rightarrow> 'a agent_db_scheme \<times> agent_job option" where
  "claim_next c lease now db =
     (case next_job db c of
        None \<Rightarrow> (db, None)
      | Some j \<Rightarrow>
          (let j' = leased_job c lease now j
           in (log_job j' [JOB_EVENT_CLAIMED, JOB_EVENT_STARTED] (put_job j' db), Some j')))"

definition holds_lease :: "uuid \<Rightarrow> uuid \<Rightarrow> agent_job \<Rightarrow> bool" where
  "holds_lease i lease j \<longleftrightarrow> jb_id j = i \<and> jb_status j = JOB_RUNNING \<and> jb_lease j = Some lease"

definition job_heartbeat ::
    "uuid \<Rightarrow> uuid \<Rightarrow> timestamp \<Rightarrow> 'a agent_db_scheme \<Rightarrow> agent_error + 'a agent_db_scheme \<times> agent_row" where
  "job_heartbeat i lease now db =
     bindE (of_option LeaseLost (find (holds_lease i lease) (agent_jobs db))) (\<lambda>j.
     commit_agent (put_job (j\<lparr>jb_heartbeat := Some now\<rparr>) db) HeartbeatOut)"

definition is_stale :: "agent_env \<Rightarrow> timestamp \<Rightarrow> agent_job \<Rightarrow> bool" where
  "is_stale env now j \<longleftrightarrow> jb_status j = JOB_RUNNING \<and>
     (case jb_heartbeat j of None \<Rightarrow> False | Some t \<Rightarrow> t < now - env_stale_after env)"

definition stale_jobs :: "agent_env \<Rightarrow> timestamp \<Rightarrow> 'a agent_db_scheme \<Rightarrow> agent_job list" where
  "stale_jobs env now db =
     take 25 (sort_key (\<lambda>j. (case jb_heartbeat j of None \<Rightarrow> 0 | Some t \<Rightarrow> t, jb_id j))
       (filter (is_stale env now) (agent_jobs db)))"

definition released :: "agent_job \<Rightarrow> agent_job" where
  "released j = j\<lparr>jb_lease := None, jb_lease_worker := None\<rparr>"

definition recovered_job :: "timestamp \<Rightarrow> agent_job \<Rightarrow> agent_job" where
  "recovered_job now j =
     (let j0 = (released j)\<lparr>jb_heartbeat := None\<rparr> in
      if jb_retries j < 3 then j0\<lparr>jb_status := JOB_QUEUED, jb_retries := jb_retries j + 1\<rparr>
      else j0\<lparr>jb_status := JOB_TIMED_OUT, jb_failed_at := Some now,
             jb_error := Some (''WORKER_LEASE_STALE'',
               ''Heartbeat stale beyond threshold and retry limit exhausted'')\<rparr>)"

definition recover_job :: "timestamp \<Rightarrow> agent_job \<Rightarrow> 'a agent_db_scheme \<Rightarrow> 'a agent_db_scheme" where
  "recover_job now j db =
     (let j' = recovered_job now j in
      log_job j' [if jb_retries j < 3 then JOB_EVENT_RETRIED else JOB_EVENT_TIMED_OUT] (put_job j' db))"

definition recover_stale :: "agent_env \<Rightarrow> timestamp \<Rightarrow> 'a agent_db_scheme \<Rightarrow> 'a agent_db_scheme" where
  "recover_stale env now db = fold (recover_job now) (stale_jobs env now db) db"

text \<open>The worker's answer, and what its schema demands.\<close>

record structured_result =
  sr_confidence :: int
  sr_summary :: string
  sr_architecture :: bool
  sr_policy :: bool
  sr_action :: string
  sr_escalate :: bool
  sr_escalation_reason :: "string option"

definition structured_ok :: "structured_result \<Rightarrow> bool" where
  "structured_ok s \<longleftrightarrow> 0 \<le> sr_confidence s \<and> sr_confidence s \<le> 100 \<and> sized 4000 (sr_summary s) \<and>
     sized 2000 (sr_action s) \<and>
     (sr_escalate s \<longrightarrow> (case sr_escalation_reason s of None \<Rightarrow> False | Some r \<Rightarrow> strip r \<noteq> []))"

record result_payload =
  rp_result :: structured_result
  rp_usage :: job_usage
  rp_model :: string
  rp_error :: string

definition malformed_job :: "timestamp \<Rightarrow> string \<Rightarrow> agent_job \<Rightarrow> agent_job" where
  "malformed_job now detail j =
     (released j)\<lparr>jb_status := JOB_FAILED, jb_failed_at := Some now,
       jb_error := Some (''MALFORMED_WORKER_OUTPUT'', take 2000 detail)\<rparr>"

definition answered_job :: "agent_env \<Rightarrow> timestamp \<Rightarrow> result_payload \<Rightarrow> agent_job \<Rightarrow> agent_job" where
  "answered_job env now p j =
     (released j)\<lparr>jb_confidence := Some (sr_confidence (rp_result p)), jb_usage := Some (rp_usage p),
       jb_model := Some (rp_model p), jb_completed_at := Some now,
       jb_result_ref := Some (env_reference env ''result'' (jb_id j))\<rparr>"

definition result_decision :: "result_payload \<Rightarrow> agent_job \<Rightarrow> escalation_decision" where
  "result_decision p j =
     evaluate_worker_result (jb_risk j) (sr_confidence (rp_result p)) (sr_architecture (rp_result p))
       (sr_policy (rp_result p)) (sr_escalate (rp_result p))"

definition escalated_job :: "escalation_decision \<Rightarrow> agent_job \<Rightarrow> agent_job" where
  "escalated_job d j =
     (if ed_owner_gate d
      then j\<lparr>jb_status := JOB_ESCALATED, jb_escalated := True, jb_approval_required := True,
             jb_approval := APPROVAL_PENDING\<rparr>
      else j\<lparr>jb_status := JOB_ESCALATED, jb_escalated := True\<rparr>)"

definition submit_result ::
    "agent_env \<Rightarrow> uuid \<Rightarrow> uuid \<Rightarrow> result_payload \<Rightarrow> timestamp \<Rightarrow> 'a agent_db_scheme \<Rightarrow>
     agent_error + 'a agent_db_scheme \<times> agent_row" where
  "submit_result env i lease p now db =
     bindE (of_option LeaseLost (find (holds_lease i lease) (agent_jobs db))) (\<lambda>j.
     if \<not> structured_ok (rp_result p) then
       (let j' = malformed_job now (rp_error p) j
        in commit_agent (log_job j' [JOB_EVENT_FAILED] (put_job j' db)) (JobOut j'))
     else
       (let d = result_decision p j; j1 = answered_job env now p j in
        if ed_accept d then
          (let j' = j1\<lparr>jb_status := JOB_SUCCEEDED\<rparr>
           in commit_agent (log_job j' [JOB_EVENT_SUCCEEDED] (put_job j' db)) (JobOut j'))
        else
          (let j' = escalated_job d j1;
               ts = (if ed_owner_gate d then [JOB_EVENT_ESCALATED, JOB_EVENT_OWNER_REVIEW_REQUIRED]
                     else [JOB_EVENT_ESCALATED])
           in commit_agent (log_job j' ts (put_job j' db)) (JobOut j'))))"

definition failed_job :: "string \<Rightarrow> string \<Rightarrow> bool \<Rightarrow> timestamp \<Rightarrow> agent_job \<Rightarrow> agent_job" where
  "failed_job code detail retryable now j =
     (if retryable \<and> jb_retries j < 3
      then (released j)\<lparr>jb_status := JOB_QUEUED, jb_retries := jb_retries j + 1, jb_heartbeat := None\<rparr>
      else (released j)\<lparr>jb_status := JOB_FAILED, jb_failed_at := Some now,
             jb_error := Some (code, take 2000 detail)\<rparr>)"

definition submit_failure ::
    "uuid \<Rightarrow> uuid \<Rightarrow> string \<Rightarrow> string \<Rightarrow> bool \<Rightarrow> timestamp \<Rightarrow> 'a agent_db_scheme \<Rightarrow>
     agent_error + 'a agent_db_scheme \<times> agent_row" where
  "submit_failure i lease code detail retryable now db =
     bindE (of_option LeaseLost (find (holds_lease i lease) (agent_jobs db))) (\<lambda>j.
     let j' = failed_job code detail retryable now j;
         t = (if jb_status j' = JOB_QUEUED then JOB_EVENT_RETRIED else JOB_EVENT_FAILED)
     in commit_agent (log_job j' [t] (put_job j' db)) (JobOut j'))"

definition apply_owner_decision ::
    "agent_job \<Rightarrow> bool \<Rightarrow> 'a agent_db_scheme \<Rightarrow> agent_error + 'a agent_db_scheme \<times> agent_row" where
  "apply_owner_decision j approve db =
     bindE (require (jb_approval_required j) NoApprovalPending) (\<lambda>_.
     bindE (require (jb_approval j = APPROVAL_PENDING) ApprovalAlreadyDecided) (\<lambda>_.
     let j' = j\<lparr>jb_approval := (if approve then APPROVAL_APPROVED else APPROVAL_REJECTED)\<rparr>;
         t = (if approve then JOB_EVENT_OWNER_APPROVED else JOB_EVENT_OWNER_REJECTED)
     in commit_agent (log_job j' [t] (put_job j' db)) (JobOut j')))"

section \<open>Routes\<close>

text \<open>The credential behind a bearer header; the scheme name is compared as it is.\<close>

definition worker_token :: "string option \<Rightarrow> string option" where
  "worker_token authorization =
     (case authorization of
        None \<Rightarrow> None
      | Some a \<Rightarrow>
          if take 7 a \<noteq> ''Bearer '' then None
          else if strip (drop 7 a) = [] then None else Some (strip (drop 7 a)))"

definition require_worker_credential ::
    "agent_env \<Rightarrow> 'a agent_db_scheme \<Rightarrow> uuid \<Rightarrow> string option \<Rightarrow> agent_error + worker_credential" where
  "require_worker_credential env db org authorization =
     bindE (of_option WorkerUnauthorized (worker_token authorization)) (\<lambda>token.
     of_option WorkerUnauthorized
       (find (\<lambda>c. wc_org c = org \<and> wc_token_hash c = env_token_hash env token \<and> wc_active c) (credentials db)))"

definition create_worker_credential ::
    "agent_env \<Rightarrow> uuid \<Rightarrow> uuid \<Rightarrow> string \<Rightarrow> string list option \<Rightarrow> string \<Rightarrow> 'a agent_db_scheme \<Rightarrow>
     agent_error + 'a agent_db_scheme \<times> agent_row" where
  "create_worker_credential env org i worker types token db =
     (let c = \<lparr>wc_id = i, wc_org = org, wc_worker = worker, wc_token_hash = env_token_hash env token,
               wc_risks = [R0, R1], wc_job_types = types, wc_active = True\<rparr>
      in commit_agent (db\<lparr>credentials := credentials db @ [c]\<rparr>) (CredentialOut worker token))"

text \<open>
  A claim first sweeps the stale leases and commits, then takes a job and commits, and only
  then reads the job back under the organization of the route, which can fail.
\<close>

definition claim_job ::
    "agent_env \<Rightarrow> uuid \<Rightarrow> worker_credential \<Rightarrow> uuid \<Rightarrow> timestamp \<Rightarrow> 'a agent_db_scheme \<Rightarrow>
     agent_error + 'a agent_db_scheme \<times> agent_row" where
  "claim_job env org c lease now db =
     (let (db2, taken) = claim_next c lease now (recover_stale env now db) in
      case taken of
        None \<Rightarrow> commit_agent db2 (ClaimOut None)
      | Some j \<Rightarrow>
          (case job_get db2 (Some org) (jb_id j) of
             Inl e \<Rightarrow> commit_agent db2 (AgentRaisedAfterCommit e)
           | Inr j' \<Rightarrow> commit_agent db2 (ClaimOut (Some (j', lease, rd_profile (route_job (jb_risk j') []))))))"

datatype agent_op =
    CreateJob authenticated_user uuid job_payload timestamp
  | DecideJob authenticated_user uuid bool
  | CreateCredential authenticated_user uuid string "string list option" string
  | ClaimJob "string option" uuid timestamp
  | HeartbeatJob "string option" uuid uuid timestamp
  | SubmitResult "string option" uuid uuid result_payload timestamp
  | SubmitFailure "string option" uuid uuid string string bool timestamp

definition with_role ::
    "membership_role list \<Rightarrow> 'a agent_db_scheme \<Rightarrow> uuid \<Rightarrow> authenticated_user \<Rightarrow>
     (agent_error + 'a agent_db_scheme \<times> agent_row) \<Rightarrow> agent_error + 'a agent_db_scheme \<times> agent_row" where
  "with_role roles db org u m =
     (case require_organization_roles roles db org u of Inl _ \<Rightarrow> Inl AgentAccessDenied | Inr _ \<Rightarrow> m)"

definition as_worker ::
    "agent_env \<Rightarrow> 'a agent_db_scheme \<Rightarrow> uuid \<Rightarrow> string option \<Rightarrow>
     (worker_credential \<Rightarrow> agent_error + 'a agent_db_scheme \<times> agent_row) \<Rightarrow>
     agent_error + 'a agent_db_scheme \<times> agent_row" where
  "as_worker env db org authorization f = bindE (require_worker_credential env db org authorization) f"

definition result_request_ok :: "result_payload \<Rightarrow> bool" where
  "result_request_ok p \<longleftrightarrow> structured_ok (rp_result p) \<and> 0 \<le> ju_time (rp_usage p) \<and>
     0 \<le> ju_input (rp_usage p) \<and> 0 \<le> ju_output (rp_usage p) \<and> 0 \<le> ju_reasoning (rp_usage p)"

text \<open>One request to the routes of an organization.\<close>

fun agent_step ::
    "agent_env \<Rightarrow> uuid \<times> agent_op \<Rightarrow> 'a agent_db_scheme \<Rightarrow> agent_error + 'a agent_db_scheme \<times> agent_row" where
  "agent_step env (org, CreateJob u i p now) db =
     with_role analysis_roles db org u (job_create env (Some org) i p (Some (au_id u)) now db)"
| "agent_step env (org, DecideJob u i approve) db =
     with_role organization_admin_roles db org u
       (bindE (job_get db (Some org) i) (\<lambda>j. apply_owner_decision j approve db))"
| "agent_step env (org, CreateCredential u i worker types token) db =
     with_role organization_admin_roles db org u (create_worker_credential env org i worker types token db)"
| "agent_step env (org, ClaimJob authorization lease now) db =
     as_worker env db org authorization (\<lambda>c. claim_job env org c lease now db)"
| "agent_step env (org, HeartbeatJob authorization i lease now) db =
     as_worker env db org authorization (\<lambda>_. job_heartbeat i lease now db)"
| "agent_step env (org, SubmitResult authorization i lease p now) db =
     as_worker env db org authorization (\<lambda>_.
       bindE (require (result_request_ok p) AgentRequestInvalid) (\<lambda>_. submit_result env i lease p now db))"
| "agent_step env (org, SubmitFailure authorization i lease code detail retryable now) db =
     as_worker env db org authorization (\<lambda>_. submit_failure i lease code detail retryable now db)"

end
