(* ===== verification/Agent_Proofs.thy ===== *)
theory Agent_Proofs
  imports Agent_Jobs
begin

text \<open>
  What a request does to the queue, as a sequence of moves of single jobs, and the invariants
  the moves keep.
\<close>

section \<open>Moves\<close>

inductive job_move :: "uuid set \<Rightarrow> agent_job \<Rightarrow> job_event_type list \<Rightarrow> agent_job \<Rightarrow> bool" where
  claimed: "jb_status j = JOB_QUEUED \<Longrightarrow> lease \<in> ls \<Longrightarrow>
    job_move ls j [JOB_EVENT_CLAIMED, JOB_EVENT_STARTED] (leased_job c lease now j)"
| beat: "jb_status j = JOB_RUNNING \<Longrightarrow> job_move ls j [] (j\<lparr>jb_heartbeat := Some now\<rparr>)"
| recovered: "jb_status j = JOB_RUNNING \<Longrightarrow>
    t = (if jb_retries j < 3 then JOB_EVENT_RETRIED else JOB_EVENT_TIMED_OUT) \<Longrightarrow>
    job_move ls j [t] (recovered_job now j)"
| malformed: "jb_status j = JOB_RUNNING \<Longrightarrow> job_move ls j [JOB_EVENT_FAILED] (malformed_job now detail j)"
| succeeded: "jb_status j = JOB_RUNNING \<Longrightarrow> structured_ok (rp_result p) \<Longrightarrow>
    ed_accept (result_decision p j) \<Longrightarrow>
    job_move ls j [JOB_EVENT_SUCCEEDED] ((answered_job env now p j)\<lparr>jb_status := JOB_SUCCEEDED\<rparr>)"
| escalated: "jb_status j = JOB_RUNNING \<Longrightarrow> structured_ok (rp_result p) \<Longrightarrow>
    \<not> ed_accept (result_decision p j) \<Longrightarrow>
    ts \<in> {[JOB_EVENT_ESCALATED], [JOB_EVENT_ESCALATED, JOB_EVENT_OWNER_REVIEW_REQUIRED]} \<Longrightarrow>
    job_move ls j ts (escalated_job (result_decision p j) (answered_job env now p j))"
| failed: "jb_status j = JOB_RUNNING \<Longrightarrow> t \<in> {JOB_EVENT_RETRIED, JOB_EVENT_FAILED} \<Longrightarrow>
    job_move ls j [t] (failed_job code detail retryable now j)"
| decided: "jb_approval_required j \<Longrightarrow> jb_approval j = APPROVAL_PENDING \<Longrightarrow>
    a \<in> {APPROVAL_APPROVED, APPROVAL_REJECTED} \<Longrightarrow>
    t \<in> {JOB_EVENT_OWNER_APPROVED, JOB_EVENT_OWNER_REJECTED} \<Longrightarrow>
    job_move ls j [t] (j\<lparr>jb_approval := a\<rparr>)"

inductive_cases job_moveE: "job_move ls j ts j'"

inductive agent_move :: "uuid set \<Rightarrow> 'a agent_db_scheme \<Rightarrow> 'a agent_db_scheme \<Rightarrow> bool" where
  moved: "j \<in> set (agent_jobs db) \<Longrightarrow> job_move ls j ts j' \<Longrightarrow>
    agent_move ls db (log_job j' ts (put_job j' db))"

inductive agent_addition :: "'a agent_db_scheme \<Rightarrow> 'a agent_db_scheme \<Rightarrow> bool" where
  kept: "agent_addition db db"
| job_added: "j = new_job env org i p creator now \<Longrightarrow> JOB_EVENT_STARTED \<notin> set ts \<Longrightarrow>
    agent_addition db (log_job j ts (db\<lparr>agent_jobs := agent_jobs db @ [j]\<rparr>))"
| credential_added: "agent_addition db (db\<lparr>credentials := credentials db @ [c]\<rparr>)"

lemma job_move_keeps:
  "job_move ls j ts j' \<Longrightarrow> jb_id j' = jb_id j \<and> jb_org j' = jb_org j \<and> jb_risk j' = jb_risk j \<and> jb_origin j' = jb_origin j"
  by (cases rule: job_move.cases, assumption)
    (simp_all add: leased_job_def recovered_job_def released_def malformed_job_def answered_job_def
      escalated_job_def failed_job_def Let_def)

lemma log_job_Nil [simp]: "log_job j [] db = db"
  by (simp add: log_job_def)

lemma commit_agentD: "commit_agent db r = Inr (db', r') \<Longrightarrow> db' = db \<and> r' = r \<and> agent_constraints db'"
  by (auto simp: commit_agent_def split: if_splits)

lemma job_ids_unique: "agent_constraints db \<Longrightarrow> unique_on jb_id (agent_jobs db)"
  by (simp add: agent_constraints_def agent_jobs_ok_def)

lemma holds_leaseD:
  "find (holds_lease i lease) js = Some j \<Longrightarrow> j \<in> set js \<and> jb_id j = i \<and> jb_status j = JOB_RUNNING \<and> jb_lease j = Some lease"
  by (auto simp: holds_lease_def dest!: find_SomeD)

lemma with_roleD: "with_role roles db org u m = Inr x \<Longrightarrow> m = Inr x"
  by (simp add: with_role_def split: sum.splits)

section \<open>Requests as moves\<close>

lemma recover_jobs_moves:
  assumes "distinct (map jb_id js)" "set js \<subseteq> set (agent_jobs db)" "unique_on jb_id (agent_jobs db)"
    and "\<forall>j \<in> set js. jb_status j = JOB_RUNNING"
  shows "(agent_move ls)\<^sup>*\<^sup>* db (fold (recover_job now) js db)"
  using assms
proof (induction js arbitrary: db)
  case Nil
  then show ?case by simp
next
  case (Cons j js)
  let ?db = "recover_job now j db"
  have id: "jb_id (recovered_job now j) = jb_id j" by (simp add: recovered_job_def released_def Let_def)
  have "agent_move ls db ?db"
    unfolding recover_job_def Let_def
    using Cons.prems(2,4) by (intro agent_move.moved [of j] job_move.recovered) auto
  moreover have "set js \<subseteq> set (agent_jobs ?db)"
  proof
    fix k assume k: "k \<in> set js"
    then have "jb_id k \<noteq> jb_id j" using Cons.prems(1) by (auto simp: image_iff)
    with k Cons.prems(2) show "k \<in> set (agent_jobs ?db)"
      by (auto simp: recover_job_def log_job_def put_job_def in_put_row_iff id Let_def)
  qed
  moreover have "unique_on jb_id (agent_jobs ?db)"
    using Cons.prems(3) by (simp add: recover_job_def log_job_def put_job_def Let_def)
  ultimately have "(agent_move ls)\<^sup>*\<^sup>* ?db (fold (recover_job now) js ?db)"
    using Cons.prems(1,4) by (intro Cons.IH) auto
  with \<open>agent_move ls db ?db\<close> show ?case by simp
qed

lemma recover_stale_moves:
  assumes "unique_on jb_id (agent_jobs db)"
  shows "(agent_move ls)\<^sup>*\<^sup>* db (recover_stale env now db)"
proof -
  have s: "set (stale_jobs env now db) \<subseteq> set (filter (is_stale env now) (agent_jobs db))"
    unfolding stale_jobs_def by (metis set_sort set_take_subset)
  have "distinct (map jb_id (sort_key k (filter P (agent_jobs db))))" for k :: "agent_job \<Rightarrow> timestamp \<times> uuid" and P
  proof -
    have "unique_on jb_id (filter P (agent_jobs db))" using assms by (rule unique_on_filter)
    then have "distinct (filter P (agent_jobs db)) \<and> inj_on jb_id (set (filter P (agent_jobs db)))"
      by (simp add: unique_on_def distinct_map)
    then show ?thesis by (simp add: distinct_map)
  qed
  then have "distinct (map jb_id (stale_jobs env now db))"
    unfolding stale_jobs_def take_map [symmetric] by (rule distinct_take)
  then show ?thesis
    unfolding recover_stale_def using s assms by (intro recover_jobs_moves) (auto simp: is_stale_def)
qed

lemma next_jobD:
  assumes "next_job db c = Some j"
  shows "j \<in> set (agent_jobs db)" "claimable c j"
    and "k \<in> set (agent_jobs db) \<Longrightarrow> claimable c k \<Longrightarrow>
      (- jo_priority (jb_origin j), jo_created_at (jb_origin j), jb_id j) \<le>
      (- jo_priority (jb_origin k), jo_created_at (jb_origin k), jb_id k)"
proof -
  obtain js where js: "dispatch_order (filter (claimable c) (agent_jobs db)) = j # js"
    using assms by (auto simp: next_job_def split: list.splits)
  have set: "set (j # js) = {k \<in> set (agent_jobs db). claimable c k}"
    unfolding js [symmetric] dispatch_order_def by simp
  then show "j \<in> set (agent_jobs db)" "claimable c j" by auto
  show "(- jo_priority (jb_origin j), jo_created_at (jb_origin j), jb_id j) \<le>
      (- jo_priority (jb_origin k), jo_created_at (jb_origin k), jb_id k)"
    if "k \<in> set (agent_jobs db)" "claimable c k"
  proof -
    let ?f = "\<lambda>j. (- jo_priority (jb_origin j), jo_created_at (jb_origin j), jb_id j)"
    have "sorted (map ?f (j # js))"
      unfolding js [symmetric] dispatch_order_def by (rule sorted_sort_key)
    moreover have "k \<in> set (j # js)" using set that by blast
    ultimately show ?thesis by auto
  qed
qed

lemma claim_next_moves: "fst (claim_next c lease now db) = db \<or> agent_move {lease} db (fst (claim_next c lease now db))"
proof (cases "next_job db c")
  case (Some j)
  have "agent_move {lease} db
      (log_job (leased_job c lease now j) [JOB_EVENT_CLAIMED, JOB_EVENT_STARTED] (put_job (leased_job c lease now j) db))"
    using next_jobD(1,2) [OF Some] by (intro agent_move.moved [of j] job_move.claimed) (auto simp: claimable_def)
  then show ?thesis by (simp add: claim_next_def Some Let_def)
qed (simp add: claim_next_def)

fun op_leases :: "agent_op \<Rightarrow> uuid set" where
  "op_leases (ClaimJob _ lease _) = {lease}"
| "op_leases _ = {}"

fun is_create :: "agent_op \<Rightarrow> bool" where
  "is_create (CreateJob _ _ _ _) = True"
| "is_create _ = False"

lemma submit_result_move:
  "submit_result env i lease p now db = Inr (db', r) \<Longrightarrow> agent_move ls db db' \<and> agent_constraints db'"
  by (auto simp: submit_result_def Let_def dest!: commit_agentD holds_leaseD split: if_splits
      intro!: agent_move.moved job_move.malformed job_move.succeeded job_move.escalated)

lemma submit_failure_move:
  "submit_failure i lease code detail retryable now db = Inr (db', r) \<Longrightarrow> agent_move ls db db' \<and> agent_constraints db'"
  by (auto simp: submit_failure_def Let_def dest!: commit_agentD holds_leaseD
      intro!: agent_move.moved job_move.failed)

lemma job_heartbeat_move:
  assumes "job_heartbeat i lease now db = Inr (db', r)"
  shows "agent_move ls db db' \<and> agent_constraints db'"
proof -
  obtain j where j: "j \<in> set (agent_jobs db)" "jb_status j = JOB_RUNNING"
    and db': "db' = put_job (j\<lparr>jb_heartbeat := Some now\<rparr>) db" "agent_constraints db'"
    using assms by (auto simp: job_heartbeat_def dest!: commit_agentD holds_leaseD)
  have "agent_move ls db (log_job (j\<lparr>jb_heartbeat := Some now\<rparr>) [] db')"
    unfolding db'(1) using j by (intro agent_move.moved [of j] job_move.beat)
  with db'(2) show ?thesis by simp
qed

lemma owner_decision_move:
  "j \<in> set (agent_jobs db) \<Longrightarrow> apply_owner_decision j approve db = Inr (db', r) \<Longrightarrow>
     agent_move ls db db' \<and> agent_constraints db'"
  by (auto simp: apply_owner_decision_def Let_def dest!: commit_agentD
      intro!: agent_move.moved job_move.decided)

lemma claim_job_moves:
  assumes "claim_job env org c lease now db = Inr (db', r)" "unique_on jb_id (agent_jobs db)"
  shows "(agent_move {lease})\<^sup>*\<^sup>* db db' \<and> agent_constraints db'"
proof -
  let ?db = "recover_stale env now db"
  have "db' = fst (claim_next c lease now ?db) \<and> agent_constraints db'"
    using assms(1) by (auto simp: claim_job_def case_prod_beta split: option.splits sum.splits dest!: commit_agentD)
  then show ?thesis
    using recover_stale_moves [OF assms(2), of "{lease}" env now] claim_next_moves [of c lease now ?db]
    by (auto intro: rtranclp.rtrancl_into_rtrancl)
qed

lemma agent_step_moves:
  assumes "agent_step env (org, op) db = Inr (db', r)" "agent_constraints db"
  shows "((agent_move (op_leases op))\<^sup>*\<^sup>* db db' \<or> is_create op \<and> agent_addition db db' \<or>
      \<not> is_create op \<and> agent_addition db db' \<and> agent_jobs db' = agent_jobs db \<and> job_events db' = job_events db) \<and>
    agent_constraints db'"
proof (cases op)
  case (CreateJob u i p now)
  with assms have "job_create env (Some org) i p (Some (au_id u)) now db = Inr (db', r)"
    by (auto dest: with_roleD)
  then have "agent_addition db db' \<and> agent_constraints db'"
    using assms(2)
    by (auto simp: job_create_def Let_def split: option.splits if_splits dest!: commit_agentD
        intro: agent_addition.kept intro!: agent_addition.job_added)
  with CreateJob show ?thesis by simp
next
  case (DecideJob u i approve)
  with assms(1) obtain j where "j \<in> set (agent_jobs db)" "apply_owner_decision j approve db = Inr (db', r)"
    by (auto simp: job_get_def dest!: with_roleD find_SomeD)
  with owner_decision_move DecideJob show ?thesis by blast
next
  case (CreateCredential u i worker types token)
  with assms(1) have "create_worker_credential env org i worker types token db = Inr (db', r)"
    by (auto dest: with_roleD)
  with CreateCredential show ?thesis
    by (auto simp: create_worker_credential_def Let_def intro: agent_addition.credential_added dest!: commit_agentD)
next
  case (ClaimJob authorization lease now)
  with assms(1) obtain c where "claim_job env org c lease now db = Inr (db', r)" by (auto simp: as_worker_def)
  with claim_job_moves [OF this job_ids_unique [OF assms(2)]] ClaimJob show ?thesis by simp
next
  case (HeartbeatJob authorization i lease now)
  with assms(1) have "job_heartbeat i lease now db = Inr (db', r)" by (auto simp: as_worker_def)
  with job_heartbeat_move HeartbeatJob show ?thesis by blast
next
  case (SubmitResult authorization i lease p now)
  with assms(1) have "submit_result env i lease p now db = Inr (db', r)" by (auto simp: as_worker_def)
  with submit_result_move SubmitResult show ?thesis by blast
next
  case (SubmitFailure authorization i lease code detail retryable now)
  with assms(1) have "submit_failure i lease code detail retryable now db = Inr (db', r)" by (auto simp: as_worker_def)
  with submit_failure_move SubmitFailure show ?thesis by blast
qed

section \<open>Invariants\<close>

text \<open>A row: who holds it, how often it was retried, what its risk class allows.\<close>

definition job_sound :: "agent_job \<Rightarrow> bool" where
  "job_sound j \<longleftrightarrow>
     (jb_status j = JOB_RUNNING \<longleftrightarrow> jb_lease j \<noteq> None) \<and>
     (jb_status j = JOB_RUNNING \<longrightarrow> jb_heartbeat j \<noteq> None \<and> jb_lease_worker j \<noteq> None) \<and>
     0 \<le> jb_retries j \<and> jb_retries j \<le> 3 \<and>
     jb_status j \<notin> {JOB_CLAIMED, JOB_CANCELLED} \<and>
     (jb_risk j \<in> {R2, R3} \<longleftrightarrow> jb_status j = JOB_OWNER_REVIEW_REQUIRED) \<and>
     (jb_status j = JOB_OWNER_REVIEW_REQUIRED \<longrightarrow> jb_retries j = 0) \<and>
     (jb_approval j = APPROVAL_PENDING \<longrightarrow> jb_status j \<in> {JOB_OWNER_REVIEW_REQUIRED, JOB_ESCALATED}) \<and>
     (jb_approval_required j \<longrightarrow> jb_status j \<in> {JOB_OWNER_REVIEW_REQUIRED, JOB_ESCALATED}) \<and>
     (jb_status j = JOB_SUCCEEDED \<longrightarrow> (\<exists>c. jb_confidence j = Some c \<and> 90 \<le> c) \<and> jb_result_ref j \<noteq> None)"

text \<open>How often a job was started, from its events; each retry was preceded by one.\<close>

definition starts :: "'a agent_db_scheme \<Rightarrow> uuid \<Rightarrow> nat" where
  "starts db i = length (filter (\<lambda>e. je_job e = i \<and> je_type e = JOB_EVENT_STARTED) (job_events db))"

definition starts_due :: "agent_job \<Rightarrow> int" where
  "starts_due j = jb_retries j + (if jb_status j \<in> {JOB_QUEUED, JOB_OWNER_REVIEW_REQUIRED} then 0 else 1)"

definition agent_wf :: "'a agent_db_scheme \<Rightarrow> bool" where
  "agent_wf db \<longleftrightarrow> agent_constraints db \<and>
     (\<forall>j \<in> set (agent_jobs db). job_sound j \<and> int (starts db (jb_id j)) = starts_due j)"

definition started_by :: "job_event_type list \<Rightarrow> int" where
  "started_by ts = int (length (filter (\<lambda>t. t = JOB_EVENT_STARTED) ts))"

lemma risk_cases: "r \<in> {R2, R3} \<or> r \<in> {R0, R1}"
  by (cases r) simp_all

lemma accepted_confident:
  "ed_accept (result_decision p j) \<Longrightarrow> 90 \<le> sr_confidence (rp_result p)"
  by (cases "jb_risk j") (auto simp: result_decision_def escalate_to_def accept_result_def split: if_splits)

lemma job_move_sound:
  assumes "job_move ls j ts j'" "job_sound j"
  shows "job_sound j' \<and> starts_due j' = starts_due j + started_by ts"
  using assms(1)
proof cases
  case (claimed lease c now)
  then show ?thesis using assms(2)
    by (auto simp: job_sound_def leased_job_def starts_due_def started_by_def)
next
  case (succeeded p env now)
  then show ?thesis using assms(2) accepted_confident [OF succeeded(5)]
    by (auto simp: job_sound_def answered_job_def released_def starts_due_def started_by_def)
qed (use assms(2) in \<open>auto simp: job_sound_def recovered_job_def released_def malformed_job_def
      answered_job_def escalated_job_def failed_job_def starts_due_def started_by_def Let_def\<close>)

lemma starts_log:
  "int (starts (log_job j' ts (put_job k db)) i) = int (starts db i) + (if i = jb_id j' then started_by ts else 0)"
proof -
  have "filter (\<lambda>e. je_job e = i \<and> je_type e = JOB_EVENT_STARTED)
      (map (\<lambda>t. \<lparr>je_job = jb_id j', je_org = jb_org j', je_type = t\<rparr>) ts) =
    (if i = jb_id j' then map (\<lambda>t. \<lparr>je_job = jb_id j', je_org = jb_org j', je_type = t\<rparr>)
       (filter (\<lambda>t. t = JOB_EVENT_STARTED) ts) else [])"
    by (induction ts) auto
  then show ?thesis by (simp add: starts_def log_job_def put_job_def started_by_def)
qed

lemma agent_move_tables:
  assumes "agent_move ls db db'"
  obtains j ts j' where "j \<in> set (agent_jobs db)" "job_move ls j ts j'" "jb_id j' = jb_id j"
    "agent_jobs db' = put_row jb_id j' (agent_jobs db)" "db' = log_job j' ts (put_job j' db)"
  using assms
proof cases
  case (moved j ts j')
  with job_move_keeps [OF moved(3)] show ?thesis
    by (intro that [of j ts j']) (simp_all add: log_job_def put_job_def)
qed

definition queue_sound :: "'a agent_db_scheme \<Rightarrow> bool" where
  "queue_sound db \<longleftrightarrow> unique_on jb_id (agent_jobs db) \<and>
     (\<forall>j \<in> set (agent_jobs db). job_sound j \<and> int (starts db (jb_id j)) = starts_due j)"

lemma agent_move_sound:
  assumes "agent_move ls db db'" "queue_sound db"
  shows "queue_sound db'"
proof -
  obtain j ts j' where m: "j \<in> set (agent_jobs db)" "job_move ls j ts j'" "jb_id j' = jb_id j"
    and js: "agent_jobs db' = put_row jb_id j' (agent_jobs db)" and db': "db' = log_job j' ts (put_job j' db)"
    by (rule agent_move_tables [OF assms(1)])
  have j: "job_sound j" "int (starts db (jb_id j)) = starts_due j" "unique_on jb_id (agent_jobs db)"
    using assms(2) m(1) by (simp_all add: queue_sound_def)
  note k = job_move_sound [OF m(2) j(1)]
  have "job_sound x \<and> int (starts db' (jb_id x)) = starts_due x" if x: "x \<in> set (agent_jobs db')" for x
  proof (cases "x = j'")
    case True
    then show ?thesis using k j(2) by (simp add: db' starts_log m(3))
  next
    case False
    then have "x \<in> set (agent_jobs db)" "jb_id x \<noteq> jb_id j'" using x by (auto simp: js in_put_row_iff)
    with assms(2) show ?thesis by (simp add: db' starts_log queue_sound_def)
  qed
  with j(3) show ?thesis by (simp add: queue_sound_def js)
qed

lemma agent_moves_sound: "(agent_move ls)\<^sup>*\<^sup>* db db' \<Longrightarrow> queue_sound db \<Longrightarrow> queue_sound db'"
  by (induction rule: rtranclp_induct) (auto intro: agent_move_sound)

lemma agent_wf_queue: "agent_wf db \<longleftrightarrow> agent_constraints db \<and> queue_sound db"
  by (auto simp: agent_wf_def queue_sound_def job_ids_unique)

lemma new_job_sound: "job_sound (new_job env org i p creator now)" "starts_due (new_job env org i p creator now) = 0"
  by (cases "jp_risk p"; simp add: new_job_def job_sound_def starts_due_def route_job_def classify_risk_def Let_def)+

lemma agent_addition_sound:
  assumes "agent_addition db db'" "agent_wf db" "agent_constraints db'"
  shows "queue_sound db'"
  using assms(1)
proof cases
  case (job_added j env org i p creator now ts)
  have u: "jb_id j \<notin> jb_id ` set (agent_jobs db)"
    using job_ids_unique [OF assms(3)] by (simp add: job_added(1) log_job_def unique_on_snoc)
  have "\<forall>e \<in> set (job_events db). je_job e \<in> jb_id ` set (agent_jobs db)"
    using assms(2) by (simp add: agent_wf_def agent_constraints_def job_events_ok_def list_all_iff)
  with u have "je_job e \<noteq> jb_id j" if "e \<in> set (job_events db)" for e using that by metis
  then have fresh: "starts db (jb_id j) = 0"
    by (simp add: starts_def filter_empty_conv)
  have same: "starts db' k = starts db k" for k
    using job_added(3) by (auto simp: job_added(1) starts_def log_job_def filter_empty_conv)
  show ?thesis
    using assms(2) job_ids_unique [OF assms(3)] fresh new_job_sound
    by (auto simp: queue_sound_def agent_wf_def same) (auto simp: job_added(1,2) log_job_def fresh)
next
  case (credential_added c)
  then show ?thesis using assms(2) by (auto simp: agent_wf_queue queue_sound_def starts_def)
qed (use assms(2) in \<open>simp add: agent_wf_queue\<close>)

lemma agent_step_wf:
  assumes "agent_wf db" "agent_step env call db = Inr (db', r)"
  shows "agent_wf db'"
proof (cases call)
  case (Pair org op)
  have c: "agent_constraints db" using assms(1) by (simp add: agent_wf_def)
  from agent_step_moves [of env org op db db' r] assms(2) c Pair
  have s: "(agent_move (op_leases op))\<^sup>*\<^sup>* db db' \<or> agent_addition db db'" and c': "agent_constraints db'"
    by blast+
  with assms(1) agent_moves_sound agent_addition_sound show ?thesis unfolding agent_wf_queue by blast
qed

lemma claim_next_star: "(agent_move {lease})\<^sup>*\<^sup>* db (fst (claim_next c lease now db))"
  using claim_next_moves [of c lease now db] by auto

text \<open>The moves of jobs keep the constraints of the tables, so none of their commits fails.\<close>

lemma job_move_row_ok: "job_move ls j ts j' \<Longrightarrow> job_row_ok j \<Longrightarrow> 0 \<le> jb_retries j \<Longrightarrow> job_row_ok j'"
  by (cases rule: job_move.cases, assumption)
    (auto simp: job_row_ok_def leased_job_def recovered_job_def released_def malformed_job_def answered_job_def
      escalated_job_def failed_job_def structured_ok_def Let_def)

lemma agent_move_constraints:
  assumes "agent_move ls db db'" "agent_constraints db"
  shows "agent_constraints db'"
proof -
  obtain j ts j' where m: "j \<in> set (agent_jobs db)" "job_move ls j ts j'" "jb_id j' = jb_id j"
    "agent_jobs db' = put_row jb_id j' (agent_jobs db)" and db': "db' = log_job j' ts (put_job j' db)"
    by (rule agent_move_tables [OF assms(1)])
  have keys: "jb_id ` set (agent_jobs db') = jb_id ` set (agent_jobs db)" by (simp add: m(4) put_row_keys)
  have tables: "organizations db' = organizations db" "credentials db' = credentials db"
    by (simp_all add: db' log_job_def put_job_def)
  let ?ok = "\<lambda>j. job_row_ok j \<and>
    (case jb_org j of None \<Rightarrow> True | Some org \<Rightarrow> org \<in> on_id ` set (organizations db)) \<and>
    (case jo_parent (jb_origin j) of None \<Rightarrow> True | Some p \<Rightarrow> p \<in> jb_id ` set (agent_jobs db))"
  have old: "?ok k" if "k \<in> set (agent_jobs db)" for k
    using assms(2) that by (simp add: agent_constraints_def agent_jobs_ok_def list_all_iff)
  have "0 \<le> jb_retries j" using old [OF m(1)] by (simp add: job_row_ok_def)
  then have "?ok j'"
    using old [OF m(1)] job_move_row_ok [OF m(2)] job_move_keeps [OF m(2)] by simp
  with old have "?ok k" if "k \<in> set (agent_jobs db')" for k
    using that set_put_row [of jb_id j' "agent_jobs db"] unfolding m(4) by blast
  then have "agent_jobs_ok db'"
    using job_ids_unique [OF assms(2)] unfolding agent_jobs_ok_def list_all_iff tables keys by (simp add: m(4))
  moreover have "job_events_ok db'"
    using assms(2) m(1,3) by (auto simp: agent_constraints_def job_events_ok_def keys list_all_iff)
      (auto simp: db' log_job_def put_job_def)
  ultimately show ?thesis
    using assms(2) by (simp add: agent_constraints_def credentials_ok_def tables)
qed

lemma agent_moves_constraints: "(agent_move ls)\<^sup>*\<^sup>* db db' \<Longrightarrow> agent_constraints db \<Longrightarrow> agent_constraints db'"
  by (induction rule: rtranclp_induct) (auto intro: agent_move_constraints)

end
