(* ===== verification/Agent_Properties.thy ===== *)
theory Agent_Properties
  imports Agent_Proofs
begin

text \<open>
  The properties of the agent job queue: how often a job runs and how long the queue can keep
  changing, who may still write to a job, what waits for the owner, which job a claim takes.
\<close>

section \<open>Interfaces\<close>

definition job_at :: "'a agent_db_scheme \<Rightarrow> uuid \<Rightarrow> agent_job option" where
  "job_at db i = find (\<lambda>j. jb_id j = i) (agent_jobs db)"

definition job_evolves :: "agent_job \<Rightarrow> agent_job \<Rightarrow> bool" where
  "job_evolves = (\<lambda>j j'. \<exists>ls ts. job_move ls j ts j')\<^sup>*\<^sup>*"

lemma agent_moves_row:
  assumes "(agent_move ls)\<^sup>*\<^sup>* db db'" "unique_on jb_id (agent_jobs db)" "job_at db i = Some j"
  shows "\<exists>j'. job_at db' i = Some j' \<and> job_evolves j j' \<and> unique_on jb_id (agent_jobs db')"
  using assms(1)
proof induction
  case base
  then show ?case using assms(2,3) by (simp add: job_evolves_def)
next
  case (step db1 db2)
  then obtain j1 where j1: "job_at db1 i = Some j1" "job_evolves j j1" "unique_on jb_id (agent_jobs db1)" by blast
  obtain k ts k' where k: "k \<in> set (agent_jobs db1)" "job_move ls k ts k'" "jb_id k' = jb_id k"
    "agent_jobs db2 = put_row jb_id k' (agent_jobs db1)"
    using agent_move_tables [OF step.hyps(2)] by metis
  have at: "job_at db2 i = Some (if jb_id k' = i then k' else j1)" "jb_id k' = i \<Longrightarrow> j1 = k"
    using find_pk_put [OF j1(3) k(1,3) j1(1) [unfolded job_at_def]] by (simp_all add: job_at_def k(4))
  have "job_evolves j k'" if "jb_id k' = i"
    using j1(2) k(2) at(2) [OF that] unfolding job_evolves_def by (auto intro: rtranclp.rtrancl_into_rtrancl)
  with at(1) j1(2,3) show ?case by (simp add: k(4))
qed

lemma agent_addition_row:
  assumes "agent_addition db db'" "job_at db i = Some j"
  shows "job_at db' i = Some j"
  using assms by cases (simp_all add: job_at_def log_job_def find_append)

lemma agent_step_row:
  assumes "agent_wf db" "agent_step env call db = Inr (db', r)" "job_at db i = Some j"
  shows "\<exists>j'. job_at db' i = Some j' \<and> job_evolves j j'"
proof -
  have c: "agent_constraints db" using assms(1) by (simp add: agent_wf_def)
  then have "(agent_move (op_leases (snd call)))\<^sup>*\<^sup>* db db' \<or> agent_addition db db'"
    using agent_step_moves [of env "fst call" "snd call" db db' r] assms(2) by auto
  then show ?thesis
    using agent_moves_row [OF _ job_ids_unique [OF c] assms(3)] agent_addition_row [OF _ assms(3)]
    unfolding job_evolves_def by blast
qed

interpretation agent_job_rows: row_service "agent_step env" agent_wf job_at job_evolves
  by unfold_locales (use agent_step_wf agent_step_row in blast)+

text \<open>How far a job still is from its end, and what counts as progress of the queue.\<close>

definition job_level :: "agent_job \<Rightarrow> nat" where
  "job_level j =
     (case jb_status j of
        JOB_QUEUED \<Rightarrow> 2 * nat (4 - jb_retries j) + 1
      | JOB_RUNNING \<Rightarrow> 2 * nat (4 - jb_retries j)
      | _ \<Rightarrow> if jb_approval j = APPROVAL_PENDING then 1 else 0)"

definition queue_level :: "'a agent_db_scheme \<Rightarrow> nat" where
  "queue_level db = sum_list (map job_level (agent_jobs db))"

definition queue_progress :: "'a agent_db_scheme \<Rightarrow> (job_status \<times> int \<times> job_approval_status) list" where
  "queue_progress db = map (\<lambda>j. (jb_status j, jb_retries j, jb_approval j)) (agent_jobs db)"

lemma job_move_level:
  assumes "job_move ls j ts j'" "job_sound j"
  shows "job_level j' < job_level j \<or>
    job_level j' = job_level j \<and> (jb_status j', jb_retries j', jb_approval j') = (jb_status j, jb_retries j, jb_approval j)"
  using assms(1)
proof cases
  case (decided a t)
  then show ?thesis using assms(2) by (auto simp: job_level_def job_sound_def)
qed (use assms(2) in \<open>auto simp: job_level_def job_sound_def leased_job_def recovered_job_def
      released_def malformed_job_def answered_job_def escalated_job_def failed_job_def Let_def nat_diff_distrib'\<close>)

lemma sum_list_put_row:
  fixes f :: "'r \<Rightarrow> nat"
  assumes "unique_on pk rs" "r \<in> set rs" "pk r' = pk r"
  shows "sum_list (map f (put_row pk r' rs)) + f r = sum_list (map f rs) + f r'"
  using assms
proof (induction rs)
  case (Cons x xs)
  show ?case
  proof (cases "x = r")
    case True
    with Cons.prems have "put_row pk r' xs = xs" by (auto simp: put_row_other unique_on_def)
    with True Cons.prems(3) show ?thesis by (simp add: put_row_def)
  next
    case False
    with Cons.prems have r: "r \<in> set xs" by simp
    then have "pk x \<noteq> pk r" using Cons.prems(1) by (auto simp: unique_on_def image_iff)
    moreover have "unique_on pk xs" using Cons.prems(1) by (simp add: unique_on_def)
    ultimately show ?thesis using Cons.IH [OF _ r Cons.prems(3)] Cons.prems(3) by (simp add: put_row_def)
  qed
qed simp

lemma map_put_row_same:
  assumes "unique_on pk rs" "r \<in> set rs" "pk r' = pk r" "f r' = f r"
  shows "map f (put_row pk r' rs) = map f rs"
  using assms unique_on_eq [OF assms(1) _ assms(2)] by (auto simp: put_row_def)

lemma agent_move_level:
  assumes "agent_move ls db db'" "queue_sound db"
  shows "queue_level db' < queue_level db \<or>
    queue_level db' = queue_level db \<and> queue_progress db' = queue_progress db"
proof -
  obtain j ts j' where m: "j \<in> set (agent_jobs db)" "job_move ls j ts j'" "jb_id j' = jb_id j"
    "agent_jobs db' = put_row jb_id j' (agent_jobs db)"
    by (rule agent_move_tables [OF assms(1)])
  have u: "unique_on jb_id (agent_jobs db)" and s: "job_sound j"
    using assms(2) m(1) by (simp_all add: queue_sound_def)
  have "queue_level db' + job_level j = queue_level db + job_level j'"
    unfolding queue_level_def m(4) by (rule sum_list_put_row [OF u m(1,3)])
  moreover have "queue_progress db' = queue_progress db"
    if "(jb_status j', jb_retries j', jb_approval j') = (jb_status j, jb_retries j, jb_approval j)"
    unfolding queue_progress_def m(4) by (rule map_put_row_same [OF u m(1,3) that])
  ultimately show ?thesis using job_move_level [OF m(2) s] by linarith
qed

lemma agent_moves_level:
  assumes "(agent_move ls)\<^sup>*\<^sup>* db db'" "queue_sound db"
  shows "queue_level db' < queue_level db \<or>
    queue_level db' = queue_level db \<and> queue_progress db' = queue_progress db"
  using assms(1)
proof induction
  case (step db1 db2)
  then show ?case
    using agent_move_level [OF step.hyps(2) agent_moves_sound [OF step.hyps(1) assms(2)]] by auto
qed simp

lemma agent_step_level:
  assumes "agent_wf db" "\<not> is_create (snd call)" "agent_step env call db = Inr (db', r)"
  shows "queue_level db' < queue_level db \<or>
    queue_level db' = queue_level db \<and> queue_progress db' = queue_progress db"
proof -
  have c: "agent_constraints db" "queue_sound db" using assms(1) by (simp_all add: agent_wf_queue)
  from agent_step_moves [of env "fst call" "snd call" db db' r] assms(2,3) c(1)
  have "(agent_move (op_leases (snd call)))\<^sup>*\<^sup>* db db' \<or> agent_jobs db' = agent_jobs db" by auto
  then show ?thesis
    using agent_moves_level [OF _ c(2)] by (auto simp: queue_level_def queue_progress_def)
qed

interpretation agent_queue: draining_service "agent_step env" agent_wf "\<lambda>call. \<not> is_create (snd call)"
  queue_progress queue_level
proof
  fix db :: "'b agent_db_scheme" and call db' r
  assume w: "agent_wf db" "\<not> is_create (snd call)" "agent_step env call db = Inr (db', r)"
  from agent_step_level [OF w] show "queue_level db' \<le> queue_level db" by auto
  assume "queue_progress db' \<noteq> queue_progress db"
  with agent_step_level [OF w] show "queue_level db' < queue_level db" by auto
qed

section \<open>Example data\<close>

definition demo_origin :: "string \<Rightarrow> int \<Rightarrow> job_origin" where
  "demo_origin key priority = \<lparr>jo_case = None, jo_run = None, jo_simulation = None, jo_gap = None,
     jo_parent = None, jo_type = ''triage'', jo_priority = priority, jo_plane = PLANE_PRODUCTION,
     jo_capability = ''c'', jo_created_at = 0, jo_created_by = None, jo_key = Some key\<rparr>"

definition demo_agent_env :: agent_env where
  "demo_agent_env = \<lparr>env_reference = (\<lambda>kind i. kind), env_stale_after = 100, env_token_hash = id\<rparr>"

definition demo_job :: "uuid \<Rightarrow> uuid \<Rightarrow> risk_class \<Rightarrow> int \<Rightarrow> agent_job" where
  "demo_job org i risk priority =
     new_job demo_agent_env (Some org) i \<lparr>jp_origin = demo_origin (replicate i CHR ''k'') priority,
       jp_risk = risk, jp_package_plane = PLANE_PRODUCTION\<rparr> None 0"

definition demo_credential :: "uuid \<Rightarrow> worker_credential" where
  "demo_credential org = \<lparr>wc_id = org, wc_org = org, wc_worker = replicate org CHR ''w'',
     wc_token_hash = replicate org CHR ''s'', wc_risks = [R0, R1], wc_job_types = None, wc_active = True\<rparr>"

definition demo_agent_db :: agent_db where
  "demo_agent_db = access_db.extend demo_access_db
     (agent_db.fields [demo_job 1 1 R0 0, demo_job 2 2 R1 5, demo_job 1 3 R2 0] []
        [demo_credential 1, demo_credential 2])"

lemma demo_job_simps:
  "jb_id (demo_job org i risk p) = i" "jb_org (demo_job org i risk p) = Some org"
  "jb_risk (demo_job org i risk p) = risk" "jb_retries (demo_job org i risk p) = 0"
  "jb_origin (demo_job org i risk p) = demo_origin (replicate i CHR ''k'') p"
  "jb_status (demo_job org i R0 p) = JOB_QUEUED" "jb_status (demo_job org i R1 p) = JOB_QUEUED"
  "jb_status (demo_job org i R2 p) = JOB_OWNER_REVIEW_REQUIRED"
  "jb_approval (demo_job org i R0 p) = APPROVAL_NOT_REQUIRED"
  "jb_approval (demo_job org i R1 p) = APPROVAL_NOT_REQUIRED"
  "jb_approval (demo_job org i R2 p) = APPROVAL_PENDING"
  "jb_approval_required (demo_job org i R2 p)" "\<not> jb_approval_required (demo_job org i R0 p)"
  "\<not> jb_approval_required (demo_job org i R1 p)" "jb_confidence (demo_job org i risk p) = None"
  "jb_lease (demo_job org i risk p) = None"
  by (cases risk; simp add: demo_job_def new_job_def route_job_def classify_risk_def Let_def demo_origin_def)+

lemma demo_agent_db_simps:
  "agent_jobs demo_agent_db = [demo_job 1 1 R0 0, demo_job 2 2 R1 5, demo_job 1 3 R2 0]"
  "job_events demo_agent_db = []" "credentials demo_agent_db = [demo_credential 1, demo_credential 2]"
  "organizations demo_agent_db = [demo_organization 1 ''a'', demo_organization 2 ''b'']"
  "memberships demo_agent_db = [demo_member 10 ORGANIZATION_ADMIN, demo_member 11 VIEWER]"
  by (simp_all add: demo_agent_db_def access_db.defs agent_db.defs demo_access_db_def)

lemma demo_agent_wf: "agent_wf demo_agent_db"
proof -
  have "agent_constraints demo_agent_db"
    by (simp add: agent_constraints_def agent_jobs_ok_def job_events_ok_def credentials_ok_def
        demo_agent_db_simps demo_job_simps job_row_ok_def unique_on_def demo_origin_def
        demo_organization_def demo_credential_def numeral_2_eq_2)
  moreover have "job_sound (demo_job org i risk p)" "starts_due (demo_job org i risk p) = 0" for org i risk p
    unfolding demo_job_def by (rule new_job_sound)+
  ultimately show ?thesis by (simp add: agent_wf_def demo_agent_db_simps starts_def)
qed

section \<open>Properties\<close>


definition demo_calls :: "(uuid \<times> agent_op) list" where
  "demo_calls = [(1, ClaimJob (Some ''Bearer s'') 70 10), (1, HeartbeatJob (Some ''Bearer s'') 1 70 20)]"


text \<open>C6: The queue drains. In any sequence of requests that creates no job, at most nine requests per
  job change the status, the retries or the approval of any job: every retry loop ends.\<close>

theorem queue_drains:
  assumes "agent_wf db" "\<forall>call \<in> set calls. \<not> is_create (snd call)"
  shows "progress_count (agent_step env) queue_progress calls db \<le> 9 * length (agent_jobs db)"
proof -
  have "job_level j \<le> 9" if "j \<in> set (agent_jobs db)" for j
  proof -
    have "job_sound j" using assms(1) that by (simp add: agent_wf_def)
    then have "0 \<le> jb_retries j" unfolding job_sound_def by blast
    then obtain n where "nat (4 - jb_retries j) = n" "n \<le> 4" by simp
    then show ?thesis unfolding job_level_def by (cases "jb_status j") simp_all
  qed
  then have "queue_level db \<le> sum_list (map (\<lambda>_. 9) (agent_jobs db))"
    unfolding queue_level_def by (intro sum_list_mono) blast
  then have "queue_level db \<le> 9 * length (agent_jobs db)" by (simp add: sum_list_triv)
  with agent_queue.run_progress [OF assms, of env] show ?thesis by linarith
qed

theorem queue_drains_witness:
  "progress_count (agent_step demo_agent_env) queue_progress demo_calls demo_agent_db \<le> 27"
  using queue_drains [OF demo_agent_wf, of demo_calls demo_agent_env]
  by (simp add: demo_calls_def demo_agent_db_simps)

text \<open>C0: A lost lease stays lost. When a job is not, or no longer, held under a lease, no later
  result, failure or heartbeat under that lease is taken, whatever requests come between, as
  long as no claim issues the lease again.\<close>

definition lease_gone :: "uuid \<Rightarrow> uuid \<Rightarrow> 'a agent_db_scheme \<Rightarrow> bool" where
  "lease_gone i lease db \<longleftrightarrow> (\<forall>j \<in> set (agent_jobs db). jb_id j = i \<longrightarrow> jb_lease j \<noteq> Some lease)"

lemma job_move_lease:
  "job_move ls j ts j' \<Longrightarrow> jb_lease j' = None \<or> jb_lease j' = jb_lease j \<or> jb_lease j' \<in> Some ` ls"
  by (cases rule: job_move.cases, assumption)
    (auto simp: leased_job_def recovered_job_def released_def malformed_job_def answered_job_def
      escalated_job_def failed_job_def Let_def)

lemma agent_moves_lease_gone:
  "(agent_move ls)\<^sup>*\<^sup>* db db' \<Longrightarrow> lease \<notin> ls \<Longrightarrow> lease_gone i lease db \<Longrightarrow> lease_gone i lease db'"
proof (induction rule: rtranclp_induct)
  case (step db1 db2)
  obtain j ts j' where m: "j \<in> set (agent_jobs db1)" "job_move ls j ts j'" "jb_id j' = jb_id j"
    "agent_jobs db2 = put_row jb_id j' (agent_jobs db1)"
    using agent_move_tables [OF step.hyps(2)] by metis
  have g: "lease_gone i lease db1" using step.IH step.prems by blast
  have "jb_lease j' \<noteq> Some lease" if "jb_id j' = i"
    using job_move_lease [OF m(2)] g m(1,3) that step.prems(1) by (auto simp: lease_gone_def)
  with g show ?case by (auto simp: lease_gone_def m(4) in_put_row_iff)
qed

lemma agent_step_lease_gone:
  assumes "agent_wf db" "agent_step env call db = Inr (db', r)" "lease \<notin> op_leases (snd call)"
    and "lease_gone i lease db"
  shows "lease_gone i lease db'"
proof -
  have c: "agent_constraints db" using assms(1) by (simp add: agent_wf_def)
  then have "(agent_move (op_leases (snd call)))\<^sup>*\<^sup>* db db' \<or> agent_addition db db'"
    using agent_step_moves [of env "fst call" "snd call" db db' r] assms(2) by auto
  then show ?thesis
  proof
    assume "agent_addition db db'"
    then show ?thesis
      using assms(4) by cases (auto simp: lease_gone_def log_job_def new_job_def Let_def)
  qed (use agent_moves_lease_gone assms(3,4) in blast)
qed

theorem lost_lease_rejected:
  assumes "agent_wf db" "lease_gone i lease db" "\<forall>call \<in> set calls. lease \<notin> op_leases (snd call)"
    and "op \<in> {SubmitResult authorization i lease p now, SubmitFailure authorization i lease code detail retry now,
               HeartbeatJob authorization i lease now}"
  shows "\<exists>e. agent_step env (org, op) (run_ops (agent_step env) calls db) = Inl e"
proof -
  let ?db = "run_ops (agent_step env) calls db"
  have "lease_gone i lease ?db"
    by (rule agent_job_rows.run_keeps [where P = "lease_gone i lease", OF _ assms(1,2)])
      (use agent_step_lease_gone assms(3) in blast)
  then have "find (holds_lease i lease) (agent_jobs ?db) = None"
    by (auto simp: find_None_iff lease_gone_def holds_lease_def)
  then show ?thesis
    using assms(4)
    by (auto simp: as_worker_def submit_result_def submit_failure_def job_heartbeat_def bindE_Inl_iff bindE_def
        split: sum.splits)
qed

theorem lost_lease_rejected_witness:
  "\<exists>e. agent_step demo_agent_env (1, SubmitFailure (Some ''Bearer s'') 1 71 ''E'' ''d'' True 30)
     (run_ops (agent_step demo_agent_env) demo_calls demo_agent_db) = Inl e"
  by (rule lost_lease_rejected [OF demo_agent_wf])
    (auto simp: lease_gone_def demo_agent_db_simps demo_job_simps demo_calls_def)

text \<open>C37: An owner's approval releases nothing. A job that waits for its owner keeps waiting through
  any requests, the owner's approval included, and is never started.\<close>

theorem approved_job_never_runs:
  assumes "agent_wf db" "job_at db i = Some j" "jb_status j = JOB_OWNER_REVIEW_REQUIRED"
    and "db2 = run_ops (agent_step env) calls db"
  shows "\<exists>j'. job_at db2 i = Some j' \<and> jb_status j' = JOB_OWNER_REVIEW_REQUIRED \<and> starts db2 i = 0"
proof -
  have "\<exists>j'. job_at db2 i = Some j' \<and> jb_status j' = JOB_OWNER_REVIEW_REQUIRED"
    unfolding assms(4)
  proof (rule agent_job_rows.run_stable [where P = "\<lambda>j. jb_status j = JOB_OWNER_REVIEW_REQUIRED", OF _ assms(1,2,3)])
    fix x x' assume x: "jb_status x = JOB_OWNER_REVIEW_REQUIRED" "job_evolves x x'"
    from x(2) show "jb_status x' = JOB_OWNER_REVIEW_REQUIRED"
      unfolding job_evolves_def
      by (induction rule: rtranclp_induct) (use x(1) in \<open>auto elim!: job_moveE\<close>)
  qed
  then obtain j' where j': "job_at db2 i = Some j'" "jb_status j' = JOB_OWNER_REVIEW_REQUIRED" by blast
  then have "j' \<in> set (agent_jobs db2)" "jb_id j' = i" unfolding job_at_def by (auto dest: find_SomeD)
  moreover have "agent_wf db2" unfolding assms(4) using assms(1) by (rule agent_job_rows.run_inv)
  ultimately have "int (starts db2 i) = 0"
    using j'(2) by (auto simp: agent_wf_def job_sound_def starts_due_def)
  with j' show ?thesis by simp
qed

theorem approved_job_never_runs_witness:
  "\<exists>j'. job_at (run_ops (agent_step demo_agent_env) [(1, DecideJob (demo_user 10 ''a'') 3 True)] demo_agent_db) 3 =
     Some j' \<and> jb_status j' = JOB_OWNER_REVIEW_REQUIRED"
proof -
  have "job_at demo_agent_db 3 = Some (demo_job 1 3 R2 0)"
    by (simp add: job_at_def demo_agent_db_simps demo_job_simps)
  from approved_job_never_runs [OF demo_agent_wf this _ refl] show ?thesis
    by (simp add: demo_job_simps del: run_ops.simps) blast
qed

text \<open>A claim takes the first job of the queue: among the jobs the credential may take once stale
  leases are swept, none has a higher priority than the job handed out, or the same priority
  and an earlier creation, or the same of both and a smaller id; the job handed out belongs
  to the organization of the route and runs under the lease handed out with it.\<close>

lemma find_put_row_if:
  assumes "r0 \<in> set rs" "pk r = pk r0"
  shows "find (\<lambda>x. pk x = pk r0 \<and> P x) (put_row pk r rs) = (if P r then Some r else None)"
proof (cases "P r")
  case True
  then show ?thesis using assms by (induction rs) (auto simp: put_row_def)
next
  case False
  then show ?thesis using assms(2) by (auto simp: find_None_iff put_row_def)
qed

lemma claim_job_result:
  assumes "claim_job env org c lease now db = Inr (db', r)" "next_job (recover_stale env now db) c = Some n"
  defines "n' \<equiv> leased_job c lease now n"
  shows "agent_jobs db' = put_row jb_id n' (agent_jobs (recover_stale env now db))"
    and "r = (if jb_org n = Some org
              then ClaimOut (Some (n', lease, rd_profile (route_job (jb_risk n) [])))
              else AgentRaisedAfterCommit JobNotFound)"
proof -
  let ?db = "recover_stale env now db"
  have n': "jb_id n' = jb_id n" "jb_org n' = jb_org n" "jb_risk n' = jb_risk n"
    by (simp_all add: n'_def leased_job_def)
  have "job_get (log_job n' [JOB_EVENT_CLAIMED, JOB_EVENT_STARTED] (put_job n' ?db)) (Some org) (jb_id n) =
      (if jb_org n = Some org then Inr n' else Inl JobNotFound)"
    using find_put_row_if [of n "agent_jobs ?db" jb_id n' "\<lambda>j. jb_org j = Some org", OF next_jobD(1) [OF assms(2)] n'(1)]
    by (simp add: job_get_def log_job_def put_job_def n')
  then have "(log_job n' [JOB_EVENT_CLAIMED, JOB_EVENT_STARTED] (put_job n' ?db),
      if jb_org n = Some org then ClaimOut (Some (n', lease, rd_profile (route_job (jb_risk n) [])))
      else AgentRaisedAfterCommit JobNotFound) = (db', r)"
    using assms(1)
    by (simp add: claim_job_def claim_next_def assms(2) n' n'_def [symmetric] commit_agent_def split: if_splits)
  then show "agent_jobs db' = put_row jb_id n' (agent_jobs ?db)"
    and "r = (if jb_org n = Some org
              then ClaimOut (Some (n', lease, rd_profile (route_job (jb_risk n) [])))
              else AgentRaisedAfterCommit JobNotFound)"
    by (auto simp: log_job_def put_job_def)
qed

theorem claim_takes_first:
  assumes "require_worker_credential env db org authorization = Inr c"
    and "agent_step env (org, ClaimJob authorization lease now) db = Inr (db', ClaimOut (Some (j, lease', profile)))"
    and "k \<in> set (agent_jobs (recover_stale env now db))" "claimable c k"
  shows "(- jo_priority (jb_origin j), jo_created_at (jb_origin j), jb_id j) \<le>
      (- jo_priority (jb_origin k), jo_created_at (jb_origin k), jb_id k) \<and>
    lease' = lease \<and> holds_lease (jb_id j) lease j \<and> jb_org j = Some org \<and> j \<in> set (agent_jobs db')"
proof -
  let ?db = "recover_stale env now db"
  have claim: "claim_job env org c lease now db = Inr (db', ClaimOut (Some (j, lease', profile)))"
    using assms(1,2) by (simp add: as_worker_def)
  then obtain n where n: "next_job ?db c = Some n"
    by (auto simp: claim_job_def claim_next_def commit_agent_def split: option.splits if_splits)
  note r = claim_job_result [OF claim n]
  then have "jb_org n = Some org" and j: "j = leased_job c lease now n" "lease' = lease"
    by (auto split: if_splits)
  moreover have "j \<in> set (agent_jobs db')"
    using next_jobD(1) [OF n] unfolding r(1) by (auto simp: in_put_row_iff j leased_job_def)
  ultimately show ?thesis
    using next_jobD(3) [OF n assms(3,4)] by (auto simp: leased_job_def holds_lease_def)
qed

lemma demo_recover: "recover_stale demo_agent_env 0 demo_agent_db = demo_agent_db"
  by (simp add: recover_stale_def stale_jobs_def is_stale_def demo_agent_db_simps demo_job_simps)

lemma demo_credentials:
  "require_worker_credential demo_agent_env demo_agent_db 1 (Some ''Bearer s'') = Inr (demo_credential 1)"
  "require_worker_credential demo_agent_env demo_agent_db 2 (Some ''Bearer ss'') = Inr (demo_credential 2)"
  by (simp_all add: require_worker_credential_def worker_token_def demo_agent_env_def demo_credential_def
      demo_agent_db_simps strip_def numeral_2_eq_2 bindE_def is_space_def)

lemma demo_next: "next_job demo_agent_db (demo_credential i) = Some (demo_job 2 2 R1 5)"
  by (simp add: next_job_def dispatch_order_def claimable_def demo_agent_db_simps demo_job_simps
      demo_credential_def demo_origin_def)

theorem claim_takes_first_witness:
  "\<exists>db' j profile. agent_step demo_agent_env (2, ClaimJob (Some ''Bearer ss'') 70 0) demo_agent_db =
     Inr (db', ClaimOut (Some (j, 70, profile))) \<and> holds_lease (jb_id j) 70 j \<and>
     - jo_priority (jb_origin j) \<le> - jo_priority (jb_origin (demo_job 1 1 R0 0))"
proof -
  obtain db' j profile where s: "agent_step demo_agent_env (2, ClaimJob (Some ''Bearer ss'') 70 0) demo_agent_db =
      Inr (db', ClaimOut (Some (j, 70, profile)))"
  proof -
    have c: "agent_constraints demo_agent_db" using demo_agent_wf by (simp add: agent_wf_def)
    let ?db = "fst (claim_next (demo_credential 2) 70 0 demo_agent_db)"
    have "agent_constraints ?db"
      by (rule agent_moves_constraints [OF claim_next_star c])
    then show ?thesis
      by (intro that) (simp add: as_worker_def demo_credentials claim_job_def demo_recover claim_next_def demo_next
          job_get_def commit_agent_def log_job_def put_job_def put_row_def demo_agent_db_simps demo_job_simps
          leased_job_def Let_def)
  qed
  have "demo_job 1 1 R0 0 \<in> set (agent_jobs (recover_stale demo_agent_env 0 demo_agent_db))"
    "claimable (demo_credential 2) (demo_job 1 1 R0 0)"
    by (simp_all add: demo_recover demo_agent_db_simps claimable_def demo_job_simps demo_credential_def)
  from claim_takes_first [OF demo_credentials(2) s this] s show ?thesis by auto
qed

text \<open>C28: A worker takes the jobs of other organizations. The queue of a claim is not limited to
  the organization of the credential: when its first job belongs to another one, the request
  fails with not found after the commit, the job is left running under a lease that no one was
  told, and one of its four runs is spent.\<close>

theorem foreign_claim_strands_job:
  assumes "agent_wf db" "require_worker_credential env db org authorization = Inr c"
    and "next_job (recover_stale env now db) c = Some j" "jb_org j \<noteq> Some org"
  shows "\<exists>db'. agent_step env (org, ClaimJob authorization lease now) db = Inr (db', AgentRaisedAfterCommit JobNotFound) \<and>
    job_at db' (jb_id j) = Some (leased_job c lease now j) \<and> jb_status (leased_job c lease now j) = JOB_RUNNING"
proof -
  let ?db = "recover_stale env now db"
  let ?db' = "fst (claim_next c lease now ?db)"
  have k: "agent_constraints db" using assms(1) by (simp add: agent_wf_def)
  have "agent_constraints ?db'"
    by (rule agent_moves_constraints [OF rtranclp_trans [OF recover_stale_moves [OF job_ids_unique [OF k], of "{lease}"]
        claim_next_star] k])
  moreover have get: "job_get ?db' (Some org) (jb_id j) = Inl JobNotFound"
    using find_put_row_if [of j "agent_jobs ?db" jb_id "leased_job c lease now j" "\<lambda>j. jb_org j = Some org",
        OF next_jobD(1) [OF assms(3)]] assms(4)
    by (simp add: claim_next_def assms(3) Let_def job_get_def log_job_def put_job_def leased_job_def)
  moreover obtain db' where next_: "claim_next c lease now ?db = (db', Some (leased_job c lease now j))"
    by (simp add: claim_next_def assms(3) Let_def)
  moreover have "jb_id (leased_job c lease now j) = jb_id j" by (simp add: leased_job_def)
  ultimately have claim: "claim_job env org c lease now db = Inr (?db', AgentRaisedAfterCommit JobNotFound)"
    by (simp add: claim_job_def commit_agent_def)
  have "job_at ?db' (jb_id j) = Some (leased_job c lease now j)"
    using find_put_row_if [of j "agent_jobs ?db" jb_id "leased_job c lease now j" "\<lambda>_. True",
        OF next_jobD(1) [OF assms(3)]]
    by (simp add: job_at_def claim_next_def assms(3) Let_def log_job_def put_job_def leased_job_def)
  with claim show ?thesis using assms(2) by (auto simp: as_worker_def leased_job_def)
qed

theorem foreign_claim_strands_job_witness:
  "\<exists>db'. agent_step demo_agent_env (1, ClaimJob (Some ''Bearer s'') 70 0) demo_agent_db =
     Inr (db', AgentRaisedAfterCommit JobNotFound)"
  using foreign_claim_strands_job [OF demo_agent_wf demo_credentials(1), of 0 "demo_job 2 2 R1 5" 70]
  by (auto simp: demo_recover demo_next demo_job_simps)

end
