(* ===== verification/Py_Time.thy ===== *)
theory Py_Time
  imports Platform_Prelude
begin

text \<open>
  The calendar of Python's \<open>datetime\<close> module, as the code uses it: an aware instant is its
  number of microseconds since 0001-01-01T00:00 UTC, a day its proleptic Gregorian ordinal,
  and year, month and day are computed from the ordinal as the standard library computes them.
\<close>

section \<open>Days and months\<close>

definition is_leap :: "int \<Rightarrow> bool" where
  "is_leap y \<longleftrightarrow> 4 dvd y \<and> (\<not> 100 dvd y \<or> 400 dvd y)"

definition days_before_year :: "int \<Rightarrow> int" where
  "days_before_year y = (let p = y - 1 in p * 365 + p div 4 - p div 100 + p div 400)"

fun plain_days_before_month :: "int \<Rightarrow> int" where
  "plain_days_before_month m =
     (if m = 1 then 0 else if m = 2 then 31 else if m = 3 then 59 else if m = 4 then 90
      else if m = 5 then 120 else if m = 6 then 151 else if m = 7 then 181 else if m = 8 then 212
      else if m = 9 then 243 else if m = 10 then 273 else if m = 11 then 304 else 334)"

fun plain_days_in_month :: "int \<Rightarrow> int" where
  "plain_days_in_month m =
     (if m = 2 then 28 else if m \<in> {4, 6, 9, 11} then 30 else 31)"

declare plain_days_before_month.simps [simp del] plain_days_in_month.simps [simp del]

definition days_before_month :: "bool \<Rightarrow> int \<Rightarrow> int" where
  "days_before_month leap m = plain_days_before_month m + (if 2 < m \<and> leap then 1 else 0)"

definition days_in_month :: "bool \<Rightarrow> int \<Rightarrow> int" where
  "days_in_month leap m = plain_days_in_month m + (if m = 2 \<and> leap then 1 else 0)"

definition ymd2ord :: "int \<Rightarrow> int \<Rightarrow> int \<Rightarrow> int" where
  "ymd2ord y m d = days_before_year y + days_before_month (is_leap y) m + d"

text \<open>\<open>_ord2ymd\<close>: cycles of 400, 100, 4 and 1 years, then the month by an estimate that is at
  most one too high.\<close>

definition month_day :: "bool \<Rightarrow> int \<Rightarrow> int \<times> int" where
  "month_day leap n =
     (let m = (n + 50) div 32; before = days_before_month leap m in
      if n < before then (m - 1, n - (before - days_in_month leap (m - 1)) + 1)
      else (m, n - before + 1))"

definition ord2ymd :: "int \<Rightarrow> int \<times> int \<times> int" where
  "ord2ymd n =
     (let n400 = (n - 1) div 146097; k400 = (n - 1) mod 146097;
          n100 = k400 div 36524; k100 = k400 mod 36524;
          n4 = k100 div 1461; k4 = k100 mod 1461;
          n1 = k4 div 365; k1 = k4 mod 365;
          year = n400 * 400 + 1 + n100 * 100 + n4 * 4 + n1 in
      if n1 = 4 \<or> n100 = 4 then (year - 1, 12, 31)
      else (year, month_day (n1 = 3 \<and> (n4 \<noteq> 24 \<or> n100 = 3)) k1))"

lemma month_range:
  assumes "1 \<le> m" "m \<le> (12::int)"
  shows "m \<in> {1, 2, 3, 4, 5, 6, 7, 8, 9, 10, 11, 12}"
  using assms unfolding insert_iff empty_iff by presburger

lemma month_day_bounds:
  assumes "0 \<le> n" "n < 365"
  shows "\<exists>m d. month_day leap n = (m, d) \<and> 1 \<le> m \<and> m \<le> 12 \<and> 1 \<le> d \<and> d \<le> days_in_month leap m \<and>
    n + 1 = days_before_month leap m + d"
proof -
  define k where "k = (n + 50) div 32"
  have k: "32 * k \<le> n + 50" "n + 50 < 32 * k + 32" unfolding k_def by simp_all
  with assms have "1 \<le> k" "k \<le> 12" by linarith+
  then have "k \<in> {1, 2, 3, 4, 5, 6, 7, 8, 9, 10, 11, 12}" by (rule month_range)
  then have "(n < days_before_month leap k \<longrightarrow> 1 \<le> k - 1 \<and>
        n - (days_before_month leap k - days_in_month leap (k - 1)) + 1 \<ge> 1 \<and>
        n < days_before_month leap k \<and>
        days_before_month leap k - days_in_month leap (k - 1) = days_before_month leap (k - 1)) \<and>
      (\<not> n < days_before_month leap k \<longrightarrow> n - days_before_month leap k + 1 \<le> days_in_month leap k)"
    unfolding days_before_month_def days_in_month_def
    using k assms by (elim insertE emptyE; cases leap; simp add: plain_days_before_month.simps plain_days_in_month.simps)
  with \<open>1 \<le> k\<close> \<open>k \<le> 12\<close> show ?thesis
    by (cases "n < days_before_month leap k") (simp_all add: month_day_def k_def [symmetric] Let_def)
qed

lemma dvd_within:
  assumes "0 < e" "e \<le> (k::int)"
  shows "k dvd k * q + e \<longleftrightarrow> e = k"
proof -
  have "k dvd k * q + e \<longleftrightarrow> k dvd e" by (rule dvd_add_right_iff) simp
  then show ?thesis using assms zdvd_imp_le [of k e] by auto
qed

lemma leap_cycle:
  assumes "Y = 400 * a + 100 * b + 4 * c + d" "b \<in> {0, 1, 2, 3}" "0 \<le> c" "c \<le> 24" "d \<in> {0, 1, 2, (3::int)}"
  shows "Y div 4 = 100 * a + 25 * b + c" "Y div 100 = 4 * a + b" "Y div 400 = a"
    and "is_leap (Y + 1) \<longleftrightarrow> d = 3 \<and> (c \<noteq> 24 \<or> b = 3)"
proof -
  have small: "0 \<le> d" "d \<le> 3" "0 \<le> b" "b \<le> 3" using assms(2,5) by auto
  have y4: "Y = 4 * (100 * a + 25 * b + c) + d" and y100: "Y = 100 * (4 * a + b) + (4 * c + d)"
    and y400: "Y = 400 * a + (100 * b + 4 * c + d)"
    using assms(1) by simp_all
  show "Y div 4 = 100 * a + 25 * b + c" unfolding y4 using small by simp
  show "Y div 100 = 4 * a + b" unfolding y100 using small assms(3,4) by simp
  show "Y div 400 = a" unfolding y400 using small assms(3,4) by simp
  have "4 dvd Y + 1 \<longleftrightarrow> d + 1 = 4" "100 dvd Y + 1 \<longleftrightarrow> 4 * c + d + 1 = 100"
    "400 dvd Y + 1 \<longleftrightarrow> 100 * b + 4 * c + d + 1 = 400"
    using dvd_within [of "d + 1" 4 "100 * a + 25 * b + c"] dvd_within [of "4 * c + d + 1" 100 "4 * a + b"]
      dvd_within [of "100 * b + 4 * c + d + 1" 400 a] small assms(3,4) y4 y100 y400
    by (simp_all add: add.assoc)
  then show "is_leap (Y + 1) \<longleftrightarrow> d = 3 \<and> (c \<noteq> 24 \<or> b = 3)"
    unfolding is_leap_def using small assms(3,4) by auto
qed

text \<open>Reading an ordinal as year, month and day is inverse to computing it.\<close>

lemma ord2ymd_inverse:
  shows "\<exists>y m d. ord2ymd n = (y, m, d) \<and> 1 \<le> m \<and> m \<le> 12 \<and> 1 \<le> d \<and> d \<le> days_in_month (is_leap y) m \<and>
    ymd2ord y m d = n"
proof -
  define a where "a = (n - 1) div 146097"
  define k400 where "k400 = (n - 1) mod 146097"
  define b where "b = k400 div 36524"
  define k100 where "k100 = k400 mod 36524"
  define c where "c = k100 div 1461"
  define k4 where "k4 = k100 mod 1461"
  define d where "d = k4 div 365"
  define r where "r = k4 mod 365"
  define Y where "Y = 400 * a + 100 * b + 4 * c + d"
  have n: "n = 146097 * a + 36524 * b + 1461 * c + 365 * d + r + 1"
    unfolding a_def b_def c_def d_def r_def k4_def k100_def k400_def by (simp add: algebra_simps)
  have k: "0 \<le> k400" "k400 < 146097" "k400 = 36524 * b + k100" "0 \<le> k100" "k100 < 36524"
    "k100 = 1461 * c + k4" "0 \<le> k4" "k4 < 1461" "k4 = 365 * d + r" "0 \<le> r" "r < 365"
    unfolding b_def c_def d_def r_def k4_def k100_def k400_def by simp_all
  then have small: "0 \<le> b" "b \<le> 4" "0 \<le> c" "c \<le> 24" "0 \<le> d" "d \<le> 4" by linarith+
  have o: "ord2ymd n =
      (if d = 4 \<or> b = 4 then (Y, 12, 31) else (Y + 1, month_day (d = 3 \<and> (c \<noteq> 24 \<or> b = 3)) r))"
    unfolding ord2ymd_def Let_def a_def [symmetric] k400_def [symmetric]
    unfolding b_def [symmetric] k100_def [symmetric] unfolding c_def [symmetric] k4_def [symmetric]
    unfolding d_def [symmetric] r_def [symmetric] by (simp add: Y_def)
  show ?thesis
  proof (cases "d = 4 \<or> b = 4")
    case False
    with small have sets: "b \<in> {0, 1, 2, 3}" "d \<in> {0, 1, 2, 3}" by auto
    note l = leap_cycle [OF Y_def sets(1) small(3,4) sets(2)]
    obtain m e where m: "month_day (is_leap (Y + 1)) r = (m, e)" "1 \<le> m" "m \<le> 12" "1 \<le> e"
      "e \<le> days_in_month (is_leap (Y + 1)) m" "r + 1 = days_before_month (is_leap (Y + 1)) m + e"
      using month_day_bounds [OF k(10,11)] by blast
    have "ymd2ord (Y + 1) m e = n"
      using m(6) unfolding ymd2ord_def days_before_year_def Let_def n by (simp add: l(1-3)) (simp add: Y_def)
    with m(1-5) False show ?thesis by (simp add: o l(4))
  next
    case True
    define Z where "Z = Y - 1"
    define d' where "d' = (if b = 4 then 3 else 3 :: int)"
    have "(b = 4 \<longrightarrow> c = 0 \<and> d = 0 \<and> r = 0) \<and> (d = 4 \<longrightarrow> r = 0 \<and> (b \<noteq> 4 \<longrightarrow> (c \<noteq> 24 \<or> b = 3)))"
      using k small by auto
    then obtain b' c' where z: "Z = 400 * a + 100 * b' + 4 * c' + 3" "b' \<in> {0, 1, 2, 3}" "0 \<le> c'" "c' \<le> 24"
      "n = 146097 * a + 36524 * b' + 1461 * c' + 1461" "c' \<noteq> 24 \<or> b' = 3"
    proof (cases "b = 4")
      case b4: True
      with k small have "c = 0" "d = 0" "r = 0" by auto
      with b4 show ?thesis by (intro that [of 3 24]) (simp_all add: Z_def Y_def n)
    next
      case False
      with True have d4: "d = 4" by simp
      with k small have "r = 0" "c = 24 \<Longrightarrow> b = 3" by auto
      with d4 False small show ?thesis by (intro that [of b c]) (auto simp: Z_def Y_def n)
    qed
    note l = leap_cycle [OF z(1-4), simplified]
    have "is_leap Y" using l(4) z(6) by (auto simp: Z_def)
    moreover have "ymd2ord Y 12 31 = n"
      using l(1-3) z(1,5) \<open>is_leap Y\<close>
      by (simp add: ymd2ord_def days_before_year_def Let_def Z_def days_before_month_def
          plain_days_before_month.simps)
    ultimately show ?thesis using True
      by (simp add: o days_in_month_def plain_days_in_month.simps)
  qed
qed

section \<open>Months in order\<close>

text \<open>The first day of a month, by the number of months since year 0.\<close>

definition month_start :: "int \<Rightarrow> int" where
  "month_start k = ymd2ord (k div 12) (k mod 12 + 1) 1"

lemma div_step:
  assumes "0 < (k::int)"
  shows "y div k = (y - 1) div k + (if k dvd y then 1 else 0)"
proof (cases "k dvd y")
  case True
  then have "y - 1 = k * (y div k - 1) + (k - 1)" by (simp add: algebra_simps)
  then have "(y - 1) div k = y div k - 1" by (rule int_div_pos_eq) (use assms in simp_all)
  with True show ?thesis by simp
next
  case False
  then have "0 < y mod k" using pos_mod_sign [OF assms, of y] by (auto simp: dvd_eq_mod_eq_0)
  moreover have "y - 1 = k * (y div k) + (y mod k - 1)" by (simp add: algebra_simps)
  ultimately have "(y - 1) div k = y div k"
    using pos_mod_bound [OF assms, of y] int_div_pos_eq [of "y - 1" k "y div k" "y mod k - 1"] by simp
  with False show ?thesis by simp
qed

lemma leap_count:
  "(r \<Longrightarrow> q) \<Longrightarrow> (q \<Longrightarrow> p) \<Longrightarrow>
     (if p then 1 else 0) - (if q then 1 else 0) + (if r then 1 else 0) = (if p \<and> (\<not> q \<or> r) then 1 else (0::int))"
  by auto

lemma days_before_next_year:
  "days_before_year (y + 1) = days_before_year y + 365 + (if is_leap y then 1 else 0)"
proof -
  have "400 dvd y \<Longrightarrow> 100 dvd y" "100 dvd y \<Longrightarrow> 4 dvd y"
    using dvd_trans [of 100 400 y] dvd_trans [of 4 100 y] by simp_all
  then have c: "(if 4 dvd y then 1 else 0) - (if 100 dvd y then 1 else 0) + (if 400 dvd y then 1 else 0) =
      (if is_leap y then 1 else (0::int))"
    unfolding is_leap_def by (rule leap_count)
  have "days_before_year (y + 1) = y * 365 + y div 4 - y div 100 + y div 400"
    "days_before_year y = (y - 1) * 365 + (y - 1) div 4 - (y - 1) div 100 + (y - 1) div 400"
    unfolding days_before_year_def Let_def by simp_all
  moreover have "A = B + 365 + l"
    if "A = y * 365 + x4 - x100 + x400" "B = (y - 1) * 365 + z4 - z100 + z400" "p - q + r = l"
      "x4 = z4 + p" "x100 = z100 + q" "x400 = z400 + r" for A B x4 x100 x400 z4 z100 z400 p q r l :: int
    using that by simp
  ultimately show ?thesis
    using c div_step [of 4 y] div_step [of 100 y] div_step [of 400 y] by simp
qed

lemma days_before_next_month:
  assumes "1 \<le> m" "m < 12"
  shows "days_before_month leap (m + 1) = days_before_month leap m + days_in_month leap m"
proof -
  have "m \<in> {1, 2, 3, 4, 5, 6, 7, 8, 9, 10, 11, 12}" by (rule month_range) (use assms in simp_all)
  then show ?thesis
    using assms unfolding days_before_month_def days_in_month_def
    by (elim insertE emptyE; simp add: plain_days_before_month.simps plain_days_in_month.simps)
qed

lemma month_start_next: "month_start (k + 1) = month_start k + days_in_month (is_leap (k div 12)) (k mod 12 + 1)"
proof -
  define y where "y = k div 12"
  define m where "m = k mod 12 + 1"
  have m: "1 \<le> m" "m \<le> 12" by (simp_all add: m_def)
  show ?thesis
  proof (cases "m = 12")
    case True
    then have s: "(k + 1) div 12 = y + 1" "(k + 1) mod 12 + 1 = 1" unfolding m_def y_def by presburger+
    show ?thesis
      unfolding month_start_def ymd2ord_def s y_def [symmetric] m_def [symmetric] True days_before_next_year
      by (simp add: days_before_month_def days_in_month_def
          plain_days_before_month.simps plain_days_in_month.simps)
  next
    case False
    with m have "m < 12" by simp
    have k: "k + 1 = 12 * y + m" by (simp add: m_def y_def)
    have s: "(k + 1) div 12 = y" "(k + 1) mod 12 + 1 = m + 1"
      using int_div_pos_eq [OF k] int_mod_pos_eq [OF k] m(1) \<open>m < 12\<close> by simp_all
    show ?thesis
      unfolding month_start_def ymd2ord_def s y_def [symmetric] m_def [symmetric]
        days_before_next_month [OF m(1) \<open>m < 12\<close>] by simp
  qed
qed

lemma month_start_less: "month_start k < month_start (k + 1)"
  unfolding month_start_next days_in_month_def plain_days_in_month.simps by simp

lemma month_start_mono: "k \<le> l \<Longrightarrow> month_start k \<le> month_start l"
proof (induction "nat (l - k)" arbitrary: l)
  case (Suc n)
  then have "month_start k \<le> month_start (l - 1)" by (intro Suc.hyps(1)) simp_all
  with month_start_less [of "l - 1"] show ?case by simp
qed simp

lemma month_start_unique:
  assumes "month_start k \<le> n" "n < month_start (k + 1)" "month_start l \<le> n" "n < month_start (l + 1)"
  shows "k = l"
proof (rule ccontr)
  assume "k \<noteq> l"
  then have "k + 1 \<le> l \<or> l + 1 \<le> k" by linarith
  then show False using month_start_mono [of "k + 1" l] month_start_mono [of "l + 1" k] assms by linarith
qed

lemma month_start_ymd: "1 \<le> m \<Longrightarrow> m \<le> 12 \<Longrightarrow> month_start (12 * y + (m - 1)) = ymd2ord y m 1"
  by (simp add: month_start_def)

lemma month_start_after_ymd:
  assumes "1 \<le> m" "m \<le> 12"
  shows "month_start (12 * y + (m - 1) + 1) = (if m = 12 then ymd2ord (y + 1) 1 1 else ymd2ord y (m + 1) 1)"
proof (cases "m = 12")
  case True
  then have "12 * y + (m - 1) + 1 = 12 * (y + 1) + (1 - 1)" by simp
  then show ?thesis using True month_start_ymd [of 1 "y + 1"] by (simp only: if_True) simp
next
  case False
  have "12 * y + (m - 1) + 1 = 12 * y + ((m + 1) - 1)" by simp
  then show ?thesis using False assms month_start_ymd [of "m + 1" y] by simp
qed

text \<open>The month an ordinal lies in.\<close>

lemma ord2ymd_month:
  assumes "ord2ymd n = (y, m, d)"
  shows "1 \<le> m" "m \<le> 12" "month_start (12 * y + (m - 1)) \<le> n" "n < month_start (12 * y + (m - 1) + 1)"
proof -
  have o: "1 \<le> m" "m \<le> 12" "1 \<le> d" "d \<le> days_in_month (is_leap y) m" "ymd2ord y m d = n"
    using ord2ymd_inverse [of n] assms by auto
  then show "1 \<le> m" "m \<le> 12" by simp_all
  have s: "(12 * y + (m - 1)) div 12 = y" "(12 * y + (m - 1)) mod 12 + 1 = m" using o(1,2) by simp_all
  have first: "month_start (12 * y + (m - 1)) = n - d + 1"
    using o(5) month_start_ymd [OF o(1,2)] by (simp add: ymd2ord_def)
  then show "month_start (12 * y + (m - 1)) \<le> n" using o(3) by simp
  show "n < month_start (12 * y + (m - 1) + 1)"
    using o(4) first unfolding month_start_next s by simp
qed

lemma ord2ymd_same_month:
  assumes "ord2ymd n = (y, m, d)" "month_start (12 * y + (m - 1)) \<le> n'" "n' < month_start (12 * y + (m - 1) + 1)"
  obtains d' where "ord2ymd n' = (y, m, d')"
proof -
  obtain y' m' d' where o: "ord2ymd n' = (y', m', d')" by (cases "ord2ymd n'") auto
  note b = ord2ymd_month [OF o] ord2ymd_month [OF assms(1)]
  have "12 * y + (m - 1) = 12 * y' + (m' - 1)"
    by (rule month_start_unique [OF assms(2,3) b(3,4)])
  with b(1,2,5,6) have "y = y'" "m = m'" by presburger+
  with o that show ?thesis by blast
qed

section \<open>Instants\<close>

definition day_length :: int where
  "day_length = 24 * 60 * 60 * 1000000"

definition ordinal_of :: "timestamp \<Rightarrow> int" where
  "ordinal_of t = t div day_length + 1"

definition midnight :: "int \<Rightarrow> timestamp" where
  "midnight n = (n - 1) * day_length"

definition weekday :: "int \<Rightarrow> int" where
  "weekday n = (n + 6) mod 7"

definition max_ordinal :: int where
  "max_ordinal = 3652059"

lemma max_ordinal_last: "max_ordinal = ymd2ord 9999 12 31"
  by (simp add: max_ordinal_def ymd2ord_def days_before_year_def days_before_month_def
      plain_days_before_month.simps is_leap_def)

lemma midnight_le_iff: "midnight n \<le> t \<longleftrightarrow> n \<le> ordinal_of t"
proof -
  have p: "0 < day_length" by (simp add: day_length_def)
  have "n - 1 \<le> t div day_length" if "(n - 1) * day_length \<le> t"
    using zdiv_mono1 [OF that p] p by simp
  moreover have "(n - 1) * day_length \<le> t" if "n - 1 \<le> t div day_length"
  proof -
    have "(n - 1) * day_length \<le> t div day_length * day_length"
      using that p by (intro mult_right_mono) simp_all
    also have "\<dots> \<le> t" using minus_mod_eq_div_mult [of t day_length] pos_mod_sign [OF p, of t] by linarith
    finally show ?thesis .
  qed
  ultimately show ?thesis by (auto simp: midnight_def ordinal_of_def)
qed

lemma less_midnight_iff: "t < midnight n \<longleftrightarrow> ordinal_of t < n"
  using midnight_le_iff [of n t] by linarith

end
