(* ===== verification/Commercial_Engine.thy ===== *)
theory Commercial_Engine
  imports Py_Decimal Py_Time
begin

text \<open>
  The commercial engine (\<open>app/engines/commercial_engine.py\<close>): the status of a usage limit and
  the bounds of a usage period. A \<open>ValueError\<close> or \<open>OverflowError\<close> of the code is a value of
  \<open>value_error\<close>. Moments are instants, so \<open>astimezone(UTC)\<close> is the identity.
\<close>

datatype limit_status =
    LIMIT_AVAILABLE | LIMIT_WARNING | LIMIT_GRACE | LIMIT_READ_ONLY | LIMIT_DISABLED | LIMIT_EXPIRED

datatype value_error = NegativeLimitOrUsage | UnsupportedPeriod | DateOutOfRange

record limit_result =
  lr_status :: limit_status
  lr_action :: string
  lr_usage :: rat
  lr_limit :: rat
  lr_remaining :: rat

definition enforcement_action :: "string \<Rightarrow> string \<times> limit_status" where
  "enforcement_action e =
     (if e = ''hard'' then (''disabled'', LIMIT_DISABLED)
      else if e = ''read_only'' then (''read_only'', LIMIT_READ_ONLY)
      else if e = ''soft'' then (''warn'', LIMIT_GRACE)
      else if e = ''warning'' then (''warn'', LIMIT_WARNING)
      else (''disabled'', LIMIT_DISABLED))"

definition evaluate_limit :: "rat \<Rightarrow> rat \<Rightarrow> string \<Rightarrow> rat \<Rightarrow> rat \<Rightarrow> value_error + limit_result" where
  "evaluate_limit usage limit enforcement warning_percentage grace_percentage =
     bindE (require (0 \<le> limit \<and> 0 \<le> usage) NegativeLimitOrUsage) (\<lambda>_.
     let remaining = max 0 (dsub limit usage);
         result = (\<lambda>status action. \<lparr>lr_status = status, lr_action = action, lr_usage = usage,
                     lr_limit = limit, lr_remaining = remaining\<rparr>)
     in Inr (if usage < dmul limit warning_percentage then result LIMIT_AVAILABLE ''allow''
             else if usage \<le> limit then result LIMIT_WARNING ''warn''
             else if usage \<le> dmul limit (dadd 1 grace_percentage) then result LIMIT_GRACE ''warn''
             else result (snd (enforcement_action enforcement)) (fst (enforcement_action enforcement))))"

text \<open>A day that \<open>timedelta\<close> arithmetic reaches must lie within the calendar, and \<open>replace\<close>
  refuses a year past 9999.\<close>

definition date_limit :: "int \<Rightarrow> value_error + timestamp" where
  "date_limit n = bindE (require (n \<le> max_ordinal) DateOutOfRange) (\<lambda>_. Inr (midnight n))"

definition period_bounds :: "string \<Rightarrow> timestamp \<Rightarrow> value_error + timestamp \<times> timestamp" where
  "period_bounds period t =
     (let n = ordinal_of t in
      if period = ''daily'' then bindE (date_limit (n + 1)) (\<lambda>end. Inr (midnight n, end))
      else if period = ''weekly'' then
        (let start = n - weekday n
         in bindE (date_limit (start + 7)) (\<lambda>end. Inr (midnight start, end)))
      else if period = ''monthly'' then
        (case ord2ymd n of (y, m, d) \<Rightarrow>
           bindE (if m = 12
                  then bindE (require (y + 1 \<le> 9999) DateOutOfRange) (\<lambda>_. Inr (midnight (ymd2ord (y + 1) 1 1)))
                  else Inr (midnight (ymd2ord y (m + 1) 1))) (\<lambda>end.
           Inr (midnight (ymd2ord y m 1), end)))
      else Inl UnsupportedPeriod)"

section \<open>Limits\<close>

lemma evaluate_limit_total:
  "(\<exists>r. evaluate_limit usage limit e w g = Inr r) \<longleftrightarrow> 0 \<le> limit \<and> 0 \<le> usage"
  by (auto simp: evaluate_limit_def Let_def)

text \<open>How much an action restricts.\<close>

definition restriction :: "string \<Rightarrow> nat" where
  "restriction action = (if action = ''allow'' then 0 else if action = ''warn'' then 1 else 2)"

lemma enforcement_restricts: "1 \<le> restriction (fst (enforcement_action e))"
  by (simp add: enforcement_action_def restriction_def)

lemma restriction_names: "restriction ''allow'' = 0" "restriction ''warn'' = 1"
  by (simp_all add: restriction_def)

text \<open>More usage is never restricted less.\<close>

lemma evaluate_limit_mono:
  assumes "evaluate_limit u limit e w g = Inr r" "evaluate_limit u' limit e w g = Inr r'" "u \<le> u'"
  shows "restriction (lr_action r) \<le> restriction (lr_action r')" "lr_remaining r' \<le> lr_remaining r"
proof -
  show "restriction (lr_action r) \<le> restriction (lr_action r')"
    using assms enforcement_restricts [of e]
    by (auto simp: evaluate_limit_def Let_def restriction_names split: if_splits)
  have "dsub limit u' \<le> dsub limit u" using assms(3) unfolding dsub_def by (intro dctx_mono) simp
  then show "lr_remaining r' \<le> lr_remaining r"
    using assms(1,2) by (auto simp: evaluate_limit_def Let_def split: if_splits)
qed

text \<open>Within the limit nothing is restricted; past the grace a hard limit disables.\<close>

lemma evaluate_limit_within:
  assumes "evaluate_limit u limit e w g = Inr r" "u \<le> limit"
  shows "restriction (lr_action r) \<le> 1" "lr_status r \<in> {LIMIT_AVAILABLE, LIMIT_WARNING}"
  using assms by (auto simp: evaluate_limit_def Let_def restriction_names split: if_splits)

lemma evaluate_limit_exceeded:
  assumes "evaluate_limit u limit e w g = Inr r" "limit < u" "dmul limit w \<le> u" "dmul limit (dadd 1 g) < u"
  shows "lr_action r = fst (enforcement_action e)" "lr_status r = snd (enforcement_action e)" "lr_remaining r = 0"
  using assms dctx_mono [of "limit - u" 0] by (auto simp: evaluate_limit_def Let_def dsub_def max_def)

section \<open>Periods\<close>

lemma date_limit_Inr: "date_limit n = Inr t \<longleftrightarrow> n \<le> max_ordinal \<and> t = midnight n"
  by (auto simp: date_limit_def)

text \<open>The days of the period an ordinal lies in.\<close>

definition period_days :: "string \<Rightarrow> int \<Rightarrow> int \<times> int" where
  "period_days period n =
     (if period = ''daily'' then (n, n + 1)
      else if period = ''weekly'' then (n - weekday n, n - weekday n + 7)
      else (case ord2ymd n of (y, m, d) \<Rightarrow>
             (month_start (12 * y + (m - 1)), month_start (12 * y + (m - 1) + 1))))"

lemma period_bounds_days:
  assumes "period_bounds period t = Inr (s, e)"
  shows "s = midnight (fst (period_days period (ordinal_of t)))" "e = midnight (snd (period_days period (ordinal_of t)))"
proof -
  have "s = midnight (fst (period_days period (ordinal_of t))) \<and> e = midnight (snd (period_days period (ordinal_of t)))"
  proof (cases "period = ''daily'' \<or> period = ''weekly''")
    case True
    with assms show ?thesis
      by (auto simp: period_bounds_def period_days_def Let_def date_limit_Inr)
  next
    case False
    obtain y m d where o: "ord2ymd (ordinal_of t) = (y, m, d)" by (cases "ord2ymd (ordinal_of t)") auto
    note m = ord2ymd_month(1,2) [OF o]
    have "s = midnight (ymd2ord y m 1) \<and>
        e = midnight (if m = 12 then ymd2ord (y + 1) 1 1 else ymd2ord y (m + 1) 1)"
      using assms False by (auto simp: period_bounds_def Let_def o split: if_splits)
    then show ?thesis
      using False unfolding period_days_def o month_start_ymd [OF m, symmetric]
      by (simp only: if_False prod.case fst_conv snd_conv month_start_after_ymd [OF m] de_Morgan_disj simp_thms)
  qed
  then show "s = midnight (fst (period_days period (ordinal_of t)))"
    "e = midnight (snd (period_days period (ordinal_of t)))" by simp_all
qed

lemma weekday_bounds: "0 \<le> weekday n" "weekday n < 7"
  by (simp_all add: weekday_def)

lemma week_start_eq:
  assumes "n - weekday n \<le> k" "k < n - weekday n + 7"
  shows "k - weekday k = n - weekday n"
proof -
  define q where "q = (n + 6) div 7"
  have n: "n - weekday n = 7 * q - 6" unfolding weekday_def q_def by (simp add: minus_mod_eq_mult_div [symmetric])
  have k: "k + 6 = 7 * q + (k + 6 - 7 * q)" by simp
  have "(k + 6) mod 7 = k + 6 - 7 * q"
    by (rule int_mod_pos_eq [OF k]) (use assms n in linarith)+
  with n show ?thesis by (simp add: weekday_def)
qed

lemma period_days_contains: "fst (period_days period n) \<le> n" "n < snd (period_days period n)"
  using weekday_bounds [of n] ord2ymd_month [of n]
  by (auto simp: period_days_def split: prod.splits)

lemma period_bounds_same:
  assumes "fst (period_days period (ordinal_of t)) \<le> ordinal_of t'"
    and "ordinal_of t' < snd (period_days period (ordinal_of t))"
  shows "period_bounds period t' = period_bounds period t"
proof -
  consider "period = ''daily''" | "period = ''weekly''" | "period \<noteq> ''daily''" "period \<noteq> ''weekly''" by blast
  then show ?thesis
  proof cases
    case 1
    then have "ordinal_of t' = ordinal_of t" using assms by (simp add: period_days_def)
    then show ?thesis unfolding period_bounds_def by simp
  next
    case 2
    then have "ordinal_of t' - weekday (ordinal_of t') = ordinal_of t - weekday (ordinal_of t)"
      using assms by (intro week_start_eq) (simp_all add: period_days_def)
    with 2 show ?thesis by (simp add: period_bounds_def Let_def)
  next
    case 3
    obtain y m d where o: "ord2ymd (ordinal_of t) = (y, m, d)" by (cases "ord2ymd (ordinal_of t)") auto
    from ord2ymd_same_month [OF o, of "ordinal_of t'"] assms 3
    obtain d' where "ord2ymd (ordinal_of t') = (y, m, d')"
      by (auto simp: period_days_def o)
    with 3 o show ?thesis unfolding period_bounds_def by simp
  qed
qed

text \<open>A moment lies in its period, and every moment of the period has the same period.\<close>

lemma period_bounds_partition:
  assumes "period_bounds period t = Inr (s, e)"
  shows "s \<le> t" "t < e" and "s \<le> t' \<Longrightarrow> t' < e \<Longrightarrow> period_bounds period t' = Inr (s, e)"
proof -
  note b = period_bounds_days [OF assms]
  show "s \<le> t" "t < e"
    using period_days_contains unfolding b midnight_le_iff less_midnight_iff by blast+
  assume "s \<le> t'" "t' < e"
  then have "period_bounds period t' = period_bounds period t"
    unfolding b midnight_le_iff less_midnight_iff by (rule period_bounds_same)
  with assms show "period_bounds period t' = Inr (s, e)" by simp
qed

end
