(* ===== verification/Commercial.thy ===== *)
theory Commercial
  imports Identity Commercial_Engine
begin

text \<open>
  The commercial platform (\<open>app/services/commercial_service.py\<close>, \<open>app/models/commercial.py\<close>,
  \<open>app/repositories/commercial_repository.py\<close>) behind its routes: catalog, subscriptions,
  entitlements, contracts and their overrides, usage and limits, industry packs, feature flags,
  and the entitlement gate of the other routes (\<open>app/auth/commercial.py\<close>). What a
  \<open>NUMERIC(38, 12)\<close> column returns is a parameter. Ids, audit keys' random parts and the clock
  are arguments of the operations; the newest of rows created at the same microsecond is the
  one inserted first. JSON documents (terms, metadata, event payloads) are left out, and so are
  the ids that nothing refers to.
\<close>

section \<open>Rows\<close>

datatype subscription_status =
    SUB_ACTIVE | SUB_TRIAL | SUB_ENTERPRISE | SUB_PARTNER | SUB_CANCELLED | SUB_EXPIRED | SUB_SUSPENDED

record product =
  pd_code :: string
  pd_name :: string
  pd_description :: string

record feature =
  ft_id :: uuid
  ft_key :: string

record plan =
  pl_id :: uuid
  pl_code :: string
  pl_name :: string
  pl_type :: string

record plan_version =
  pv_id :: uuid
  pv_plan :: uuid
  pv_version :: int
  pv_effective :: int
  pv_expires :: "int option"
  pv_replaces :: "uuid option"
  pv_migration :: string
  pv_created_by :: uuid

text \<open>What an entitlement grants: of a plan version, of an organization.\<close>

record grant_terms =
  gt_type :: string
  gt_key :: string
  gt_enabled :: bool
  gt_limit :: "rat option"
  gt_unit :: "string option"
  gt_enforcement :: "string option"

record plan_entitlement =
  pe_version :: uuid
  pe_terms :: grant_terms

record subscription =
  sb_id :: uuid
  sb_org :: uuid
  sb_plan_version :: uuid
  sb_key :: string
  sb_status :: subscription_status
  sb_starts :: timestamp
  sb_period_start :: timestamp
  sb_period_end :: timestamp
  sb_renews :: "timestamp option"
  sb_trial_ends :: "timestamp option"
  sb_cancelled :: "timestamp option"
  sb_created_by :: uuid
  sb_created :: timestamp

record contract =
  ct_id :: uuid
  ct_org :: uuid
  ct_subscription :: "uuid option"
  ct_code :: string
  ct_type :: string
  ct_effective :: timestamp
  ct_expires :: "timestamp option"
  ct_renews :: "timestamp option"
  ct_notes :: "string option"
  ct_created_by :: uuid

record override =
  ov_org :: uuid
  ov_contract :: uuid
  ov_entitlement :: string
  ov_enabled :: bool
  ov_limit :: "rat option"
  ov_enforcement :: "string option"
  ov_effective :: timestamp
  ov_expires :: "timestamp option"
  ov_reason :: string
  ov_key :: string
  ov_approved_by :: uuid
  ov_created :: timestamp

record entitlement =
  en_org :: uuid
  en_subscription :: "uuid option"
  en_terms :: grant_terms
  en_source :: string
  en_effective :: timestamp
  en_expires :: "timestamp option"
  en_key :: string
  en_granted_by :: uuid
  en_created :: timestamp

record meter =
  mt_code :: string
  mt_aggregation :: string
  mt_currency :: string
  mt_active :: bool

record usage_event =
  ue_org :: uuid
  ue_meter :: string
  ue_key :: string
  ue_quantity :: rat
  ue_distinct :: "string option"
  ue_currency :: "string option"
  ue_source :: "string \<times> string"
  ue_occurred :: timestamp

record pack =
  pk_id :: uuid
  pk_code :: string
  pk_entitlement :: string

record pack_assignment =
  pa_id :: uuid
  pa_org :: uuid
  pa_pack :: uuid
  pa_status :: string
  pa_effective :: timestamp
  pa_expires :: "timestamp option"
  pa_assigned_by :: uuid

record feature_flag =
  ff_id :: uuid
  ff_org :: uuid
  ff_feature :: uuid
  ff_enabled :: bool
  ff_effective :: timestamp
  ff_expires :: "timestamp option"
  ff_reason :: string
  ff_updated_by :: uuid

record limit_definition =
  ld_entitlement :: string
  ld_meter :: string
  ld_enforcement :: string
  ld_period :: string
  ld_warning :: rat
  ld_grace :: rat

record limit_evaluation =
  le_org :: uuid
  le_entitlement :: string
  le_meter :: string
  le_usage :: rat
  le_limit :: rat
  le_status :: limit_status
  le_action :: string

record commercial_event =
  cv_org :: uuid
  cv_type :: string
  cv_entity_type :: string
  cv_entity :: string
  cv_actor :: uuid
  cv_key :: string
  cv_reason :: string

record commercial_db = access_db +
  products :: "product list"
  features :: "feature list"
  plans :: "plan list"
  plan_versions :: "plan_version list"
  plan_entitlements :: "plan_entitlement list"
  subscriptions :: "subscription list"
  contracts :: "contract list"
  overrides :: "override list"
  entitlements :: "entitlement list"
  meters :: "meter list"
  usage_events :: "usage_event list"
  packs :: "pack list"
  pack_assignments :: "pack_assignment list"
  feature_flags :: "feature_flag list"
  limit_definitions :: "limit_definition list"
  limit_evaluations :: "limit_evaluation list"
  commercial_events :: "commercial_event list"

section \<open>Constraints\<close>

definition organization_ids :: "'a access_db_scheme \<Rightarrow> uuid set" where
  "organization_ids db = on_id ` set (organizations db)"

definition catalog_ok :: "'a commercial_db_scheme \<Rightarrow> bool" where
  "catalog_ok db \<longleftrightarrow>
     unique_on pd_code (products db) \<and> unique_on pl_id (plans db) \<and> unique_on pl_code (plans db) \<and>
     unique_on ft_id (features db) \<and> unique_on ft_key (features db) \<and>
     unique_on pk_id (packs db) \<and> unique_on pk_code (packs db) \<and> unique_on pk_entitlement (packs db) \<and>
     unique_on mt_code (meters db) \<and> unique_on ld_entitlement (limit_definitions db) \<and>
     list_all (\<lambda>d. ld_meter d \<in> mt_code ` set (meters db)) (limit_definitions db)"

definition plan_versions_ok :: "'a commercial_db_scheme \<Rightarrow> bool" where
  "plan_versions_ok db \<longleftrightarrow>
     unique_on pv_id (plan_versions db) \<and> unique_on (\<lambda>v. (pv_plan v, pv_version v)) (plan_versions db) \<and>
     list_all (\<lambda>v. 0 < pv_version v \<and> pv_plan v \<in> pl_id ` set (plans db) \<and>
       (case pv_replaces v of None \<Rightarrow> True | Some w \<Rightarrow> w \<in> pv_id ` set (plan_versions db))) (plan_versions db) \<and>
     unique_on (\<lambda>e. (pe_version e, gt_key (pe_terms e))) (plan_entitlements db) \<and>
     list_all (\<lambda>e. pe_version e \<in> pv_id ` set (plan_versions db)) (plan_entitlements db)"

definition subscriptions_ok :: "'a commercial_db_scheme \<Rightarrow> bool" where
  "subscriptions_ok db \<longleftrightarrow>
     unique_on sb_id (subscriptions db) \<and> unique_on (\<lambda>s. (sb_org s, sb_key s)) (subscriptions db) \<and>
     list_all (\<lambda>s. sb_org s \<in> organization_ids db \<and> sb_plan_version s \<in> pv_id ` set (plan_versions db))
       (subscriptions db)"

definition contracts_ok :: "'a commercial_db_scheme \<Rightarrow> bool" where
  "contracts_ok db \<longleftrightarrow>
     unique_on ct_id (contracts db) \<and> unique_on (\<lambda>c. (ct_org c, ct_code c)) (contracts db) \<and>
     list_all (\<lambda>c. ct_org c \<in> organization_ids db \<and>
       (case ct_subscription c of None \<Rightarrow> True | Some s \<Rightarrow> s \<in> sb_id ` set (subscriptions db))) (contracts db)"

definition overrides_ok :: "'a commercial_db_scheme \<Rightarrow> bool" where
  "overrides_ok db \<longleftrightarrow>
     unique_on (\<lambda>v. (ov_org v, ov_key v)) (overrides db) \<and>
     list_all (\<lambda>v. ov_org v \<in> organization_ids db \<and> ov_contract v \<in> ct_id ` set (contracts db)) (overrides db)"

definition entitlements_ok :: "'a commercial_db_scheme \<Rightarrow> bool" where
  "entitlements_ok db \<longleftrightarrow>
     unique_on (\<lambda>e. (en_org e, en_key e)) (entitlements db) \<and>
     list_all (\<lambda>e. en_org e \<in> organization_ids db \<and>
       (case en_subscription e of None \<Rightarrow> True | Some s \<Rightarrow> s \<in> sb_id ` set (subscriptions db))) (entitlements db)"

definition usage_events_ok :: "'a commercial_db_scheme \<Rightarrow> bool" where
  "usage_events_ok db \<longleftrightarrow>
     unique_on (\<lambda>e. (ue_org e, ue_key e)) (usage_events db) \<and>
     list_all (\<lambda>e. ue_org e \<in> organization_ids db \<and> ue_meter e \<in> mt_code ` set (meters db)) (usage_events db)"

definition pack_assignments_ok :: "'a commercial_db_scheme \<Rightarrow> bool" where
  "pack_assignments_ok db \<longleftrightarrow>
     unique_on pa_id (pack_assignments db) \<and> unique_on (\<lambda>a. (pa_org a, pa_pack a)) (pack_assignments db) \<and>
     list_all (\<lambda>a. pa_org a \<in> organization_ids db \<and> pa_pack a \<in> pk_id ` set (packs db)) (pack_assignments db)"

definition feature_flags_ok :: "'a commercial_db_scheme \<Rightarrow> bool" where
  "feature_flags_ok db \<longleftrightarrow>
     unique_on ff_id (feature_flags db) \<and> unique_on (\<lambda>f. (ff_org f, ff_feature f)) (feature_flags db) \<and>
     list_all (\<lambda>f. ff_org f \<in> organization_ids db \<and> ff_feature f \<in> ft_id ` set (features db)) (feature_flags db)"

definition limit_evaluations_ok :: "'a commercial_db_scheme \<Rightarrow> bool" where
  "limit_evaluations_ok db \<longleftrightarrow> list_all (\<lambda>e. le_org e \<in> organization_ids db) (limit_evaluations db)"

definition commercial_events_ok :: "'a commercial_db_scheme \<Rightarrow> bool" where
  "commercial_events_ok db \<longleftrightarrow>
     unique_on (\<lambda>e. (cv_org e, cv_key e)) (commercial_events db) \<and>
     list_all (\<lambda>e. cv_org e \<in> organization_ids db) (commercial_events db)"

definition commercial_constraints :: "'a commercial_db_scheme \<Rightarrow> bool" where
  "commercial_constraints db \<longleftrightarrow>
     catalog_ok db \<and> plan_versions_ok db \<and> subscriptions_ok db \<and> contracts_ok db \<and> overrides_ok db \<and>
     entitlements_ok db \<and> usage_events_ok db \<and> pack_assignments_ok db \<and> feature_flags_ok db \<and>
     limit_evaluations_ok db \<and> commercial_events_ok db"

datatype commercial_error =
    ProductCodeConflict
  | PlanCodeConflict
  | PlanNotFound
  | ReplacementNotFound
  | PlanVersionNotFound
  | TenantRowNotFound string
  | SubscriptionInactive
  | TrialExpired
  | EntitlementDisabled
  | EntitlementRequired
  | MeterNotFound
  | CurrencyNotAllowed
  | LimitNotConfigured
  | LimitNotFound
  | PackNotFound
  | FeatureNotFound
  | CommercialAccessDenied
  | CommercialRequestInvalid
  | CommercialStoreError
  | CommercialValueError value_error

record usage_summary =
  us_start :: timestamp
  us_end :: timestamp
  us_quantities :: "(string \<times> rat) list"

datatype commercial_row =
    ProductOut product
  | PlanOut plan
  | PlanVersionOut plan_version
  | SubscriptionOut subscription
  | EntitlementOut entitlement
  | UsageOut usage_event
  | SummaryOut usage_summary
  | LimitOut string string limit_result
  | ContractOut contract
  | OverrideOut override
  | PackOut pack_assignment
  | FlagOut feature_flag

definition commit_commercial ::
    "'a commercial_db_scheme \<Rightarrow> commercial_row \<Rightarrow> commercial_error + 'a commercial_db_scheme \<times> commercial_row" where
  "commit_commercial db r = (if commercial_constraints db then Inr (db, r) else Inl CommercialStoreError)"

section \<open>Audit events\<close>

text \<open>The entity of an event is the text of its id, which is \<open>None\<close> for a row that was added to
  the session and not flushed.\<close>

definition entity_text :: "uuid option \<Rightarrow> string" where
  "entity_text i = (case i of None \<Rightarrow> ''None'' | Some u \<Rightarrow> uuid_text u)"

definition commercial_audit ::
    "uuid \<Rightarrow> string \<Rightarrow> string \<Rightarrow> uuid option \<Rightarrow> uuid \<Rightarrow> string \<Rightarrow> string \<Rightarrow>
     'a commercial_db_scheme \<Rightarrow> 'a commercial_db_scheme" where
  "commercial_audit org type entity_type entity actor key reason db =
     db\<lparr>commercial_events := commercial_events db @
       [\<lparr>cv_org = org, cv_type = type, cv_entity_type = entity_type, cv_entity = entity_text entity,
         cv_actor = actor, cv_key = key, cv_reason = reason\<rparr>]\<rparr>"

text \<open>The key of the event that a keyed request leaves, whatever its kind.\<close>

definition audit_key :: "string \<Rightarrow> string" where
  "audit_key key = ''audit:'' @ key"

section \<open>Catalog\<close>

definition catalog_code_ok :: "string \<Rightarrow> bool" where
  "catalog_code_ok s \<longleftrightarrow> sized 50 s \<and>
     (case s of [] \<Rightarrow> False
      | c # cs \<Rightarrow> upper [c] = [c] \<and> is_alpha c \<and>
          list_all (\<lambda>c. is_alnum c \<and> upper [c] = [c] \<or> c = CHR ''_'' \<or> c = CHR ''-'') cs)"

definition product_ok :: "product \<Rightarrow> bool" where
  "product_ok p \<longleftrightarrow> catalog_code_ok (pd_code p) \<and> sized 150 (pd_name p) \<and> sized 4000 (pd_description p)"

definition create_product ::
    "product \<Rightarrow> 'a commercial_db_scheme \<Rightarrow> commercial_error + 'a commercial_db_scheme \<times> commercial_row" where
  "create_product p db =
     bindE (require (find (\<lambda>q. pd_code q = pd_code p) (products db) = None) ProductCodeConflict) (\<lambda>_.
     commit_commercial (db\<lparr>products := products db @ [p]\<rparr>) (ProductOut p))"

definition plan_ok :: "plan \<Rightarrow> bool" where
  "plan_ok p \<longleftrightarrow> catalog_code_ok (pl_code p) \<and> sized 150 (pl_name p) \<and>
     pl_type p \<in> {''pilot'', ''growth'', ''enterprise'', ''partner'', ''oem''}"

definition plan_create ::
    "plan \<Rightarrow> 'a commercial_db_scheme \<Rightarrow> commercial_error + 'a commercial_db_scheme \<times> commercial_row" where
  "plan_create p db =
     bindE (require (find (\<lambda>q. pl_code q = pl_code p) (plans db) = None) PlanCodeConflict) (\<lambda>_.
     commit_commercial (db\<lparr>plans := plans db @ [p]\<rparr>) (PlanOut p))"

record plan_version_payload =
  vp_effective :: int
  vp_expires :: "int option"
  vp_replaces :: "uuid option"
  vp_migration :: string

definition plan_version_payload_ok :: "plan_version_payload \<Rightarrow> bool" where
  "plan_version_payload_ok p \<longleftrightarrow> vp_migration p \<in> {''explicit'', ''renewal'', ''immediate''}"

definition create_version ::
    "uuid \<Rightarrow> plan_version_payload \<Rightarrow> uuid \<Rightarrow> uuid \<Rightarrow> 'a commercial_db_scheme \<Rightarrow>
     commercial_error + 'a commercial_db_scheme \<times> commercial_row" where
  "create_version plan_id p i actor db =
     bindE (require (find (\<lambda>q. pl_id q = plan_id) (plans db) \<noteq> None) PlanNotFound) (\<lambda>_.
     bindE (require
              (case vp_replaces p of
                 None \<Rightarrow> True
               | Some w \<Rightarrow> (case find (\<lambda>v. pv_id v = w) (plan_versions db) of
                             None \<Rightarrow> False | Some v \<Rightarrow> pv_plan v = plan_id)) ReplacementNotFound) (\<lambda>_.
     let v = \<lparr>pv_id = i, pv_plan = plan_id,
              pv_version = next_number (map pv_version (filter (\<lambda>v. pv_plan v = plan_id) (plan_versions db))),
              pv_effective = vp_effective p, pv_expires = vp_expires p, pv_replaces = vp_replaces p,
              pv_migration = vp_migration p, pv_created_by = actor\<rparr>
     in commit_commercial (db\<lparr>plan_versions := plan_versions db @ [v]\<rparr>) (PlanVersionOut v)))"

section \<open>Subscriptions\<close>

record subscription_payload =
  sp_plan_version :: uuid
  sp_key :: string
  sp_status :: subscription_status
  sp_starts :: timestamp
  sp_period_start :: timestamp
  sp_period_end :: timestamp
  sp_renews :: "timestamp option"
  sp_trial_ends :: "timestamp option"

definition subscription_payload_ok :: "subscription_payload \<Rightarrow> bool" where
  "subscription_payload_ok p \<longleftrightarrow> sized 255 (sp_key p) \<and>
     sp_status p \<in> {SUB_ACTIVE, SUB_TRIAL, SUB_ENTERPRISE, SUB_PARTNER} \<and>
     sp_period_start p < sp_period_end p \<and> (sp_status p = SUB_TRIAL \<longrightarrow> sp_trial_ends p \<noteq> None)"

definition new_subscription ::
    "uuid \<Rightarrow> subscription_payload \<Rightarrow> uuid \<Rightarrow> uuid \<Rightarrow> timestamp \<Rightarrow> subscription" where
  "new_subscription org p i actor now =
     \<lparr>sb_id = i, sb_org = org, sb_plan_version = sp_plan_version p, sb_key = sp_key p,
      sb_status = sp_status p, sb_starts = sp_starts p, sb_period_start = sp_period_start p,
      sb_period_end = sp_period_end p, sb_renews = sp_renews p, sb_trial_ends = sp_trial_ends p,
      sb_cancelled = None, sb_created_by = actor, sb_created = now\<rparr>"

text \<open>The entitlements of the plan version, copied for the period of the subscription.\<close>

definition plan_defaults :: "'a commercial_db_scheme \<Rightarrow> subscription \<Rightarrow> uuid \<Rightarrow> timestamp \<Rightarrow> entitlement list" where
  "plan_defaults db s actor now =
     map (\<lambda>d. \<lparr>en_org = sb_org s, en_subscription = Some (sb_id s), en_terms = pe_terms d, en_source = ''plan'',
              en_effective = sb_starts s, en_expires = Some (sb_period_end s),
              en_key = ''plan:'' @ uuid_text (sb_id s) @ '':'' @ gt_key (pe_terms d),
              en_granted_by = actor, en_created = now\<rparr>)
       (filter (\<lambda>d. pe_version d = sb_plan_version s) (plan_entitlements db))"

definition subscription_create ::
    "uuid \<Rightarrow> subscription_payload \<Rightarrow> uuid \<Rightarrow> uuid \<Rightarrow> timestamp \<Rightarrow> 'a commercial_db_scheme \<Rightarrow>
     commercial_error + 'a commercial_db_scheme \<times> commercial_row" where
  "subscription_create org p i actor now db =
     (case find (\<lambda>s. sb_org s = org \<and> sb_key s = sp_key p) (subscriptions db) of
        Some prior \<Rightarrow> Inr (db, SubscriptionOut prior)
      | None \<Rightarrow>
          bindE (require (find (\<lambda>v. pv_id v = sp_plan_version p) (plan_versions db) \<noteq> None) PlanVersionNotFound) (\<lambda>_.
          let s = new_subscription org p i actor now
          in commit_commercial
               (commercial_audit org ''subscription_assigned'' ''subscription'' (Some i) actor
                  (audit_key (sp_key p)) ''Plan version assigned''
                  (db\<lparr>subscriptions := subscriptions db @ [s],
                      entitlements := entitlements db @ plan_defaults db s actor now\<rparr>))
               (SubscriptionOut s)))"

record transition_payload =
  tp_status :: subscription_status
  tp_reason :: string
  tp_trial_ends :: "timestamp option"

definition transitioned :: "transition_payload \<Rightarrow> timestamp \<Rightarrow> subscription \<Rightarrow> subscription" where
  "transitioned p now s =
     s\<lparr>sb_status := tp_status p,
       sb_cancelled := (if tp_status p = SUB_CANCELLED then Some now else sb_cancelled s),
       sb_trial_ends := (case tp_trial_ends p of None \<Rightarrow> sb_trial_ends s | Some t \<Rightarrow> Some t)\<rparr>"

definition subscription_transition ::
    "uuid \<Rightarrow> uuid \<Rightarrow> transition_payload \<Rightarrow> uuid \<Rightarrow> uuid \<Rightarrow> timestamp \<Rightarrow> 'a commercial_db_scheme \<Rightarrow>
     commercial_error + 'a commercial_db_scheme \<times> commercial_row" where
  "subscription_transition org i p actor fresh now db =
     bindE (tenant_get sb_id sb_org (TenantRowNotFound ''Subscription'') (subscriptions db) org i) (\<lambda>s.
     let s' = transitioned p now s
     in commit_commercial
          (commercial_audit org ''subscription_changed'' ''subscription'' (Some (sb_id s)) actor
             (''subscription:'' @ uuid_text (sb_id s) @ '':'' @ uuid_text fresh) (tp_reason p)
             (db\<lparr>subscriptions := put_row sb_id s' (subscriptions db)\<rparr>))
          (SubscriptionOut s'))"

section \<open>Entitlements\<close>

definition newest :: "('r \<Rightarrow> timestamp) \<Rightarrow> 'r list \<Rightarrow> 'r option" where
  "newest created rs = (case sort_key (\<lambda>r. - created r) rs of [] \<Rightarrow> None | r # _ \<Rightarrow> Some r)"

definition in_force :: "timestamp \<Rightarrow> timestamp \<Rightarrow> timestamp option \<Rightarrow> bool" where
  "in_force now effective expires \<longleftrightarrow> effective \<le> now \<and> (case expires of None \<Rightarrow> True | Some t \<Rightarrow> now < t)"

definition active_subscription :: "'a commercial_db_scheme \<Rightarrow> uuid \<Rightarrow> timestamp \<Rightarrow> subscription option" where
  "active_subscription db org now =
     newest sb_created
       (filter (\<lambda>s. sb_org s = org \<and> sb_status s \<in> {SUB_ACTIVE, SUB_TRIAL, SUB_ENTERPRISE, SUB_PARTNER} \<and>
                   sb_starts s \<le> now \<and> now < sb_period_end s) (subscriptions db))"

definition active_entitlement :: "'a commercial_db_scheme \<Rightarrow> uuid \<Rightarrow> string \<Rightarrow> timestamp \<Rightarrow> entitlement option" where
  "active_entitlement db org key now =
     newest en_created
       (filter (\<lambda>e. en_org e = org \<and> gt_key (en_terms e) = key \<and> gt_enabled (en_terms e) \<and>
                   in_force now (en_effective e) (en_expires e)) (entitlements db))"

definition active_overrides :: "'a commercial_db_scheme \<Rightarrow> uuid \<Rightarrow> string \<Rightarrow> timestamp \<Rightarrow> override list" where
  "active_overrides db org key now =
     filter (\<lambda>v. ov_org v = org \<and> ov_entitlement v = key \<and> in_force now (ov_effective v) (ov_expires v))
       (overrides db)"

definition entitlement_require ::
    "'a commercial_db_scheme \<Rightarrow> uuid \<Rightarrow> string \<Rightarrow> timestamp \<Rightarrow> commercial_error + entitlement option" where
  "entitlement_require db org key now =
     (case active_subscription db org now of
        None \<Rightarrow> (if find (\<lambda>s. sb_org s = org) (subscriptions db) = None then Inr None
                 else Inl SubscriptionInactive)
      | Some s \<Rightarrow>
          bindE (require (\<not> (sb_status s = SUB_TRIAL \<and>
                   (case sb_trial_ends s of None \<Rightarrow> False | Some t \<Rightarrow> t \<le> now))) TrialExpired) (\<lambda>_.
          let override = newest ov_created (active_overrides db org key now);
              entitlement = active_entitlement db org key now
          in bindE (require (case override of None \<Rightarrow> True | Some v \<Rightarrow> ov_enabled v) EntitlementDisabled) (\<lambda>_.
             bindE (require (entitlement \<noteq> None \<or> override \<noteq> None) EntitlementRequired) (\<lambda>_.
             Inr entitlement))))"

record entitlement_payload =
  ep_terms :: grant_terms
  ep_source :: string
  ep_effective :: timestamp
  ep_expires :: "timestamp option"
  ep_key :: string

definition enforcement_names :: "string list" where
  "enforcement_names = [''hard'', ''soft'', ''warning'', ''read_only'']"

definition entitlement_payload_ok :: "entitlement_payload \<Rightarrow> bool" where
  "entitlement_payload_ok p \<longleftrightarrow>
     gt_type (ep_terms p) \<in> {''product'', ''feature'', ''capability'', ''industry_pack'', ''api'', ''limit'', ''add_on''} \<and>
     sized 150 (gt_key (ep_terms p)) \<and> ep_source p \<in> {''plan'', ''contract'', ''manual'', ''trial''} \<and>
     (case gt_limit (ep_terms p) of None \<Rightarrow> True | Some l \<Rightarrow> 0 \<le> l) \<and>
     bounded_if 50 (gt_unit (ep_terms p)) \<and> one_of_if enforcement_names (gt_enforcement (ep_terms p)) \<and>
     sized 255 (ep_key p)"

definition entitlement_grant ::
    "(rat \<Rightarrow> rat) \<Rightarrow> uuid \<Rightarrow> entitlement_payload \<Rightarrow> uuid \<Rightarrow> uuid option \<Rightarrow> timestamp \<Rightarrow> 'a commercial_db_scheme \<Rightarrow>
     commercial_error + 'a commercial_db_scheme \<times> commercial_row" where
  "entitlement_grant num org p actor sub now db =
     (case find (\<lambda>e. en_org e = org \<and> en_key e = ep_key p) (entitlements db) of
        Some prior \<Rightarrow> Inr (db, EntitlementOut prior)
      | None \<Rightarrow>
          bindE (case sub of
                   None \<Rightarrow> Inr ()
                 | Some i \<Rightarrow>
                     bindE (tenant_get sb_id sb_org (TenantRowNotFound ''Subscription'') (subscriptions db) org i)
                       (\<lambda>_. Inr ())) (\<lambda>_.
          let e = \<lparr>en_org = org, en_subscription = sub,
                   en_terms = (ep_terms p)\<lparr>gt_limit := map_option num (gt_limit (ep_terms p))\<rparr>,
                   en_source = ep_source p, en_effective = ep_effective p, en_expires = ep_expires p,
                   en_key = ep_key p, en_granted_by = actor, en_created = now\<rparr>
          in commit_commercial
               (commercial_audit org ''entitlement_granted'' ''entitlement'' None actor (audit_key (ep_key p))
                  (''Entitlement '' @ gt_key (ep_terms p) @ '' granted'')
                  (db\<lparr>entitlements := entitlements db @ [e]\<rparr>))
               (EntitlementOut e)))"

section \<open>Usage\<close>

text \<open>A \<open>ValueError\<close> of the engine is not handled by the routes.\<close>

definition lift_value :: "value_error + 'a \<Rightarrow> commercial_error + 'a" where
  "lift_value m = (case m of Inl e \<Rightarrow> Inl (CommercialValueError e) | Inr x \<Rightarrow> Inr x)"

lemma lift_value_Inr_iff [simp]: "lift_value m = Inr x \<longleftrightarrow> m = Inr x"
  by (simp add: lift_value_def split: sum.splits)

record usage_payload =
  up_meter :: string
  up_key :: string
  up_quantity :: rat
  up_distinct :: "string option"
  up_currency :: "string option"
  up_source :: "string \<times> string"
  up_occurred :: timestamp

definition usage_payload_ok :: "usage_payload \<Rightarrow> bool" where
  "usage_payload_ok p \<longleftrightarrow> sized 100 (up_meter p) \<and> sized 255 (up_key p) \<and> 0 < up_quantity p \<and>
     bounded_if 255 (up_distinct p) \<and>
     (case up_currency p of None \<Rightarrow> True
      | Some c \<Rightarrow> length c = 3 \<and> list_all (\<lambda>x. is_alpha x \<and> upper [x] = [x]) c) \<and>
     sized 50 (fst (up_source p)) \<and> sized 255 (snd (up_source p))"

definition record_usage ::
    "(rat \<Rightarrow> rat) \<Rightarrow> uuid \<Rightarrow> usage_payload \<Rightarrow> 'a commercial_db_scheme \<Rightarrow>
     commercial_error + 'a commercial_db_scheme \<times> commercial_row" where
  "record_usage num org p db =
     (case find (\<lambda>e. ue_org e = org \<and> ue_key e = up_key p) (usage_events db) of
        Some prior \<Rightarrow> Inr (db, UsageOut prior)
      | None \<Rightarrow>
          bindE (of_option MeterNotFound (find (\<lambda>m. mt_code m = up_meter p \<and> mt_active m) (meters db))) (\<lambda>m.
          bindE (require (\<not> (up_currency p \<noteq> None \<and> mt_currency m = ''not_applicable'')) CurrencyNotAllowed) (\<lambda>_.
          let e = \<lparr>ue_org = org, ue_meter = up_meter p, ue_key = up_key p, ue_quantity = num (up_quantity p),
                   ue_distinct = up_distinct p, ue_currency = up_currency p, ue_source = up_source p,
                   ue_occurred = up_occurred p\<rparr>
          in commit_commercial (db\<lparr>usage_events := usage_events db @ [e]\<rparr>) (UsageOut e))))"

text \<open>One currency's events under a meter's aggregation, and the groups in order of appearance.\<close>

definition aggregate :: "string \<Rightarrow> usage_event list \<Rightarrow> rat" where
  "aggregate how es =
     (if how = ''maximum'' then
        (case map ue_quantity es of [] \<Rightarrow> 0 | q # qs \<Rightarrow> fold max qs q)
      else if how = ''distinct'' then
        of_nat (length (remdups (filter (\<lambda>k. k \<noteq> None \<and> k \<noteq> Some []) (map ue_distinct es))))
      else fold (\<lambda>e total. dadd total (ue_quantity e)) es 0)"

definition currency_group :: "usage_event \<Rightarrow> string" where
  "currency_group e = (case ue_currency e of None \<Rightarrow> ''NON_CURRENCY'' | Some c \<Rightarrow> if c = [] then ''NON_CURRENCY'' else c)"

definition quantities_of :: "string \<Rightarrow> usage_event list \<Rightarrow> (string \<times> rat) list" where
  "quantities_of how es =
     (if es = [] then [(''NON_CURRENCY'', 0)]
      else map (\<lambda>c. (c, aggregate how (filter (\<lambda>e. currency_group e = c) es)))
             (rev (remdups (rev (map currency_group es)))))"

definition summarize ::
    "'a commercial_db_scheme \<Rightarrow> uuid \<Rightarrow> string \<Rightarrow> string \<Rightarrow> timestamp \<Rightarrow> commercial_error + usage_summary" where
  "summarize db org meter_code period moment =
     bindE (of_option MeterNotFound (find (\<lambda>m. mt_code m = meter_code) (meters db))) (\<lambda>m.
     bindE (if period \<in> {''billing_period'', ''subscription_period''} then
              bindE (of_option SubscriptionInactive (active_subscription db org moment)) (\<lambda>s.
              Inr (sb_period_start s, sb_period_end s))
            else lift_value (period_bounds period moment)) (\<lambda>(start, end).
     Inr \<lparr>us_start = start, us_end = end,
          us_quantities = quantities_of (mt_aggregation m)
            (filter (\<lambda>e. ue_org e = org \<and> ue_meter e = meter_code \<and> start \<le> ue_occurred e \<and> ue_occurred e < end)
               (usage_events db))\<rparr>))"

section \<open>Limits\<close>

definition or_default :: "string option \<Rightarrow> string \<Rightarrow> string" where
  "or_default s d = (case s of None \<Rightarrow> d | Some t \<Rightarrow> if t = [] then d else t)"

definition total_usage :: "usage_summary \<Rightarrow> rat" where
  "total_usage u = fold (\<lambda>q total. dadd total q) (map snd (us_quantities u)) 0"

definition limit_evaluate ::
    "(rat \<Rightarrow> rat) \<Rightarrow> uuid \<Rightarrow> string \<Rightarrow> timestamp \<Rightarrow> timestamp \<Rightarrow> 'a commercial_db_scheme \<Rightarrow>
     commercial_error + 'a commercial_db_scheme \<times> commercial_row" where
  "limit_evaluate num org key moment now db =
     bindE (entitlement_require db org key now) (\<lambda>entitlement.
     bindE (of_option LimitNotConfigured
              (Option.bind entitlement (\<lambda>e. map_option (\<lambda>l. (e, l)) (gt_limit (en_terms e))))) (\<lambda>(e, plan_limit).
     bindE (of_option LimitNotFound (find (\<lambda>d. ld_entitlement d = key) (limit_definitions db))) (\<lambda>d.
     bindE (summarize db org (ld_meter d) (ld_period d) moment) (\<lambda>u.
     let override = newest ov_created (filter ov_enabled (active_overrides db org key moment));
         limit_value = (case Option.bind override ov_limit of Some l \<Rightarrow> l | None \<Rightarrow> plan_limit);
         enforcement = (case Option.bind override ov_enforcement of
                          Some x \<Rightarrow> Some x | None \<Rightarrow> gt_enforcement (en_terms e))
     in bindE (lift_value (evaluate_limit (total_usage u) limit_value (or_default enforcement (ld_enforcement d))
                 (ld_warning d) (ld_grace d))) (\<lambda>r.
        commit_commercial
          (db\<lparr>limit_evaluations := limit_evaluations db @
               [\<lparr>le_org = org, le_entitlement = key, le_meter = ld_meter d, le_usage = num (lr_usage r),
                 le_limit = num (lr_limit r), le_status = lr_status r, le_action = lr_action r\<rparr>]\<rparr>)
          (LimitOut key (ld_meter d) r))))))"

section \<open>Contracts\<close>

record contract_payload =
  cp_subscription :: "uuid option"
  cp_code :: string
  cp_type :: string
  cp_effective :: timestamp
  cp_expires :: "timestamp option"
  cp_renews :: "timestamp option"
  cp_notes :: "string option"

definition contract_payload_ok :: "contract_payload \<Rightarrow> bool" where
  "contract_payload_ok p \<longleftrightarrow> sized 100 (cp_code p) \<and>
     cp_type p \<in> {''enterprise'', ''partner'', ''oem'', ''standard''} \<and> bounded_if 4000 (cp_notes p)"

definition contract_create ::
    "uuid \<Rightarrow> contract_payload \<Rightarrow> uuid \<Rightarrow> uuid \<Rightarrow> 'a commercial_db_scheme \<Rightarrow>
     commercial_error + 'a commercial_db_scheme \<times> commercial_row" where
  "contract_create org p i actor db =
     bindE (case cp_subscription p of
              None \<Rightarrow> Inr ()
            | Some s \<Rightarrow>
                bindE (tenant_get sb_id sb_org (TenantRowNotFound ''Subscription'') (subscriptions db) org s)
                  (\<lambda>_. Inr ())) (\<lambda>_.
     let c = \<lparr>ct_id = i, ct_org = org, ct_subscription = cp_subscription p, ct_code = cp_code p,
              ct_type = cp_type p, ct_effective = cp_effective p, ct_expires = cp_expires p,
              ct_renews = cp_renews p, ct_notes = cp_notes p, ct_created_by = actor\<rparr>
     in commit_commercial
          (commercial_audit org ''contract_created'' ''contract'' (Some i) actor (''contract:'' @ uuid_text i)
             ''Commercial contract created'' (db\<lparr>contracts := contracts db @ [c]\<rparr>))
          (ContractOut c))"

record override_payload =
  op_entitlement :: string
  op_enabled :: bool
  op_limit :: "rat option"
  op_enforcement :: "string option"
  op_effective :: timestamp
  op_expires :: "timestamp option"
  op_reason :: string
  op_key :: string

definition override_payload_ok :: "override_payload \<Rightarrow> bool" where
  "override_payload_ok p \<longleftrightarrow> sized 150 (op_entitlement p) \<and>
     (case op_limit p of None \<Rightarrow> True | Some l \<Rightarrow> 0 \<le> l) \<and> one_of_if enforcement_names (op_enforcement p) \<and>
     sized 4000 (op_reason p) \<and> sized 255 (op_key p)"

definition contract_override ::
    "(rat \<Rightarrow> rat) \<Rightarrow> uuid \<Rightarrow> uuid \<Rightarrow> override_payload \<Rightarrow> uuid \<Rightarrow> timestamp \<Rightarrow> 'a commercial_db_scheme \<Rightarrow>
     commercial_error + 'a commercial_db_scheme \<times> commercial_row" where
  "contract_override num org contract_id p actor now db =
     bindE (tenant_get ct_id ct_org (TenantRowNotFound ''Contract'') (contracts db) org contract_id) (\<lambda>_.
     case find (\<lambda>v. ov_org v = org \<and> ov_key v = op_key p) (overrides db) of
       Some prior \<Rightarrow> Inr (db, OverrideOut prior)
     | None \<Rightarrow>
         let v = \<lparr>ov_org = org, ov_contract = contract_id, ov_entitlement = op_entitlement p,
                  ov_enabled = op_enabled p, ov_limit = map_option num (op_limit p),
                  ov_enforcement = op_enforcement p, ov_effective = op_effective p, ov_expires = op_expires p,
                  ov_reason = op_reason p, ov_key = op_key p, ov_approved_by = actor, ov_created = now\<rparr>
         in commit_commercial
              (commercial_audit org ''contract_override_applied'' ''contract_override'' None actor
                 (audit_key (op_key p)) (op_reason p) (db\<lparr>overrides := overrides db @ [v]\<rparr>))
              (OverrideOut v))"

section \<open>Industry packs and feature flags\<close>

record pack_payload =
  ap_code :: string
  ap_effective :: timestamp
  ap_expires :: "timestamp option"

definition pack_assign ::
    "uuid \<Rightarrow> pack_payload \<Rightarrow> uuid \<Rightarrow> uuid \<Rightarrow> uuid \<Rightarrow> timestamp \<Rightarrow> 'a commercial_db_scheme \<Rightarrow>
     commercial_error + 'a commercial_db_scheme \<times> commercial_row" where
  "pack_assign org p i actor fresh now db =
     bindE (of_option PackNotFound (find (\<lambda>k. pk_code k = ap_code p) (packs db))) (\<lambda>k.
     bindE (entitlement_require db org (pk_entitlement k) now) (\<lambda>_.
     let audit = (\<lambda>entity. commercial_audit org ''industry_pack_enabled'' ''industry_pack_assignment'' entity actor
           (''pack:'' @ uuid_text org @ '':'' @ pk_code k @ '':'' @ uuid_text fresh)
           (''Industry pack '' @ pk_code k @ '' enabled''))
     in (case find (\<lambda>a. pa_org a = org \<and> pa_pack a = pk_id k) (pack_assignments db) of
           None \<Rightarrow>
             let a = \<lparr>pa_id = i, pa_org = org, pa_pack = pk_id k, pa_status = ''active'',
                      pa_effective = ap_effective p, pa_expires = ap_expires p, pa_assigned_by = actor\<rparr>
             in commit_commercial (audit None (db\<lparr>pack_assignments := pack_assignments db @ [a]\<rparr>)) (PackOut a)
         | Some a \<Rightarrow>
             let a' = a\<lparr>pa_status := ''active'', pa_effective := ap_effective p, pa_expires := ap_expires p\<rparr>
             in commit_commercial
                  (audit (Some (pa_id a)) (db\<lparr>pack_assignments := put_row pa_id a' (pack_assignments db)\<rparr>))
                  (PackOut a'))))"

record flag_payload =
  fp_feature :: string
  fp_enabled :: bool
  fp_effective :: timestamp
  fp_expires :: "timestamp option"
  fp_reason :: string

definition flag_payload_ok :: "flag_payload \<Rightarrow> bool" where
  "flag_payload_ok p \<longleftrightarrow> sized 150 (fp_feature p) \<and> sized 4000 (fp_reason p)"

definition flag_set ::
    "uuid \<Rightarrow> flag_payload \<Rightarrow> uuid \<Rightarrow> uuid \<Rightarrow> uuid \<Rightarrow> timestamp \<Rightarrow> 'a commercial_db_scheme \<Rightarrow>
     commercial_error + 'a commercial_db_scheme \<times> commercial_row" where
  "flag_set org p i actor fresh now db =
     bindE (of_option FeatureNotFound (find (\<lambda>f. ft_key f = fp_feature p) (features db))) (\<lambda>f.
     bindE (if fp_enabled p then bindE (entitlement_require db org (fp_feature p) now) (\<lambda>_. Inr ()) else Inr ()) (\<lambda>_.
     let audit = (\<lambda>entity. commercial_audit org
           (if fp_enabled p then ''feature_enabled'' else ''feature_disabled'') ''feature_flag'' entity actor
           (''feature:'' @ uuid_text org @ '':'' @ ft_key f @ '':'' @ uuid_text fresh) (fp_reason p))
     in (case find (\<lambda>g. ff_org g = org \<and> ff_feature g = ft_id f) (feature_flags db) of
           None \<Rightarrow>
             let g = \<lparr>ff_id = i, ff_org = org, ff_feature = ft_id f, ff_enabled = fp_enabled p,
                      ff_effective = fp_effective p, ff_expires = fp_expires p, ff_reason = fp_reason p,
                      ff_updated_by = actor\<rparr>
             in commit_commercial (audit None (db\<lparr>feature_flags := feature_flags db @ [g]\<rparr>)) (FlagOut g)
         | Some g \<Rightarrow>
             let g' = g\<lparr>ff_enabled := fp_enabled p, ff_effective := fp_effective p, ff_expires := fp_expires p,
                       ff_reason := fp_reason p, ff_updated_by := actor\<rparr>
             in commit_commercial
                  (audit (Some (ff_id g)) (db\<lparr>feature_flags := put_row ff_id g' (feature_flags db)\<rparr>))
                  (FlagOut g'))))"

section \<open>The gate of the other routes\<close>

definition require_commercial_entitlement ::
    "string \<Rightarrow> membership_role list \<Rightarrow> 'a commercial_db_scheme \<Rightarrow> uuid \<Rightarrow> authenticated_user \<Rightarrow> timestamp \<Rightarrow>
     commercial_error + unit" where
  "require_commercial_entitlement key roles db org u now =
     (case require_organization_roles roles db org u of
        Inl _ \<Rightarrow> Inl CommercialAccessDenied
      | Inr _ \<Rightarrow>
          if au_platform_admin u then Inr ()
          else bindE (entitlement_require db org key now) (\<lambda>_. Inr ()))"

section \<open>Requests\<close>

datatype commercial_op =
    CreateProduct product
  | CreatePlan plan
  | CreatePlanVersion uuid plan_version_payload uuid
  | CreateSubscription uuid subscription_payload uuid timestamp
  | TransitionSubscription uuid uuid transition_payload uuid timestamp
  | GrantEntitlement uuid entitlement_payload "uuid option" timestamp
  | RecordUsage uuid usage_payload
  | UsageSummary uuid string string timestamp
  | LimitStatus uuid string timestamp timestamp
  | CreateContract uuid contract_payload uuid
  | OverrideContract uuid uuid override_payload timestamp
  | AssignPack uuid pack_payload uuid uuid timestamp
  | SetFlag uuid flag_payload uuid uuid timestamp

definition as_catalog_admin ::
    "authenticated_user \<Rightarrow> bool \<Rightarrow> (commercial_error + 'a commercial_db_scheme \<times> commercial_row) \<Rightarrow>
     commercial_error + 'a commercial_db_scheme \<times> commercial_row" where
  "as_catalog_admin u ok m =
     (case require_platform_admin u of
        Inl _ \<Rightarrow> Inl CommercialAccessDenied
      | Inr _ \<Rightarrow> bindE (require ok CommercialRequestInvalid) (\<lambda>_. m))"

definition as_tenant ::
    "membership_role list \<Rightarrow> 'a commercial_db_scheme \<Rightarrow> uuid \<Rightarrow> authenticated_user \<Rightarrow> bool \<Rightarrow>
     (commercial_error + 'a commercial_db_scheme \<times> commercial_row) \<Rightarrow>
     commercial_error + 'a commercial_db_scheme \<times> commercial_row" where
  "as_tenant roles db org u ok m =
     (case require_organization_roles roles db org u of
        Inl _ \<Rightarrow> Inl CommercialAccessDenied
      | Inr _ \<Rightarrow> bindE (require ok CommercialRequestInvalid) (\<lambda>_. m))"

fun commercial_step ::
    "(rat \<Rightarrow> rat) \<Rightarrow> authenticated_user \<times> commercial_op \<Rightarrow> 'a commercial_db_scheme \<Rightarrow>
     commercial_error + 'a commercial_db_scheme \<times> commercial_row" where
  "commercial_step num (u, CreateProduct p) db = as_catalog_admin u (product_ok p) (create_product p db)"
| "commercial_step num (u, CreatePlan p) db = as_catalog_admin u (plan_ok p) (plan_create p db)"
| "commercial_step num (u, CreatePlanVersion plan p i) db =
     as_catalog_admin u (plan_version_payload_ok p) (create_version plan p i (au_id u) db)"
| "commercial_step num (u, CreateSubscription org p i now) db =
     as_tenant organization_admin_roles db org u (subscription_payload_ok p)
       (subscription_create org p i (au_id u) now db)"
| "commercial_step num (u, TransitionSubscription org i p fresh now) db =
     as_tenant organization_admin_roles db org u (sized 4000 (tp_reason p))
       (subscription_transition org i p (au_id u) fresh now db)"
| "commercial_step num (u, GrantEntitlement org p sub now) db =
     as_tenant organization_admin_roles db org u (entitlement_payload_ok p)
       (entitlement_grant num org p (au_id u) sub now db)"
| "commercial_step num (u, RecordUsage org p) db =
     as_tenant organization_admin_roles db org u (usage_payload_ok p) (record_usage num org p db)"
| "commercial_step num (u, UsageSummary org meter_code period moment) db =
     as_tenant organization_read_roles db org u
       (period \<in> {''daily'', ''weekly'', ''monthly'', ''billing_period'', ''subscription_period''})
       (bindE (summarize db org meter_code period moment) (\<lambda>s. Inr (db, SummaryOut s)))"
| "commercial_step num (u, LimitStatus org key moment now) db =
     as_tenant organization_read_roles db org u True (limit_evaluate num org key moment now db)"
| "commercial_step num (u, CreateContract org p i) db =
     as_tenant organization_admin_roles db org u (contract_payload_ok p) (contract_create org p i (au_id u) db)"
| "commercial_step num (u, OverrideContract org c p now) db =
     as_tenant organization_admin_roles db org u (override_payload_ok p)
       (contract_override num org c p (au_id u) now db)"
| "commercial_step num (u, AssignPack org p i fresh now) db =
     as_tenant organization_admin_roles db org u (sized 50 (ap_code p))
       (pack_assign org p i (au_id u) fresh now db)"
| "commercial_step num (u, SetFlag org p i fresh now) db =
     as_tenant organization_admin_roles db org u (flag_payload_ok p)
       (flag_set org p i (au_id u) fresh now db)"

end
