(* ===== verification/Commercial_Proofs.thy ===== *)
theory Commercial_Proofs
  imports Commercial
begin

text \<open>
  What a request does to the commercial tables, the well-formed states, and the entitlement
  decision as a relation.
\<close>

section \<open>Effects\<close>

inductive commercial_effect :: "rat set \<Rightarrow> uuid option \<Rightarrow> 'a commercial_db_scheme \<Rightarrow> 'a commercial_db_scheme \<Rightarrow> bool" where
  same: "commercial_effect qs owner db db"
| product_added: "commercial_effect qs None db (db\<lparr>products := products db @ [p]\<rparr>)"
| plan_added: "commercial_effect qs None db (db\<lparr>plans := plans db @ [q]\<rparr>)"
| version_added:
    "pv_version v = next_number (map pv_version (filter (\<lambda>w. pv_plan w = pv_plan v) (plan_versions db))) \<Longrightarrow>
     commercial_effect qs None db (db\<lparr>plan_versions := plan_versions db @ [v]\<rparr>)"
| subscribed: "s = new_subscription org p i actor now \<Longrightarrow>
    commercial_effect qs (Some org) db
      (commercial_audit org ''subscription_assigned'' ''subscription'' (Some i) actor (audit_key (sp_key p)) reason
        (db\<lparr>subscriptions := subscriptions db @ [s], entitlements := entitlements db @ plan_defaults db s actor now\<rparr>))"
| moved: "s \<in> set (subscriptions db) \<Longrightarrow> sb_org s = org \<Longrightarrow>
    commercial_effect qs (Some org) db
      (commercial_audit org ''subscription_changed'' ''subscription'' (Some (sb_id s)) actor key reason
        (db\<lparr>subscriptions := put_row sb_id (transitioned p now s) (subscriptions db)\<rparr>))"
| granted: "en_org e = org \<Longrightarrow>
    commercial_effect qs (Some org) db
      (commercial_audit org ''entitlement_granted'' ''entitlement'' None actor (audit_key (en_key e)) reason
        (db\<lparr>entitlements := entitlements db @ [e]\<rparr>))"
| used: "ue_org e = org \<Longrightarrow> ue_quantity e \<in> qs \<Longrightarrow> commercial_effect qs (Some org) db (db\<lparr>usage_events := usage_events db @ [e]\<rparr>)"
| evaluated: "le_org l = org \<Longrightarrow>
    commercial_effect qs (Some org) db (db\<lparr>limit_evaluations := limit_evaluations db @ [l]\<rparr>)"
| contracted: "ct_org c = org \<Longrightarrow>
    commercial_effect qs (Some org) db
      (commercial_audit org ''contract_created'' ''contract'' (Some (ct_id c)) actor key reason
        (db\<lparr>contracts := contracts db @ [c]\<rparr>))"
| overridden: "ov_org v = org \<Longrightarrow>
    commercial_effect qs (Some org) db
      (commercial_audit org ''contract_override_applied'' ''contract_override'' None actor (audit_key (ov_key v)) reason
        (db\<lparr>overrides := overrides db @ [v]\<rparr>))"
| pack_added: "pa_org a = org \<Longrightarrow>
    commercial_effect qs (Some org) db
      (commercial_audit org t et None actor key reason (db\<lparr>pack_assignments := pack_assignments db @ [a]\<rparr>))"
| pack_changed: "a \<in> set (pack_assignments db) \<Longrightarrow> pa_org a = org \<Longrightarrow> pa_id a' = pa_id a \<Longrightarrow> pa_org a' = org \<Longrightarrow>
    commercial_effect qs (Some org) db
      (commercial_audit org t et (Some (pa_id a)) actor key reason
        (db\<lparr>pack_assignments := put_row pa_id a' (pack_assignments db)\<rparr>))"
| flag_added: "ff_org f = org \<Longrightarrow>
    commercial_effect qs (Some org) db
      (commercial_audit org t et None actor key reason (db\<lparr>feature_flags := feature_flags db @ [f]\<rparr>))"
| flag_changed: "f \<in> set (feature_flags db) \<Longrightarrow> ff_org f = org \<Longrightarrow> ff_id f' = ff_id f \<Longrightarrow> ff_org f' = org \<Longrightarrow>
    commercial_effect qs (Some org) db
      (commercial_audit org t et (Some (ff_id f)) actor key reason
        (db\<lparr>feature_flags := put_row ff_id f' (feature_flags db)\<rparr>))"

text \<open>The organization a request names; catalog requests name none.\<close>

fun commercial_op_org :: "commercial_op \<Rightarrow> uuid option" where
  "commercial_op_org (CreateProduct p) = None"
| "commercial_op_org (CreatePlan p) = None"
| "commercial_op_org (CreatePlanVersion plan p i) = None"
| "commercial_op_org (CreateSubscription org p i now) = Some org"
| "commercial_op_org (TransitionSubscription org i p fresh now) = Some org"
| "commercial_op_org (GrantEntitlement org p sub now) = Some org"
| "commercial_op_org (RecordUsage org p) = Some org"
| "commercial_op_org (UsageSummary org meter_code period moment) = Some org"
| "commercial_op_org (LimitStatus org key moment now) = Some org"
| "commercial_op_org (CreateContract org p i) = Some org"
| "commercial_op_org (OverrideContract org c p now) = Some org"
| "commercial_op_org (AssignPack org p i fresh now) = Some org"
| "commercial_op_org (SetFlag org p i fresh now) = Some org"

lemma commit_commercialD:
  "commit_commercial db r = Inr (db', r') \<Longrightarrow> db' = db \<and> r' = r \<and> commercial_constraints db'"
  by (auto simp: commit_commercial_def split: if_splits)

lemma as_tenantD: "as_tenant roles db org u ok m = Inr x \<Longrightarrow> ok \<and> m = Inr x"
  by (simp add: as_tenant_def split: sum.splits)

lemma as_catalog_adminD: "as_catalog_admin u ok m = Inr x \<Longrightarrow> ok \<and> m = Inr x"
  by (simp add: as_catalog_admin_def split: sum.splits)

text \<open>What an operation guarantees: the effect, and constraints unless nothing changed.\<close>

definition commercial_post ::
    "rat set \<Rightarrow> uuid option \<Rightarrow> 'a commercial_db_scheme \<Rightarrow> 'a commercial_db_scheme \<Rightarrow> bool" where
  "commercial_post qs owner db db' \<longleftrightarrow> commercial_effect qs owner db db' \<and> (db' = db \<or> commercial_constraints db')"

lemma commercial_post_same [simp]: "commercial_post qs owner db db"
  by (simp add: commercial_post_def commercial_effect.same)

lemma commercial_postI:
  "commit_commercial db1 r = Inr (db', r') \<Longrightarrow> commercial_effect qs owner db db1 \<Longrightarrow> commercial_post qs owner db db'"
  by (auto simp: commercial_post_def dest: commit_commercialD)

lemma create_product_post: "create_product p db = Inr (db', r) \<Longrightarrow> commercial_post qs None db db'"
  by (auto simp: create_product_def intro: commercial_postI commercial_effect.product_added)

lemma plan_create_post: "plan_create p db = Inr (db', r) \<Longrightarrow> commercial_post qs None db db'"
  by (auto simp: plan_create_def intro: commercial_postI commercial_effect.plan_added)

lemma create_version_post: "create_version plan p i actor db = Inr (db', r) \<Longrightarrow> commercial_post qs None db db'"
  by (auto simp: create_version_def Let_def intro!: commercial_postI commercial_effect.version_added)

lemma subscription_create_post:
  "subscription_create org p i actor now db = Inr (db', r) \<Longrightarrow> commercial_post qs (Some org) db db'"
  by (auto simp: subscription_create_def Let_def split: option.splits
      intro!: commercial_postI commercial_effect.subscribed)

lemma subscription_transition_post:
  "subscription_transition org i p actor fresh now db = Inr (db', r) \<Longrightarrow> commercial_post qs (Some org) db db'"
  by (auto simp: subscription_transition_def Let_def dest!: tenant_getD
      intro!: commercial_postI commercial_effect.moved)

lemma entitlement_grant_post:
  assumes "entitlement_grant num org p actor sub now db = Inr (db', r)"
  shows "commercial_post qs (Some org) db db'"
proof (cases "find (\<lambda>e. en_org e = org \<and> en_key e = ep_key p) (entitlements db)")
  case None
  let ?e = "\<lparr>en_org = org, en_subscription = sub,
     en_terms = (ep_terms p)\<lparr>gt_limit := map_option num (gt_limit (ep_terms p))\<rparr>,
     en_source = ep_source p, en_effective = ep_effective p, en_expires = ep_expires p,
     en_key = ep_key p, en_granted_by = actor, en_created = now\<rparr>"
  from assms None have "commit_commercial
      (commercial_audit org ''entitlement_granted'' ''entitlement'' None actor (audit_key (en_key ?e))
         (''Entitlement '' @ gt_key (ep_terms p) @ '' granted'') (db\<lparr>entitlements := entitlements db @ [?e]\<rparr>))
      (EntitlementOut ?e) = Inr (db', r)"
    by (simp add: entitlement_grant_def Let_def)
  then show ?thesis by (rule commercial_postI) (intro commercial_effect.granted, simp)
next
  case (Some e)
  with assms show ?thesis by (simp add: entitlement_grant_def)
qed

lemma record_usage_post:
  "record_usage num org p db = Inr (db', r) \<Longrightarrow> num (up_quantity p) \<in> qs \<Longrightarrow> commercial_post qs (Some org) db db'"
  by (auto simp: record_usage_def Let_def split: option.splits intro!: commercial_postI commercial_effect.used)

lemma limit_evaluate_post: "limit_evaluate num org key moment now db = Inr (db', r) \<Longrightarrow> commercial_post qs (Some org) db db'"
  by (auto simp: limit_evaluate_def Let_def intro!: commercial_postI commercial_effect.evaluated)

lemma contract_create_post:
  assumes "contract_create org p i actor db = Inr (db', r)"
  shows "commercial_post qs (Some org) db db'"
proof -
  let ?c = "\<lparr>ct_id = i, ct_org = org, ct_subscription = cp_subscription p, ct_code = cp_code p,
     ct_type = cp_type p, ct_effective = cp_effective p, ct_expires = cp_expires p,
     ct_renews = cp_renews p, ct_notes = cp_notes p, ct_created_by = actor\<rparr>"
  from assms have "commit_commercial
      (commercial_audit org ''contract_created'' ''contract'' (Some (ct_id ?c)) actor (''contract:'' @ uuid_text i)
         ''Commercial contract created'' (db\<lparr>contracts := contracts db @ [?c]\<rparr>)) (ContractOut ?c) = Inr (db', r)"
    by (simp add: contract_create_def Let_def)
  then show ?thesis by (rule commercial_postI) (intro commercial_effect.contracted, simp)
qed

lemma contract_override_post:
  assumes "contract_override num org c p actor now db = Inr (db', r)"
  shows "commercial_post qs (Some org) db db'"
proof (cases "find (\<lambda>v. ov_org v = org \<and> ov_key v = op_key p) (overrides db)")
  case None
  let ?v = "\<lparr>ov_org = org, ov_contract = c, ov_entitlement = op_entitlement p,
     ov_enabled = op_enabled p, ov_limit = map_option num (op_limit p),
     ov_enforcement = op_enforcement p, ov_effective = op_effective p, ov_expires = op_expires p,
     ov_reason = op_reason p, ov_key = op_key p, ov_approved_by = actor, ov_created = now\<rparr>"
  from assms None have "commit_commercial
      (commercial_audit org ''contract_override_applied'' ''contract_override'' None actor (audit_key (ov_key ?v))
         (op_reason p) (db\<lparr>overrides := overrides db @ [?v]\<rparr>)) (OverrideOut ?v) = Inr (db', r)"
    by (auto simp: contract_override_def Let_def)
  then show ?thesis by (rule commercial_postI) (intro commercial_effect.overridden, simp)
next
  case (Some v)
  with assms show ?thesis by (auto simp: contract_override_def)
qed

lemma pack_assign_post:
  assumes "pack_assign org p i actor fresh now db = Inr (db', r)"
  shows "commercial_post qs (Some org) db db'"
proof -
  obtain k where k: "find (\<lambda>k. pk_code k = ap_code p) (packs db) = Some k"
    using assms by (auto simp: pack_assign_def)
  show ?thesis
  proof (cases "find (\<lambda>a. pa_org a = org \<and> pa_pack a = pk_id k) (pack_assignments db)")
    case None
    with assms k show ?thesis
      by (auto simp: pack_assign_def Let_def intro!: commercial_postI commercial_effect.pack_added)
  next
    case (Some a)
    with find_SomeD [OF Some] assms k show ?thesis
      by (auto simp: pack_assign_def Let_def intro!: commercial_postI commercial_effect.pack_changed)
  qed
qed

lemma flag_set_post:
  assumes "flag_set org p i actor fresh now db = Inr (db', r)"
  shows "commercial_post qs (Some org) db db'"
proof -
  obtain f where f: "find (\<lambda>f. ft_key f = fp_feature p) (features db) = Some f"
    using assms by (auto simp: flag_set_def)
  show ?thesis
  proof (cases "find (\<lambda>g. ff_org g = org \<and> ff_feature g = ft_id f) (feature_flags db)")
    case None
    with assms f show ?thesis
      by (auto simp: flag_set_def Let_def intro!: commercial_postI commercial_effect.flag_added)
  next
    case (Some g)
    with find_SomeD [OF Some] assms f show ?thesis
      by (auto simp: flag_set_def Let_def intro!: commercial_postI commercial_effect.flag_changed)
  qed
qed

lemmas commercial_posts =
  create_product_post plan_create_post create_version_post subscription_create_post
  subscription_transition_post entitlement_grant_post record_usage_post limit_evaluate_post
  contract_create_post contract_override_post pack_assign_post flag_set_post

lemma commercial_step_post:
  "commercial_step num (u, op) db = Inr (db', r) \<Longrightarrow>
     commercial_post (num ` {q. 0 < q}) (commercial_op_org op) db db'"
  by (cases op) (auto dest!: as_tenantD as_catalog_adminD intro: commercial_posts simp: usage_payload_ok_def)

section \<open>Tables\<close>

text \<open>What an effect leaves of each table: its prefix for the histories, its rows for the others.\<close>

definition subscription_moves :: "subscription \<Rightarrow> subscription \<Rightarrow> bool" where
  "subscription_moves s s' \<longleftrightarrow> (\<exists>p now. s' = transitioned p now s)"

lemma commercial_audit_simps [simp]:
  "organizations (commercial_audit org t et i a k rs db) = organizations db"
  "memberships (commercial_audit org t et i a k rs db) = memberships db"
  "products (commercial_audit org t et i a k rs db) = products db"
  "features (commercial_audit org t et i a k rs db) = features db"
  "plans (commercial_audit org t et i a k rs db) = plans db"
  "plan_versions (commercial_audit org t et i a k rs db) = plan_versions db"
  "plan_entitlements (commercial_audit org t et i a k rs db) = plan_entitlements db"
  "subscriptions (commercial_audit org t et i a k rs db) = subscriptions db"
  "contracts (commercial_audit org t et i a k rs db) = contracts db"
  "overrides (commercial_audit org t et i a k rs db) = overrides db"
  "entitlements (commercial_audit org t et i a k rs db) = entitlements db"
  "meters (commercial_audit org t et i a k rs db) = meters db"
  "usage_events (commercial_audit org t et i a k rs db) = usage_events db"
  "packs (commercial_audit org t et i a k rs db) = packs db"
  "pack_assignments (commercial_audit org t et i a k rs db) = pack_assignments db"
  "feature_flags (commercial_audit org t et i a k rs db) = feature_flags db"
  "limit_definitions (commercial_audit org t et i a k rs db) = limit_definitions db"
  "limit_evaluations (commercial_audit org t et i a k rs db) = limit_evaluations db"
  "commercial_events (commercial_audit org t et i a k rs db) = commercial_events db @
     [\<lparr>cv_org = org, cv_type = t, cv_entity_type = et, cv_entity = entity_text i, cv_actor = a,
       cv_key = k, cv_reason = rs\<rparr>]"
  by (simp_all add: commercial_audit_def)

definition grows :: "'x list \<Rightarrow> 'x list \<Rightarrow> bool" where
  "grows xs ys \<longleftrightarrow> (\<exists>zs. ys = xs @ zs)"

lemma grows_refl [simp]: "grows xs xs"
  by (simp add: grows_def)

lemma grows_append [simp]: "grows xs (xs @ ys)"
  by (simp add: grows_def)

lemma grows_in: "grows xs ys \<Longrightarrow> x \<in> set xs \<Longrightarrow> x \<in> set ys"
  by (auto simp: grows_def)

lemma commercial_effect_histories:
  assumes "commercial_effect qs owner db db'"
  shows "grows (plan_versions db) (plan_versions db')" "grows (entitlements db) (entitlements db')"
    "grows (overrides db) (overrides db')" "grows (usage_events db) (usage_events db')"
    "grows (commercial_events db) (commercial_events db')" "grows (contracts db) (contracts db')"
  using assms by (cases; simp)+

lemma commercial_effect_subscriptions:
  assumes "commercial_effect qs (Some org) db db'"
  shows "table_step sb_id sb_org (\<lambda>s. sb_cancelled s = None) subscription_moves org (subscriptions db) (subscriptions db')"
  using assms
proof cases
  case (subscribed s p i actor now reason)
  then show ?thesis by (simp add: table_step_add new_subscription_def)
next
  case (moved s actor key reason p now)
  have "table_step sb_id sb_org (\<lambda>s. sb_cancelled s = None) subscription_moves org (subscriptions db)
      (put_row sb_id (transitioned p now s) (subscriptions db))"
    using moved(2,3) by (intro table_step_put) (auto simp: transitioned_def subscription_moves_def)
  then show ?thesis by (simp add: moved(1))
qed simp_all

lemma commercial_effect_catalog:
  assumes "commercial_effect qs None db db'"
  shows "subscriptions db' = subscriptions db" "entitlements db' = entitlements db" "overrides db' = overrides db"
    "usage_events db' = usage_events db" "contracts db' = contracts db"
    "pack_assignments db' = pack_assignments db" "feature_flags db' = feature_flags db"
    "limit_evaluations db' = limit_evaluations db" "commercial_events db' = commercial_events db"
  using assms by (cases; simp)+

section \<open>Invariant\<close>

text \<open>The versions of a plan are numbered from one without gaps.\<close>

definition plan_numbers :: "'a commercial_db_scheme \<Rightarrow> uuid \<Rightarrow> int list" where
  "plan_numbers db plan = map pv_version (filter (\<lambda>v. pv_plan v = plan) (plan_versions db))"

definition commercial_wf :: "'a commercial_db_scheme \<Rightarrow> bool" where
  "commercial_wf db \<longleftrightarrow> commercial_constraints db \<and> (\<forall>plan. numbered (plan_numbers db plan))"

lemma commercial_effect_numbers:
  assumes "commercial_effect qs owner db db'" "\<forall>plan. numbered (plan_numbers db plan)"
  shows "numbered (plan_numbers db' plan)"
  using assms(1)
proof cases
  case (version_added v)
  then show ?thesis using assms(2) numbered_snoc [of "plan_numbers db plan"]
    by (auto simp: plan_numbers_def)
qed (use assms(2) in \<open>simp_all add: plan_numbers_def\<close>)

lemma commercial_post_wf: "commercial_post qs owner db db' \<Longrightarrow> commercial_wf db \<Longrightarrow> commercial_wf db'"
  by (auto simp: commercial_wf_def commercial_post_def dest: commercial_effect_numbers)

lemma commercial_step_wf:
  "commercial_wf db \<Longrightarrow> commercial_step num call db = Inr (db', r) \<Longrightarrow> commercial_wf db'"
  using commercial_step_post [of num "fst call" "snd call" db db' r] commercial_post_wf by auto

lemma commercial_step_effect:
  "commercial_step num call db = Inr (db', r) \<Longrightarrow> commercial_effect (num ` {q. 0 < q}) (commercial_op_org (snd call)) db db'"
  using commercial_step_post [of num "fst call" "snd call" db db' r] by (auto simp: commercial_post_def)

lemma subscription_ids_unique: "commercial_wf db \<Longrightarrow> unique_on sb_id (subscriptions db)"
  by (simp add: commercial_wf_def commercial_constraints_def subscriptions_ok_def)

section \<open>Interfaces\<close>

definition subscription_at :: "'a commercial_db_scheme \<Rightarrow> uuid \<Rightarrow> subscription option" where
  "subscription_at db i = find (\<lambda>s. sb_id s = i) (subscriptions db)"

lemma commercial_step_subscription:
  assumes "commercial_wf db" "commercial_step num call db = Inr (db', r)" "subscription_at db i = Some s"
  shows "\<exists>s'. subscription_at db' i = Some s' \<and> (s' = s \<or> subscription_moves s s')"
proof (cases "commercial_op_org (snd call)")
  case None
  then show ?thesis
    using commercial_effect_catalog(1) [of _ db db'] commercial_step_effect [OF assms(2)] assms(3)
    by (simp add: subscription_at_def)
next
  case (Some org)
  from table_step_row [OF commercial_effect_subscriptions subscription_ids_unique [OF assms(1)]]
    commercial_step_effect [OF assms(2)] Some assms(3)
  show ?thesis by (auto simp: subscription_at_def)
qed

interpretation subscription_rows: row_service "commercial_step num" commercial_wf subscription_at subscription_moves
  by unfold_locales (use commercial_step_wf commercial_step_subscription in blast)+

lemma commercial_step_histories:
  assumes "commercial_step num call db = Inr (db', r)"
  shows "\<exists>vs. plan_versions db' = plan_versions db @ vs" "\<exists>es. entitlements db' = entitlements db @ es"
    "\<exists>vs. overrides db' = overrides db @ vs" "\<exists>es. usage_events db' = usage_events db @ es"
    "\<exists>es. commercial_events db' = commercial_events db @ es"
  using commercial_effect_histories [OF commercial_step_effect [OF assms]] by (simp_all add: grows_def)

interpretation plan_version_log: append_only_service "commercial_step num" commercial_wf plan_versions
  by unfold_locales (rule commercial_step_histories)

interpretation entitlement_log: append_only_service "commercial_step num" commercial_wf entitlements
  by unfold_locales (rule commercial_step_histories)

interpretation override_log: append_only_service "commercial_step num" commercial_wf overrides
  by unfold_locales (rule commercial_step_histories)

interpretation usage_log: append_only_service "commercial_step num" commercial_wf usage_events
  by unfold_locales (rule commercial_step_histories)

interpretation commercial_event_log: append_only_service "commercial_step num" commercial_wf commercial_events
  by unfold_locales (rule commercial_step_histories)

section \<open>The entitlement decision\<close>

lemma newest_None: "newest created rs = None \<longleftrightarrow> rs = []"
proof -
  have "sort_key (\<lambda>r. - created r) rs = [] \<longleftrightarrow> rs = []" by (metis length_0_conv length_sort)
  then show ?thesis by (auto simp: newest_def split: list.split)
qed

lemma newest_Some:
  assumes "newest created rs = Some r"
  shows "r \<in> set rs" "x \<in> set rs \<Longrightarrow> created x \<le> created r"
proof -
  obtain rest where s: "sort_key (\<lambda>r. - created r) rs = r # rest"
    using assms by (auto simp: newest_def split: list.splits)
  have "set (sort_key (\<lambda>r. - created r) rs) = set rs" by simp
  then have set: "set rs = insert r (set rest)" unfolding s by auto
  then show "r \<in> set rs" by simp
  have "sorted (map (\<lambda>r. - created r) (r # rest))" using sorted_sort_key [of "\<lambda>r. - created r" rs] s by simp
  then show "x \<in> set rs \<Longrightarrow> created x \<le> created r" unfolding set by auto
qed

text \<open>A subscription that counts at a moment, what backs a capability, and what blocks it.\<close>

definition subscription_in_force :: "timestamp \<Rightarrow> subscription \<Rightarrow> bool" where
  "subscription_in_force now s \<longleftrightarrow>
     sb_status s \<in> {SUB_ACTIVE, SUB_TRIAL, SUB_ENTERPRISE, SUB_PARTNER} \<and>
     sb_starts s \<le> now \<and> now < sb_period_end s \<and>
     \<not> (sb_status s = SUB_TRIAL \<and> (case sb_trial_ends s of None \<Rightarrow> False | Some t \<Rightarrow> t \<le> now))"

definition grants :: "uuid \<Rightarrow> string \<Rightarrow> timestamp \<Rightarrow> entitlement \<Rightarrow> bool" where
  "grants org key now e \<longleftrightarrow> en_org e = org \<and> gt_key (en_terms e) = key \<and> gt_enabled (en_terms e) \<and>
     in_force now (en_effective e) (en_expires e)"

definition overruled :: "override list \<Rightarrow> bool" where
  "overruled vs \<longleftrightarrow> (\<exists>v \<in> set vs. \<not> ov_enabled v \<and> (\<forall>w \<in> set vs. ov_enabled w \<longrightarrow> ov_created w < ov_created v))"

lemma entitlement_require_granted:
  assumes "entitlement_require db org key now = Inr g" "\<exists>s \<in> set (subscriptions db). sb_org s = org"
  shows "\<exists>s \<in> set (subscriptions db). sb_org s = org \<and> subscription_in_force now s"
    and "(\<exists>e \<in> set (entitlements db). grants org key now e) \<or> (\<exists>v \<in> set (active_overrides db org key now). ov_enabled v)"
    and "\<not> overruled (active_overrides db org key now)"
proof -
  have "find (\<lambda>s. sb_org s = org) (subscriptions db) \<noteq> None" using assms(2) by (auto simp: find_None_iff)
  then obtain s where s: "active_subscription db org now = Some s"
    "\<not> (sb_status s = SUB_TRIAL \<and> (case sb_trial_ends s of None \<Rightarrow> False | Some t \<Rightarrow> t \<le> now))"
    "case newest ov_created (active_overrides db org key now) of None \<Rightarrow> True | Some v \<Rightarrow> ov_enabled v"
    "active_entitlement db org key now \<noteq> None \<or> newest ov_created (active_overrides db org key now) \<noteq> None"
    using assms(1) by (auto simp: entitlement_require_def Let_def split: option.splits)
  have "s \<in> set (subscriptions db) \<and> sb_org s = org \<and> subscription_in_force now s"
    using newest_Some(1) [OF s(1) [unfolded active_subscription_def]] s(2) by (simp add: subscription_in_force_def)
  then show "\<exists>s \<in> set (subscriptions db). sb_org s = org \<and> subscription_in_force now s" by blast
  show "(\<exists>e \<in> set (entitlements db). grants org key now e) \<or> (\<exists>v \<in> set (active_overrides db org key now). ov_enabled v)"
  proof (cases "active_entitlement db org key now")
    case None
    with s(3,4) show ?thesis by (auto dest: newest_Some(1))
  next
    case (Some e)
    from newest_Some(1) [OF this [unfolded active_entitlement_def]] show ?thesis by (auto simp: grants_def)
  qed
  show "\<not> overruled (active_overrides db org key now)"
  proof (cases "newest ov_created (active_overrides db org key now)")
    case None
    then show ?thesis by (simp add: newest_None overruled_def)
  next
    case (Some w)
    with newest_Some [OF Some] s(3) show ?thesis by (force simp: overruled_def)
  qed
qed

text \<open>The only ways to be refused.\<close>

lemma entitlement_require_refused:
  assumes "entitlement_require db org key now = Inl err"
  shows "err = SubscriptionInactive \<or> err = TrialExpired \<or>
    err = EntitlementDisabled \<and> (\<exists>v \<in> set (active_overrides db org key now). \<not> ov_enabled v) \<or>
    err = EntitlementRequired \<and> (\<forall>e \<in> set (entitlements db). \<not> grants org key now e)"
proof (cases "active_entitlement db org key now")
  case None
  then have "\<forall>e \<in> set (entitlements db). \<not> grants org key now e"
    by (auto simp: active_entitlement_def newest_None filter_empty_conv grants_def)
  with assms show ?thesis
    by (auto simp: entitlement_require_def Let_def bindE_Inl_iff split: option.splits if_splits dest: newest_Some(1))
next
  case (Some e)
  with assms show ?thesis
    by (auto simp: entitlement_require_def Let_def bindE_Inl_iff split: option.splits if_splits dest: newest_Some(1))
qed

end
