(* ===== verification/Commercial_Properties.thy ===== *)
theory Commercial_Properties
  imports Commercial_Proofs
begin

text \<open>
  The properties of the commercial platform: what a granted entitlement proves and when it can
  be lost, how usage accumulates within a period, and the periods themselves.
\<close>

section \<open>Usage\<close>

lemma aggregate_sum_from:
  "dctx a = a \<Longrightarrow> 0 \<le> a \<Longrightarrow> \<forall>e \<in> set es. 0 \<le> ue_quantity e \<Longrightarrow>
     a \<le> fold (\<lambda>e total. dadd total (ue_quantity e)) es a \<and>
     dctx (fold (\<lambda>e total. dadd total (ue_quantity e)) es a) = fold (\<lambda>e total. dadd total (ue_quantity e)) es a"
proof (induction es arbitrary: a)
  case (Cons e es)
  have "dctx a \<le> dctx (a + ue_quantity e)" using Cons.prems(3) by (intro dctx_mono) simp
  then have "a \<le> dadd a (ue_quantity e)" "dctx (dadd a (ue_quantity e)) = dadd a (ue_quantity e)"
    using Cons.prems(1) by (simp_all add: dadd_def dctx_idem)
  with Cons.IH [of "dadd a (ue_quantity e)"] Cons.prems show ?case by auto
qed simp

lemma fold_max_ge: "(q :: rat) \<le> fold max qs q"
proof (induction qs arbitrary: q)
  case (Cons x qs)
  from Cons.IH [of "max x q"] show ?case by simp
qed simp

lemma aggregate_grows:
  assumes "\<forall>e \<in> set (es @ fs). 0 \<le> ue_quantity e"
  shows "aggregate how es \<le> aggregate how (es @ fs)"
proof -
  consider "how = ''maximum''" | "how = ''distinct''" | "how \<noteq> ''maximum''" "how \<noteq> ''distinct''" by blast
  then show ?thesis
  proof cases
    case 1
    then show ?thesis
    proof (cases es)
      case Nil
      have "0 \<le> fold max qs q" if "0 \<le> q" for q :: rat and qs
        using that fold_max_ge [of q qs] by linarith
      with 1 Nil assms show ?thesis by (cases fs) (auto simp: aggregate_def)
    next
      case (Cons e es')
      then show ?thesis using 1 by (simp add: aggregate_def fold_max_ge)
    qed
  next
    case 2
    let ?keys = "\<lambda>es. filter (\<lambda>k. k \<noteq> None \<and> k \<noteq> Some []) (map ue_distinct es)"
    have "card (set (?keys es)) \<le> card (set (?keys (es @ fs)))" by (intro card_mono) auto
    then have "length (remdups (?keys es)) \<le> length (remdups (?keys (es @ fs)))"
      by (simp only: length_remdups_card_conv)
    with 2 show ?thesis by (simp add: aggregate_def)
  next
    case 3
    let ?sum = "\<lambda>es a. fold (\<lambda>e total. dadd total (ue_quantity e)) es a"
    have "0 \<le> ?sum es 0" "dctx (?sum es 0) = ?sum es 0"
      using aggregate_sum_from [of 0 es] assms by auto
    then have "?sum es 0 \<le> ?sum fs (?sum es 0)" using aggregate_sum_from [of "?sum es 0" fs] assms by auto
    with 3 show ?thesis by (simp add: aggregate_def)
  qed
qed

text \<open>The usage of one currency in a summary; a currency without a group has none.\<close>

definition quantity_for :: "usage_summary \<Rightarrow> string \<Rightarrow> rat" where
  "quantity_for s c = (case map_of (us_quantities s) c of None \<Rightarrow> 0 | Some q \<Rightarrow> q)"

lemma aggregate_Nil [simp]: "aggregate how [] = 0"
  by (simp add: aggregate_def)

lemma map_of_groups:
  "map_of (map (\<lambda>c. (c, f c)) cs) c = (if c \<in> set cs then Some (f c) else None)"
  by (induction cs) auto

lemma quantity_for_aggregate:
  "quantity_for \<lparr>us_start = s, us_end = e, us_quantities = quantities_of how es\<rparr> c =
     aggregate how (filter (\<lambda>x. currency_group x = c) es)"
proof (cases "c \<in> set (map currency_group es)")
  case True
  then have "es \<noteq> []" by auto
  with True show ?thesis by (simp add: quantity_for_def quantities_of_def map_of_groups)
next
  case False
  then have "filter (\<lambda>x. currency_group x = c) es = []" by (auto simp: filter_empty_conv)
  with False show ?thesis by (auto simp: quantity_for_def quantities_of_def map_of_groups)
qed

definition usage_sound :: "'a commercial_db_scheme \<Rightarrow> bool" where
  "usage_sound db \<longleftrightarrow> (\<forall>e \<in> set (usage_events db). 0 \<le> ue_quantity e)"

lemma commercial_step_meters:
  "commercial_step num call db = Inr (db', r) \<Longrightarrow> meters db' = meters db"
  by (drule commercial_step_effect) (erule commercial_effect.cases; simp)

lemma commercial_step_usage_sound:
  assumes "commercial_step num call db = Inr (db', r)" "usage_sound db" "\<And>x. 0 \<le> x \<Longrightarrow> 0 \<le> num x"
  shows "usage_sound db'"
  using commercial_step_effect [OF assms(1)] assms(2,3)
  by cases (auto simp: usage_sound_def less_imp_le)

section \<open>Keys\<close>

text \<open>No two events of an organization share a key, so a keyed request whose key already left an
  event cannot commit.\<close>

lemma audit_key_taken:
  assumes "c \<in> set (commercial_events db)" "cv_org c = org" "cv_key c = key"
  shows "\<not> commercial_constraints (commercial_audit org t et i a key rs db)"
  using assms by (auto simp: commercial_constraints_def commercial_events_ok_def unique_on_snoc image_iff)

lemma fails_either_way:
  "\<exists>err. m = Inl err \<or> (\<exists>x. m = Inr x) \<and> e = err"
  by (cases m) auto

lemma audit_key_taken_commit:
  assumes "c \<in> set (commercial_events db)" "cv_org c = org" "cv_key c = key"
  shows "commit_commercial (commercial_audit org t et i a key rs db) row = Inl CommercialStoreError"
  using audit_key_taken [OF assms] by (simp add: commit_commercial_def)

section \<open>Example data\<close>

definition demo_terms :: "string \<Rightarrow> rat option \<Rightarrow> grant_terms" where
  "demo_terms key limit = \<lparr>gt_type = ''limit'', gt_key = key, gt_enabled = True, gt_limit = limit,
     gt_unit = None, gt_enforcement = Some ''hard''\<rparr>"

definition demo_subscription :: subscription where
  "demo_subscription = \<lparr>sb_id = 20, sb_org = 1, sb_plan_version = 5, sb_key = ''k'', sb_status = SUB_ACTIVE,
     sb_starts = 0, sb_period_start = 0, sb_period_end = 1000, sb_renews = None, sb_trial_ends = None,
     sb_cancelled = None, sb_created_by = 10, sb_created = 0\<rparr>"

definition demo_entitlement :: entitlement where
  "demo_entitlement = \<lparr>en_org = 1, en_subscription = Some 20, en_terms = demo_terms ''limits.files'' (Some 10),
     en_source = ''plan'', en_effective = 0, en_expires = Some 1000, en_key = ''plan'', en_granted_by = 10,
     en_created = 0\<rparr>"

definition demo_usage :: "string \<Rightarrow> rat \<Rightarrow> usage_event" where
  "demo_usage key q = \<lparr>ue_org = 1, ue_meter = ''files'', ue_key = key, ue_quantity = q, ue_distinct = None,
     ue_currency = None, ue_source = (''s'', ''i''), ue_occurred = 5\<rparr>"

definition demo_commercial_db :: commercial_db where
  "demo_commercial_db = access_db.extend demo_access_db
     \<lparr>products = [], features = [],
      plans = [\<lparr>pl_id = 4, pl_code = ''GROWTH'', pl_name = ''Growth'', pl_type = ''growth''\<rparr>],
      plan_versions = [\<lparr>pv_id = 5, pv_plan = 4, pv_version = 1, pv_effective = 0, pv_expires = None,
        pv_replaces = None, pv_migration = ''explicit'', pv_created_by = 9\<rparr>],
      plan_entitlements = [\<lparr>pe_version = 5, pe_terms = demo_terms ''limits.files'' (Some 10)\<rparr>],
      subscriptions = [demo_subscription], contracts = [], overrides = [],
      entitlements = [demo_entitlement],
      meters = [\<lparr>mt_code = ''files'', mt_aggregation = ''sum'', mt_currency = ''not_applicable'', mt_active = True\<rparr>],
      usage_events = [demo_usage ''a'' 3], packs = [], pack_assignments = [], feature_flags = [],
      limit_definitions = [], limit_evaluations = [],
      commercial_events = [\<lparr>cv_org = 1, cv_type = ''subscription_assigned'', cv_entity_type = ''subscription'',
        cv_entity = uuid_text 20, cv_actor = 10, cv_key = audit_key ''k'', cv_reason = ''Plan version assigned''\<rparr>]\<rparr>"

lemma demo_commercial_simps:
  "organizations demo_commercial_db = [demo_organization 1 ''a'', demo_organization 2 ''b'']"
  "memberships demo_commercial_db = [demo_member 10 ORGANIZATION_ADMIN, demo_member 11 VIEWER]"
  "subscriptions demo_commercial_db = [demo_subscription]" "entitlements demo_commercial_db = [demo_entitlement]"
  "overrides demo_commercial_db = []" "usage_events demo_commercial_db = [demo_usage ''a'' 3]"
  "meters demo_commercial_db =
     [\<lparr>mt_code = ''files'', mt_aggregation = ''sum'', mt_currency = ''not_applicable'', mt_active = True\<rparr>]"
  "commercial_events demo_commercial_db = [\<lparr>cv_org = 1, cv_type = ''subscription_assigned'',
     cv_entity_type = ''subscription'', cv_entity = uuid_text 20, cv_actor = 10, cv_key = audit_key ''k'',
     cv_reason = ''Plan version assigned''\<rparr>]"
  by (simp_all add: demo_commercial_db_def demo_access_db_def access_db.defs)

lemma demo_commercial_wf: "commercial_wf demo_commercial_db" "usage_sound demo_commercial_db"
proof -
  have "commercial_constraints demo_commercial_db"
    by (simp add: commercial_constraints_def catalog_ok_def plan_versions_ok_def subscriptions_ok_def
        contracts_ok_def overrides_ok_def entitlements_ok_def usage_events_ok_def pack_assignments_ok_def
        feature_flags_ok_def limit_evaluations_ok_def commercial_events_ok_def organization_ids_def
        unique_on_def demo_commercial_db_def demo_access_db_def access_db.defs demo_organization_def
        demo_subscription_def demo_entitlement_def demo_usage_def)
  moreover have "numbered (plan_numbers demo_commercial_db plan)" for plan
    by (simp add: plan_numbers_def numbered_def demo_commercial_db_def demo_access_db_def access_db.defs)
  ultimately show "commercial_wf demo_commercial_db" by (simp add: commercial_wf_def)
  show "usage_sound demo_commercial_db" by (simp add: usage_sound_def demo_commercial_simps demo_usage_def)
qed

definition demo_report :: "(authenticated_user \<times> commercial_op) list" where
  "demo_report = [(demo_user 10 ''a'', RecordUsage 1 \<lparr>up_meter = ''files'', up_key = ''b'', up_quantity = 4,
     up_distinct = None, up_currency = None, up_source = (''s'', ''i''), up_occurred = 6\<rparr>)]"

section \<open>Properties\<close>

text \<open>C13: Access to paid capabilities fails closed. Once an organization has had a subscription, an
  entitlement check of any later moment succeeds only under a subscription in force whose trial
  has not run out, with an enabled entitlement or an enabling contract override in force for the
  capability, and with no disabling override newer than every enabling one.\<close>

theorem commercial_access_fails_closed:
  assumes "commercial_wf db" "s0 \<in> set (subscriptions db)" "db2 = run_ops (commercial_step num) calls db"
    and "entitlement_require db2 (sb_org s0) key now = Inr g"
  shows "(\<exists>s \<in> set (subscriptions db2). sb_org s = sb_org s0 \<and> subscription_in_force now s) \<and>
    ((\<exists>e \<in> set (entitlements db2). grants (sb_org s0) key now e) \<or>
     (\<exists>v \<in> set (active_overrides db2 (sb_org s0) key now). ov_enabled v)) \<and>
    \<not> overruled (active_overrides db2 (sb_org s0) key now)"
proof -
  have "subscription_at db (sb_id s0) = Some s0"
    unfolding subscription_at_def by (rule find_pk_unique [OF subscription_ids_unique [OF assms(1)] assms(2)])
  moreover have "sb_org s' = sb_org s0" if "sb_org s = sb_org s0" "subscription_moves s s'" for s s'
    using that by (auto simp: subscription_moves_def transitioned_def)
  ultimately obtain s' where "subscription_at db2 (sb_id s0) = Some s'" "sb_org s' = sb_org s0"
    using subscription_rows.run_stable [where P = "\<lambda>s. sb_org s = sb_org s0", OF _ assms(1)] unfolding assms(3) by metis
  then have "\<exists>s \<in> set (subscriptions db2). sb_org s = sb_org s0"
    unfolding subscription_at_def by (auto dest: find_SomeD)
  from entitlement_require_granted [OF assms(4) this] show ?thesis by blast
qed

text \<open>A granted entitlement cannot be taken back. While it has not expired, no request (not a
  later grant that disables the capability, not the cancellation of the subscription it came
  with) makes a check fail for want of an entitlement: only the loss of every subscription in
  force or a disabling contract override refuses it.\<close>

theorem granted_entitlement_stays:
  assumes "commercial_wf db" "e \<in> set (entitlements db)" "grants org key now e"
    and "db2 = run_ops (commercial_step num) calls db" "entitlement_require db2 org key now = Inl err"
  shows "err = SubscriptionInactive \<or> err = TrialExpired \<or>
    err = EntitlementDisabled \<and> (\<exists>v \<in> set (active_overrides db2 org key now). \<not> ov_enabled v)"
proof -
  have "e \<in> set (entitlements db2)"
    using entitlement_log.run_log [OF assms(1), of num calls] assms(2) by (auto simp: assms(4))
  with entitlement_require_refused [OF assms(5)] assms(3) show ?thesis by blast
qed

text \<open>A key serves one kind of request only. Subscriptions, entitlements and overrides record
  their idempotency key in the audit trail under one prefix, so once a key has been used, a
  first request of another kind with the same key fails on the store, whatever comes between.\<close>

theorem key_of_another_kind_fails:
  assumes "commercial_wf db" "c \<in> set (commercial_events db)" "cv_key c = audit_key key"
    and "db2 = run_ops (commercial_step num) calls db"
  shows "((\<exists>err. subscription_create (cv_org c) (p\<lparr>sp_key := key\<rparr>) i actor now db2 = Inl err) \<or>
      (\<exists>s. s \<in> set (subscriptions db2) \<and> sb_org s = cv_org c \<and> sb_key s = key)) \<and>
    ((\<exists>err. entitlement_grant num (cv_org c) (q\<lparr>ep_key := key\<rparr>) actor sub now db2 = Inl err) \<or>
      (\<exists>e. e \<in> set (entitlements db2) \<and> en_org e = cv_org c \<and> en_key e = key)) \<and>
    ((\<exists>err. contract_override num (cv_org c) k (r\<lparr>op_key := key\<rparr>) actor now db2 = Inl err) \<or>
      (\<exists>v. v \<in> set (overrides db2) \<and> ov_org v = cv_org c \<and> ov_key v = key))"
proof -
  have c: "c \<in> set (commercial_events db2)"
    using commercial_event_log.run_log [OF assms(1), of num calls] assms(2) by (auto simp: assms(4))
  have "m = Inl err \<Longrightarrow> \<exists>err. m = Inl err" for m :: "commercial_error + 'b commercial_db_scheme \<times> commercial_row" and err
    by blast
  note f = audit_key_taken_commit [OF _ refl assms(3), of _ _ _ _ _ _ _]
  have "(\<exists>err. subscription_create (cv_org c) (p\<lparr>sp_key := key\<rparr>) i actor now db2 = Inl err) \<or>
      (\<exists>s. s \<in> set (subscriptions db2) \<and> sb_org s = cv_org c \<and> sb_key s = key)"
    using c by (cases "find (\<lambda>v. pv_id v = sp_plan_version p) (plan_versions db2)")
      (auto simp: subscription_create_def Let_def f bindE_Inl_iff split: option.splits dest!: find_SomeD)
  moreover have "(\<exists>err. entitlement_grant num (cv_org c) (q\<lparr>ep_key := key\<rparr>) actor sub now db2 = Inl err) \<or>
      (\<exists>e. e \<in> set (entitlements db2) \<and> en_org e = cv_org c \<and> en_key e = key)"
    using c by (auto simp: entitlement_grant_def Let_def f bindE_Inl_iff fails_either_way split: option.splits dest!: find_SomeD)
  moreover have "(\<exists>err. contract_override num (cv_org c) k (r\<lparr>op_key := key\<rparr>) actor now db2 = Inl err) \<or>
      (\<exists>v. v \<in> set (overrides db2) \<and> ov_org v = cv_org c \<and> ov_key v = key)"
    using c by (auto simp: contract_override_def Let_def f bindE_Inl_iff fails_either_way split: option.splits dest!: find_SomeD)
  ultimately show ?thesis by blast
qed

text \<open>C36: Usage never shrinks. In a calendar period, no request lowers the usage of any currency of
  a meter, whatever its aggregation, and the period of a moment stays the same.\<close>

theorem usage_never_shrinks:
  assumes "commercial_wf db" "usage_sound db" "\<And>x. 0 \<le> x \<Longrightarrow> 0 \<le> num x"
    and "db2 = run_ops (commercial_step num) calls db"
    and "period \<notin> {''billing_period'', ''subscription_period''}" "summarize db org code period moment = Inr s"
  shows "\<exists>s2. summarize db2 org code period moment = Inr s2 \<and> us_start s2 = us_start s \<and> us_end s2 = us_end s \<and>
    quantity_for s c \<le> quantity_for s2 c"
proof -
  have u: "usage_sound db2"
    unfolding assms(4) by (rule subscription_rows.run_keeps [where P = usage_sound, OF _ assms(1,2)])
      (use commercial_step_usage_sound assms(3) in blast)
  have m: "meters db2 = meters db"
    unfolding assms(4) by (rule subscription_rows.run_keeps [where P = "\<lambda>d. meters d = meters db", OF _ assms(1) refl])
      (simp add: commercial_step_meters)
  obtain new where new: "usage_events db2 = usage_events db @ new"
    using usage_log.run_log [OF assms(1), of num calls] by (auto simp: assms(4))
  let ?in = "\<lambda>start end e. ue_org e = org \<and> ue_meter e = code \<and> start \<le> ue_occurred e \<and> ue_occurred e < end"
  obtain mt start "end" where mt: "find (\<lambda>m. mt_code m = code) (meters db) = Some mt"
    "period_bounds period moment = Inr (start, end)"
    and s: "s = \<lparr>us_start = start, us_end = end,
      us_quantities = quantities_of (mt_aggregation mt) (filter (?in start end) (usage_events db))\<rparr>"
    using assms(5,6) by (auto simp: summarize_def)
  let ?s2 = "\<lparr>us_start = start, us_end = end,
      us_quantities = quantities_of (mt_aggregation mt) (filter (?in start end) (usage_events db2))\<rparr>"
  have "summarize db2 org code period moment = Inr ?s2"
    using assms(5) mt by (simp add: summarize_def m lift_value_def)
  moreover have "quantity_for s c \<le> quantity_for ?s2 c"
    unfolding s quantity_for_aggregate unfolding new filter_append
    by (rule aggregate_grows) (use u in \<open>auto simp: usage_sound_def new\<close>)
  ultimately show ?thesis by (simp add: s)
qed

text \<open>Usage periods partition time. A moment lies in its daily, weekly or monthly period, every
  moment of that period has the same bounds, and they lie on midnights.\<close>

theorem usage_periods_partition:
  assumes "period_bounds period t = Inr (s, e)"
  shows "s \<le> t \<and> t < e \<and> (s \<le> t' \<and> t' < e \<longrightarrow> period_bounds period t' = Inr (s, e)) \<and>
    s mod day_length = 0 \<and> e mod day_length = 0"
  using period_bounds_partition [OF assms] by (auto simp: period_bounds_days [OF assms] midnight_def)

theorem usage_periods_partition_witness:
  "(63897552000000000 :: int) \<le> 63900000000000000 \<and> (63900000000000000 :: int) < 63900144000000000"
proof -
  have "period_bounds ''monthly'' 63900000000000000 = Inr (63897552000000000, 63900144000000000)" by code_simp
  from usage_periods_partition [OF this] show ?thesis by blast
qed

lemma demo_report_run:
  "run_ops (commercial_step id) demo_report demo_commercial_db =
     demo_commercial_db\<lparr>usage_events := [demo_usage ''a'' 3, (demo_usage ''b'' 4)\<lparr>ue_occurred := 6\<rparr>]\<rparr>"
proof -
  let ?db = "demo_commercial_db\<lparr>usage_events := [demo_usage ''a'' 3, (demo_usage ''b'' 4)\<lparr>ue_occurred := 6\<rparr>]\<rparr>"
  have "commercial_constraints ?db"
    by (simp add: commercial_constraints_def catalog_ok_def plan_versions_ok_def subscriptions_ok_def
        contracts_ok_def overrides_ok_def entitlements_ok_def usage_events_ok_def pack_assignments_ok_def
        feature_flags_ok_def limit_evaluations_ok_def commercial_events_ok_def organization_ids_def
        unique_on_def demo_commercial_db_def demo_access_db_def access_db.defs demo_organization_def
        demo_subscription_def demo_entitlement_def demo_usage_def)
  moreover have "require_organization_roles organization_admin_roles demo_commercial_db 1 (demo_user 10 ''a'') =
      Inr (Some (demo_member 10 ORGANIZATION_ADMIN))"
    by (simp add: require_organization_roles_def require_roles_def require_active_member_def membership_of_def
        demo_user_def demo_commercial_simps demo_member_def organization_admin_roles_def)
  ultimately show ?thesis
    by (simp add: demo_report_def attempt_def as_tenant_def usage_payload_ok_def sized_def bounded_if_def
        record_usage_def demo_commercial_simps demo_usage_def commit_commercial_def Let_def)
qed

theorem commercial_access_fails_closed_witness:
  "\<exists>s \<in> set (subscriptions (run_ops (commercial_step id) demo_report demo_commercial_db)).
     sb_org s = 1 \<and> subscription_in_force 5 s"
proof -
  have "entitlement_require (run_ops (commercial_step id) demo_report demo_commercial_db)
      (sb_org demo_subscription) ''limits.files'' 5 = Inr (Some demo_entitlement)"
    unfolding demo_report_run
    by (simp add: entitlement_require_def active_subscription_def active_entitlement_def active_overrides_def
        newest_def in_force_def demo_commercial_simps demo_subscription_def demo_entitlement_def demo_terms_def)
  from commercial_access_fails_closed [OF demo_commercial_wf(1) _ refl this] show ?thesis
    by (simp add: demo_commercial_simps) (simp add: demo_subscription_def)
qed

theorem granted_entitlement_stays_witness:
  "entitlement_require (run_ops (commercial_step id) demo_report demo_commercial_db) 1 ''limits.files'' 5 \<noteq>
     Inl EntitlementRequired"
proof
  assume "entitlement_require (run_ops (commercial_step id) demo_report demo_commercial_db) 1 ''limits.files'' 5 =
     Inl EntitlementRequired"
  from granted_entitlement_stays [OF demo_commercial_wf(1) _ _ refl this, of demo_entitlement] show False
    by (simp add: demo_commercial_simps grants_def in_force_def demo_entitlement_def demo_terms_def)
qed

definition demo_grant :: entitlement_payload where
  "demo_grant = \<lparr>ep_terms = demo_terms ''features.sso'' None, ep_source = ''manual'', ep_effective = 0,
     ep_expires = None, ep_key = ''k''\<rparr>"

theorem key_of_another_kind_fails_witness:
  "\<exists>err. entitlement_grant id 1 demo_grant 10 None 7
     (run_ops (commercial_step id) demo_report demo_commercial_db) = Inl err"
proof -
  let ?c = "\<lparr>cv_org = 1, cv_type = ''subscription_assigned'', cv_entity_type = ''subscription'',
    cv_entity = uuid_text 20, cv_actor = 10, cv_key = audit_key ''k'', cv_reason = ''Plan version assigned''\<rparr>"
  have "?c \<in> set (commercial_events demo_commercial_db)" by (simp add: demo_commercial_simps)
  from key_of_another_kind_fails [OF demo_commercial_wf(1) this _ refl, where key = "''k''" and num = id and calls = demo_report
      and q = demo_grant and actor = 10 and sub = None and now = 7]
  have "(\<exists>err. entitlement_grant id 1 (demo_grant\<lparr>ep_key := ''k''\<rparr>) 10 None 7
      (run_ops (commercial_step id) demo_report demo_commercial_db) = Inl err) \<or>
    (\<exists>e. e \<in> set (entitlements (run_ops (commercial_step id) demo_report demo_commercial_db)) \<and>
       en_org e = 1 \<and> en_key e = ''k'')"
    by simp
  moreover have "demo_grant\<lparr>ep_key := ''k''\<rparr> = demo_grant" by (simp add: demo_grant_def)
  ultimately show ?thesis
    by (simp add: demo_report_run demo_commercial_simps demo_entitlement_def)
qed

theorem usage_never_shrinks_witness:
  "\<exists>s2. summarize (run_ops (commercial_step id) demo_report demo_commercial_db) 1 ''files'' ''daily'' 5 = Inr s2 \<and>
     3 \<le> quantity_for s2 ''NON_CURRENCY''"
proof -
  let ?s = "\<lparr>us_start = 0, us_end = day_length, us_quantities = [(''NON_CURRENCY'', dadd 0 3)]\<rparr>"
  have "summarize demo_commercial_db 1 ''files'' ''daily'' 5 = Inr ?s"
    by (simp add: summarize_def demo_commercial_simps lift_value_def period_bounds_def date_limit_def ordinal_of_def
        day_length_def midnight_def max_ordinal_def quantities_of_def demo_usage_def currency_group_def aggregate_def)
  from usage_never_shrinks [OF demo_commercial_wf _ refl _ this, of id demo_report "''NON_CURRENCY''"]
  have "\<exists>s2. summarize (run_ops (commercial_step id) demo_report demo_commercial_db) 1 ''files'' ''daily'' 5 = Inr s2 \<and>
     quantity_for ?s ''NON_CURRENCY'' \<le> quantity_for s2 ''NON_CURRENCY''"
    by auto
  moreover have "dadd 0 3 = 3"
    using dctx_exact [of 3 3 0] by (simp add: dadd_def ctx_precision_def)
  ultimately show ?thesis by (simp add: quantity_for_def)
qed

end
