(* ===== verification/Py_Number.thy ===== *)
theory Py_Number
  imports Py_Decimal Py_Text
begin

text \<open>
  The Python values that JSON records and parameters hold, as far as the engines look at them,
  and \<open>decimal.Decimal\<close> read from text. A float is its \<open>str()\<close>, the only thing the code asks of
  it. A decimal is its coefficient and exponent; two decimals of one value and different scale
  are equal to \<open>==\<close> and print differently. The exponent bounds of the decimal module are not
  modelled.
\<close>

section \<open>Values\<close>

datatype py_value =
    PyNone
  | PyBool bool
  | PyInt int
  | PyFloat string
  | PyStr string
  | PyOther string

type_synonym py_dict = "(string \<times> py_value) list"

definition int_text :: "int \<Rightarrow> string" where
  "int_text i = (if i < 0 then CHR ''-'' # decimal (nat (- i)) else decimal (nat i))"

fun py_str :: "py_value \<Rightarrow> string" where
  "py_str PyNone = ''None''"
| "py_str (PyBool b) = (if b then ''True'' else ''False'')"
| "py_str (PyInt i) = int_text i"
| "py_str (PyFloat t) = t"
| "py_str (PyStr t) = t"
| "py_str (PyOther t) = t"

text \<open>\<open>d.get(key)\<close>.\<close>

definition dict_get :: "py_dict \<Rightarrow> string \<Rightarrow> py_value" where
  "dict_get d k = (case map_of d k of None \<Rightarrow> PyNone | Some v \<Rightarrow> v)"

section \<open>Decimals\<close>

datatype py_decimal = Dec int int

fun dec_value :: "py_decimal \<Rightarrow> rat" where
  "dec_value (Dec c e) = of_int c * 10 powi e"

definition is_digit :: "char \<Rightarrow> bool" where
  "is_digit c = (let n = of_char c :: nat in 48 \<le> n \<and> n \<le> 57)"

definition signed :: "string \<Rightarrow> bool \<times> string" where
  "signed s = (case s of [] \<Rightarrow> (False, [])
     | c # cs \<Rightarrow> if c = CHR ''-'' then (True, cs) else if c = CHR ''+'' then (False, cs) else (False, s))"

definition read_exponent :: "string \<Rightarrow> int option" where
  "read_exponent s =
     (case s of [] \<Rightarrow> Some 0
      | c # cs \<Rightarrow>
          (if c = CHR ''e'' \<or> c = CHR ''E'' then
             (let (negative, ds) = signed cs in
              if ds \<noteq> [] \<and> list_all is_digit ds
              then Some (if negative then - int (read_decimal ds) else int (read_decimal ds)) else None)
           else None))"

text \<open>\<open>Decimal(text)\<close> for the texts of finite numbers; white space around and underscores are ignored.\<close>

definition parse_decimal :: "string \<Rightarrow> py_decimal option" where
  "parse_decimal text =
     (let (negative, s) = signed (filter (\<lambda>c. c \<noteq> CHR ''_'') (strip text));
          whole = takeWhile is_digit s; s1 = dropWhile is_digit s;
          point = (s1 \<noteq> [] \<and> hd s1 = CHR ''.'');
          fraction = (if point then takeWhile is_digit (tl s1) else []);
          s2 = (if point then dropWhile is_digit (tl s1) else s1);
          n = int (read_decimal (whole @ fraction))
      in if whole @ fraction = [] then None
         else map_option (\<lambda>e. Dec (if negative then - n else n) (e - int (length fraction))) (read_exponent s2))"

section \<open>Integers read back\<close>

lemma decimal_digits: "list_all is_digit (decimal n) \<and> decimal n \<noteq> []"
proof (induction n rule: decimal.induct)
  case (1 n)
  have d: "is_digit (digit m)" if "m < 10" for m
    using that by (simp add: is_digit_def of_char_digit)
  show ?case
  proof (cases "n < 10")
    case True
    then show ?thesis by (simp add: decimal.simps [of n] d)
  next
    case False
    with 1 show ?thesis by (subst (1 2) decimal.simps) (simp add: d)
  qed
qed

lemma digit_facts:
  assumes "is_digit c"
  shows "\<not> is_space c" "c \<noteq> CHR ''_''" "c \<noteq> CHR ''-''" "c \<noteq> CHR ''+''"
  using assms by (auto simp: is_digit_def is_space_def Let_def)

lemma dropWhile_none: "list_all (\<lambda>c. \<not> P c) s \<Longrightarrow> dropWhile P s = s"
  by (cases s) auto

lemma strip_none:
  assumes "list_all (\<lambda>c. \<not> is_space c) s"
  shows "strip s = s"
proof -
  have "list_all (\<lambda>c. \<not> is_space c) (rev s)" using assms by (simp add: list_all_iff)
  then show ?thesis using assms by (simp add: strip_def dropWhile_none)
qed

lemma parse_digits:
  assumes "list_all is_digit ds" "ds \<noteq> []"
  shows "parse_decimal ds = Some (Dec (int (read_decimal ds)) 0)"
    and "parse_decimal (CHR ''-'' # ds) = Some (Dec (- int (read_decimal ds)) 0)"
proof -
  have f: "filter (\<lambda>c. c \<noteq> CHR ''_'') ds = ds"
    using assms(1) digit_facts(2) by (auto simp: list_all_iff intro!: filter_True)
  have s: "list_all (\<lambda>c. \<not> is_space c) ds" using assms(1) digit_facts(1) by (auto simp: list_all_iff)
  have m: "\<not> is_space (CHR ''-'')" by (simp add: is_space_def)
  have sg: "signed ds = (False, ds)"
    using assms digit_facts(3,4) by (cases ds) (auto simp: signed_def)
  have w: "takeWhile is_digit ds = ds" "dropWhile is_digit ds = []"
    using assms(1) by (auto simp: list_all_iff)
  show "parse_decimal ds = Some (Dec (int (read_decimal ds)) 0)"
    using assms(2) by (simp add: parse_decimal_def strip_none [OF s] f sg w read_exponent_def Let_def)
  have "strip (CHR ''-'' # ds) = CHR ''-'' # ds" by (rule strip_none) (simp add: s m)
  then show "parse_decimal (CHR ''-'' # ds) = Some (Dec (- int (read_decimal ds)) 0)"
    using assms(2) by (simp add: parse_decimal_def f signed_def w read_exponent_def Let_def)
qed

lemma parse_int_text: "parse_decimal (int_text i) = Some (Dec i 0)"
  using parse_digits [of "decimal (nat \<bar>i\<bar>)"] decimal_digits [of "nat \<bar>i\<bar>"]
  by (auto simp: int_text_def read_decimal_decimal)

end
