(* ===== verification/Arithmetic_Engine.thy ===== *)
theory Arithmetic_Engine
  imports Py_Number "HOL-Library.Multiset"
begin

text \<open>
  The registered calculation and rule definitions (\<open>app/registries/calculation_registry.py\<close>,
  \<open>rule_registry.py\<close>) and the engines that evaluate them (\<open>app/engines/arithmetic_engine.py\<close>,
  \<open>rule_engine.py\<close>). Of a definition the fields that the code decides on are kept; names,
  descriptions and policy texts are not. An \<open>ArithmeticEvaluationError\<close> is an error of its own;
  what else can go wrong, a missing key and a \<open>decimal.InvalidOperation\<close>, leaves the engine as the
  Python exception it is.
\<close>

section \<open>Registries\<close>

datatype calculation_operation =
    CALC_COUNT | CALC_DISTINCT_COUNT | CALC_SUM | CALC_AVERAGE | CALC_MINIMUM | CALC_MAXIMUM
  | CALC_RATIO | CALC_PERCENTAGE | CALC_ABSOLUTE_VARIANCE | CALC_PERCENTAGE_VARIANCE | CALC_RECONCILIATION

record calculation_definition =
  cd_code :: string
  cd_version :: string
  cd_operation :: calculation_operation
  cd_required :: "string list"
  cd_output_unit :: "string option"
  cd_currency :: bool
  cd_status :: string

datatype rule_operator =
    RULE_EQUALS | RULE_NOT_EQUALS | RULE_GREATER_THAN | RULE_GREATER_THAN_OR_EQUAL | RULE_LESS_THAN
  | RULE_LESS_THAN_OR_EQUAL | RULE_BETWEEN | RULE_OUTSIDE

record rule_definition =
  rd_code :: string
  rd_version :: string
  rd_operator :: rule_operator
  rd_required :: "string list"
  rd_status :: string

text \<open>Registering refuses a second definition of a code and version; a lookup names both.\<close>

definition register :: "('d \<Rightarrow> string \<times> string) \<Rightarrow> 'd \<Rightarrow> 'd list \<Rightarrow> (string \<times> string) + 'd list" where
  "register key d ds = (if key d \<in> key ` set ds then Inl (key d) else Inr (ds @ [d]))"

fun register_all :: "('d \<Rightarrow> string \<times> string) \<Rightarrow> 'd list \<Rightarrow> 'd list \<Rightarrow> (string \<times> string) + 'd list" where
  "register_all key ds [] = Inr ds"
| "register_all key ds (e # es) = bindE (register key e ds) (\<lambda>ds'. register_all key ds' es)"

definition calculation_key :: "calculation_definition \<Rightarrow> string \<times> string" where
  "calculation_key d = (cd_code d, cd_version d)"

definition rule_key :: "rule_definition \<Rightarrow> string \<times> string" where
  "rule_key d = (rd_code d, rd_version d)"

definition calculation ::
    "string \<Rightarrow> calculation_operation \<Rightarrow> string list \<Rightarrow> string option \<Rightarrow> bool \<Rightarrow> calculation_definition" where
  "calculation code operation required unit currency =
     \<lparr>cd_code = code, cd_version = ''1.0'', cd_operation = operation, cd_required = required,
      cd_output_unit = unit, cd_currency = currency, cd_status = ''active''\<rparr>"

definition core_calculations :: "calculation_definition list" where
  "core_calculations =
     [calculation ''record_count'' CALC_COUNT [] None False,
      calculation ''distinct_count'' CALC_DISTINCT_COUNT [''field''] None False,
      calculation ''sum'' CALC_SUM [''field''] None True,
      calculation ''average'' CALC_AVERAGE [''field''] None True,
      calculation ''minimum'' CALC_MINIMUM [''field''] None True,
      calculation ''maximum'' CALC_MAXIMUM [''field''] None True,
      calculation ''ratio'' CALC_RATIO [''numerator'', ''denominator''] (Some ''ratio'') False,
      calculation ''percentage'' CALC_PERCENTAGE [''numerator'', ''denominator''] (Some ''percent'') False,
      calculation ''absolute_variance'' CALC_ABSOLUTE_VARIANCE [''actual'', ''comparison''] None True,
      calculation ''percentage_variance'' CALC_PERCENTAGE_VARIANCE [''actual'', ''comparison'']
        (Some ''percent'') False,
      calculation ''reconciliation'' CALC_RECONCILIATION [''left'', ''right''] None True]"

definition oikb_seed :: "string \<Rightarrow> calculation_operation \<Rightarrow> string list \<Rightarrow> bool \<Rightarrow> calculation_definition" where
  "oikb_seed code operation required currency =
     \<lparr>cd_code = code, cd_version = ''1.0.0'', cd_operation = operation, cd_required = required,
      cd_output_unit = None, cd_currency = currency, cd_status = ''active''\<rparr>"

definition oikb_seeds :: "calculation_definition list" where
  "oikb_seeds =
     [oikb_seed ''SHARED.QUALITY.DIRECT_QUALITY_COST'' CALC_SUM [''field''] True,
      oikb_seed ''SHARED.FINANCE.OUTSTANDING_BALANCE'' CALC_RECONCILIATION [''left'', ''right''] True,
      oikb_seed ''SHARED.FINANCE.DISCOUNT_VARIANCE'' CALC_ABSOLUTE_VARIANCE [''actual'', ''comparison''] True,
      oikb_seed ''SHARED.PROCUREMENT.PURCHASE_PRICE_VARIANCE'' CALC_ABSOLUTE_VARIANCE [''actual'', ''comparison''] True,
      oikb_seed ''SHARED.PROCUREMENT.THREE_WAY_MATCH_DIFFERENCE'' CALC_RECONCILIATION [''left'', ''right''] True,
      oikb_seed ''SHARED.ASSET.MAINTENANCE_COST_VARIANCE'' CALC_ABSOLUTE_VARIANCE [''actual'', ''comparison''] True,
      oikb_seed ''SHARED.FINANCE.REVENUE_RECONCILIATION'' CALC_RECONCILIATION [''left'', ''right''] True,
      oikb_seed ''SHARED.FINANCE.BUDGET_VARIANCE'' CALC_ABSOLUTE_VARIANCE [''actual'', ''comparison''] True,
      oikb_seed ''MOBILITY.REVENUE.FAREBOX_RECONCILIATION'' CALC_RECONCILIATION [''left'', ''right''] True,
      oikb_seed ''MANUFACTURING.MATERIAL.MASS_BALANCE_VARIANCE'' CALC_RECONCILIATION [''left'', ''right''] False,
      oikb_seed ''OIL_GAS.CUSTODY.CUSTODY_TRANSFER_BALANCE'' CALC_RECONCILIATION [''left'', ''right''] False,
      oikb_seed ''OIL_GAS.PRODUCTION.NETWORK_ALLOCATION_VARIANCE'' CALC_RECONCILIATION [''left'', ''right''] False,
      oikb_seed ''UTILITY.WATER.DMA_WATER_BALANCE'' CALC_RECONCILIATION [''left'', ''right''] False]"

definition calculation_definitions :: "calculation_definition list" where
  "calculation_definitions = core_calculations @ oikb_seeds"

definition rule_definition_of :: "string \<Rightarrow> string \<Rightarrow> rule_operator \<Rightarrow> string list \<Rightarrow> rule_definition" where
  "rule_definition_of code version operator required =
     \<lparr>rd_code = code, rd_version = version, rd_operator = operator, rd_required = required,
      rd_status = ''active''\<rparr>"

definition rule_definitions :: "rule_definition list" where
  "rule_definitions =
     [rule_definition_of ''threshold_exceeded'' ''1.0'' RULE_GREATER_THAN [''value'', ''threshold''],
      rule_definition_of ''threshold_not_met'' ''1.0'' RULE_LESS_THAN [''value'', ''threshold''],
      rule_definition_of ''outside_range'' ''1.0'' RULE_OUTSIDE [''value'', ''lower'', ''upper''],
      rule_definition_of ''reconciliation_mismatch'' ''1.0'' RULE_NOT_EQUALS [''value'', ''threshold''],
      rule_definition_of ''mapping_completeness_below_threshold'' ''1.0'' RULE_LESS_THAN [''value'', ''threshold''],
      rule_definition_of ''mapping_unresolved_ratio_exceeded'' ''1.0'' RULE_GREATER_THAN [''value'', ''threshold''],
      rule_definition_of ''mapping_ambiguous_ratio_exceeded'' ''1.0'' RULE_GREATER_THAN [''value'', ''threshold''],
      rule_definition_of ''mapping_conflict_count_exceeded'' ''1.0'' RULE_GREATER_THAN [''value'', ''threshold''],
      rule_definition_of ''mapping_required_field_failures'' ''1.0'' RULE_GREATER_THAN [''value'', ''threshold''],
      rule_definition_of ''mapping_lineage_completeness_below_threshold'' ''1.0'' RULE_LESS_THAN [''value'', ''threshold''],
      rule_definition_of ''MAINT-001-REPEATED-FAILURE'' ''1.0'' RULE_GREATER_THAN [''failure_count'', ''threshold''],
      rule_definition_of ''MAINTENANCE-REPEAT-VISIT'' ''1.0'' RULE_GREATER_THAN
        [''related_intervention_count'', ''threshold''],
      rule_definition_of ''XDOM-A-ASSET-FAILURE-LOST-ACTIVITY'' ''1.0'' RULE_GREATER_THAN
        [''affected_event_count'', ''threshold''],
      rule_definition_of ''XDOM-B-LOST-ACTIVITY-REVENUE-GAP'' ''1.0'' RULE_GREATER_THAN
        [''unmatched_event_count'', ''threshold''],
      rule_definition_of ''XDOM-DATA-LINKAGE-ISSUE'' ''1.0'' RULE_GREATER_THAN
        [''unmatched_event_count'', ''threshold''],
      rule_definition_of ''REVENUE-AMOUNT-VARIANCE'' ''1.0'' RULE_GREATER_THAN
        [''expected_minus_actual_amount'', ''tolerance''],
      rule_definition_of ''CONTRACT-RATE-COMPLIANCE'' ''1.0'' RULE_NOT_EQUALS
        [''actual_applied_rate'', ''applicable_contract_rate''],
      rule_definition_of ''CONTRACT-RATE-COMPLIANCE'' ''1.1'' RULE_NOT_EQUALS
        [''derived_actual_applied_rate'', ''applicable_contract_rate''],
      rule_definition_of ''MAINTENANCE-SCHEDULE-COMPLETION-GAP'' ''1.0'' RULE_EQUALS
        [''completed_timestamp_present'', ''expected_present'']]"

definition calculation_get :: "string \<Rightarrow> string \<Rightarrow> calculation_definition option" where
  "calculation_get code version = find (\<lambda>d. calculation_key d = (code, version)) calculation_definitions"

definition rule_get :: "string \<Rightarrow> string \<Rightarrow> rule_definition option" where
  "rule_get code version = find (\<lambda>d. rule_key d = (code, version)) rule_definitions"

section \<open>Evaluation\<close>

datatype evaluation_error =
    MissingParameters "string list"
  | OperandNotFinite
  | NoNumericValues string
  | DivisionByZero
  | LowerExceedsUpper
  | CurrencyRequired string
  | CurrencyMixed
  | UnitRequired string
  | UnitMixed

datatype engine_error = Evaluation evaluation_error | DecimalInvalidOperation | KeyMissing string

definition decimal_value :: "py_value \<Rightarrow> engine_error + rat" where
  "decimal_value v =
     (case v of PyNone \<Rightarrow> Inl (Evaluation OperandNotFinite)
      | PyBool _ \<Rightarrow> Inl (Evaluation OperandNotFinite)
      | _ \<Rightarrow> (case parse_decimal (py_str v) of
               None \<Rightarrow> Inl (Evaluation OperandNotFinite) | Some d \<Rightarrow> Inr (dec_value d)))"

text \<open>\<open>d[key]\<close> on a dict, and the list comprehension that stops at the first error.\<close>

definition dict_item :: "py_dict \<Rightarrow> string \<Rightarrow> engine_error + py_value" where
  "dict_item d k = of_option (KeyMissing k) (map_of d k)"

fun traverse :: "('a \<Rightarrow> 'e + 'b) \<Rightarrow> 'a list \<Rightarrow> 'e + 'b list" where
  "traverse f [] = Inr []"
| "traverse f (x # xs) = bindE (f x) (\<lambda>y. bindE (traverse f xs) (\<lambda>ys. Inr (y # ys)))"

definition six_places :: "rat \<Rightarrow> engine_error + rat" where
  "six_places x = of_option DecimalInvalidOperation (quantize round_half_even 6 x)"

record arithmetic_outcome =
  ao_value :: rat
  ao_checked :: int
  ao_excluded :: int

definition missing_parameters :: "string list \<Rightarrow> py_dict \<Rightarrow> string list" where
  "missing_parameters required parameters = filter (\<lambda>k. map_of parameters k = None) required"

definition dec_sum :: "rat list \<Rightarrow> rat" where
  "dec_sum vs = foldl dadd 0 vs"

definition aggregate_values :: "calculation_operation \<Rightarrow> rat list \<Rightarrow> rat" where
  "aggregate_values operation vs =
     (if operation = CALC_SUM then dec_sum vs
      else if operation = CALC_AVERAGE then ddiv (dec_sum vs) (of_nat (length vs))
      else if operation = CALC_MINIMUM then fold min (tl vs) (hd vs)
      else fold max (tl vs) (hd vs))"

definition aggregate_records ::
    "calculation_operation \<Rightarrow> py_dict list \<Rightarrow> string \<Rightarrow> engine_error + arithmetic_outcome" where
  "aggregate_records operation records field =
     bindE (traverse decimal_value (filter (\<lambda>v. v \<noteq> PyNone) (map (\<lambda>r. dict_get r field) records))) (\<lambda>vs.
     bindE (require (vs \<noteq> []) (Evaluation (NoNumericValues field))) (\<lambda>_.
     bindE (six_places (aggregate_values operation vs)) (\<lambda>x.
     Inr \<lparr>ao_value = x, ao_checked = int (length records),
          ao_excluded = int (length records) - int (length vs)\<rparr>)))"

definition operand_keys :: "calculation_operation \<Rightarrow> string \<times> string" where
  "operand_keys operation =
     (if operation \<in> {CALC_RATIO, CALC_PERCENTAGE} then (''numerator'', ''denominator'')
      else if operation = CALC_RECONCILIATION then (''left'', ''right'')
      else (''actual'', ''comparison''))"

definition divides :: "calculation_operation \<Rightarrow> bool" where
  "divides operation \<longleftrightarrow> operation \<in> {CALC_RATIO, CALC_PERCENTAGE, CALC_PERCENTAGE_VARIANCE}"

definition combine :: "calculation_operation \<Rightarrow> rat \<Rightarrow> rat \<Rightarrow> rat" where
  "combine operation left right =
     (if operation = CALC_RATIO then ddiv left right
      else if operation = CALC_PERCENTAGE then ddiv (dmul left 100) right
      else if operation \<in> {CALC_ABSOLUTE_VARIANCE, CALC_RECONCILIATION} then dsub left right
      else ddiv (dmul (dsub left right) 100) right)"

definition combine_operands ::
    "calculation_operation \<Rightarrow> py_dict \<Rightarrow> engine_error + arithmetic_outcome" where
  "combine_operands operation parameters =
     bindE (dict_item parameters (fst (operand_keys operation))) (\<lambda>l.
     bindE (decimal_value l) (\<lambda>left.
     bindE (dict_item parameters (snd (operand_keys operation))) (\<lambda>r.
     bindE (decimal_value r) (\<lambda>right.
     bindE (require (\<not> (divides operation \<and> right = 0)) (Evaluation DivisionByZero)) (\<lambda>_.
     bindE (six_places (combine operation left right)) (\<lambda>x.
     Inr \<lparr>ao_value = x, ao_checked = 0, ao_excluded = 0\<rparr>))))))"

definition arithmetic_execute ::
    "calculation_definition \<Rightarrow> py_dict list \<Rightarrow> py_dict \<Rightarrow> engine_error + arithmetic_outcome" where
  "arithmetic_execute d records parameters =
     (let missing = missing_parameters (cd_required d) parameters; operation = cd_operation d
      in bindE (require (missing = []) (Evaluation (MissingParameters missing))) (\<lambda>_.
         if operation = CALC_COUNT then
           Inr \<lparr>ao_value = of_nat (length records), ao_checked = int (length records), ao_excluded = 0\<rparr>
         else if operation = CALC_DISTINCT_COUNT then
           bindE (dict_item parameters ''field'') (\<lambda>f.
           let present = map py_str (filter (\<lambda>v. v \<noteq> PyNone) (map (\<lambda>r. dict_get r (py_str f)) records))
           in Inr \<lparr>ao_value = of_nat (length (remdups present)), ao_checked = int (length records),
                   ao_excluded = int (length records) - int (length present)\<rparr>)
         else if operation \<in> {CALC_SUM, CALC_AVERAGE, CALC_MINIMUM, CALC_MAXIMUM} then
           bindE (dict_item parameters ''field'') (\<lambda>f. aggregate_records operation records (py_str f))
         else combine_operands operation parameters))"

section \<open>Rules\<close>

record rule_outcome =
  ro_breached :: bool
  ro_value :: rat
  ro_comparison :: "rat option"
  ro_threshold :: "rat option"

definition compares :: "rule_operator \<Rightarrow> rat \<Rightarrow> rat \<Rightarrow> bool" where
  "compares operator value threshold =
     (case operator of
        RULE_EQUALS \<Rightarrow> value = threshold
      | RULE_NOT_EQUALS \<Rightarrow> value \<noteq> threshold
      | RULE_GREATER_THAN \<Rightarrow> threshold < value
      | RULE_GREATER_THAN_OR_EQUAL \<Rightarrow> threshold \<le> value
      | RULE_LESS_THAN \<Rightarrow> value < threshold
      | RULE_LESS_THAN_OR_EQUAL \<Rightarrow> value \<le> threshold
      | _ \<Rightarrow> False)"

definition decimal_item :: "py_dict \<Rightarrow> string \<Rightarrow> engine_error + rat" where
  "decimal_item parameters k = bindE (dict_item parameters k) decimal_value"

definition rule_execute :: "rule_definition \<Rightarrow> py_dict \<Rightarrow> engine_error + rule_outcome" where
  "rule_execute d parameters =
     (let missing = missing_parameters (rd_required d) parameters; operator = rd_operator d
      in bindE (require (missing = []) (Evaluation (MissingParameters missing))) (\<lambda>_.
         bindE (decimal_item parameters ''value'') (\<lambda>value.
         if operator \<in> {RULE_BETWEEN, RULE_OUTSIDE} then
           bindE (decimal_item parameters ''lower'') (\<lambda>lower.
           bindE (decimal_item parameters ''upper'') (\<lambda>upper.
           bindE (require (lower \<le> upper) (Evaluation LowerExceedsUpper)) (\<lambda>_.
           let inside = lower \<le> value \<and> value \<le> upper
           in Inr \<lparr>ro_breached = (if operator = RULE_OUTSIDE then \<not> inside else inside), ro_value = value,
                   ro_comparison = None, ro_threshold = None\<rparr>)))
         else
           bindE (decimal_item parameters ''threshold'') (\<lambda>threshold.
           Inr \<lparr>ro_breached = compares operator value threshold, ro_value = value,
                ro_comparison = Some threshold, ro_threshold = Some threshold\<rparr>))))"

section \<open>Registered definitions\<close>

lemma calculations_registered: "register_all calculation_key [] calculation_definitions = Inr calculation_definitions"
  by code_simp

lemma rules_registered: "register_all rule_key [] rule_definitions = Inr rule_definitions"
  by code_simp

text \<open>What the evaluation of an operation reads is among the parameters of each definition.\<close>

definition operation_keys :: "calculation_operation \<Rightarrow> string list" where
  "operation_keys operation =
     (if operation = CALC_COUNT then []
      else if operation \<in> {CALC_DISTINCT_COUNT, CALC_SUM, CALC_AVERAGE, CALC_MINIMUM, CALC_MAXIMUM}
      then [''field'']
      else [fst (operand_keys operation), snd (operand_keys operation)])"

lemma calculations_declare_keys:
  "list_all (\<lambda>d. cd_required d = operation_keys (cd_operation d) \<and> cd_status d = ''active'') calculation_definitions"
  by code_simp

lemma calculation_getD:
  assumes "calculation_get code version = Some d"
  shows "d \<in> set calculation_definitions" "cd_code d = code" "cd_version d = version"
    "cd_required d = operation_keys (cd_operation d)" "cd_status d = ''active''"
  using find_SomeD [OF assms [unfolded calculation_get_def]] calculations_declare_keys
  by (auto simp: list_all_iff calculation_key_def)

lemma rules_active: "list_all (\<lambda>d. rd_status d = ''active'') rule_definitions"
  by code_simp

lemma rule_getD:
  assumes "rule_get code version = Some d"
  shows "d \<in> set rule_definitions" "rd_code d = code" "rd_version d = version" "rd_status d = ''active''"
  using find_SomeD [OF assms [unfolded rule_get_def]] rules_active
  by (auto simp: list_all_iff rule_key_def)

lemma missing_none: "missing_parameters required ps = [] \<longleftrightarrow> (\<forall>k \<in> set required. map_of ps k \<noteq> None)"
  by (auto simp: missing_parameters_def filter_empty_conv)

lemma decimal_value_error: "decimal_value v = Inl e \<Longrightarrow> e = Evaluation OperandNotFinite"
  by (auto simp: decimal_value_def split: py_value.splits option.splits)

lemma six_places_error: "six_places x = Inl e \<Longrightarrow> e = DecimalInvalidOperation"
  by (simp add: six_places_def)

lemma traverse_decimal_error: "traverse decimal_value vs = Inl e \<Longrightarrow> e = Evaluation OperandNotFinite"
  by (induction vs) (auto simp: bindE_Inl_iff dest: decimal_value_error)

text \<open>A registered calculation ends in a value, an evaluation error or an invalid decimal operation.\<close>

definition handled :: "engine_error \<Rightarrow> bool" where
  "handled e \<longleftrightarrow> (\<forall>k. e \<noteq> KeyMissing k)"

lemma handled_errors: "decimal_value v = Inl e \<Longrightarrow> handled e" "six_places x = Inl e \<Longrightarrow> handled e"
    "traverse decimal_value vs = Inl e \<Longrightarrow> handled e" "handled (Evaluation err)"
  by (auto simp: handled_def dest: decimal_value_error six_places_error traverse_decimal_error)

lemma aggregate_handled: "aggregate_records operation records field = Inl e \<Longrightarrow> handled e"
  by (auto simp: aggregate_records_def bindE_Inl_iff intro: handled_errors)

lemma combine_handled:
  assumes "combine_operands operation ps = Inl e" "map_of ps (fst (operand_keys operation)) \<noteq> None"
    "map_of ps (snd (operand_keys operation)) \<noteq> None"
  shows "handled e"
  using assms by (auto simp: combine_operands_def dict_item_def bindE_Inl_iff intro: handled_errors)

lemma registered_calculation_handled:
  assumes "calculation_get code version = Some d" "arithmetic_execute d records ps = Inl e"
  shows "handled e"
proof (cases "missing_parameters (cd_required d) ps = []")
  case False
  with assms(2) show ?thesis by (auto simp: arithmetic_execute_def Let_def require_def intro: handled_errors)
next
  case True
  have k: "map_of ps k \<noteq> None" if "k \<in> set (operation_keys (cd_operation d))" for k
    using True that calculation_getD(4) [OF assms(1)] by (simp add: missing_none)
  show ?thesis
  proof (cases "cd_operation d \<in> {CALC_COUNT, CALC_DISTINCT_COUNT, CALC_SUM, CALC_AVERAGE, CALC_MINIMUM, CALC_MAXIMUM}")
    case True
    with assms(2) k show ?thesis
      by (auto simp: arithmetic_execute_def Let_def \<open>missing_parameters _ _ = []\<close> bindE_Inl_iff operation_keys_def
          dict_item_def intro: aggregate_handled)
  next
    case False
    then have "combine_operands (cd_operation d) ps = Inl e"
      using assms(2) by (simp add: arithmetic_execute_def Let_def True)
    then show ?thesis by (rule combine_handled) (use k False in \<open>simp_all add: operation_keys_def\<close>)
  qed
qed

section \<open>Exact aggregates\<close>

text \<open>Values with at most six decimal places whose absolute sum stays below \<open>10 ^ 22\<close>.\<close>

definition in_millionths :: "rat \<Rightarrow> bool" where
  "in_millionths x \<longleftrightarrow> (\<exists>n. x = of_int n / 10 ^ 6)"

lemma in_millionths_add:
  assumes "in_millionths x" "in_millionths y"
  shows "in_millionths (x + y)"
proof -
  obtain m n where "x = of_int m / 10 ^ 6" "y = of_int n / 10 ^ 6" using assms by (auto simp: in_millionths_def)
  then have "x + y = of_int (m + n) / 10 ^ 6" by (simp add: add_divide_distrib)
  then show ?thesis unfolding in_millionths_def by (rule exI)
qed

lemma in_millionths_0 [simp]: "in_millionths 0"
  unfolding in_millionths_def by (rule exI [of _ 0]) simp

lemma dctx_millionths:
  assumes "in_millionths x" "\<bar>x\<bar> < 10 ^ 22"
  shows "dctx x = x"
proof -
  obtain n where n: "x = of_int n / 10 ^ 6" using assms(1) by (auto simp: in_millionths_def)
  have "(10::rat) powi (- 6 + ctx_precision) = 10 ^ 22" by (simp add: ctx_precision_def)
  with assms(2) have "\<bar>x\<bar> < 10 powi (- 6 + ctx_precision)" by (simp only:)
  moreover have "x = of_int n * 10 powi (- 6)" unfolding n by (simp add: power_int_minus)
  ultimately show ?thesis by (intro dctx_exact)
qed

lemma six_places_millionths:
  assumes "in_millionths x" "\<bar>x\<bar> < 10 ^ 22"
  shows "six_places x = Inr x"
proof -
  obtain n where n: "x = of_int n / 10 ^ 6" using assms(1) by (auto simp: in_millionths_def)
  have r: "round_half_even (x * 10 ^ 6) = n" unfolding n by simp
  have "of_int \<bar>n\<bar> = \<bar>x\<bar> * 10 ^ 6" unfolding n by (simp add: abs_divide)
  also have "\<dots> < 10 ^ 22 * 10 ^ 6" using assms(2) by (rule mult_strict_right_mono) simp
  also have "\<dots> = (of_int (10 ^ 28) :: rat)" by simp
  finally have "\<bar>n\<bar> < 10 ^ 28" by (simp only: of_int_less_iff)
  then have "\<bar>n\<bar> < 10 ^ nat ctx_precision" by (simp add: ctx_precision_def)
  then have "quantize round_half_even 6 x = Some (of_int n / 10 ^ 6)"
    unfolding quantize_def Let_def r by (rule if_P)
  then show ?thesis by (simp add: six_places_def n)
qed

lemma six_places_overflow:
  assumes "10 ^ 22 \<le> \<bar>x\<bar>"
  shows "six_places x = Inl DecimalInvalidOperation"
proof -
  have "of_int (10 ^ 28) \<le> \<bar>x * 10 ^ 6\<bar>"
  proof -
    have "(10::rat) ^ 22 * 10 ^ 6 \<le> \<bar>x\<bar> * 10 ^ 6" using assms by (rule mult_right_mono) simp
    then show ?thesis by (simp add: abs_mult)
  qed
  moreover have "round_half_even \<bar>y\<bar> = \<bar>round_half_even y\<bar>" for y
    using round_half_even_mono [of 0 "\<bar>y\<bar>"] round_half_even_int [of 0]
    by (cases "0 \<le> y") (simp_all add: round_half_even_minus)
  ultimately have "10 ^ 28 \<le> \<bar>round_half_even (x * 10 ^ 6)\<bar>"
    using round_half_even_mono [of "of_int (10 ^ 28)" "\<bar>x * 10 ^ 6\<bar>"] by (simp only: round_half_even_int)
  then have "\<not> \<bar>round_half_even (x * 10 ^ 6)\<bar> < 10 ^ nat ctx_precision" by (simp add: ctx_precision_def)
  then have "quantize round_half_even 6 x = None" unfolding quantize_def Let_def by (rule if_not_P)
  then show ?thesis by (simp add: six_places_def)
qed

text \<open>Between two values that fit, every value fits.\<close>

lemma six_places_between:
  assumes "six_places lo = Inr a" "six_places hi = Inr b" "lo \<le> x" "x \<le> hi"
  shows "\<exists>y. six_places x = Inr y \<and> a \<le> y \<and> y \<le> b"
proof -
  have q: "quantize round_half_even 6 lo = Some a" "quantize round_half_even 6 hi = Some b"
    using assms(1,2) by (simp_all add: six_places_def)
  have "round_half_even (lo * 10 ^ 6) \<le> round_half_even (x * 10 ^ 6)"
    "round_half_even (x * 10 ^ 6) \<le> round_half_even (hi * 10 ^ 6)"
    using assms(3,4) by (intro round_half_even_mono; simp)+
  then have "\<bar>round_half_even (x * 10 ^ 6)\<bar> < 10 ^ 28"
    using quantize_SomeD(2) [OF q(1)] quantize_SomeD(2) [OF q(2)] by linarith
  then have "\<bar>round_half_even (x * 10 ^ 6)\<bar> < 10 ^ nat ctx_precision" by (simp add: ctx_precision_def)
  then have y: "quantize round_half_even 6 x = Some (of_int (round_half_even (x * 10 ^ 6)) / 10 ^ 6)"
    unfolding quantize_def Let_def by (rule if_P)
  have "six_places x = Inr (of_int (round_half_even (x * 10 ^ 6)) / 10 ^ 6)" by (simp add: six_places_def y)
  then show ?thesis
    using quantize_mono [OF q(1) y assms(3) round_half_even_mono] quantize_mono [OF y q(2) assms(4) round_half_even_mono]
    by blast
qed

lemma dec_sum_exact:
  assumes "\<forall>v \<in> set vs. in_millionths v" "sum_list (map abs vs) < 10 ^ 22"
  shows "dec_sum vs = sum_list vs"
proof -
  have "foldl dadd a vs = a + sum_list vs"
    if "in_millionths a" "\<forall>v \<in> set vs. in_millionths v" "\<bar>a\<bar> + sum_list (map abs vs) < 10 ^ 22" for a
    using that
  proof (induction vs arbitrary: a)
    case (Cons v vs)
    have nn: "0 \<le> sum_list (map abs vs)" by (rule sum_list_nonneg) auto
    have "in_millionths (a + v)" using Cons.prems by (intro in_millionths_add) simp_all
    moreover have le: "\<bar>a + v\<bar> \<le> \<bar>a\<bar> + \<bar>v\<bar>" by (rule abs_triangle_ineq)
    have sum: "\<bar>a\<bar> + \<bar>v\<bar> + sum_list (map abs vs) < 10 ^ 22" using Cons.prems(3) by (simp only: list.map sum_list.Cons add.assoc)
    have "\<bar>a + v\<bar> < 10 ^ 22" using le nn sum by linarith
    ultimately have "dadd a v = a + v" unfolding dadd_def by (intro dctx_millionths)
    moreover have "foldl dadd (a + v) vs = a + v + sum_list vs"
      using Cons.prems le sum by (intro Cons.IH) (auto intro: in_millionths_add)
    ultimately show ?case by simp
  qed simp
  from this [of 0] assms show ?thesis by (simp add: dec_sum_def)
qed

text \<open>The fold of \<open>min\<close> or \<open>max\<close> over values is their least or greatest one.\<close>

lemma fold_min_least: "fold min xs (x::rat) \<in> insert x (set xs) \<and> (\<forall>v \<in> insert x (set xs). fold min xs x \<le> v)"
proof (induction xs arbitrary: x)
  case (Cons y xs)
  from Cons [of "min y x"] show ?case by (auto simp: min_def split: if_splits)
qed simp

lemma fold_max_greatest: "fold max xs (x::rat) \<in> insert x (set xs) \<and> (\<forall>v \<in> insert x (set xs). v \<le> fold max xs x)"
proof (induction xs arbitrary: x)
  case (Cons y xs)
  from Cons [of "max y x"] show ?case by (auto simp: max_def split: if_splits)
qed simp

lemma aggregate_extremes:
  assumes "vs \<noteq> []"
  shows "aggregate_values CALC_MINIMUM vs \<in> set vs" "aggregate_values CALC_MAXIMUM vs \<in> set vs"
    and "v \<in> set vs \<Longrightarrow> aggregate_values CALC_MINIMUM vs \<le> v \<and> v \<le> aggregate_values CALC_MAXIMUM vs"
  using assms fold_min_least [of "tl vs" "hd vs"] fold_max_greatest [of "tl vs" "hd vs"]
  by (cases vs; auto simp: aggregate_values_def)+

lemma sum_list_within:
  assumes "\<And>v. v \<in> set vs \<Longrightarrow> (lo::rat) \<le> v \<and> v \<le> hi"
  shows "lo * of_nat (length vs) \<le> sum_list vs" "sum_list vs \<le> hi * of_nat (length vs)"
  using assms by (induction vs) (simp_all add: algebra_simps add_mono)

lemma abs_le_sum_abs: "v \<in> set vs \<Longrightarrow> \<bar>v::rat\<bar> \<le> sum_list (map abs vs)"
  by (rule member_le_sum_list) auto

lemma average_between:
  assumes "\<forall>v \<in> set vs. in_millionths v" "sum_list (map abs vs) < 10 ^ 22" "vs \<noteq> []"
  shows "aggregate_values CALC_MINIMUM vs \<le> aggregate_values CALC_AVERAGE vs"
    "aggregate_values CALC_AVERAGE vs \<le> aggregate_values CALC_MAXIMUM vs"
proof -
  let ?lo = "aggregate_values CALC_MINIMUM vs" and ?hi = "aggregate_values CALC_MAXIMUM vs"
  have n: "0 < (of_nat (length vs) :: rat)" using assms(3) by simp
  have avg: "aggregate_values CALC_AVERAGE vs = dctx (sum_list vs / of_nat (length vs))"
    using dec_sum_exact [OF assms(1,2)] by (simp add: aggregate_values_def ddiv_def)
  have ctx: "dctx v = v" if "v \<in> set vs" for v
    using that assms(1,2) abs_le_sum_abs [OF that] by (intro dctx_millionths) auto
  have "?lo \<le> sum_list vs / of_nat (length vs)" "sum_list vs / of_nat (length vs) \<le> ?hi"
    using sum_list_within [of vs ?lo ?hi] aggregate_extremes(3) [OF assms(3)] n
    by (simp_all add: le_divide_eq divide_le_eq)
  then have "dctx ?lo \<le> dctx (sum_list vs / of_nat (length vs))" "dctx (sum_list vs / of_nat (length vs)) \<le> dctx ?hi"
    by (simp_all add: dctx_mono)
  then show "?lo \<le> aggregate_values CALC_AVERAGE vs" "aggregate_values CALC_AVERAGE vs \<le> ?hi"
    using ctx aggregate_extremes(1,2) [OF assms(3)] by (simp_all add: avg)
qed

end
