(* ===== verification/Intelligence.thy ===== *)
theory Intelligence
  imports Ingestion Arithmetic_Engine
begin

text \<open>
  Intelligence executions (\<open>app/services/intelligence_service.py\<close>, \<open>app/models/intelligence.py\<close>,
  \<open>app/schemas/intelligence.py\<close>): a registered definition is evaluated on records of a dataset
  that a trust assessment found ready, and the outcome is stored with its evidence. The rows of
  the trust service and of the raw data store are read, never written, by an execution. The
  tables of the findings platform are declared here too, so that both services act on one
  database; \<open>Findings\<close> models them.

  Parameters of the model (\<open>intel_env\<close>): what a numeric column returns, which row an unordered
  query returns first, and the digests. JSON copies of the inputs and constant texts are left out.
\<close>

section \<open>Rows\<close>

datatype assessment_status =
    TRUST_PENDING | TRUST_RUNNING | TRUST_COMPLETED | TRUST_COMPLETED_WITH_WARNINGS | TRUST_FAILED | TRUST_CANCELLED

record trust_assessment =
  ta_id :: uuid
  ta_org :: uuid
  ta_dataset :: uuid
  ta_status :: assessment_status
  ta_completed :: "timestamp option"

datatype analytical_level =
    LEVEL_ARITHMETIC | LEVEL_STATISTICAL | LEVEL_FORECASTING | LEVEL_RELIABILITY | LEVEL_PREDICTIVE
  | LEVEL_OPTIMIZATION | LEVEL_ECONOMIC_RECOVERY

datatype readiness_status = READY | READY_WITH_WARNINGS | READY_INSUFFICIENT_DATA | READY_BLOCKED

record readiness_decision =
  rr_id :: uuid
  rr_org :: uuid
  rr_assessment :: uuid
  rr_level :: analytical_level
  rr_status :: readiness_status
  rr_blocking :: "string list"
  rr_warnings :: "string list"
  rr_explanation :: string

datatype execution_type = EXECUTE_CALCULATION | EXECUTE_RULE

datatype evaluation_status = EXECUTION_COMPLETED | EXECUTION_BLOCKED | EXECUTION_FAILED

text \<open>Why an execution has no result: the explanation of the readiness decision, or the error.\<close>

datatype non_execution = NotReady string | EvaluationFailed evaluation_error

record execution =
  ix_id :: uuid
  ix_org :: uuid
  ix_dataset :: uuid
  ix_version :: "uuid option"
  ix_assessment :: uuid
  ix_readiness :: uuid
  ix_type :: execution_type
  ix_code :: string
  ix_definition_version :: string
  ix_definition_digest :: string
  ix_input_digest :: string
  ix_status :: evaluation_status
  ix_key :: "string option"
  ix_result :: "rat option"
  ix_comparison :: "rat option"
  ix_threshold :: "rat option"
  ix_unit :: "string option"
  ix_currency :: "string option"
  ix_breached :: "bool option"
  ix_checked :: int
  ix_excluded :: int
  ix_affected :: int
  ix_exposure :: "rat option"
  ix_exposure_currency :: "string option"
  ix_blocking :: "string list"
  ix_warnings :: "string list"
  ix_reason :: "non_execution option"
  ix_period_start :: "timestamp option"
  ix_period_end :: "timestamp option"
  ix_evaluated_at :: timestamp
  ix_created_by :: uuid
  ix_completed_at :: "timestamp option"

record evidence_reference =
  er_raw :: "uuid option"
  er_node :: "uuid option"
  er_record :: "string option"
  er_aggregate :: "json option"
  er_contributing :: int
  er_excluded :: int

record execution_evidence =
  xe_org :: uuid
  xe_execution :: uuid
  xe_reference :: evidence_reference

subsection \<open>Findings\<close>

datatype finding_status =
    FND_DRAFT | FND_PUBLISHED | FND_UNDER_REVIEW | FND_CONFIRMED | FND_DISMISSED | FND_SUPERSEDED
  | FND_RESOLVED | FND_ARCHIVED | FND_OPEN | FND_ACCEPTED | FND_IN_RECOVERY | FND_VERIFIED

datatype governance_tier = GOVERNED | LIGHTWEIGHT

datatype finding_type =
    TYPE_KPI | TYPE_LEAKAGE | TYPE_EXCEPTION | TYPE_CONTROL_FAILURE | TYPE_RECONCILIATION | TYPE_RISK
  | TYPE_OPPORTUNITY | TYPE_DATA_QUALITY

datatype finding_severity = SEVERITY_INFO | SEVERITY_LOW | SEVERITY_MEDIUM | SEVERITY_HIGH | SEVERITY_CRITICAL

datatype confidence_level =
    CONFIDENCE_UNKNOWN | CONFIDENCE_LOW | CONFIDENCE_MODERATE | CONFIDENCE_HIGH | CONFIDENCE_VERY_HIGH

datatype finding_value_type =
    VALUE_COUNT | VALUE_INTEGER | VALUE_DECIMAL | VALUE_PERCENTAGE | VALUE_RATIO | VALUE_DURATION
  | VALUE_DISTANCE | VALUE_VOLUME | VALUE_MASS | VALUE_ENERGY | VALUE_CURRENCY | VALUE_BOOLEAN
  | VALUE_TEXT_CATEGORY

text \<open>What a finding says, apart from what it measured.\<close>

record finding_text =
  tx_title :: string
  tx_summary :: string
  tx_description :: "string option"
  tx_domain :: string
  tx_process :: "string option"
  tx_pack :: "string option"

record finding =
  fd_id :: uuid
  fd_org :: uuid
  fd_tier :: governance_tier
  fd_code :: "string option"
  fd_type :: finding_type
  fd_text :: finding_text
  fd_severity :: finding_severity
  fd_confidence :: confidence_level
  fd_confidence_score :: rat
  fd_status :: finding_status
  fd_measured :: "rat option"
  fd_measured_type :: "finding_value_type option"
  fd_measured_unit :: "string option"
  fd_measured_currency :: "string option"
  fd_exposure :: "rat option"
  fd_exposure_type :: "finding_value_type option"
  fd_exposure_currency :: "string option"
  fd_affected :: "int option"
  fd_occurrence :: "timestamp option \<times> timestamp option"
  fd_detected_at :: "timestamp option"
  fd_published_at :: "timestamp option"
  fd_confirmed_at :: "timestamp option"
  fd_dismissed_at :: "timestamp option"
  fd_resolved_at :: "timestamp option"
  fd_superseded_at :: "timestamp option"
  fd_archived_at :: "timestamp option"
  fd_superseded_by :: "uuid option"
  fd_execution :: "uuid option"
  fd_definition :: "(string \<times> string) option"
  fd_definition_digest :: "string option"
  fd_assessment :: "uuid option"
  fd_readiness :: "uuid option"
  fd_dataset :: "uuid option"
  fd_dataset_reference :: "string option"
  fd_content_digest :: "string option"
  fd_key :: "string option"
  fd_created_by :: "uuid option"
  fd_updated_by :: "uuid option"
  fd_updated_at :: "timestamp option"
  fd_economic_status :: "string option"
  fd_domains :: "string list option"

datatype evidence_type =
    EV_EXECUTION | EV_DEFINITION | EV_TRUST_ASSESSMENT | EV_READINESS_DECISION | EV_DATASET
  | EV_INGESTION_BATCH | EV_SOURCE_SYSTEM | EV_LINEAGE | EV_AFFECTED_RECORD | EV_CALCULATION_TRACE
  | EV_RULE_TRACE | EV_COMPARISON_PERIOD | EV_BENCHMARK | EV_DOCUMENT_REFERENCE | EV_HUMAN_VERIFICATION

record evidence_entry =
  it_type :: evidence_type
  it_reference_type :: string
  it_reference_id :: "string option"
  it_uri :: "string option"
  it_digest :: "string option"
  it_label :: string
  it_description :: "string option"
  it_source_system :: "uuid option"
  it_batch :: "uuid option"
  it_dataset :: "uuid option"
  it_node :: "uuid option"
  it_raw :: "uuid option"
  it_entity :: "string option"
  it_record :: "string option"
  it_field :: "string option"
  it_comparison :: "rat option"
  it_comparison_unit :: "string option"
  it_comparison_currency :: "string option"

record evidence_bundle =
  eb_id :: uuid
  eb_org :: uuid
  eb_finding :: uuid
  eb_version :: int
  eb_policy :: "string \<times> string"
  eb_status :: string
  eb_completeness :: string
  eb_digest :: string
  eb_created_by :: uuid
  eb_finalized_at :: "timestamp option"

record bundle_item =
  bi_org :: uuid
  bi_bundle :: uuid
  bi_number :: int
  bi_item :: evidence_entry

record calculation_trace =
  kt_org :: uuid
  kt_finding :: uuid
  kt_execution :: uuid
  kt_definition :: "string \<times> string"
  kt_engine :: string
  kt_operation :: string
  kt_number :: int
  kt_output :: "rat option"
  kt_output_type :: finding_value_type
  kt_output_unit :: "string option"
  kt_output_currency :: "string option"
  kt_digest :: string

record rule_trace =
  rt_org :: uuid
  rt_finding :: uuid
  rt_execution :: uuid
  rt_rule :: "string \<times> string"
  rt_condition :: string
  rt_number :: int
  rt_result :: bool
  rt_operator :: string
  rt_digest :: string

datatype finding_decision =
    REVIEW_CONFIRM | REVIEW_DISMISS | REVIEW_REQUEST_MORE_EVIDENCE | REVIEW_RETURN_TO_DRAFT
  | REVIEW_MARK_SUPERSEDED

record finding_review =
  fr_org :: uuid
  fr_finding :: uuid
  fr_decision :: finding_decision
  fr_reviewer :: uuid
  fr_role :: string
  fr_reason :: string
  fr_comments :: "string option"
  fr_at :: timestamp

record status_change =
  sh_org :: uuid
  sh_finding :: uuid
  sh_previous :: finding_status
  sh_new :: finding_status
  sh_reason :: string
  sh_by :: uuid
  sh_at :: timestamp
  sh_superseding :: "uuid option"

record finding_source =
  fs_org :: uuid
  fs_finding :: uuid
  fs_dataset :: uuid

section \<open>Database\<close>

record intelligence_db = ingestion_db +
  active_organizations :: "uuid list"
  assessments :: "trust_assessment list"
  readiness :: "readiness_decision list"
  raw_records :: "(uuid \<times> uuid) list"
  lineage_nodes :: "(uuid \<times> uuid) list"
  executions :: "execution list"
  execution_evidence :: "execution_evidence list"
  findings :: "finding list"
  bundles :: "evidence_bundle list"
  bundle_items :: "bundle_item list"
  calculation_traces :: "calculation_trace list"
  rule_traces :: "rule_trace list"
  finding_reviews :: "finding_review list"
  status_changes :: "status_change list"
  finding_sources :: "finding_source list"

definition reference_ok :: "evidence_reference \<Rightarrow> bool" where
  "reference_ok e \<longleftrightarrow> 0 \<le> er_contributing e \<and> 0 \<le> er_excluded e \<and>
     (er_raw e \<noteq> None \<or> er_node e \<noteq> None \<or> er_record e \<noteq> None \<or> er_aggregate e \<noteq> None)"

definition execution_counts_ok :: "execution \<Rightarrow> bool" where
  "execution_counts_ok x \<longleftrightarrow> 0 \<le> ix_checked x \<and> 0 \<le> ix_excluded x \<and> 0 \<le> ix_affected x \<and> ix_affected x \<le> ix_checked x"

definition refers :: "uuid option \<Rightarrow> uuid set \<Rightarrow> bool" where
  "refers i ids = (case i of None \<Rightarrow> True | Some j \<Rightarrow> j \<in> ids)"

definition execution_tables_ok :: "'a intelligence_db_scheme \<Rightarrow> bool" where
  "execution_tables_ok db \<longleftrightarrow>
     unique_on rr_id (readiness db) \<and>
     list_all (\<lambda>r. rr_assessment r \<in> ta_id ` set (assessments db)) (readiness db) \<and>
     unique_on ix_id (executions db) \<and>
     unique_on_some (\<lambda>x. map_option (Pair (ix_org x)) (ix_key x)) (executions db) \<and>
     list_all (\<lambda>x. execution_counts_ok x \<and> ix_dataset x \<in> d_id ` set (datasets db) \<and>
       refers (ix_version x) (v_id ` set (versions db)) \<and>
       ix_assessment x \<in> ta_id ` set (assessments db) \<and> ix_readiness x \<in> rr_id ` set (readiness db))
       (executions db) \<and>
     list_all (\<lambda>e. reference_ok (xe_reference e) \<and> xe_execution e \<in> ix_id ` set (executions db) \<and>
       refers (er_raw (xe_reference e)) (fst ` set (raw_records db)) \<and>
       refers (er_node (xe_reference e)) (fst ` set (lineage_nodes db))) (execution_evidence db)"

definition findings_ok :: "'a intelligence_db_scheme \<Rightarrow> bool" where
  "findings_ok db \<longleftrightarrow>
     unique_on fd_id (findings db) \<and>
     unique_on_some (\<lambda>f. map_option (Pair (fd_org f)) (fd_key f)) (findings db) \<and>
     list_all (\<lambda>f. 0 \<le> fd_confidence_score f \<and> fd_confidence_score f \<le> 1 \<and>
       null_or ((\<le>) 0) (fd_affected f) \<and> refers (fd_superseded_by f) (fd_id ` set (findings db)) \<and>
       refers (fd_execution f) (ix_id ` set (executions db)) \<and>
       refers (fd_assessment f) (ta_id ` set (assessments db)) \<and>
       refers (fd_readiness f) (rr_id ` set (readiness db)) \<and>
       refers (fd_dataset f) (d_id ` set (datasets db))) (findings db)"

definition evidence_entry_ok :: "evidence_entry \<Rightarrow> bool" where
  "evidence_entry_ok e \<longleftrightarrow> it_reference_id e \<noteq> None \<or> it_uri e \<noteq> None \<or> it_record e \<noteq> None"

definition finding_tables_ok :: "'a intelligence_db_scheme \<Rightarrow> bool" where
  "finding_tables_ok db \<longleftrightarrow>
     unique_on eb_id (bundles db) \<and> unique_on (\<lambda>b. (eb_finding b, eb_version b)) (bundles db) \<and>
     list_all (\<lambda>b. eb_finding b \<in> fd_id ` set (findings db)) (bundles db) \<and>
     unique_on (\<lambda>i. (bi_bundle i, bi_number i)) (bundle_items db) \<and>
     list_all (\<lambda>i. 0 < bi_number i \<and> evidence_entry_ok (bi_item i) \<and> bi_bundle i \<in> eb_id ` set (bundles db) \<and>
       refers (it_source_system (bi_item i)) (ss_id ` set (source_systems db)) \<and>
       refers (it_batch (bi_item i)) (b_id ` set (batches db)) \<and>
       refers (it_dataset (bi_item i)) (d_id ` set (datasets db)) \<and>
       refers (it_node (bi_item i)) (fst ` set (lineage_nodes db)) \<and>
       refers (it_raw (bi_item i)) (fst ` set (raw_records db)))
       (bundle_items db) \<and>
     unique_on (\<lambda>t. (kt_finding t, kt_number t)) (calculation_traces db) \<and>
     list_all (\<lambda>t. 0 < kt_number t \<and> kt_finding t \<in> fd_id ` set (findings db) \<and>
       kt_execution t \<in> ix_id ` set (executions db)) (calculation_traces db) \<and>
     unique_on (\<lambda>t. (rt_finding t, rt_number t)) (rule_traces db) \<and>
     list_all (\<lambda>t. 0 < rt_number t \<and> rt_finding t \<in> fd_id ` set (findings db) \<and>
       rt_execution t \<in> ix_id ` set (executions db)) (rule_traces db) \<and>
     list_all (\<lambda>r. fr_finding r \<in> fd_id ` set (findings db)) (finding_reviews db) \<and>
     list_all (\<lambda>s. sh_finding s \<in> fd_id ` set (findings db)) (status_changes db) \<and>
     unique_on (\<lambda>s. (fs_finding s, fs_dataset s)) (finding_sources db) \<and>
     list_all (\<lambda>s. fs_finding s \<in> fd_id ` set (findings db) \<and> fs_dataset s \<in> d_id ` set (datasets db))
       (finding_sources db)"

definition intelligence_constraints :: "'a intelligence_db_scheme \<Rightarrow> bool" where
  "intelligence_constraints db \<longleftrightarrow> execution_tables_ok db \<and> findings_ok db \<and> finding_tables_ok db"

datatype intelligence_error =
    NoDataset
  | NoDatasetVersion
  | NoAssessment
  | NoReadiness
  | NoDefinition
  | NoRawRecord
  | NoLineageNode
  | EngineCrash engine_error
  | IntelligenceInvalid
  | IntelligenceStore
  | FindingNotFound
  | FindingPlatform string
  | PyTypeError

datatype intelligence_row =
    ExecutionOut execution
  | FindingOut finding
  | ReviewOut finding_review
  | NothingOut

definition commit_intelligence ::
    "'a intelligence_db_scheme \<Rightarrow> intelligence_row \<Rightarrow> intelligence_error + 'a intelligence_db_scheme \<times> intelligence_row" where
  "commit_intelligence db r = (if intelligence_constraints db then Inr (db, r) else Inl IntelligenceStore)"

section \<open>Requests\<close>

definition is_upper :: "char \<Rightarrow> bool" where
  "is_upper c \<longleftrightarrow> (let n = of_char c :: nat in 65 \<le> n \<and> n \<le> 90)"

definition snake_code :: "string \<Rightarrow> bool" where
  "snake_code s = (case s of [] \<Rightarrow> False
     | c # cs \<Rightarrow> is_alpha c \<and> \<not> is_upper c \<and> list_all (\<lambda>c. is_lower_alnum c \<or> c = CHR ''_'') cs)"

text \<open>Upper-case words joined by dots, at least two; the flags are the start of a word and a dot seen.\<close>

fun dotted_scan :: "bool \<Rightarrow> bool \<Rightarrow> string \<Rightarrow> bool" where
  "dotted_scan start dotted [] = (\<not> start \<and> dotted)"
| "dotted_scan start dotted (c # cs) =
     (if start then is_upper c \<and> dotted_scan False dotted cs
      else if c = CHR ''.'' then dotted_scan True True cs
      else (is_upper c \<or> is_digit c \<or> c = CHR ''_'') \<and> dotted_scan False dotted cs)"

definition definition_code_ok :: "string \<Rightarrow> bool" where
  "definition_code_ok s \<longleftrightarrow> length s \<le> 100 \<and> (snake_code s \<or> dotted_scan True False s)"

fun version_scan :: "bool \<Rightarrow> string \<Rightarrow> bool" where
  "version_scan start [] = (\<not> start)"
| "version_scan start (c # cs) =
     (if is_digit c then version_scan False cs
      else c = CHR ''.'' \<and> \<not> start \<and> version_scan True cs)"

record execution_payload =
  xp_dataset :: uuid
  xp_version :: "uuid option"
  xp_assessment :: "uuid option"
  xp_type :: execution_type
  xp_code :: string
  xp_definition_version :: string
  xp_key :: "string option"
  xp_records :: "py_dict list"
  xp_parameters :: py_dict
  xp_unit :: "string option"
  xp_currency :: "string option"
  xp_exposure :: "rat option"
  xp_exposure_currency :: "string option"
  xp_period_start :: "timestamp option"
  xp_period_end :: "timestamp option"
  xp_evaluated_at :: "timestamp option"
  xp_evidence :: "evidence_reference list"

definition currency_ok :: "string option \<Rightarrow> bool" where
  "currency_ok c \<longleftrightarrow> (case c of None \<Rightarrow> True | Some s \<Rightarrow> length s = 3 \<and> list_all is_upper s)"

definition truthy_text :: "string option \<Rightarrow> bool" where
  "truthy_text s \<longleftrightarrow> s \<noteq> None \<and> s \<noteq> Some []"

definition truthy_object :: "json option \<Rightarrow> bool" where
  "truthy_object j \<longleftrightarrow> j \<noteq> None \<and> j \<noteq> Some (JObject [])"

definition reference_payload_ok :: "evidence_reference \<Rightarrow> bool" where
  "reference_payload_ok e \<longleftrightarrow> 0 \<le> er_contributing e \<and> 0 \<le> er_excluded e \<and>
     (case er_record e of None \<Rightarrow> True | Some s \<Rightarrow> length s \<le> 255) \<and>
     (er_raw e \<noteq> None \<or> er_node e \<noteq> None \<or> truthy_text (er_record e) \<or> truthy_object (er_aggregate e))"

definition ordered_if :: "timestamp option \<Rightarrow> timestamp option \<Rightarrow> bool" where
  "ordered_if a b = (case (a, b) of (Some x, Some y) \<Rightarrow> x \<le> y | _ \<Rightarrow> True)"

definition execution_payload_ok :: "execution_payload \<Rightarrow> bool" where
  "execution_payload_ok p \<longleftrightarrow>
     definition_code_ok (xp_code p) \<and> version_scan True (xp_definition_version p) \<and> sized_if 255 (xp_key p) \<and>
     length (xp_records p) \<le> 1000 \<and> length (xp_parameters p) \<le> 30 \<and>
     (case xp_unit p of None \<Rightarrow> True | Some u \<Rightarrow> length u \<le> 50) \<and>
     currency_ok (xp_currency p) \<and> currency_ok (xp_exposure_currency p) \<and>
     (xp_exposure p \<noteq> None \<longrightarrow> xp_exposure_currency p \<noteq> None) \<and>
     (xp_currency p \<noteq> None \<and> xp_exposure_currency p \<noteq> None \<longrightarrow> xp_currency p = xp_exposure_currency p) \<and>
     ordered_if (xp_period_start p) (xp_period_end p) \<and>
     length (xp_evidence p) \<le> 200 \<and> list_all reference_payload_ok (xp_evidence p)"

section \<open>Execution\<close>

record intel_env =
  ie_numeric :: "nat \<Rightarrow> rat \<Rightarrow> rat"
  ie_pick :: "readiness_decision list \<Rightarrow> readiness_decision option"
  ie_calculation_digest :: "calculation_definition \<Rightarrow> string"
  ie_rule_digest :: "rule_definition \<Rightarrow> string"
  ie_input_digest :: "py_dict list \<times> py_dict \<Rightarrow> string"

text \<open>The first of the assessments by time of completion, latest first (nulls come first), then id.\<close>

definition assessed_before :: "trust_assessment \<Rightarrow> trust_assessment \<Rightarrow> bool" where
  "assessed_before a b \<longleftrightarrow>
     (case (ta_completed a, ta_completed b) of
        (None, None) \<Rightarrow> ta_id a < ta_id b
      | (None, Some _) \<Rightarrow> True
      | (Some _, None) \<Rightarrow> False
      | (Some s, Some t) \<Rightarrow> t < s \<or> s = t \<and> ta_id a < ta_id b)"

fun first_by :: "('a \<Rightarrow> 'a \<Rightarrow> bool) \<Rightarrow> 'a list \<Rightarrow> 'a option" where
  "first_by before [] = None"
| "first_by before (x # xs) =
     (case first_by before xs of None \<Rightarrow> Some x | Some y \<Rightarrow> Some (if before y x then y else x))"

definition usable_assessment :: "trust_assessment \<Rightarrow> bool" where
  "usable_assessment a \<longleftrightarrow> ta_status a \<in> {TRUST_COMPLETED, TRUST_COMPLETED_WITH_WARNINGS}"

definition arithmetic_readiness :: "'a intelligence_db_scheme \<Rightarrow> uuid \<Rightarrow> uuid \<Rightarrow> readiness_decision list" where
  "arithmetic_readiness db org a =
     filter (\<lambda>r. rr_org r = org \<and> rr_assessment r = a \<and> rr_level r = LEVEL_ARITHMETIC) (readiness db)"

definition is_ready :: "readiness_decision \<Rightarrow> bool" where
  "is_ready r \<longleftrightarrow> rr_status r \<in> {READY, READY_WITH_WARNINGS}"

definition readiness_for ::
    "'x intel_env_scheme \<Rightarrow> 'a intelligence_db_scheme \<Rightarrow> uuid \<Rightarrow> uuid \<Rightarrow> uuid option \<Rightarrow>
     intelligence_error + trust_assessment \<times> readiness_decision" where
  "readiness_for env db org dataset assessment =
     bindE (of_option NoAssessment
              (first_by assessed_before
                 (filter (\<lambda>a. ta_org a = org \<and> ta_dataset a = dataset \<and> usable_assessment a \<and>
                    (case assessment of None \<Rightarrow> True | Some i \<Rightarrow> ta_id a = i)) (assessments db)))) (\<lambda>a.
     bindE (of_option NoReadiness (ie_pick env (arithmetic_readiness db org (ta_id a)))) (\<lambda>r.
     Inr (a, r)))"

datatype found_definition = CalculationFound calculation_definition | RuleFound rule_definition

definition definition_for :: "execution_payload \<Rightarrow> found_definition option" where
  "definition_for p =
     (case xp_type p of
        EXECUTE_CALCULATION \<Rightarrow> map_option CalculationFound (calculation_get (xp_code p) (xp_definition_version p))
      | EXECUTE_RULE \<Rightarrow> map_option RuleFound (rule_get (xp_code p) (xp_definition_version p)))"

definition definition_unit :: "found_definition \<Rightarrow> string option" where
  "definition_unit d = (case d of CalculationFound c \<Rightarrow> cd_output_unit c | RuleFound _ \<Rightarrow> None)"

definition definition_digest :: "'x intel_env_scheme \<Rightarrow> found_definition \<Rightarrow> string" where
  "definition_digest env d =
     (case d of CalculationFound c \<Rightarrow> ie_calculation_digest env c | RuleFound r \<Rightarrow> ie_rule_digest env r)"

text \<open>The units and currencies that a definition with a dotted code asks for.\<close>

definition measurement_policy :: "calculation_definition \<Rightarrow> execution_payload \<Rightarrow> engine_error + unit" where
  "measurement_policy d p =
     (if CHR ''.'' \<notin> set (cd_code d) then Inr ()
      else
        bindE (if cd_currency d then
                 bindE (of_option (Evaluation (CurrencyRequired (cd_code d))) (xp_currency p)) (\<lambda>c.
                 require (list_all (\<lambda>r. dict_get r ''currency'' \<noteq> PyNone \<and> upper (py_str (dict_get r ''currency'')) = c)
                            (filter (\<lambda>r. r \<noteq> []) (xp_records p))) (Evaluation CurrencyMixed))
               else require (xp_unit p \<noteq> None) (Evaluation (UnitRequired (cd_code d)))) (\<lambda>_.
        case xp_unit p of
          None \<Rightarrow> Inr ()
        | Some u \<Rightarrow>
            require (list_all (\<lambda>r. dict_get r ''unit'' = PyNone \<or> py_str (dict_get r ''unit'') = u) (xp_records p))
              (Evaluation UnitMixed)))"

definition evaluate_definition ::
    "'x intel_env_scheme \<Rightarrow> found_definition \<Rightarrow> execution_payload \<Rightarrow> execution \<Rightarrow> engine_error + execution" where
  "evaluate_definition env d p x =
     (case d of
        CalculationFound c \<Rightarrow>
          bindE (measurement_policy c p) (\<lambda>_.
          bindE (arithmetic_execute c (xp_records p) (xp_parameters p)) (\<lambda>out.
          Inr (x\<lparr>ix_result := Some (ie_numeric env 12 (ao_value out)), ix_checked := ao_checked out,
                 ix_excluded := ao_excluded out\<rparr>)))
      | RuleFound r \<Rightarrow>
          bindE (rule_execute r (xp_parameters p)) (\<lambda>out.
          Inr (x\<lparr>ix_result := Some (ie_numeric env 12 (ro_value out)),
                 ix_comparison := map_option (ie_numeric env 12) (ro_comparison out),
                 ix_threshold := map_option (ie_numeric env 12) (ro_threshold out),
                 ix_breached := Some (ro_breached out), ix_checked := 1,
                 ix_affected := (if ro_breached out then 1 else 0)\<rparr>)))"

definition evaluated ::
    "'x intel_env_scheme \<Rightarrow> found_definition \<Rightarrow> execution_payload \<Rightarrow> execution \<Rightarrow> intelligence_error + execution" where
  "evaluated env d p x =
     (case evaluate_definition env d p x of
        Inr y \<Rightarrow> Inr (y\<lparr>ix_status := EXECUTION_COMPLETED\<rparr>)
      | Inl (Evaluation e) \<Rightarrow> Inr (x\<lparr>ix_status := EXECUTION_FAILED, ix_reason := Some (EvaluationFailed e)\<rparr>)
      | Inl e \<Rightarrow> Inl (EngineCrash e))"

definition or_text :: "string option \<Rightarrow> string option \<Rightarrow> string option" where
  "or_text a b = (if truthy_text a then a else b)"

definition begun ::
    "'x intel_env_scheme \<Rightarrow> uuid \<Rightarrow> execution_payload \<Rightarrow> trust_assessment \<Rightarrow> readiness_decision \<Rightarrow> found_definition \<Rightarrow>
     uuid \<Rightarrow> uuid \<Rightarrow> timestamp \<Rightarrow> execution" where
  "begun env org p a r d i actor now =
     \<lparr>ix_id = i, ix_org = org, ix_dataset = xp_dataset p, ix_version = xp_version p, ix_assessment = ta_id a,
      ix_readiness = rr_id r, ix_type = xp_type p, ix_code = xp_code p,
      ix_definition_version = xp_definition_version p, ix_definition_digest = definition_digest env d,
      ix_input_digest = ie_input_digest env (xp_records p, xp_parameters p), ix_status = EXECUTION_BLOCKED,
      ix_key = xp_key p, ix_result = None, ix_comparison = None, ix_threshold = None,
      ix_unit = or_text (xp_unit p) (definition_unit d), ix_currency = xp_currency p, ix_breached = None,
      ix_checked = 0, ix_excluded = 0, ix_affected = 0,
      ix_exposure = map_option (ie_numeric env 12) (xp_exposure p),
      ix_exposure_currency = xp_exposure_currency p, ix_blocking = rr_blocking r, ix_warnings = rr_warnings r,
      ix_reason = None, ix_period_start = xp_period_start p, ix_period_end = xp_period_end p,
      ix_evaluated_at = (case xp_evaluated_at p of None \<Rightarrow> now | Some t \<Rightarrow> t), ix_created_by = actor,
      ix_completed_at = Some now\<rparr>"

definition reference_found ::
    "'a intelligence_db_scheme \<Rightarrow> uuid \<Rightarrow> evidence_reference \<Rightarrow> intelligence_error + unit" where
  "reference_found db org e =
     bindE (require (case er_raw e of None \<Rightarrow> True | Some i \<Rightarrow> (i, org) \<in> set (raw_records db)) NoRawRecord) (\<lambda>_.
     require (case er_node e of None \<Rightarrow> True | Some i \<Rightarrow> (i, org) \<in> set (lineage_nodes db)) NoLineageNode)"

definition execution_for_key :: "'a intelligence_db_scheme \<Rightarrow> uuid \<Rightarrow> string option \<Rightarrow> execution option" where
  "execution_for_key db org key =
     (case key of None \<Rightarrow> None | Some k \<Rightarrow> find (\<lambda>x. ix_org x = org \<and> ix_key x = Some k) (executions db))"

text \<open>\<open>IntelligenceExecutionService.execute\<close>; \<open>perform\<close> is its part from the execution row on.\<close>

definition perform ::
    "'x intel_env_scheme \<Rightarrow> uuid \<Rightarrow> execution_payload \<Rightarrow> readiness_decision \<Rightarrow> found_definition \<Rightarrow> execution \<Rightarrow>
     'a intelligence_db_scheme \<Rightarrow> intelligence_error + 'a intelligence_db_scheme \<times> intelligence_row" where
  "perform env org p r d x db =
     (if \<not> is_ready r then
        let blocked = x\<lparr>ix_reason := Some (NotReady (rr_explanation r))\<rparr>
        in commit_intelligence (db\<lparr>executions := executions db @ [blocked]\<rparr>) (ExecutionOut blocked)
      else
        bindE (evaluated env d p x) (\<lambda>y.
        bindE (traverse (reference_found db org) (xp_evidence p)) (\<lambda>_.
        commit_intelligence
          (db\<lparr>executions := executions db @ [y],
              execution_evidence := execution_evidence db @
                map (\<lambda>e. \<lparr>xe_org = org, xe_execution = ix_id y, xe_reference = e\<rparr>) (xp_evidence p)\<rparr>)
          (ExecutionOut y))))"

definition execute ::
    "'x intel_env_scheme \<Rightarrow> uuid \<Rightarrow> execution_payload \<Rightarrow> uuid \<Rightarrow> uuid \<Rightarrow> timestamp \<Rightarrow> 'a intelligence_db_scheme \<Rightarrow>
     intelligence_error + 'a intelligence_db_scheme \<times> intelligence_row" where
  "execute env org p i actor now db =
     bindE (require (find (\<lambda>d. d_id d = xp_dataset p \<and> d_org d = org) (datasets db) \<noteq> None) NoDataset) (\<lambda>_.
     bindE (require (case xp_version p of None \<Rightarrow> True
                     | Some v \<Rightarrow> find (\<lambda>r. v_id r = v \<and> v_org r = org \<and> v_dataset r = xp_dataset p) (versions db) \<noteq> None)
              NoDatasetVersion) (\<lambda>_.
     case execution_for_key db org (xp_key p) of
       Some prior \<Rightarrow> Inr (db, ExecutionOut prior)
     | None \<Rightarrow>
         bindE (readiness_for env db org (xp_dataset p) (xp_assessment p)) (\<lambda>(a, r).
         bindE (of_option NoDefinition (definition_for p)) (\<lambda>d.
         perform env org p r d (begun env org p a r d i actor now) db))))"

end
