(* ===== verification/Findings.thy ===== *)
theory Findings
  imports Intelligence "HOL-Library.List_Lexorder" "HOL-Library.Char_ord" "HOL-Library.Option_ord" "HOL-Library.Product_Lexorder"
begin

text \<open>
  Findings (\<open>app/services/finding_platform_service.py\<close>,
  \<open>app/services/governed_finding_publisher.py\<close>, \<open>app/models/findings.py\<close>,
  \<open>app/schemas/findings.py\<close>): a completed execution is published as a finding with its evidence
  bundle and traces, once per deduplication key; the finding then moves through reviews and its
  lifecycle. The digests (SHA-256 of canonical JSON) are parameters, functions of what they hash.
\<close>

section \<open>Requests\<close>

record calculation_trace_payload =
  kq_engine :: string
  kq_operation :: string
  kq_summary :: json

record rule_trace_payload =
  rq_condition :: string
  rq_result :: bool
  rq_operator :: string
  rq_summary :: json

record candidate =
  cp_execution :: uuid
  cp_result :: uuid
  cp_type :: finding_type
  cp_text :: finding_text
  cp_measured :: py_decimal
  cp_measured_type :: finding_value_type
  cp_measured_unit :: "string option"
  cp_measured_currency :: "string option"
  cp_exposure :: "rat option"
  cp_exposure_type :: "finding_value_type option"
  cp_exposure_currency :: "string option"
  cp_severity :: finding_severity
  cp_confidence :: confidence_level
  cp_confidence_score :: "rat option"
  cp_method :: "(string \<times> string \<times> string) option"
  cp_affected :: int
  cp_occurrence :: "timestamp option \<times> timestamp option"
  cp_dataset_reference :: string
  cp_policy :: "string \<times> string"
  cp_evidence :: "evidence_entry list"
  cp_calculation_traces :: "calculation_trace_payload list"
  cp_rule_traces :: "rule_trace_payload list"
  cp_warnings :: "string list"
  cp_limitations :: "string list"

definition at_most :: "nat \<Rightarrow> string option \<Rightarrow> bool" where
  "at_most n s \<longleftrightarrow> (case s of None \<Rightarrow> True | Some t \<Rightarrow> length t \<le> n)"

definition item_payload_ok :: "evidence_entry \<Rightarrow> bool" where
  "item_payload_ok e \<longleftrightarrow>
     sized 50 (it_reference_type e) \<and> sized 200 (it_label e) \<and>
     at_most 255 (it_reference_id e) \<and> at_most 500 (it_uri e) \<and> at_most 128 (it_digest e) \<and>
     at_most 1000 (it_description e) \<and> at_most 100 (it_entity e) \<and> at_most 255 (it_record e) \<and>
     at_most 150 (it_field e) \<and> at_most 50 (it_comparison_unit e) \<and> currency_ok (it_comparison_currency e) \<and>
     (truthy_text (it_reference_id e) \<or> truthy_text (it_uri e) \<or> truthy_text (it_record e) \<or>
      it_source_system e \<noteq> None \<or> it_batch e \<noteq> None \<or> it_dataset e \<noteq> None \<or> it_node e \<noteq> None \<or> it_raw e \<noteq> None)"

definition exposure_ok :: "candidate \<Rightarrow> bool" where
  "exposure_ok p \<longleftrightarrow>
     (case cp_exposure p of
        None \<Rightarrow> cp_exposure_type p = None \<and> cp_exposure_currency p = None
      | Some _ \<Rightarrow> cp_exposure_type p \<noteq> None \<and>
          (cp_exposure_type p = Some VALUE_CURRENCY \<longleftrightarrow> cp_exposure_currency p \<noteq> None))"

definition candidate_ok :: "candidate \<Rightarrow> bool" where
  "candidate_ok p \<longleftrightarrow>
     cp_execution p = cp_result p \<and>
     sized 250 (tx_title (cp_text p)) \<and> sized 2000 (tx_summary (cp_text p)) \<and> sized 100 (tx_domain (cp_text p)) \<and>
     at_most 5000 (tx_description (cp_text p)) \<and> at_most 100 (tx_process (cp_text p)) \<and>
     at_most 100 (tx_pack (cp_text p)) \<and> at_most 50 (cp_measured_unit p) \<and>
     ordered_if (fst (cp_occurrence p)) (snd (cp_occurrence p)) \<and>
     currency_ok (cp_measured_currency p) \<and> currency_ok (cp_exposure_currency p) \<and>
     (cp_measured_type p = VALUE_CURRENCY \<longleftrightarrow> cp_measured_currency p \<noteq> None) \<and> exposure_ok p \<and>
     (case cp_confidence_score p of None \<Rightarrow> True | Some c \<Rightarrow> 0 \<le> c \<and> c \<le> 1 \<and> cp_method p \<noteq> None) \<and>
     0 \<le> cp_affected p \<and> sized 255 (cp_dataset_reference p) \<and>
     sized 100 (fst (cp_policy p)) \<and> sized 30 (snd (cp_policy p)) \<and>
     length (cp_evidence p) \<le> 200 \<and> list_all item_payload_ok (cp_evidence p) \<and>
     length (cp_calculation_traces p) \<le> 20 \<and> length (cp_rule_traces p) \<le> 20 \<and>
     length (cp_warnings p) \<le> 20 \<and> length (cp_limitations p) \<le> 20 \<and>
     (cp_calculation_traces p \<noteq> [] \<or> cp_rule_traces p \<noteq> []) \<and>
     (cp_type p = TYPE_LEAKAGE \<longrightarrow> cp_exposure p \<noteq> None \<and> cp_affected p \<noteq> 0 \<and>
        list_ex (\<lambda>e. it_type e = EV_AFFECTED_RECORD) (cp_evidence p) \<and>
        (cp_warnings p \<noteq> [] \<or> cp_limitations p \<noteq> []))"

section \<open>Deduplication\<close>

type_synonym record_reference = "string \<times> string option \<times> string option"

record finding_identity =
  fk_org :: uuid
  fk_definition :: "string \<times> string"
  fk_type :: finding_type
  fk_dataset_reference :: string
  fk_occurrence :: "timestamp option \<times> timestamp option"
  fk_references :: "record_reference list"
  fk_measured_type :: finding_value_type
  fk_measured :: py_decimal
  fk_unit :: "string option"
  fk_currency :: "string option"

record findings_env = intel_env +
  fe_key :: "finding_identity \<Rightarrow> string"
  fe_content :: "execution \<Rightarrow> candidate \<Rightarrow> string"
  fe_bundle :: "execution \<Rightarrow> candidate \<Rightarrow> string"
  fe_calculation_trace :: "calculation_trace_payload \<Rightarrow> string"
  fe_rule_trace :: "rule_trace_payload \<Rightarrow> string"
  fe_definition :: "string \<times> string \<Rightarrow> string"
  fe_input :: "uuid \<Rightarrow> int \<Rightarrow> timestamp \<Rightarrow> string"

text \<open>
  Python compares tuples at their first difference, and \<open>None\<close> with a string not at all; any sort
  compares such a pair or one between them that differs in the same way.
\<close>

definition incomparable :: "record_reference \<Rightarrow> record_reference \<Rightarrow> bool" where
  "incomparable a b \<longleftrightarrow>
     fst a = fst b \<and>
     (if fst (snd a) = fst (snd b) then (snd (snd a) = None) \<noteq> (snd (snd b) = None)
      else (fst (snd a) = None) \<noteq> (fst (snd b) = None))"

definition sorted_references :: "record_reference list \<Rightarrow> intelligence_error + record_reference list" where
  "sorted_references rs =
     (if list_ex (\<lambda>a. list_ex (incomparable a) rs) rs then Inl PyTypeError else Inr (sort rs))"

definition affected_references :: "candidate \<Rightarrow> record_reference list" where
  "affected_references p =
     map (\<lambda>e. (it_reference_type e, it_reference_id e, it_record e))
       (filter (\<lambda>e. it_type e = EV_AFFECTED_RECORD) (cp_evidence p))"

definition finding_key ::
    "'x findings_env_scheme \<Rightarrow> uuid \<Rightarrow> execution \<Rightarrow> candidate \<Rightarrow> intelligence_error + string" where
  "finding_key env org x p =
     bindE (sorted_references (affected_references p)) (\<lambda>refs.
     Inr (fe_key env
       \<lparr>fk_org = org, fk_definition = (ix_code x, ix_definition_version x), fk_type = cp_type p,
        fk_dataset_reference = cp_dataset_reference p, fk_occurrence = cp_occurrence p,
        fk_references = refs, fk_measured_type = cp_measured_type p, fk_measured = cp_measured p,
        fk_unit = cp_measured_unit p, fk_currency = cp_measured_currency p\<rparr>))"

section \<open>Publication\<close>

definition definition_active :: "execution \<Rightarrow> bool" where
  "definition_active x =
     (case ix_type x of
        EXECUTE_CALCULATION \<Rightarrow>
          (case calculation_get (ix_code x) (ix_definition_version x) of
             None \<Rightarrow> False | Some d \<Rightarrow> cd_status d = ''active'')
      | EXECUTE_RULE \<Rightarrow>
          (case rule_get (ix_code x) (ix_definition_version x) of
             None \<Rightarrow> False | Some d \<Rightarrow> rd_status d = ''active''))"

definition execution_contract ::
    "'a intelligence_db_scheme \<Rightarrow> uuid \<Rightarrow> execution \<Rightarrow> candidate \<Rightarrow> intelligence_error + unit" where
  "execution_contract db org x p =
     bindE (require (cp_result p = ix_id x) (FindingPlatform ''RESULT_NOT_ELIGIBLE'')) (\<lambda>_.
     bindE (require (list_ex (\<lambda>a. ta_id a = ix_assessment x \<and> ta_org a = org \<and> usable_assessment a) (assessments db))
              (FindingPlatform ''TRUST_REFERENCE_INVALID'')) (\<lambda>_.
     bindE (require (list_ex (\<lambda>r. rr_id r = ix_readiness x \<and> rr_org r = org \<and> rr_assessment r = ix_assessment x \<and>
                       is_ready r) (readiness db)) (FindingPlatform ''READINESS_REFERENCE_INVALID'')) (\<lambda>_.
     require (list_ex (\<lambda>d. d_id d = ix_dataset x \<and> d_org d = org) (datasets db))
       (FindingPlatform ''CROSS_TENANT_REFERENCE''))))"

definition measurement_matches :: "execution \<Rightarrow> candidate \<Rightarrow> intelligence_error + unit" where
  "measurement_matches x p =
     bindE (require (ix_result x = Some (dec_value (cp_measured p))) (FindingPlatform ''RESULT_NOT_ELIGIBLE'')) (\<lambda>_.
     bindE (require (cp_measured_unit p = ix_unit x) (FindingPlatform ''INVALID_VALUE_UNIT'')) (\<lambda>_.
     bindE (require (cp_measured_currency p = ix_currency x) (FindingPlatform ''INVALID_CURRENCY'')) (\<lambda>_.
     bindE (require (cp_exposure p = ix_exposure x) (FindingPlatform ''INVALID_EXPOSURE'')) (\<lambda>_.
     require (cp_exposure_currency p = ix_exposure_currency x) (FindingPlatform ''INVALID_CURRENCY'')))))"

definition item_references_found :: "'a intelligence_db_scheme \<Rightarrow> uuid \<Rightarrow> evidence_entry \<Rightarrow> bool" where
  "item_references_found db org e \<longleftrightarrow>
     (case it_source_system e of None \<Rightarrow> True
      | Some i \<Rightarrow> list_ex (\<lambda>s. ss_id s = i \<and> ss_org s = org) (source_systems db)) \<and>
     (case it_batch e of None \<Rightarrow> True | Some i \<Rightarrow> list_ex (\<lambda>b. b_id b = i \<and> b_org b = org) (batches db)) \<and>
     (case it_dataset e of None \<Rightarrow> True | Some i \<Rightarrow> list_ex (\<lambda>d. d_id d = i \<and> d_org d = org) (datasets db)) \<and>
     (case it_node e of None \<Rightarrow> True | Some i \<Rightarrow> (i, org) \<in> set (lineage_nodes db)) \<and>
     (case it_raw e of None \<Rightarrow> True | Some i \<Rightarrow> (i, org) \<in> set (raw_records db))"

definition new_finding ::
    "'x findings_env_scheme \<Rightarrow> uuid \<Rightarrow> execution \<Rightarrow> candidate \<Rightarrow> string \<Rightarrow> uuid \<Rightarrow> uuid \<Rightarrow> timestamp \<Rightarrow> finding" where
  "new_finding env org x p key i actor now =
     \<lparr>fd_id = i, fd_org = org, fd_tier = GOVERNED, fd_code = Some (''FND-'' @ upper (take 16 key)),
      fd_type = cp_type p, fd_text = cp_text p, fd_severity = cp_severity p, fd_confidence = cp_confidence p,
      fd_confidence_score = ie_numeric env 4 (case cp_confidence_score p of None \<Rightarrow> 0 | Some c \<Rightarrow> c),
      fd_status = FND_PUBLISHED, fd_measured = Some (ie_numeric env 12 (dec_value (cp_measured p))),
      fd_measured_type = Some (cp_measured_type p), fd_measured_unit = cp_measured_unit p,
      fd_measured_currency = cp_measured_currency p, fd_exposure = map_option (ie_numeric env 12) (cp_exposure p),
      fd_exposure_type = cp_exposure_type p, fd_exposure_currency = cp_exposure_currency p,
      fd_affected = Some (cp_affected p), fd_occurrence = cp_occurrence p,
      fd_detected_at = Some (ix_evaluated_at x), fd_published_at = Some now, fd_confirmed_at = None,
      fd_dismissed_at = None, fd_resolved_at = None, fd_superseded_at = None, fd_archived_at = None,
      fd_superseded_by = None, fd_execution = Some (ix_id x),
      fd_definition = Some (ix_code x, ix_definition_version x),
      fd_definition_digest = Some (ix_definition_digest x), fd_assessment = Some (ix_assessment x),
      fd_readiness = Some (ix_readiness x), fd_dataset = Some (ix_dataset x),
      fd_dataset_reference = Some (cp_dataset_reference p), fd_content_digest = Some (fe_content env x p),
      fd_key = Some key, fd_created_by = Some actor, fd_updated_by = Some actor, fd_updated_at = Some now,
      fd_economic_status = None, fd_domains = None\<rparr>"

definition mandatory_item ::
    "execution \<Rightarrow> evidence_type \<Rightarrow> string \<Rightarrow> string \<Rightarrow> string \<Rightarrow> uuid option \<Rightarrow> evidence_entry" where
  "mandatory_item x type reference_type reference_id label dataset =
     \<lparr>it_type = type, it_reference_type = reference_type, it_reference_id = Some reference_id, it_uri = None,
      it_digest = Some (ix_definition_digest x), it_label = label, it_description = None,
      it_source_system = None, it_batch = None, it_dataset = dataset, it_node = None, it_raw = None,
      it_entity = None, it_record = None, it_field = None, it_comparison = None, it_comparison_unit = None,
      it_comparison_currency = None\<rparr>"

definition mandatory_items :: "execution \<Rightarrow> evidence_entry list" where
  "mandatory_items x =
     [mandatory_item x EV_EXECUTION ''intelligence_execution'' (uuid_text (ix_id x)) ''Source execution'' None,
      mandatory_item x EV_DEFINITION ''definition'' (ix_code x @ ''@'' @ ix_definition_version x)
        ''Immutable OIKB definition'' None,
      mandatory_item x EV_TRUST_ASSESSMENT ''trust_assessment'' (uuid_text (ix_assessment x)) ''Trust assessment'' None,
      mandatory_item x EV_READINESS_DECISION ''readiness_decision'' (uuid_text (ix_readiness x))
        ''Analytical readiness decision'' None,
      mandatory_item x EV_DATASET ''dataset'' (uuid_text (ix_dataset x)) ''Source dataset'' (Some (ix_dataset x))]"

text \<open>Rows numbered from one, in the order they were given.\<close>

definition numbered_rows :: "(int \<Rightarrow> 'x \<Rightarrow> 'r) \<Rightarrow> 'x list \<Rightarrow> 'r list" where
  "numbered_rows row xs = map (\<lambda>(n, x). row (int n) x) (zip [1..<Suc (length xs)] xs)"

definition bundle_item_of ::
    "'x findings_env_scheme \<Rightarrow> uuid \<Rightarrow> uuid \<Rightarrow> int \<Rightarrow> evidence_entry \<Rightarrow> bundle_item" where
  "bundle_item_of env org b n e =
     \<lparr>bi_org = org, bi_bundle = b, bi_number = n,
      bi_item = e\<lparr>it_comparison := map_option (ie_numeric env 12) (it_comparison e)\<rparr>\<rparr>"

definition calculation_trace_of ::
    "'x findings_env_scheme \<Rightarrow> uuid \<Rightarrow> execution \<Rightarrow> candidate \<Rightarrow> uuid \<Rightarrow> int \<Rightarrow> calculation_trace_payload \<Rightarrow> calculation_trace" where
  "calculation_trace_of env org x p i n t =
     \<lparr>kt_org = org, kt_finding = i, kt_execution = ix_id x,
      kt_definition = (ix_code x, ix_definition_version x), kt_engine = kq_engine t,
      kt_operation = kq_operation t, kt_number = n, kt_output = map_option (ie_numeric env 12) (ix_result x),
      kt_output_type = cp_measured_type p, kt_output_unit = ix_unit x, kt_output_currency = ix_currency x,
      kt_digest = fe_calculation_trace env t\<rparr>"

definition rule_trace_of ::
    "'x findings_env_scheme \<Rightarrow> uuid \<Rightarrow> execution \<Rightarrow> uuid \<Rightarrow> int \<Rightarrow> rule_trace_payload \<Rightarrow> rule_trace" where
  "rule_trace_of env org x i n t =
     \<lparr>rt_org = org, rt_finding = i, rt_execution = ix_id x,
      rt_rule = (ix_code x, ix_definition_version x), rt_condition = rq_condition t, rt_number = n,
      rt_result = rq_result t, rt_operator = rq_operator t, rt_digest = fe_rule_trace env t\<rparr>"

definition publish_rows ::
    "'x findings_env_scheme \<Rightarrow> uuid \<Rightarrow> execution \<Rightarrow> candidate \<Rightarrow> string \<Rightarrow> uuid \<Rightarrow> uuid \<Rightarrow> uuid \<Rightarrow> timestamp \<Rightarrow>
     'a intelligence_db_scheme \<Rightarrow> 'a intelligence_db_scheme" where
  "publish_rows env org x p key i b actor now db =
     db\<lparr>findings := findings db @ [new_finding env org x p key i actor now],
        bundles := bundles db @
          [\<lparr>eb_id = b, eb_org = org, eb_finding = i, eb_version = 1, eb_policy = cp_policy p,
            eb_status = ''complete'', eb_completeness = ''complete'', eb_digest = fe_bundle env x p,
            eb_created_by = actor, eb_finalized_at = Some now\<rparr>],
        bundle_items := bundle_items db @
          numbered_rows (bundle_item_of env org b) (mandatory_items x @ cp_evidence p),
        calculation_traces := calculation_traces db @
          numbered_rows (calculation_trace_of env org x p i) (cp_calculation_traces p),
        rule_traces := rule_traces db @ numbered_rows (rule_trace_of env org x i) (cp_rule_traces p),
        status_changes := status_changes db @
          [\<lparr>sh_org = org, sh_finding = i, sh_previous = FND_DRAFT, sh_new = FND_PUBLISHED,
            sh_reason = ''publication_policy_satisfied'', sh_by = actor, sh_at = now, sh_superseding = None\<rparr>]\<rparr>"

text \<open>
  \<open>publish_candidate_finding\<close> once the execution is known: \<open>x\<close> is the execution as the session
  holds it, \<open>i\<close> and \<open>b\<close> are the ids of the finding and its bundle.
\<close>

definition publish_execution ::
    "'x findings_env_scheme \<Rightarrow> uuid \<Rightarrow> execution \<Rightarrow> candidate \<Rightarrow> uuid \<Rightarrow> uuid \<Rightarrow> uuid \<Rightarrow> timestamp \<Rightarrow>
     'a intelligence_db_scheme \<Rightarrow> intelligence_error + 'a intelligence_db_scheme \<times> finding" where
  "publish_execution env org x p i b actor now db =
     bindE (require (definition_active x) (FindingPlatform ''DEFINITION_REFERENCE_INVALID'')) (\<lambda>_.
     bindE (execution_contract db org x p) (\<lambda>_.
     bindE (measurement_matches x p) (\<lambda>_.
     bindE (require (list_all (item_references_found db org) (cp_evidence p))
              (FindingPlatform ''CROSS_TENANT_REFERENCE'')) (\<lambda>_.
     bindE (finding_key env org x p) (\<lambda>key.
     case find (\<lambda>f. fd_org f = org \<and> fd_key f = Some key) (findings db) of
       Some prior \<Rightarrow> Inr (db, prior)
     | None \<Rightarrow>
         let db' = publish_rows env org x p key i b actor now db
         in bindE (require (intelligence_constraints db') IntelligenceStore) (\<lambda>_.
            Inr (db', new_finding env org x p key i actor now)))))))"

definition organization_active :: "'a intelligence_db_scheme \<Rightarrow> uuid \<Rightarrow> intelligence_error + unit" where
  "organization_active db org =
     require (org \<in> set (active_organizations db)) (FindingPlatform ''CROSS_TENANT_REFERENCE'')"

definition eligible_execution :: "'a intelligence_db_scheme \<Rightarrow> uuid \<Rightarrow> uuid \<Rightarrow> intelligence_error + execution" where
  "eligible_execution db org i =
     bindE (of_option (FindingPlatform ''EXECUTION_NOT_ELIGIBLE'')
              (find (\<lambda>x. ix_id x = i \<and> ix_org x = org) (executions db))) (\<lambda>x.
     bindE (require (ix_status x = EXECUTION_COMPLETED) (FindingPlatform ''EXECUTION_NOT_ELIGIBLE'')) (\<lambda>_.
     bindE (require (ix_result x \<noteq> None) (FindingPlatform ''RESULT_NOT_ELIGIBLE'')) (\<lambda>_.
     Inr x)))"

definition publish_candidate ::
    "'x findings_env_scheme \<Rightarrow> uuid \<Rightarrow> candidate \<Rightarrow> uuid \<Rightarrow> uuid \<Rightarrow> uuid \<Rightarrow> timestamp \<Rightarrow>
     'a intelligence_db_scheme \<Rightarrow> intelligence_error + 'a intelligence_db_scheme \<times> intelligence_row" where
  "publish_candidate env org p i b actor now db =
     bindE (organization_active db org) (\<lambda>_.
     bindE (eligible_execution db org (cp_execution p)) (\<lambda>x.
     bindE (publish_execution env org x p i b actor now db) (\<lambda>(db', f).
     Inr (db', FindingOut f))))"

section \<open>Lifecycle\<close>

definition finding_transitions :: "finding_status \<Rightarrow> finding_status list" where
  "finding_transitions s =
     (case s of
        FND_DRAFT \<Rightarrow> [FND_PUBLISHED]
      | FND_PUBLISHED \<Rightarrow> [FND_UNDER_REVIEW, FND_DISMISSED, FND_SUPERSEDED, FND_RESOLVED, FND_ARCHIVED]
      | FND_UNDER_REVIEW \<Rightarrow> [FND_CONFIRMED, FND_DISMISSED]
      | FND_CONFIRMED \<Rightarrow> [FND_RESOLVED, FND_SUPERSEDED, FND_ARCHIVED]
      | FND_DISMISSED \<Rightarrow> [FND_ARCHIVED]
      | FND_SUPERSEDED \<Rightarrow> [FND_ARCHIVED]
      | FND_RESOLVED \<Rightarrow> [FND_ARCHIVED]
      | _ \<Rightarrow> [])"

definition finding_get :: "'a intelligence_db_scheme \<Rightarrow> uuid \<Rightarrow> uuid \<Rightarrow> intelligence_error + finding" where
  "finding_get db org i =
     of_option FindingNotFound (find (\<lambda>f. fd_id f = i \<and> fd_org f = org \<and> fd_code f \<noteq> None) (findings db))"

definition status_stamped :: "finding_status \<Rightarrow> timestamp \<Rightarrow> finding \<Rightarrow> finding" where
  "status_stamped s now f =
     (case s of
        FND_CONFIRMED \<Rightarrow> f\<lparr>fd_confirmed_at := Some now\<rparr>
      | FND_DISMISSED \<Rightarrow> f\<lparr>fd_dismissed_at := Some now\<rparr>
      | FND_RESOLVED \<Rightarrow> f\<lparr>fd_resolved_at := Some now\<rparr>
      | FND_ARCHIVED \<Rightarrow> f\<lparr>fd_archived_at := Some now\<rparr>
      | FND_PUBLISHED \<Rightarrow> f\<lparr>fd_published_at := Some now\<rparr>
      | _ \<Rightarrow> f)"

text \<open>The row after a transition; \<open>by\<close> is the replacement of a superseded finding.\<close>

definition moved :: "finding_status \<Rightarrow> uuid option \<Rightarrow> uuid \<Rightarrow> timestamp \<Rightarrow> finding \<Rightarrow> finding" where
  "moved s by actor now f =
     (let g = (if s = FND_SUPERSEDED then f\<lparr>fd_superseded_by := by, fd_superseded_at := Some now\<rparr> else f)
      in (status_stamped s now g)\<lparr>fd_status := s, fd_updated_at := Some now, fd_updated_by := Some actor\<rparr>)"

record lifecycle_command =
  lc_reason :: string
  lc_superseding :: "uuid option"

definition replacement_found ::
    "'a intelligence_db_scheme \<Rightarrow> uuid \<Rightarrow> finding \<Rightarrow> uuid option \<Rightarrow> intelligence_error + unit" where
  "replacement_found db org f by =
     (case by of
        None \<Rightarrow> Inl (FindingPlatform ''INVALID_STATUS_TRANSITION'')
      | Some j \<Rightarrow>
          bindE (require (j \<noteq> fd_id f) (FindingPlatform ''INVALID_STATUS_TRANSITION'')) (\<lambda>_.
          bindE (finding_get db org j) (\<lambda>_. Inr ())))"

definition finding_transition ::
    "uuid \<Rightarrow> uuid \<Rightarrow> finding_status \<Rightarrow> lifecycle_command \<Rightarrow> uuid \<Rightarrow> timestamp \<Rightarrow>
     'a intelligence_db_scheme \<Rightarrow> intelligence_error + 'a intelligence_db_scheme \<times> intelligence_row" where
  "finding_transition org i s c actor now db =
     bindE (finding_get db org i) (\<lambda>f.
     bindE (require (s \<in> set (finding_transitions (fd_status f))) (FindingPlatform ''INVALID_STATUS_TRANSITION'')) (\<lambda>_.
     bindE (if s = FND_SUPERSEDED then replacement_found db org f (lc_superseding c) else Inr ()) (\<lambda>_.
     let g = moved s (lc_superseding c) actor now f
     in commit_intelligence
          (db\<lparr>findings := put_row fd_id g (findings db),
              status_changes := status_changes db @
                [\<lparr>sh_org = org, sh_finding = fd_id f, sh_previous = fd_status f, sh_new = s,
                  sh_reason = lc_reason c, sh_by = actor, sh_at = now, sh_superseding = lc_superseding c\<rparr>]\<rparr>)
          (FindingOut g))))"

section \<open>Reviews\<close>

record review_payload =
  rv_decision :: finding_decision
  rv_reason :: string
  rv_comments :: "string option"
  rv_superseding :: "uuid option"

definition review_target :: "finding_decision \<Rightarrow> finding_status option" where
  "review_target d =
     (case d of
        REVIEW_CONFIRM \<Rightarrow> Some FND_CONFIRMED
      | REVIEW_DISMISS \<Rightarrow> Some FND_DISMISSED
      | REVIEW_REQUEST_MORE_EVIDENCE \<Rightarrow> Some FND_UNDER_REVIEW
      | REVIEW_MARK_SUPERSEDED \<Rightarrow> Some FND_SUPERSEDED
      | REVIEW_RETURN_TO_DRAFT \<Rightarrow> None)"

text \<open>
  Each transition commits on its own, then the review. After the first step of a confirmation the
  second cannot fail (\<open>review_second_step\<close>), so that one result describes the request.
\<close>

definition review_create ::
    "uuid \<Rightarrow> uuid \<Rightarrow> review_payload \<Rightarrow> uuid \<Rightarrow> string \<Rightarrow> timestamp \<Rightarrow>
     'a intelligence_db_scheme \<Rightarrow> intelligence_error + 'a intelligence_db_scheme \<times> intelligence_row" where
  "review_create org i p reviewer role now db =
     bindE (finding_get db org i) (\<lambda>f.
     bindE (of_option (FindingPlatform ''INVALID_STATUS_TRANSITION'') (review_target (rv_decision p))) (\<lambda>s.
     bindE (if s \<in> {FND_CONFIRMED, FND_DISMISSED} \<and> fd_status f = FND_PUBLISHED
            then finding_transition org i FND_UNDER_REVIEW \<lparr>lc_reason = ''review_started'', lc_superseding = None\<rparr>
                   reviewer now db
            else Inr (db, NothingOut)) (\<lambda>(db1, _).
     bindE (finding_transition org i s
              \<lparr>lc_reason = rv_reason p,
               lc_superseding = (if s = FND_SUPERSEDED then rv_superseding p else None)\<rparr> reviewer now db1) (\<lambda>(db2, _).
     let r = \<lparr>fr_org = org, fr_finding = i, fr_decision = rv_decision p, fr_reviewer = reviewer, fr_role = role,
              fr_reason = rv_reason p, fr_comments = rv_comments p, fr_at = now\<rparr>
     in commit_intelligence (db2\<lparr>finding_reviews := finding_reviews db2 @ [r]\<rparr>) (ReviewOut r)))))"

section \<open>Findings of the analysis rules\<close>

datatype identity_role = ROLE_SUBJECT | ROLE_MATERIAL_CONDITION

record identity_reference =
  ir_role :: identity_role
  ir_type :: string
  ir_canonical :: string
  ir_entity :: "string option"

definition role_label :: "identity_role \<Rightarrow> string" where
  "role_label r = (case r of ROLE_SUBJECT \<Rightarrow> ''Subject'' | ROLE_MATERIAL_CONDITION \<Rightarrow> ''Material Condition'')"

text \<open>The references by type and name; a later one replaces an earlier one of the same role.\<close>

fun normalize_references ::
    "identity_reference list \<Rightarrow> ((string \<times> string) \<times> identity_reference) list \<Rightarrow>
     ((string \<times> string) \<times> identity_reference) list option" where
  "normalize_references [] acc = Some acc"
| "normalize_references (r # rs) acc =
     (let k = (strip (ir_type r), strip (ir_canonical r)) in
      if fst k = [] \<or> snd k = [] then None
      else (case map_of acc k of
              None \<Rightarrow> normalize_references rs (acc @ [(k, r)])
            | Some q \<Rightarrow>
                if ir_role q \<noteq> ir_role r then None
                else normalize_references rs (map (\<lambda>(k', q). if k' = k then (k', r) else (k', q)) acc)))"

definition identity_item :: "(string \<times> string) \<times> identity_reference \<Rightarrow> evidence_entry" where
  "identity_item e =
     (let ((type, name), r) = e;
          entity = (case ir_entity r of None \<Rightarrow> [] | Some t \<Rightarrow> strip t)
      in \<lparr>it_type = EV_AFFECTED_RECORD, it_reference_type = type, it_reference_id = Some name, it_uri = None,
          it_digest = None, it_label = role_label (ir_role r) @ '': '' @ type @ '' '' @ name,
          it_description = None, it_source_system = None, it_batch = None, it_dataset = None, it_node = None,
          it_raw = None, it_entity = (if entity = [] then None else Some entity), it_record = Some name,
          it_field = None, it_comparison = None, it_comparison_unit = None, it_comparison_currency = None\<rparr>)"

definition identity_items :: "identity_reference list \<Rightarrow> evidence_entry list option" where
  "identity_items rs = map_option (\<lambda>acc. map identity_item (sort_key fst acc)) (normalize_references rs [])"

definition dataset_item :: "string \<Rightarrow> uuid \<Rightarrow> evidence_entry" where
  "dataset_item label d =
     \<lparr>it_type = EV_DATASET, it_reference_type = ''dataset'', it_reference_id = Some (uuid_text d), it_uri = None,
      it_digest = None, it_label = label, it_description = None, it_source_system = None, it_batch = None,
      it_dataset = Some d, it_node = None, it_raw = None, it_entity = None, it_record = None, it_field = None,
      it_comparison = None, it_comparison_unit = None, it_comparison_currency = None\<rparr>"

record finding_request =
  gq_dataset :: uuid
  gq_assessment :: uuid
  gq_definition :: "string \<times> string"
  gq_condition :: string
  gq_affected :: int
  gq_text :: finding_text
  gq_severity :: finding_severity
  gq_type :: finding_type
  gq_actor :: uuid
  gq_datasets :: "uuid list"
  gq_references :: "identity_reference list"
  gq_domains :: "string list"
  gq_economic_status :: string
  gq_limitations :: "string list"
  gq_exposure :: "rat option"
  gq_exposure_type :: "finding_value_type option"
  gq_exposure_currency :: "string option"
  gq_evidence :: "evidence_entry list"
  gq_completeness :: "(bool \<times> string) option"

definition request_evidence :: "finding_request \<Rightarrow> evidence_entry list option" where
  "request_evidence q =
     map_option (\<lambda>items.
         dataset_item ''Primary contributing dataset'' (gq_dataset q) #
         map (dataset_item ''Contributing dataset'') (filter (\<lambda>d. d \<noteq> gq_dataset q) (gq_datasets q)) @
         items @ gq_evidence q)
       (identity_items (gq_references q))"

definition request_candidate :: "finding_request \<Rightarrow> uuid \<Rightarrow> evidence_entry list \<Rightarrow> candidate" where
  "request_candidate q i evidence =
     \<lparr>cp_execution = i, cp_result = i, cp_type = gq_type q, cp_text = (gq_text q)\<lparr>tx_description := None, tx_process := None, tx_pack := None\<rparr>,
      cp_measured = Dec (gq_affected q) 0, cp_measured_type = VALUE_COUNT, cp_measured_unit = None,
      cp_measured_currency = None, cp_exposure = gq_exposure q, cp_exposure_type = gq_exposure_type q,
      cp_exposure_currency = gq_exposure_currency q, cp_severity = gq_severity q, cp_confidence = CONFIDENCE_HIGH,
      cp_confidence_score = None, cp_method = None, cp_affected = gq_affected q, cp_occurrence = (None, None),
      cp_dataset_reference = uuid_text (gq_dataset q), cp_policy = (''p3xxc1_analysis_case_default'', ''1.0''),
      cp_evidence = evidence, cp_calculation_traces = [],
      cp_rule_traces = [\<lparr>rq_condition = gq_condition q, rq_result = 0 < gq_affected q,
        rq_operator = ''greater_than'', rq_summary = JObject [(''threshold'', JNumber 0)]\<rparr>],
      cp_warnings = [], cp_limitations = gq_limitations q\<rparr>"

text \<open>The execution a rule records for its finding, as the session holds it.\<close>

definition rule_execution ::
    "'x findings_env_scheme \<Rightarrow> uuid \<Rightarrow> finding_request \<Rightarrow> uuid \<Rightarrow> uuid \<Rightarrow> timestamp \<Rightarrow> execution" where
  "rule_execution env org q i r now =
     \<lparr>ix_id = i, ix_org = org, ix_dataset = gq_dataset q, ix_version = None, ix_assessment = gq_assessment q,
      ix_readiness = r, ix_type = EXECUTE_RULE, ix_code = fst (gq_definition q),
      ix_definition_version = snd (gq_definition q), ix_definition_digest = fe_definition env (gq_definition q),
      ix_input_digest = fe_input env (gq_dataset q) (gq_affected q) now, ix_status = EXECUTION_COMPLETED,
      ix_key = None, ix_result = Some (of_int (gq_affected q)), ix_comparison = None, ix_threshold = None,
      ix_unit = None, ix_currency = None, ix_breached = Some (0 < gq_affected q),
      ix_checked = max (gq_affected q) 1, ix_excluded = 0, ix_affected = gq_affected q,
      ix_exposure = gq_exposure q, ix_exposure_currency = gq_exposure_currency q, ix_blocking = [],
      ix_warnings = [], ix_reason = None, ix_period_start = None, ix_period_end = None, ix_evaluated_at = now,
      ix_created_by = gq_actor q, ix_completed_at = Some now\<rparr>"

definition stored_execution :: "'x intel_env_scheme \<Rightarrow> execution \<Rightarrow> execution" where
  "stored_execution env x =
     x\<lparr>ix_result := map_option (ie_numeric env 12) (ix_result x),
       ix_exposure := map_option (ie_numeric env 12) (ix_exposure x)\<rparr>"

text \<open>
  The readiness a rule may publish under: the arithmetic decision of the assessment if it is
  ready, or, when its only blocking code is the raw field check and the canonical evidence is
  complete, a new decision (\<open>j\<close>) that says so.
\<close>

definition corrected_readiness :: "uuid \<Rightarrow> finding_request \<Rightarrow> uuid \<Rightarrow> string \<Rightarrow> readiness_decision" where
  "corrected_readiness org q j why =
     \<lparr>rr_id = j, rr_org = org, rr_assessment = gq_assessment q, rr_level = LEVEL_ARITHMETIC,
      rr_status = READY_WITH_WARNINGS, rr_blocking = [],
      rr_warnings = [''canonical_evidence_completeness_corrected''], rr_explanation = why\<rparr>"

definition publishing_readiness ::
    "'x findings_env_scheme \<Rightarrow> uuid \<Rightarrow> finding_request \<Rightarrow> uuid \<Rightarrow> 'a intelligence_db_scheme \<Rightarrow>
     ('a intelligence_db_scheme \<times> uuid) option" where
  "publishing_readiness env org q j db =
     Option.bind (ie_pick env (arithmetic_readiness db org (gq_assessment q))) (\<lambda>r.
     if is_ready r then Some (db, rr_id r)
     else (case gq_completeness q of
             None \<Rightarrow> None
           | Some (satisfied, why) \<Rightarrow>
               if satisfied \<and> set (rr_blocking r) = {''required_field_completeness''}
               then Some (db\<lparr>readiness := readiness db @ [corrected_readiness org q j why]\<rparr>, j)
               else None))"

definition annotated :: "finding_request \<Rightarrow> finding \<Rightarrow> finding" where
  "annotated q f =
     f\<lparr>fd_economic_status := Some (gq_economic_status q),
       fd_domains := (if gq_domains q = [] then None else Some (gq_domains q))\<rparr>"

definition source_rows :: "uuid \<Rightarrow> finding_request \<Rightarrow> uuid \<Rightarrow> finding_source list \<Rightarrow> finding_source list" where
  "source_rows org q i rows =
     map (\<lambda>d. \<lparr>fs_org = org, fs_finding = i, fs_dataset = d\<rparr>)
       (filter (\<lambda>d. \<not> list_ex (\<lambda>s. fs_finding s = i \<and> fs_dataset s = d) rows)
          (remdups (gq_dataset q # gq_datasets q)))"

definition governed_publish ::
    "'x findings_env_scheme \<Rightarrow> uuid \<Rightarrow> finding_request \<Rightarrow> uuid \<Rightarrow> uuid \<Rightarrow> uuid \<Rightarrow> uuid \<Rightarrow> timestamp \<Rightarrow>
     'a intelligence_db_scheme \<Rightarrow> intelligence_error + 'a intelligence_db_scheme \<times> intelligence_row" where
  "governed_publish env org q j k i b now db =
     (case publishing_readiness env org q j db of
        None \<Rightarrow> Inr (db, NothingOut)
      | Some (db0, r) \<Rightarrow>
          let x = rule_execution env org q k r now;
              db1 = db0\<lparr>executions := executions db0 @ [stored_execution env x]\<rparr>
          in bindE (of_option IntelligenceInvalid (request_evidence q)) (\<lambda>evidence.
             let p = request_candidate q k evidence
             in bindE (require (candidate_ok p) IntelligenceInvalid) (\<lambda>_.
                bindE (organization_active db1 org) (\<lambda>_.
                bindE (publish_execution env org x p i b (gq_actor q) now db1) (\<lambda>(db2, f).
                let g = annotated q f
                in commit_intelligence
                     (db2\<lparr>findings := put_row fd_id g (findings db2),
                          finding_sources := finding_sources db2 @ source_rows org q (fd_id f) (finding_sources db2)\<rparr>)
                     (FindingOut g))))))"

section \<open>Requests\<close>

text \<open>The requests of an organization, with the identifiers and the clock they are served with.\<close>

datatype intelligence_op =
    Execute execution_payload uuid uuid timestamp
  | PublishCandidate candidate uuid uuid uuid timestamp
  | TransitionFinding uuid finding_status lifecycle_command uuid timestamp
  | ReviewFinding uuid review_payload uuid string timestamp
  | GovernedPublish finding_request uuid uuid uuid uuid timestamp

definition command_ok :: "lifecycle_command \<Rightarrow> bool" where
  "command_ok c \<longleftrightarrow> sized 100 (lc_reason c)"

text \<open>The targets of the lifecycle routes.\<close>

definition lifecycle_routes :: "finding_status list" where
  "lifecycle_routes = [FND_PUBLISHED, FND_CONFIRMED, FND_DISMISSED, FND_SUPERSEDED, FND_RESOLVED, FND_ARCHIVED]"

fun intelligence_step ::
    "'x findings_env_scheme \<Rightarrow> uuid \<times> intelligence_op \<Rightarrow> 'a intelligence_db_scheme \<Rightarrow>
     intelligence_error + 'a intelligence_db_scheme \<times> intelligence_row" where
  "intelligence_step env (org, Execute p i actor now) db =
     bindE (require (execution_payload_ok p) IntelligenceInvalid) (\<lambda>_. execute env org p i actor now db)"
| "intelligence_step env (org, PublishCandidate p i b actor now) db =
     bindE (require (candidate_ok p) IntelligenceInvalid) (\<lambda>_. publish_candidate env org p i b actor now db)"
| "intelligence_step env (org, TransitionFinding i s c actor now) db =
     bindE (require (command_ok c \<and> s \<in> set lifecycle_routes) IntelligenceInvalid) (\<lambda>_.
     finding_transition org i s c actor now db)"
| "intelligence_step env (org, ReviewFinding i p reviewer role now) db =
     bindE (require (sized 100 (rv_reason p)) IntelligenceInvalid) (\<lambda>_.
     review_create org i p reviewer role now db)"
| "intelligence_step env (org, GovernedPublish q j k i b now) db = governed_publish env org q j k i b now db"

end
