(* ===== verification/Findings_Proofs.thy ===== *)
theory Findings_Proofs
  imports Findings
begin

text \<open>
  What a request of the intelligence and findings services can do to the database: a sequence of
  elementary moves (\<open>intelligence_move\<close>), after which the constraints hold. The invariants and
  interfaces are proved move by move.
\<close>

section \<open>Moves\<close>

definition result_recorded :: "execution \<Rightarrow> bool" where
  "result_recorded x \<longleftrightarrow>
     (ix_status x = EXECUTION_COMPLETED \<longleftrightarrow> ix_result x \<noteq> None) \<and>
     (ix_status x \<noteq> EXECUTION_COMPLETED \<longrightarrow> ix_reason x \<noteq> None)"

text \<open>The two ways an execution comes about.\<close>

definition service_execution ::
    "'x intel_env_scheme \<Rightarrow> readiness_decision list \<Rightarrow> execution \<Rightarrow> bool" where
  "service_execution env rs x \<longleftrightarrow>
     (\<exists>org p a r d i actor now. r \<in> set rs \<and> rr_assessment r = ta_id a \<and> definition_for p = Some d \<and>
        (if is_ready r then evaluated env d p (begun env org p a r d i actor now) = Inr x
         else x = (begun env org p a r d i actor now)\<lparr>ix_reason := Some (NotReady (rr_explanation r))\<rparr>))"

definition recorded_execution :: "'x findings_env_scheme \<Rightarrow> execution \<Rightarrow> bool" where
  "recorded_execution env x \<longleftrightarrow> (\<exists>org q i r now. x = stored_execution env (rule_execution env org q i r now))"

text \<open>The execution a finding is published from, and its readiness decision, are in the tables.\<close>

definition stored_as :: "'x intel_env_scheme \<Rightarrow> execution \<Rightarrow> execution \<Rightarrow> bool" where
  "stored_as env x y \<longleftrightarrow>
     ix_id y = ix_id x \<and>
     (\<exists>v. ix_result x = Some v \<and> (ix_result y = Some v \<or> ix_result y = Some (ie_numeric env 12 v))) \<and>
     ix_code y = ix_code x \<and> ix_definition_version y = ix_definition_version x \<and> ix_type y = ix_type x \<and>
     ix_definition_digest y = ix_definition_digest x \<and> ix_assessment y = ix_assessment x \<and>
     ix_readiness y = ix_readiness x \<and> ix_dataset y = ix_dataset x"

definition backed ::
    "'x findings_env_scheme \<Rightarrow> 'a intelligence_db_scheme \<Rightarrow> uuid \<Rightarrow> execution \<Rightarrow> candidate \<Rightarrow> bool" where
  "backed env db org x p \<longleftrightarrow>
     (\<exists>y \<in> set (executions db). ix_org y = org \<and> ix_status y = EXECUTION_COMPLETED \<and> stored_as env x y) \<and>
     definition_active x \<and> execution_contract db org x p = Inr () \<and> measurement_matches x p = Inr ()"

inductive intelligence_move ::
    "'x findings_env_scheme \<Rightarrow> uuid \<Rightarrow> 'a intelligence_db_scheme \<Rightarrow> 'a intelligence_db_scheme \<Rightarrow> bool"
  for env :: "'x findings_env_scheme" and org :: uuid and db :: "'a intelligence_db_scheme" where
  execution_added:
    "ix_org x = org \<Longrightarrow> result_recorded x \<Longrightarrow>
     (service_execution env (readiness db) x \<or> recorded_execution env x) \<Longrightarrow>
     (execution_for_key db org (ix_key x) = None) \<Longrightarrow>
     intelligence_move env org db
       (db\<lparr>executions := executions db @ [x],
           execution_evidence := execution_evidence db @
             map (\<lambda>e. \<lparr>xe_org = org, xe_execution = ix_id x, xe_reference = e\<rparr>) refs\<rparr>)"
| readiness_added:
    "rr_org r = org \<Longrightarrow>
     intelligence_move env org db (db\<lparr>readiness := readiness db @ [r]\<rparr>)"
| finding_published:
    "backed env db org x p \<Longrightarrow> intelligence_constraints (publish_rows env org x p key i b actor now db) \<Longrightarrow>
     intelligence_move env org db (publish_rows env org x p key i b actor now db)"
| finding_moved:
    "f \<in> set (findings db) \<Longrightarrow> fd_org f = org \<Longrightarrow> fd_code f \<noteq> None \<Longrightarrow>
     s \<in> set (finding_transitions (fd_status f)) \<Longrightarrow>
     (s = FND_SUPERSEDED \<Longrightarrow> \<exists>g \<in> set (findings db). by = Some (fd_id g) \<and> fd_org g = org \<and> fd_id g \<noteq> fd_id f) \<Longrightarrow>
     intelligence_move env org db
       (db\<lparr>findings := put_row fd_id (moved s by actor now f) (findings db),
           status_changes := status_changes db @
             [\<lparr>sh_org = org, sh_finding = fd_id f, sh_previous = fd_status f, sh_new = s, sh_reason = why,
               sh_by = actor, sh_at = now, sh_superseding = by\<rparr>]\<rparr>)"
| finding_reviewed:
    "f \<in> set (findings db) \<Longrightarrow> fd_org f = org \<Longrightarrow> fr_org r = org \<Longrightarrow> fr_finding r = fd_id f \<Longrightarrow>
     intelligence_move env org db (db\<lparr>finding_reviews := finding_reviews db @ [r]\<rparr>)"
| finding_annotated:
    "f \<in> set (findings db) \<Longrightarrow> fd_org f = org \<Longrightarrow>
     intelligence_move env org db
       (db\<lparr>findings := put_row fd_id (annotated q f) (findings db),
           finding_sources := finding_sources db @ source_rows org q (fd_id f) (finding_sources db)\<rparr>)"

abbreviation intelligence_moves ::
    "'x findings_env_scheme \<Rightarrow> uuid \<Rightarrow> 'a intelligence_db_scheme \<Rightarrow> 'a intelligence_db_scheme \<Rightarrow> bool" where
  "intelligence_moves env org \<equiv> (intelligence_move env org)\<^sup>*\<^sup>*"

lemma commit_intelligenceD:
  "commit_intelligence db r = Inr (db', s) \<Longrightarrow> db' = db \<and> s = r \<and> intelligence_constraints db"
  by (simp add: commit_intelligence_def split: if_splits)

lemma finding_getD:
  "finding_get db org i = Inr f \<Longrightarrow> f \<in> set (findings db) \<and> fd_id f = i \<and> fd_org f = org \<and> fd_code f \<noteq> None"
  by (auto simp: finding_get_def dest: find_SomeD)

lemma moved_keeps [simp]:
  "fd_id (moved s by actor now f) = fd_id f" "fd_org (moved s by actor now f) = fd_org f"
  "fd_code (moved s by actor now f) = fd_code f" "fd_status (moved s by actor now f) = s"
  "fd_key (moved s by actor now f) = fd_key f" "fd_measured (moved s by actor now f) = fd_measured f"
  "fd_execution (moved s by actor now f) = fd_execution f" "fd_definition (moved s by actor now f) = fd_definition f"
  "fd_assessment (moved s by actor now f) = fd_assessment f" "fd_readiness (moved s by actor now f) = fd_readiness f"
  "fd_dataset (moved s by actor now f) = fd_dataset f" "fd_tier (moved s by actor now f) = fd_tier f"
  "fd_confidence_score (moved s by actor now f) = fd_confidence_score f"
  "fd_affected (moved s by actor now f) = fd_affected f"
  by (cases s; simp add: moved_def status_stamped_def Let_def)+

lemma moved_superseded:
  "fd_superseded_by (moved s by actor now f) = (if s = FND_SUPERSEDED then by else fd_superseded_by f)"
  by (cases s) (simp_all add: moved_def status_stamped_def Let_def)

lemma annotated_keeps [simp]:
  "fd_id (annotated q f) = fd_id f" "fd_org (annotated q f) = fd_org f" "fd_code (annotated q f) = fd_code f"
  "fd_status (annotated q f) = fd_status f" "fd_key (annotated q f) = fd_key f"
  "fd_measured (annotated q f) = fd_measured f" "fd_execution (annotated q f) = fd_execution f"
  "fd_definition (annotated q f) = fd_definition f" "fd_assessment (annotated q f) = fd_assessment f"
  "fd_readiness (annotated q f) = fd_readiness f" "fd_dataset (annotated q f) = fd_dataset f"
  "fd_tier (annotated q f) = fd_tier f" "fd_superseded_by (annotated q f) = fd_superseded_by f"
  "fd_confidence_score (annotated q f) = fd_confidence_score f" "fd_affected (annotated q f) = fd_affected f"
  by (simp_all add: annotated_def)

lemma begun_simps [simp]:
  "ix_org (begun env org p a r d i actor now) = org" "ix_id (begun env org p a r d i actor now) = i"
  "ix_key (begun env org p a r d i actor now) = xp_key p" "ix_result (begun env org p a r d i actor now) = None"
  "ix_status (begun env org p a r d i actor now) = EXECUTION_BLOCKED"
  "ix_reason (begun env org p a r d i actor now) = None"
  by (simp_all add: begun_def)

lemma evaluate_definition_keeps:
  assumes "evaluate_definition env d p x = Inr y"
  shows "ix_org y = ix_org x" "ix_id y = ix_id x" "ix_key y = ix_key x" "ix_result y \<noteq> None"
    "ix_reason y = ix_reason x" "ix_readiness y = ix_readiness x" "ix_input_digest y = ix_input_digest x"
  using assms by (auto simp: evaluate_definition_def split: found_definition.splits)

lemma evaluated_cases:
  assumes "evaluated env d p x = Inr y"
  obtains z where "evaluate_definition env d p x = Inr z" "y = z\<lparr>ix_status := EXECUTION_COMPLETED\<rparr>"
    | e where "evaluate_definition env d p x = Inl (Evaluation e)"
        "y = x\<lparr>ix_status := EXECUTION_FAILED, ix_reason := Some (EvaluationFailed e)\<rparr>"
  using assms by (auto simp: evaluated_def split: sum.splits engine_error.splits)

lemma evaluated_keeps:
  assumes "evaluated env d p x = Inr y"
  shows "ix_org y = ix_org x" "ix_id y = ix_id x" "ix_key y = ix_key x"
  using assms by (cases rule: evaluated_cases; simp add: evaluate_definition_keeps)+

lemma evaluated_recorded:
  assumes "evaluated env d p x = Inr y" "ix_result x = None"
  shows "result_recorded y"
  using assms(1) by (cases rule: evaluated_cases) (auto simp: result_recorded_def evaluate_definition_keeps assms(2))

section \<open>The operations are moves\<close>

text \<open>A row picked by an unordered query is one of the rows of its result.\<close>

definition picks :: "('r list \<Rightarrow> 'r option) \<Rightarrow> bool" where
  "picks pick \<longleftrightarrow> (\<forall>rs. (pick rs = None \<longleftrightarrow> rs = []) \<and> (\<forall>r. pick rs = Some r \<longrightarrow> r \<in> set rs))"

lemma readiness_forD:
  assumes "readiness_for env db org ds as = Inr (a, r)" "picks (ie_pick env)"
  shows "r \<in> set (readiness db)" "rr_assessment r = ta_id a" "rr_org r = org"
proof -
  have "ie_pick env (arithmetic_readiness db org (ta_id a)) = Some r"
    using assms(1) by (auto simp: readiness_for_def)
  then have "r \<in> set (arithmetic_readiness db org (ta_id a))" using assms(2) by (simp add: picks_def)
  then show "r \<in> set (readiness db)" "rr_assessment r = ta_id a" "rr_org r = org"
    by (simp_all add: arithmetic_readiness_def)
qed

lemma perform_moves:
  assumes "perform env org p r d x db = Inr (db', out)" "x = begun env org p a r d i actor now"
    and "r \<in> set (readiness db)" "rr_assessment r = ta_id a" "definition_for p = Some d"
    and "execution_for_key db org (xp_key p) = None"
  shows "intelligence_move env org db db' \<and> intelligence_constraints db'"
proof (cases "is_ready r")
  case False
  define y where "y = x\<lparr>ix_reason := Some (NotReady (rr_explanation r))\<rparr>"
  have "service_execution env (readiness db) y"
    unfolding service_execution_def using assms(3,4,5) False
    by (intro exI [of _ org] exI [of _ p] exI [of _ a] exI [of _ r] exI [of _ d] exI [of _ i]
        exI [of _ actor] exI [of _ now]) (simp add: y_def assms(2))
  then have "intelligence_move env org db
      (db\<lparr>executions := executions db @ [y], execution_evidence := execution_evidence db @
         map (\<lambda>e. \<lparr>xe_org = org, xe_execution = ix_id y, xe_reference = e\<rparr>) []\<rparr>)"
    using assms(6) by (intro execution_added) (simp_all add: y_def assms(2) result_recorded_def)
  moreover have "db' = db\<lparr>executions := executions db @ [y]\<rparr> \<and> intelligence_constraints db'"
    using assms(1) False by (auto simp: perform_def Let_def y_def dest: commit_intelligenceD)
  ultimately show ?thesis by auto
next
  case True
  obtain y where y: "evaluated env d p x = Inr y"
      "db' = db\<lparr>executions := executions db @ [y],
         execution_evidence := execution_evidence db @
           map (\<lambda>e. \<lparr>xe_org = org, xe_execution = ix_id y, xe_reference = e\<rparr>) (xp_evidence p)\<rparr>"
      "intelligence_constraints db'"
    using assms(1) True by (auto simp: perform_def dest: commit_intelligenceD)
  have "service_execution env (readiness db) y"
    unfolding service_execution_def using assms(3,4,5) True y(1)
    by (intro exI [of _ org] exI [of _ p] exI [of _ a] exI [of _ r] exI [of _ d] exI [of _ i]
        exI [of _ actor] exI [of _ now]) (simp add: assms(2))
  then have "intelligence_move env org db
      (db\<lparr>executions := executions db @ [y], execution_evidence := execution_evidence db @
         map (\<lambda>e. \<lparr>xe_org = org, xe_execution = ix_id y, xe_reference = e\<rparr>) (xp_evidence p)\<rparr>)"
    using assms(6) evaluated_keeps [OF y(1)] evaluated_recorded [OF y(1)]
    by (intro execution_added) (simp_all add: assms(2))
  with y(2,3) show ?thesis by simp
qed

lemma execute_moves:
  assumes "execute env org p i actor now db = Inr (db', out)" "picks (ie_pick env)"
  shows "intelligence_moves env org db db' \<and> (db' = db \<or> intelligence_constraints db')"
proof (cases "execution_for_key db org (xp_key p)")
  case None
  then obtain a r d where *: "readiness_for env db org (xp_dataset p) (xp_assessment p) = Inr (a, r)"
      "definition_for p = Some d" "perform env org p r d (begun env org p a r d i actor now) db = Inr (db', out)"
    using assms(1) by (auto simp: execute_def)
  from perform_moves [OF *(3) refl readiness_forD(1,2) [OF *(1) assms(2)] *(2) None]
  show ?thesis by auto
qed (use assms(1) in \<open>simp add: execute_def\<close>)

lemma execution_contractD:
  assumes "execution_contract db org x p = Inr u"
  shows "\<exists>r \<in> set (readiness db). rr_id r = ix_readiness x \<and> rr_org r = org \<and> rr_assessment r = ix_assessment x \<and> is_ready r"
    and "\<exists>a \<in> set (assessments db). ta_id a = ix_assessment x \<and> ta_org a = org \<and> usable_assessment a"
    and "\<exists>d \<in> set (datasets db). d_id d = ix_dataset x \<and> d_org d = org"
  using assms by (auto simp: execution_contract_def list_ex_iff)

lemma publish_executionD:
  assumes "publish_execution env org x p i b actor now db = Inr (db', f)"
  shows "definition_active x" "execution_contract db org x p = Inr ()" "measurement_matches x p = Inr ()"
    and "(\<exists>key. finding_key env org x p = Inr key \<and>
            find (\<lambda>f. fd_org f = org \<and> fd_key f = Some key) (findings db) = Some f \<and> db' = db) \<or>
         (\<exists>key. finding_key env org x p = Inr key \<and>
            find (\<lambda>f. fd_org f = org \<and> fd_key f = Some key) (findings db) = None \<and>
            db' = publish_rows env org x p key i b actor now db \<and> intelligence_constraints db' \<and>
            f = new_finding env org x p key i actor now)"
  using assms by (auto simp: publish_execution_def Let_def split: option.splits)

lemma publish_execution_moves:
  assumes "publish_execution env org x p i b actor now db = Inr (db', f)"
    and "\<exists>y \<in> set (executions db). ix_org y = org \<and> ix_status y = EXECUTION_COMPLETED \<and> stored_as env x y"
  shows "(intelligence_move env org db db' \<and> intelligence_constraints db' \<or> db' = db) \<and>
    f \<in> set (findings db') \<and> fd_org f = org"
  using publish_executionD(4) [OF assms(1)]
proof (elim disjE exE conjE)
  fix key assume "find (\<lambda>f. fd_org f = org \<and> fd_key f = Some key) (findings db) = Some f" "db' = db"
  then show ?thesis using find_SomeD by fastforce
next
  fix key assume k: "db' = publish_rows env org x p key i b actor now db" "intelligence_constraints db'"
    "f = new_finding env org x p key i actor now"
  have "backed env db org x p"
    using publish_executionD(1,2,3) [OF assms(1)] assms(2) by (simp add: backed_def)
  then have "intelligence_move env org db db'"
    unfolding k(1) using k(2) by (intro finding_published) (simp_all add: k(1))
  then show ?thesis using k by (simp add: publish_rows_def new_finding_def)
qed

lemma publish_candidate_moves:
  assumes "publish_candidate env org p i b actor now db = Inr (db', out)"
  shows "intelligence_moves env org db db' \<and> (db' = db \<or> intelligence_constraints db')"
proof -
  obtain x f where x: "eligible_execution db org (cp_execution p) = Inr x"
      "publish_execution env org x p i b actor now db = Inr (db', f)"
    using assms by (auto simp: publish_candidate_def split: prod.splits)
  from x(1) have "x \<in> set (executions db) \<and> ix_org x = org \<and> ix_status x = EXECUTION_COMPLETED \<and> stored_as env x x"
    by (auto simp: eligible_execution_def stored_as_def dest: find_SomeD)
  with publish_execution_moves [OF x(2)] show ?thesis by blast
qed

lemma finding_transitionD:
  assumes "finding_transition org i s c actor now db = Inr (db', out)"
  obtains f where "finding_get db org i = Inr f" "s \<in> set (finding_transitions (fd_status f))"
    "s = FND_SUPERSEDED \<Longrightarrow> \<exists>g \<in> set (findings db). lc_superseding c = Some (fd_id g) \<and> fd_org g = org \<and> fd_id g \<noteq> fd_id f"
    "db' = db\<lparr>findings := put_row fd_id (moved s (lc_superseding c) actor now f) (findings db),
           status_changes := status_changes db @
             [\<lparr>sh_org = org, sh_finding = fd_id f, sh_previous = fd_status f, sh_new = s, sh_reason = lc_reason c,
               sh_by = actor, sh_at = now, sh_superseding = lc_superseding c\<rparr>]\<rparr>"
    "out = FindingOut (moved s (lc_superseding c) actor now f)" "intelligence_constraints db'"
proof -
  obtain f where f: "finding_get db org i = Inr f" "s \<in> set (finding_transitions (fd_status f))"
      "s = FND_SUPERSEDED \<Longrightarrow> replacement_found db org f (lc_superseding c) = Inr ()"
      "commit_intelligence
         (db\<lparr>findings := put_row fd_id (moved s (lc_superseding c) actor now f) (findings db),
             status_changes := status_changes db @
               [\<lparr>sh_org = org, sh_finding = fd_id f, sh_previous = fd_status f, sh_new = s, sh_reason = lc_reason c,
                 sh_by = actor, sh_at = now, sh_superseding = lc_superseding c\<rparr>]\<rparr>)
         (FindingOut (moved s (lc_superseding c) actor now f)) = Inr (db', out)"
    using assms by (auto simp: finding_transition_def Let_def split: if_splits)
  show thesis
  proof (rule that [OF f(1,2)])
    show "\<exists>g \<in> set (findings db). lc_superseding c = Some (fd_id g) \<and> fd_org g = org \<and> fd_id g \<noteq> fd_id f"
      if "s = FND_SUPERSEDED"
      using f(3) [OF that] by (auto simp: replacement_found_def split: option.splits dest: finding_getD)
  qed (use commit_intelligenceD [OF f(4)] in auto)
qed

lemma finding_transition_moves:
  assumes "finding_transition org i s c actor now db = Inr (db', out)"
  shows "intelligence_move env org db db' \<and> intelligence_constraints db'"
  using assms
proof (rule finding_transitionD)
  fix f assume f: "finding_get db org i = Inr f" "s \<in> set (finding_transitions (fd_status f))"
    "s = FND_SUPERSEDED \<Longrightarrow> \<exists>g \<in> set (findings db). lc_superseding c = Some (fd_id g) \<and> fd_org g = org \<and> fd_id g \<noteq> fd_id f"
    "db' = db\<lparr>findings := put_row fd_id (moved s (lc_superseding c) actor now f) (findings db),
           status_changes := status_changes db @
             [\<lparr>sh_org = org, sh_finding = fd_id f, sh_previous = fd_status f, sh_new = s, sh_reason = lc_reason c,
               sh_by = actor, sh_at = now, sh_superseding = lc_superseding c\<rparr>]\<rparr>"
    "intelligence_constraints db'"
  have "intelligence_move env org db db'"
    unfolding f(4) using finding_getD [OF f(1)] f(2,3) by (intro finding_moved) auto
  with f(5) show ?thesis by simp
qed

lemma review_create_moves:
  assumes "review_create org i p reviewer role now db = Inr (db', out)"
  shows "intelligence_moves env org db db' \<and> intelligence_constraints db'"
proof -
  obtain f s db1 out1 db2 out2 where f: "finding_get db org i = Inr f"
      "(if s \<in> {FND_CONFIRMED, FND_DISMISSED} \<and> fd_status f = FND_PUBLISHED
        then finding_transition org i FND_UNDER_REVIEW \<lparr>lc_reason = ''review_started'', lc_superseding = None\<rparr>
               reviewer now db
        else Inr (db, NothingOut)) = Inr (db1, out1)"
      "finding_transition org i s
         \<lparr>lc_reason = rv_reason p, lc_superseding = (if s = FND_SUPERSEDED then rv_superseding p else None)\<rparr>
         reviewer now db1 = Inr (db2, out2)"
      "db' = db2\<lparr>finding_reviews := finding_reviews db2 @
         [\<lparr>fr_org = org, fr_finding = i, fr_decision = rv_decision p, fr_reviewer = reviewer, fr_role = role,
           fr_reason = rv_reason p, fr_comments = rv_comments p, fr_at = now\<rparr>]\<rparr>"
      "intelligence_constraints db'"
    using assms unfolding review_create_def Let_def by (auto dest!: commit_intelligenceD)
  have "intelligence_moves env org db db1"
    using f(2) finding_transition_moves [of org i FND_UNDER_REVIEW _ reviewer now db db1 out1 env]
    by (auto split: if_splits)
  moreover have "intelligence_move env org db1 db2" using finding_transition_moves [OF f(3), where env = env] by simp
  moreover obtain g where g: "g \<in> set (findings db2)" "fd_id g = i" "fd_org g = org"
    using f(3)
  proof (rule finding_transitionD)
    fix h assume "finding_get db1 org i = Inr h"
      "db2 = db1\<lparr>findings := put_row fd_id (moved s
             (lc_superseding \<lparr>lc_reason = rv_reason p, lc_superseding = if s = FND_SUPERSEDED then rv_superseding p else None\<rparr>)
             reviewer now h) (findings db1),
           status_changes := status_changes db1 @
             [\<lparr>sh_org = org, sh_finding = fd_id h, sh_previous = fd_status h, sh_new = s,
               sh_reason = lc_reason \<lparr>lc_reason = rv_reason p, lc_superseding = if s = FND_SUPERSEDED then rv_superseding p else None\<rparr>,
               sh_by = reviewer, sh_at = now,
               sh_superseding = lc_superseding \<lparr>lc_reason = rv_reason p, lc_superseding = if s = FND_SUPERSEDED then rv_superseding p else None\<rparr>\<rparr>]\<rparr>"
    then show thesis
      using finding_getD [of db1 org i h]
      by (intro that [of "moved s (if s = FND_SUPERSEDED then rv_superseding p else None) reviewer now h"])
        (auto simp: in_put_row_iff)
  qed
  then have "intelligence_move env org db2 db'"
    unfolding f(4) by (intro finding_reviewed [of g]) simp_all
  ultimately have "intelligence_moves env org db db'" by (meson rtranclp.rtrancl_into_rtrancl)
  with f(5) show ?thesis by simp
qed

lemma publishing_readinessD:
  assumes "publishing_readiness env org q j db = Some (db0, r)"
  shows "intelligence_moves env org db db0 \<and> executions db0 = executions db \<and> findings db0 = findings db"
proof -
  have "db0 = db \<or> (\<exists>why. db0 = db\<lparr>readiness := readiness db @ [corrected_readiness org q j why]\<rparr>)"
    using assms by (auto simp: publishing_readiness_def bind_eq_Some_conv split: if_splits option.splits prod.splits)
  then show ?thesis
  proof (elim disjE exE)
    fix why assume "db0 = db\<lparr>readiness := readiness db @ [corrected_readiness org q j why]\<rparr>"
    moreover from this have "intelligence_move env org db db0"
      by (simp only:) (rule readiness_added, simp add: corrected_readiness_def)
    ultimately show ?thesis by auto
  qed simp
qed

lemma governed_publish_moves:
  assumes "governed_publish env org q j k i b now db = Inr (db', out)"
  shows "intelligence_moves env org db db' \<and> (db' = db \<or> intelligence_constraints db')"
proof (cases "publishing_readiness env org q j db")
  case (Some d)
  obtain db0 r where d: "d = (db0, r)" by (cases d)
  define x where "x = rule_execution env org q k r now"
  define db1 where "db1 = db0\<lparr>executions := executions db0 @ [stored_execution env x]\<rparr>"
  obtain p db2 f where p: "publish_execution env org x p i b (gq_actor q) now db1 = Inr (db2, f)"
      "db' = db2\<lparr>findings := put_row fd_id (annotated q f) (findings db2),
         finding_sources := finding_sources db2 @ source_rows org q (fd_id f) (finding_sources db2)\<rparr>"
      "intelligence_constraints db'"
    using assms Some unfolding governed_publish_def d
    by (auto simp: x_def [symmetric] db1_def [symmetric] Let_def dest!: commit_intelligenceD split: prod.splits)
  have "intelligence_move env org db0
      (db0\<lparr>executions := executions db0 @ [stored_execution env x], execution_evidence := execution_evidence db0 @
         map (\<lambda>e. \<lparr>xe_org = org, xe_execution = ix_id (stored_execution env x), xe_reference = e\<rparr>) []\<rparr>)"
    by (intro execution_added)
      (auto simp: x_def stored_execution_def rule_execution_def result_recorded_def recorded_execution_def execution_for_key_def)
  then have "intelligence_move env org db0 db1" by (simp add: db1_def)
  moreover have "intelligence_moves env org db db0" using publishing_readinessD Some d by blast
  moreover have pub: "(intelligence_move env org db1 db2 \<or> db2 = db1) \<and> f \<in> set (findings db2) \<and> fd_org f = org"
  proof -
    have "\<exists>y \<in> set (executions db1). ix_org y = org \<and> ix_status y = EXECUTION_COMPLETED \<and> stored_as env x y"
      by (intro bexI [of _ "stored_execution env x"]) (simp_all add: db1_def stored_execution_def stored_as_def x_def rule_execution_def)
    from publish_execution_moves [OF p(1) this] show ?thesis by blast
  qed
  moreover have "intelligence_move env org db2 db'"
    unfolding p(2) using pub by (intro finding_annotated) simp_all
  ultimately have "intelligence_moves env org db db'" by (metis rtranclp.rtrancl_into_rtrancl)
  with p(3) show ?thesis by simp
qed (use assms in \<open>simp add: governed_publish_def\<close>)

lemma intelligence_step_moves:
  assumes "intelligence_step env (org, op) db = Inr (db', out)" "picks (ie_pick env)"
  shows "intelligence_moves env org db db' \<and> (db' = db \<or> intelligence_constraints db')"
proof (cases op)
  case (Execute p i actor now)
  with assms(1) have "execute env org p i actor now db = Inr (db', out)" by simp
  then show ?thesis by (rule execute_moves [OF _ assms(2)])
next
  case (PublishCandidate p i b actor now)
  with assms(1) have "publish_candidate env org p i b actor now db = Inr (db', out)" by simp
  then show ?thesis by (rule publish_candidate_moves)
next
  case (TransitionFinding i s c actor now)
  with assms show ?thesis using finding_transition_moves [of org i s c actor now db db' out env] by auto
next
  case (ReviewFinding i p reviewer role now)
  with assms show ?thesis using review_create_moves [of org i p reviewer role now db db' out env] by auto
next
  case (GovernedPublish q j k i b now)
  with assms(1) have "governed_publish env org q j k i b now db = Inr (db', out)" by simp
  then show ?thesis by (rule governed_publish_moves)
qed

section \<open>Invariants\<close>

definition finding_rows_ok :: "'a intelligence_db_scheme \<Rightarrow> bool" where
  "finding_rows_ok db \<longleftrightarrow>
     unique_on fd_id (findings db) \<and> unique_on eb_id (bundles db) \<and>
     (\<forall>b \<in> set (bundles db). eb_finding b \<in> fd_id ` set (findings db)) \<and>
     (\<forall>i \<in> set (bundle_items db). bi_bundle i \<in> eb_id ` set (bundles db)) \<and>
     (\<forall>s \<in> set (status_changes db). sh_finding s \<in> fd_id ` set (findings db))"

lemma constraints_rows_ok: "intelligence_constraints db \<Longrightarrow> finding_rows_ok db"
  by (simp add: intelligence_constraints_def findings_ok_def finding_tables_ok_def finding_rows_ok_def list_all_iff)

definition finding_history :: "'a intelligence_db_scheme \<Rightarrow> uuid \<Rightarrow> (finding_status \<times> finding_status) list" where
  "finding_history db i =
     map (\<lambda>s. (sh_previous s, sh_new s)) (filter (\<lambda>s. sh_finding s = i) (status_changes db))"

definition items_of :: "'a intelligence_db_scheme \<Rightarrow> uuid \<Rightarrow> bundle_item list" where
  "items_of db b = filter (\<lambda>i. bi_bundle i = b) (bundle_items db)"

text \<open>The status of a governed finding is where its recorded changes lead.\<close>

definition replayed :: "'a intelligence_db_scheme \<Rightarrow> finding \<Rightarrow> bool" where
  "replayed db f \<longleftrightarrow> replay finding_transitions FND_DRAFT (finding_history db (fd_id f)) = Some (fd_status f)"

text \<open>What a governed finding rests on.\<close>

definition sourced :: "'x intel_env_scheme \<Rightarrow> 'a intelligence_db_scheme \<Rightarrow> finding \<Rightarrow> bool" where
  "sourced env db f \<longleftrightarrow>
     (\<exists>x \<in> set (executions db). \<exists>r \<in> set (readiness db). \<exists>a \<in> set (assessments db).
        fd_execution f = Some (ix_id x) \<and> ix_org x = fd_org f \<and> ix_status x = EXECUTION_COMPLETED \<and>
        (\<exists>v. fd_measured f = Some (ie_numeric env 12 v) \<and>
           (ix_result x = Some v \<or> ix_result x = Some (ie_numeric env 12 v))) \<and>
        fd_definition f = Some (ix_code x, ix_definition_version x) \<and> definition_active x \<and>
        fd_readiness f = Some (rr_id r) \<and> ix_readiness x = rr_id r \<and> rr_org r = fd_org f \<and> is_ready r \<and>
        fd_assessment f = Some (ta_id a) \<and> rr_assessment r = ta_id a \<and> ta_org a = fd_org f \<and> usable_assessment a)"

definition bundled :: "'a intelligence_db_scheme \<Rightarrow> finding \<Rightarrow> bool" where
  "bundled db f \<longleftrightarrow>
     (\<exists>b. filter (\<lambda>b. eb_finding b = fd_id f) (bundles db) = [b] \<and> eb_status b = ''complete'' \<and>
        numbered (map bi_number (items_of db (eb_id b))) \<and>
        (\<exists>x \<in> set (executions db). fd_execution f = Some (ix_id x) \<and>
           take 5 (map bi_item (items_of db (eb_id b))) = mandatory_items x))"

definition governed_sound :: "'x intel_env_scheme \<Rightarrow> 'a intelligence_db_scheme \<Rightarrow> finding \<Rightarrow> bool" where
  "governed_sound env db f \<longleftrightarrow> replayed db f \<and> sourced env db f \<and> bundled db f"

definition executions_sound :: "'x findings_env_scheme \<Rightarrow> 'a intelligence_db_scheme \<Rightarrow> bool" where
  "executions_sound env db \<longleftrightarrow>
     (\<forall>x \<in> set (executions db). result_recorded x \<and>
        (service_execution env (readiness db) x \<or> recorded_execution env x))"

definition intelligence_inv :: "'x findings_env_scheme \<Rightarrow> 'a intelligence_db_scheme \<Rightarrow> bool" where
  "intelligence_inv env db \<longleftrightarrow>
     finding_rows_ok db \<and> executions_sound env db \<and>
     (\<forall>f \<in> set (findings db). fd_code f \<noteq> None \<longrightarrow> governed_sound env db f)"

definition intelligence_wf :: "'x findings_env_scheme \<Rightarrow> 'a intelligence_db_scheme \<Rightarrow> bool" where
  "intelligence_wf env db \<longleftrightarrow> intelligence_constraints db \<and> intelligence_inv env db"

lemma move_rows_ok:
  assumes "intelligence_move env org db db'" "finding_rows_ok db"
  shows "finding_rows_ok db'"
  using assms(1)
proof cases
  case (finding_published x p key i b actor now)
  then show ?thesis using constraints_rows_ok by simp
next
  case (finding_moved f s "by" why actor now)
  then show ?thesis using assms(2) by (auto simp: finding_rows_ok_def put_row_keys)
next
  case (finding_annotated f q)
  then show ?thesis using assms(2) by (auto simp: finding_rows_ok_def put_row_keys)
qed (use assms(2) in \<open>simp_all add: finding_rows_ok_def\<close>)

lemma service_execution_mono:
  "service_execution env rs x \<Longrightarrow> set rs \<subseteq> set rs' \<Longrightarrow> service_execution env rs' x"
  unfolding service_execution_def by blast

lemma move_executions_sound:
  assumes "intelligence_move env org db db'" "executions_sound env db"
  shows "executions_sound env db'"
  using assms(1)
proof cases
  case (readiness_added r)
  then show ?thesis using assms(2) service_execution_mono [of env "readiness db" _ "readiness db'"]
    by (auto simp: executions_sound_def)
qed (use assms(2) in \<open>auto simp: executions_sound_def publish_rows_def\<close>)

lemma move_tables_grow:
  assumes "intelligence_move env org db db'"
  shows "set (executions db) \<subseteq> set (executions db')" "set (readiness db) \<subseteq> set (readiness db')"
    "assessments db' = assessments db"
  using assms by (cases; simp add: publish_rows_def subset_insertI)+

lemma sourced_mono:
  assumes "sourced env db f" "intelligence_move env org db db'"
    and "fd_org g = fd_org f" "fd_execution g = fd_execution f" "fd_measured g = fd_measured f"
    "fd_definition g = fd_definition f" "fd_readiness g = fd_readiness f" "fd_assessment g = fd_assessment f"
  shows "sourced env db' g"
proof -
  obtain x r a where m: "x \<in> set (executions db)" "r \<in> set (readiness db)" "a \<in> set (assessments db)"
    and s: "fd_execution f = Some (ix_id x) \<and> ix_org x = fd_org f \<and> ix_status x = EXECUTION_COMPLETED \<and>
        (\<exists>v. fd_measured f = Some (ie_numeric env 12 v) \<and>
           (ix_result x = Some v \<or> ix_result x = Some (ie_numeric env 12 v))) \<and>
        fd_definition f = Some (ix_code x, ix_definition_version x) \<and> definition_active x \<and>
        fd_readiness f = Some (rr_id r) \<and> ix_readiness x = rr_id r \<and> rr_org r = fd_org f \<and> is_ready r \<and>
        fd_assessment f = Some (ta_id a) \<and> rr_assessment r = ta_id a \<and> ta_org a = fd_org f \<and> usable_assessment a"
    using assms(1) unfolding sourced_def by blast
  have "x \<in> set (executions db')" "r \<in> set (readiness db')" "a \<in> set (assessments db')"
    using m move_tables_grow [OF assms(2)] by auto
  then show ?thesis unfolding sourced_def assms(3-8) using s by blast
qed

text \<open>Rows of a new finding do not mix with those of an older one.\<close>

lemma publish_fresh:
  assumes "finding_rows_ok db" "intelligence_constraints (publish_rows env org x p key i b actor now db)"
  shows "i \<notin> fd_id ` set (findings db)" "b \<notin> eb_id ` set (bundles db)"
    "filter (\<lambda>c. eb_finding c = i) (bundles db) = []" "items_of db b = []" "finding_history db i = []"
proof -
  have u: "unique_on fd_id (findings db @ [new_finding env org x p key i actor now])"
    "unique_on eb_id (bundles (publish_rows env org x p key i b actor now db))"
    using constraints_rows_ok [OF assms(2)] by (simp_all add: finding_rows_ok_def publish_rows_def)
  then show i: "i \<notin> fd_id ` set (findings db)" and b: "b \<notin> eb_id ` set (bundles db)"
    by (simp_all add: unique_on_snoc new_finding_def publish_rows_def)
  have fk: "\<forall>c \<in> set (bundles db). eb_finding c \<in> fd_id ` set (findings db)"
    "\<forall>e \<in> set (bundle_items db). bi_bundle e \<in> eb_id ` set (bundles db)"
    "\<forall>s \<in> set (status_changes db). sh_finding s \<in> fd_id ` set (findings db)"
    using assms(1) by (simp_all add: finding_rows_ok_def)
  show "filter (\<lambda>c. eb_finding c = i) (bundles db) = []" using fk(1) i by (auto simp: filter_empty_conv)
  show "items_of db b = []" using fk(2) b by (auto simp: items_of_def filter_empty_conv)
  show "finding_history db i = []" using fk(3) i by (auto simp: finding_history_def filter_empty_conv)
qed

lemma numbered_rows_items:
  "map bi_number (numbered_rows (bundle_item_of env org b) es) = map int [1..<Suc (length es)]"
  "map bi_item (numbered_rows (bundle_item_of env org b) es) =
     map (\<lambda>e. e\<lparr>it_comparison := map_option (ie_numeric env 12) (it_comparison e)\<rparr>) es"
  "filter (\<lambda>i. bi_bundle i = c) (numbered_rows (bundle_item_of env org b) es) =
     (if b = c then numbered_rows (bundle_item_of env org b) es else [])"
proof -
  have z: "map fst (zip [1..<Suc (length es)] es) = [1..<Suc (length es)]"
    "map snd (zip [1..<Suc (length es)] es) = es"
    by (simp_all del: upt_Suc)
  have "map bi_number (numbered_rows (bundle_item_of env org b) es) = map (int \<circ> fst) (zip [1..<Suc (length es)] es)"
    unfolding numbered_rows_def map_map by (rule map_cong) (auto simp: bundle_item_of_def)
  then show "map bi_number (numbered_rows (bundle_item_of env org b) es) = map int [1..<Suc (length es)]"
    by (simp only: map_map [symmetric] z)
  have "map bi_item (numbered_rows (bundle_item_of env org b) es) =
      map ((\<lambda>e. e\<lparr>it_comparison := map_option (ie_numeric env 12) (it_comparison e)\<rparr>) \<circ> snd) (zip [1..<Suc (length es)] es)"
    unfolding numbered_rows_def map_map by (rule map_cong) (auto simp: bundle_item_of_def)
  then show "map bi_item (numbered_rows (bundle_item_of env org b) es) =
      map (\<lambda>e. e\<lparr>it_comparison := map_option (ie_numeric env 12) (it_comparison e)\<rparr>) es"
    by (simp only: map_map [symmetric] z)
  show "filter (\<lambda>i. bi_bundle i = c) (numbered_rows (bundle_item_of env org b) es) =
      (if b = c then numbered_rows (bundle_item_of env org b) es else [])"
    by (auto simp: numbered_rows_def bundle_item_of_def split_def filter_empty_conv simp del: upt_Suc intro!: filter_True)
qed

lemma mandatory_items_kept:
  "map (\<lambda>e. e\<lparr>it_comparison := map_option h (it_comparison e)\<rparr>) (mandatory_items x) = mandatory_items x"
  by (simp add: mandatory_items_def mandatory_item_def)

lemma publish_new_bundled:
  assumes "finding_rows_ok db" "intelligence_constraints (publish_rows env org x p key i b actor now db)"
    and "y \<in> set (executions db)" "stored_as env x y"
  shows "bundled (publish_rows env org x p key i b actor now db) (new_finding env org x p key i actor now)"
proof -
  let ?db = "publish_rows env org x p key i b actor now db"
  let ?es = "mandatory_items x @ cp_evidence p"
  have items: "items_of ?db b = numbered_rows (bundle_item_of env org b) ?es"
    using publish_fresh(4) [OF assms(1,2)] by (simp add: items_of_def publish_rows_def numbered_rows_items)
  have "take 5 (map bi_item (items_of ?db b)) = mandatory_items x"
    unfolding items numbered_rows_items by (simp add: mandatory_items_kept) (simp add: mandatory_items_def)
  also have "mandatory_items x = mandatory_items y"
    using assms(4) by (simp add: mandatory_items_def mandatory_item_def stored_as_def)
  finally have "\<exists>y \<in> set (executions ?db). fd_execution (new_finding env org x p key i actor now) = Some (ix_id y) \<and>
      take 5 (map bi_item (items_of ?db b)) = mandatory_items y"
    using assms(3,4) by (intro bexI [of _ y]) (simp_all add: publish_rows_def new_finding_def stored_as_def)
  moreover have "numbered (map bi_number (items_of ?db b))"
    unfolding items numbered_rows_items numbered_def
    by (simp only: length_map length_upt numbered_rows_def length_zip) simp
  ultimately show ?thesis
    unfolding bundled_def using publish_fresh(3) [OF assms(1,2)]
    by (simp add: publish_rows_def new_finding_def)
qed

lemma publish_old_bundled:
  assumes "finding_rows_ok db" "intelligence_constraints (publish_rows env org x p key i b actor now db)"
    and "f \<in> set (findings db)" "bundled db f"
  shows "bundled (publish_rows env org x p key i b actor now db) f"
proof -
  let ?db = "publish_rows env org x p key i b actor now db"
  obtain c where c: "filter (\<lambda>b. eb_finding b = fd_id f) (bundles db) = [c]" "eb_status c = ''complete''"
      "numbered (map bi_number (items_of db (eb_id c)))"
      "\<exists>x \<in> set (executions db). fd_execution f = Some (ix_id x) \<and>
         take 5 (map bi_item (items_of db (eb_id c))) = mandatory_items x"
    using assms(4) unfolding bundled_def by blast
  have "c \<in> set (bundles db)" using c(1) using list.set_intros(1) [of c "[]"] unfolding c(1) [symmetric] by simp
  then have "eb_id c \<noteq> b" using publish_fresh(2) [OF assms(1,2)] by auto
  then have items: "items_of ?db (eb_id c) = items_of db (eb_id c)"
    by (simp add: items_of_def publish_rows_def numbered_rows_items)
  have "fd_id f \<noteq> i" using publish_fresh(1) [OF assms(1,2)] assms(3) by auto
  then have "filter (\<lambda>b. eb_finding b = fd_id f) (bundles ?db) = [c]" using c(1) by (simp add: publish_rows_def)
  moreover have "executions ?db = executions db" by (simp add: publish_rows_def)
  ultimately show ?thesis unfolding bundled_def using c(2-4) items by (metis (no_types, lifting))
qed

lemma bundled_mono:
  assumes "bundled db f" "bundles db' = bundles db" "bundle_items db' = bundle_items db"
    "set (executions db) \<subseteq> set (executions db')" "fd_id g = fd_id f" "fd_execution g = fd_execution f"
  shows "bundled db' g"
proof -
  have items: "items_of db' c = items_of db c" for c by (simp add: items_of_def assms(3))
  show ?thesis using assms(1,4) unfolding bundled_def assms(2,5,6) items by blast
qed

lemma replayed_same:
  "replayed db f \<Longrightarrow> status_changes db' = status_changes db \<Longrightarrow> fd_id g = fd_id f \<Longrightarrow> fd_status g = fd_status f \<Longrightarrow>
     replayed db' g"
  by (simp add: replayed_def finding_history_def)

lemma governed_same:
  assumes "governed_sound env db f" "intelligence_move env org db db'"
    and "bundles db' = bundles db" "bundle_items db' = bundle_items db" "status_changes db' = status_changes db"
    and "fd_id g = fd_id f" "fd_org g = fd_org f" "fd_status g = fd_status f" "fd_execution g = fd_execution f"
    "fd_measured g = fd_measured f" "fd_definition g = fd_definition f" "fd_readiness g = fd_readiness f"
    "fd_assessment g = fd_assessment f"
  shows "governed_sound env db' g"
  using assms sourced_mono [of env db f org db' g] bundled_mono [of db f db' g] replayed_same [of db f db' g]
    move_tables_grow(1) [OF assms(2)]
  by (simp add: governed_sound_def)

lemma new_finding_sourced:
  assumes "backed env db org x p"
  shows "sourced env (publish_rows env org x p key i b actor now db) (new_finding env org x p key i actor now)"
proof -
  obtain y where y: "y \<in> set (executions db)" "ix_org y = org" "ix_status y = EXECUTION_COMPLETED" "stored_as env x y"
      "definition_active x" "execution_contract db org x p = Inr ()" "measurement_matches x p = Inr ()"
    using assms by (auto simp: backed_def)
  obtain r where r: "r \<in> set (readiness db)" "rr_id r = ix_readiness x" "rr_org r = org"
      "rr_assessment r = ix_assessment x" "is_ready r"
    using execution_contractD(1) [OF y(6)] by auto
  obtain a where a: "a \<in> set (assessments db)" "ta_id a = ix_assessment x" "ta_org a = org" "usable_assessment a"
    using execution_contractD(2) [OF y(6)] by auto
  have v: "ix_result x = Some (dec_value (cp_measured p))" using y(7) by (auto simp: measurement_matches_def)
  have eq: "ix_type y = ix_type x" "ix_code y = ix_code x" "ix_definition_version y = ix_definition_version x"
    using y(4) by (simp_all add: stored_as_def)
  have "definition_active y" using y(5) unfolding definition_active_def eq .
  then show ?thesis
    unfolding sourced_def using y(1-4) r a v
    by (intro bexI [of _ y] bexI [of _ r] bexI [of _ a])
      (auto simp: new_finding_def stored_as_def publish_rows_def)
qed

lemma publish_governed:
  assumes "finding_rows_ok db" "intelligence_constraints (publish_rows env org x p key i b actor now db)"
    and "backed env db org x p" "f \<in> set (findings db)" "governed_sound env db f"
  shows "governed_sound env (publish_rows env org x p key i b actor now db) f"
proof -
  have "fd_id f \<noteq> i" using publish_fresh(1) [OF assms(1,2)] assms(4) by auto
  then have "replayed (publish_rows env org x p key i b actor now db) f"
    using assms(5) by (simp add: governed_sound_def replayed_def finding_history_def publish_rows_def)
  moreover have "sourced env (publish_rows env org x p key i b actor now db) f"
    using assms(5) finding_published [OF assms(3,2)] by (auto simp: governed_sound_def intro: sourced_mono)
  ultimately show ?thesis
    using publish_old_bundled [OF assms(1,2,4)] assms(5) by (simp add: governed_sound_def)
qed

lemma publish_new_governed:
  assumes "finding_rows_ok db" "intelligence_constraints (publish_rows env org x p key i b actor now db)"
    and "backed env db org x p"
  shows "governed_sound env (publish_rows env org x p key i b actor now db) (new_finding env org x p key i actor now)"
proof -
  have "replayed (publish_rows env org x p key i b actor now db) (new_finding env org x p key i actor now)"
    using publish_fresh(5) [OF assms(1,2)]
    by (simp add: replayed_def finding_history_def publish_rows_def new_finding_def finding_transitions_def)
  moreover obtain y where "y \<in> set (executions db)" "stored_as env x y"
    using assms(3) by (auto simp: backed_def)
  ultimately show ?thesis
    using publish_new_bundled [OF assms(1,2)] new_finding_sourced [OF assms(3)] by (simp add: governed_sound_def)
qed

lemma moved_governed:
  assumes "finding_rows_ok db" "f \<in> set (findings db)" "s \<in> set (finding_transitions (fd_status f))"
    and "db' = db\<lparr>findings := put_row fd_id (moved s by actor now f) (findings db),
           status_changes := status_changes db @
             [\<lparr>sh_org = org, sh_finding = fd_id f, sh_previous = fd_status f, sh_new = s, sh_reason = why,
               sh_by = actor, sh_at = now, sh_superseding = by\<rparr>]\<rparr>"
    and "intelligence_move env org db db'"
    and "g \<in> set (findings db)" "governed_sound env db g"
  shows "governed_sound env db' (if g = f then moved s by actor now f else g)"
proof -
  have fg: "fd_id g = fd_id f \<longleftrightarrow> g = f"
    using unique_on_eq [of fd_id "findings db"] assms(1,2,6) by (auto simp: finding_rows_ok_def)
  let ?g = "if g = f then moved s by actor now f else g"
  have old: "replay finding_transitions FND_DRAFT (finding_history db (fd_id g)) = Some (fd_status g)"
    using assms(7) by (simp add: governed_sound_def replayed_def)
  have hist: "finding_history db' (fd_id g) = finding_history db (fd_id g) @ (if g = f then [(fd_status f, s)] else [])"
    using fg by (auto simp: finding_history_def assms(4))
  have "replayed db' ?g"
  proof (cases "g = f")
    case True
    with replay_snoc [OF old, of s] assms(3) hist show ?thesis by (simp add: replayed_def)
  next
    case False
    with old hist show ?thesis by (simp add: replayed_def)
  qed
  moreover have "sourced env db' ?g"
    using assms(7) by (auto simp: governed_sound_def intro: sourced_mono [OF _ assms(5)])
  moreover have "bundled db' ?g"
    by (rule bundled_mono [of db g]) (use assms(7) in \<open>auto simp: governed_sound_def assms(4)\<close>)
  ultimately show ?thesis by (simp add: governed_sound_def)
qed

lemma move_inv:
  assumes "intelligence_move env org db db'" "intelligence_inv env db"
  shows "intelligence_inv env db'"
proof -
  have ok: "finding_rows_ok db" and gov: "\<And>f. f \<in> set (findings db) \<Longrightarrow> fd_code f \<noteq> None \<Longrightarrow> governed_sound env db f"
    using assms(2) by (auto simp: intelligence_inv_def)
  have "governed_sound env db' g" if g: "g \<in> set (findings db')" "fd_code g \<noteq> None" for g
    using assms(1)
  proof cases
    case (execution_added x refs)
    show ?thesis by (rule governed_same [OF gov assms(1)]) (use g execution_added in auto)
  next
    case (readiness_added r)
    show ?thesis by (rule governed_same [OF gov assms(1)]) (use g readiness_added in auto)
  next
    case (finding_published x p key i b actor now)
    from g(1) have "g \<in> set (findings db) \<or> g = new_finding env org x p key i actor now"
      by (auto simp: finding_published publish_rows_def)
    then show ?thesis
      using publish_governed [OF ok finding_published(3,2) _ gov] publish_new_governed [OF ok finding_published(3,2)] g(2)
      unfolding finding_published(1) by blast
  next
    case (finding_moved f s "by" why actor now)
    have "g \<in> set (findings db) \<and> g \<noteq> f \<or> g = moved s by actor now f"
      using g(1) by (auto simp: finding_moved(1) in_put_row_iff)
    then obtain h where h: "h \<in> set (findings db)" "g = (if h = f then moved s by actor now f else h)"
      using finding_moved(2) by (metis (full_types))
    have "fd_code h \<noteq> None" using g(2) h(2) by (auto split: if_splits)
    from moved_governed [OF ok finding_moved(2,5,1) assms(1) h(1) gov [OF h(1) this]] show ?thesis
      by (simp add: h(2))
  next
    case (finding_reviewed f r)
    show ?thesis by (rule governed_same [OF gov assms(1)]) (use g finding_reviewed in auto)
  next
    case (finding_annotated f q)
    from g(1) consider "g \<in> set (findings db)" | "g = annotated q f"
      by (auto simp: finding_annotated(1) in_put_row_iff)
    then show ?thesis
    proof cases
      case 1
      show ?thesis by (rule governed_same [OF gov assms(1)]) (use 1 g finding_annotated in auto)
    next
      case 2
      show ?thesis by (rule governed_same [OF gov [of f] assms(1)]) (use 2 g finding_annotated in auto)
    qed
  qed
  then show ?thesis
    using move_rows_ok [OF assms(1) ok] move_executions_sound [OF assms(1)] assms(2)
    by (simp add: intelligence_inv_def)
qed

lemma moves_inv: "intelligence_moves env org db db' \<Longrightarrow> intelligence_inv env db \<Longrightarrow> intelligence_inv env db'"
  by (induction rule: rtranclp_induct) (auto intro: move_inv)

lemma intelligence_step_wf:
  assumes "picks (ie_pick env)" "intelligence_wf env db" "intelligence_step env call db = Inr (db', out)"
  shows "intelligence_wf env db'"
proof -
  obtain org op where "call = (org, op)" by (cases call)
  then show ?thesis
    using intelligence_step_moves [of env org op db db' out] assms moves_inv
    by (auto simp: intelligence_wf_def)
qed

section \<open>Interfaces\<close>

text \<open>The database is well-formed and unordered queries return rows of their result.\<close>

definition intelligence_ok :: "'x findings_env_scheme \<Rightarrow> 'a intelligence_db_scheme \<Rightarrow> bool" where
  "intelligence_ok env db \<longleftrightarrow> picks (ie_pick env) \<and> intelligence_wf env db"

lemma intelligence_step_ok:
  "intelligence_ok env db \<Longrightarrow> intelligence_step env call db = Inr (db', out) \<Longrightarrow> intelligence_ok env db'"
  using intelligence_step_wf [of env db call db' out] by (simp add: intelligence_ok_def)

lemma intelligence_call_moves:
  "intelligence_ok env db \<Longrightarrow> intelligence_step env call db = Inr (db', out) \<Longrightarrow>
     intelligence_moves env (fst call) db db' \<and> intelligence_constraints db'"
  using intelligence_step_moves [of env "fst call" "snd call" db db' out]
  by (auto simp: intelligence_ok_def intelligence_wf_def)

definition finding_change :: "finding \<Rightarrow> finding \<Rightarrow> bool" where
  "finding_change f g \<longleftrightarrow>
     (fd_code f \<noteq> None \<and> (\<exists>s by actor now. s \<in> set (finding_transitions (fd_status f)) \<and> g = moved s by actor now f)) \<or>
     (\<exists>q. g = annotated q f)"

lemma finding_change_keeps:
  "finding_change f g \<Longrightarrow> fd_id g = fd_id f \<and> fd_org g = fd_org f \<and> fd_code g = fd_code f"
  by (auto simp: finding_change_def)

lemma move_findings:
  assumes "intelligence_move env org db db'"
  shows "table_step fd_id fd_org (\<lambda>f. fd_status f = FND_PUBLISHED) finding_change org (findings db) (findings db')"
  using assms
proof cases
  case (finding_published x p key i b actor now)
  then show ?thesis by (simp add: publish_rows_def table_step_add new_finding_def)
next
  case (finding_moved f s "by" why actor now)
  have "table_step fd_id fd_org (\<lambda>f. fd_status f = FND_PUBLISHED) finding_change org (findings db)
      (put_row fd_id (moved s by actor now f) (findings db))"
    using finding_moved by (intro table_step_put) (auto simp: finding_change_def)
  then show ?thesis by (simp add: finding_moved(1))
next
  case (finding_annotated f q)
  have "table_step fd_id fd_org (\<lambda>f. fd_status f = FND_PUBLISHED) finding_change org (findings db)
      (put_row fd_id (annotated q f) (findings db))"
    using finding_annotated by (intro table_step_put) (auto simp: finding_change_def)
  then show ?thesis by (simp add: finding_annotated(1))
qed simp_all

definition finding_at :: "'a intelligence_db_scheme \<Rightarrow> uuid \<Rightarrow> finding option" where
  "finding_at db i = find (\<lambda>f. fd_id f = i) (findings db)"

lemma moves_finding:
  assumes "intelligence_moves env org db db'" "finding_rows_ok db" "finding_at db i = Some f"
  shows "\<exists>g. finding_at db' i = Some g \<and> finding_change\<^sup>*\<^sup>* f g"
  using assms(1)
proof (induction rule: rtranclp_induct)
  case base
  then show ?case using assms(3) by blast
next
  case (step db1 db2)
  have "finding_rows_ok db1" using step.hyps(1) assms(2) by (induction rule: rtranclp_induct) (auto intro: move_rows_ok)
  then have "unique_on fd_id (findings db1)" by (simp add: finding_rows_ok_def)
  from step.IH table_step_row [OF move_findings [OF step.hyps(2)] this, of i] show ?case
    unfolding finding_at_def by (metis rtranclp.rtrancl_into_rtrancl)
qed

lemma intelligence_step_finding:
  assumes "intelligence_ok env db" "intelligence_step env call db = Inr (db', out)" "finding_at db i = Some f"
  shows "\<exists>g. finding_at db' i = Some g \<and> (g = f \<or> finding_change\<^sup>*\<^sup>* f g)"
  using moves_finding [of env "fst call" db db' i f] intelligence_call_moves [OF assms(1,2)] assms(1,3)
  by (auto simp: intelligence_ok_def intelligence_wf_def intelligence_inv_def)

interpretation finding_table: row_service "intelligence_step env" "intelligence_ok env" finding_at "finding_change\<^sup>*\<^sup>*"
  by unfold_locales (blast intro: intelligence_step_ok, blast dest: intelligence_step_finding)

lemma finding_stays:
  assumes "\<And>f g. P f \<Longrightarrow> finding_change f g \<Longrightarrow> P g"
    and "intelligence_ok env db" "finding_at db i = Some f" "P f"
  shows "\<exists>g. finding_at (run_ops (intelligence_step env) calls db) i = Some g \<and> P g"
proof (rule finding_table.run_stable [where P = P, OF _ assms(2-4)])
  fix f g assume "P f" "finding_change\<^sup>*\<^sup>* f g"
  then show "P g" by (rotate_tac 1) (induction rule: rtranclp_induct, auto intro: assms(1))
qed

text \<open>The histories only grow.\<close>

definition extends :: "'x list \<Rightarrow> 'x list \<Rightarrow> bool" where
  "extends xs ys \<longleftrightarrow> (\<exists>zs. ys = xs @ zs)"

lemma extends_simps [simp]: "extends xs xs" "extends xs (xs @ ys)"
  by (simp_all add: extends_def)

lemma move_logs:
  assumes "intelligence_move env org db db'"
  shows "extends (executions db) (executions db')" "extends (status_changes db) (status_changes db')"
    "extends (finding_reviews db) (finding_reviews db')" "extends (bundle_items db) (bundle_items db')"
    "extends (bundles db) (bundles db')" "extends (readiness db) (readiness db')"
  using assms by (cases; simp add: publish_rows_def)+

lemma moves_logs:
  assumes "intelligence_moves env org db db'"
  shows "extends (executions db) (executions db') \<and> extends (status_changes db) (status_changes db') \<and>
    extends (finding_reviews db) (finding_reviews db') \<and> extends (bundle_items db) (bundle_items db') \<and>
    extends (bundles db) (bundles db') \<and> extends (readiness db) (readiness db')"
  using assms
proof (induction rule: rtranclp_induct)
  case (step db1 db2)
  then show ?case using move_logs [OF step.hyps(2)] by (auto simp: extends_def)
qed simp

lemma intelligence_step_logs:
  assumes "intelligence_ok env db" "intelligence_step env call db = Inr (db', out)"
  shows "\<exists>xs. executions db' = executions db @ xs" "\<exists>xs. status_changes db' = status_changes db @ xs"
    "\<exists>xs. finding_reviews db' = finding_reviews db @ xs" "\<exists>xs. bundle_items db' = bundle_items db @ xs"
  using moves_logs [OF conjunct1 [OF intelligence_call_moves [OF assms]]] by (simp_all add: extends_def)

interpretation execution_log: append_only_service "intelligence_step env" "intelligence_ok env" executions
  by unfold_locales (blast intro: intelligence_step_ok, rule intelligence_step_logs)

interpretation status_log: append_only_service "intelligence_step env" "intelligence_ok env" status_changes
  by unfold_locales (rule intelligence_step_logs)

interpretation review_log: append_only_service "intelligence_step env" "intelligence_ok env" finding_reviews
  by unfold_locales (rule intelligence_step_logs)

interpretation evidence_log: append_only_service "intelligence_step env" "intelligence_ok env" bundle_items
  by unfold_locales (rule intelligence_step_logs)

text \<open>What an organization sees.\<close>

definition intelligence_view :: "uuid \<Rightarrow> 'a intelligence_db_scheme \<Rightarrow> execution list \<times> finding list \<times> readiness_decision list \<times>
    status_change list \<times> finding_review list" where
  "intelligence_view org db =
     (filter (\<lambda>x. ix_org x = org) (executions db), filter (\<lambda>f. fd_org f = org) (findings db),
      filter (\<lambda>r. rr_org r = org) (readiness db), filter (\<lambda>s. sh_org s = org) (status_changes db),
      filter (\<lambda>r. fr_org r = org) (finding_reviews db))"

lemma move_view:
  assumes "intelligence_move env org db db'" "finding_rows_ok db" "other \<noteq> org"
  shows "intelligence_view other db' = intelligence_view other db"
proof -
  have "unique_on fd_id (findings db)" using assms(2) by (simp add: finding_rows_ok_def)
  from table_step_view [OF move_findings [OF assms(1)] this assms(3)]
  have f: "filter (\<lambda>f. fd_org f = other) (findings db') = filter (\<lambda>f. fd_org f = other) (findings db)" .
  have "filter (\<lambda>x. ix_org x = other) (executions db') = filter (\<lambda>x. ix_org x = other) (executions db)"
    "filter (\<lambda>r. rr_org r = other) (readiness db') = filter (\<lambda>r. rr_org r = other) (readiness db)"
    "filter (\<lambda>s. sh_org s = other) (status_changes db') = filter (\<lambda>s. sh_org s = other) (status_changes db)"
    "filter (\<lambda>r. fr_org r = other) (finding_reviews db') = filter (\<lambda>r. fr_org r = other) (finding_reviews db)"
    using assms(1,3) by (cases; simp add: publish_rows_def)+
  with f show ?thesis by (simp only: intelligence_view_def)
qed

lemma moves_view:
  assumes "intelligence_moves env org db db'" "finding_rows_ok db" "other \<noteq> org"
  shows "intelligence_view other db' = intelligence_view other db \<and> finding_rows_ok db'"
  using assms(1)
proof (induction rule: rtranclp_induct)
  case (step db1 db2)
  then show ?case using move_view [OF step.hyps(2) _ assms(3)] move_rows_ok [OF step.hyps(2)] by simp
qed (use assms(2) in simp)

interpretation intelligence_tenants: tenant_service "intelligence_step env" "intelligence_ok env" fst intelligence_view
proof unfold_locales
  fix db db' :: "'b intelligence_db_scheme" and call out org
  assume "intelligence_ok env db" "intelligence_step env call db = Inr (db', out)" "org \<noteq> fst call"
  then show "intelligence_view org db' = intelligence_view org db"
    using moves_view [of env "fst call" db db' org] intelligence_call_moves [of env db call db' out]
    by (auto simp: intelligence_ok_def intelligence_wf_def intelligence_inv_def)
qed

end
