(* ===== verification/Findings_Properties.thy ===== *)
theory Findings_Properties
  imports Findings_Proofs
begin

text \<open>
  What the intelligence and findings services guarantee, and where they do not: provenance and
  history of findings, evaluation of executions, repetition of requests, and the requests that
  the schemas accept and the store or the engine refuses.
\<close>

section \<open>A small platform\<close>

definition demo_dataset_row :: dataset where
  "demo_dataset_row =
     \<lparr>d_id = 1, d_org = 7, d_source = 1, d_name = ''jobs'', d_code = ''jobs'', d_description = None,
      d_domain = ''ops'', d_type = DT_TRANSACTIONAL, d_sensitivity = INTERNAL, d_status = D_ACTIVE,
      d_schema_status = SCH_STABLE, d_time_field = None, d_business_key = None, d_object_name = None,
      d_schema_name = None, d_table_name = None, d_file_pattern = None, d_timezone = None, d_currency = None,
      d_retention_days = None, d_metadata = None, d_created_by = 1, d_updated_by = 1, d_deactivated_at = None\<rparr>"

definition demo_readiness :: "readiness_status \<Rightarrow> string list \<Rightarrow> readiness_decision" where
  "demo_readiness s blocking =
     \<lparr>rr_id = 3, rr_org = 7, rr_assessment = 2, rr_level = LEVEL_ARITHMETIC, rr_status = s,
      rr_blocking = blocking, rr_warnings = [], rr_explanation = ''''\<rparr>"

definition demo_intelligence_db :: "readiness_decision \<Rightarrow> intelligence_db" where
  "demo_intelligence_db r =
     \<lparr>organizations = [7], source_systems = [], batches = [], datasets = [demo_dataset_row], versions = [],
      active_organizations = [7],
      assessments = [\<lparr>ta_id = 2, ta_org = 7, ta_dataset = 1, ta_status = TRUST_COMPLETED, ta_completed = Some 5\<rparr>],
      readiness = [r], raw_records = [], lineage_nodes = [], executions = [], execution_evidence = [],
      findings = [], bundles = [], bundle_items = [], calculation_traces = [], rule_traces = [],
      finding_reviews = [], status_changes = [], finding_sources = []\<rparr>"

text \<open>Numeric columns that hold every value, queries that return their last row, and digests.\<close>

definition decimal_key :: "py_decimal \<Rightarrow> string" where
  "decimal_key d = (case d of Dec c e \<Rightarrow> int_text c @ ''e'' @ int_text e)"

definition demo_findings_env :: findings_env where
  "demo_findings_env =
     \<lparr>ie_numeric = (\<lambda>_ x. x), ie_pick = (\<lambda>rs. if rs = [] then None else Some (last rs)),
      ie_calculation_digest = cd_code, ie_rule_digest = rd_code, ie_input_digest = (\<lambda>_. ''inputs''),
      fe_key = (\<lambda>k. decimal_key (fk_measured k)),
      fe_content = (\<lambda>_ _. ''content''), fe_bundle = (\<lambda>_ _. ''bundle''), fe_calculation_trace = (\<lambda>_. ''trace''),
      fe_rule_trace = (\<lambda>_. ''trace''), fe_definition = fst, fe_input = (\<lambda>_ _ _. ''inputs'')\<rparr>"

lemma demo_picks: "picks (ie_pick demo_findings_env)"
  by (auto simp: picks_def demo_findings_env_def)

lemma demo_intelligence_ok:
  assumes "rr_org r = 7" "rr_assessment r = 2"
  shows "intelligence_ok demo_findings_env (demo_intelligence_db r)"
  using assms demo_picks
  by (simp add: intelligence_ok_def intelligence_wf_def intelligence_inv_def intelligence_constraints_def
      execution_tables_ok_def findings_ok_def finding_tables_ok_def finding_rows_ok_def executions_sound_def
      demo_intelligence_db_def unique_on_def unique_on_some_def)

definition demo_execution_payload :: "string \<Rightarrow> py_dict \<Rightarrow> execution_payload" where
  "demo_execution_payload code ps =
     \<lparr>xp_dataset = 1, xp_version = None, xp_assessment = None, xp_type = EXECUTE_CALCULATION, xp_code = code,
      xp_definition_version = ''1.0'', xp_key = Some ''k'', xp_records = [[], []], xp_parameters = ps,
      xp_unit = None, xp_currency = None, xp_exposure = None, xp_exposure_currency = None,
      xp_period_start = None, xp_period_end = None, xp_evaluated_at = None, xp_evidence = []\<rparr>"

definition demo_candidate :: "py_decimal \<Rightarrow> evidence_entry list \<Rightarrow> candidate" where
  "demo_candidate m items =
     \<lparr>cp_execution = 20, cp_result = 20, cp_type = TYPE_KPI,
      cp_text = \<lparr>tx_title = ''t'', tx_summary = ''s'', tx_description = None, tx_domain = ''d'', tx_process = None,
                 tx_pack = None\<rparr>,
      cp_measured = m, cp_measured_type = VALUE_COUNT, cp_measured_unit = None, cp_measured_currency = None,
      cp_exposure = None, cp_exposure_type = None, cp_exposure_currency = None, cp_severity = SEVERITY_LOW,
      cp_confidence = CONFIDENCE_UNKNOWN, cp_confidence_score = None, cp_method = None, cp_affected = 0,
      cp_occurrence = (None, None), cp_dataset_reference = ''jobs'', cp_policy = (''p'', ''1''),
      cp_evidence = items, cp_calculation_traces = [\<lparr>kq_engine = ''1.0'', kq_operation = ''count'', kq_summary = JNull\<rparr>],
      cp_rule_traces = [], cp_warnings = [], cp_limitations = []\<rparr>"

lemma demo_payload_simps [simp]:
  "xp_dataset (demo_execution_payload code ps) = 1" "xp_version (demo_execution_payload code ps) = None"
  "xp_assessment (demo_execution_payload code ps) = None" "xp_type (demo_execution_payload code ps) = EXECUTE_CALCULATION"
  "xp_code (demo_execution_payload code ps) = code" "xp_definition_version (demo_execution_payload code ps) = ''1.0''"
  "xp_key (demo_execution_payload code ps) = Some ''k''" "xp_records (demo_execution_payload code ps) = [[], []]"
  "xp_parameters (demo_execution_payload code ps) = ps" "xp_evidence (demo_execution_payload code ps) = []"
  by (simp_all add: demo_execution_payload_def)

lemma demo_db_simps [simp]:
  "datasets (demo_intelligence_db r) = [demo_dataset_row]" "versions (demo_intelligence_db r) = []"
  "executions (demo_intelligence_db r) = []" "readiness (demo_intelligence_db r) = [r]"
  "findings (demo_intelligence_db r) = []" "bundles (demo_intelligence_db r) = []"
  "active_organizations (demo_intelligence_db r) = [7]" "source_systems (demo_intelligence_db r) = []"
  "bundle_items (demo_intelligence_db r) = []" "status_changes (demo_intelligence_db r) = []"
  "calculation_traces (demo_intelligence_db r) = []" "rule_traces (demo_intelligence_db r) = []"
  "execution_evidence (demo_intelligence_db r) = []" "finding_reviews (demo_intelligence_db r) = []"
  "finding_sources (demo_intelligence_db r) = []" "batches (demo_intelligence_db r) = []"
  "assessments (demo_intelligence_db r) =
     [\<lparr>ta_id = 2, ta_org = 7, ta_dataset = 1, ta_status = TRUST_COMPLETED, ta_completed = Some 5\<rparr>]"
  "d_id demo_dataset_row = 1" "d_org demo_dataset_row = 7"
  by (simp_all add: demo_intelligence_db_def demo_dataset_row_def)

lemma demo_readiness_simps [simp]:
  "rr_id (demo_readiness s bs) = 3" "rr_org (demo_readiness s bs) = 7" "rr_assessment (demo_readiness s bs) = 2"
  "rr_level (demo_readiness s bs) = LEVEL_ARITHMETIC" "rr_status (demo_readiness s bs) = s"
  "rr_blocking (demo_readiness s bs) = bs" "rr_warnings (demo_readiness s bs) = []"
  by (simp_all add: demo_readiness_def)

lemma demo_env_simps [simp]:
  "ie_numeric demo_findings_env n x = x" "ie_pick demo_findings_env rs = (if rs = [] then None else Some (last rs))"
  "fe_key demo_findings_env k = decimal_key (fk_measured k)"
  by (simp_all add: demo_findings_env_def)

abbreviation demo_ready_db :: intelligence_db where
  "demo_ready_db \<equiv> demo_intelligence_db (demo_readiness READY [])"

definition demo_finding_calls :: "(uuid \<times> intelligence_op) list" where
  "demo_finding_calls =
     [(7, Execute (demo_execution_payload ''record_count'' []) 20 1 10),
      (7, PublishCandidate (demo_candidate (Dec 2 0) []) 30 31 1 11)]"

lemma demo_ready_ok: "intelligence_ok demo_findings_env demo_ready_db"
  by (rule demo_intelligence_ok) simp_all

section \<open>Provenance and history\<close>

lemma run_intelligence_ok:
  "intelligence_ok env db \<Longrightarrow> intelligence_ok env (run_ops (intelligence_step env) calls db)"
  by (rule finding_table.run_inv)

lemma run_governed_sound:
  assumes "intelligence_ok env db" "f \<in> set (findings (run_ops (intelligence_step env) calls db))" "fd_code f \<noteq> None"
  shows "governed_sound env (run_ops (intelligence_step env) calls db) f"
  using run_intelligence_ok [OF assms(1), of calls] assms(2,3)
  by (auto simp: intelligence_ok_def intelligence_wf_def intelligence_inv_def)

text \<open>C3: Whatever requests were made, a governed finding reports, rounded to its column, the
  result of a completed execution of its own organization under an active registered definition,
  gated by a ready decision, and its one complete evidence bundle starts with the references to
  that execution, its definition, assessment, readiness decision and dataset.\<close>

theorem governed_finding_provenance:
  assumes "intelligence_ok env db" "\<And>n v. ie_numeric env n (ie_numeric env n v) = ie_numeric env n v"
    and "db' = run_ops (intelligence_step env) calls db" "f \<in> set (findings db')" "fd_code f \<noteq> None"
  shows "\<exists>x \<in> set (executions db'). \<exists>r \<in> set (readiness db'). \<exists>b.
    fd_execution f = Some (ix_id x) \<and> ix_org x = fd_org f \<and> ix_status x = EXECUTION_COMPLETED \<and>
    fd_measured f = map_option (ie_numeric env 12) (ix_result x) \<and> definition_active x \<and>
    fd_readiness f = Some (rr_id r) \<and> rr_org r = fd_org f \<and> is_ready r \<and>
    filter (\<lambda>b. eb_finding b = fd_id f) (bundles db') = [b] \<and> eb_status b = ''complete'' \<and>
    take 5 (map bi_item (items_of db' (eb_id b))) = mandatory_items x"
proof -
  have ok: "intelligence_ok env db'" unfolding assms(3) by (rule run_intelligence_ok [OF assms(1)])
  have g: "sourced env db' f" "bundled db' f"
    using run_governed_sound [OF assms(1)] assms(3-5) by (auto simp: governed_sound_def)
  obtain x r where x: "x \<in> set (executions db')" "r \<in> set (readiness db')" "fd_execution f = Some (ix_id x)"
      "ix_org x = fd_org f" "ix_status x = EXECUTION_COMPLETED" "definition_active x" "is_ready r"
      "fd_measured f = map_option (ie_numeric env 12) (ix_result x)"
      "fd_readiness f = Some (rr_id r)" "rr_org r = fd_org f"
    using g(1) assms(2) unfolding sourced_def by fastforce
  obtain b y where b: "filter (\<lambda>b. eb_finding b = fd_id f) (bundles db') = [b]" "eb_status b = ''complete''"
      "y \<in> set (executions db')" "fd_execution f = Some (ix_id y)"
      "take 5 (map bi_item (items_of db' (eb_id b))) = mandatory_items y"
    using g(2) unfolding bundled_def by blast
  have "unique_on ix_id (executions db')"
    using ok by (simp add: intelligence_ok_def intelligence_wf_def intelligence_constraints_def execution_tables_ok_def)
  from unique_on_eq [OF this x(1) b(3)] x(3) b(4) have "y = x" by simp
  with x b show ?thesis by blast
qed

definition demo_evaluation :: execution where
  "demo_evaluation =
     \<lparr>ix_id = 20, ix_org = 7, ix_dataset = 1, ix_version = None, ix_assessment = 2, ix_readiness = 3,
      ix_type = EXECUTE_CALCULATION, ix_code = ''record_count'', ix_definition_version = ''1.0'',
      ix_definition_digest = ''record_count'', ix_input_digest = ''inputs'', ix_status = EXECUTION_COMPLETED,
      ix_key = Some ''k'', ix_result = Some 2, ix_comparison = None, ix_threshold = None, ix_unit = None,
      ix_currency = None, ix_breached = None, ix_checked = 2, ix_excluded = 0, ix_affected = 0, ix_exposure = None,
      ix_exposure_currency = None, ix_blocking = [], ix_warnings = [], ix_reason = None, ix_period_start = None,
      ix_period_end = None, ix_evaluated_at = 10, ix_created_by = 1, ix_completed_at = Some 10\<rparr>"

abbreviation demo_executed_db :: intelligence_db where
  "demo_executed_db \<equiv> demo_ready_db\<lparr>executions := [demo_evaluation]\<rparr>"

lemma demo_definitions:
  "calculation_get ''record_count'' ''1.0'' = Some (calculation ''record_count'' CALC_COUNT [] None False)"
  "snake_code ''record_count''" "version_scan True ''1.0''"
    apply code_simp
   apply (simp add: snake_code_def is_alpha_def is_upper_def is_lower_alnum_def)
  apply (simp add: is_digit_def)
  done

lemma demo_evaluation_simps [simp]:
  "ix_id demo_evaluation = 20" "ix_org demo_evaluation = 7" "ix_dataset demo_evaluation = 1" "ix_version demo_evaluation = None"
  "ix_assessment demo_evaluation = 2" "ix_readiness demo_evaluation = 3" "ix_type demo_evaluation = EXECUTE_CALCULATION"
  "ix_code demo_evaluation = ''record_count''" "ix_definition_version demo_evaluation = ''1.0''"
  "ix_status demo_evaluation = EXECUTION_COMPLETED" "ix_result demo_evaluation = Some 2" "ix_unit demo_evaluation = None"
  "ix_currency demo_evaluation = None" "ix_exposure demo_evaluation = None" "ix_exposure_currency demo_evaluation = None"
  "ix_key demo_evaluation = Some ''k''" "ix_checked demo_evaluation = 2" "ix_affected demo_evaluation = 0"
  "ix_excluded demo_evaluation = 0"
  by (simp_all add: demo_evaluation_def)

lemma demo_executed_same [simp]: "demo_executed_db\<lparr>execution_evidence := []\<rparr> = demo_executed_db"
  by (simp add: demo_intelligence_db_def)

lemma demo_constraints: "intelligence_constraints demo_executed_db"
  by (simp add: intelligence_constraints_def execution_tables_ok_def findings_ok_def finding_tables_ok_def unique_on_def
      unique_on_some_def execution_counts_ok_def refers_def)

lemma demo_executes:
  "intelligence_step demo_findings_env (7, Execute (demo_execution_payload ''record_count'' []) 20 1 10) demo_ready_db =
     Inr (demo_executed_db, ExecutionOut demo_evaluation)"
proof -
  have "execution_payload_ok (demo_execution_payload ''record_count'' [])"
    by (simp add: execution_payload_ok_def demo_execution_payload_def definition_code_ok_def demo_definitions
        is_digit_def sized_if_def sized_def currency_ok_def ordered_if_def)
  moreover have "evaluated demo_findings_env (CalculationFound (calculation ''record_count'' CALC_COUNT [] None False))
      (demo_execution_payload ''record_count'' [])
      (begun demo_findings_env 7 (demo_execution_payload ''record_count'' [])
         \<lparr>ta_id = 2, ta_org = 7, ta_dataset = 1, ta_status = TRUST_COMPLETED, ta_completed = Some 5\<rparr>
         (demo_readiness READY []) (CalculationFound (calculation ''record_count'' CALC_COUNT [] None False)) 20 1 10) =
      Inr demo_evaluation"
    by (simp add: evaluated_def evaluate_definition_def measurement_policy_def arithmetic_execute_def calculation_def
        missing_parameters_def begun_def demo_execution_payload_def demo_findings_env_def definition_digest_def
        or_text_def truthy_text_def definition_unit_def demo_readiness_def demo_evaluation_def)
  ultimately show ?thesis
    by (simp add: execute_def execution_for_key_def readiness_for_def definition_for_def demo_definitions perform_def
        usable_assessment_def arithmetic_readiness_def is_ready_def commit_intelligence_def demo_constraints)
qed

lemma demo_candidate_simps [simp]:
  "cp_execution (demo_candidate m es) = 20" "cp_result (demo_candidate m es) = 20"
  "cp_measured (demo_candidate m es) = m" "cp_measured_unit (demo_candidate m es) = None"
  "cp_measured_currency (demo_candidate m es) = None" "cp_exposure (demo_candidate m es) = None"
  "cp_exposure_currency (demo_candidate m es) = None" "cp_evidence (demo_candidate m es) = es"
  "cp_calculation_traces (demo_candidate m es) = [\<lparr>kq_engine = ''1.0'', kq_operation = ''count'', kq_summary = JNull\<rparr>]"
  "cp_rule_traces (demo_candidate m es) = []" "cp_confidence_score (demo_candidate m es) = None"
  "cp_affected (demo_candidate m es) = 0"
  by (simp_all add: demo_candidate_def)

lemma demo_candidate_ok: "candidate_ok (demo_candidate m es) \<longleftrightarrow> length es \<le> 200 \<and> list_all item_payload_ok es"
  by (auto simp: candidate_ok_def demo_candidate_def sized_def at_most_def ordered_if_def currency_ok_def exposure_ok_def)

abbreviation demo_key :: string where
  "demo_key \<equiv> decimal_key (Dec 2 0)"

abbreviation demo_published_db :: intelligence_db where
  "demo_published_db \<equiv>
     publish_rows demo_findings_env 7 demo_evaluation (demo_candidate (Dec 2 0) []) demo_key 30 31 1 11 demo_executed_db"

lemma demo_published_constraints: "intelligence_constraints demo_published_db"
  by (simp add: publish_rows_def intelligence_constraints_def execution_tables_ok_def findings_ok_def finding_tables_ok_def unique_on_def
      unique_on_some_def execution_counts_ok_def refers_def new_finding_def null_or_def numbered_rows_def
      mandatory_items_def mandatory_item_def bundle_item_of_def evidence_entry_ok_def calculation_trace_of_def)

lemma demo_publishes:
  "intelligence_step demo_findings_env (7, PublishCandidate (demo_candidate (Dec 2 0) []) 30 31 1 11) demo_executed_db =
     Inr (demo_published_db,
       FindingOut (new_finding demo_findings_env 7 demo_evaluation (demo_candidate (Dec 2 0) []) demo_key 30 1 11))"
  using demo_published_constraints
  by (simp add: demo_candidate_ok publish_candidate_def organization_active_def eligible_execution_def
      publish_execution_def definition_active_def demo_definitions calculation_def execution_contract_def
      usable_assessment_def is_ready_def measurement_matches_def finding_key_def sorted_references_def
      affected_references_def)

lemma demo_run: "run_ops (intelligence_step demo_findings_env) demo_finding_calls demo_ready_db = demo_published_db"
  unfolding demo_finding_calls_def run_ops.simps attempt_def demo_executes prod.case sum.case demo_publishes ..

theorem governed_finding_provenance_witness:
  "\<exists>f \<in> set (findings demo_published_db). \<exists>x \<in> set (executions demo_published_db).
     fd_execution f = Some (ix_id x) \<and> fd_measured f = ix_result x \<and> ix_status x = EXECUTION_COMPLETED"
proof -
  let ?f = "new_finding demo_findings_env 7 demo_evaluation (demo_candidate (Dec 2 0) []) demo_key 30 1 11"
  have f: "?f \<in> set (findings demo_published_db)" "fd_code ?f \<noteq> None"
    by (simp_all add: publish_rows_def new_finding_def)
  from governed_finding_provenance [OF demo_ready_ok _ demo_run [symmetric] f]
  have "\<exists>x \<in> set (executions demo_published_db). fd_execution ?f = Some (ix_id x) \<and>
      fd_measured ?f = map_option (ie_numeric demo_findings_env 12) (ix_result x) \<and> ix_status x = EXECUTION_COMPLETED"
    by (simp only: demo_env_simps) blast
  moreover have "map_option (ie_numeric demo_findings_env 12) v = v" for v by (cases v) simp_all
  ultimately show ?thesis using f(1) by (intro bexI [of _ ?f]) (simp_all only: )
qed



text \<open>What a finding reports, and the statuses that close it.\<close>

definition reported :: "finding \<Rightarrow> finding_text \<times> rat option \<times> rat option \<times> int option \<times> uuid option \<times> string option" where
  "reported f = (fd_text f, fd_measured f, fd_exposure f, fd_affected f, fd_execution f, fd_key f)"

definition closed_statuses :: "finding_status set" where
  "closed_statuses = {FND_DISMISSED, FND_SUPERSEDED, FND_RESOLVED, FND_ARCHIVED}"

lemma finding_change_reported: "finding_change f g \<Longrightarrow> reported g = reported f"
  unfolding finding_change_def reported_def
  by (elim disjE conjE exE) (simp_all add: moved_def status_stamped_def Let_def annotated_def split: finding_status.splits)

lemma finding_change_closed:
  "finding_change f g \<Longrightarrow> fd_status f \<in> closed_statuses \<Longrightarrow> fd_status g \<in> closed_statuses"
  by (auto simp: finding_change_def closed_statuses_def finding_transitions_def)

text \<open>A finding that was dismissed, superseded, resolved or archived stays closed, whatever
  reviews and transitions are requested later, and what it reports never changes.\<close>

theorem closed_finding_final:
  assumes "intelligence_ok env db" "finding_at db i = Some f" "fd_status f \<in> closed_statuses"
  shows "\<exists>g. finding_at (run_ops (intelligence_step env) calls db) i = Some g \<and>
    fd_status g \<in> closed_statuses \<and> reported g = reported f"
proof -
  have "\<exists>g. finding_at (run_ops (intelligence_step env) calls db) i = Some g \<and>
      (fd_status g \<in> closed_statuses \<and> reported g = reported f)"
    by (rule finding_stays [where P = "\<lambda>g. fd_status g \<in> closed_statuses \<and> reported g = reported f",
          OF _ assms(1,2)]) (auto simp: assms(3) finding_change_closed finding_change_reported)
  then show ?thesis .
qed



section \<open>Two findings for one measurement\<close>

lemma unparse_decimal_keys: "decimal_key (Dec 20 (-1)) \<noteq> decimal_key (Dec 2 0)"
  by code_simp

abbreviation demo_both_db :: intelligence_db where
  "demo_both_db \<equiv>
     publish_rows demo_findings_env 7 demo_evaluation (demo_candidate (Dec 20 (-1)) []) (decimal_key (Dec 20 (-1)))
       40 41 1 12 demo_published_db"

lemma demo_both_constraints: "intelligence_constraints demo_both_db"
  by (simp add: publish_rows_def intelligence_constraints_def execution_tables_ok_def findings_ok_def finding_tables_ok_def unique_on_def
      unique_on_some_def execution_counts_ok_def refers_def new_finding_def null_or_def numbered_rows_def
      mandatory_items_def mandatory_item_def bundle_item_of_def evidence_entry_ok_def calculation_trace_of_def
      unparse_decimal_keys [symmetric])

lemma demo_rescaled_value: "dec_value (Dec 20 (-1)) = 2"
  by (simp add: power_int_minus)

lemma demo_publishes_again:
  "intelligence_step demo_findings_env (7, PublishCandidate (demo_candidate (Dec 20 (-1)) []) 40 41 1 12) demo_published_db =
     Inr (demo_both_db, FindingOut (new_finding demo_findings_env 7 demo_evaluation (demo_candidate (Dec 20 (-1)) [])
       (decimal_key (Dec 20 (-1))) 40 1 12))"
proof -
  have "fd_key (new_finding demo_findings_env 7 demo_evaluation (demo_candidate (Dec 2 0) []) demo_key 30 1 11) = Some demo_key"
    by (simp add: new_finding_def)
  then show ?thesis
    using demo_both_constraints unparse_decimal_keys
    by (simp add: demo_candidate_ok publish_candidate_def organization_active_def eligible_execution_def
        publish_execution_def definition_active_def demo_definitions calculation_def execution_contract_def
        usable_assessment_def is_ready_def measurement_matches_def finding_key_def sorted_references_def
        affected_references_def demo_rescaled_value publish_rows_def [of _ _ _ _ _ 30])
qed

section \<open>Deduplication\<close>

lemma finding_at_member:
  assumes "intelligence_ok env db" "f \<in> set (findings db)"
  shows "finding_at db (fd_id f) = Some f"
proof -
  have u: "unique_on fd_id (findings db)"
    using assms(1) by (simp add: intelligence_ok_def intelligence_wf_def intelligence_inv_def finding_rows_ok_def)
  obtain g where g: "finding_at db (fd_id f) = Some g"
    using assms(2) find_NoneD [of "\<lambda>g. fd_id g = fd_id f" "findings db" f] unfolding finding_at_def
    by (cases "find (\<lambda>g. fd_id g = fd_id f) (findings db)") auto
  then have "g \<in> set (findings db)" "fd_id g = fd_id f" unfolding finding_at_def by (auto dest: find_SomeD)
  with unique_on_eq [OF u _ assms(2)] g show ?thesis by simp
qed

lemma finding_key_unique:
  assumes "intelligence_ok env db" "f \<in> set (findings db)" "g \<in> set (findings db)"
    and "fd_key f = Some k" "fd_key g = Some k" "fd_org f = fd_org g"
  shows "f = g"
proof -
  have "unique_on_some (\<lambda>f. map_option (Pair (fd_org f)) (fd_key f)) (findings db)"
    using assms(1)
    by (simp add: intelligence_ok_def intelligence_wf_def intelligence_constraints_def findings_ok_def)
  from unique_on_some_eq [OF this assms(2,3)] assms(4-6) show ?thesis by simp
qed

lemma finding_keeps_key:
  assumes "intelligence_ok env db" "finding_at db i = Some f"
  obtains g where "finding_at (run_ops (intelligence_step env) calls db) i = Some g"
    "g \<in> set (findings (run_ops (intelligence_step env) calls db))" "fd_id g = i" "fd_org g = fd_org f" "fd_key g = fd_key f"
proof -
  have "\<exists>g. finding_at (run_ops (intelligence_step env) calls db) i = Some g \<and> (fd_org g = fd_org f \<and> fd_key g = fd_key f)"
  proof (rule finding_stays [where P = "\<lambda>g. fd_org g = fd_org f \<and> fd_key g = fd_key f", OF _ assms])
    fix h h' assume "fd_org h = fd_org f \<and> fd_key h = fd_key f" "finding_change h h'"
    then show "fd_org h' = fd_org f \<and> fd_key h' = fd_key f"
      using finding_change_reported [of h h'] finding_change_keeps [of h h'] by (simp add: reported_def)
  qed simp
  then obtain g where g: "finding_at (run_ops (intelligence_step env) calls db) i = Some g"
      "fd_org g = fd_org f" "fd_key g = fd_key f" by blast
  from find_SomeD [OF g(1) [unfolded finding_at_def]] show thesis by (intro that [OF g(1)]) (simp_all add: g)
qed

lemma publish_candidateD:
  assumes "intelligence_step env (org, PublishCandidate p i b actor now) db = Inr (db', FindingOut f)"
  obtains x key where "eligible_execution db org (cp_execution p) = Inr x" "finding_key env org x p = Inr key"
    "f \<in> set (findings db')" "fd_org f = org" "fd_key f = Some key"
    "(\<exists>g \<in> set (findings db). fd_org g = org \<and> fd_key g = Some key) \<longrightarrow> db' = db"
proof -
  obtain x where x: "eligible_execution db org (cp_execution p) = Inr x"
      "publish_execution env org x p i b actor now db = Inr (db', f)"
    using assms by (auto simp: publish_candidate_def split: prod.splits)
  from publish_executionD(4) [OF x(2)] show thesis
  proof (elim disjE exE conjE)
    fix key assume k: "finding_key env org x p = Inr key"
      "find (\<lambda>f. fd_org f = org \<and> fd_key f = Some key) (findings db) = Some f" "db' = db"
    from find_SomeD [OF k(2)] show thesis by (intro that [OF x(1) k(1)]) (simp_all add: k(3))
  next
    fix key assume k: "finding_key env org x p = Inr key"
      "find (\<lambda>f. fd_org f = org \<and> fd_key f = Some key) (findings db) = None"
      "db' = publish_rows env org x p key i b actor now db" "f = new_finding env org x p key i actor now"
    from find_NoneD [OF k(2)] show thesis
      by (intro that [OF x(1) k(1)]) (auto simp: k(3,4) publish_rows_def new_finding_def)
  qed
qed

lemma eligible_execution_later:
  assumes "eligible_execution db org i = Inr x" "executions db' = executions db @ xs"
  shows "eligible_execution db' org i = Inr x"
proof -
  have "find (\<lambda>x. ix_id x = i \<and> ix_org x = org) (executions db) = Some x"
    using assms(1) by (auto simp: eligible_execution_def)
  then have "find (\<lambda>x. ix_id x = i \<and> ix_org x = org) (executions db') = Some x"
    by (simp add: assms(2) find_append)
  with assms(1) show ?thesis by (auto simp: eligible_execution_def)
qed

text \<open>The digest of the deduplication key tells measurements apart.\<close>

definition measurement_keyed :: "'x findings_env_scheme \<Rightarrow> bool" where
  "measurement_keyed env \<longleftrightarrow> (\<forall>k m. fe_key env (k\<lparr>fk_measured := m\<rparr>) = fe_key env k \<longrightarrow> m = fk_measured k)"

lemma finding_key_measured:
  assumes "finding_key env org x p = Inr k" "finding_key env org x (p\<lparr>cp_measured := m\<rparr>) = Inr k'" "measurement_keyed env"
  shows "k' = k \<longleftrightarrow> m = cp_measured p"
proof -
  have "affected_references (p\<lparr>cp_measured := m\<rparr>) = affected_references p" by (simp add: affected_references_def)
  with assms(1,2) obtain i where i: "k = fe_key env i" "k' = fe_key env (i\<lparr>fk_measured := m\<rparr>)" "fk_measured i = cp_measured p"
    by (auto simp: finding_key_def)
  have "m = fk_measured i \<Longrightarrow> i\<lparr>fk_measured := m\<rparr> = i" by simp
  with i assms(3) show ?thesis unfolding measurement_keyed_def by metis
qed


section \<open>Transitions keep the constraints\<close>

lemma unique_on_some_map:
  assumes "map k xs = map k ys"
  shows "unique_on_some k xs \<longleftrightarrow> unique_on_some k ys"
proof -
  have "map k (filter (\<lambda>r. k r \<noteq> None) zs) = filter (\<lambda>v. v \<noteq> None) (map k zs)" for zs
    by (induction zs) auto
  with assms show ?thesis by (simp add: unique_on_some_def)
qed

lemma moved_findings_ok:
  assumes "findings_ok db" "f \<in> set (findings db)" "refers by (fd_id ` set (findings db))"
    and "findings db' = put_row fd_id (moved st by actor now f) (findings db)"
    and "executions db' = executions db" "assessments db' = assessments db" "readiness db' = readiness db"
    "datasets db' = datasets db"
  shows "findings_ok db'"
proof -
  let ?ok = "\<lambda>f. 0 \<le> fd_confidence_score f \<and> fd_confidence_score f \<le> 1 \<and>
       null_or ((\<le>) 0) (fd_affected f) \<and> refers (fd_superseded_by f) (fd_id ` set (findings db)) \<and>
       refers (fd_execution f) (ix_id ` set (executions db)) \<and>
       refers (fd_assessment f) (ta_id ` set (assessments db)) \<and>
       refers (fd_readiness f) (rr_id ` set (readiness db)) \<and>
       refers (fd_dataset f) (d_id ` set (datasets db))"
  have ids: "fd_id ` set (findings db') = fd_id ` set (findings db)" unfolding assms(4) by (rule put_row_keys)
  have ok: "unique_on fd_id (findings db)" "unique_on_some (\<lambda>f. map_option (Pair (fd_org f)) (fd_key f)) (findings db)"
    "list_all ?ok (findings db)"
    using assms(1) unfolding findings_ok_def by - (elim conjE, assumption)+
  have "map (\<lambda>f. map_option (Pair (fd_org f)) (fd_key f)) (findings db') =
      map (\<lambda>f. map_option (Pair (fd_org f)) (fd_key f)) (findings db)"
    unfolding assms(4) by (rule map_put_row [OF ok(1) assms(2)]) simp_all
  from unique_on_some_map [OF this] ok(2)
  have keys: "unique_on_some (\<lambda>f. map_option (Pair (fd_org f)) (fd_key f)) (findings db')" by simp
  have "?ok f" by (rule bspec [OF ok(3) [unfolded list_all_iff] assms(2)])
  with assms(3) have "?ok (moved st by actor now f)" by (simp add: moved_superseded)
  with ok(3) have "list_all ?ok (findings db')" unfolding assms(4) by (rule list_all_put_row)
  moreover have "unique_on fd_id (findings db')" using ok(1) by (simp add: assms(4))
  ultimately show ?thesis using keys unfolding findings_ok_def assms(5-8) ids by (intro conjI)
qed

lemma moved_constraints:
  assumes "intelligence_constraints db" "f \<in> set (findings db)" "refers by (fd_id ` set (findings db))"
    and "sh_finding s = fd_id f"
  shows "intelligence_constraints (db\<lparr>findings := put_row fd_id (moved st by actor now f) (findings db),
           status_changes := status_changes db @ [s]\<rparr>)" (is "intelligence_constraints ?db")
proof -
  have ok: "execution_tables_ok db" "findings_ok db" "finding_tables_ok db" using assms(1) by (simp_all add: intelligence_constraints_def)
  have "findings_ok ?db" by (rule moved_findings_ok [OF ok(2) assms(2,3)]) simp_all
  moreover have "execution_tables_ok ?db" using ok(1) unfolding execution_tables_ok_def by simp
  moreover have "fd_id ` set (findings ?db) = fd_id ` set (findings db)" by (simp add: put_row_keys)
  then have "finding_tables_ok ?db" using ok(3) assms(2,4) unfolding finding_tables_ok_def by simp
  ultimately show ?thesis by (simp add: intelligence_constraints_def)
qed

text \<open>A transition along the table, with a replacement where one is asked for, is carried out.\<close>

lemma finding_transition_succeeds:
  assumes "intelligence_constraints db" "finding_get db org i = Inr f" "s \<in> set (finding_transitions (fd_status f))"
    and "s = FND_SUPERSEDED \<Longrightarrow> replacement_found db org f (lc_superseding c) = Inr ()"
    and "s \<noteq> FND_SUPERSEDED \<Longrightarrow> lc_superseding c = None"
  shows "\<exists>db' h. finding_transition org i s c actor now db = Inr (db', FindingOut (moved s (lc_superseding c) actor now f)) \<and>
    findings db' = put_row fd_id (moved s (lc_superseding c) actor now f) (findings db) \<and>
    status_changes db' = status_changes db @ [h] \<and> intelligence_constraints db'"
proof -
  let ?h = "\<lparr>sh_org = org, sh_finding = fd_id f, sh_previous = fd_status f, sh_new = s,
               sh_reason = lc_reason c, sh_by = actor, sh_at = now, sh_superseding = lc_superseding c\<rparr>"
  let ?db = "db\<lparr>findings := put_row fd_id (moved s (lc_superseding c) actor now f) (findings db),
                status_changes := status_changes db @ [?h]\<rparr>"
  have "refers (lc_superseding c) (fd_id ` set (findings db))"
  proof (cases "s = FND_SUPERSEDED")
    case True
    then show ?thesis
      using assms(4) by (auto simp: replacement_found_def refers_def dest!: finding_getD split: option.splits)
  qed (use assms(5) in \<open>simp add: refers_def\<close>)
  then have "intelligence_constraints ?db"
    using finding_getD [OF assms(2)] by (intro moved_constraints [OF assms(1)]) simp_all
  moreover have "finding_transition org i s c actor now db =
      commit_intelligence ?db (FindingOut (moved s (lc_superseding c) actor now f))"
    using assms(2-4) by (simp add: finding_transition_def Let_def)
  ultimately show ?thesis by (simp add: commit_intelligence_def)
qed

lemma finding_get_put:
  assumes "unique_on fd_id (findings db)" "finding_get db org i = Inr f" "findings db' = put_row fd_id g (findings db)"
    and "fd_id g = fd_id f" "fd_org g = fd_org f" "fd_code g = fd_code f"
  shows "finding_get db' org i = Inr g" "j \<noteq> i \<Longrightarrow> finding_get db' org j = finding_get db org j"
proof -
  have f: "f \<in> set (findings db)" "fd_id f = i" "fd_org f = org" "fd_code f \<noteq> None" using finding_getD [OF assms(2)] by auto
  have "find (\<lambda>x. fd_id x = i \<and> fd_org x = org \<and> fd_code x \<noteq> None) (put_row fd_id g rs) = Some g"
    if "f \<in> set rs" "unique_on fd_id rs" for rs
    using that
  proof (induction rs)
    case (Cons x rs)
    then show ?case using f assms(4-6) by (auto simp: put_row_def unique_on_def)
  qed simp
  with f assms(1) show "finding_get db' org i = Inr g" by (simp add: finding_get_def assms(3))
  have "find (\<lambda>x. fd_id x = j \<and> P x) (put_row fd_id g rs) = find (\<lambda>x. fd_id x = j \<and> P x) rs" if "j \<noteq> i" for rs P
    using that f(2) assms(4) by (induction rs) (auto simp: put_row_def)
  then show "j \<noteq> i \<Longrightarrow> finding_get db' org j = finding_get db org j" by (simp add: finding_get_def assms(3))
qed

text \<open>The second transition of a review that starts from a published finding does not fail.\<close>

lemma review_second_step:
  assumes "intelligence_constraints db" "finding_get db org i = Inr f" "fd_status f = FND_PUBLISHED"
    and "s \<in> {FND_CONFIRMED, FND_DISMISSED}"
    and "finding_transition org i FND_UNDER_REVIEW \<lparr>lc_reason = w, lc_superseding = None\<rparr> actor now db = Inr (db1, out)"
  shows "\<exists>db2 out'. finding_transition org i s \<lparr>lc_reason = v, lc_superseding = None\<rparr> actor now db1 = Inr (db2, out')"
proof -
  let ?g = "moved FND_UNDER_REVIEW None actor now f"
  have u: "unique_on fd_id (findings db)" using assms(1) by (simp add: intelligence_constraints_def findings_ok_def)
  obtain db' h where d: "finding_transition org i FND_UNDER_REVIEW \<lparr>lc_reason = w, lc_superseding = None\<rparr> actor now db =
        Inr (db', FindingOut ?g)" "findings db' = put_row fd_id ?g (findings db)" "intelligence_constraints db'"
    using finding_transition_succeeds [OF assms(1,2), of FND_UNDER_REVIEW "\<lparr>lc_reason = w, lc_superseding = None\<rparr>" actor now]
      assms(3) by (auto simp: finding_transitions_def)
  have "finding_get db1 org i = Inr ?g" "intelligence_constraints db1"
    using finding_get_put(1) [OF u assms(2) d(2)] d assms(5) by simp_all
  from finding_transition_succeeds [OF this(2,1), of s "\<lparr>lc_reason = v, lc_superseding = None\<rparr>" actor now] assms(4)
  show ?thesis by (auto simp: finding_transitions_def)
qed

section \<open>Supersession\<close>

definition supersede_request :: "uuid \<Rightarrow> uuid \<Rightarrow> timestamp \<Rightarrow> intelligence_op" where
  "supersede_request i j now = TransitionFinding i FND_SUPERSEDED \<lparr>lc_reason = ''replaced'', lc_superseding = Some j\<rparr> 1 now"

lemma finding_get_member:
  assumes "intelligence_ok env db" "f \<in> set (findings db)" "fd_code f \<noteq> None"
  shows "finding_get db (fd_org f) (fd_id f) = Inr f"
proof -
  define P :: "finding \<Rightarrow> bool" where "P = (\<lambda>g. fd_id g = fd_id f \<and> fd_org g = fd_org f \<and> fd_code g \<noteq> None)"
  have "P f" using assms(3) by (simp add: P_def)
  then obtain g where g: "find P (findings db) = Some g"
    using find_NoneD [of P "findings db" f] assms(2) by (cases "find P (findings db)") auto
  have m: "g \<in> set (findings db)" "fd_id g = fd_id f" using find_SomeD [OF g] by (simp_all add: P_def)
  have "g = f"
    using finding_at_member [OF assms(1) m(1)] finding_at_member [OF assms(1,2)] unfolding m(2) by simp
  with g show ?thesis by (simp add: finding_get_def P_def)
qed

lemma supersede_succeeds:
  assumes "intelligence_constraints db" "finding_get db org i = Inr f" "finding_get db org j = Inr g" "i \<noteq> j"
    and "fd_status f = FND_PUBLISHED"
  shows "\<exists>db'. intelligence_step env (org, supersede_request i j now) db =
      Inr (db', FindingOut (moved FND_SUPERSEDED (Some j) 1 now f)) \<and> intelligence_constraints db' \<and>
    finding_get db' org i = Inr (moved FND_SUPERSEDED (Some j) 1 now f) \<and> finding_get db' org j = Inr g"
proof -
  let ?c = "\<lparr>lc_reason = ''replaced'', lc_superseding = Some j\<rparr>"
  have u: "unique_on fd_id (findings db)" using assms(1) by (simp add: intelligence_constraints_def findings_ok_def)
  have "replacement_found db org f (lc_superseding ?c) = Inr ()"
    using finding_getD [OF assms(2)] assms(3,4) by (simp add: replacement_found_def)
  from finding_transition_succeeds [OF assms(1,2), of FND_SUPERSEDED ?c 1 now] this assms(5)
  obtain db' h where d: "finding_transition org i FND_SUPERSEDED ?c 1 now db =
        Inr (db', FindingOut (moved FND_SUPERSEDED (Some j) 1 now f))"
      "findings db' = put_row fd_id (moved FND_SUPERSEDED (Some j) 1 now f) (findings db)" "intelligence_constraints db'"
    by (auto simp: finding_transitions_def)
  have "intelligence_step env (org, supersede_request i j now) db = Inr (db', FindingOut (moved FND_SUPERSEDED (Some j) 1 now f))"
    using d(1) by (simp add: supersede_request_def command_ok_def sized_def lifecycle_routes_def)
  with d(3) finding_get_put [OF u assms(2) d(2)] assms(3,4) show ?thesis by auto
qed

text \<open>C29: Any two published findings of an organization can supersede_request each other: both requests
  succeed, and no current finding remains, as a replacement may itself be superseded.\<close>

theorem mutual_supersession:
  assumes "intelligence_ok env db" "f \<in> set (findings db)" "g \<in> set (findings db)" "fd_org f = fd_org g"
    and "fd_id f \<noteq> fd_id g" "fd_code f \<noteq> None" "fd_code g \<noteq> None"
    and "fd_status f = FND_PUBLISHED" "fd_status g = FND_PUBLISHED"
    and "db' = run_ops (intelligence_step env)
           [(fd_org f, supersede_request (fd_id f) (fd_id g) now), (fd_org f, supersede_request (fd_id g) (fd_id f) now')] db"
  shows "\<exists>f' g'. finding_get db' (fd_org f) (fd_id f) = Inr f' \<and> finding_get db' (fd_org f) (fd_id g) = Inr g' \<and>
    fd_status f' = FND_SUPERSEDED \<and> fd_superseded_by f' = Some (fd_id g) \<and>
    fd_status g' = FND_SUPERSEDED \<and> fd_superseded_by g' = Some (fd_id f)"
proof -
  have c: "intelligence_constraints db" using assms(1) by (simp add: intelligence_ok_def intelligence_wf_def)
  have get: "finding_get db (fd_org f) (fd_id f) = Inr f" "finding_get db (fd_org f) (fd_id g) = Inr g"
    using finding_get_member [OF assms(1,2,6)] finding_get_member [OF assms(1,3,7)] assms(4) by simp_all
  obtain db1 where d1: "intelligence_step env (fd_org f, supersede_request (fd_id f) (fd_id g) now) db =
        Inr (db1, FindingOut (moved FND_SUPERSEDED (Some (fd_id g)) 1 now f))" "intelligence_constraints db1"
      "finding_get db1 (fd_org f) (fd_id f) = Inr (moved FND_SUPERSEDED (Some (fd_id g)) 1 now f)"
      "finding_get db1 (fd_org f) (fd_id g) = Inr g"
    using supersede_succeeds [OF c get assms(5,8)] by blast
  obtain db2 where d2: "intelligence_step env (fd_org f, supersede_request (fd_id g) (fd_id f) now') db1 =
        Inr (db2, FindingOut (moved FND_SUPERSEDED (Some (fd_id f)) 1 now' g))"
      "finding_get db2 (fd_org f) (fd_id g) = Inr (moved FND_SUPERSEDED (Some (fd_id f)) 1 now' g)"
      "finding_get db2 (fd_org f) (fd_id f) = Inr (moved FND_SUPERSEDED (Some (fd_id g)) 1 now f)"
    using supersede_succeeds [OF d1(2,4,3) _ assms(9)] assms(5) by metis
  have "db' = db2" by (simp only: assms(10) run_ops.simps attempt_def d1(1) d2(1) sum.case prod.case)
  with d2 show ?thesis by (simp add: moved_superseded)
qed

text \<open>The platform with both findings.\<close>

definition demo_finding :: "py_decimal \<Rightarrow> uuid \<Rightarrow> timestamp \<Rightarrow> finding" where
  "demo_finding m i now = new_finding demo_findings_env 7 demo_evaluation (demo_candidate m []) (decimal_key m) i 1 now"

lemma demo_finding_simps [simp]:
  "fd_id (demo_finding m i now) = i" "fd_org (demo_finding m i now) = 7" "fd_code (demo_finding m i now) \<noteq> None"
  "fd_status (demo_finding m i now) = FND_PUBLISHED" "fd_key (demo_finding m i now) = Some (decimal_key m)"
  by (simp_all add: demo_finding_def new_finding_def)

lemma demo_both_ok: "intelligence_ok demo_findings_env demo_both_db"
  using intelligence_step_ok [OF run_intelligence_ok [OF demo_ready_ok, of demo_finding_calls, unfolded demo_run] demo_publishes_again] .

lemma demo_both_findings: "findings demo_both_db = [demo_finding (Dec 2 0) 30 11, demo_finding (Dec 20 (-1)) 40 12]"
  by (simp add: publish_rows_def demo_finding_def)

theorem mutual_supersession_witness:
  "\<exists>f' g'. finding_get (run_ops (intelligence_step demo_findings_env) [(7, supersede_request 30 40 13), (7, supersede_request 40 30 14)] demo_both_db) 7 30 = Inr f' \<and>
     finding_get (run_ops (intelligence_step demo_findings_env) [(7, supersede_request 30 40 13), (7, supersede_request 40 30 14)] demo_both_db) 7 40 = Inr g' \<and>
     fd_superseded_by f' = Some 40 \<and> fd_superseded_by g' = Some 30"
proof -
  have m: "demo_finding (Dec 2 0) 30 11 \<in> set (findings demo_both_db)" "demo_finding (Dec 20 (-1)) 40 12 \<in> set (findings demo_both_db)"
    unfolding demo_both_findings by simp_all
  from mutual_supersession [OF demo_both_ok m _ _ _ _ _ _ refl, of 13 14, simplified demo_finding_simps]
  show ?thesis by fastforce
qed

lemma int_text_digits: "CHR ''e'' \<notin> set (int_text i)"
proof -
  have "\<not> is_digit (CHR ''e'')" by (simp add: is_digit_def)
  then have "CHR ''e'' \<notin> set (decimal n)" for n using decimal_digits [of n] by (auto simp: list_all_iff)
  then show ?thesis by (simp add: int_text_def)
qed

lemma decimal_key_inj: "decimal_key d = decimal_key d' \<Longrightarrow> d = d'"
proof (cases d; cases d')
  fix c e c' e' assume d: "d = Dec c e" "d' = Dec c' e'" "decimal_key d = decimal_key d'"
  have split: "takeWhile (\<lambda>x. x \<noteq> CHR ''e'') (s @ CHR ''e'' # b) = s"
    "dropWhile (\<lambda>x. x \<noteq> CHR ''e'') (s @ CHR ''e'' # b) = CHR ''e'' # b" if "CHR ''e'' \<notin> set s" for s b
    using that by (induction s) auto
  have eq: "int_text c @ CHR ''e'' # int_text e = int_text c' @ CHR ''e'' # int_text e'"
    using d by (simp add: decimal_key_def)
  have "int_text c = int_text c'" "int_text e = int_text e'"
    using split [OF int_text_digits, of c "int_text e"] split [OF int_text_digits, of c' "int_text e'"] unfolding eq by auto
  then have "c = c'" "e = e'" using parse_int_text by (metis option.inject py_decimal.inject)+
  with d show "d = d'" by simp
qed

lemma demo_keyed: "measurement_keyed demo_findings_env"
  by (auto simp: measurement_keyed_def dest!: decimal_key_inj)

lemma demo_executed_ok: "intelligence_ok demo_findings_env demo_executed_db"
  by (rule intelligence_step_ok [OF demo_ready_ok demo_executes])


theorem closed_finding_final_witness:
  "\<exists>g. finding_at (run_ops (intelligence_step demo_findings_env) [(7, supersede_request 30 40 14)]
      (run_ops (intelligence_step demo_findings_env) [(7, supersede_request 30 40 13)] demo_both_db)) 30 = Some g \<and>
     fd_status g \<in> closed_statuses"
proof -
  let ?db = "run_ops (intelligence_step demo_findings_env) [(7, supersede_request 30 40 13)] demo_both_db"
  have ok: "intelligence_ok demo_findings_env ?db" by (rule run_intelligence_ok [OF demo_both_ok])
  have m: "demo_finding (Dec 2 0) 30 11 \<in> set (findings demo_both_db)" "demo_finding (Dec 20 (-1)) 40 12 \<in> set (findings demo_both_db)"
    unfolding demo_both_findings by simp_all
  have c: "intelligence_constraints demo_both_db" by (rule demo_both_constraints)
  have get: "finding_get demo_both_db 7 30 = Inr (demo_finding (Dec 2 0) 30 11)"
    "finding_get demo_both_db 7 40 = Inr (demo_finding (Dec 20 (-1)) 40 12)"
    using finding_get_member [OF demo_both_ok m(1)] finding_get_member [OF demo_both_ok m(2)]
    by (simp_all only: demo_finding_simps not_False_eq_True simp_thms)
  obtain db' where d: "intelligence_step demo_findings_env (7, supersede_request 30 40 13) demo_both_db =
        Inr (db', FindingOut (moved FND_SUPERSEDED (Some 40) 1 13 (demo_finding (Dec 2 0) 30 11)))"
      "finding_get db' 7 30 = Inr (moved FND_SUPERSEDED (Some 40) 1 13 (demo_finding (Dec 2 0) 30 11))"
    using supersede_succeeds [OF c get, of demo_findings_env 13] by auto
  have db: "?db = db'" by (simp only: run_ops.simps attempt_def d(1) sum.case prod.case)
  have "finding_at db' 30 = Some (moved FND_SUPERSEDED (Some 40) 1 13 (demo_finding (Dec 2 0) 30 11))"
    using finding_at_member [OF ok [unfolded db], of "moved FND_SUPERSEDED (Some 40) 1 13 (demo_finding (Dec 2 0) 30 11)"]
      finding_getD [OF d(2)] by simp
  from closed_finding_final [OF ok [unfolded db] this, of "[(7, supersede_request 30 40 14)]"]
  show ?thesis unfolding db by (auto simp: closed_statuses_def)
qed

section \<open>Requests that cannot succeed\<close>

text \<open>A candidate with an evidence item that only names platform rows, such as a dataset, is
  accepted by the schema but never published as a new finding: the store requires a reference, a
  URI or a record, so that the request fails or finds an earlier publication.\<close>

theorem unreferenced_evidence_rejected:
  assumes "e \<in> set (cp_evidence p)" "\<not> evidence_entry_ok e"
  shows "(\<exists>err. intelligence_step env (org, PublishCandidate p i b actor now) db = Inl err) \<or>
    (\<exists>f \<in> set (findings db). intelligence_step env (org, PublishCandidate p i b actor now) db = Inr (db, FindingOut f))"
proof (cases "intelligence_step env (org, PublishCandidate p i b actor now) db")
  case (Inr r)
  obtain db' out where r: "r = (db', out)" by (cases r)
  obtain x f where x: "publish_execution env org x p i b actor now db = Inr (db', f)" "out = FindingOut f"
    using Inr r by (auto simp: publish_candidate_def split: prod.splits)
  have "\<not> intelligence_constraints (publish_rows env org x p key i b actor now db)" for key
  proof -
    let ?row = "\<lambda>e. e\<lparr>it_comparison := map_option (ie_numeric env 12) (it_comparison e)\<rparr>"
    let ?items = "numbered_rows (bundle_item_of env org b) (mandatory_items x @ cp_evidence p)"
    have "?row e \<in> set (map bi_item ?items)"
      unfolding numbered_rows_items(2) set_map using assms(1) by (intro imageI) simp
    then obtain item where "item \<in> set ?items" "bi_item item = ?row e" by auto
    moreover have "\<not> evidence_entry_ok (?row e)" using assms(2) by (simp add: evidence_entry_ok_def)
    moreover have "set ?items \<subseteq> set (bundle_items (publish_rows env org x p key i b actor now db))"
      by (simp add: publish_rows_def)
    ultimately show ?thesis
      unfolding intelligence_constraints_def finding_tables_ok_def list_all_iff by (metis subsetD)
  qed
  with publish_executionD(4) [OF x(1)] have "db' = db \<and> f \<in> set (findings db)" by (auto dest: find_SomeD)
  with Inr r x(2) show ?thesis by auto
qed simp

definition demo_item :: evidence_entry where
  "demo_item = (dataset_item ''Source dataset'' 1)\<lparr>it_reference_id := None\<rparr>"

theorem unreferenced_evidence_rejected_witness:
  "item_payload_ok demo_item \<and>
   (\<exists>err. intelligence_step demo_findings_env (7, PublishCandidate (demo_candidate (Dec 2 0) [demo_item]) 30 31 1 11)
      demo_executed_db = Inl err)"
proof
  show "item_payload_ok demo_item"
    by (simp add: item_payload_ok_def demo_item_def dataset_item_def sized_def at_most_def currency_ok_def truthy_text_def)
  have "demo_item \<in> set (cp_evidence (demo_candidate (Dec 2 0) [demo_item]))" "\<not> evidence_entry_ok demo_item"
    by (simp_all add: demo_item_def dataset_item_def evidence_entry_ok_def)
  moreover have none: "findings demo_executed_db = []" by simp
  ultimately show "\<exists>err. intelligence_step demo_findings_env (7, PublishCandidate (demo_candidate (Dec 2 0) [demo_item]) 30 31 1 11)
      demo_executed_db = Inl err"
    using unreferenced_evidence_rejected [of demo_item "demo_candidate (Dec 2 0) [demo_item]" demo_findings_env 7 30 31 1 11
        demo_executed_db] unfolding none by (simp only: list.set simp_thms bex_empty)
qed

text \<open>C33: An idempotency key returns the execution it was first used for, whatever happened since
  and whatever the new request asks to compute.\<close>

theorem reused_key_returns_first_execution:
  assumes "intelligence_ok env db"
    and "intelligence_step env (org, Execute p i actor now) db = Inr (db1, ExecutionOut x)" "xp_key p = Some k"
    and "db2 = run_ops (intelligence_step env) calls db1"
    and "execution_payload_ok q" "xp_key q = Some k" "xp_version q = None"
    and "\<exists>d \<in> set (datasets db2). d_id d = xp_dataset q \<and> d_org d = org"
  shows "intelligence_step env (org, Execute q i' actor' now') db2 = Inr (db2, ExecutionOut x)"
proof -
  have "execution_for_key db1 org (Some k) = Some x"
  proof (cases "execution_for_key db org (Some k)")
    case (Some y)
    with assms(2,3) show ?thesis by (auto simp: execute_def)
  next
    case None
    then obtain a r d where *: "perform env org p r d (begun env org p a r d i actor now) db = Inr (db1, ExecutionOut x)"
      using assms(2,3) by (auto simp: execute_def)
    have "ix_org x = org \<and> ix_key x = Some k \<and> executions db1 = executions db @ [x]"
      using * assms(3) evaluated_keeps [of env d p "begun env org p a r d i actor now"]
      by (auto simp: perform_def Let_def dest!: commit_intelligenceD split: if_splits)
    with None show ?thesis by (simp add: execution_for_key_def find_append)
  qed
  moreover obtain xs where "executions db2 = executions db1 @ xs"
    using execution_log.run_log [OF intelligence_step_ok [OF assms(1,2)], of calls] unfolding assms(4) by blast
  ultimately have key: "execution_for_key db2 org (Some k) = Some x" by (simp add: execution_for_key_def find_append)
  have "find (\<lambda>d. d_id d = xp_dataset q \<and> d_org d = org) (datasets db2) \<noteq> None"
    using assms(8) by (auto simp: find_None_iff)
  with assms(5-7) key show ?thesis by (simp add: execute_def)
qed

theorem reused_key_returns_first_execution_witness:
  "intelligence_step demo_findings_env (7, Execute (demo_execution_payload ''row_sum'' [(''field'', PyStr ''amount'')]) 21 1 12)
     demo_executed_db = Inr (demo_executed_db, ExecutionOut demo_evaluation)"
proof -
  have run: "demo_executed_db = run_ops (intelligence_step demo_findings_env) [] demo_executed_db"
    by (simp only: run_ops.simps)
  have "execution_payload_ok (demo_execution_payload ''row_sum'' [(''field'', PyStr ''amount'')])"
    by (simp add: execution_payload_ok_def demo_execution_payload_def definition_code_ok_def demo_definitions snake_code_def
        is_alpha_def is_upper_def is_lower_alnum_def is_digit_def sized_if_def sized_def currency_ok_def ordered_if_def)
  from reused_key_returns_first_execution [OF demo_ready_ok demo_executes _ run this, of "''k''"]
  show ?thesis by simp
qed

section \<open>The arithmetic engine\<close>

text \<open>A sum holds integers below ten to the 22nd exactly; from there on, the decimal context
  has no room for six places, and the evaluation ends in an error that the service does not handle.\<close>

theorem sum_capacity:
  "aggregate_records CALC_SUM [[(field, PyInt n)]] field =
     (if \<bar>n\<bar> < 10 ^ 22 then Inr \<lparr>ao_value = of_int n, ao_checked = 1, ao_excluded = 0\<rparr>
      else Inl DecimalInvalidOperation)"
proof -
  have v: "traverse decimal_value (filter (\<lambda>v. v \<noteq> PyNone) (map (\<lambda>r. dict_get r field) [[(field, PyInt n)]])) = Inr [of_int n]"
    by (simp add: dict_get_def decimal_value_def parse_int_text)
  have sum: "aggregate_values CALC_SUM [of_int n] = dctx (of_int n)"
    by (simp add: aggregate_values_def dec_sum_def dadd_def)
  have "six_places (dctx (of_int n)) = (if \<bar>n\<bar> < 10 ^ 22 then Inr (of_int n) else Inl DecimalInvalidOperation)"
  proof (cases "\<bar>n\<bar> < 10 ^ 22")
    case True
    have w: "in_millionths (of_int n)" unfolding in_millionths_def by (rule exI [of _ "n * 10 ^ 6"]) simp
    have "of_int \<bar>n\<bar> < (of_int (10 ^ 22) :: rat)" using True by (simp only: of_int_less_iff)
    then have b: "\<bar>of_int n\<bar> < (10::rat) ^ 22" by (simp only: of_int_abs of_int_power of_int_numeral)
    show ?thesis unfolding dctx_millionths [OF w b] six_places_millionths [OF w b] using True by simp
  next
    case False
    have "of_int (10 ^ 22) \<le> (of_int \<bar>n\<bar> :: rat)" using False by (simp only: of_int_le_iff not_less)
    then have b: "(10::rat) ^ 22 \<le> of_int \<bar>n\<bar>" by (simp only: of_int_power of_int_numeral)
    have e: "dctx ((10::rat) ^ 22) = 10 ^ 22"
    proof (rule dctx_exact [where k = 22])
      show "(10::rat) ^ 22 = of_int 1 * 10 powi 22" by simp
      show "\<bar>(10::rat) ^ 22\<bar> < 10 powi (22 + ctx_precision)" by (simp add: ctx_precision_def)
    qed
    have "(10::rat) ^ 22 \<le> dctx (of_int \<bar>n\<bar>)" using dctx_mono [OF b] unfolding e .
    also have "dctx (of_int \<bar>n\<bar>) = \<bar>dctx (of_int n)\<bar>"
      using dctx_nonneg [of "of_int \<bar>n\<bar>"] by (cases "0 \<le> n") (simp_all add: dctx_minus)
    finally show ?thesis using False six_places_overflow by simp
  qed
  with v sum show ?thesis by (simp add: aggregate_records_def)
qed

text \<open>C23: On values with at most six decimal places whose absolute values sum to less than ten to
  the 22nd, the engine answers every aggregate: the sum is exact, the minimum and the maximum are
  values of the records that bound them all, and the average lies between the two in spite of
  its two roundings.\<close>

theorem aggregates_exact_and_ordered:
  assumes "traverse decimal_value (filter (\<lambda>v. v \<noteq> PyNone) (map (\<lambda>r. dict_get r field) records)) = Inr vs"
    and "vs \<noteq> []" "\<forall>v \<in> set vs. in_millionths v" "sum_list (map abs vs) < 10 ^ 22"
  shows "\<exists>total least mean greatest.
    aggregate_records CALC_SUM records field = Inr total \<and> ao_value total = sum_list vs \<and>
    aggregate_records CALC_MINIMUM records field = Inr least \<and>
    aggregate_records CALC_AVERAGE records field = Inr mean \<and>
    aggregate_records CALC_MAXIMUM records field = Inr greatest \<and>
    ao_value least \<in> set vs \<and> ao_value greatest \<in> set vs \<and>
    (\<forall>v \<in> set vs. ao_value least \<le> v \<and> v \<le> ao_value greatest) \<and>
    ao_value least \<le> ao_value mean \<and> ao_value mean \<le> ao_value greatest"
proof -
  let ?a = "\<lambda>operation. aggregate_values operation vs"
  have answer: "aggregate_records operation records field =
      bindE (six_places (?a operation)) (\<lambda>x. Inr \<lparr>ao_value = x, ao_checked = int (length records),
          ao_excluded = int (length records) - int (length vs)\<rparr>)" for operation
    using assms(1,2) by (simp add: aggregate_records_def)
  have fit: "six_places v = Inr v" if "v \<in> set vs" for v
    using that assms(3,4) abs_le_sum_abs [OF that] by (intro six_places_millionths) auto
  have "in_millionths (sum_list vs)" using assms(3) by (induction vs) (auto intro: in_millionths_add)
  moreover have "\<bar>sum_list vs\<bar> < 10 ^ 22" using sum_list_abs [of vs] assms(4) by linarith
  moreover have "?a CALC_SUM = sum_list vs" using dec_sum_exact [OF assms(3,4)] by (simp add: aggregate_values_def)
  ultimately have total: "six_places (?a CALC_SUM) = Inr (sum_list vs)" by (simp add: six_places_millionths)
  note lo = fit [OF aggregate_extremes(1) [OF assms(2)]] and hi = fit [OF aggregate_extremes(2) [OF assms(2)]]
  obtain m where m: "six_places (?a CALC_AVERAGE) = Inr m" "?a CALC_MINIMUM \<le> m" "m \<le> ?a CALC_MAXIMUM"
    using six_places_between [OF lo hi average_between [OF assms(3,4,2)]] by blast
  show ?thesis
    using aggregate_extremes [OF assms(2)] m(2,3) unfolding answer total lo hi m(1) by simp
qed

theorem aggregates_exact_and_ordered_witness:
  "\<exists>mean. aggregate_records CALC_AVERAGE [[(''a'', PyInt 1)], [], [(''a'', PyInt 1)], [(''a'', PyInt 0)]] ''a'' = Inr mean \<and>
     0 \<le> ao_value mean \<and> ao_value mean \<le> 1"
proof -
  have t: "traverse decimal_value (filter (\<lambda>v. v \<noteq> PyNone)
      (map (\<lambda>r. dict_get r ''a'') [[(''a'', PyInt 1)], [], [(''a'', PyInt 1)], [(''a'', PyInt 0)]])) = Inr [1, 1, 0]"
    by (simp add: dict_get_def decimal_value_def parse_int_text)
  have "in_millionths 1" unfolding in_millionths_def by (rule exI [of _ "10 ^ 6"]) simp
  then have m: "\<forall>v \<in> set [1, 1, 0]. in_millionths v" by simp
  have n: "[1, 1, 0 :: rat] \<noteq> []" "sum_list (map abs [1, 1, 0 :: rat]) < 10 ^ 22" by simp_all
  from aggregates_exact_and_ordered [OF t n(1) m n(2)] show ?thesis
  proof (elim exE conjE)
    fix least mean greatest
    assume "aggregate_records CALC_AVERAGE [[(''a'', PyInt 1)], [], [(''a'', PyInt 1)], [(''a'', PyInt 0)]] ''a'' = Inr mean"
      "ao_value least \<in> set [1, 1, 0]" "ao_value greatest \<in> set [1, 1, 0]"
      "ao_value least \<le> ao_value mean" "ao_value mean \<le> ao_value greatest"
    then show ?thesis by (intro exI [of _ mean]) auto
  qed
qed

end
