(* ===== verification/Spec2Isabelle.thy ===== *)
theory Spec2Isabelle
  imports Source_Properties Ingestion_Properties Platform Agent_Properties Commercial_Properties Findings_Properties
begin

text \<open>
  Verification library of the Intel4Ops core platform, a FastAPI and SQLAlchemy application
  (\<open>src/app\<close>) in which organizations connect source systems, ingest data, have it evaluated by
  registered definitions, review the findings, turn them into recovery opportunities and
  actions, and book the recovered value in a ledger. This theory imports every other one.

  \<^bold>\<open>How the code is modelled.\<close> A service method opens on a database session, reads rows, may raise,
  and ends in a commit. Its model is a function from the database, a record of row lists, to an
  error or a new database with a result. A commit requires the constraints the model classes
  declare (\<open>..._ok\<close>, \<open>..._constraints\<close>); an error leaves the database as it was, except where the
  code commits first, which is written out. Each service has a type of requests (\<open>..._op\<close>) and one
  step function (\<open>..._step\<close>) that runs authorization, schema and operation in the order of the
  route; \<open>run_ops\<close> runs any sequence of requests of any users, failed ones included, and most
  properties quantify over such sequences. Fresh identifiers, the clock and idempotency digests
  are arguments. Decimals are rationals rounded to the 28 digits of the default context; integers
  are unbounded as in Python.

  \<^bold>\<open>Shared theories.\<close>
  \<^item> \<open>Platform_Prelude\<close>: errors as sums with \<open>bindE\<close>, table rows (\<open>put_row\<close>, \<open>unique_on\<close>,
    \<open>table_step\<close>), histories (\<open>replay\<close>, \<open>numbered\<close>), and the interfaces: \<open>service\<close> (an invariant kept by
    a step), \<open>tenant_service\<close> (a request of one organization leaves the view of the others),
    \<open>row_service\<close> and \<open>lifecycle_service\<close> (a row stays and only evolves as allowed),
    \<open>append_only_service\<close> (a log only grows), \<open>draining_service\<close> (a measure bounds the requests that
    make progress). Every service theory interprets the ones it implements on its own step.
  \<^item> \<open>Py_Decimal\<close> (rounding, context arithmetic, \<open>quantize\<close>, with error and monotonicity lemmas),
    \<open>Py_Text\<close> (ASCII string operations, JSON, decimal and UUID texts), \<open>Py_Time\<close> (the proleptic
    calendar of \<open>datetime\<close> in microseconds), \<open>Py_Number\<close> (the values of JSON records, and
    \<open>Decimal(text)\<close>).

  \<^bold>\<open>Components\<close>, with the code each models.
  \<^item> \<open>Identity\<close> (\<open>auth/identity.py\<close>, \<open>auth/pilot_bridge.py\<close>, the role tuples of all routes) and
    \<open>Access\<close> (\<open>services/organization_service.py\<close>, \<open>membership_service.py\<close>, \<open>invitation_service.py\<close>):
    who a request comes from, organizations, memberships, invitations. \<open>Access_Properties\<close>: changes
    need authority, the last administrator, the life of an invitation.
  \<^item> \<open>Source_Systems\<close>, \<open>Source_Properties\<close> (\<open>services/source_system_service.py\<close>): registration,
    lifecycle, connection outcomes and health.
  \<^item> \<open>Ingestion\<close>, \<open>Ingestion_Proofs\<close>, \<open>Ingestion_Properties\<close> (\<open>services/ingestion_service.py\<close>):
    batches, datasets and versions of the source systems; counters, contiguous versions,
    idempotent creation, terminal states.
  \<^item> \<open>Arithmetic_Engine\<close> (\<open>registries/calculation_registry.py\<close>, \<open>rule_registry.py\<close>,
    \<open>engines/arithmetic_engine.py\<close>, \<open>rule_engine.py\<close>): every registered definition and both evaluators.
    \<open>Intelligence\<close> (\<open>services/intelligence_service.py\<close>) evaluates a definition on records of a dataset
    that is ready and stores the execution. \<open>Findings\<close> (\<open>services/finding_platform_service.py\<close>,
    \<open>governed_finding_publisher.py\<close>) publishes an execution as a finding with evidence and moves it
    through reviews; both act on \<open>intelligence_db\<close>, which extends the ingestion tables.
    \<open>Findings_Proofs\<close>: every request is a sequence of elementary moves (\<open>intelligence_move\<close>), and the
    invariants the moves keep. \<open>Findings_Properties\<close>: provenance, history, deduplication,
    reproducibility, supersession, exact aggregates.
  \<^item> \<open>Economics_Engine\<close> (\<open>engines/economics_engine.py\<close>) and \<open>Economics\<close>, \<open>Economics_Service\<close>
    (\<open>services/economics_service.py\<close>): the value chain and score of an opportunity, and
    opportunities, scenarios, approvals and baselines. \<open>Economics_Proofs\<close>,
    \<open>Economics_Invariants\<close>, \<open>Economics_Properties\<close>, \<open>Opportunity_Properties\<close>: bounds and errors of the
    arithmetic, what an approval freezes, stored results equal the engine's.
  \<^item> \<open>Action_Engine\<close>, \<open>Actions\<close> (\<open>engines/action_engine.py\<close>, \<open>services/action_service.py\<close>), with
    \<open>Action_Proofs\<close> and \<open>Action_Properties\<close>: operational actions along their status graph, with
    approvals, dependencies, evidence and outcomes.
  \<^item> \<open>Recovery_Engine\<close>, \<open>Recovery_Ledger\<close> (\<open>engines/recovery_ledger_engine.py\<close>,
    \<open>services/recovery_ledger_service.py\<close>), with \<open>Recovery_Proofs\<close>, \<open>Recovery_Invariants\<close>,
    \<open>Recovery_Reversals\<close>, \<open>Recovery_Properties\<close>: cases, measurements, verification by a second person,
    the append-only ledger and its reversals.
  \<^item> \<open>Platform\<close>: actions, economics and ledger over one database, requests of all three interleaved;
    the chain from a ledger entry back to an approved baseline, and isolation of tenants.
  \<^item> \<open>Agent_Jobs\<close>, \<open>Agent_Proofs\<close>, \<open>Agent_Properties\<close> (\<open>services/agent_job_service.py\<close>,
    \<open>agent_routing_service.py\<close>, \<open>api/agent_job_routes.py\<close>): the job queue with leases, retries and the
    owner's decision; how often a job runs and that the queue settles.
  \<^item> \<open>Commercial_Engine\<close>, \<open>Commercial\<close>, \<open>Commercial_Proofs\<close>, \<open>Commercial_Properties\<close>
    (\<open>engines/commercial_engine.py\<close>, \<open>services/commercial_service.py\<close>, \<open>auth/commercial.py\<close>): plans,
    subscriptions, entitlements, overrides, usage and limits, and the gate of the other routes.

  \<^bold>\<open>How the proofs go.\<close> For each service one theory states what a request does to the tables as a
  relation with a rule per kind of effect, and shows that every operation has such an effect; the
  invariants are then kept rule by rule, the interfaces are interpreted, and a property is a few
  steps over their facts. Where the code does something its comments or documents rule out, the
  property states what it does do (a key of another kind, a foreign claim, two findings for one
  measurement, findings that supersede each other).

  \<^bold>\<open>Bounds.\<close> No definition needs fuel: loops of the code run over finite lists and are structural
  recursions or folds, and \<open>decimal\<close>, which writes a number out, terminates on its argument. Where a
  property bounds sizes, the bound is the one at which the code fails: ten to the 22nd for results
  with six places in 28 digits (\<open>sum_capacity\<close>), ten to the 12th for the inputs of the economics
  chain, below which none of its decimal operations can overflow.

  \<^bold>\<open>Parameters.\<close> Third-party behaviour enters as arguments of the definitions that use it: SHA-256
  and UUID5 digests, the verification of OIDC tokens, the time zone database and URL parser, what a
  \<open>NUMERIC\<close> column returns for a stored value, the row that an unordered query returns first, the
  reference the artifact store gives. What a property assumes of them (a column is idempotent, a
  pick comes from its list, a digest tells two measurements apart) is a hypothesis of it, and its
  witness gives a concrete function that has it.

  \<^bold>\<open>Not modelled.\<close>
  \<^item> The analytics over IEEE doubles and pandas frames: trust scores, statistics, forecasting,
    reliability, signatures, semantic interpretation, entity resolution, process discovery, value
    scans, operational memory. Their results are heuristic weights without a contract of their
    own, and the model has no doubles.
  \<^item> The canonical mapping, analysis case and orchestration pipelines, and causal and decision
    intelligence, which sequence those analytics; of the analysis rules, the way they publish a
    finding is modelled (\<open>governed_publish\<close>), not how they compute it.
  \<^item> Catalogs of literals (knowledge packs, industry packs, concept registries) and their storage,
    the workflow that edits them, and the knowledge graph.
  \<^item> Routes as HTTP, list queries with their paging, response schemas, read models, narratives and
    workspaces, which decide nothing about the state.
  \<^item> Language model adapters, file parsers and storage, command line tools, the local worker,
    migrations, and the simulation and ground-truth suites that test the platform.
  \<^item> In the modelled services: columns nothing decides on (ORM timestamps, free metadata, JSON copies,
    payloads of audit events), and concurrency of two transactions on the same rows: requests run
    one after the other, each in one transaction.
\<close>

end
